(* ===== verification/Prelude.thy ===== *)
theory Prelude
  imports "HOL-Library.Word" "HOL-Library.Sublist"
begin

text \<open>
  Shared vocabulary of the development: the machine integers and byte strings of the C sources,
  the environment choices an operation depends on (allocation outcomes), the bounds-checked
  memory functions and big-endian integer encodings.
\<close>

unbundle bit_operations_syntax

section \<open>Types of the C sources\<close>

type_synonym u8 = "8 word"
type_synonym u16 = "16 word"
type_synonym u32 = "32 word"
type_synonym bytes = "8 word list"

text \<open>Return codes are the \<open>int32_t\<close> values of \<open>iotc_errcode.h\<close>; callbacks may return any.\<close>

type_synonym ret = int

text \<open>The outcome of the allocations of one call: \<open>mem i\<close> says whether the i-th one succeeds.\<close>

type_synonym alloc = "nat \<Rightarrow> bool"

abbreviation UINT32_MAX :: u32 where
  "UINT32_MAX \<equiv> 0xFFFFFFFF"

section \<open>Collections of facts\<close>

named_theorems word_nat \<open>turn word comparisons and subtraction into facts on nat\<close>

declare word_le_nat_alt [word_nat] word_less_nat_alt [word_nat] unat_sub_if' [word_nat]
  unat_plus_if' [word_nat] word_unat_eq_iff [word_nat]

section \<open>Words\<close>

lemma unat_u32_lt: "unat (x :: u32) < 4294967296"
  using unsigned_less [of x] by simp

lemma unat_u16_lt: "unat (x :: u16) < 65536"
  using unsigned_less [of x] by simp

lemma unat_u8_lt: "unat (x :: u8) < 256"
  using unsigned_less [of x] by simp

lemma unat_u32_max [simp]: "unat UINT32_MAX = 4294967295"
  by simp

lemma wrap_distance_sum:
  fixes a b :: u32
  assumes "a \<noteq> b"
  shows "unat (a - b) + unat (b - a) = 4294967296"
  using assms unat_u32_lt [of a] unat_u32_lt [of b] by (auto simp: word_nat split: if_splits)

lemma wrap_distance: "UINT32_MAX - a + b + 1 = b - (a :: u32)"
proof -
  have "UINT32_MAX + 1 = (0 :: u32)" by simp
  then show ?thesis by (simp add: algebra_simps)
qed

section \<open>Words of a byte\<close>

lemma and_0xFF_u8 [simp]: "(x :: u8) AND 0xFF = x"
proof -
  have "(0xFF :: u8) = - 1" by simp
  then show ?thesis by (simp only: and.right_neutral)
qed

lemma unat_lo: "unat (of_nat n :: u8) = n mod 256"
  by (simp add: unat_of_nat take_bit_eq_mod)

lemma unat_hi:
  assumes "n < 65536"
  shows "unat (ucast (drop_bit 8 (of_nat n :: u32)) :: u8) = n div 256"
proof -
  have "unat (of_nat n :: u32) = n" using assms by (simp add: unat_of_nat take_bit_nat_eq_self)
  then have "unat (drop_bit 8 (of_nat n :: u32)) = n div 256"
    unfolding unat_drop_bit_eq by (simp add: drop_bit_eq_div)
  then show ?thesis using assms by (simp add: unsigned_ucast_eq take_bit_eq_mod)
qed

lemma nibble_take_bit: "(x :: u8) < 16 \<Longrightarrow> take_bit 4 x = x"
  by (simp add: take_bit_eq_mod word_unat_eq_iff unat_mod word_less_nat_alt)

lemma nibble_masks: "(0x0F :: u8) = mask 4" "(0xF0 :: u8) = push_bit 4 (mask 4)"
  by (simp_all add: mask_eq_exp_minus_1)

text \<open>A byte put together from two nibbles keeps both.\<close>

lemma type_byte:
  fixes f op :: u8
  assumes "f < 16" "op < 16"
  shows "drop_bit 4 ((push_bit 4 (f AND 0x0F) OR (op AND 0x0F)) AND 0xF0) = f"
    "(push_bit 4 (f AND 0x0F) OR (op AND 0x0F)) AND 0x0F = op"
proof -
  have f: "f AND mask 4 = f" and op: "op AND mask 4 = op"
    using assms nibble_take_bit by (simp_all flip: take_bit_eq_mask)
  have fb: "bit f i \<Longrightarrow> i < 4" for i using nibble_take_bit [OF assms(1)] by (metis bit_take_bit_iff)
  have ob: "bit op i \<Longrightarrow> i < 4" for i using nibble_take_bit [OF assms(2)] by (metis bit_take_bit_iff)
  show "drop_bit 4 ((push_bit 4 (f AND 0x0F) OR (op AND 0x0F)) AND 0xF0) = f"
    unfolding nibble_masks f op by (rule bit_eqI) (auto simp: bit_simps dest: fb ob)
  show "(push_bit 4 (f AND 0x0F) OR (op AND 0x0F)) AND 0x0F = op"
    unfolding nibble_masks f op by (rule bit_eqI) (auto simp: bit_simps dest: fb ob)
qed

section \<open>Lists of lists and association lists\<close>

lemma find_snoc: "find P xs = None \<Longrightarrow> P x \<Longrightarrow> find P (xs @ [x]) = Some x"
  by (induction xs) (auto split: if_splits)

lemma concat_split:
  "i < length xss \<Longrightarrow> concat xss = concat (take i xss) @ xss ! i @ concat (drop (Suc i) xss)"
  by (subst id_take_nth_drop [of i xss]) simp_all

lemma concat_update:
  "i < length xss \<Longrightarrow>
    concat (xss[i := c]) = concat (take i xss) @ c @ concat (drop (Suc i) xss)"
  by (simp add: upd_conv_take_nth_drop)

lemma distinct_concat_by_index:
  assumes "\<And>i. i < length xss \<Longrightarrow> distinct (map f (xss ! i))"
    and "\<And>i x. i < length xss \<Longrightarrow> x \<in> set (xss ! i) \<Longrightarrow> g (f x) = i"
  shows "distinct (map f (concat xss))"
  using assms
proof (induction xss rule: rev_induct)
  case (snoc xs xss)
  have old: "i < length xss \<Longrightarrow> (xss @ [xs]) ! i = xss ! i" for i
    by (simp add: nth_append)
  have "distinct (map f (concat xss))"
  proof (rule snoc.IH)
    show "distinct (map f (xss ! i))" if "i < length xss" for i
      using snoc.prems(1) [of i] that old by simp
    show "g (f x) = i" if "i < length xss" "x \<in> set (xss ! i)" for i x
      using snoc.prems(2) [of i x] that old by simp
  qed
  moreover have "distinct (map f xs)"
    using snoc.prems(1) [of "length xss"] by simp
  moreover have "f x \<noteq> f y" if "x \<in> set xs" and y: "y \<in> set (concat xss)" for x y
  proof -
    obtain i where "i < length xss" "y \<in> set (xss ! i)"
      using y by (metis UN_E in_set_conv_nth set_concat)
    then show ?thesis
      using snoc.prems(2) [of "length xss" x] snoc.prems(2) [of i y] old [of i] that(1) by auto
  qed
  ultimately show ?case by fastforce
qed simp

lemma notin_concat_index:
  assumes "\<And>j. j < length xss \<Longrightarrow> k \<notin> f ` set (xss ! j)"
  shows "k \<notin> f ` set (concat xss)"
  using assms by (auto simp: in_set_conv_nth [of _ xss]) blast

lemma map_of_concat_index:
  assumes "i < length xss"
    and "\<And>j. j < length xss \<Longrightarrow> j \<noteq> i \<Longrightarrow> k \<notin> fst ` set (xss ! j)"
  shows "map_of (concat xss) k = map_of (xss ! i) k"
proof -
  have outside: "k \<notin> fst ` set (concat ys)" if "\<And>ys'. ys' \<in> set ys \<Longrightarrow> k \<notin> fst ` set ys'" for ys :: "('a \<times> 'b) list list"
    using that by (simp add: image_UN)
  have "k \<notin> fst ` set (concat (take i xss))"
  proof (rule outside)
    fix ys assume "ys \<in> set (take i xss)"
    then obtain j where "j < i" "ys = xss ! j" by (auto simp: in_set_conv_nth)
    then show "k \<notin> fst ` set ys" using assms(1) assms(2) [of j] by simp
  qed
  moreover have "k \<notin> fst ` set (concat (drop (Suc i) xss))"
  proof (rule outside)
    fix ys assume "ys \<in> set (drop (Suc i) xss)"
    then obtain j where "j < length (drop (Suc i) xss)" "ys = drop (Suc i) xss ! j"
      by (auto simp: in_set_conv_nth)
    then show "k \<notin> fst ` set ys" using assms(2) [of "Suc i + j"] by simp
  qed
  ultimately have "map_of (concat (take i xss)) k = None" "map_of (concat (drop (Suc i) xss)) k = None"
    by (simp_all only: map_of_eq_None_iff not_False_eq_True)
  then show ?thesis
    by (simp only: concat_split [OF assms(1)] map_of_append) (simp add: map_add_def split: option.splits)
qed

lemma card_dom_map_of:
  "distinct (map fst xs) \<Longrightarrow> card (dom (map_of xs)) = length xs"
  by (metis dom_map_of_conv_image_fst length_map distinct_card list.set_map)

section \<open>Memory\<close>

text \<open>Overwrite a region of a buffer; callers stay inside the buffer.\<close>

definition overwrite :: "'a list \<Rightarrow> nat \<Rightarrow> 'a list \<Rightarrow> 'a list" where
  "overwrite buf off data = take off buf @ data @ drop (off + length data) buf"

lemma length_overwrite [simp]:
  "off + length data \<le> length buf \<Longrightarrow> length (overwrite buf off data) = length buf"
  by (simp add: overwrite_def)

lemma nth_overwrite:
  assumes "off + length data \<le> length buf" "i < length buf"
  shows "overwrite buf off data ! i =
    (if off \<le> i \<and> i < off + length data then data ! (i - off) else buf ! i)"
  using assms by (auto simp: overwrite_def nth_append min_def)

lemma slice_overwrite_same [simp]:
  assumes "off + length data \<le> length buf"
  shows "take (length data) (drop off (overwrite buf off data)) = data"
  using assms by (simp add: overwrite_def)

lemma slice_overwrite_other:
  assumes "off + length data \<le> length buf" "a + n \<le> off \<or> off + length data \<le> a" "a + n \<le> length buf"
  shows "take n (drop a (overwrite buf off data)) = take n (drop a buf)"
  using assms by (intro nth_equalityI) (auto simp: nth_overwrite)

text \<open>
  The length of a C string in memory: \<^term>\<open>None\<close> when there is no terminator inside the region.
\<close>

definition strlen :: "bytes \<Rightarrow> nat option" where
  "strlen s = (if 0 \<in> set s then Some (length (takeWhile (\<lambda>b. b \<noteq> 0) s)) else None)"

lemma strlen_append_zero [simp]:
  "0 \<notin> set s \<Longrightarrow> strlen (s @ 0 # rest) = Some (length s)"
  by (auto simp: strlen_def takeWhile_append intro!: arg_cong [where f = length] takeWhile_eq_all_conv [THEN iffD2])

section \<open>C strings\<close>

text \<open>The characters of a buffer up to its terminator.\<close>

definition cstr :: "bytes \<Rightarrow> bytes" where
  "cstr buf = takeWhile (\<lambda>c. c \<noteq> 0) buf"

end
