(* ===== verification/Seq_Num.thy ===== *)
theory Seq_Num
  imports Prelude
begin

text \<open>
  The replay window on 32-bit sequence numbers (\<open>seq_num_utils.c\<close>): a received number is
  accepted when it differs from the current one and lies at most \<open>window\<close> steps ahead or behind
  it, counting modulo \<open>2 ^ 32\<close>.  The out parameters \<open>isSmall\<close> and \<open>delta\<close> are cells that
  the functions return updated.
\<close>

section \<open>Definitions\<close>

abbreviation SEQ_NUM_WINDOW_MAX :: u32 where
  "SEQ_NUM_WINDOW_MAX \<equiv> 100"

definition SeqNumCheckWithoutOverflow ::
    "u32 \<Rightarrow> u32 \<Rightarrow> u32 \<Rightarrow> bool \<Rightarrow> u32 \<Rightarrow> bool \<times> bool \<times> u32" where
  "SeqNumCheckWithoutOverflow curSeq recvSeq window isSmall delta =
    (if recvSeq > curSeq then
       (let delta = recvSeq - curSeq in (delta \<le> window, isSmall, delta))
     else if curSeq - recvSeq \<le> window then (True, True, curSeq - recvSeq)
     else (False, isSmall, delta))"

definition SeqNumCheckWithCurSeqSmall ::
    "u32 \<Rightarrow> u32 \<Rightarrow> u32 \<Rightarrow> bool \<Rightarrow> u32 \<Rightarrow> bool \<times> bool \<times> u32" where
  "SeqNumCheckWithCurSeqSmall curSeq recvSeq window isSmall delta =
    (if recvSeq < curSeq then (True, True, curSeq - recvSeq)
     else if recvSeq - curSeq \<le> window then (True, isSmall, recvSeq - curSeq)
     else if UINT32_MAX - recvSeq + curSeq + 1 \<le> window then
       (True, True, UINT32_MAX - recvSeq + curSeq + 1)
     else (False, isSmall, delta))"

definition SeqNumCheckWithCurSeqBig ::
    "u32 \<Rightarrow> u32 \<Rightarrow> u32 \<Rightarrow> bool \<Rightarrow> u32 \<Rightarrow> bool \<times> bool \<times> u32" where
  "SeqNumCheckWithCurSeqBig curSeq recvSeq window isSmall delta =
    (if recvSeq > curSeq then (True, isSmall, recvSeq - curSeq)
     else if curSeq - recvSeq \<le> window then (True, True, curSeq - recvSeq)
     else if UINT32_MAX - curSeq + recvSeq + 1 \<le> window then
       (True, isSmall, UINT32_MAX - curSeq + recvSeq + 1)
     else (False, isSmall, delta))"

text \<open>A null out parameter is \<^term>\<open>None\<close>; otherwise the cell's content is returned updated.\<close>

definition SeqNumCheck ::
    "u32 \<Rightarrow> u32 \<Rightarrow> u32 \<Rightarrow> bool option \<Rightarrow> u32 option \<Rightarrow> bool \<times> bool option \<times> u32 option" where
  "SeqNumCheck curSeq recvSeq window isSmall delta =
    (if \<not> (isSmall \<noteq> None \<and> delta \<noteq> None \<and> window \<le> SEQ_NUM_WINDOW_MAX \<and> window \<noteq> 0) then
       (False, isSmall, delta)
     else if recvSeq = curSeq then (False, Some False, Some 0)
     else
       (let (r, s, d) =
          (if curSeq < window then SeqNumCheckWithCurSeqSmall curSeq recvSeq window False 0
           else if curSeq > UINT32_MAX - window then
             SeqNumCheckWithCurSeqBig curSeq recvSeq window False 0
           else SeqNumCheckWithoutOverflow curSeq recvSeq window False 0)
        in (r, Some s, Some d)))"

text \<open>
  \<open>CoapSeqToNum\<close> reads a big-endian number of 1 to 4 bytes; \<open>data\<close> is the array the caller
  passes with its length, \<^term>\<open>None\<close> for a null pointer.
\<close>

definition CoapSeqToNum :: "bytes option \<Rightarrow> u32" where
  "CoapSeqToNum data =
    (case data of
       Some [a] \<Rightarrow> ucast a
     | Some [a, b] \<Rightarrow> push_bit 8 (ucast a) OR ucast b
     | Some [a, b, c, d] \<Rightarrow>
         push_bit 24 (ucast a) OR push_bit 16 (ucast b) OR push_bit 8 (ucast c) OR ucast d
     | Some [a, b, c] \<Rightarrow> push_bit 16 (ucast a) OR push_bit 8 (ucast b) OR ucast c
     | _ \<Rightarrow> 0)"

section \<open>The window, independently of wrap-around\<close>

definition in_window :: "u32 \<Rightarrow> u32 \<Rightarrow> u32 \<Rightarrow> bool" where
  "in_window cur recv w = (recv \<noteq> cur \<and> (recv - cur \<le> w \<or> cur - recv \<le> w))"

lemma not_both_close:
  fixes a b w :: u32
  assumes "a \<noteq> b" "w \<le> 100" "a - b \<le> w"
  shows "\<not> b - a \<le> w"
  using wrap_distance_sum [OF assms(1)] assms(2,3) by (simp add: word_le_nat_alt)

lemma small_cur_behind:
  fixes cur recv w :: u32
  assumes "cur < w" "recv < cur"
  shows "cur - recv \<le> w"
  using assms by (simp add: word_nat)

lemma big_cur_ahead:
  fixes cur recv w :: u32
  assumes "UINT32_MAX - w < cur" "cur < recv"
  shows "recv - cur \<le> w"
  using assms unat_u32_lt [of recv] unat_u32_lt [of w] by (auto simp: word_nat split: if_splits)

lemma middle_not_behind:
  fixes cur recv w :: u32
  assumes "\<not> cur < w" "cur < recv"
  shows "\<not> cur - recv \<le> w"
  using assms unat_u32_lt [of recv] by (auto simp: word_nat split: if_splits)

lemma middle_not_ahead:
  fixes cur recv w :: u32
  assumes "\<not> UINT32_MAX - w < cur" "recv < cur"
  shows "\<not> recv - cur \<le> w"
  using assms unat_u32_lt [of cur] unat_u32_lt [of w] by (auto simp: word_nat split: if_splits)

lemmas window_simps = SeqNumCheck_def SeqNumCheckWithoutOverflow_def
  SeqNumCheckWithCurSeqSmall_def SeqNumCheckWithCurSeqBig_def in_window_def wrap_distance Let_def

text \<open>
  C25. For every window of 1 to 100, \<open>SeqNumCheck\<close> accepts exactly the numbers that differ from
  the current one and are at most \<open>window\<close> steps ahead or behind it modulo \<open>2 ^ 32\<close>; on
  acceptance \<open>isSmall\<close> tells whether it is behind and \<open>delta\<close> is the distance, also across the
  wrap-around.
\<close>

theorem SeqNumCheck_window:
  assumes "0 < window" "window \<le> SEQ_NUM_WINDOW_MAX"
  shows "\<exists>small d. SeqNumCheck cur recv window (Some s0) (Some d0) =
             (in_window cur recv window, Some small, Some d) \<and>
           (in_window cur recv window \<longrightarrow>
             small = (cur - recv \<le> window) \<and> d = (if small then cur - recv else recv - cur))"
proof (cases "recv = cur")
  case True
  then show ?thesis using assms by (auto simp: SeqNumCheck_def in_window_def)
next
  case False
  note excl = not_both_close [OF False assms(2)] not_both_close [OF not_sym [OF False] assms(2)]
  consider (small) "cur < window" | (big) "\<not> cur < window" "UINT32_MAX - window < cur"
    | (middle) "\<not> cur < window" "\<not> UINT32_MAX - window < cur" by blast
  then show ?thesis
  proof cases
    case small
    then show ?thesis using assms False excl small_cur_behind [OF small, of recv]
      by (auto simp: window_simps)
  next
    case big
    then show ?thesis using assms False excl big_cur_ahead [OF big(2), of recv]
      by (auto simp: window_simps)
  next
    case middle
    then show ?thesis
      using assms False excl middle_not_behind [OF middle(1), of recv] middle_not_ahead [OF middle(2), of recv]
      by (auto simp: window_simps)
  qed
qed

theorem SeqNumCheck_window_witness:
  "\<exists>small d. SeqNumCheck 3 0xFFFFFFFE 100 (Some False) (Some 0) =
             (in_window 3 0xFFFFFFFE 100, Some small, Some d) \<and>
           (in_window 3 0xFFFFFFFE 100 \<longrightarrow>
             small = (3 - (0xFFFFFFFE :: u32) \<le> 100) \<and>
             d = (if small then 3 - 0xFFFFFFFE else 0xFFFFFFFE - 3))"
  by (rule SeqNumCheck_window) simp_all

end
