(* ===== verification/Errcode.thy ===== *)
theory Errcode
  imports Prelude
begin

text \<open>
  The return codes of \<open>iotc_errcode.h\<close> that the modelled functions return, with the values of the
  C enumeration (\<open>ERR_CODE_BASE(m)\<close> is \<open>-(m << 16)\<close>, the following codes count upwards).
\<close>

abbreviation IOTC_SDK_AILIFE_WIFI_ERR_CLOUD_TOKEN_TIMEOUT_INVALID :: ret where
  "IOTC_SDK_AILIFE_WIFI_ERR_CLOUD_TOKEN_TIMEOUT_INVALID \<equiv> - 655353"

abbreviation IOTC_SDK_AILIFE_WIFI_ERR_CLOUD_BUILD_OPTION :: ret where
  "IOTC_SDK_AILIFE_WIFI_ERR_CLOUD_BUILD_OPTION \<equiv> - 655351"

abbreviation IOTC_SDK_AILIFE_WIFI_ERR_CLOUD_BUILD_REQ_JSON :: ret where
  "IOTC_SDK_AILIFE_WIFI_ERR_CLOUD_BUILD_REQ_JSON \<equiv> - 655350"

abbreviation IOTC_SDK_AILIFE_WIFI_ERR_CLOUD_INVALID_ACCESS_TOKEN :: ret where
  "IOTC_SDK_AILIFE_WIFI_ERR_CLOUD_INVALID_ACCESS_TOKEN \<equiv> - 655349"

abbreviation IOTC_SDK_AILIFE_WIFI_ERR_CLOUD_INVALID_REFRESH_TOKEN :: ret where
  "IOTC_SDK_AILIFE_WIFI_ERR_CLOUD_INVALID_REFRESH_TOKEN \<equiv> - 655348"

abbreviation IOTC_SDK_AILIFE_WIFI_ERR_CLOUD_INVALID_TOKEN_TIMEOUT :: ret where
  "IOTC_SDK_AILIFE_WIFI_ERR_CLOUD_INVALID_TOKEN_TIMEOUT \<equiv> - 655347"

abbreviation IOTC_SDK_AILIFE_WIFI_ERR_CLOUD_TOKEN_EXPIRE :: ret where
  "IOTC_SDK_AILIFE_WIFI_ERR_CLOUD_TOKEN_EXPIRE \<equiv> - 655346"

abbreviation IOTC_CORE_BLE_LL_ERR_ENCRYPT_TYPE :: ret where
  "IOTC_CORE_BLE_LL_ERR_ENCRYPT_TYPE \<equiv> - 393215"

abbreviation IOTC_CORE_BLE_LL_ERR_SPEKE_NULL :: ret where
  "IOTC_CORE_BLE_LL_ERR_SPEKE_NULL \<equiv> - 393214"

abbreviation IOTC_CORE_BLE_LL_ERR_BODY :: ret where
  "IOTC_CORE_BLE_LL_ERR_BODY \<equiv> - 393213"

abbreviation IOTC_CORE_BLE_LL_ERR_POOL_FULL :: ret where
  "IOTC_CORE_BLE_LL_ERR_POOL_FULL \<equiv> - 393212"

abbreviation IOTC_CORE_BLE_LL_ERR_TOKEN :: ret where
  "IOTC_CORE_BLE_LL_ERR_TOKEN \<equiv> - 393211"

abbreviation IOTC_CORE_BLE_LL_ERR_PKGNUM :: ret where
  "IOTC_CORE_BLE_LL_ERR_PKGNUM \<equiv> - 393210"

abbreviation IOTC_CORE_BLE_LL_ERR_PKGLEN :: ret where
  "IOTC_CORE_BLE_LL_ERR_PKGLEN \<equiv> - 393209"

abbreviation IOTC_CORE_BLE_LL_ERR_SVC_NOT_SUPP_ENCTYPE :: ret where
  "IOTC_CORE_BLE_LL_ERR_SVC_NOT_SUPP_ENCTYPE \<equiv> - 393207"

abbreviation IOTC_CORE_BLE_LL_ERR_DATA_SEND :: ret where
  "IOTC_CORE_BLE_LL_ERR_DATA_SEND \<equiv> - 393206"

abbreviation IOTC_CORE_BLE_LL_ERR_SVC_NUM :: ret where
  "IOTC_CORE_BLE_LL_ERR_SVC_NUM \<equiv> - 393204"

abbreviation IOTC_CORE_BLE_LL_ERR_SVC_NOT_FOUND :: ret where
  "IOTC_CORE_BLE_LL_ERR_SVC_NOT_FOUND \<equiv> - 393203"

abbreviation IOTC_CORE_BLE_LL_ERR_SVC_OPTYPE :: ret where
  "IOTC_CORE_BLE_LL_ERR_SVC_OPTYPE \<equiv> - 393202"

abbreviation IOTC_CORE_BLE_LL_ERR_CMD_DECODE :: ret where
  "IOTC_CORE_BLE_LL_ERR_CMD_DECODE \<equiv> - 393201"

abbreviation IOTC_CORE_BLE_LL_ERR_DATAMODE :: ret where
  "IOTC_CORE_BLE_LL_ERR_DATAMODE \<equiv> - 393200"

abbreviation IOTC_CORE_WIFI_TRANS_ERR_SOCKET_CONNECT :: ret where
  "IOTC_CORE_WIFI_TRANS_ERR_SOCKET_CONNECT \<equiv> - 327672"

abbreviation IOTC_CORE_WIFI_TRANS_ERR_SOCKET_INVALID :: ret where
  "IOTC_CORE_WIFI_TRANS_ERR_SOCKET_INVALID \<equiv> - 327671"

abbreviation IOTC_CORE_WIFI_TRANS_ERR_SOCKET_RECV_INVALID :: ret where
  "IOTC_CORE_WIFI_TRANS_ERR_SOCKET_RECV_INVALID \<equiv> - 327670"

abbreviation IOTC_CORE_WIFI_TRANS_ERR_LINK_HAVE_CALLBACK :: ret where
  "IOTC_CORE_WIFI_TRANS_ERR_LINK_HAVE_CALLBACK \<equiv> - 327666"

abbreviation IOTC_CORE_WIFI_TRANS_ERR_SESS_SEND_COR :: ret where
  "IOTC_CORE_WIFI_TRANS_ERR_SESS_SEND_COR \<equiv> - 327665"

abbreviation IOTC_CORE_WIFI_TRANS_ERR_COAP_ENDPOINT_REQ_LIST_FULL :: ret where
  "IOTC_CORE_WIFI_TRANS_ERR_COAP_ENDPOINT_REQ_LIST_FULL \<equiv> - 327660"

abbreviation IOTC_CORE_WIFI_TRANS_ERR_COAP_CODEC_UDP_HEADER_SHORT :: ret where
  "IOTC_CORE_WIFI_TRANS_ERR_COAP_CODEC_UDP_HEADER_SHORT \<equiv> - 327658"

abbreviation IOTC_CORE_WIFI_TRANS_ERR_COAP_CODEC_UDP_TOKEN_SHORT :: ret where
  "IOTC_CORE_WIFI_TRANS_ERR_COAP_CODEC_UDP_TOKEN_SHORT \<equiv> - 327657"

abbreviation IOTC_CORE_WIFI_TRANS_ERR_COAP_CODEC_UDP_INVALID_VER :: ret where
  "IOTC_CORE_WIFI_TRANS_ERR_COAP_CODEC_UDP_INVALID_VER \<equiv> - 327656"

abbreviation IOTC_CORE_WIFI_TRANS_ERR_COAP_CODEC_OPTION_BIG :: ret where
  "IOTC_CORE_WIFI_TRANS_ERR_COAP_CODEC_OPTION_BIG \<equiv> - 327655"

abbreviation IOTC_CORE_WIFI_TRANS_ERR_COAP_CODEC_OPTION_SHORT :: ret where
  "IOTC_CORE_WIFI_TRANS_ERR_COAP_CODEC_OPTION_SHORT \<equiv> - 327654"

abbreviation IOTC_CORE_WIFI_TRANS_ERR_COAP_CODEC_OPTION_LONG :: ret where
  "IOTC_CORE_WIFI_TRANS_ERR_COAP_CODEC_OPTION_LONG \<equiv> - 327653"

abbreviation IOTC_CORE_WIFI_TRANS_ERR_COAP_CODEC_OPTION_NUM :: ret where
  "IOTC_CORE_WIFI_TRANS_ERR_COAP_CODEC_OPTION_NUM \<equiv> - 327652"

abbreviation IOTC_CORE_WIFI_TRANS_ERR_COAP_CODEC_OPTION_INVALID :: ret where
  "IOTC_CORE_WIFI_TRANS_ERR_COAP_CODEC_OPTION_INVALID \<equiv> - 327651"

abbreviation IOTC_CORE_WIFI_TRANS_ERR_COAP_CODEC_EXT_SHORT :: ret where
  "IOTC_CORE_WIFI_TRANS_ERR_COAP_CODEC_EXT_SHORT \<equiv> - 327650"

abbreviation IOTC_CORE_WIFI_TRANS_ERR_COAP_CODEC_EXT_LONG :: ret where
  "IOTC_CORE_WIFI_TRANS_ERR_COAP_CODEC_EXT_LONG \<equiv> - 327649"

abbreviation IOTC_CORE_WIFI_TRANS_ERR_COAP_CODEC_USE_RESERVED :: ret where
  "IOTC_CORE_WIFI_TRANS_ERR_COAP_CODEC_USE_RESERVED \<equiv> - 327648"

abbreviation IOTC_CORE_WIFI_TRANS_ERR_COAP_CODEC_INVALID_BUILD :: ret where
  "IOTC_CORE_WIFI_TRANS_ERR_COAP_CODEC_INVALID_BUILD \<equiv> - 327647"

abbreviation IOTC_CORE_WIFI_TRANS_ERR_COAP_CODEC_BUILD_FUNC :: ret where
  "IOTC_CORE_WIFI_TRANS_ERR_COAP_CODEC_BUILD_FUNC \<equiv> - 327646"

abbreviation IOTC_CORE_WIFI_TRANS_ERR_COAP_CODEC_BUFFER_SHORT :: ret where
  "IOTC_CORE_WIFI_TRANS_ERR_COAP_CODEC_BUFFER_SHORT \<equiv> - 327645"

abbreviation IOTC_CORE_WIFI_TRANS_ERR_COAP_CODEC_OPTION_ORDER :: ret where
  "IOTC_CORE_WIFI_TRANS_ERR_COAP_CODEC_OPTION_ORDER \<equiv> - 327644"

abbreviation IOTC_CORE_WIFI_TRANS_ERR_COAP_CODEC_PAYLOAD_INVALID :: ret where
  "IOTC_CORE_WIFI_TRANS_ERR_COAP_CODEC_PAYLOAD_INVALID \<equiv> - 327641"

abbreviation IOTC_CORE_WIFI_TRANS_ERR_COAP_RETRANS_BUFFER_OVER_SIZE :: ret where
  "IOTC_CORE_WIFI_TRANS_ERR_COAP_RETRANS_BUFFER_OVER_SIZE \<equiv> - 327640"

abbreviation IOTC_CORE_WIFI_TRANS_ERR_COAP_RETRANS_NODE_NEW :: ret where
  "IOTC_CORE_WIFI_TRANS_ERR_COAP_RETRANS_NODE_NEW \<equiv> - 327639"

abbreviation IOTC_CORE_WIFI_TRANS_ERR_COAP_RETRANS_CHECK :: ret where
  "IOTC_CORE_WIFI_TRANS_ERR_COAP_RETRANS_CHECK \<equiv> - 327638"

abbreviation IOTC_CORE_COMM_UTILS_ERR_EX_MUTEX_CREATE :: ret where
  "IOTC_CORE_COMM_UTILS_ERR_EX_MUTEX_CREATE \<equiv> - 196608"

abbreviation IOTC_CORE_COMM_UTILS_ERR_QUEUE_FULL :: ret where
  "IOTC_CORE_COMM_UTILS_ERR_QUEUE_FULL \<equiv> - 196603"

abbreviation IOTC_CORE_COMM_UTILS_ERR_QUEUE_EMPTY :: ret where
  "IOTC_CORE_COMM_UTILS_ERR_QUEUE_EMPTY \<equiv> - 196602"

abbreviation IOTC_CORE_COMM_UTILS_ERR_QUEUE_VAL_TOO_LONG :: ret where
  "IOTC_CORE_COMM_UTILS_ERR_QUEUE_VAL_TOO_LONG \<equiv> - 196601"

abbreviation IOTC_CORE_COMM_UTILS_ERR_MSG_QUEUE_NOT_ALLOW_PUSH :: ret where
  "IOTC_CORE_COMM_UTILS_ERR_MSG_QUEUE_NOT_ALLOW_PUSH \<equiv> - 196600"

abbreviation IOTC_CORE_COMM_UTILS_ERR_MSG_QUEUE_FULL :: ret where
  "IOTC_CORE_COMM_UTILS_ERR_MSG_QUEUE_FULL \<equiv> - 196599"

abbreviation IOTC_CORE_COMM_UTILS_ERR_MSG_QUEUE_EMPTY :: ret where
  "IOTC_CORE_COMM_UTILS_ERR_MSG_QUEUE_EMPTY \<equiv> - 196598"

abbreviation IOTC_CORE_COMM_UTILS_ERR_MSG_QUEUE_PUSH :: ret where
  "IOTC_CORE_COMM_UTILS_ERR_MSG_QUEUE_PUSH \<equiv> - 196597"

abbreviation IOTC_CORE_COMM_UTILS_ERR_MSG_QUEUE_POP :: ret where
  "IOTC_CORE_COMM_UTILS_ERR_MSG_QUEUE_POP \<equiv> - 196596"

abbreviation IOTC_CORE_COMM_UTILS_ERR_BUFFER_EXPEND_OVERSIZE :: ret where
  "IOTC_CORE_COMM_UTILS_ERR_BUFFER_EXPEND_OVERSIZE \<equiv> - 196593"

abbreviation IOTC_CORE_COMM_UTILS_ERR_BUFFER_GET :: ret where
  "IOTC_CORE_COMM_UTILS_ERR_BUFFER_GET \<equiv> - 196592"

abbreviation IOTC_CORE_COMM_UTILS_ERR_HEXIFY :: ret where
  "IOTC_CORE_COMM_UTILS_ERR_HEXIFY \<equiv> - 196588"

abbreviation IOTC_CORE_COMM_UTILS_ERR_UNHEXIFY :: ret where
  "IOTC_CORE_COMM_UTILS_ERR_UNHEXIFY \<equiv> - 196587"

abbreviation IOTC_CORE_COMM_UTILS_ERR_JSON_MALLOC_PRINT :: ret where
  "IOTC_CORE_COMM_UTILS_ERR_JSON_MALLOC_PRINT \<equiv> - 196584"

abbreviation IOTC_CORE_COMM_SEC_ERR_SPEKE_GET_PINCODE :: ret where
  "IOTC_CORE_COMM_SEC_ERR_SPEKE_GET_PINCODE \<equiv> - 196561"

abbreviation IOTC_CORE_COMM_SEC_ERR_SPEKE_NEGOCTX_INIT :: ret where
  "IOTC_CORE_COMM_SEC_ERR_SPEKE_NEGOCTX_INIT \<equiv> - 196559"

abbreviation IOTC_CORE_COMM_SEC_ERR_SPEKE_RANDOM_GEN :: ret where
  "IOTC_CORE_COMM_SEC_ERR_SPEKE_RANDOM_GEN \<equiv> - 196558"

abbreviation IOTC_CORE_COMM_SEC_ERR_SPEKE_TYPE :: ret where
  "IOTC_CORE_COMM_SEC_ERR_SPEKE_TYPE \<equiv> - 196557"

abbreviation IOTC_CORE_COMM_SEC_ERR_SPEKE_MSG_TYPE :: ret where
  "IOTC_CORE_COMM_SEC_ERR_SPEKE_MSG_TYPE \<equiv> - 196556"

abbreviation IOTC_CORE_COMM_SEC_ERR_SPEKE_OPCODE :: ret where
  "IOTC_CORE_COMM_SEC_ERR_SPEKE_OPCODE \<equiv> - 196555"

abbreviation IOTC_CORE_COMM_SEC_ERR_SPEKE_VER_NOT_SUPP :: ret where
  "IOTC_CORE_COMM_SEC_ERR_SPEKE_VER_NOT_SUPP \<equiv> - 196554"

abbreviation IOTC_CORE_COMM_SEC_ERR_SPEKE_PUBKEY :: ret where
  "IOTC_CORE_COMM_SEC_ERR_SPEKE_PUBKEY \<equiv> - 196553"

abbreviation IOTC_CORE_COMM_SEC_ERR_SPEKE_NEGOCTX_NOT_INIT :: ret where
  "IOTC_CORE_COMM_SEC_ERR_SPEKE_NEGOCTX_NOT_INIT \<equiv> - 196552"

abbreviation IOTC_CORE_COMM_SEC_ERR_SPEKE_VERIFY_HMAC :: ret where
  "IOTC_CORE_COMM_SEC_ERR_SPEKE_VERIFY_HMAC \<equiv> - 196551"

abbreviation IOTC_CORE_COMM_SEC_ERR_SPEKE_CREATE :: ret where
  "IOTC_CORE_COMM_SEC_ERR_SPEKE_CREATE \<equiv> - 196550"

abbreviation IOTC_CORE_COMM_FWK_ERR_SOURCE_TIMER_MAX :: ret where
  "IOTC_CORE_COMM_FWK_ERR_SOURCE_TIMER_MAX \<equiv> - 196548"

abbreviation IOTC_CORE_COMM_FWK_ERR_SOURCE_TIMER_CREATE :: ret where
  "IOTC_CORE_COMM_FWK_ERR_SOURCE_TIMER_CREATE \<equiv> - 196547"

abbreviation IOTC_CORE_COMM_FWK_ERR_SERVICE_MESSAGE_INVALID :: ret where
  "IOTC_CORE_COMM_FWK_ERR_SERVICE_MESSAGE_INVALID \<equiv> - 196532"

abbreviation IOTC_CORE_COMM_FWK_ERR_SERVICE_INVALID :: ret where
  "IOTC_CORE_COMM_FWK_ERR_SERVICE_INVALID \<equiv> - 196531"

abbreviation IOTC_CORE_COMM_FWK_ERR_SERVICE_INSTANCE_INVALID :: ret where
  "IOTC_CORE_COMM_FWK_ERR_SERVICE_INSTANCE_INVALID \<equiv> - 196530"

abbreviation IOTC_CORE_COMM_FWK_ERR_SERVICE_SUB_MSG_SELF :: ret where
  "IOTC_CORE_COMM_FWK_ERR_SERVICE_SUB_MSG_SELF \<equiv> - 196529"

abbreviation IOTC_CORE_COMM_FWK_ERR_SERVICE_NO_API :: ret where
  "IOTC_CORE_COMM_FWK_ERR_SERVICE_NO_API \<equiv> - 196528"

abbreviation IOTC_ADAPTER_MEM_ERR_MALLOC :: ret where
  "IOTC_ADAPTER_MEM_ERR_MALLOC \<equiv> - 131072"

abbreviation IOTC_ADAPTER_MEM_ERR_CALLOC :: ret where
  "IOTC_ADAPTER_MEM_ERR_CALLOC \<equiv> - 131071"

abbreviation IOTC_ADAPTER_OS_ERR_WAIT_SEM :: ret where
  "IOTC_ADAPTER_OS_ERR_WAIT_SEM \<equiv> - 131066"

abbreviation IOTC_ADAPTER_JSON_ERR_CREATE :: ret where
  "IOTC_ADAPTER_JSON_ERR_CREATE \<equiv> - 131061"

abbreviation IOTC_ADAPTER_JSON_ERR_PARSE :: ret where
  "IOTC_ADAPTER_JSON_ERR_PARSE \<equiv> - 131059"

abbreviation IOTC_ADAPTER_JSON_ERR_PRINT :: ret where
  "IOTC_ADAPTER_JSON_ERR_PRINT \<equiv> - 131058"

abbreviation IOTC_ADAPTER_JSON_ERR_ADD :: ret where
  "IOTC_ADAPTER_JSON_ERR_ADD \<equiv> - 131057"

abbreviation IOTC_ADAPTER_CRYPTO_ERR_AES_GCM_ENC :: ret where
  "IOTC_ADAPTER_CRYPTO_ERR_AES_GCM_ENC \<equiv> - 131050"

abbreviation IOTC_ADAPTER_CRYPTO_ERR_AES_GCM_DEC :: ret where
  "IOTC_ADAPTER_CRYPTO_ERR_AES_GCM_DEC \<equiv> - 131049"

abbreviation IOTC_ADAPTER_CRYPTO_ERR_AES_CBC_SETUP :: ret where
  "IOTC_ADAPTER_CRYPTO_ERR_AES_CBC_SETUP \<equiv> - 131048"

abbreviation IOTC_ADAPTER_CRYPTO_ERR_AES_CBC_ENC :: ret where
  "IOTC_ADAPTER_CRYPTO_ERR_AES_CBC_ENC \<equiv> - 131047"

abbreviation IOTC_ADAPTER_CRYPTO_ERR_AES_CBC_DEC :: ret where
  "IOTC_ADAPTER_CRYPTO_ERR_AES_CBC_DEC \<equiv> - 131046"

abbreviation IOTC_ADAPTER_CRYPTO_ERR_HMAC_CALC :: ret where
  "IOTC_ADAPTER_CRYPTO_ERR_HMAC_CALC \<equiv> - 131038"

abbreviation IOTC_ADAPTER_CRYPTO_ERR_HKDF :: ret where
  "IOTC_ADAPTER_CRYPTO_ERR_HKDF \<equiv> - 131037"

abbreviation IOTC_ADAPTER_CRYPTO_ERR_MPI_INIT :: ret where
  "IOTC_ADAPTER_CRYPTO_ERR_MPI_INIT \<equiv> - 131035"

abbreviation IOTC_ADAPTER_CRYPTO_ERR_MPI_EXP_MOD :: ret where
  "IOTC_ADAPTER_CRYPTO_ERR_MPI_EXP_MOD \<equiv> - 131034"

abbreviation IOTC_ADAPTER_CRYPTO_ERR_MPI_READ_BINARY :: ret where
  "IOTC_ADAPTER_CRYPTO_ERR_MPI_READ_BINARY \<equiv> - 131030"

abbreviation IOTC_ADAPTER_CRYPTO_ERR_MPI_WRITE_BINARY :: ret where
  "IOTC_ADAPTER_CRYPTO_ERR_MPI_WRITE_BINARY \<equiv> - 131029"

abbreviation IOTC_ERR_PARAM_INVALID :: ret where
  "IOTC_ERR_PARAM_INVALID \<equiv> - 65536"

abbreviation IOTC_ERR_TIMEOUT :: ret where
  "IOTC_ERR_TIMEOUT \<equiv> - 65535"

abbreviation IOTC_ERR_CALLBACK_NULL :: ret where
  "IOTC_ERR_CALLBACK_NULL \<equiv> - 65531"

abbreviation IOTC_ERR_SECUREC_STRCPY :: ret where
  "IOTC_ERR_SECUREC_STRCPY \<equiv> - 65529"

abbreviation IOTC_ERR_SECUREC_MEMCPY :: ret where
  "IOTC_ERR_SECUREC_MEMCPY \<equiv> - 65527"

abbreviation (input) IOTC_ERROR :: ret where
  "IOTC_ERROR \<equiv> - 1"

abbreviation (input) IOTC_OK :: ret where
  "IOTC_OK \<equiv> 0"

end
