(* ===== verification/Contracts.thy ===== *)
theory Contracts
  imports Prelude
begin

text \<open>
  The contracts that several components implement or rely on, as locales.  Each is interpreted on
  the model's own definitions in the theory of the component that provides it.
\<close>

section \<open>State machines with an invariant\<close>

text \<open>
  A component driven by events; a run is the fold of its step function over the events, which may
  have to meet a condition on the arguments of a call.
\<close>

locale guarded_system =
  fixes step :: "'s \<Rightarrow> 'e \<Rightarrow> 's"
    and inv :: "'s \<Rightarrow> bool"
    and ok :: "'e \<Rightarrow> bool"
  assumes step_ok: "ok e \<Longrightarrow> inv s \<Longrightarrow> inv (step s e)"
begin

lemma run_ok: "list_all ok es \<Longrightarrow> inv s \<Longrightarrow> inv (foldl step s es)"
  by (induction es arbitrary: s) (simp_all add: step_ok)

end

text \<open>The events of some components need no condition.\<close>

locale step_system =
  fixes step :: "'s \<Rightarrow> 'e \<Rightarrow> 's"
    and inv :: "'s \<Rightarrow> bool"
  assumes step_inv: "inv s \<Longrightarrow> inv (step s e)"

sublocale step_system \<subseteq> unguarded: guarded_system step inv "\<lambda>_. True"
  by unfold_locales (rule step_inv)

context step_system
begin

lemma run_inv: "inv s \<Longrightarrow> inv (foldl step s es)"
  by (rule unguarded.run_ok) (simp add: list_all_iff)

lemma run_prefix_inv: "inv s \<Longrightarrow> inv (foldl step s (take n es))"
  by (rule run_inv)

end

section \<open>Keyed maps\<close>

datatype ('e, 'k, 'v) map_op = Ins 'e 'k 'v | Del 'k

fun spec_op :: "('e \<Rightarrow> bool) \<Rightarrow> ('k \<Rightarrow> bool) \<Rightarrow> ('k \<rightharpoonup> 'v) \<Rightarrow> ('e, 'k, 'v) map_op \<Rightarrow> ('k \<rightharpoonup> 'v)" where
  "spec_op ok valid f (Ins e k v) = (if ok e \<and> valid k then f(k \<mapsto> v) else f)"
| "spec_op ok valid f (Del k) = f(k := None)"

text \<open>
  A keyed map in an environment \<open>'e\<close> that may refuse an insertion (no memory): a refused or
  invalid insertion changes nothing.
\<close>

locale keyed_map =
  fixes inv :: "'m \<Rightarrow> bool"
    and valid :: "'k \<Rightarrow> bool"
    and ok :: "'e \<Rightarrow> bool"
    and lookup :: "'m \<Rightarrow> 'k \<rightharpoonup> 'v"
    and ins :: "'e \<Rightarrow> 'k \<Rightarrow> 'v \<Rightarrow> 'm \<Rightarrow> 'm"
    and del :: "'k \<Rightarrow> 'm \<Rightarrow> 'm"
    and count :: "'m \<Rightarrow> int"
  assumes ins_inv: "inv m \<Longrightarrow> inv (ins e k v m)"
    and del_inv: "inv m \<Longrightarrow> inv (del k m)"
    and lookup_ins: "inv m \<Longrightarrow> lookup (ins e k v m) = spec_op ok valid (lookup m) (Ins e k v)"
    and lookup_del: "inv m \<Longrightarrow> lookup (del k m) = (lookup m)(k := None)"
    and count_card: "inv m \<Longrightarrow> count m = int (card (dom (lookup m)))"
    and finite_dom: "inv m \<Longrightarrow> finite (dom (lookup m))"
begin

fun apply_op :: "'m \<Rightarrow> ('e, 'k, 'v) map_op \<Rightarrow> 'm" where
  "apply_op m (Ins e k v) = ins e k v m"
| "apply_op m (Del k) = del k m"

lemma apply_op_inv: "inv m \<Longrightarrow> inv (apply_op m p)"
  by (cases p) (simp_all add: ins_inv del_inv)

lemma lookup_apply_op: "inv m \<Longrightarrow> lookup (apply_op m p) = spec_op ok valid (lookup m) p"
  by (cases p) (simp_all add: lookup_ins lookup_del)

theorem run_refines:
  assumes "inv m"
  shows "inv (foldl apply_op m ops) \<and>
         lookup (foldl apply_op m ops) = foldl (spec_op ok valid) (lookup m) ops"
  using assms by (induction ops arbitrary: m) (simp_all add: apply_op_inv lookup_apply_op)

theorem run_count:
  assumes "inv m"
  shows "count (foldl apply_op m ops) = int (card (dom (foldl (spec_op ok valid) (lookup m) ops)))"
  using run_refines [OF assms] count_card by metis

end

section \<open>Bounded FIFO queues\<close>

datatype ('e, 'f, 'a) fifo_op = Enq 'e 'a | Deq 'f

text \<open>
  One client operation on a queue, recording the values accepted and the values delivered so far;
  \<open>enq\<close> and \<open>deq\<close> take a choice of the environment.
\<close>

fun fifo_step ::
    "('e \<Rightarrow> 'a \<Rightarrow> 'q \<Rightarrow> bool \<times> 'q) \<Rightarrow> ('f \<Rightarrow> 'q \<Rightarrow> 'a option \<times> 'q) \<Rightarrow>
     'q \<times> 'a list \<times> 'a list \<Rightarrow> ('e, 'f, 'a) fifo_op \<Rightarrow> 'q \<times> 'a list \<times> 'a list" where
  "fifo_step enq deq (q, accepted, delivered) (Enq e x) =
    (let (ok, q') = enq e x q in (q', accepted @ (if ok then [x] else []), delivered))"
| "fifo_step enq deq (q, accepted, delivered) (Deq f) =
    (let (out, q') = deq f q in
     (q', accepted, delivered @ (case out of None \<Rightarrow> [] | Some x \<Rightarrow> [x])))"

locale bounded_fifo =
  fixes inv :: "'q \<Rightarrow> bool"
    and contents :: "'q \<Rightarrow> 'a list"
    and capacity :: "'q \<Rightarrow> nat"
    and enq :: "'e \<Rightarrow> 'a \<Rightarrow> 'q \<Rightarrow> bool \<times> 'q"
    and deq :: "'f \<Rightarrow> 'q \<Rightarrow> 'a option \<times> 'q"
  assumes bound: "inv q \<Longrightarrow> length (contents q) \<le> capacity q"
    and enq_inv: "inv q \<Longrightarrow> inv (snd (enq e x q))"
    and enq_capacity: "inv q \<Longrightarrow> capacity (snd (enq e x q)) = capacity q"
    and enq_contents:
      "inv q \<Longrightarrow> contents (snd (enq e x q)) = contents q @ (if fst (enq e x q) then [x] else [])"
    and deq_inv: "inv q \<Longrightarrow> inv (snd (deq f q))"
    and deq_capacity: "inv q \<Longrightarrow> capacity (snd (deq f q)) = capacity q"
    and deq_contents:
      "inv q \<Longrightarrow> contents q = (case fst (deq f q) of None \<Rightarrow> [] | Some x \<Rightarrow> [x]) @ contents (snd (deq f q))"
begin

lemma step_fifo:
  assumes "inv q" "fifo_step enq deq (q, acc, del) p = (q', acc', del')" "base @ acc = del @ contents q"
  shows "inv q' \<and> capacity q' = capacity q \<and> base @ acc' = del' @ contents q'"
proof (cases p)
  case (Enq e x)
  then show ?thesis
    using assms enq_inv [OF assms(1), of e x] enq_capacity [OF assms(1), of e x] enq_contents [OF assms(1), of e x]
    by (auto split: prod.splits)
next
  case (Deq f)
  then show ?thesis
    using assms deq_inv [OF assms(1), of f] deq_capacity [OF assms(1), of f] deq_contents [OF assms(1), of f]
    by (auto split: prod.splits option.splits)
qed

lemma run_fifo_gen:
  assumes "inv q" "foldl (fifo_step enq deq) (q, acc, del) ops = (q', acc', del')"
    "base @ acc = del @ contents q"
  shows "inv q' \<and> capacity q' = capacity q \<and> base @ acc' = del' @ contents q'"
  using assms
proof (induction ops arbitrary: q acc del)
  case (Cons p ops)
  obtain q1 acc1 del1 where s: "fifo_step enq deq (q, acc, del) p = (q1, acc1, del1)"
    by (metis prod_cases3)
  note one = step_fifo [OF Cons.prems(1) s Cons.prems(3)]
  show ?case
    using Cons.IH [of q1 acc1 del1] Cons.prems(2) one by (simp add: s)
qed simp

theorem run_fifo:
  assumes "inv q" "foldl (fifo_step enq deq) (q, [], []) ops = (q', accepted, delivered)"
  shows "inv q'" "contents q @ accepted = delivered @ contents q'" "length (contents q') \<le> capacity q"
  using run_fifo_gen [OF assms, of "contents q"] bound [of q'] by auto

end

end
