(* ===== verification/Hash_Map.thy ===== *)
theory Hash_Map
  imports Errcode Contracts "HOL-Library.Multiset" "HOL-Library.AList"
begin

text \<open>
  The chained hash map of \<open>utils_hash_map.c\<close>.  A bucket's chain of \<open>HashNode\<close>s linked by \<open>next\<close>
  is a list of nodes; \<open>hashArr\<close> is the array of buckets.  Key and value pointers are options, and
  \<open>memcmp\<close> on equal lengths is equality of the key bytes.  A call returns the values it hands to
  the map's \<open>freeValue\<close> callback, in order, so that ownership of the values can be stated.
\<close>

section \<open>Data\<close>

record 'v HashNode =
  hn_key :: "bytes option"
  hn_keyLen :: nat
  hn_value :: "'v option"

datatype HashMapFreeValue = HashMapMallocFree | UserFreeValue nat

record 'v HashMap =
  hm_name :: bytes
  hm_size :: int
  hm_bucketSize :: int
  hm_freeValue :: HashMapFreeValue
  hm_hashArr :: "'v HashNode list list option"

datatype HashMapTravCode = HASH_MAP_TRAVE_CONTINUE | HASH_MAP_TRAVE_BREAK

abbreviation HASHMAP_NAME_LEN :: nat where
  "HASHMAP_NAME_LEN \<equiv> 20"

abbreviation SIZEOF_PTR :: u32 where
  "SIZEOF_PTR \<equiv> 8"

section \<open>Operations\<close>

definition HashStep :: "u32 \<Rightarrow> u8 \<Rightarrow> u32" where
  "HashStep h b =
    (let h = push_bit 4 h + ucast b; g = h AND 0xF0000000
     in if g \<noteq> 0 then (h XOR drop_bit 24 g) XOR g else h)"

definition Hash :: "bytes \<Rightarrow> u32" where
  "Hash key =
    (let begin = (if length key > 4 then length key - 4 else 0)
     in foldl HashStep 0 (drop begin key))"

definition CreateNode :: "alloc \<Rightarrow> bytes \<Rightarrow> 'v \<Rightarrow> 'v HashNode option" where
  "CreateNode mem k v =
    (if \<not> mem 0 then None
     else if \<not> mem 1 then None
     else Some \<lparr>hn_key = Some k, hn_keyLen = length k, hn_value = Some v\<rparr>)"

text \<open>The 32-bit byte count \<open>n * sizeof(HashNode *)\<close> decides how many buckets there are.\<close>

definition UtilsHashMapCreate ::
    "alloc \<Rightarrow> u32 \<Rightarrow> bytes option \<Rightarrow> HashMapFreeValue option \<Rightarrow> 'v HashMap option" where
  "UtilsHashMapCreate mem n nm freeCb =
    (case nm of
       None \<Rightarrow> None
     | Some nm' \<Rightarrow>
         if n = 0 then None
         else if \<not> mem 0 then None
         else
           (let hashArrLen = n * SIZEOF_PTR in
            if \<not> mem 1 then None
            else
              (let cpLen = (if length nm' > HASHMAP_NAME_LEN - 1 then HASHMAP_NAME_LEN - 1
                            else length nm') in
               Some \<lparr>hm_name = take cpLen nm' @ replicate (HASHMAP_NAME_LEN - cpLen) 0, hm_size = 0,
                     hm_bucketSize = sint n,
                     hm_freeValue = (case freeCb of None \<Rightarrow> HashMapMallocFree | Some f \<Rightarrow> f),
                     hm_hashArr = Some (replicate (unat hashArrLen div unat SIZEOF_PTR) [])\<rparr>)))"

definition hm_index :: "'v HashMap \<Rightarrow> bytes \<Rightarrow> nat" where
  "hm_index m k = unat (Hash k mod word_of_int (hm_bucketSize m))"

definition node_match :: "bytes \<Rightarrow> 'v HashNode \<Rightarrow> bool" where
  "node_match k t = (case hn_key t of None \<Rightarrow> False | Some tk \<Rightarrow> hn_keyLen t = length k \<and> tk = k)"

text \<open>The insertion loop: overwrite the first matching node, else append the new node.\<close>

fun insert_chain ::
    "'v HashNode \<Rightarrow> bytes \<Rightarrow> 'v HashNode list \<Rightarrow> 'v HashNode list \<times> 'v list \<times> bool" where
  "insert_chain node k [] = ([node], [], True)"
| "insert_chain node k (temp # rest) =
    (if node_match k temp then
       (temp\<lparr>hn_value := hn_value node\<rparr> # rest, (case hn_value temp of None \<Rightarrow> [] | Some v \<Rightarrow> [v]), False)
     else
       (let (rest', freed, added) = insert_chain node k rest in (temp # rest', freed, added)))"

definition UtilsHashMapInsert ::
    "alloc \<Rightarrow> 'v HashMap option \<Rightarrow> bytes option \<Rightarrow> 'v option \<Rightarrow> ret \<times> 'v HashMap option \<times> 'v list" where
  "UtilsHashMapInsert mem hashMapId k v =
    (case (hashMapId, k, v) of
       (Some m, Some k', Some v') \<Rightarrow>
         if k' = [] then (IOTC_ERROR, hashMapId, [])
         else (case hm_hashArr m of
             None \<Rightarrow> (IOTC_ERROR, hashMapId, [])
           | Some arr \<Rightarrow>
              (case CreateNode mem k' v' of
                 None \<Rightarrow> (IOTC_ERROR, hashMapId, [])
               | Some node \<Rightarrow>
                   let index = hm_index m k' in
                   if arr ! index = [] then
                     (IOTC_OK, Some (m\<lparr>hm_hashArr := Some (arr[index := [node]]), hm_size := hm_size m + 1\<rparr>), [])
                   else
                     (let (chain, freed, added) = insert_chain node k' (arr ! index) in
                      (IOTC_OK,
                       Some (m\<lparr>hm_hashArr := Some (arr[index := chain]),
                              hm_size := (if added then hm_size m + 1 else hm_size m)\<rparr>),
                       freed))))
     | _ \<Rightarrow> (IOTC_ERROR, hashMapId, []))"

fun get_chain :: "bytes \<Rightarrow> 'v HashNode list \<Rightarrow> 'v option" where
  "get_chain k [] = None"
| "get_chain k (temp # rest) = (if node_match k temp then hn_value temp else get_chain k rest)"

definition UtilsHashMapGetValue :: "'v HashMap option \<Rightarrow> bytes option \<Rightarrow> 'v option" where
  "UtilsHashMapGetValue hashMapId k =
    (case (hashMapId, k) of
       (Some m, Some k') \<Rightarrow>
         if k' = [] then None
         else (case hm_hashArr m of None \<Rightarrow> None | Some arr \<Rightarrow> get_chain k' (arr ! hm_index m k'))
     | _ \<Rightarrow> None)"

text \<open>\<^term>\<open>None\<close>: the loop would read through a null bucket array.\<close>

definition UtilsHashMapDelete :: "'v HashMap option \<Rightarrow> ('v HashMap option \<times> 'v list) option" where
  "UtilsHashMapDelete hashMapId =
    (case hashMapId of
       None \<Rightarrow> Some (None, [])
     | Some m \<Rightarrow>
         (case hm_hashArr m of
            None \<Rightarrow> None
          | Some arr \<Rightarrow>
             Some (Some (m\<lparr>hm_hashArr := Some (replicate (length arr) []), hm_size := 0\<rparr>),
                   List.map_filter hn_value (concat (take (nat (hm_bucketSize m)) arr)))))"

text \<open>The removal loop after the head: drop the first matching node.\<close>

fun remove_chain :: "bytes \<Rightarrow> 'v HashNode list \<Rightarrow> ('v HashNode list \<times> 'v list) option" where
  "remove_chain k [] = None"
| "remove_chain k (temp # rest) =
    (if node_match k temp then Some (rest, case hn_value temp of None \<Rightarrow> [] | Some v \<Rightarrow> [v])
     else (case remove_chain k rest of
         None \<Rightarrow> None
       | Some (rest', freed) \<Rightarrow> Some (temp # rest', freed)))"

definition UtilsHashMapRemove ::
    "'v HashMap option \<Rightarrow> bytes option \<Rightarrow> ret \<times> 'v HashMap option \<times> 'v list" where
  "UtilsHashMapRemove hashMapId k =
    (case (hashMapId, k) of
       (Some m, Some k') \<Rightarrow>
         if k' = [] then (IOTC_ERROR, hashMapId, [])
         else (case hm_hashArr m of
             None \<Rightarrow> (IOTC_ERROR, hashMapId, [])
           | Some arr \<Rightarrow>
              (let index = hm_index m k' in
               case arr ! index of
                 [] \<Rightarrow> (IOTC_ERROR, hashMapId, [])
               | temp # rest \<Rightarrow>
                   if hn_key temp = None then (IOTC_ERROR, hashMapId, [])
                   else
                     (case remove_chain k' (temp # rest) of
                        None \<Rightarrow> (IOTC_ERROR, hashMapId, [])
                      | Some (chain, freed) \<Rightarrow>
                         (IOTC_OK,
                          Some (m\<lparr>hm_hashArr := Some (arr[index := chain]), hm_size := hm_size m - 1\<rparr>),
                          freed))))
     | _ \<Rightarrow> (IOTC_ERROR, hashMapId, []))"

text \<open>
  Iteration with a callback that reads the values and threads its own state \<open>'s\<close>; a node with a
  null key or value is skipped.
\<close>

fun iterate_chain ::
    "('v \<Rightarrow> 's \<Rightarrow> HashMapTravCode \<times> 's) \<Rightarrow> 'v HashNode list \<Rightarrow> 's \<Rightarrow> HashMapTravCode \<times> 's" where
  "iterate_chain trave [] s = (HASH_MAP_TRAVE_CONTINUE, s)"
| "iterate_chain trave (temp # rest) s =
    (case (hn_value temp, hn_key temp) of
       (Some v, Some _) \<Rightarrow>
         (case trave v s of
            (HASH_MAP_TRAVE_CONTINUE, s') \<Rightarrow> iterate_chain trave rest s'
          | (HASH_MAP_TRAVE_BREAK, s') \<Rightarrow> (HASH_MAP_TRAVE_BREAK, s'))
     | _ \<Rightarrow> iterate_chain trave rest s)"

fun iterate_buckets ::
    "('v \<Rightarrow> 's \<Rightarrow> HashMapTravCode \<times> 's) \<Rightarrow> 'v HashNode list list \<Rightarrow> 's \<Rightarrow> HashMapTravCode \<times> 's" where
  "iterate_buckets trave [] s = (HASH_MAP_TRAVE_CONTINUE, s)"
| "iterate_buckets trave (chain # rest) s =
    (case iterate_chain trave chain s of
       (HASH_MAP_TRAVE_CONTINUE, s') \<Rightarrow> iterate_buckets trave rest s'
     | (HASH_MAP_TRAVE_BREAK, s') \<Rightarrow> (HASH_MAP_TRAVE_BREAK, s'))"

definition UtilsHashMapIterate ::
    "'v HashMap option \<Rightarrow> ('v \<Rightarrow> 's \<Rightarrow> HashMapTravCode \<times> 's) option \<Rightarrow> 's \<Rightarrow>
     (HashMapTravCode \<times> 's) option" where
  "UtilsHashMapIterate hashMapId traveFunc s =
    (case (hashMapId, traveFunc) of
       (Some m, Some trave) \<Rightarrow>
         (case hm_hashArr m of
            None \<Rightarrow> None
          | Some arr \<Rightarrow> Some (iterate_buckets trave (take (nat (hm_bucketSize m)) arr) s))
     | _ \<Rightarrow> Some (HASH_MAP_TRAVE_BREAK, s))"

definition UtilsHashMapLength :: "'v HashMap option \<Rightarrow> u32" where
  "UtilsHashMapLength hashMapId = (case hashMapId of Some m \<Rightarrow> word_of_int (hm_size m) | None \<Rightarrow> 0)"

text \<open>
  The argument is the address of the map pointer: outer \<^term>\<open>None\<close> is a null address, inner
  \<^term>\<open>None\<close> a null map.  The result is \<^term>\<open>None\<close> when the code dereferences a null map.
\<close>

definition UtilsHashMapDestroy ::
    "'v HashMap option option \<Rightarrow> ('v HashMap option option \<times> 'v list) option" where
  "UtilsHashMapDestroy hashMapIdAddr =
    (case hashMapIdAddr of
       None \<Rightarrow> Some (None, [])
     | Some hashMap \<Rightarrow>
        (case UtilsHashMapDelete hashMap of
           None \<Rightarrow> None
         | Some (None, _) \<Rightarrow> None
         | Some (Some _, freed) \<Rightarrow> Some (Some None, freed)))"

section \<open>Invariant and abstraction\<close>

definition node_ok :: "'v HashMap \<Rightarrow> nat \<Rightarrow> 'v HashNode \<Rightarrow> bool" where
  "node_ok m i t =
    (case (hn_key t, hn_value t) of
       (Some k, Some v) \<Rightarrow> k \<noteq> [] \<and> hn_keyLen t = length k \<and> hm_index m k = i
     | _ \<Rightarrow> False)"

definition hm_inv :: "'v HashMap \<Rightarrow> bool" where
  "hm_inv m =
    (case hm_hashArr m of
       None \<Rightarrow> False
     | Some arr \<Rightarrow>
         0 < hm_bucketSize m \<and> hm_bucketSize m < 2 ^ 29 \<and> length arr = nat (hm_bucketSize m) \<and>
         (\<forall>i < length arr. list_all (node_ok m i) (arr ! i) \<and> distinct (map hn_key (arr ! i))) \<and>
         hm_size m = int (length (concat arr)))"

definition node_pair :: "'v HashNode \<Rightarrow> bytes \<times> 'v" where
  "node_pair t = (the (hn_key t), the (hn_value t))"

definition hm_al :: "'v HashMap \<Rightarrow> (bytes \<times> 'v) list" where
  "hm_al m = concat (map (map node_pair) (the (hm_hashArr m)))"

text \<open>The values a map owns.\<close>

definition hm_values :: "'v HashMap \<Rightarrow> 'v list" where
  "hm_values m = map snd (hm_al m)"

section \<open>The hash\<close>

lemma hm_index_lt:
  assumes "0 < hm_bucketSize m" "hm_bucketSize m < 2 ^ 29"
  shows "hm_index m k < nat (hm_bucketSize m)"
proof -
  have u: "unat (word_of_int (hm_bucketSize m) :: u32) = nat (hm_bucketSize m)"
    using assms by (simp add: unat_eq_nat_uint uint_word_of_int_eq take_bit_int_eq_self)
  then show ?thesis using assms(1) by (simp add: hm_index_def unat_mod)
qed

section \<open>Chains\<close>

text \<open>A chain all of whose nodes are well formed, whatever bucket it is in.\<close>

definition chain_ok :: "'v HashNode list \<Rightarrow> bool" where
  "chain_ok ch = list_all (\<lambda>t. \<exists>k v. hn_key t = Some k \<and> hn_keyLen t = length k \<and> hn_value t = Some v) ch"

lemma chain_ok_simps [simp]:
  "chain_ok []"
  "chain_ok (t # ch) \<longleftrightarrow>
    (\<exists>k v. hn_key t = Some k \<and> hn_keyLen t = length k \<and> hn_value t = Some v) \<and> chain_ok ch"
  by (simp_all add: chain_ok_def)

lemma node_ok_chain_ok: "list_all (node_ok m i) ch \<Longrightarrow> chain_ok ch"
  unfolding chain_ok_def by (erule list.pred_mono_strong) (auto simp: node_ok_def split: option.splits)

lemma get_chain_map_of: "chain_ok ch \<Longrightarrow> get_chain k ch = map_of (map node_pair ch) k"
  by (induction ch) (auto simp: node_match_def node_pair_def)

definition mk_node :: "bytes \<Rightarrow> 'v \<Rightarrow> 'v HashNode" where
  "mk_node k v = \<lparr>hn_key = Some k, hn_keyLen = length k, hn_value = Some v\<rparr>"

lemma insert_chain_update:
  assumes "chain_ok ch" "insert_chain (mk_node k v) k ch = (ch', freed, added)"
  shows "map node_pair ch' = AList.update k v (map node_pair ch)"
    and "added \<longleftrightarrow> k \<notin> fst ` set (map node_pair ch)"
    and "mset freed + mset (map (\<lambda>t. snd (node_pair t)) ch') = add_mset v (mset (map (\<lambda>t. snd (node_pair t)) ch))"
    and "length ch' = (if added then Suc (length ch) else length ch)"
  using assms
  by (induction ch arbitrary: ch' freed added)
    (auto simp: node_match_def node_pair_def mk_node_def split: prod.splits if_splits)

lemma insert_chain_set:
  assumes "insert_chain (mk_node k v) k ch = (ch', freed, added)" "t \<in> set ch'"
  shows "t = mk_node k v \<or> t \<in> set ch \<or> (\<exists>t' \<in> set ch. node_match k t' \<and> t = t'\<lparr>hn_value := Some v\<rparr>)"
  using assms
  by (induction ch arbitrary: ch' freed added) (auto simp: mk_node_def split: prod.splits if_splits)

lemma remove_chain_delete:
  assumes "chain_ok ch" "distinct (map hn_key ch)"
  shows "(case remove_chain k ch of
            None \<Rightarrow> k \<notin> fst ` set (map node_pair ch)
          | Some (ch', freed) \<Rightarrow>
              k \<in> fst ` set (map node_pair ch) \<and>
              map node_pair ch' = AList.delete k (map node_pair ch) \<and> set ch' \<subseteq> set ch \<and>
              distinct (map hn_key ch') \<and> Suc (length ch') = length ch \<and>
              mset freed + mset (map (\<lambda>t. snd (node_pair t)) ch') = mset (map (\<lambda>t. snd (node_pair t)) ch))"
  using assms
proof (induction ch)
  case (Cons t ch)
  then obtain tk v where t: "hn_key t = Some tk" "hn_keyLen t = length tk" "hn_value t = Some v"
    by auto
  show ?case
  proof (cases "tk = k")
    case True
    have "k \<notin> fst ` set (map node_pair ch)"
      using Cons.prems True t by (force simp: node_pair_def chain_ok_def list_all_iff)
    then show ?thesis using t True Cons.prems
      by (auto simp: node_match_def node_pair_def delete_idem)
  next
    case False
    have np: "node_pair t = (tk, v)" using t by (simp add: node_pair_def)
    show ?thesis using False t Cons
      by (auto simp: node_match_def np split: option.splits)
  qed
qed simp

section \<open>The map as a finite map\<close>

lemma hm_index_frame [simp]:
  "hm_index (m\<lparr>hm_hashArr := a\<rparr>) = hm_index m"
  "hm_index (m\<lparr>hm_size := s\<rparr>) = hm_index m"
  by (rule ext, simp add: hm_index_def)+

lemma node_ok_iff:
  "node_ok m i t \<longleftrightarrow>
    (\<exists>k v. hn_key t = Some k \<and> hn_value t = Some v \<and> k \<noteq> [] \<and> hn_keyLen t = length k \<and> hm_index m k = i)"
  by (auto simp: node_ok_def split: option.splits)

lemma node_ok_frame [simp]:
  "node_ok (m\<lparr>hm_hashArr := a\<rparr>) = node_ok m"
  "node_ok (m\<lparr>hm_size := s\<rparr>) = node_ok m"
  by (intro ext, simp add: node_ok_iff)+

lemma hm_invE:
  assumes "hm_inv m"
  obtains arr where "hm_hashArr m = Some arr" "\<And>k. hm_index m k < length arr"
    "length arr = nat (hm_bucketSize m)"
    "\<And>i. i < length arr \<Longrightarrow> list_all (node_ok m i) (arr ! i)"
    "\<And>i. i < length arr \<Longrightarrow> distinct (map hn_key (arr ! i))"
    "\<And>i. i < length arr \<Longrightarrow> chain_ok (arr ! i)"
    "hm_size m = int (length (concat arr))"
proof -
  obtain arr where arr: "hm_hashArr m = Some arr" using assms by (auto simp: hm_inv_def split: option.splits)
  show thesis
    by (rule that [of arr]) (use assms arr hm_index_lt [of m] node_ok_chain_ok [of m] in \<open>auto simp: hm_inv_def\<close>)
qed

lemma hm_inv_bucket:
  assumes "hm_inv m" "hm_hashArr m = Some arr" "i < length arr"
    "list_all (node_ok m i) ch" "distinct (map hn_key ch)"
    "s = int (length (concat (arr[i := ch])))"
  shows "hm_inv (m\<lparr>hm_hashArr := Some (arr[i := ch]), hm_size := s\<rparr>)"
  using assms by (auto simp: hm_inv_def nth_list_update)

lemma hm_get_map_of:
  assumes "hm_inv m"
  shows "UtilsHashMapGetValue (Some m) (Some k) = map_of (hm_al m) k"
proof -
  obtain arr where arr: "hm_hashArr m = Some arr" "\<And>k. hm_index m k < length arr"
    "\<And>i. i < length arr \<Longrightarrow> list_all (node_ok m i) (arr ! i)"
    "\<And>i. i < length arr \<Longrightarrow> chain_ok (arr ! i)"
    using assms by (elim hm_invE) blast
  have elsewhere: "k \<notin> fst ` set (map (map node_pair) arr ! j)"
    if "j < length arr" "k = [] \<or> j \<noteq> hm_index m k" for j
    using arr(3) [OF that(1)] that
    by (auto simp: list_all_iff node_ok_iff node_pair_def)
  show ?thesis
  proof (cases "k = []")
    case True
    have "k \<notin> fst ` set (hm_al m)"
      unfolding hm_al_def arr(1) option.sel by (rule notin_concat_index) (use elsewhere True in simp)
    then have "map_of (hm_al m) k = None" by (simp only: map_of_eq_None_iff not_False_eq_True)
    then show ?thesis using True by (simp add: UtilsHashMapGetValue_def)
  next
    case False
    have "map_of (hm_al m) k = map_of (map (map node_pair) arr ! hm_index m k) k"
      unfolding hm_al_def arr(1) option.sel
      by (rule map_of_concat_index) (use arr(2) elsewhere in auto)
    then show ?thesis
      using False arr by (simp add: UtilsHashMapGetValue_def get_chain_map_of)
  qed
qed

lemma hm_al_distinct:
  assumes "hm_inv m"
  shows "distinct (map fst (hm_al m))"
proof -
  obtain arr where arr: "hm_hashArr m = Some arr"
    "\<And>i. i < length arr \<Longrightarrow> list_all (node_ok m i) (arr ! i)"
    "\<And>i. i < length arr \<Longrightarrow> distinct (map hn_key (arr ! i))"
    using assms by (elim hm_invE) blast
  show ?thesis unfolding hm_al_def arr(1) option.sel
  proof (rule distinct_concat_by_index [where g = "hm_index m"])
    fix i assume "i < length (map (map node_pair) arr)"
    then have i: "i < length arr" by simp
    have "inj_on the (set (map hn_key (arr ! i)))"
      using arr(2) [OF i] by (auto simp: inj_on_def list_all_iff node_ok_iff) (metis option.sel)
    then have "distinct (map the (map hn_key (arr ! i)))"
      using arr(3) [OF i] by (simp only: distinct_map simp_thms)
    then show "distinct (map fst (map (map node_pair) arr ! i))"
      using i by (simp add: comp_def node_pair_def)
  next
    fix i x assume "i < length (map (map node_pair) arr)" "x \<in> set (map (map node_pair) arr ! i)"
    then show "hm_index m (fst x) = i"
      using arr(2) [of i] by (auto simp: list_all_iff node_ok_iff node_pair_def)
  qed
qed

lemma hm_size_card:
  assumes "hm_inv m"
  shows "hm_size m = int (card (dom (map_of (hm_al m))))"
proof -
  obtain arr where "hm_hashArr m = Some arr" "hm_size m = int (length (concat arr))"
    using assms by (elim hm_invE) blast
  then show ?thesis
    using card_dom_map_of [OF hm_al_distinct [OF assms]]
    by (simp add: hm_al_def length_concat comp_def)
qed

section \<open>Effect of each operation\<close>

lemma hm_bucket_values:
  assumes "hm_hashArr m = Some arr" "i < length arr"
    "mset freed + mset (map (\<lambda>t. snd (node_pair t)) ch) =
     mset new + mset (map (\<lambda>t. snd (node_pair t)) (arr ! i))"
  shows "mset freed + mset (hm_values (m\<lparr>hm_hashArr := Some (arr[i := ch]), hm_size := s\<rparr>)) =
         mset new + mset (hm_values m)"
proof -
  have al: "hm_values m' = map (\<lambda>t. snd (node_pair t)) (concat arr')" if "hm_hashArr m' = Some arr'" for m' :: "'a HashMap" and arr'
    by (simp add: hm_values_def hm_al_def that map_concat comp_def)
  show ?thesis
    using assms(3) assms(1) concat_split [OF assms(2)]
    by (simp add: al concat_update [OF assms(2)] ac_simps)
qed

lemma hm_get_bucket:
  assumes "hm_inv m" "hm_hashArr m = Some arr" "i = hm_index m k"
    "hm_inv (m\<lparr>hm_hashArr := Some (arr[i := ch]), hm_size := s\<rparr>)"
    "map_of (map node_pair ch) = (map_of (map node_pair (arr ! i)))(k := x)" "k = [] \<Longrightarrow> x = None"
  shows "(\<lambda>j. UtilsHashMapGetValue (Some (m\<lparr>hm_hashArr := Some (arr[i := ch]), hm_size := s\<rparr>)) (Some j)) =
         (\<lambda>j. UtilsHashMapGetValue (Some m) (Some j))(k := x)"
proof -
  obtain "\<And>j. hm_index m j < length arr" "\<And>i. i < length arr \<Longrightarrow> chain_ok (arr ! i)"
    using assms(1,2) by (elim hm_invE) simp
  note old = this
  have new: "chain_ok (arr[i := ch] ! j)" if "j < length arr" for j
    using assms(4) that by (elim hm_invE) auto
  have "chain_ok ch" using new [of i] old(1) assms(3) by simp
  then show ?thesis
    using assms(2,3,5,6) old new
    by (auto simp: UtilsHashMapGetValue_def fun_eq_iff get_chain_map_of nth_list_update)
qed

lemma UtilsHashMapInsert_ok:
  assumes inv: "hm_inv m" and k: "k \<noteq> []" and mem: "mem 0" "mem 1"
  shows "\<exists>m' freed.
    UtilsHashMapInsert mem (Some m) (Some k) (Some v) = (IOTC_OK, Some m', freed) \<and> hm_inv m' \<and>
    (\<lambda>j. UtilsHashMapGetValue (Some m') (Some j)) =
      (\<lambda>j. UtilsHashMapGetValue (Some m) (Some j))(k \<mapsto> v) \<and>
    mset freed + mset (hm_values m') = add_mset v (mset (hm_values m))"
proof -
  obtain arr where arr: "hm_hashArr m = Some arr" "hm_index m k < length arr"
    "list_all (node_ok m (hm_index m k)) (arr ! hm_index m k)"
    "distinct (map hn_key (arr ! hm_index m k))" "chain_ok (arr ! hm_index m k)"
    "hm_size m = int (length (concat arr))"
    using inv by (elim hm_invE) blast
  define i where "i = hm_index m k"
  obtain ch freed added where ins: "insert_chain (mk_node k v) k (arr ! i) = (ch, freed, added)"
    by (metis prod_cases3)
  note upd = insert_chain_update [OF arr(5) [folded i_def] ins]
  let ?m = "m\<lparr>hm_hashArr := Some (arr[i := ch]), hm_size := (if added then hm_size m + 1 else hm_size m)\<rparr>"
  have eq: "UtilsHashMapInsert mem (Some m) (Some k) (Some v) = (IOTC_OK, Some ?m, freed)"
  proof (cases "arr ! i = []")
    case True
    then show ?thesis using k mem arr(1) ins
      by (auto simp: UtilsHashMapInsert_def CreateNode_def mk_node_def i_def)
  next
    case False
    then show ?thesis using k mem arr(1) ins
      by (simp add: UtilsHashMapInsert_def CreateNode_def mk_node_def i_def Let_def)
  qed
  have nodes: "list_all (node_ok m i) ch"
    unfolding list_all_iff
  proof
    fix t assume "t \<in> set ch"
    from insert_chain_set [OF ins this] show "node_ok m i t"
      using arr(3) k by (auto simp: list_all_iff node_ok_iff mk_node_def i_def)
  qed
  have "distinct (map fst (map node_pair ch))"
    unfolding upd(1)
    using arr(3,4) by (intro distinct_update) (simp add: distinct_map inj_on_def node_pair_def list_all_iff node_ok_iff i_def, metis option.sel)
  then have "distinct (map hn_key ch)"
    by (simp add: distinct_map inj_on_def node_pair_def)
  moreover have "(if added then hm_size m + 1 else hm_size m) = int (length (concat (arr[i := ch])))"
    using arr(2,6) upd(4) concat_split [of i arr] by (simp add: concat_update i_def)
  ultimately have inv': "hm_inv ?m"
    using hm_inv_bucket [OF inv arr(1) arr(2) [folded i_def] nodes] by blast
  have get: "map_of (map node_pair ch) = (map_of (map node_pair (arr ! i)))(k := Some v)"
    by (simp add: upd(1) update_conv')
  show ?thesis
    using eq inv' hm_get_bucket [OF inv arr(1) i_def inv' get] k
      hm_bucket_values [OF arr(1) arr(2) [folded i_def], of freed ch "[v]"] upd(3) by auto
qed

lemma UtilsHashMapInsert_fail:
  assumes "\<not> (mem 0 \<and> mem 1) \<or> k = []"
  shows "UtilsHashMapInsert mem (Some m) (Some k) (Some v) = (IOTC_ERROR, Some m, [])"
  using assms by (auto simp: UtilsHashMapInsert_def CreateNode_def split: option.splits)

lemma UtilsHashMapRemove_cases:
  assumes inv: "hm_inv m"
  shows "\<exists>r m' freed.
    UtilsHashMapRemove (Some m) (Some k) = (r, Some m', freed) \<and> hm_inv m' \<and>
    (\<lambda>j. UtilsHashMapGetValue (Some m') (Some j)) =
      (\<lambda>j. UtilsHashMapGetValue (Some m) (Some j))(k := None) \<and>
    mset freed + mset (hm_values m') = mset (hm_values m) \<and>
    r = (if UtilsHashMapGetValue (Some m) (Some k) = None then IOTC_ERROR else IOTC_OK)"
proof -
  obtain arr where arr: "hm_hashArr m = Some arr" "hm_index m k < length arr"
    "list_all (node_ok m (hm_index m k)) (arr ! hm_index m k)"
    "distinct (map hn_key (arr ! hm_index m k))" "chain_ok (arr ! hm_index m k)"
    "hm_size m = int (length (concat arr))"
    using inv by (elim hm_invE) blast
  define i where "i = hm_index m k"
  note del = remove_chain_delete [OF arr(5,4), of k, folded i_def]
  have get: "UtilsHashMapGetValue (Some m) (Some k) = (if k = [] then None else map_of (map node_pair (arr ! i)) k)"
    using arr(1,5) by (simp add: UtilsHashMapGetValue_def get_chain_map_of i_def)
  show ?thesis
  proof (cases "k = [] \<or> remove_chain k (arr ! i) = None")
    case True
    then have none: "UtilsHashMapGetValue (Some m) (Some k) = None"
      using get del by (auto simp: map_of_eq_None_iff)
    moreover have "UtilsHashMapRemove (Some m) (Some k) = (IOTC_ERROR, Some m, [])"
      using True arr(1) by (auto simp: UtilsHashMapRemove_def i_def Let_def split: list.splits)
    moreover have "(\<lambda>j. UtilsHashMapGetValue (Some m) (Some j)) =
        (\<lambda>j. UtilsHashMapGetValue (Some m) (Some j))(k := None)"
      using none by (simp add: fun_eq_iff)
    ultimately show ?thesis using inv by simp
  next
    case False
    then obtain ch freed where rem: "remove_chain k (arr ! i) = Some (ch, freed)" and k: "k \<noteq> []"
      by auto
    note del = del [unfolded rem option.case prod.case]
    let ?m = "m\<lparr>hm_hashArr := Some (arr[i := ch]), hm_size := hm_size m - 1\<rparr>"
    have ne: "\<exists>t rest. arr ! i = t # rest \<and> hn_key t \<noteq> None"
      using rem arr(5) by (cases "arr ! i") (auto simp: i_def)
    then have eq: "UtilsHashMapRemove (Some m) (Some k) = (IOTC_OK, Some ?m, freed)"
      using rem k arr(1) by (auto simp: UtilsHashMapRemove_def i_def Let_def)
    have "list_all (node_ok m i) ch"
      using arr(3) del by (auto simp: list_all_iff i_def)
    moreover have "hm_size m - 1 = int (length (concat (arr[i := ch])))"
      using arr(2,6) del concat_split [of i arr] by (simp add: concat_update i_def)
    ultimately have inv': "hm_inv ?m"
      using hm_inv_bucket [OF inv arr(1) arr(2) [folded i_def]] del by blast
    have "map_of (map node_pair ch) = (map_of (map node_pair (arr ! i)))(k := None)"
      using del by (simp add: delete_conv')
    from hm_get_bucket [OF inv arr(1) i_def inv' this]
    have "(\<lambda>j. UtilsHashMapGetValue (Some ?m) (Some j)) =
        (\<lambda>j. UtilsHashMapGetValue (Some m) (Some j))(k := None)" by simp
    moreover have "UtilsHashMapGetValue (Some m) (Some k) \<noteq> None"
      using get k del by (auto simp: map_of_eq_None_iff)
    ultimately show ?thesis
      using eq inv' hm_bucket_values [OF arr(1) arr(2) [folded i_def], of freed ch "[]"] del by auto
  qed
qed

lemma UtilsHashMapCreate_ok:
  assumes "0 < n" "n < 2 ^ 29" "mem 0" "mem 1"
  shows "\<exists>m. UtilsHashMapCreate mem n (Some nm) f = Some m \<and> hm_inv m \<and> hm_al m = []"
proof -
  have n: "0 < unat n" "unat n < 2 ^ 29"
    using assms(1,2) by (simp_all add: word_less_nat_alt)
  then have "unat (n * 8) = unat n * 8" by (simp add: unat_word_ariths)
  moreover have "sint n = uint n"
  proof -
    have "uint n < 2 ^ 31" using assms(2) by (simp add: word_less_def)
    moreover have "- (2 ^ 31) \<le> uint n" by (rule order_trans [OF _ uint_ge_0]) simp
    ultimately show ?thesis by (simp add: sint_uint signed_take_bit_int_eq_self)
  qed
  moreover have "0 < uint n" "uint n < 2 ^ 29" "nat (uint n) = unat n"
    using assms(1,2) by (simp_all add: word_less_def)
  ultimately show ?thesis
    using assms n by (auto simp: UtilsHashMapCreate_def hm_inv_def hm_al_def Let_def)
qed

lemma chain_values:
  "chain_ok ch \<Longrightarrow> List.map_filter hn_value ch = map (\<lambda>t. snd (node_pair t)) ch"
  by (induction ch) (auto simp: node_pair_def List.map_filter_def)

lemma chain_ok_concat: "\<forall>i < length xss. chain_ok (xss ! i) \<Longrightarrow> chain_ok (concat xss)"
  by (auto simp: chain_ok_def list_all_iff all_set_conv_all_nth [of xss])

lemma hm_values_concat:
  "hm_hashArr m = Some arr \<Longrightarrow> hm_values m = map (\<lambda>t. snd (node_pair t)) (concat arr)"
  by (simp add: hm_values_def hm_al_def map_concat comp_def)

lemma UtilsHashMapDelete_ok:
  assumes "hm_inv m"
  shows "\<exists>m'. UtilsHashMapDelete (Some m) = Some (Some m', hm_values m) \<and> hm_inv m' \<and> hm_al m' = []"
proof -
  obtain arr where arr: "hm_hashArr m = Some arr" "length arr = nat (hm_bucketSize m)"
    "\<forall>i < length arr. chain_ok (arr ! i)"
    using assms by (elim hm_invE) blast
  have "List.map_filter hn_value (concat arr) = hm_values m"
    using arr by (simp add: chain_values chain_ok_concat hm_values_concat)
  then show ?thesis
    using arr(1,2) assms by (auto simp: UtilsHashMapDelete_def hm_inv_def hm_al_def)
qed

lemma iterate_chain_all:
  assumes "chain_ok ch" "\<And>v s. fst (trave v s) = HASH_MAP_TRAVE_CONTINUE"
  shows "iterate_chain trave ch s =
    (HASH_MAP_TRAVE_CONTINUE, foldl (\<lambda>s v. snd (trave v s)) s (map (\<lambda>t. snd (node_pair t)) ch))"
  using assms(1)
proof (induction ch arbitrary: s)
  case (Cons t ch)
  then obtain v where "hn_value t = Some v" "hn_key t \<noteq> None" by auto
  then show ?case
    using Cons assms(2) [of v s] by (cases "trave v s") (auto simp: node_pair_def)
qed simp

lemma iterate_buckets_all:
  assumes "list_all chain_ok xss" "\<And>v s. fst (trave v s) = HASH_MAP_TRAVE_CONTINUE"
  shows "iterate_buckets trave xss s =
    (HASH_MAP_TRAVE_CONTINUE,
     foldl (\<lambda>s v. snd (trave v s)) s (map (\<lambda>t. snd (node_pair t)) (concat xss)))"
  using assms(1)
  by (induction xss arbitrary: s) (simp_all add: iterate_chain_all [OF _ assms(2)])

section \<open>The map implements the keyed map contract\<close>

definition hm_get :: "'v HashMap \<Rightarrow> bytes \<Rightarrow> 'v option" where
  "hm_get m k = UtilsHashMapGetValue (Some m) (Some k)"

definition hm_ins :: "alloc \<Rightarrow> bytes \<Rightarrow> 'v \<Rightarrow> 'v HashMap \<Rightarrow> 'v HashMap" where
  "hm_ins mem k v m = the (fst (snd (UtilsHashMapInsert mem (Some m) (Some k) (Some v))))"

definition hm_del :: "bytes \<Rightarrow> 'v HashMap \<Rightarrow> 'v HashMap" where
  "hm_del k m = the (fst (snd (UtilsHashMapRemove (Some m) (Some k))))"

definition alloc_ok :: "alloc \<Rightarrow> bool" where
  "alloc_ok mem = (mem 0 \<and> mem 1)"

lemma hm_ins_cases:
  assumes "hm_inv m"
  shows "hm_inv (hm_ins mem k v m) \<and>
    hm_get (hm_ins mem k v m) = (if alloc_ok mem \<and> k \<noteq> [] then (hm_get m)(k \<mapsto> v) else hm_get m)"
proof (cases "alloc_ok mem \<and> k \<noteq> []")
  case True
  then show ?thesis
    using UtilsHashMapInsert_ok [OF assms, of k mem v] by (auto simp: hm_ins_def hm_get_def [abs_def] alloc_ok_def)
next
  case False
  then show ?thesis
    using UtilsHashMapInsert_fail [of mem k m v] assms by (auto simp: hm_ins_def alloc_ok_def)
qed

lemma hm_del_ok:
  assumes "hm_inv m"
  shows "hm_inv (hm_del k m) \<and> hm_get (hm_del k m) = (hm_get m)(k := None)"
  using UtilsHashMapRemove_cases [OF assms, of k] by (auto simp: hm_del_def hm_get_def [abs_def])

interpretation hm: keyed_map hm_inv "\<lambda>k. k \<noteq> []" alloc_ok hm_get hm_ins hm_del hm_size
proof
  fix m :: "'a HashMap" and mem k v
  assume inv: "hm_inv m"
  show "hm_inv (hm_ins mem k v m)" using hm_ins_cases [OF inv] by blast
  show "hm_inv (hm_del k m)" using hm_del_ok [OF inv] by blast
  show "hm_get (hm_ins mem k v m) = spec_op alloc_ok (\<lambda>k. k \<noteq> []) (hm_get m) (Ins mem k v)"
    using hm_ins_cases [OF inv] by simp
  show "hm_get (hm_del k m) = (hm_get m)(k := None)" using hm_del_ok [OF inv] by blast
  have "hm_get m = map_of (hm_al m)" by (simp add: hm_get_def [abs_def] hm_get_map_of [OF inv] fun_eq_iff)
  then show "hm_size m = int (card (dom (hm_get m)))" "finite (dom (hm_get m))"
    using hm_size_card [OF inv] by (simp_all add: finite_dom_map_of)
qed

section \<open>Sequences of operations\<close>

text \<open>
  A client's view of a map: the map, the values handed to the free callback so far, and the values
  whose insertion was accepted so far.
\<close>

record 'v hm_client =
  hc_map :: "'v HashMap"
  hc_freed :: "'v list"
  hc_accepted :: "'v list"

fun hm_step :: "'v hm_client \<Rightarrow> (alloc, bytes, 'v) map_op \<Rightarrow> 'v hm_client" where
  "hm_step c (Ins mem k v) =
    (case UtilsHashMapInsert mem (Some (hc_map c)) (Some k) (Some v) of
       (r, m', freed) \<Rightarrow>
         \<lparr>hc_map = the m', hc_freed = hc_freed c @ freed,
          hc_accepted = hc_accepted c @ (if r = IOTC_OK then [v] else [])\<rparr>)"
| "hm_step c (Del k) =
    (case UtilsHashMapRemove (Some (hc_map c)) (Some k) of
       (r, m', freed) \<Rightarrow>
         c\<lparr>hc_map := the m', hc_freed := hc_freed c @ freed\<rparr>)"

definition hm_client_inv :: "'v hm_client \<Rightarrow> bool" where
  "hm_client_inv c \<longleftrightarrow> hm_inv (hc_map c) \<and>
    mset (hc_freed c) + mset (hm_values (hc_map c)) = mset (hc_accepted c)"

lemma hm_step_inv:
  assumes "hm_client_inv c"
  shows "hm_client_inv (hm_step c p)"
proof (cases p)
  case (Ins mem k v)
  have inv: "hm_inv (hc_map c)" and own: "mset (hc_freed c) + mset (hm_values (hc_map c)) = mset (hc_accepted c)"
    using assms by (auto simp: hm_client_inv_def)
  show ?thesis
  proof (cases "(mem 0 \<and> mem 1) \<and> k \<noteq> []")
    case True
    then obtain m' freed where "UtilsHashMapInsert mem (Some (hc_map c)) (Some k) (Some v) = (IOTC_OK, Some m', freed)"
      "hm_inv m'" "mset freed + mset (hm_values m') = add_mset v (mset (hm_values (hc_map c)))"
      using UtilsHashMapInsert_ok [OF inv, of k mem v] by blast
    then show ?thesis using own by (simp add: hm_client_inv_def Ins ac_simps) (metis add.left_commute add_mset_add_single union_mset_add_mset_right)
  next
    case False
    then show ?thesis using UtilsHashMapInsert_fail [of mem k "hc_map c" v] assms
      by (auto simp: hm_client_inv_def Ins)
  qed
next
  case (Del k)
  have inv: "hm_inv (hc_map c)" and own: "mset (hc_freed c) + mset (hm_values (hc_map c)) = mset (hc_accepted c)"
    using assms by (auto simp: hm_client_inv_def)
  obtain r m' freed where "UtilsHashMapRemove (Some (hc_map c)) (Some k) = (r, Some m', freed)"
    "hm_inv m'" "mset freed + mset (hm_values m') = mset (hm_values (hc_map c))"
    using UtilsHashMapRemove_cases [OF inv, of k] by blast
  then show ?thesis using own by (simp add: hm_client_inv_def Del ac_simps) (metis add.left_commute)
qed

interpretation hm_run: step_system hm_step hm_client_inv
  by unfold_locales (rule hm_step_inv)

lemma hm_step_map: "hc_map (hm_step c p) = hm.apply_op (hc_map c) p"
  by (cases p) (simp_all add: hm_ins_def hm_del_def split: prod.splits)

lemma hm_run_map: "hc_map (foldl hm_step c ops) = foldl hm.apply_op (hc_map c) ops"
  by (induction ops arbitrary: c) (simp_all add: hm_step_map)

definition hm_start :: "'v HashMap \<Rightarrow> 'v hm_client" where
  "hm_start m = \<lparr>hc_map = m, hc_freed = [], hc_accepted = []\<rparr>"

lemma hm_created:
  fixes m :: "'v HashMap"
  assumes "UtilsHashMapCreate mem n nm f = Some m" "n < 2 ^ 29"
  shows "hm_inv m" "hm_al m = []"
proof -
  obtain nm' where "nm = Some nm'" "0 < n" "mem 0" "mem 1"
    using assms(1) by (auto simp: UtilsHashMapCreate_def Let_def word_neq_0_conv split: option.splits if_splits)
  moreover from UtilsHashMapCreate_ok [OF this(2) assms(2) this(3,4)]
  obtain m' :: "'v HashMap" where "UtilsHashMapCreate mem n (Some nm') f = Some m'" "hm_inv m'" "hm_al m' = []"
    by blast
  ultimately show "hm_inv m" "hm_al m = []" using assms(1) by auto
qed

text \<open>
  C10. A freshly created hash map behaves as a finite map under every sequence of insertions and
  removals: after any such sequence a lookup of every key returns what the same sequence gives on a
  mathematical map (an insertion that runs out of memory or has an empty key changes nothing), and
  \<open>UtilsHashMapLength\<close> is the number of keys bound.
\<close>

theorem HashMap_refines_map:
  assumes "UtilsHashMapCreate mem n nm f = Some m" "n < 2 ^ 29"
  shows "(\<lambda>k. UtilsHashMapGetValue (Some (hc_map (foldl hm_step (hm_start m) ops))) (Some k)) =
           foldl (spec_op alloc_ok (\<lambda>k. k \<noteq> [])) Map.empty ops \<and>
         UtilsHashMapLength (Some (hc_map (foldl hm_step (hm_start m) ops))) =
           of_nat (card (dom (foldl (spec_op alloc_ok (\<lambda>k. k \<noteq> [])) Map.empty ops)))"
proof -
  note new = hm_created [OF assms]
  have "hm_get m = Map.empty"
    by (rule ext) (simp add: hm_get_def hm_get_map_of [OF new(1)] new(2))
  then show ?thesis
    using hm.run_refines [OF new(1), of ops] hm.run_count [OF new(1), of ops]
    by (simp add: hm_run_map hm_start_def hm_get_def [abs_def] UtilsHashMapLength_def)
qed

theorem HashMap_refines_map_witness:
  "(\<lambda>k. UtilsHashMapGetValue (Some (hc_map (foldl hm_step
        (hm_start (the (UtilsHashMapCreate (\<lambda>_. True) 4 (Some [65]) None)))
        [Ins (\<lambda>_. True) [1] (10 :: nat), Ins (\<lambda>_. True) [5] 20, Del [1]]))) (Some k)) =
     foldl (spec_op alloc_ok (\<lambda>k. k \<noteq> [])) Map.empty
        [Ins (\<lambda>_. True) [1] 10, Ins (\<lambda>_. True) [5] 20, Del [1]]"
proof -
  obtain m :: "nat HashMap" where m: "UtilsHashMapCreate (\<lambda>_. True) 4 (Some [65]) None = Some m"
    using UtilsHashMapCreate_ok [of 4 "\<lambda>_. True" "[65]" None] by auto
  show ?thesis unfolding m option.sel
    by (rule conjunct1 [OF HashMap_refines_map [OF m]]) simp
qed

text \<open>
  C28. Ownership of the values: after any sequence of operations on a fresh map, every value whose
  insertion was accepted has either been passed to the free callback exactly once or is still
  stored exactly once (as multisets), so nothing leaks and nothing is released twice.
\<close>

theorem HashMap_ownership:
  assumes "UtilsHashMapCreate mem n nm f = Some m" "n < 2 ^ 29"
  shows "mset (hc_freed (foldl hm_step (hm_start m) ops)) +
           mset (hm_values (hc_map (foldl hm_step (hm_start m) ops))) =
         mset (hc_accepted (foldl hm_step (hm_start m) ops))"
proof -
  have "hm_client_inv (hm_start m)"
    using hm_created [OF assms] by (simp add: hm_client_inv_def hm_start_def hm_values_def)
  from hm_run.run_inv [OF this] show ?thesis by (simp add: hm_client_inv_def)
qed

theorem HashMap_ownership_witness:
  "let c = foldl hm_step (hm_start (the (UtilsHashMapCreate (\<lambda>_. True) 1 (Some []) None)))
             [Ins (\<lambda>_. True) [1] (10 :: nat), Ins (\<lambda>_. True) [1] 20]
   in mset (hc_freed c) + mset (hm_values (hc_map c)) = mset (hc_accepted c)"
proof -
  obtain m :: "nat HashMap" where m: "UtilsHashMapCreate (\<lambda>_. True) 1 (Some []) None = Some m"
    using UtilsHashMapCreate_ok [of 1 "\<lambda>_. True" "[]" None] by auto
  show ?thesis unfolding m option.sel Let_def
    by (rule HashMap_ownership [OF m]) simp
qed

end
