(* ===== verification/Utils_Queue.thy ===== *)
theory Utils_Queue
  imports Errcode Contracts
begin

text \<open>
  The bounded FIFO of \<open>utils_queue.c\<close>.  The intrusive list under \<open>head\<close> is a list of nodes, or
  \<^term>\<open>None\<close> while the head is still zeroed memory.  Operations that may read through a null or
  uninitialised head return \<^term>\<open>None\<close> for that fault.
\<close>

section \<open>Data\<close>

record QueueNode =
  qn_value :: bytes
  qn_valueLen :: nat

record UtilsQueue =
  q_list :: "QueueNode list option"
  q_count :: nat
  q_capacity :: nat
  q_freeValue :: "nat option"

abbreviation MAX_QUEUE_VALUE_LEN :: nat where
  "MAX_QUEUE_VALUE_LEN \<equiv> 1024"

section \<open>Operations\<close>

text \<open>The queue memory is zeroed and the head made an empty ring; a zero capacity changes nothing.\<close>

definition UtilsQueueInit :: "UtilsQueue option \<Rightarrow> nat \<Rightarrow> nat option \<Rightarrow> bool \<times> UtilsQueue option" where
  "UtilsQueueInit queue capacity freeValue =
    (case queue of
       None \<Rightarrow> (False, None)
     | Some q \<Rightarrow>
         if capacity = 0 then (False, Some q)
         else (True, Some \<lparr>q_list = Some [], q_count = 0, q_capacity = capacity, q_freeValue = freeValue\<rparr>))"

text \<open>
  Returns the queue, the values passed to the free callback, and the values freed; the fields other
  than the list keep their contents.
\<close>

definition UtilsQueueDeinit :: "UtilsQueue option \<Rightarrow> (UtilsQueue option \<times> bytes list \<times> bytes list) option" where
  "UtilsQueueDeinit queue =
    (case queue of
       None \<Rightarrow> Some (None, [], [])
     | Some q \<Rightarrow>
         (case q_list q of
            None \<Rightarrow> None
          | Some nodes \<Rightarrow>
              Some (Some (q\<lparr>q_list := Some []\<rparr>),
                    (if q_freeValue q \<noteq> None then map qn_value nodes else []),
                    map qn_value nodes)))"

definition zero_queue :: UtilsQueue where
  "zero_queue = \<lparr>q_list = None, q_count = 0, q_capacity = 0, q_freeValue = None\<rparr>"

definition UtilsQueueCreate :: "alloc \<Rightarrow> nat \<Rightarrow> nat option \<Rightarrow> UtilsQueue option" where
  "UtilsQueueCreate mem capacity freeValue =
    (if capacity = 0 then None
     else if \<not> mem 0 then None
     else
       (let (ok, q) = UtilsQueueInit (Some zero_queue) capacity freeValue
        in if \<not> ok then None else q))"

text \<open>Insertion before the head is insertion at the end of the ring.\<close>

definition queue_append :: "QueueNode \<Rightarrow> UtilsQueue \<Rightarrow> UtilsQueue option" where
  "queue_append node q =
    (case q_list q of
       None \<Rightarrow> None
     | Some nodes \<Rightarrow> Some (q\<lparr>q_list := Some (nodes @ [node]), q_count := q_count q + 1\<rparr>))"

definition UtilsQueuePush ::
    "alloc \<Rightarrow> UtilsQueue option \<Rightarrow> bytes option \<Rightarrow> (ret \<times> UtilsQueue option) option" where
  "UtilsQueuePush mem queue val =
    (case (queue, val) of
       (Some q, Some v) \<Rightarrow>
         if length v = 0 then Some (IOTC_ERR_PARAM_INVALID, queue)
         else if length v > MAX_QUEUE_VALUE_LEN then Some (IOTC_CORE_COMM_UTILS_ERR_QUEUE_VAL_TOO_LONG, queue)
         else if q_count q \<ge> q_capacity q then Some (IOTC_CORE_COMM_UTILS_ERR_QUEUE_FULL, queue)
         else if \<not> mem 0 then Some (IOTC_ADAPTER_MEM_ERR_MALLOC, queue)
         else if \<not> mem 1 then Some (IOTC_ADAPTER_MEM_ERR_MALLOC, queue)
         else
           (case queue_append \<lparr>qn_value = v, qn_valueLen = length v\<rparr> q of
              None \<Rightarrow> None
            | Some q' \<Rightarrow> Some (IOTC_OK, Some q'))
     | _ \<Rightarrow> Some (IOTC_ERR_PARAM_INVALID, queue))"

text \<open>
  \<open>val\<close> is the address of the caller's pointer: the queue takes the memory over and the caller's
  pointer becomes null on success only.
\<close>

definition UtilsQueuePushMem ::
    "alloc \<Rightarrow> UtilsQueue option \<Rightarrow> bytes option option \<Rightarrow> nat \<Rightarrow>
     (ret \<times> UtilsQueue option \<times> bytes option option) option" where
  "UtilsQueuePushMem mem queue val valueLen =
    (case (queue, val) of
       (Some q, Some (Some v)) \<Rightarrow>
         if valueLen = 0 then Some (IOTC_ERR_PARAM_INVALID, queue, val)
         else if q_count q \<ge> q_capacity q then Some (IOTC_CORE_COMM_UTILS_ERR_QUEUE_FULL, queue, val)
         else if \<not> mem 0 then Some (IOTC_ADAPTER_MEM_ERR_MALLOC, queue, val)
         else
           (case queue_append \<lparr>qn_value = v, qn_valueLen = valueLen\<rparr> q of
              None \<Rightarrow> None
            | Some q' \<Rightarrow> Some (IOTC_OK, Some q', Some None))
     | _ \<Rightarrow> Some (IOTC_ERR_PARAM_INVALID, queue, val))"

text \<open>
  The receiving buffer is given by its size; the third component is the message copied into it and
  its length.  \<^term>\<open>None\<close> is a read through a null list head, or past the end of the value.
\<close>

definition UtilsQueuePop ::
    "UtilsQueue option \<Rightarrow> nat option \<Rightarrow> bool \<Rightarrow> (ret \<times> UtilsQueue option \<times> (bytes \<times> nat) option) option" where
  "UtilsQueuePop queue valueSize lenPtr =
    (case (queue, valueSize) of
       (Some q, Some sz) \<Rightarrow>
         if sz = 0 \<or> \<not> lenPtr then Some (IOTC_ERR_PARAM_INVALID, queue, None)
         else if q_count q = 0 then Some (IOTC_CORE_COMM_UTILS_ERR_QUEUE_EMPTY, queue, None)
         else
           (case q_list q of
              Some (node # rest) \<Rightarrow>
                if qn_valueLen node > sz then Some (IOTC_ERR_SECUREC_MEMCPY, queue, None)
                else if qn_valueLen node > length (qn_value node) then None
                else Some (IOTC_OK, Some (q\<lparr>q_list := Some rest, q_count := q_count q - 1\<rparr>),
                           Some (take (qn_valueLen node) (qn_value node), qn_valueLen node))
            | _ \<Rightarrow> None)
     | _ \<Rightarrow> Some (IOTC_ERR_PARAM_INVALID, queue, None))"

definition UtilsQueuePopMem ::
    "UtilsQueue option \<Rightarrow> bool \<Rightarrow> bool \<Rightarrow> (ret \<times> UtilsQueue option \<times> (bytes \<times> nat) option) option" where
  "UtilsQueuePopMem queue valPtr lenPtr =
    (case queue of
       Some q \<Rightarrow>
         if \<not> valPtr \<or> \<not> lenPtr then Some (IOTC_ERR_PARAM_INVALID, queue, None)
         else if q_count q = 0 then Some (IOTC_CORE_COMM_UTILS_ERR_QUEUE_EMPTY, queue, None)
         else
           (case q_list q of
              Some (node # rest) \<Rightarrow>
                Some (IOTC_OK, Some (q\<lparr>q_list := Some rest, q_count := q_count q - 1\<rparr>),
                      Some (qn_value node, qn_valueLen node))
            | _ \<Rightarrow> None)
     | None \<Rightarrow> Some (IOTC_ERR_PARAM_INVALID, queue, None))"

definition UtilsQueueGetCount :: "UtilsQueue option \<Rightarrow> nat" where
  "UtilsQueueGetCount queue = (case queue of None \<Rightarrow> 0 | Some q \<Rightarrow> q_count q)"

definition UtilsQueueIsFull :: "UtilsQueue option \<Rightarrow> bool" where
  "UtilsQueueIsFull queue = (case queue of None \<Rightarrow> False | Some q \<Rightarrow> q_count q \<ge> q_capacity q)"

definition UtilsQueueDestroy ::
    "UtilsQueue option option \<Rightarrow> (UtilsQueue option option \<times> bytes list \<times> bytes list) option" where
  "UtilsQueueDestroy queueAddr =
    (case queueAddr of
       Some (Some q) \<Rightarrow>
         (case UtilsQueueDeinit (Some q) of
            None \<Rightarrow> None
          | Some (_, cb, freed) \<Rightarrow> Some (Some None, cb, freed))
     | _ \<Rightarrow> Some (queueAddr, [], []))"

section \<open>Invariant\<close>

definition q_inv :: "UtilsQueue \<Rightarrow> bool" where
  "q_inv q =
    (case q_list q of
       None \<Rightarrow> False
     | Some nodes \<Rightarrow> q_count q = length nodes \<and> length nodes \<le> q_capacity q \<and> 0 < q_capacity q \<and>
         list_all (\<lambda>n. qn_valueLen n = length (qn_value n) \<and> qn_value n \<noteq> []) nodes)"

definition q_contents :: "UtilsQueue \<Rightarrow> bytes list" where
  "q_contents q = map qn_value (the (q_list q))"

lemma q_invE:
  assumes "q_inv q"
  obtains nodes where "q_list q = Some nodes" "q_count q = length nodes"
    "length nodes \<le> q_capacity q" "0 < q_capacity q" "q_contents q = map qn_value nodes"
    "list_all (\<lambda>n. qn_valueLen n = length (qn_value n) \<and> qn_value n \<noteq> []) nodes"
  using assms by (auto simp: q_inv_def q_contents_def split: option.splits)

lemma UtilsQueueCreate_inv:
  "UtilsQueueCreate mem c f = Some q \<Longrightarrow> q_inv q \<and> q_contents q = [] \<and> q_capacity q = c"
  by (auto simp: UtilsQueueCreate_def UtilsQueueInit_def q_inv_def q_contents_def split: if_splits)

lemma UtilsQueuePush_cases:
  assumes "q_inv q"
  shows "\<exists>r q'. UtilsQueuePush mem (Some q) (Some v) = Some (r, Some q') \<and> q_inv q' \<and>
    q_capacity q' = q_capacity q \<and>
    q_contents q' = (if r = IOTC_OK then q_contents q @ [v] else q_contents q) \<and>
    (r = IOTC_OK \<longleftrightarrow> v \<noteq> [] \<and> length v \<le> MAX_QUEUE_VALUE_LEN \<and>
       length (q_contents q) < q_capacity q \<and> mem 0 \<and> mem 1)"
  using assms
  by (elim q_invE) (auto simp: UtilsQueuePush_def queue_append_def q_inv_def q_contents_def)

lemma UtilsQueuePushMem_cases:
  assumes "q_inv q"
  shows "\<exists>r q' p. UtilsQueuePushMem mem (Some q) (Some (Some v)) (length v) = Some (r, Some q', Some p) \<and>
    q_inv q' \<and> q_capacity q' = q_capacity q \<and>
    q_contents q' = (if r = IOTC_OK then q_contents q @ [v] else q_contents q) \<and>
    p = (if r = IOTC_OK then None else Some v) \<and>
    (r = IOTC_OK \<longleftrightarrow> v \<noteq> [] \<and> length (q_contents q) < q_capacity q \<and> mem 0)"
  using assms
  by (elim q_invE) (auto simp: UtilsQueuePushMem_def queue_append_def q_inv_def q_contents_def)

lemma UtilsQueuePop_cases:
  assumes "q_inv q" "0 < sz"
  shows "\<exists>r q' out. UtilsQueuePop (Some q) (Some sz) True = Some (r, Some q', out) \<and> q_inv q' \<and>
    q_capacity q' = q_capacity q \<and>
    (if r = IOTC_OK then \<exists>v. out = Some (v, length v) \<and> q_contents q = v # q_contents q'
     else out = None \<and> q' = q) \<and>
    (r = IOTC_OK \<longleftrightarrow> (\<exists>v vs. q_contents q = v # vs \<and> length v \<le> sz))"
proof -
  obtain nodes where q: "q_list q = Some nodes" "q_count q = length nodes"
    "length nodes \<le> q_capacity q" "0 < q_capacity q" "q_contents q = map qn_value nodes"
    "list_all (\<lambda>n. qn_valueLen n = length (qn_value n) \<and> qn_value n \<noteq> []) nodes"
    using assms(1) by (rule q_invE)
  then show ?thesis
    using assms by (cases nodes) (auto simp: UtilsQueuePop_def q_inv_def q_contents_def)
qed

lemma UtilsQueuePopMem_cases:
  assumes "q_inv q"
  shows "\<exists>r q' out. UtilsQueuePopMem (Some q) True True = Some (r, Some q', out) \<and> q_inv q' \<and>
    q_capacity q' = q_capacity q \<and>
    (if r = IOTC_OK then \<exists>v. out = Some (v, length v) \<and> q_contents q = v # q_contents q'
     else out = None \<and> q' = q) \<and>
    (r = IOTC_OK \<longleftrightarrow> q_contents q \<noteq> [])"
proof -
  obtain nodes where q: "q_list q = Some nodes" "q_count q = length nodes"
    "length nodes \<le> q_capacity q" "0 < q_capacity q" "q_contents q = map qn_value nodes"
    "list_all (\<lambda>n. qn_valueLen n = length (qn_value n) \<and> qn_value n \<noteq> []) nodes"
    using assms(1) by (rule q_invE)
  then show ?thesis
    using assms by (cases nodes) (auto simp: UtilsQueuePopMem_def q_inv_def q_contents_def)
qed

section \<open>The queue implements the bounded FIFO contract\<close>

text \<open>
  A producer's call is a copying or a memory-transferring push, a consumer's call a copying pop
  with a buffer size or a memory-transferring pop.
\<close>

datatype push_kind = ByCopy alloc | ByMem alloc

datatype pop_kind = IntoBuffer nat | TakeMem

fun uq_push :: "push_kind \<Rightarrow> bytes \<Rightarrow> UtilsQueue \<Rightarrow> bool \<times> UtilsQueue" where
  "uq_push (ByCopy mem) v q =
    (case UtilsQueuePush mem (Some q) (Some v) of
       Some (r, Some q') \<Rightarrow> (r = IOTC_OK, q') | _ \<Rightarrow> (False, q))"
| "uq_push (ByMem mem) v q =
    (case UtilsQueuePushMem mem (Some q) (Some (Some v)) (length v) of
       Some (r, Some q', _) \<Rightarrow> (r = IOTC_OK, q') | _ \<Rightarrow> (False, q))"

fun uq_pop :: "pop_kind \<Rightarrow> UtilsQueue \<Rightarrow> bytes option \<times> UtilsQueue" where
  "uq_pop (IntoBuffer sz) q =
    (case UtilsQueuePop (Some q) (Some sz) True of
       Some (r, Some q', out) \<Rightarrow> (map_option fst out, q') | _ \<Rightarrow> (None, q))"
| "uq_pop TakeMem q =
    (case UtilsQueuePopMem (Some q) True True of
       Some (r, Some q', out) \<Rightarrow> (map_option fst out, q') | _ \<Rightarrow> (None, q))"

lemma uq_push_ok:
  assumes "q_inv q"
  shows "q_inv (snd (uq_push e v q)) \<and> q_capacity (snd (uq_push e v q)) = q_capacity q \<and>
    q_contents (snd (uq_push e v q)) = q_contents q @ (if fst (uq_push e v q) then [v] else [])"
proof (cases e)
  case (ByCopy mem)
  then show ?thesis using UtilsQueuePush_cases [OF assms, of mem v] by (auto split: if_splits)
next
  case (ByMem mem)
  then show ?thesis using UtilsQueuePushMem_cases [OF assms, of mem v] by (auto split: if_splits)
qed

lemma uq_pop_ok:
  assumes "q_inv q"
  shows "q_inv (snd (uq_pop e q)) \<and> q_capacity (snd (uq_pop e q)) = q_capacity q \<and>
    q_contents q = (case fst (uq_pop e q) of None \<Rightarrow> [] | Some v \<Rightarrow> [v]) @ q_contents (snd (uq_pop e q))"
proof (cases e)
  case (IntoBuffer sz)
  show ?thesis
  proof (cases "sz = 0")
    case True
    then show ?thesis using IntoBuffer assms by (simp add: UtilsQueuePop_def)
  next
    case False
    then show ?thesis using IntoBuffer UtilsQueuePop_cases [OF assms, of sz] by (auto split: if_splits option.splits)
  qed
next
  case TakeMem
  then show ?thesis using UtilsQueuePopMem_cases [OF assms] by (auto split: if_splits option.splits)
qed

interpretation uq: bounded_fifo q_inv q_contents q_capacity uq_push uq_pop
proof
  fix q assume "q_inv q"
  then show "length (q_contents q) \<le> q_capacity q" by (elim q_invE) simp
qed (use uq_push_ok uq_pop_ok in blast)+

text \<open>
  C29. From creation, through any sequence of pushes and pops of both kinds, with any allocation
  outcomes and buffer sizes: the values delivered followed by the values still queued are exactly
  the values accepted, in the order they were accepted, and the queue never holds more than its
  capacity.
\<close>

theorem UtilsQueue_fifo:
  assumes "UtilsQueueCreate mem c f = Some q"
    "foldl (fifo_step uq_push uq_pop) (q, [], []) ops = (q', accepted, delivered)"
  shows "delivered @ q_contents q' = accepted \<and> length (q_contents q') \<le> c \<and>
         UtilsQueueGetCount (Some q') = length (q_contents q')"
proof -
  note new = UtilsQueueCreate_inv [OF assms(1)]
  have "q_inv q'" and "q_contents q @ accepted = delivered @ q_contents q'"
    and "length (q_contents q') \<le> q_capacity q"
    using uq.run_fifo [OF _ assms(2)] new by simp_all
  then show ?thesis using new by (auto simp: UtilsQueueGetCount_def elim: q_invE)
qed

theorem UtilsQueue_fifo_witness:
  "case foldl (fifo_step uq_push uq_pop) (the (UtilsQueueCreate (\<lambda>_. True) 1 None), [], [])
          [Enq (ByCopy (\<lambda>_. True)) [7, 8], Enq (ByMem (\<lambda>_. True)) [9], Deq (IntoBuffer 4)] of
     (q', accepted, delivered) \<Rightarrow> delivered @ q_contents q' = accepted \<and> length (q_contents q') \<le> 1"
proof -
  obtain q where q: "UtilsQueueCreate (\<lambda>_. True) 1 None = Some q"
    by (simp add: UtilsQueueCreate_def UtilsQueueInit_def)
  obtain q' a d where r: "foldl (fifo_step uq_push uq_pop) (q, [], [])
      [Enq (ByCopy (\<lambda>_. True)) [7, 8], Enq (ByMem (\<lambda>_. True)) [9], Deq (IntoBuffer 4)] = (q', a, d)"
    by (metis prod_cases3)
  show ?thesis unfolding q option.sel r prod.case using UtilsQueue_fifo [OF q r] by blast
qed

end
