(* ===== verification/Msg_Queue.thy ===== *)
theory Msg_Queue
  imports Utils_Queue
begin

text \<open>
  The blocking message queue of \<open>utils_msg_queue.c\<close> on top of the bounded FIFO: a mutex, a send and
  a receive semaphore, and a switch that stops pushes.  \<open>mq_held\<close> counts how often the mutex is
  held.  A call is a sequence of critical sections; between them other tasks may run, which the
  environment of the call describes.
\<close>

section \<open>Data and environment\<close>

record UtilsMsgQueue =
  mq_queue :: UtilsQueue
  mq_lock :: bool
  mq_held :: nat
  mq_sendSem :: "nat option"
  mq_recvSem :: "nat option"
  mq_pushOnOff :: bool

text \<open>
  The environment of one call: whether its i-th lock attempt succeeds, what the other tasks do to
  the queue before the i-th resumption, what a blocked wait returns, the allocation outcomes.
\<close>

record mq_env =
  me_lock :: "nat \<Rightarrow> bool"
  me_others :: "nat \<Rightarrow> UtilsMsgQueue \<Rightarrow> UtilsMsgQueue"
  me_wait :: ret
  me_mem :: alloc

section \<open>Mutex and semaphores\<close>

definition mq_do_lock :: "bool \<Rightarrow> UtilsMsgQueue \<Rightarrow> bool \<times> UtilsMsgQueue" where
  "mq_do_lock ok mq = (if ok \<and> mq_lock mq then (True, mq\<lparr>mq_held := mq_held mq + 1\<rparr>) else (False, mq))"

definition mq_do_unlock :: "UtilsMsgQueue \<Rightarrow> UtilsMsgQueue" where
  "mq_do_unlock mq = mq\<lparr>mq_held := mq_held mq - 1\<rparr>"

text \<open>A wait succeeds only on a positive count, which it decrements.\<close>

definition sem_wait :: "ret \<Rightarrow> nat option \<Rightarrow> ret \<times> nat option" where
  "sem_wait w s =
    (case s of
       Some (Suc c) \<Rightarrow> if w = IOTC_OK then (IOTC_OK, Some c) else (w, s)
     | _ \<Rightarrow> (if w = IOTC_OK then IOTC_ERR_TIMEOUT else w, s))"

text \<open>\<open>if (IotcSemGetCount(sem) == 0) IotcSemPost(sem)\<close>.\<close>

definition sem_post_if_zero :: "nat option \<Rightarrow> nat option" where
  "sem_post_if_zero s = (case s of Some 0 \<Rightarrow> Some 1 | _ \<Rightarrow> s)"

section \<open>Creation and destruction\<close>

definition MsgQueueDataInit :: "alloc \<Rightarrow> UtilsMsgQueue \<Rightarrow> nat \<Rightarrow> nat option \<Rightarrow> ret \<times> UtilsMsgQueue" where
  "MsgQueueDataInit mem mq capacity freeValue =
    (let (ok, q) = UtilsQueueInit (Some (mq_queue mq)) capacity freeValue;
         mq = mq\<lparr>mq_queue := the q\<rparr>
     in
     if \<not> ok then (IOTC_ERROR, mq)
     else if \<not> mem 0 then (IOTC_ERROR, mq\<lparr>mq_lock := False\<rparr>)
     else
       (let mq = mq\<lparr>mq_lock := True\<rparr> in
        if \<not> mem 1 then (IOTC_ERROR, mq\<lparr>mq_sendSem := None\<rparr>)
        else
          (let mq = mq\<lparr>mq_sendSem := Some 0\<rparr> in
           if \<not> mem 2 then (IOTC_ERROR, mq\<lparr>mq_recvSem := None\<rparr>)
           else (IOTC_OK, mq\<lparr>mq_recvSem := Some 0, mq_pushOnOff := True\<rparr>))))"

text \<open>The result is \<^term>\<open>None\<close> when the queue's list head is traversed uninitialised.\<close>

definition UtilsMsgQueueDeinit :: "bool \<Rightarrow> UtilsMsgQueue option \<Rightarrow> (UtilsMsgQueue option \<times> bytes list) option" where
  "UtilsMsgQueueDeinit lk msgQueue =
    (case msgQueue of
       None \<Rightarrow> Some (None, [])
     | Some mq \<Rightarrow>
         (let (locked, mq) = mq_do_lock lk mq in
          case UtilsQueueDeinit (Some (mq_queue mq)) of
            None \<Rightarrow> None
          | Some (q, cb, freed) \<Rightarrow>
             (let mq = mq\<lparr>mq_queue := the q, mq_sendSem := None, mq_recvSem := None\<rparr>;
                  mq = (if mq_lock mq then (if locked then mq_do_unlock mq else mq)\<lparr>mq_lock := False\<rparr> else mq)
              in Some (Some mq, freed))))"

definition zero_msg_queue :: UtilsMsgQueue where
  "zero_msg_queue = \<lparr>mq_queue = zero_queue, mq_lock = False, mq_held = 0, mq_sendSem = None,
     mq_recvSem = None, mq_pushOnOff = False\<rparr>"

definition UtilsMsgQueueInit ::
    "alloc \<Rightarrow> bool \<Rightarrow> UtilsMsgQueue option \<Rightarrow> nat \<Rightarrow> nat option \<Rightarrow> (bool \<times> UtilsMsgQueue option) option" where
  "UtilsMsgQueueInit mem lk msgQueue capacity freeValue =
    (case msgQueue of
       None \<Rightarrow> Some (False, None)
     | Some mq \<Rightarrow>
         if capacity = 0 then Some (False, Some mq)
         else
           (let (r, mq) = MsgQueueDataInit mem zero_msg_queue capacity freeValue in
            if r \<noteq> IOTC_OK then
              (case UtilsMsgQueueDeinit lk (Some mq) of None \<Rightarrow> None | Some (mq', _) \<Rightarrow> Some (False, mq'))
            else Some (True, Some mq)))"

definition MsgQueueDestroy :: "bool \<Rightarrow> UtilsMsgQueue \<Rightarrow> (UtilsMsgQueue option \<times> bytes list) option" where
  "MsgQueueDestroy lk mq =
    (case UtilsMsgQueueDeinit lk (Some mq) of None \<Rightarrow> None | Some (_, freed) \<Rightarrow> Some (None, freed))"

text \<open>Outer \<^term>\<open>None\<close>: fault; inner \<^term>\<open>None\<close>: the function returns a null queue.\<close>

definition UtilsMsgQueueCreate :: "alloc \<Rightarrow> bool \<Rightarrow> nat \<Rightarrow> nat option \<Rightarrow> UtilsMsgQueue option option" where
  "UtilsMsgQueueCreate mem lk capacity freeValue =
    (if \<not> mem 0 then Some None
     else
       (let (r, mq) = MsgQueueDataInit (\<lambda>i. mem (i + 1)) zero_msg_queue capacity freeValue in
        if r \<noteq> IOTC_OK then
          (case MsgQueueDestroy lk mq of None \<Rightarrow> None | Some (mq', _) \<Rightarrow> Some mq')
        else Some (Some mq)))"

definition UtilsMsgQueueDestroy ::
    "bool \<Rightarrow> UtilsMsgQueue option option \<Rightarrow> (UtilsMsgQueue option option \<times> bytes list) option" where
  "UtilsMsgQueueDestroy lk msgQueueAddr =
    (case msgQueueAddr of
       Some (Some mq) \<Rightarrow>
         (case MsgQueueDestroy lk mq of None \<Rightarrow> None | Some (mq', freed) \<Rightarrow> Some (Some mq', freed))
     | _ \<Rightarrow> Some (msgQueueAddr, []))"

section \<open>Critical sections\<close>

text \<open>The switch is read even when the lock attempt fails.\<close>

definition CheckPushOn :: "bool \<Rightarrow> UtilsMsgQueue \<Rightarrow> bool \<times> UtilsMsgQueue" where
  "CheckPushOn lk mq =
    (let (locked, mq) = mq_do_lock lk mq; on = mq_pushOnOff mq
     in (on, if locked then mq_do_unlock mq else mq))"

definition PushWait :: "mq_env \<Rightarrow> UtilsMsgQueue \<Rightarrow> nat \<Rightarrow> ret \<times> UtilsMsgQueue" where
  "PushWait env mq timeout =
    (let (locked, mq) = mq_do_lock (me_lock env 1) mq in
     if \<not> locked then (IOTC_ERR_TIMEOUT, mq)
     else
       (let full = UtilsQueueIsFull (Some (mq_queue mq)); mq = mq_do_unlock mq in
        if full \<and> timeout = 0 then (IOTC_CORE_COMM_UTILS_ERR_MSG_QUEUE_FULL, mq)
        else if full \<and> timeout > 0 then
          (let mq = me_others env 1 mq; (w, s) = sem_wait (me_wait env) (mq_recvSem mq) in
           if w \<noteq> IOTC_OK then (IOTC_ADAPTER_OS_ERR_WAIT_SEM, mq\<lparr>mq_recvSem := s\<rparr>)
           else (IOTC_OK, mq\<lparr>mq_recvSem := s\<rparr>))
        else (IOTC_OK, mq)))"

definition PopWait :: "mq_env \<Rightarrow> UtilsMsgQueue \<Rightarrow> nat \<Rightarrow> ret \<times> UtilsMsgQueue" where
  "PopWait env mq timeout =
    (let (locked, mq) = mq_do_lock (me_lock env 1) mq in
     if \<not> locked then (IOTC_ERR_TIMEOUT, mq)
     else
       (let empty = (UtilsQueueGetCount (Some (mq_queue mq)) = 0); mq = mq_do_unlock mq in
        if empty \<and> timeout = 0 then (IOTC_CORE_COMM_UTILS_ERR_MSG_QUEUE_EMPTY, mq)
        else if empty \<and> timeout > 0 then
          (let mq = me_others env 1 mq; (w, s) = sem_wait (me_wait env) (mq_sendSem mq)
           in (w, mq\<lparr>mq_sendSem := s\<rparr>))
        else (IOTC_OK, mq)))"

text \<open>The last critical section of the push calls, with the queue's push as an argument.\<close>

definition PushSection ::
    "bool \<Rightarrow> (UtilsQueue \<Rightarrow> (ret \<times> UtilsQueue option \<times> 'x) option) \<Rightarrow> UtilsMsgQueue \<Rightarrow> 'x \<Rightarrow>
     (ret \<times> UtilsMsgQueue \<times> 'x) option" where
  "PushSection lk push mq x =
    (let (locked, mq) = mq_do_lock lk mq in
     if \<not> locked then Some (IOTC_ERR_TIMEOUT, mq, x)
     else if UtilsQueueIsFull (Some (mq_queue mq)) then
       Some (IOTC_CORE_COMM_UTILS_ERR_MSG_QUEUE_FULL, mq_do_unlock mq, x)
     else
       (case push (mq_queue mq) of
          None \<Rightarrow> None
        | Some (r, q, x') \<Rightarrow>
            (let mq = mq\<lparr>mq_queue := the q\<rparr> in
             if r \<noteq> IOTC_OK then Some (IOTC_CORE_COMM_UTILS_ERR_MSG_QUEUE_PUSH, mq_do_unlock mq, x')
             else Some (IOTC_OK, mq_do_unlock (mq\<lparr>mq_sendSem := sem_post_if_zero (mq_sendSem mq)\<rparr>), x'))))"

text \<open>The last critical section of the pop calls, with the queue's pop as an argument.\<close>

definition PopSection ::
    "bool \<Rightarrow> (UtilsQueue \<Rightarrow> (ret \<times> UtilsQueue option \<times> (bytes \<times> nat) option) option) \<Rightarrow> UtilsMsgQueue \<Rightarrow>
     (ret \<times> UtilsMsgQueue \<times> (bytes \<times> nat) option) option" where
  "PopSection lk pop mq =
    (let (locked, mq) = mq_do_lock lk mq in
     if \<not> locked then Some (IOTC_ERR_TIMEOUT, mq, None)
     else if UtilsQueueGetCount (Some (mq_queue mq)) = 0 then
       Some (IOTC_CORE_COMM_UTILS_ERR_MSG_QUEUE_EMPTY, mq_do_unlock mq, None)
     else
       (case pop (mq_queue mq) of
          None \<Rightarrow> None
        | Some (r, q, out) \<Rightarrow>
            (let mq = mq\<lparr>mq_queue := the q\<rparr> in
             if r \<noteq> IOTC_OK then Some (IOTC_CORE_COMM_UTILS_ERR_MSG_QUEUE_POP, mq_do_unlock mq, out)
             else Some (IOTC_OK, mq_do_unlock (mq\<lparr>mq_recvSem := sem_post_if_zero (mq_recvSem mq)\<rparr>), out))))"

section \<open>Operations\<close>

definition queue_push_copy :: "alloc \<Rightarrow> bytes \<Rightarrow> UtilsQueue \<Rightarrow> (ret \<times> UtilsQueue option \<times> unit) option" where
  "queue_push_copy mem v q =
    (case UtilsQueuePush mem (Some q) (Some v) of None \<Rightarrow> None | Some (r, q') \<Rightarrow> Some (r, q', ()))"

definition UtilsMsgQueuePush ::
    "mq_env \<Rightarrow> UtilsMsgQueue option \<Rightarrow> bytes option \<Rightarrow> nat \<Rightarrow> (ret \<times> UtilsMsgQueue option) option" where
  "UtilsMsgQueuePush env msgQueue val timeout =
    (case (msgQueue, val) of
       (Some mq, Some v) \<Rightarrow>
         if v = [] then Some (IOTC_ERR_PARAM_INVALID, msgQueue)
         else
           (let (on, mq) = CheckPushOn (me_lock env 0) mq in
            if \<not> on then Some (IOTC_CORE_COMM_UTILS_ERR_MSG_QUEUE_NOT_ALLOW_PUSH, Some mq)
            else
              (let (r, mq) = PushWait env (me_others env 0 mq) timeout in
               if r \<noteq> IOTC_OK then Some (r, Some mq)
               else
                 (case PushSection (me_lock env 2) (queue_push_copy (me_mem env) v) (me_others env 2 mq) () of
                    None \<Rightarrow> None
                  | Some (r, mq, _) \<Rightarrow> Some (r, Some mq))))
     | _ \<Rightarrow> Some (IOTC_ERR_PARAM_INVALID, msgQueue))"

definition UtilsMsgQueuePushMem ::
    "mq_env \<Rightarrow> UtilsMsgQueue option \<Rightarrow> bytes option option \<Rightarrow> nat \<Rightarrow> nat \<Rightarrow>
     (ret \<times> UtilsMsgQueue option \<times> bytes option option) option" where
  "UtilsMsgQueuePushMem env msgQueue val valueLen timeout =
    (case (msgQueue, val) of
       (Some mq, Some p) \<Rightarrow>
         if valueLen = 0 then Some (IOTC_ERR_PARAM_INVALID, msgQueue, val)
         else
           (let (on, mq) = CheckPushOn (me_lock env 0) mq in
            if \<not> on then Some (IOTC_CORE_COMM_UTILS_ERR_MSG_QUEUE_NOT_ALLOW_PUSH, Some mq, val)
            else
              (let (r, mq) = PushWait env (me_others env 0 mq) timeout in
               if r \<noteq> IOTC_OK then Some (r, Some mq, val)
               else
                 (case PushSection (me_lock env 2)
                         (\<lambda>q. UtilsQueuePushMem (me_mem env) (Some q) val valueLen) (me_others env 2 mq) val of
                    None \<Rightarrow> None
                  | Some (r, mq, val') \<Rightarrow> Some (r, Some mq, val'))))
     | _ \<Rightarrow> Some (IOTC_ERR_PARAM_INVALID, msgQueue, val))"

definition UtilsMsgQueuePop ::
    "mq_env \<Rightarrow> UtilsMsgQueue option \<Rightarrow> nat option \<Rightarrow> bool \<Rightarrow> nat \<Rightarrow>
     (ret \<times> UtilsMsgQueue option \<times> (bytes \<times> nat) option) option" where
  "UtilsMsgQueuePop env msgQueue valueSize lenPtr timeout =
    (case (msgQueue, valueSize) of
       (Some mq, Some sz) \<Rightarrow>
         if sz = 0 \<or> \<not> lenPtr then Some (IOTC_ERR_PARAM_INVALID, msgQueue, None)
         else
           (let (r, mq) = PopWait env mq timeout in
            if r \<noteq> IOTC_OK then Some (r, Some mq, None)
            else
              (case PopSection (me_lock env 2) (\<lambda>q. UtilsQueuePop (Some q) valueSize lenPtr) (me_others env 2 mq) of
                 None \<Rightarrow> None
               | Some (r, mq, out) \<Rightarrow> Some (r, Some mq, out)))
     | _ \<Rightarrow> Some (IOTC_ERR_PARAM_INVALID, msgQueue, None))"

definition UtilsMsgQueuePopMem ::
    "mq_env \<Rightarrow> UtilsMsgQueue option \<Rightarrow> bool \<Rightarrow> bool \<Rightarrow> nat \<Rightarrow>
     (ret \<times> UtilsMsgQueue option \<times> (bytes \<times> nat) option) option" where
  "UtilsMsgQueuePopMem env msgQueue valPtr lenPtr timeout =
    (case msgQueue of
       Some mq \<Rightarrow>
         if \<not> valPtr \<or> \<not> lenPtr then Some (IOTC_ERR_PARAM_INVALID, msgQueue, None)
         else
           (let (r, mq) = PopWait env mq timeout in
            if r \<noteq> IOTC_OK then Some (r, Some mq, None)
            else
              (case PopSection (me_lock env 2) (\<lambda>q. UtilsQueuePopMem (Some q) valPtr lenPtr) (me_others env 2 mq) of
                 None \<Rightarrow> None
               | Some (r, mq, out) \<Rightarrow> Some (r, Some mq, out)))
     | None \<Rightarrow> Some (IOTC_ERR_PARAM_INVALID, msgQueue, None))"

definition UtilsMsgQueueGetCount :: "bool \<Rightarrow> UtilsMsgQueue option \<Rightarrow> nat \<times> UtilsMsgQueue option" where
  "UtilsMsgQueueGetCount lk msgQueue =
    (case msgQueue of
       None \<Rightarrow> (0, None)
     | Some mq \<Rightarrow>
         (let (locked, mq) = mq_do_lock lk mq in
          if \<not> locked then (0, Some mq)
          else (UtilsQueueGetCount (Some (mq_queue mq)), Some (mq_do_unlock mq))))"

definition UtilsMsgQueueSuspend :: "bool \<Rightarrow> UtilsMsgQueue option \<Rightarrow> ret \<times> UtilsMsgQueue option" where
  "UtilsMsgQueueSuspend lk msgQueue =
    (case msgQueue of
       None \<Rightarrow> (IOTC_ERR_PARAM_INVALID, None)
     | Some mq \<Rightarrow>
         (let (locked, mq) = mq_do_lock lk mq in
          if \<not> locked then (IOTC_ERR_TIMEOUT, Some mq)
          else (IOTC_OK, Some (mq_do_unlock (mq\<lparr>mq_pushOnOff := False\<rparr>)))))"

definition UtilsMsgQueueResume :: "bool \<Rightarrow> UtilsMsgQueue option \<Rightarrow> UtilsMsgQueue option" where
  "UtilsMsgQueueResume lk msgQueue =
    (case msgQueue of
       None \<Rightarrow> None
     | Some mq \<Rightarrow>
         (let (locked, mq) = mq_do_lock lk mq in
          if \<not> locked then Some mq else Some (mq_do_unlock (mq\<lparr>mq_pushOnOff := True\<rparr>))))"

section \<open>Invariant\<close>

definition mq_inv :: "UtilsMsgQueue \<Rightarrow> bool" where
  "mq_inv mq = (q_inv (mq_queue mq) \<and> mq_lock mq \<and> mq_sendSem mq \<noteq> None \<and> mq_recvSem mq \<noteq> None)"

text \<open>The state between critical sections: well formed and the mutex free.\<close>

definition mq_free :: "UtilsMsgQueue \<Rightarrow> bool" where
  "mq_free mq = (mq_inv mq \<and> mq_held mq = 0)"

abbreviation mq_contents :: "UtilsMsgQueue \<Rightarrow> bytes list" where
  "mq_contents mq \<equiv> q_contents (mq_queue mq)"

lemmas mq_simps = mq_do_lock_def mq_do_unlock_def Let_def

lemma UtilsQueueIsFull_iff:
  "q_inv q \<Longrightarrow> UtilsQueueIsFull (Some q) \<longleftrightarrow> length (q_contents q) = q_capacity q"
  by (elim q_invE) (auto simp: UtilsQueueIsFull_def)

lemma UtilsQueueGetCount_contents:
  "q_inv q \<Longrightarrow> UtilsQueueGetCount (Some q) = length (q_contents q)"
  by (elim q_invE) (simp add: UtilsQueueGetCount_def)

lemma sem_post_pos: "s \<noteq> None \<Longrightarrow> \<exists>c > 0. sem_post_if_zero s = Some c"
  by (auto simp: sem_post_if_zero_def split: option.splits nat.splits)

section \<open>Effect of the critical sections\<close>

text \<open>A push argument that appends \<open>v\<close> exactly when it reports success.\<close>

definition push_spec :: "(UtilsQueue \<Rightarrow> (ret \<times> UtilsQueue option \<times> 'x) option) \<Rightarrow> bytes \<Rightarrow> bool" where
  "push_spec push v =
    (\<forall>q. q_inv q \<longrightarrow> (\<exists>r q' x. push q = Some (r, Some q', x) \<and> q_inv q' \<and> q_capacity q' = q_capacity q \<and>
       q_contents q' = q_contents q @ (if r = IOTC_OK then [v] else [])))"

definition pop_spec :: "(UtilsQueue \<Rightarrow> (ret \<times> UtilsQueue option \<times> (bytes \<times> nat) option) option) \<Rightarrow> bool" where
  "pop_spec pop =
    (\<forall>q. q_inv q \<longrightarrow> (\<exists>r q' out. pop q = Some (r, Some q', out) \<and> q_inv q' \<and> q_capacity q' = q_capacity q \<and>
       (if r = IOTC_OK then \<exists>v. out = Some (v, length v) \<and> q_contents q = v # q_contents q'
        else out = None \<and> q' = q)))"

lemma push_spec_copy: "push_spec (queue_push_copy mem v) v"
  unfolding push_spec_def queue_push_copy_def
proof (intro allI impI)
  fix q assume "q_inv q"
  from UtilsQueuePush_cases [OF this, of mem v] obtain r q' where
    "UtilsQueuePush mem (Some q) (Some v) = Some (r, Some q')" "q_inv q'" "q_capacity q' = q_capacity q"
    "q_contents q' = (if r = IOTC_OK then q_contents q @ [v] else q_contents q)" by blast
  then show "\<exists>r q' x. (case UtilsQueuePush mem (Some q) (Some v) of None \<Rightarrow> None | Some (r, q') \<Rightarrow> Some (r, q', ()))
      = Some (r, Some q', x) \<and> q_inv q' \<and> q_capacity q' = q_capacity q \<and>
      q_contents q' = q_contents q @ (if r = IOTC_OK then [v] else [])" by simp
qed

lemma push_spec_mem: "push_spec (\<lambda>q. UtilsQueuePushMem mem (Some q) (Some (Some v)) (length v)) v"
  unfolding push_spec_def
proof (intro allI impI)
  fix q assume "q_inv q"
  from UtilsQueuePushMem_cases [OF this, of mem v] obtain r q' p where
    "UtilsQueuePushMem mem (Some q) (Some (Some v)) (length v) = Some (r, Some q', Some p)" "q_inv q'"
    "q_capacity q' = q_capacity q"
    "q_contents q' = (if r = IOTC_OK then q_contents q @ [v] else q_contents q)" by blast
  then show "\<exists>r q' x. UtilsQueuePushMem mem (Some q) (Some (Some v)) (length v) = Some (r, Some q', x) \<and>
      q_inv q' \<and> q_capacity q' = q_capacity q \<and>
      q_contents q' = q_contents q @ (if r = IOTC_OK then [v] else [])" by simp
qed

lemma pop_spec_buf: "0 < sz \<Longrightarrow> pop_spec (\<lambda>q. UtilsQueuePop (Some q) (Some sz) True)"
  unfolding pop_spec_def using UtilsQueuePop_cases [of _ sz] by blast

lemma pop_spec_mem: "pop_spec (\<lambda>q. UtilsQueuePopMem (Some q) True True)"
  unfolding pop_spec_def using UtilsQueuePopMem_cases by blast

lemma PushSection_ok:
  assumes "mq_inv mq" "push_spec push v"
  shows "\<exists>r mq' x'. PushSection lk push mq x = Some (r, mq', x') \<and> mq_inv mq' \<and>
    mq_held mq' = mq_held mq \<and> q_capacity (mq_queue mq') = q_capacity (mq_queue mq) \<and>
    mq_contents mq' = mq_contents mq @ (if r = IOTC_OK then [v] else []) \<and>
    (r = IOTC_OK \<longrightarrow> (\<exists>c > 0. mq_sendSem mq' = Some c))"
proof (cases "lk \<and> \<not> UtilsQueueIsFull (Some (mq_queue mq))")
  case True
  obtain r q' x' where p: "push (mq_queue mq) = Some (r, Some q', x')" "q_inv q'"
    "q_capacity q' = q_capacity (mq_queue mq)"
    "q_contents q' = q_contents (mq_queue mq) @ (if r = IOTC_OK then [v] else [])"
    using assms unfolding push_spec_def mq_inv_def by blast
  obtain c where "c > 0" "sem_post_if_zero (mq_sendSem mq) = Some c"
    using sem_post_pos assms(1) by (auto simp: mq_inv_def)
  then show ?thesis using True p assms(1) by (auto simp: PushSection_def mq_simps mq_inv_def)
next
  case False
  then show ?thesis using assms(1) by (auto simp: PushSection_def mq_simps mq_inv_def)
qed

lemma PopSection_ok:
  assumes "mq_inv mq" "pop_spec pop"
  shows "\<exists>r mq' out. PopSection lk pop mq = Some (r, mq', out) \<and> mq_inv mq' \<and>
    mq_held mq' = mq_held mq \<and> q_capacity (mq_queue mq') = q_capacity (mq_queue mq) \<and>
    (if r = IOTC_OK then \<exists>v. out = Some (v, length v) \<and> mq_contents mq = v # mq_contents mq'
     else out = None \<and> mq_contents mq' = mq_contents mq) \<and>
    (r = IOTC_OK \<longrightarrow> (\<exists>c > 0. mq_recvSem mq' = Some c))"
proof (cases "lk \<and> UtilsQueueGetCount (Some (mq_queue mq)) \<noteq> 0")
  case True
  obtain r q' out where p: "pop (mq_queue mq) = Some (r, Some q', out)" "q_inv q'"
    "q_capacity q' = q_capacity (mq_queue mq)"
    "if r = IOTC_OK then \<exists>v. out = Some (v, length v) \<and> q_contents (mq_queue mq) = v # q_contents q'
     else out = None \<and> q' = mq_queue mq"
    using assms unfolding pop_spec_def mq_inv_def by blast
  obtain c where "c > 0" "sem_post_if_zero (mq_recvSem mq) = Some c"
    using sem_post_pos assms(1) by (auto simp: mq_inv_def)
  then show ?thesis using True p assms(1)
    by (cases "r = IOTC_OK") (auto simp: PopSection_def mq_simps mq_inv_def)
next
  case False
  then show ?thesis using assms(1) by (auto simp: PopSection_def mq_simps mq_inv_def)
qed

section \<open>The critical sections implement the bounded FIFO contract\<close>

fun mq_push :: "bool \<times> push_kind \<Rightarrow> bytes \<Rightarrow> UtilsMsgQueue \<Rightarrow> bool \<times> UtilsMsgQueue" where
  "mq_push (lk, ByCopy mem) v mq =
    (case PushSection lk (queue_push_copy mem v) mq () of
       Some (r, mq', _) \<Rightarrow> (r = IOTC_OK, mq') | None \<Rightarrow> (False, mq))"
| "mq_push (lk, ByMem mem) v mq =
    (case PushSection lk (\<lambda>q. UtilsQueuePushMem mem (Some q) (Some (Some v)) (length v)) mq (Some (Some v)) of
       Some (r, mq', _) \<Rightarrow> (r = IOTC_OK, mq') | None \<Rightarrow> (False, mq))"

fun mq_pop :: "bool \<times> pop_kind \<Rightarrow> UtilsMsgQueue \<Rightarrow> bytes option \<times> UtilsMsgQueue" where
  "mq_pop (lk, IntoBuffer sz) mq =
    (case PopSection lk (\<lambda>q. UtilsQueuePop (Some q) (Some (Suc sz)) True) mq of
       Some (r, mq', out) \<Rightarrow> (map_option fst out, mq') | None \<Rightarrow> (None, mq))"
| "mq_pop (lk, TakeMem) mq =
    (case PopSection lk (\<lambda>q. UtilsQueuePopMem (Some q) True True) mq of
       Some (r, mq', out) \<Rightarrow> (map_option fst out, mq') | None \<Rightarrow> (None, mq))"

lemma mq_push_ok:
  assumes "mq_free mq"
  shows "mq_free (snd (mq_push e v mq)) \<and>
    q_capacity (mq_queue (snd (mq_push e v mq))) = q_capacity (mq_queue mq) \<and>
    mq_contents (snd (mq_push e v mq)) = mq_contents mq @ (if fst (mq_push e v mq) then [v] else [])"
proof -
  obtain lk k where e: "e = (lk, k)" by (cases e)
  have inv: "mq_inv mq" using assms by (simp add: mq_free_def)
  show ?thesis
  proof (cases k)
    case (ByCopy mem)
    then show ?thesis using e assms PushSection_ok [OF inv push_spec_copy, of lk mem v "()"]
      by (auto simp: mq_free_def)
  next
    case (ByMem mem)
    then show ?thesis using e assms PushSection_ok [OF inv push_spec_mem, of lk mem v "Some (Some v)"]
      by (auto simp: mq_free_def)
  qed
qed

lemma mq_pop_ok:
  assumes "mq_free mq"
  shows "mq_free (snd (mq_pop e mq)) \<and>
    q_capacity (mq_queue (snd (mq_pop e mq))) = q_capacity (mq_queue mq) \<and>
    mq_contents mq =
      (case fst (mq_pop e mq) of None \<Rightarrow> [] | Some v \<Rightarrow> [v]) @ mq_contents (snd (mq_pop e mq))"
proof -
  obtain lk k where e: "e = (lk, k)" by (cases e)
  have inv: "mq_inv mq" using assms by (simp add: mq_free_def)
  show ?thesis
  proof (cases k)
    case (IntoBuffer sz)
    then show ?thesis using e assms PopSection_ok [OF inv pop_spec_buf [of "Suc sz"], of lk]
      by (auto simp: mq_free_def split: if_splits option.splits)
  next
    case TakeMem
    then show ?thesis using e assms PopSection_ok [OF inv pop_spec_mem, of lk]
      by (auto simp: mq_free_def split: if_splits option.splits)
  qed
qed

interpretation mq: bounded_fifo mq_free "\<lambda>mq. q_contents (mq_queue mq)" "\<lambda>mq. q_capacity (mq_queue mq)" mq_push mq_pop
proof
  fix mq assume "mq_free mq"
  then show "length (mq_contents mq) \<le> q_capacity (mq_queue mq)"
    by (auto simp: mq_free_def mq_inv_def elim: q_invE)
qed (use mq_push_ok mq_pop_ok in blast)+

section \<open>Calls under interference\<close>

lemma UtilsMsgQueueCreate_cases:
  "UtilsMsgQueueCreate mem lk c f =
    (if \<not> mem 0 then Some None
     else if c = 0 then None
     else if mem 1 \<and> mem 2 \<and> mem 3 then
       Some (Some (zero_msg_queue\<lparr>mq_queue := \<lparr>q_list = Some [], q_count = 0, q_capacity = c, q_freeValue = f\<rparr>,
         mq_lock := True, mq_sendSem := Some 0, mq_recvSem := Some 0, mq_pushOnOff := True\<rparr>))
     else Some None)"
  by (auto simp: UtilsMsgQueueCreate_def MsgQueueDataInit_def UtilsQueueInit_def zero_msg_queue_def zero_queue_def
      MsgQueueDestroy_def UtilsMsgQueueDeinit_def UtilsQueueDeinit_def mq_simps numeral_2_eq_2 numeral_3_eq_3)

lemma UtilsMsgQueueCreate_free:
  "UtilsMsgQueueCreate mem lk c f = Some (Some mq) \<Longrightarrow>
    mq_free mq \<and> mq_contents mq = [] \<and> q_capacity (mq_queue mq) = c \<and> mq_pushOnOff mq"
  by (auto simp: UtilsMsgQueueCreate_cases mq_free_def mq_inv_def q_inv_def q_contents_def zero_msg_queue_def
      split: if_splits)

lemma CheckPushOn_eq: "mq_free mq \<Longrightarrow> CheckPushOn lk mq = (mq_pushOnOff mq, mq)"
  by (auto simp: CheckPushOn_def mq_simps)

text \<open>What a wait keeps, when the other tasks keep the free state.\<close>

lemma sem_wait_not_none: "sem_wait w s = (r, s') \<Longrightarrow> s \<noteq> None \<Longrightarrow> s' \<noteq> None"
  by (auto simp: sem_wait_def split: option.splits nat.splits if_splits)

lemma lock_unlock [simp]: "mq_do_unlock (mq\<lparr>mq_held := Suc (mq_held mq)\<rparr>) = mq"
  by (simp add: mq_do_unlock_def)

lemma mq_free_sems:
  "mq_free m \<Longrightarrow> s \<noteq> None \<Longrightarrow> mq_free (m\<lparr>mq_recvSem := s\<rparr>) \<and> mq_free (m\<lparr>mq_sendSem := s\<rparr>)"
  by (simp add: mq_free_def mq_inv_def)

lemma mq_free_fields: "mq_free m \<Longrightarrow> mq_lock m \<and> mq_recvSem m \<noteq> None \<and> mq_sendSem m \<noteq> None"
  by (simp add: mq_free_def mq_inv_def)

lemma PushWait_eq:
  assumes "mq_lock mq"
  shows "PushWait env mq timeout =
    (if \<not> me_lock env 1 then (IOTC_ERR_TIMEOUT, mq)
     else if \<not> UtilsQueueIsFull (Some (mq_queue mq)) then (IOTC_OK, mq)
     else if timeout = 0 then (IOTC_CORE_COMM_UTILS_ERR_MSG_QUEUE_FULL, mq)
     else (case sem_wait (me_wait env) (mq_recvSem (me_others env 1 mq)) of
         (w, s) \<Rightarrow> (if w = IOTC_OK then IOTC_OK else IOTC_ADAPTER_OS_ERR_WAIT_SEM,
                    (me_others env 1 mq)\<lparr>mq_recvSem := s\<rparr>)))"
  using assms by (simp add: PushWait_def mq_do_lock_def Let_def split: prod.split)

lemma PopWait_eq:
  assumes "mq_lock mq"
  shows "PopWait env mq timeout =
    (if \<not> me_lock env 1 then (IOTC_ERR_TIMEOUT, mq)
     else if UtilsQueueGetCount (Some (mq_queue mq)) \<noteq> 0 then (IOTC_OK, mq)
     else if timeout = 0 then (IOTC_CORE_COMM_UTILS_ERR_MSG_QUEUE_EMPTY, mq)
     else (case sem_wait (me_wait env) (mq_sendSem (me_others env 1 mq)) of
         (w, s) \<Rightarrow> (w, (me_others env 1 mq)\<lparr>mq_sendSem := s\<rparr>)))"
  using assms by (simp add: PopWait_def mq_do_lock_def Let_def split: prod.split)

lemma waits_free:
  assumes "mq_free mq" "\<And>i m. mq_free m \<Longrightarrow> mq_free (me_others env i m)"
  shows "mq_free (snd (PushWait env mq timeout))" "mq_free (snd (PopWait env mq timeout))"
proof -
  note f = assms(2) [OF assms(1), of 1]
  obtain w s where ws: "sem_wait (me_wait env) (mq_recvSem (me_others env 1 mq)) = (w, s)" by fastforce
  obtain w' s' where ws': "sem_wait (me_wait env) (mq_sendSem (me_others env 1 mq)) = (w', s')" by fastforce
  have "mq_free ((me_others env 1 mq)\<lparr>mq_recvSem := s\<rparr>)"
    using mq_free_sems [OF f sem_wait_not_none [OF ws]] mq_free_fields [OF f] by blast
  then show "mq_free (snd (PushWait env mq timeout))"
    using assms(1) mq_free_fields [OF assms(1)] ws by (simp add: PushWait_eq)
  have "mq_free ((me_others env 1 mq)\<lparr>mq_sendSem := s'\<rparr>)"
    using mq_free_sems [OF f sem_wait_not_none [OF ws']] mq_free_fields [OF f] by blast
  then show "mq_free (snd (PopWait env mq timeout))"
    using assms(1) mq_free_fields [OF assms(1)] ws' by (simp add: PopWait_eq)
qed



text \<open>
  A push call interleaved with arbitrary other tasks (that themselves leave the queue well
  formed and the mutex free) never reads through an uninitialised list, leaves the mutex free on
  every path, and reports success only when its message is the last one queued and the send
  semaphore is positive, so that a consumer blocked on it can run.  A call that finds the queue
  suspended is refused and changes nothing.
\<close>

theorem UtilsMsgQueuePush_call:
  assumes "mq_free mq" "\<And>i m. mq_free m \<Longrightarrow> mq_free (me_others env i m)" "v \<noteq> []"
  shows "\<exists>r mq'. UtilsMsgQueuePush env (Some mq) (Some v) timeout = Some (r, Some mq') \<and> mq_free mq' \<and>
    (r = IOTC_OK \<longrightarrow> q_contents (mq_queue mq') \<noteq> [] \<and> last (q_contents (mq_queue mq')) = v \<and>
       (\<exists>c > 0. mq_sendSem mq' = Some c)) \<and>
    (\<not> mq_pushOnOff mq \<longrightarrow> r = IOTC_CORE_COMM_UTILS_ERR_MSG_QUEUE_NOT_ALLOW_PUSH \<and> mq' = mq)"
proof (cases "mq_pushOnOff mq")
  case False
  then show ?thesis using assms by (simp add: UtilsMsgQueuePush_def CheckPushOn_eq)
next
  case True
  obtain r1 m1 where w: "PushWait env (me_others env 0 mq) timeout = (r1, m1)" by fastforce
  have m1: "mq_free m1" using waits_free(1) [OF assms(2) [OF assms(1)] assms(2), where timeout = timeout] w by (metis snd_conv)
  then have inv: "mq_inv (me_others env 2 m1)" "mq_held (me_others env 2 m1) = 0"
    using assms(2) by (auto simp: mq_free_def)
  from PushSection_ok [OF inv(1) push_spec_copy, of "me_lock env 2" "me_mem env" v "()"]
  obtain r2 m2 x2 where
    s: "PushSection (me_lock env 2) (queue_push_copy (me_mem env) v) (me_others env 2 m1) () = Some (r2, m2, x2)"
    "mq_inv m2" "mq_held m2 = mq_held (me_others env 2 m1)"
    "mq_contents m2 = mq_contents (me_others env 2 m1) @ (if r2 = IOTC_OK then [v] else [])"
    "r2 = IOTC_OK \<longrightarrow> (\<exists>c > 0. mq_sendSem m2 = Some c)" by blast
  have "mq_free m2" using s(2,3) inv(2) by (simp add: mq_free_def)
  then show ?thesis
    using True assms(1,3) m1 w s(1,4,5)
    by (cases "r1 = IOTC_OK"; cases "r2 = IOTC_OK") (simp_all add: UtilsMsgQueuePush_def CheckPushOn_eq)
qed

theorem UtilsMsgQueuePush_call_witness:
  "let mq = the (the (UtilsMsgQueueCreate (\<lambda>_. True) True 2 None));
       env = \<lparr>me_lock = (\<lambda>_. True), me_others = (\<lambda>_ m. m), me_wait = 0, me_mem = (\<lambda>_. True)\<rparr>
   in \<exists>r mq'. UtilsMsgQueuePush env (Some mq) (Some [5]) 0 = Some (r, Some mq') \<and> mq_free mq'"
proof -
  obtain mq where mq: "UtilsMsgQueueCreate (\<lambda>_. True) True 2 None = Some (Some mq)"
    by (simp add: UtilsMsgQueueCreate_cases)
  let ?env = "\<lparr>me_lock = (\<lambda>_. True), me_others = (\<lambda>_ m. m), me_wait = 0, me_mem = (\<lambda>_. True)\<rparr>"
  have "mq_free mq" using UtilsMsgQueueCreate_free [OF mq] by blast
  from UtilsMsgQueuePush_call [OF this, of ?env "[5]" 0]
  have "\<exists>r mq'. UtilsMsgQueuePush ?env (Some mq) (Some [5]) 0 = Some (r, Some mq') \<and> mq_free mq'" by auto
  then show ?thesis by (simp only: Let_def mq option.sel)
qed

text \<open>
  \<open>UtilsMsgQueueCreate\<close> reads through an uninitialised list head exactly when it is called with
  capacity 0 and its first allocation succeeds: the queue initialisation is refused before the list
  head is set up, and the clean-up then walks that list.
\<close>

theorem UtilsMsgQueueCreate_faults_iff:
  "UtilsMsgQueueCreate mem lk c f = None \<longleftrightarrow> mem 0 \<and> c = 0"
  by (simp add: UtilsMsgQueueCreate_cases)

end
