(* ===== verification/Utils_Common.thy ===== *)
theory Utils_Common
  imports Errcode
begin

text \<open>
  The helpers of \<open>utils_common.c\<close>: the wrap-around time difference, hexadecimal coding, bounded
  string copies and replacement.  Characters are bytes; a C string argument is the memory it points
  to, and a result of \<^term>\<open>None\<close> is a read past the end of that memory.
\<close>

section \<open>Definitions\<close>

definition UtilsDeltaTime :: "u32 \<Rightarrow> u32 \<Rightarrow> u32" where
  "UtilsDeltaTime timeNew timeOld =
    (if timeNew \<ge> timeOld then timeNew - timeOld
     else (UINT32_MAX - timeOld) + timeNew + 1)"

text \<open>Character codes: 48 is the digit 0, 57 the digit 9, 97 is a, 102 is f, 65 is A, 70 is F.\<close>

definition HexChar2Num :: "u8 \<Rightarrow> u8 option" where
  "HexChar2Num hexChar =
    (if hexChar \<ge> 48 \<and> hexChar \<le> 57 then Some (hexChar - 48)
     else if hexChar \<ge> 97 \<and> hexChar \<le> 102 then Some (hexChar - 97 + 10)
     else if hexChar \<ge> 65 \<and> hexChar \<le> 70 then Some (hexChar - 65 + 10)
     else None)"

fun unhex_loop :: "bytes \<Rightarrow> nat \<Rightarrow> bytes \<Rightarrow> bool \<times> bytes" where
  "unhex_loop (h # l # rest) outIndex outBuf =
    (case HexChar2Num h of
       None \<Rightarrow> (False, outBuf)
     | Some high \<Rightarrow>
        (case HexChar2Num l of
           None \<Rightarrow> (False, outBuf)
         | Some low \<Rightarrow> unhex_loop rest (outIndex + 1) (outBuf[outIndex := push_bit 4 high OR low])))"
| "unhex_loop _ outIndex outBuf = (True, outBuf)"

definition UtilsUnhexify :: "bytes option \<Rightarrow> bytes option \<Rightarrow> bool \<times> bytes option" where
  "UtilsUnhexify inBuf outBuf =
    (case (inBuf, outBuf) of
       (Some inp, Some out) \<Rightarrow>
         if inp = [] \<or> out = [] then (False, outBuf)
         else if length inp mod 2 \<noteq> 0 then (False, outBuf)
         else if length inp div 2 > length out then (False, outBuf)
         else (let (ok, out') = unhex_loop inp 0 out in (ok, Some out'))
     | _ \<Rightarrow> (False, outBuf))"

text \<open>The reverse variant reads from the last character backwards, low digit first.\<close>

fun unhex_loop_r :: "bytes \<Rightarrow> nat \<Rightarrow> bytes \<Rightarrow> bool \<times> bytes" where
  "unhex_loop_r (l # h # rest) outIndex outBuf =
    (case HexChar2Num l of
       None \<Rightarrow> (False, outBuf)
     | Some low \<Rightarrow>
        (case HexChar2Num h of
           None \<Rightarrow> (False, outBuf)
         | Some high \<Rightarrow> unhex_loop_r rest (outIndex + 1) (outBuf[outIndex := push_bit 4 high OR low])))"
| "unhex_loop_r _ outIndex outBuf = (True, outBuf)"

definition UtilsUnhexifyR :: "bytes option \<Rightarrow> bytes option \<Rightarrow> bool \<times> bytes option" where
  "UtilsUnhexifyR inBuf outBuf =
    (case (inBuf, outBuf) of
       (Some inp, Some out) \<Rightarrow>
         if inp = [] \<or> out = [] then (False, outBuf)
         else if length inp mod 2 \<noteq> 0 then (False, outBuf)
         else if length inp div 2 > length out then (False, outBuf)
         else (let (ok, out') = unhex_loop_r (rev inp) 0 out in (ok, Some out'))
     | _ \<Rightarrow> (False, outBuf))"

definition hex_digit :: "u8 \<Rightarrow> u8" where
  "hex_digit d = (if d < 10 then 48 + d else 97 + d - 10)"

fun hex_loop :: "bytes \<Rightarrow> nat \<Rightarrow> bytes \<Rightarrow> bytes" where
  "hex_loop [] pos outBuf = outBuf"
| "hex_loop (b # rest) pos outBuf =
    hex_loop rest (pos + 2) (outBuf[pos := hex_digit (b div 16), pos + 1 := hex_digit (b mod 16)])"

definition UtilsHexify :: "bytes option \<Rightarrow> bytes option \<Rightarrow> bool \<times> bytes option" where
  "UtilsHexify inBuf outBuf =
    (case (inBuf, outBuf) of
       (Some inp, Some out) \<Rightarrow>
         if inp = [] \<or> out = [] then (False, outBuf)
         else if length inp > length out div 2 then (False, outBuf)
         else (True, Some (hex_loop inp 0 out))
     | _ \<Rightarrow> (False, outBuf))"

abbreviation MAX_MALLOC_COPY_LEN :: nat where
  "MAX_MALLOC_COPY_LEN \<equiv> 64 * 1024"

text \<open>Outer \<^term>\<open>None\<close>: reads past \<open>data\<close>; inner \<^term>\<open>None\<close>: the function returns null.\<close>

definition UtilsMallocCopy :: "bool \<Rightarrow> bytes option \<Rightarrow> nat \<Rightarrow> bytes option option" where
  "UtilsMallocCopy memok data len =
    (case data of
       None \<Rightarrow> Some None
     | Some d \<Rightarrow>
         if len = 0 \<or> len > MAX_MALLOC_COPY_LEN then Some None
         else if \<not> memok then Some None
         else if len > length d then None
         else Some (Some (take len d)))"

definition UtilsStrDup :: "bool \<Rightarrow> bytes option \<Rightarrow> bytes option option" where
  "UtilsStrDup memok str =
    (case str of
       None \<Rightarrow> Some None
     | Some s \<Rightarrow>
        (case strlen s of
           None \<Rightarrow> None
         | Some n \<Rightarrow>
            if n + 1 > 64 * 1024 then Some None else UtilsMallocCopy memok (Some s) (n + 1)))"

definition UtilsStrDupWithLen :: "bool \<Rightarrow> bytes option \<Rightarrow> nat \<Rightarrow> bytes option option" where
  "UtilsStrDupWithLen memok str len =
    (case str of
       None \<Rightarrow> Some None
     | Some s \<Rightarrow>
         if len > 64 * 1024 then Some None
         else
          (case UtilsMallocCopy memok (Some s) (len + 1) of
             None \<Rightarrow> None
           | Some None \<Rightarrow> Some None
           | Some (Some r) \<Rightarrow>
              (let r = r[len := 0] in
               if strlen r \<noteq> Some len then Some None else Some (Some r))))"

definition UtilsIsEmptyStr :: "bytes option \<Rightarrow> bool" where
  "UtilsIsEmptyStr str = (case str of None \<Rightarrow> True | Some s \<Rightarrow> s ! 0 = 0)"

definition UtilsIsValidStr :: "bytes option \<Rightarrow> nat \<Rightarrow> nat \<Rightarrow> bool option" where
  "UtilsIsValidStr str minLen maxLen =
    (case str of
       None \<Rightarrow> Some False
     | Some s \<Rightarrow> (case strlen s of None \<Rightarrow> None | Some n \<Rightarrow> Some (n \<ge> minLen \<and> n \<le> maxLen)))"

fun valid_str_loop :: "(bytes option \<times> nat \<times> nat) list \<Rightarrow> bool option" where
  "valid_str_loop [] = Some True"
| "valid_str_loop ((s, mn, mx) # rest) =
    (case UtilsIsValidStr s mn mx of
       None \<Rightarrow> None
     | Some False \<Rightarrow> Some False
     | Some True \<Rightarrow> valid_str_loop rest)"

definition UtilsIsValidStrArrayCheck :: "(bytes option \<times> nat \<times> nat) list option \<Rightarrow> bool option" where
  "UtilsIsValidStrArrayCheck array =
    (case array of None \<Rightarrow> Some False | Some xs \<Rightarrow> if xs = [] then Some False else valid_str_loop xs)"

text \<open>
  String contents without the terminator from here on: \<open>strcpy_s\<close> into \<open>destMax\<close> bytes succeeds when
  the characters and the terminator fit.
\<close>

definition strcpy_fits :: "int \<Rightarrow> bytes \<Rightarrow> bool" where
  "strcpy_fits destMax s = (int (length s) + 1 \<le> destMax)"

definition UtilsReplaceStrWithRange ::
    "bytes option \<Rightarrow> nat \<Rightarrow> int \<Rightarrow> int \<Rightarrow> bytes option \<Rightarrow> ret \<times> bytes option" where
  "UtilsReplaceStrWithRange srcAndDst bufLen startIndex endIndex replaceStr =
    (case (srcAndDst, replaceStr) of
       (Some s, Some r) \<Rightarrow>
         if \<not> (bufLen \<noteq> 0 \<and> startIndex \<ge> 0 \<and> endIndex \<ge> 0 \<and> startIndex \<le> endIndex) then
           (IOTC_ERR_PARAM_INVALID, srcAndDst)
         else
           (let len = int (length s) in
            if \<not> endIndex < len then (IOTC_ERR_PARAM_INVALID, srcAndDst)
            else if \<not> strcpy_fits (int bufLen) s then (IOTC_ERR_SECUREC_STRCPY, srcAndDst)
            else
              (let tail = drop (nat endIndex + 1) s in
               if endIndex < len - 1 \<and> \<not> strcpy_fits (len - endIndex + 1) tail then
                 (IOTC_ERR_SECUREC_STRCPY, srcAndDst)
               else if \<not> strcpy_fits (int bufLen - startIndex) r then (IOTC_ERR_SECUREC_STRCPY, srcAndDst)
               else if endIndex < len - 1 \<and>
                       \<not> strcpy_fits (int bufLen - startIndex - int (length r)) tail then
                 (IOTC_ERR_SECUREC_STRCPY, srcAndDst)
               else
                 (let tmpStr = take (nat startIndex) s @ r @ (if endIndex < len - 1 then tail else []) in
                  if \<not> strcpy_fits (int bufLen) tmpStr then (IOTC_ERR_SECUREC_STRCPY, srcAndDst)
                  else (IOTC_OK, Some tmpStr))))
     | _ \<Rightarrow> (IOTC_ERR_PARAM_INVALID, srcAndDst))"

fun UtilsReplaceCharacters :: "bytes \<Rightarrow> u8 \<Rightarrow> u8 \<Rightarrow> bytes" where
  "UtilsReplaceCharacters [] m t = []"
| "UtilsReplaceCharacters (p # rest) m t =
    (if p = 0 then p # rest else (if p = m then t else p) # UtilsReplaceCharacters rest m t)"

section \<open>Time\<close>

lemma UtilsDeltaTime_sub [simp]: "UtilsDeltaTime timeNew timeOld = timeNew - timeOld"
  by (simp add: UtilsDeltaTime_def wrap_distance)

section \<open>Hexadecimal coding\<close>

definition hex_string :: "bytes \<Rightarrow> bytes" where
  "hex_string bs = concat (map (\<lambda>b. [hex_digit (b div 16), hex_digit (b mod 16)]) bs)"

lemma hex_string_simps [simp]:
  "hex_string [] = []"
  "hex_string (b # bs) = hex_digit (b div 16) # hex_digit (b mod 16) # hex_string bs"
  by (simp_all add: hex_string_def)

lemma length_hex_string [simp]: "length (hex_string bs) = 2 * length bs"
  by (induction bs) simp_all

lemma HexChar2Num_hex_digit: "d < 16 \<Longrightarrow> HexChar2Num (hex_digit d) = Some d"
  by (auto simp: HexChar2Num_def hex_digit_def word_nat unat_word_ariths split: if_splits)

lemma nibbles_lt: "b div 16 < (16 :: u8)" "b mod 16 < (16 :: u8)"
  using unat_u8_lt [of b] by (simp_all add: word_less_nat_alt unat_div unat_mod)

lemma nibbles_join: "push_bit 4 (b div 16) OR (b mod 16) = (b :: u8)"
proof -
  have "b div 16 = drop_bit 4 b" "b mod 16 = take_bit 4 b"
    by (simp_all add: drop_bit_eq_div take_bit_eq_mod)
  then show ?thesis by (auto simp: bit_eq_iff bit_simps)
qed

lemma overwrite_one:
  assumes "pos < length out"
  shows "overwrite (out[pos := x]) (Suc pos) ys = overwrite out pos (x # ys)"
  using assms by (simp add: overwrite_def take_Suc_conv_app_nth take_update_cancel drop_update_cancel add.commute)

lemma overwrite_two:
  assumes "Suc (Suc pos) + length ys \<le> length out"
  shows "overwrite (out[pos := x, Suc pos := y]) (Suc (Suc pos)) ys = overwrite out pos (x # y # ys)"
  using assms by (simp add: overwrite_one)

lemma overwrite_nil [simp]: "overwrite out pos [] = out"
  by (simp add: overwrite_def)

lemma hex_loop_overwrite:
  "pos + 2 * length bs \<le> length out \<Longrightarrow> hex_loop bs pos out = overwrite out pos (hex_string bs)"
  by (induction bs arbitrary: pos out) (simp_all add: overwrite_two)

lemma unhex_loop_hex_string:
  "pos + length bs \<le> length out \<Longrightarrow> unhex_loop (hex_string bs) pos out = (True, overwrite out pos bs)"
  by (induction bs arbitrary: pos out)
    (simp_all add: HexChar2Num_hex_digit nibbles_lt nibbles_join overwrite_one)

text \<open>
  Hexadecimal coding round trips: \<open>UtilsHexify\<close> into a buffer of twice the length succeeds, and
  \<open>UtilsUnhexify\<close> of its output into any buffer that is long enough succeeds and writes exactly the
  original bytes, leaving the rest of the buffer as it was.
\<close>

theorem Hexify_Unhexify:
  assumes "inp \<noteq> []" "length hexBuf = 2 * length inp" "length inp \<le> length out"
  shows "\<exists>h. UtilsHexify (Some inp) (Some hexBuf) = (True, Some h) \<and>
    UtilsUnhexify (Some h) (Some out) = (True, Some (inp @ drop (length inp) out))"
proof -
  have "hex_loop inp 0 hexBuf = hex_string inp"
    using assms(2) by (simp add: hex_loop_overwrite overwrite_def)
  moreover have "hex_string inp \<noteq> []" using assms(1) by (cases inp) simp_all
  ultimately show ?thesis
    using assms by (auto simp: UtilsHexify_def UtilsUnhexify_def unhex_loop_hex_string overwrite_def)
qed

theorem Hexify_Unhexify_witness:
  "\<exists>h. UtilsHexify (Some [0xAB, 1]) (Some [0, 0, 0, 0]) = (True, Some h) \<and>
    UtilsUnhexify (Some h) (Some [9, 9, 9]) = (True, Some ([0xAB, 1] @ drop 2 [9, 9, 9]))"
  using Hexify_Unhexify [of "[0xAB, 1]" "[0, 0, 0, 0]" "[9, 9, 9]"] by (simp only: list.size) simp

section \<open>Strings\<close>

text \<open>
  \<open>UtilsReplaceStrWithRange\<close> with a valid range on a string that fits its buffer replaces exactly
  the characters \<open>startIndex..endIndex\<close> when the result and its terminator fit the buffer, and
  otherwise reports an error and leaves the string unchanged.
\<close>

theorem UtilsReplaceStrWithRange_spec:
  assumes "0 \<le> startIndex" "startIndex \<le> endIndex" "endIndex < int (length s)" "length s < bufLen"
  shows "UtilsReplaceStrWithRange (Some s) bufLen startIndex endIndex (Some r) =
    (let s' = take (nat startIndex) s @ r @ drop (nat endIndex + 1) s
     in if length s' < bufLen then (IOTC_OK, Some s') else (IOTC_ERR_SECUREC_STRCPY, Some s))"
proof -
  have "drop (nat endIndex + 1) s = []" if "\<not> endIndex < int (length s) - 1"
    using that assms by simp
  moreover have "int (length (drop (nat endIndex + 1) s)) = int (length s) - endIndex - 1"
    using assms by simp
  moreover have "length (take (nat startIndex) s) = nat startIndex" using assms by simp
  ultimately show ?thesis
    using assms by (auto simp: UtilsReplaceStrWithRange_def strcpy_fits_def Let_def)
qed

theorem UtilsReplaceStrWithRange_spec_witness:
  "UtilsReplaceStrWithRange (Some [1, 2, 3]) 8 1 1 (Some [7, 7]) = (IOTC_OK, Some [1, 7, 7, 3])"
  using UtilsReplaceStrWithRange_spec [of 1 1 "[1, 2, 3]" 8 "[7, 7]"] by (simp add: Let_def)

text \<open>
  \<open>UtilsStrDupWithLen\<close> reads one byte more than the length it is given: on a region of exactly
  \<open>len\<close> characters without a terminator it reads past the end of the region whenever the
  allocation succeeds, while with one more readable byte it returns the \<open>len\<close> characters terminated.
\<close>

theorem UtilsStrDupWithLen_overread:
  assumes "0 \<notin> set s" "length s < 64 * 1024"
  shows "UtilsStrDupWithLen True (Some s) (length s) = None \<and>
    UtilsStrDupWithLen True (Some (s @ [b])) (length s) = Some (Some (s @ [0]))"
  using assms strlen_append_zero [OF assms(1), of "[]"]
  by (simp add: UtilsStrDupWithLen_def UtilsMallocCopy_def Let_def list_update_append)

theorem UtilsStrDupWithLen_overread_witness:
  "UtilsStrDupWithLen True (Some [65, 66]) (Suc (Suc 0)) = None \<and>
   UtilsStrDupWithLen True (Some ([65, 66] @ [1])) (Suc (Suc 0)) = Some (Some [65, 66, 0])"
  using UtilsStrDupWithLen_overread [of "[65, 66]" 1] by simp

end
