(* ===== verification/LL_Fragment.thy ===== *)
theory LL_Fragment
  imports Utils_Common Contracts
begin

text \<open>
  Fragmentation of the BLE link layer: \<open>linklayer_send.c\<close> cuts a message into packets of at most 160
  bytes with a 7-byte head, \<open>linklayer_recv.c\<close> collects them in a buffer with one 153-byte slot per
  fragment.  The registered send callback is a function of the packet's position in the call; the
  receive pool is a record holding the cached messages.
\<close>

section \<open>Sending\<close>

abbreviation (input) PKG_HEAD_LEN :: nat where "PKG_HEAD_LEN \<equiv> 7"
abbreviation (input) PKG_HEAD_TYPE_IDX :: nat where "PKG_HEAD_TYPE_IDX \<equiv> 0"
abbreviation (input) PKG_HEAD_TOKEN_IDX :: nat where "PKG_HEAD_TOKEN_IDX \<equiv> 1"
abbreviation (input) PKG_HEAD_PKGNUM_IDX :: nat where "PKG_HEAD_PKGNUM_IDX \<equiv> 2"
abbreviation (input) PKG_HEAD_INDEX_IDX :: nat where "PKG_HEAD_INDEX_IDX \<equiv> 3"
abbreviation (input) PKG_HEAD_RESERVED_IDX :: nat where "PKG_HEAD_RESERVED_IDX \<equiv> 4"
abbreviation (input) PKG_HEAD_ENCRYPT_TYPE_IDX :: nat where "PKG_HEAD_ENCRYPT_TYPE_IDX \<equiv> 5"
abbreviation (input) PKG_HEAD_RET_IDX :: nat where "PKG_HEAD_RET_IDX \<equiv> 6"
abbreviation (input) SINGLE_PKG_MAX_SIZE :: nat where "SINGLE_PKG_MAX_SIZE \<equiv> 160"
abbreviation (input) SINGLE_PKG_DATA_MAX_SIZE :: nat where "SINGLE_PKG_DATA_MAX_SIZE \<equiv> 153"

text \<open>\<open>g_pkgMaxNum\<close> and \<open>g_linkLayerSendBtDataCb\<close>.\<close>

record ll_send =
  ls_pkgMaxNum :: u8
  ls_cb :: "(nat \<Rightarrow> bytes \<Rightarrow> ret) option"

definition LinkLayerSetSendMaxPkg :: "ll_send \<Rightarrow> u8 \<Rightarrow> ret \<times> ll_send" where
  "LinkLayerSetSendMaxPkg st maxPkg =
    (if \<not> maxPkg > 0 then (IOTC_ERR_PARAM_INVALID, st) else (IOTC_OK, st\<lparr>ls_pkgMaxNum := maxPkg\<rparr>))"

definition LinkLayerRegisterBtDataSendCb :: "ll_send \<Rightarrow> (nat \<Rightarrow> bytes \<Rightarrow> ret) option \<Rightarrow> ret \<times> ll_send" where
  "LinkLayerRegisterBtDataSendCb st cb =
    (if cb = None then (IOTC_ERR_PARAM_INVALID, st) else (IOTC_OK, st\<lparr>ls_cb := cb\<rparr>))"

definition LinkLayerBtDataSend :: "ll_send \<Rightarrow> nat \<Rightarrow> bytes \<Rightarrow> ret" where
  "LinkLayerBtDataSend st i buff =
    (case ls_cb st of
       None \<Rightarrow> IOTC_ERR_CALLBACK_NULL
     | Some cb \<Rightarrow> if cb i buff = IOTC_OK then IOTC_OK else IOTC_CORE_BLE_LL_ERR_DATA_SEND)"

text \<open>
  The send loop from packet \<open>i\<close> on with \<open>k\<close> packets to go and \<open>left\<close> the data after \<open>curPtr\<close>; it
  returns the packets handed to the callback successfully.
\<close>

primrec send_loop :: "ll_send \<Rightarrow> bytes \<Rightarrow> nat \<Rightarrow> nat \<Rightarrow> nat \<Rightarrow> bytes \<Rightarrow> ret \<times> bytes list" where
  "send_loop st buff pkgNum i 0 left = (IOTC_OK, [])"
| "send_loop st buff pkgNum i (Suc k) left =
    (let sendBuffLen = min SINGLE_PKG_MAX_SIZE (length left + PKG_HEAD_LEN);
         sendBuff = (take PKG_HEAD_LEN buff)[PKG_HEAD_PKGNUM_IDX := of_nat pkgNum, PKG_HEAD_INDEX_IDX := of_nat i]
                    @ take (sendBuffLen - PKG_HEAD_LEN) left;
         r = LinkLayerBtDataSend st i sendBuff
     in if r \<noteq> IOTC_OK then (r, [])
        else
          (let (r', sent) = send_loop st buff pkgNum (i + 1) k (drop (sendBuffLen - PKG_HEAD_LEN) left)
           in (r', sendBuff # sent)))"

definition LinkLayerSendBtPkg :: "ll_send \<Rightarrow> bytes option \<Rightarrow> ret \<times> bytes list" where
  "LinkLayerSendBtPkg st buff =
    (case buff of
       None \<Rightarrow> (IOTC_ERR_PARAM_INVALID, [])
     | Some b \<Rightarrow>
         if \<not> length b > PKG_HEAD_LEN then (IOTC_ERR_PARAM_INVALID, [])
         else
           (let totalDataLen = length b - PKG_HEAD_LEN;
                pkgNum = totalDataLen div SINGLE_PKG_DATA_MAX_SIZE +
                         (if totalDataLen mod SINGLE_PKG_DATA_MAX_SIZE = 0 then 0 else 1)
            in if \<not> pkgNum \<le> unat (ls_pkgMaxNum st) then (IOTC_CORE_BLE_LL_ERR_PKGNUM, [])
               else send_loop st b pkgNum 0 pkgNum (drop PKG_HEAD_LEN b)))"

section \<open>Receiving\<close>

abbreviation (input) RECV_PKG_MAX_NUM :: nat where "RECV_PKG_MAX_NUM \<equiv> 1"
abbreviation (input) PKG_TIMEOUT :: u32 where "PKG_TIMEOUT \<equiv> 10000"
abbreviation (input) RECV_SINGLE_PKG_DATA_MAX_SIZE :: nat where "RECV_SINGLE_PKG_DATA_MAX_SIZE \<equiv> 153"
abbreviation (input) PKG_MAX_NUM_LIMIT :: u8 where "PKG_MAX_NUM_LIMIT \<equiv> 16"

record CachePkgData =
  cp_savedTime :: u32
  cp_mergeBuff :: bytes
  cp_mergeBuffCap :: nat
  cp_curDataLen :: nat
  cp_recvMask :: u16
  cp_token :: u8
  cp_pkgNum :: u8
  cp_curSize :: nat

record PkgList =
  pl_size :: nat
  pl_pkgs :: "CachePkgData list"

definition LinkLayerClearAllCachePkg :: "PkgList \<Rightarrow> PkgList" where
  "LinkLayerClearAllCachePkg pl = \<lparr>pl_size = pl_size pl - length (pl_pkgs pl), pl_pkgs = []\<rparr>"

definition pkg_live :: "u32 \<Rightarrow> CachePkgData \<Rightarrow> bool" where
  "pkg_live curTime p = (UtilsDeltaTime curTime (cp_savedTime p) < PKG_TIMEOUT)"

definition ClearTimeoutPkg :: "u32 \<Rightarrow> PkgList \<Rightarrow> PkgList" where
  "ClearTimeoutPkg curTime pl =
    \<lparr>pl_size = pl_size pl - length (filter (\<lambda>p. \<not> pkg_live curTime p) (pl_pkgs pl)),
     pl_pkgs = filter (pkg_live curTime) (pl_pkgs pl)\<rparr>"

definition FindPkgByToken :: "u8 \<Rightarrow> PkgList \<Rightarrow> CachePkgData option" where
  "FindPkgByToken tk pl = find (\<lambda>p. cp_token p = tk) (pl_pkgs pl)"

text \<open>Writing through the pointer that \<open>FindPkgByToken\<close> returned, and unlinking that node.\<close>

fun update_pkg :: "u8 \<Rightarrow> (CachePkgData \<Rightarrow> CachePkgData) \<Rightarrow> CachePkgData list \<Rightarrow> CachePkgData list" where
  "update_pkg tk f [] = []"
| "update_pkg tk f (p # ps) = (if cp_token p = tk then f p # ps else p # update_pkg tk f ps)"

fun remove_pkg :: "u8 \<Rightarrow> CachePkgData list \<Rightarrow> CachePkgData list" where
  "remove_pkg tk [] = []"
| "remove_pkg tk (p # ps) = (if cp_token p = tk then ps else p # remove_pkg tk ps)"

text \<open>A new cache entry with a zeroed buffer of one slot per fragment and a terminator.\<close>

definition new_pkg :: "u32 \<Rightarrow> u8 \<Rightarrow> u8 \<Rightarrow> CachePkgData" where
  "new_pkg now tk num =
    (let cap = unat num * RECV_SINGLE_PKG_DATA_MAX_SIZE in
     \<lparr>cp_savedTime = now, cp_mergeBuff = replicate (cap + 1) 0, cp_mergeBuffCap = cap, cp_curDataLen = 0,
      cp_recvMask = 0, cp_token = tk, cp_pkgNum = num, cp_curSize = 0\<rparr>)"

text \<open>Storing one fragment in the entry found.\<close>

definition store_frag :: "u8 \<Rightarrow> bytes \<Rightarrow> CachePkgData \<Rightarrow> ret \<times> CachePkgData" where
  "store_frag pkgIdx data p =
    (if cp_recvMask p AND push_bit (unat pkgIdx) 1 \<noteq> 0 then (IOTC_OK, p)
     else
       (let offset = unat pkgIdx * RECV_SINGLE_PKG_DATA_MAX_SIZE in
        if \<not> offset + length data \<le> cp_mergeBuffCap p then (IOTC_CORE_BLE_LL_ERR_PKGLEN, p)
        else if length data > cp_mergeBuffCap p - offset then (IOTC_ERR_SECUREC_MEMCPY, p)
        else (IOTC_OK,
              p\<lparr>cp_mergeBuff := overwrite (cp_mergeBuff p) offset data,
                cp_recvMask := cp_recvMask p OR push_bit (unat pkgIdx) 1,
                cp_curSize := cp_curSize p + 1,
                cp_curDataLen := cp_curDataLen p + length data\<rparr>)))"

definition LinkLayerRecvPkgInsert ::
    "(nat \<Rightarrow> u32) \<Rightarrow> alloc \<Rightarrow> PkgList \<Rightarrow> u8 \<Rightarrow> u8 \<Rightarrow> u8 \<Rightarrow> bytes option \<Rightarrow> ret \<times> PkgList" where
  "LinkLayerRecvPkgInsert clock mem pl tk pkgNum pkgIdx data =
    (case data of
       None \<Rightarrow> (IOTC_ERR_PARAM_INVALID, pl)
     | Some d \<Rightarrow>
         if \<not> length d > 0 then (IOTC_ERR_PARAM_INVALID, pl)
         else if \<not> (pkgNum > 0 \<and> pkgNum \<le> PKG_MAX_NUM_LIMIT) then (IOTC_CORE_BLE_LL_ERR_PKGNUM, pl)
         else if \<not> pkgIdx < pkgNum then (IOTC_CORE_BLE_LL_ERR_PKGNUM, pl)
         else if \<not> length d \<le> RECV_SINGLE_PKG_DATA_MAX_SIZE then (IOTC_CORE_BLE_LL_ERR_PKGLEN, pl)
         else if \<not> (length d = RECV_SINGLE_PKG_DATA_MAX_SIZE \<or> unat pkgIdx + 1 = unat pkgNum) then
           (IOTC_CORE_BLE_LL_ERR_PKGLEN, pl)
         else
           (let pl = ClearTimeoutPkg (clock 0) pl in
            case FindPkgByToken tk pl of
              None \<Rightarrow>
                if \<not> pl_size pl < RECV_PKG_MAX_NUM then (IOTC_CORE_BLE_LL_ERR_POOL_FULL, pl)
                else if \<not> mem 0 then (IOTC_ADAPTER_MEM_ERR_CALLOC, pl)
                else if \<not> mem 1 then (IOTC_ADAPTER_MEM_ERR_CALLOC, pl)
                else
                  (let (r, p) = store_frag pkgIdx d (new_pkg (clock 1) tk pkgNum)
                   in (r, \<lparr>pl_size = pl_size pl + 1, pl_pkgs = pl_pkgs pl @ [p]\<rparr>))
            | Some p \<Rightarrow>
                (let (r, p') = store_frag pkgIdx d p
                 in (r, pl\<lparr>pl_pkgs := update_pkg tk (\<lambda>_. p') (pl_pkgs pl)\<rparr>))))"

text \<open>The second component is the out parameter when it is written.\<close>

definition LinkLayerRecvCompleteCheck :: "PkgList \<Rightarrow> u8 \<Rightarrow> ret \<times> bool option" where
  "LinkLayerRecvCompleteCheck pl tk =
    (case FindPkgByToken tk pl of
       None \<Rightarrow> (IOTC_CORE_BLE_LL_ERR_TOKEN, None)
     | Some p \<Rightarrow>
         if cp_curSize p = unat (cp_pkgNum p) then (IOTC_OK, Some True)
         else if cp_curSize p < unat (cp_pkgNum p) then (IOTC_OK, Some False)
         else (IOTC_CORE_BLE_LL_ERR_PKGNUM, None))"

text \<open>The merged buffer (with its terminator) and the data length move to the caller.\<close>

definition LinkLayerRecvMergePkgs :: "PkgList \<Rightarrow> u8 \<Rightarrow> ret \<times> PkgList \<times> (bytes \<times> nat) option" where
  "LinkLayerRecvMergePkgs pl tk =
    (let (r, isComplete) = LinkLayerRecvCompleteCheck pl tk in
     if \<not> (r = IOTC_OK \<and> isComplete = Some True) then (r, pl, None)
     else
       (case FindPkgByToken tk pl of
          None \<Rightarrow> (IOTC_CORE_BLE_LL_ERR_TOKEN, pl, None)
        | Some p \<Rightarrow>
            if \<not> cp_curDataLen p \<noteq> 0 then (IOTC_CORE_BLE_LL_ERR_PKGLEN, pl, None)
            else (IOTC_OK, \<lparr>pl_size = pl_size pl - 1, pl_pkgs = remove_pkg tk (pl_pkgs pl)\<rparr>,
                  Some (cp_mergeBuff p, cp_curDataLen p))))"

section \<open>Fragments of a message\<close>

definition frag :: "bytes \<Rightarrow> nat \<Rightarrow> bytes" where
  "frag D i = take 153 (drop (153 * i) D)"

definition frag_count :: "bytes \<Rightarrow> nat" where
  "frag_count D = length D div 153 + (if length D mod 153 = 0 then 0 else 1)"

lemma frag_count_bounds:
  "i < frag_count D \<longleftrightarrow> 153 * i < length D" "length D \<le> 153 * frag_count D"
proof -
  define q r where "q = length D div 153" and "r = length D mod 153"
  have len: "length D = 153 * q + r" "r < 153" by (simp_all add: q_def r_def)
  have n: "frag_count D = q + (if r = 0 then 0 else 1)" by (simp add: frag_count_def q_def r_def)
  show "i < frag_count D \<longleftrightarrow> 153 * i < length D"
    unfolding n len(1) using len(2) by (cases "r = 0") auto
  show "length D \<le> 153 * frag_count D"
    unfolding n len(1) using len(2) by (cases "r = 0") auto
qed

lemma frag_facts:
  assumes "i < frag_count D"
  shows "0 < length (frag D i)" "length (frag D i) \<le> 153"
    "length (frag D i) = 153 \<or> i + 1 = frag_count D"
    "153 * i + length (frag D i) \<le> 153 * frag_count D"
proof -
  have i: "153 * i < length D" using assms frag_count_bounds(1) by blast
  show "0 < length (frag D i)" "length (frag D i) \<le> 153" using i by (simp_all add: frag_def)
  show "length (frag D i) = 153 \<or> i + 1 = frag_count D"
  proof (cases "i + 1 < frag_count D")
    case True
    then have "153 * (i + 1) < length D" using frag_count_bounds(1) by blast
    then show ?thesis by (simp add: frag_def)
  next
    case False
    then show ?thesis using assms by simp
  qed
  show "153 * i + length (frag D i) \<le> 153 * frag_count D"
    using frag_count_bounds(2) [of D] i by (simp add: frag_def)
qed

lemma frag_lengths: "(\<Sum>i < k. length (frag D i)) = min (153 * k) (length D)"
  by (induction k) (auto simp: frag_def min_def)

lemma frag_lengths_total: "(\<Sum>i < frag_count D. length (frag D i)) = length D"
  using frag_lengths [of D "frag_count D"] frag_count_bounds(2) [of D] by simp

section \<open>What is sent\<close>

definition pkg_head :: "bytes \<Rightarrow> nat \<Rightarrow> nat \<Rightarrow> bytes" where
  "pkg_head b n i = (take 7 b)[2 := of_nat n, 3 := of_nat i]"

lemma send_loop_frags:
  assumes "\<And>i p. LinkLayerBtDataSend st i p = IOTC_OK" "left = drop (153 * i) D"
  shows "send_loop st b n i k left = (IOTC_OK, map (\<lambda>j. pkg_head b n j @ frag D j) [i..<i + k])"
  using assms(2)
proof (induction k arbitrary: i left)
  case (Suc k)
  have "take (min 160 (length left + 7) - 7) left = take 153 left"
    "drop (min 160 (length left + 7) - 7) left = drop 153 left"
    by (auto simp: min_def)
  then show ?case
    using Suc.IH [of "drop 153 left" "i + 1"] Suc.prems
    by (simp add: assms(1) Let_def frag_def pkg_head_def upt_rec [of i] add.commute)
qed simp

lemma LinkLayerSendBtPkg_frags:
  assumes "\<And>i p. LinkLayerBtDataSend st i p = IOTC_OK" "length b > 7"
    "frag_count (drop 7 b) \<le> unat (ls_pkgMaxNum st)"
  shows "LinkLayerSendBtPkg st (Some b) =
    (IOTC_OK, map (\<lambda>j. pkg_head b (frag_count (drop 7 b)) j @ frag (drop 7 b) j) [0..<frag_count (drop 7 b)])"
  using assms send_loop_frags [OF assms(1), of "drop 7 b" 0 "drop 7 b" b]
  by (simp add: LinkLayerSendBtPkg_def frag_count_def Let_def)

section \<open>Reassembly\<close>

definition recv_entry :: "bytes \<Rightarrow> u8 \<Rightarrow> u32 \<Rightarrow> nat set \<Rightarrow> CachePkgData \<Rightarrow> bool" where
  "recv_entry D tk t0 S e \<longleftrightarrow>
    cp_token e = tk \<and> cp_savedTime e = t0 \<and> cp_pkgNum e = of_nat (frag_count D) \<and>
    cp_mergeBuffCap e = 153 * frag_count D \<and> length (cp_mergeBuff e) = 153 * frag_count D + 1 \<and>
    (\<forall>i < 16. bit (cp_recvMask e) i \<longleftrightarrow> i \<in> S) \<and> S \<subseteq> {..<frag_count D} \<and>
    cp_curSize e = card S \<and> cp_curDataLen e = (\<Sum>i \<in> S. length (frag D i)) \<and>
    (\<forall>i \<in> S. take (length (frag D i)) (drop (153 * i) (cp_mergeBuff e)) = frag D i)"

lemma mask_bit [simp]: "(m :: u16) AND 2 ^ i = 0 \<longleftrightarrow> \<not> bit m i"
  by (simp add: bit_iff_and_push_bit_not_eq_0)

lemma unat_small_u8: "n \<le> 16 \<Longrightarrow> unat (of_nat n :: u8) = n"
  by (simp add: unat_of_nat take_bit_nat_eq_self)

lemma store_frag_entry:
  assumes e: "recv_entry D tk t0 S e" and i: "i < frag_count D" and n: "frag_count D \<le> 16"
  shows "\<exists>e'. store_frag (of_nat i) (frag D i) e = (IOTC_OK, e') \<and> recv_entry D tk t0 (insert i S) e'"
proof (cases "i \<in> S")
  case True
  then have "insert i S = S" by blast
  then show ?thesis using True e i n
    by (auto simp: store_frag_def recv_entry_def unat_small_u8)
next
  case False
  have u: "unat (of_nat i :: u8) = i" using i n by (simp add: unat_small_u8)
  note f = frag_facts [OF i]
  let ?b = "overwrite (cp_mergeBuff e) (153 * i) (frag D i)"
  let ?e = "e\<lparr>cp_mergeBuff := ?b, cp_recvMask := cp_recvMask e OR push_bit i 1,
      cp_curSize := cp_curSize e + 1, cp_curDataLen := cp_curDataLen e + length (frag D i)\<rparr>"
  have bits: "\<forall>j < 16. bit (cp_recvMask e) j \<longleftrightarrow> j \<in> S" and fin: "finite S" and sub: "S \<subseteq> {..<frag_count D}"
    and len: "length (cp_mergeBuff e) = 153 * frag_count D + 1"
    using e by (auto simp: recv_entry_def intro: finite_subset)
  have "store_frag (of_nat i) (frag D i) e = (IOTC_OK, ?e)"
    using False bits e i n u f
    by (auto simp: store_frag_def recv_entry_def Let_def mult.commute)
  moreover have "recv_entry D tk t0 (insert i S) ?e"
  proof -
    have "bit (cp_recvMask e OR push_bit i 1) j \<longleftrightarrow> j \<in> insert i S" if "j < 16" for j
      using that bits by (auto simp: bit_simps)
    moreover have "take (length (frag D j)) (drop (153 * j) ?b) = frag D j" if "j \<in> insert i S" for j
    proof (cases "j = i")
      case True
      then show ?thesis using f(4) len by simp
    next
      case neq: False
      have j: "j < frag_count D" using that neq sub by auto
      have "153 * j + length (frag D j) \<le> 153 * i \<or> 153 * i + length (frag D i) \<le> 153 * j"
        using frag_facts(2) [OF j] f(2) neq by linarith
      then show ?thesis
        using e that neq slice_overwrite_other [of "153 * i" "frag D i" "cp_mergeBuff e" "153 * j" "length (frag D j)"]
          f(4) frag_facts(4) [OF j] len by (auto simp: recv_entry_def)
    qed
    ultimately show ?thesis
      using e False fin i f(4) len by (auto simp: recv_entry_def)
  qed
  ultimately show ?thesis by blast
qed

lemma recv_entry_new:
  assumes "frag_count D \<le> 16"
  shows "recv_entry D tk t {} (new_pkg t tk (of_nat (frag_count D)))"
  using assms by (simp add: recv_entry_def new_pkg_def Let_def unat_small_u8)

text \<open>Once every fragment is in, the buffer starts with the message.\<close>

lemma recv_entry_complete:
  assumes e: "recv_entry D tk t0 {..<frag_count D} e"
  shows "cp_curSize e = frag_count D" "cp_curDataLen e = length D" "take (length D) (cp_mergeBuff e) = D"
proof -
  show "cp_curSize e = frag_count D" "cp_curDataLen e = length D"
    using e frag_lengths_total [of D] by (simp_all add: recv_entry_def)
  have len: "length D \<le> length (cp_mergeBuff e)"
    using e frag_count_bounds(2) [of D] by (simp add: recv_entry_def)
  show "take (length D) (cp_mergeBuff e) = D"
  proof (rule nth_equalityI)
    show "length (take (length D) (cp_mergeBuff e)) = length D" using len by simp
    fix j assume "j < length (take (length D) (cp_mergeBuff e))"
    then have j: "j < length D" using len by simp
    define i where "i = j div 153"
    have ij: "j = 153 * i + j mod 153" "j mod 153 < 153" by (simp_all add: i_def)
    have "i < frag_count D" using j ij frag_count_bounds(1) [of i D] by linarith
    then have s: "take (length (frag D i)) (drop (153 * i) (cp_mergeBuff e)) = frag D i"
      using e by (simp add: recv_entry_def)
    have r: "j mod 153 < length (frag D i)" using j ij by (simp add: frag_def)
    have "cp_mergeBuff e ! j = take (length (frag D i)) (drop (153 * i) (cp_mergeBuff e)) ! (j mod 153)"
      using r len j ij by simp
    also have "\<dots> = frag D i ! (j mod 153)" using s by simp
    also have "\<dots> = D ! j" using r ij j by (simp add: frag_def)
    finally show "take (length D) (cp_mergeBuff e) ! j = D ! j" using j by simp
  qed
qed

section \<open>Delivering the fragments of a message in any order\<close>

definition recv_frag :: "bytes \<Rightarrow> u8 \<Rightarrow> PkgList \<Rightarrow> (nat \<Rightarrow> u32) \<Rightarrow> nat \<Rightarrow> ret \<times> PkgList" where
  "recv_frag D tk pl clock i =
    LinkLayerRecvPkgInsert clock (\<lambda>_. True) pl tk (of_nat (frag_count D)) (of_nat i) (Some (frag D i))"

lemma frag_guards:
  assumes "i < frag_count D" "frag_count D \<le> 16"
  shows "(of_nat (frag_count D) :: u8) > 0" "(of_nat (frag_count D) :: u8) \<le> 16"
    "(of_nat i :: u8) < of_nat (frag_count D)"
    "unat (of_nat i :: u8) = i" "unat (of_nat (frag_count D) :: u8) = frag_count D"
  using assms by (simp_all add: word_less_nat_alt word_le_nat_alt unat_small_u8)

lemma LinkLayerRecvPkgInsert_frag:
  assumes "i < frag_count D" "frag_count D \<le> 16"
  shows "recv_frag D tk pl clock i =
    (let pl = ClearTimeoutPkg (clock 0) pl in
     case FindPkgByToken tk pl of
       None \<Rightarrow>
         if \<not> pl_size pl < 1 then (IOTC_CORE_BLE_LL_ERR_POOL_FULL, pl)
         else
           (let (r, p) = store_frag (of_nat i) (frag D i) (new_pkg (clock 1) tk (of_nat (frag_count D)))
            in (r, \<lparr>pl_size = pl_size pl + 1, pl_pkgs = pl_pkgs pl @ [p]\<rparr>))
     | Some p \<Rightarrow>
         (let (r, p') = store_frag (of_nat i) (frag D i) p
          in (r, pl\<lparr>pl_pkgs := update_pkg tk (\<lambda>_. p') (pl_pkgs pl)\<rparr>)))"
  using frag_guards [OF assms] frag_facts [OF assms(1)]
  by (auto simp: recv_frag_def LinkLayerRecvPkgInsert_def Let_def split: option.split)

lemma recv_frag_first:
  assumes "i < frag_count D" "frag_count D \<le> 16"
  shows "\<exists>e. recv_frag D tk \<lparr>pl_size = 0, pl_pkgs = []\<rparr> clock i = (IOTC_OK, \<lparr>pl_size = 1, pl_pkgs = [e]\<rparr>) \<and>
    recv_entry D tk (clock 1) {i} e"
  using store_frag_entry [OF recv_entry_new [OF assms(2), of tk "clock 1"] assms]
  by (auto simp: LinkLayerRecvPkgInsert_frag [OF assms] ClearTimeoutPkg_def FindPkgByToken_def)

lemma recv_frag_next:
  assumes "i < frag_count D" "frag_count D \<le> 16" "recv_entry D tk t0 S e" "clock 0 - t0 < PKG_TIMEOUT"
  shows "\<exists>e'. recv_frag D tk \<lparr>pl_size = 1, pl_pkgs = [e]\<rparr> clock i = (IOTC_OK, \<lparr>pl_size = 1, pl_pkgs = [e']\<rparr>) \<and>
    recv_entry D tk t0 (insert i S) e'"
proof -
  have "cp_token e = tk" "pkg_live (clock 0) e"
    using assms(3,4) by (simp_all add: recv_entry_def pkg_live_def)
  then show ?thesis
    using store_frag_entry [OF assms(3,1,2)]
    by (auto simp: LinkLayerRecvPkgInsert_frag [OF assms(1,2)] ClearTimeoutPkg_def FindPkgByToken_def)
qed

lemma recv_frags_rest:
  assumes "recv_entry D tk t0 S e" "frag_count D \<le> 16"
    "\<forall>(clock, i) \<in> set evs. i < frag_count D \<and> clock 0 - t0 < PKG_TIMEOUT"
  shows "\<exists>e'. foldl (\<lambda>pl (clock, i). snd (recv_frag D tk pl clock i)) \<lparr>pl_size = 1, pl_pkgs = [e]\<rparr> evs =
      \<lparr>pl_size = 1, pl_pkgs = [e']\<rparr> \<and> recv_entry D tk t0 (S \<union> snd ` set evs) e'"
  using assms
proof (induction evs arbitrary: S e)
  case (Cons ev evs)
  obtain clock i where ev: "ev = (clock, i)" by (cases ev)
  then obtain e1 where e1: "recv_frag D tk \<lparr>pl_size = 1, pl_pkgs = [e]\<rparr> clock i = (IOTC_OK, \<lparr>pl_size = 1, pl_pkgs = [e1]\<rparr>)"
    "recv_entry D tk t0 (insert i S) e1"
    using recv_frag_next [of i D tk t0 S e clock] Cons.prems by auto
  from Cons.IH [OF e1(2)] Cons.prems show ?case by (simp add: ev e1(1) [simplified])
qed auto

text \<open>The whole message arrives: the pool holds one entry that merges to the message.\<close>

lemma recv_frags_all:
  assumes "frag_count D \<le> 16" "snd ` set ((clock0, i0) # evs) = {..<frag_count D}"
    "\<forall>(clock, i) \<in> set evs. clock 0 - clock0 1 < PKG_TIMEOUT"
  shows "\<exists>e. foldl (\<lambda>pl (clock, i). snd (recv_frag D tk pl clock i)) \<lparr>pl_size = 0, pl_pkgs = []\<rparr> ((clock0, i0) # evs) =
      \<lparr>pl_size = 1, pl_pkgs = [e]\<rparr> \<and> recv_entry D tk (clock0 1) {..<frag_count D} e"
proof -
  have i0: "i0 < frag_count D" using assms(2) by auto
  obtain e0 where e0: "recv_frag D tk \<lparr>pl_size = 0, pl_pkgs = []\<rparr> clock0 i0 = (IOTC_OK, \<lparr>pl_size = 1, pl_pkgs = [e0]\<rparr>)"
    "recv_entry D tk (clock0 1) {i0} e0"
    using recv_frag_first [OF i0 assms(1)] by blast
  have "\<forall>(clock, i) \<in> set evs. i < frag_count D \<and> clock 0 - clock0 1 < PKG_TIMEOUT"
    using assms(2,3) by force
  from recv_frags_rest [OF e0(2) assms(1) this] show ?thesis
    using e0(1) assms(2) by auto
qed

lemma merge_complete:
  assumes "recv_entry D tk t0 {..<frag_count D} e" "D \<noteq> []" "frag_count D \<le> 16"
  shows "\<exists>buf. LinkLayerRecvMergePkgs \<lparr>pl_size = 1, pl_pkgs = [e]\<rparr> tk =
      (IOTC_OK, \<lparr>pl_size = 0, pl_pkgs = []\<rparr>, Some (buf, length D)) \<and> take (length D) buf = D"
proof -
  have "cp_token e = tk" "cp_pkgNum e = of_nat (frag_count D)"
    using assms(1) by (simp_all add: recv_entry_def)
  then show ?thesis
    using recv_entry_complete [OF assms(1)] assms(2,3)
    by (simp add: LinkLayerRecvMergePkgs_def LinkLayerRecvCompleteCheck_def FindPkgByToken_def unat_small_u8)
qed

section \<open>The pool under arbitrary packets\<close>

definition mask_set :: "u16 \<Rightarrow> nat set" where
  "mask_set m = {i. i < 16 \<and> bit m i}"

lemma finite_mask_set [simp]: "finite (mask_set m)"
  by (simp add: mask_set_def)

lemma mask_set_simps [simp]:
  "mask_set 0 = {}"
  "i < 16 \<Longrightarrow> mask_set (m OR 2 ^ i) = insert i (mask_set m)"
  by (auto simp: mask_set_def bit_simps)

definition entry_ok :: "CachePkgData \<Rightarrow> bool" where
  "entry_ok e \<longleftrightarrow> 0 < unat (cp_pkgNum e) \<and> unat (cp_pkgNum e) \<le> 16 \<and>
    cp_mergeBuffCap e = 153 * unat (cp_pkgNum e) \<and> length (cp_mergeBuff e) = cp_mergeBuffCap e + 1 \<and>
    mask_set (cp_recvMask e) \<subseteq> {..<unat (cp_pkgNum e)} \<and> cp_curSize e = card (mask_set (cp_recvMask e)) \<and>
    cp_curDataLen e \<le> 153 * cp_curSize e \<and> (0 < cp_curSize e \<longrightarrow> 0 < cp_curDataLen e)"

definition pool_ok :: "PkgList \<Rightarrow> bool" where
  "pool_ok pl \<longleftrightarrow> pl_size pl = length (pl_pkgs pl) \<and> pl_size pl \<le> 1 \<and> list_all entry_ok (pl_pkgs pl)"

lemma entry_ok_size: "entry_ok e \<Longrightarrow> cp_curSize e \<le> unat (cp_pkgNum e)"
  using card_mono [of "{..<unat (cp_pkgNum e)}" "mask_set (cp_recvMask e)"] by (simp add: entry_ok_def)

lemma entry_ok_new: "0 < num \<Longrightarrow> num \<le> 16 \<Longrightarrow> entry_ok (new_pkg t tk num)"
  by (simp add: entry_ok_def new_pkg_def Let_def word_less_nat_alt word_le_nat_alt)

lemma store_frag_ok:
  assumes "entry_ok e" "0 < length d" "length d \<le> 153" "unat i < 16"
  shows "entry_ok (snd (store_frag i d e))"
proof (cases "bit (cp_recvMask e) (unat i) \<or> \<not> unat i * 153 + length d \<le> cp_mergeBuffCap e")
  case True
  then show ?thesis using assms by (auto simp: store_frag_def Let_def)
next
  case False
  then have "153 * unat i < 153 * unat (cp_pkgNum e)"
    using assms(1,2) unfolding entry_ok_def by linarith
  then have "unat i < unat (cp_pkgNum e)" by simp
  moreover have "unat i \<notin> mask_set (cp_recvMask e)" using False by (simp add: mask_set_def)
  moreover note False
  ultimately show ?thesis using assms by (auto simp: store_frag_def entry_ok_def Let_def mult.commute)
qed

lemma list_all_update_pkg:
  "list_all P ps \<Longrightarrow> P e \<Longrightarrow> list_all P (update_pkg tk (\<lambda>_. e) ps)"
  by (induction ps) auto

lemma length_update_pkg [simp]: "length (update_pkg tk f ps) = length ps"
  by (induction ps) auto

lemma FindPkgByToken_ok: "pool_ok pl \<Longrightarrow> FindPkgByToken tk pl = Some e \<Longrightarrow> entry_ok e"
  by (auto simp: pool_ok_def FindPkgByToken_def find_Some_iff list_all_iff)

lemma ClearTimeoutPkg_ok: "pool_ok pl \<Longrightarrow> pool_ok (ClearTimeoutPkg t pl)"
  using sum_length_filter_compl [of "pkg_live t" "pl_pkgs pl"]
  by (auto simp: pool_ok_def ClearTimeoutPkg_def list_all_iff)

lemma LinkLayerRecvPkgInsert_ok:
  assumes "pool_ok pl"
  shows "pool_ok (snd (LinkLayerRecvPkgInsert clock mem pl tk num idx data))"
proof (cases "\<exists>d. data = Some d \<and> 0 < length d \<and> 0 < num \<and> num \<le> 16 \<and> idx < num \<and> length d \<le> 153 \<and>
    (length d = 153 \<or> unat idx + 1 = unat num)")
  case False
  then show ?thesis using assms by (auto simp: LinkLayerRecvPkgInsert_def split: option.splits)
next
  case True
  then obtain d where d: "data = Some d" "0 < length d" "0 < num" "num \<le> 16" "idx < num" "length d \<le> 153"
    "length d = 153 \<or> unat idx + 1 = unat num" by blast
  have idx: "unat idx < 16" using d(4,5) by (simp add: word_less_nat_alt word_le_nat_alt)
  note ok = ClearTimeoutPkg_ok [OF assms, of "clock 0"]
  have st: "entry_ok (snd (store_frag idx d e))" if "entry_ok e" for e
    using store_frag_ok [OF that d(2,6) idx] .
  show ?thesis
  proof (cases "FindPkgByToken tk (ClearTimeoutPkg (clock 0) pl)")
    case None
    then show ?thesis
      using d ok st [OF entry_ok_new [OF d(3,4), of "clock 1" tk]]
      by (auto simp: LinkLayerRecvPkgInsert_def Let_def pool_ok_def split: prod.splits)
  next
    case (Some e)
    then show ?thesis
      using d ok st [OF FindPkgByToken_ok [OF ok Some]]
      by (auto simp: LinkLayerRecvPkgInsert_def Let_def pool_ok_def list_all_update_pkg split: prod.splits)
  qed
qed

lemma remove_pkg_find:
  "find (\<lambda>p. cp_token p = tk) ps = Some e \<Longrightarrow>
    length ps = Suc (length (remove_pkg tk ps)) \<and> set (remove_pkg tk ps) \<subseteq> set ps"
  by (induction ps) (auto split: if_splits)

lemma LinkLayerRecvMergePkgs_ok:
  assumes "pool_ok pl" "LinkLayerRecvMergePkgs pl tk = (r, pl', out)"
  shows "pool_ok pl'" "out = Some (buf, len) \<Longrightarrow> 0 < len \<and> len < length buf"
proof -
  consider "pl' = pl" "out = None" | e where "FindPkgByToken tk pl = Some e" "cp_curDataLen e \<noteq> 0"
      "cp_curSize e = unat (cp_pkgNum e)"
      "pl' = \<lparr>pl_size = pl_size pl - 1, pl_pkgs = remove_pkg tk (pl_pkgs pl)\<rparr>"
      "out = Some (cp_mergeBuff e, cp_curDataLen e)"
    using assms(2)
    by (auto simp: LinkLayerRecvMergePkgs_def LinkLayerRecvCompleteCheck_def Let_def
        split: option.splits if_splits prod.splits)
  then have "pool_ok pl' \<and> (out = Some (buf, len) \<longrightarrow> 0 < len \<and> len < length buf)"
  proof cases
    case 1
    then show ?thesis using assms(1) by simp
  next
    case (2 e)
    have "entry_ok e" using FindPkgByToken_ok [OF assms(1) 2(1)] .
    then show ?thesis
      using 2 assms(1) remove_pkg_find [of tk "pl_pkgs pl" e] entry_ok_size [of e]
      by (auto simp: pool_ok_def entry_ok_def FindPkgByToken_def list_all_iff)
  qed
  then show "pool_ok pl'" "out = Some (buf, len) \<Longrightarrow> 0 < len \<and> len < length buf" by simp_all
qed

datatype ll_event =
    RecvInsert "nat \<Rightarrow> u32" alloc u8 u8 u8 "bytes option"
  | RecvMerge u8
  | RecvClearAll

fun ll_step :: "PkgList \<Rightarrow> ll_event \<Rightarrow> PkgList" where
  "ll_step pl (RecvInsert clock mem tk num idx data) = snd (LinkLayerRecvPkgInsert clock mem pl tk num idx data)"
| "ll_step pl (RecvMerge tk) = fst (snd (LinkLayerRecvMergePkgs pl tk))"
| "ll_step pl RecvClearAll = LinkLayerClearAllCachePkg pl"

lemma ll_step_ok: "pool_ok pl \<Longrightarrow> pool_ok (ll_step pl ev)"
proof (cases ev)
  case (RecvMerge tk)
  then show "pool_ok pl \<Longrightarrow> ?thesis"
    using LinkLayerRecvMergePkgs_ok(1) [of pl tk] by (metis ll_step.simps(2) prod.collapse)
next
  case RecvClearAll
  then show "pool_ok pl \<Longrightarrow> ?thesis" by (simp add: pool_ok_def LinkLayerClearAllCachePkg_def)
qed (simp add: LinkLayerRecvPkgInsert_ok)

interpretation ll_pool: step_system ll_step pool_ok
  by unfold_locales (rule ll_step_ok)

abbreviation empty_pool :: PkgList where
  "empty_pool \<equiv> \<lparr>pl_size = 0, pl_pkgs = []\<rparr>"

text \<open>
  C11. Whatever packets arrive (any token, announced number, index, length, order, time and
  allocation outcome), interleaved with merges and clears: the pool holds at most one message, every
  write stays inside its buffer, no message has more fragments than announced, and a message
  handed out has a positive length that fits its buffer together with the terminator.
\<close>

theorem recv_pool_safe:
  "pool_ok (foldl ll_step empty_pool evs) \<and>
   fst (LinkLayerRecvCompleteCheck (foldl ll_step empty_pool evs) tk) \<noteq> IOTC_CORE_BLE_LL_ERR_PKGNUM \<and>
   (case LinkLayerRecvMergePkgs (foldl ll_step empty_pool evs) tk of
      (_, _, Some (buf, len)) \<Rightarrow> 0 < len \<and> len < length buf
    | (_, _, None) \<Rightarrow> True)"
proof -
  let ?pl = "foldl ll_step empty_pool evs"
  have ok: "pool_ok ?pl" by (rule ll_pool.run_inv) (simp add: pool_ok_def)
  have "fst (LinkLayerRecvCompleteCheck ?pl tk) \<noteq> IOTC_CORE_BLE_LL_ERR_PKGNUM"
    using FindPkgByToken_ok [OF ok, of tk] entry_ok_size
    by (auto simp: LinkLayerRecvCompleteCheck_def split: option.splits) fastforce
  moreover have "case LinkLayerRecvMergePkgs ?pl tk of
      (_, _, Some (buf, len)) \<Rightarrow> 0 < len \<and> len < length buf | (_, _, None) \<Rightarrow> True"
    using LinkLayerRecvMergePkgs_ok(2) [OF ok] by (auto split: prod.splits option.splits)
  ultimately show ?thesis using ok by blast
qed

text \<open>
  The announced number of fragments is only compared with the packet's own index: a fragment
  that announces a smaller message is accepted in the middle of a larger one.  Three accepted
  packets (first of three, last of two, last of three) complete a message whose reported bytes are
  not the fragments: the last fragment's byte is beyond the reported length and a filler byte is
  inside it.
\<close>

theorem mixed_pkgnum_gap:
  "let ins = (\<lambda>pl num idx d. LinkLayerRecvPkgInsert (\<lambda>_. 0) (\<lambda>_. True) pl 5 num idx (Some d));
       (r1, p1) = ins empty_pool 3 0 (replicate 153 1);
       (r2, p2) = ins p1 2 1 [9];
       (r3, p3) = ins p2 3 2 [7];
       (r4, p4, out) = LinkLayerRecvMergePkgs p3 5
   in [r1, r2, r3, r4] = [IOTC_OK, IOTC_OK, IOTC_OK, IOTC_OK] \<and>
      (case out of None \<Rightarrow> False | Some (buf, len) \<Rightarrow> len = 155 \<and> take 155 buf = replicate 153 1 @ [9, 0])"
  by code_simp

end
