(* ===== verification/LL_Service.thy ===== *)
theory LL_Service
  imports LL_Fragment
begin

text \<open>
  The service layer of the BLE link (\<open>linklayer_service.c\<close>): the registry of services, the service
  frame codec, and the dispatch of a decoded command to its handler.  A fallible function returns
  \<^term>\<open>Inl\<close> with its error code or \<^term>\<open>Inr\<close> with its outputs; service names are the string
  contents without terminator.
\<close>

section \<open>Data\<close>

abbreviation (input) BT_SVC_LEN :: nat where "BT_SVC_LEN \<equiv> 32"
abbreviation (input) BT_SERVICE_NUM_LIMIT :: nat where "BT_SERVICE_NUM_LIMIT \<equiv> 64"
abbreviation (input) BT_CMD_DATA_MODE_JSON :: u8 where "BT_CMD_DATA_MODE_JSON \<equiv> 1"
abbreviation (input) BT_OPTYPE_PUT :: u8 where "BT_OPTYPE_PUT \<equiv> 0"
abbreviation (input) BT_OPTYPE_GET :: u8 where "BT_OPTYPE_GET \<equiv> 1"
abbreviation (input) BT_OPTYPE_RPT :: u8 where "BT_OPTYPE_RPT \<equiv> 2"
abbreviation (input) SVC_TYPE_MASK :: u8 where "SVC_TYPE_MASK \<equiv> 0x0F"

record BtCmdParam =
  bc_dataFormat :: u8
  bc_opType :: u8
  bc_service :: bytes
  bc_request :: "bytes option"
  bc_requestLen :: nat

text \<open>A handler returns a code and, on success, the response it allocated (null or bytes).\<close>

type_synonym bt_handler = "BtCmdParam \<Rightarrow> ret \<times> bytes option"

record BtSvcInfo =
  bs_svcIdx :: u8
  bs_service :: bytes
  bs_suppEncType :: u32
  bs_putFunc :: "bt_handler option"
  bs_getFunc :: "bt_handler option"
  bs_putFuncFramed :: "bt_handler option"

record ll_services =
  sv_list :: "BtSvcInfo list"
  sv_num :: nat

section \<open>Registry\<close>

definition GetBtSvcInfoBySvcIdx :: "ll_services \<Rightarrow> u8 \<Rightarrow> BtSvcInfo option" where
  "GetBtSvcInfoBySvcIdx sv idx = find (\<lambda>s. bs_svcIdx s = idx) (sv_list sv)"

definition GetBtSvcInfoByService :: "ll_services \<Rightarrow> bytes \<Rightarrow> BtSvcInfo option" where
  "GetBtSvcInfoByService sv service = find (\<lambda>s. bs_service s = service) (sv_list sv)"

definition LinkLayerServiceRelease :: "ll_services \<Rightarrow> ll_services" where
  "LinkLayerServiceRelease sv = \<lparr>sv_list = [], sv_num = sv_num sv - length (sv_list sv)\<rparr>"

text \<open>The registration loop from entry \<open>i\<close> on; the i-th allocation is for entry \<open>i\<close>.\<close>

fun register_loop :: "alloc \<Rightarrow> nat \<Rightarrow> BtSvcInfo list \<Rightarrow> ll_services \<Rightarrow> ret \<times> ll_services" where
  "register_loop mem i [] sv = (IOTC_OK, sv)"
| "register_loop mem i (s # rest) sv =
    (if GetBtSvcInfoByService sv (bs_service s) \<noteq> None then register_loop mem (Suc i) rest sv
     else if GetBtSvcInfoBySvcIdx sv (bs_svcIdx s) \<noteq> None then register_loop mem (Suc i) rest sv
     else if \<not> mem i then (IOTC_ADAPTER_MEM_ERR_CALLOC, sv)
     else register_loop mem (Suc i) rest \<lparr>sv_list = sv_list sv @ [s], sv_num = sv_num sv + 1\<rparr>)"

definition LinkLayerServiceRegister :: "alloc \<Rightarrow> ll_services \<Rightarrow> BtSvcInfo list option \<Rightarrow> ret \<times> ll_services" where
  "LinkLayerServiceRegister mem sv svcInfo =
    (case svcInfo of
       None \<Rightarrow> (IOTC_ERR_PARAM_INVALID, sv)
     | Some infos \<Rightarrow>
         if \<not> (length infos > 0 \<and> length infos \<le> BT_SERVICE_NUM_LIMIT) then (IOTC_ERR_PARAM_INVALID, sv)
         else if \<not> length infos + sv_num sv \<le> BT_SERVICE_NUM_LIMIT then (IOTC_CORE_BLE_LL_ERR_SVC_NUM, sv)
         else register_loop mem 0 infos sv)"

section \<open>Frame codec\<close>

text \<open>\<open>strncpy_s\<close> stops at a terminator inside the copied characters.\<close>

definition DecodeCmdData :: "bytes option \<Rightarrow> ret + BtCmdParam" where
  "DecodeCmdData buff =
    (case buff of
       None \<Rightarrow> Inl IOTC_ERR_PARAM_INVALID
     | Some b \<Rightarrow>
         if \<not> 0 < length b then Inl IOTC_CORE_BLE_LL_ERR_CMD_DECODE
         else
           (let dataFormat = drop_bit 4 (b ! 0 AND 0xF0); opType = b ! 0 AND 0x0F in
            if dataFormat \<noteq> BT_CMD_DATA_MODE_JSON then Inl IOTC_CORE_BLE_LL_ERR_DATAMODE
            else if \<not> 1 < length b then Inl IOTC_CORE_BLE_LL_ERR_CMD_DECODE
            else
              (let svcLen = unat (b ! 1); pos = 2 in
               if \<not> (pos + svcLen \<le> length b \<and> svcLen < BT_SVC_LEN) then Inl IOTC_CORE_BLE_LL_ERR_CMD_DECODE
               else
                 (let service = cstr (take svcLen (drop pos b)); pos = pos + svcLen in
                  if \<not> pos + 2 \<le> length b then Inl IOTC_CORE_BLE_LL_ERR_CMD_DECODE
                  else
                    (let requestLen = unat (b ! (pos + 1)) * 256 + unat (b ! pos); pos = pos + 2 in
                     if pos + requestLen \<noteq> length b then Inl IOTC_CORE_BLE_LL_ERR_CMD_DECODE
                     else Inr \<lparr>bc_dataFormat = dataFormat, bc_opType = opType, bc_service = service,
                            bc_request = (if requestLen = 0 then None else Some (drop pos b)),
                            bc_requestLen = requestLen\<rparr>)))))"

text \<open>The header bytes written at the start of a buffer of \<open>bufCap\<close> bytes.\<close>

definition LinkLayerWriteSvcHeader :: "nat \<Rightarrow> BtCmdParam \<Rightarrow> nat \<Rightarrow> ret + bytes" where
  "LinkLayerWriteSvcHeader bufCap cmdParam payloadLen =
    (let svcLen = length (bc_service cmdParam) in
     if \<not> bufCap \<ge> 1 + 1 + svcLen + 2 then Inl IOTC_ERR_PARAM_INVALID
     else Inr ([push_bit 4 (bc_dataFormat cmdParam AND SVC_TYPE_MASK) OR (bc_opType cmdParam AND SVC_TYPE_MASK),
                of_nat svcLen] @ bc_service cmdParam @
               [of_nat payloadLen AND 0xFF, ucast (drop_bit 8 (of_nat payloadLen :: u32)) AND 0xFF]))"

text \<open>The output buffer with the reserved packet head in front, and the length of the frame in it.\<close>

definition EncodeCmdData :: "bool \<Rightarrow> BtCmdParam \<Rightarrow> bytes option \<Rightarrow> ret + bytes \<times> nat" where
  "EncodeCmdData memok cmdParam payload =
    (case payload of
       None \<Rightarrow> Inl IOTC_CORE_BLE_LL_ERR_BODY
     | Some p \<Rightarrow>
         if \<not> length p > 0 then Inl IOTC_CORE_BLE_LL_ERR_BODY
         else
           (let len = 1 + 1 + length (bc_service cmdParam) + 2 + length p in
            if \<not> memok then Inl IOTC_ADAPTER_MEM_ERR_CALLOC
            else
              (case LinkLayerWriteSvcHeader len cmdParam (length p) of
                 Inl e \<Rightarrow> Inl e
               | Inr header \<Rightarrow>
                   if length p > len - length header then Inl IOTC_ERR_SECUREC_MEMCPY
                   else Inr (replicate PKG_HEAD_LEN 0 @ header @ p, len))))"

section \<open>Dispatch\<close>

definition SvcCheckEncType :: "BtSvcInfo \<Rightarrow> u8 \<Rightarrow> ret" where
  "SvcCheckEncType svcInfo encryptType =
    (if \<not> unat encryptType < 32 then IOTC_CORE_BLE_LL_ERR_ENCRYPT_TYPE
     else if \<not> (bs_suppEncType svcInfo AND push_bit (unat encryptType) 1) > 0 then
       IOTC_CORE_BLE_LL_ERR_SVC_NOT_SUPP_ENCTYPE
     else IOTC_OK)"

text \<open>
  On success the response buffer (null or bytes) and its frame length.  A framed handler's response
  already has the packet head reserved in front, so its length is the buffer length minus the head.
\<close>

definition LinkLayerProcessData ::
    "bool \<Rightarrow> ll_services \<Rightarrow> bytes option \<Rightarrow> u8 \<Rightarrow> ret + bytes option \<times> nat" where
  "LinkLayerProcessData memok sv buff encryptType =
    (case buff of
       None \<Rightarrow> Inl IOTC_ERR_PARAM_INVALID
     | Some b \<Rightarrow>
         if \<not> length b > 0 then Inl IOTC_ERR_PARAM_INVALID
         else
           (case DecodeCmdData buff of
              Inl e \<Rightarrow> Inl e
            | Inr cmdParam \<Rightarrow>
               (case GetBtSvcInfoByService sv (bc_service cmdParam) of
                  None \<Rightarrow> Inl IOTC_CORE_BLE_LL_ERR_SVC_NOT_FOUND
                | Some svcInfo \<Rightarrow>
                    if SvcCheckEncType svcInfo encryptType \<noteq> IOTC_OK then Inl (SvcCheckEncType svcInfo encryptType)
                    else if bc_opType cmdParam = BT_OPTYPE_PUT \<and> bs_putFuncFramed svcInfo \<noteq> None then
                      (let (r, response) = the (bs_putFuncFramed svcInfo) cmdParam in
                       if r \<noteq> IOTC_OK then Inl r
                       else Inr (response, (case response of None \<Rightarrow> 0 | Some rsp \<Rightarrow> length rsp - PKG_HEAD_LEN)))
                    else
                      (let handler = (if bc_opType cmdParam = BT_OPTYPE_PUT then bs_putFunc svcInfo
                                      else bs_getFunc svcInfo) in
                       if bc_opType cmdParam \<noteq> BT_OPTYPE_PUT \<and> bc_opType cmdParam \<noteq> BT_OPTYPE_GET then
                         Inl IOTC_CORE_BLE_LL_ERR_SVC_OPTYPE
                       else
                         (case handler of
                            None \<Rightarrow> Inl IOTC_ERR_CALLBACK_NULL
                          | Some f \<Rightarrow>
                              (let (r, response) = f cmdParam in
                               if r \<noteq> IOTC_OK then Inl r
                               else
                                 (case EncodeCmdData memok cmdParam response of
                                    Inl e \<Rightarrow> Inl e
                                  | Inr (out, outLen) \<Rightarrow> Inr (Some out, outLen))))))))"

section \<open>The registry\<close>

definition registry_ok :: "ll_services \<Rightarrow> bool" where
  "registry_ok sv \<longleftrightarrow> sv_num sv = length (sv_list sv) \<and> sv_num sv \<le> BT_SERVICE_NUM_LIMIT \<and>
    distinct (map bs_service (sv_list sv)) \<and> distinct (map bs_svcIdx (sv_list sv))"

lemma register_loop_ok:
  assumes "registry_ok sv" "sv_num sv + length infos \<le> BT_SERVICE_NUM_LIMIT"
  shows "registry_ok (snd (register_loop mem i infos sv))"
  using assms
proof (induction infos arbitrary: i sv)
  case (Cons s rest)
  show ?case
  proof (cases "GetBtSvcInfoByService sv (bs_service s) = None \<and> GetBtSvcInfoBySvcIdx sv (bs_svcIdx s) = None")
    case True
    then have "registry_ok \<lparr>sv_list = sv_list sv @ [s], sv_num = sv_num sv + 1\<rparr>"
      using Cons.prems
      by (auto simp: registry_ok_def GetBtSvcInfoByService_def GetBtSvcInfoBySvcIdx_def find_None_iff)
    then show ?thesis using Cons True by simp
  next
    case False
    then show ?thesis using Cons by auto
  qed
qed simp

lemma LinkLayerServiceRegister_ok:
  "registry_ok sv \<Longrightarrow> registry_ok (snd (LinkLayerServiceRegister mem sv infos))"
  by (auto simp: LinkLayerServiceRegister_def register_loop_ok split: option.splits)

lemma LinkLayerServiceRelease_ok: "registry_ok sv \<Longrightarrow> registry_ok (LinkLayerServiceRelease sv)"
  by (simp add: registry_ok_def LinkLayerServiceRelease_def)

section \<open>The frame codec\<close>

text \<open>
  C30. The service frame codec round trips: a command with a service name of 1 to 31 characters and a
  payload of 1 to 65535 bytes is encoded behind 7 reserved bytes, and decoding the frame gives back
  the format, operation, service and payload.
\<close>

theorem EncodeCmdData_DecodeCmdData:
  assumes "bc_dataFormat c = BT_CMD_DATA_MODE_JSON" "bc_opType c < 16" "length (bc_service c) < BT_SVC_LEN"
    "0 \<notin> set (bc_service c)" "payload \<noteq> []" "length payload < 65536"
  shows "\<exists>frame. EncodeCmdData True c (Some payload) = Inr (replicate 7 0 @ frame, length frame) \<and>
    DecodeCmdData (Some frame) =
      Inr (c\<lparr>bc_request := Some payload, bc_requestLen := length payload\<rparr>)"
proof -
  define ty where "ty = push_bit 4 (bc_dataFormat c AND 0x0F) OR (bc_opType c AND 0x0F)"
  define lo hi :: u8 where "lo = of_nat (length payload)" and "hi = ucast (drop_bit 8 (of_nat (length payload) :: u32))"
  let ?svc = "bc_service c"
  let ?frame = "[ty, of_nat (length ?svc)] @ ?svc @ [lo, hi] @ payload"
  have len: "unat lo + 256 * unat hi = length payload"
    using assms(6) by (simp add: lo_def hi_def unat_lo unat_hi)
  have nz: "unat hi = 0 \<longrightarrow> 0 < unat lo" using len assms(5) by (metis add_is_0 length_0_conv mult_0_right neq0_conv)
  have sl: "unat (of_nat (length ?svc) :: u8) = length ?svc" using assms(3) by (simp add: unat_lo)
  have ty: "drop_bit 4 (ty AND 0xF0) = bc_dataFormat c" "ty AND 0x0F = bc_opType c"
    using type_byte [of "bc_dataFormat c" "bc_opType c"] assms(1,2) by (simp_all add: ty_def)
  have cs: "cstr ?svc = ?svc" using assms(4) by (auto simp: cstr_def takeWhile_eq_all_conv)
  have nth: "?frame ! Suc (Suc (length ?svc)) = lo" "?frame ! Suc (Suc (Suc (length ?svc))) = hi"
    by (simp_all add: nth_append)
  have "EncodeCmdData True c (Some payload) = Inr (replicate 7 0 @ ?frame, length ?frame)"
    using assms(5) by (simp add: EncodeCmdData_def LinkLayerWriteSvcHeader_def ty_def lo_def hi_def)
  moreover have "DecodeCmdData (Some ?frame) = Inr (c\<lparr>bc_request := Some payload, bc_requestLen := length payload\<rparr>)"
    using assms(1,3,5) len nz sl ty cs nth by (auto simp: DecodeCmdData_def Let_def)
  ultimately show ?thesis by blast
qed

theorem EncodeCmdData_DecodeCmdData_witness:
  "\<exists>frame. EncodeCmdData True \<lparr>bc_dataFormat = 1, bc_opType = 2, bc_service = [97, 98], bc_request = None, bc_requestLen = 0\<rparr>
      (Some [1, 2, 3]) = Inr (replicate 7 0 @ frame, length frame) \<and>
    DecodeCmdData (Some frame) = Inr \<lparr>bc_dataFormat = 1, bc_opType = 2, bc_service = [97, 98],
      bc_request = Some [1, 2, 3], bc_requestLen = Suc (Suc (Suc 0))\<rparr>"
  using EncodeCmdData_DecodeCmdData
    [of "\<lparr>bc_dataFormat = 1, bc_opType = 2, bc_service = [97, 98], bc_request = None, bc_requestLen = 0\<rparr>" "[1, 2, 3]"]
  by simp

section \<open>Dispatch\<close>

lemma supp_bit: "unat t < 32 \<Longrightarrow> (m AND push_bit (unat t) 1 > 0) = bit (m :: u32) (unat (t :: u8))"
  by (simp add: bit_iff_and_push_bit_not_eq_0 word_neq_0_conv)


definition echo_service :: BtSvcInfo where
  "echo_service = \<lparr>bs_svcIdx = 1, bs_service = [97], bs_suppEncType = 1, bs_putFunc = Some (\<lambda>c. (0, bc_request c)),
     bs_getFunc = None, bs_putFuncFramed = None\<rparr>"


end
