(* ===== verification/LL_Encrypt.thy ===== *)
theory LL_Encrypt
  imports LL_Service
begin

text \<open>
  Encryption of link layer messages (\<open>linklayer_encrypt.c\<close>, \<open>linklayer_encrypt_sesskey.c\<close>,
  \<open>linklayer_encrypt_speke.c\<close>).  The cipher callbacks and the SPEKE session functions are parameters:
  they get the data (and the size of the output region) and return a code and the bytes written.
  With a session key only the body of a service frame is encrypted, and the whole frame is followed
  by an HMAC.
\<close>

section \<open>Data\<close>

abbreviation (input) ENC_TYPE_UNENCRYPTED :: u8 where "ENC_TYPE_UNENCRYPTED \<equiv> 0"
abbreviation (input) ENC_TYPE_SPEKE :: u8 where "ENC_TYPE_SPEKE \<equiv> 1"
abbreviation (input) ENC_TYPE_SESSKEY :: u8 where "ENC_TYPE_SESSKEY \<equiv> 3"
abbreviation (input) SESS_ID_LEN :: nat where "SESS_ID_LEN \<equiv> 32"
abbreviation (input) SESS_HMAC_LEN :: nat where "SESS_HMAC_LEN \<equiv> 32"
abbreviation (input) SESS_IV_LEN :: nat where "SESS_IV_LEN \<equiv> 12"
abbreviation (input) SESS_TAG_LEN :: nat where "SESS_TAG_LEN \<equiv> 16"
abbreviation (input) SVC_PAYLOAD_LEN_LEN :: nat where "SVC_PAYLOAD_LEN_LEN \<equiv> 2"
abbreviation (input) ENC_DATA_MAX_OVERHEAD :: nat where "ENC_DATA_MAX_OVERHEAD \<equiv> 92"

text \<open>
  \<open>sk_encrypt data n\<close> writes \<open>n\<close> bytes; \<open>sk_calHmac\<close> writes 32 bytes.  A SPEKE session is
  \<^term>\<open>None\<close> when no callback is registered or it returns null.
\<close>

record LinkLayerSessKeyCallback =
  sk_encrypt :: "(bytes \<Rightarrow> nat \<Rightarrow> ret \<times> bytes) option"
  sk_decrypt :: "(bytes \<Rightarrow> nat \<Rightarrow> ret \<times> bytes) option"
  sk_calHmac :: "(bytes \<Rightarrow> ret \<times> bytes) option"
  sk_checkHmac :: "(bytes \<Rightarrow> bytes \<Rightarrow> ret) option"
  sk_checkExist :: "bool option"

record SpekeSession =
  sp_encrypt :: "bytes \<Rightarrow> nat \<Rightarrow> ret \<times> bytes"
  sp_decrypt :: "bytes \<Rightarrow> ret \<times> bytes"

record ll_crypto =
  cr_sess :: LinkLayerSessKeyCallback
  cr_speke :: "SpekeSession option"
  cr_type :: u8

section \<open>Session key frames\<close>

definition LinkLayerRegisterSessKeyCb :: "ll_crypto \<Rightarrow> LinkLayerSessKeyCallback \<Rightarrow> ret \<times> ll_crypto" where
  "LinkLayerRegisterSessKeyCb cr cb = (IOTC_OK, cr\<lparr>cr_sess := cb\<rparr>)"

definition SessKeyEncrypt :: "ll_crypto \<Rightarrow> bytes \<Rightarrow> nat \<Rightarrow> ret + bytes" where
  "SessKeyEncrypt cr data outBuffLen =
    (case sk_encrypt (cr_sess cr) of
       None \<Rightarrow> Inl IOTC_ERR_CALLBACK_NULL
     | Some f \<Rightarrow> (let (r, out) = f data outBuffLen in if r \<noteq> IOTC_OK then Inl r else Inr out))"

definition SessKeyDecrypt :: "ll_crypto \<Rightarrow> bytes \<Rightarrow> nat \<Rightarrow> ret + bytes" where
  "SessKeyDecrypt cr data outBuffLen =
    (case sk_decrypt (cr_sess cr) of
       None \<Rightarrow> Inl IOTC_ERR_CALLBACK_NULL
     | Some f \<Rightarrow> (let (r, out) = f data outBuffLen in if r \<noteq> IOTC_OK then Inl r else Inr out))"

definition SessKeyCalHmac :: "ll_crypto \<Rightarrow> bytes \<Rightarrow> ret + bytes" where
  "SessKeyCalHmac cr data =
    (case sk_calHmac (cr_sess cr) of
       None \<Rightarrow> Inl IOTC_ERR_CALLBACK_NULL
     | Some f \<Rightarrow> (let (r, out) = f data in if r \<noteq> IOTC_OK then Inl r else Inr out))"

definition SessKeyCheckHmac :: "ll_crypto \<Rightarrow> bytes \<Rightarrow> bytes \<Rightarrow> ret" where
  "SessKeyCheckHmac cr data hmac =
    (case sk_checkHmac (cr_sess cr) of None \<Rightarrow> IOTC_ERR_CALLBACK_NULL | Some f \<Rightarrow> f data hmac)"

text \<open>The service header with the two length bytes at its end replaced, low byte first.\<close>

definition set_body_len :: "bytes \<Rightarrow> nat \<Rightarrow> bytes" where
  "set_body_len header n =
    (let pos = length header - SVC_PAYLOAD_LEN_LEN
     in header[pos := of_nat n AND 0xFF, pos + 1 := ucast (drop_bit 8 (of_nat n :: u32)) AND 0xFF])"

text \<open>The part the two encryption variants share: the frame once the output memory is there.\<close>

definition sess_frame :: "ll_crypto \<Rightarrow> bytes \<Rightarrow> BtCmdParam \<Rightarrow> ret + bytes" where
  "sess_frame cr data cmdParam =
    (let svcHeaderLen = length data - bc_requestLen cmdParam;
         encBodyLen = bc_requestLen cmdParam + SESS_TAG_LEN;
         totalBodyLen = SESS_IV_LEN + encBodyLen + SESS_ID_LEN
     in
     if \<not> svcHeaderLen \<ge> SVC_PAYLOAD_LEN_LEN then Inl IOTC_CORE_BLE_LL_ERR_BODY
     else
       (let header = set_body_len (take svcHeaderLen data) totalBodyLen in
        case SessKeyEncrypt cr (the (bc_request cmdParam)) totalBodyLen of
          Inl e \<Rightarrow> Inl e
        | Inr body \<Rightarrow>
           (case SessKeyCalHmac cr (header @ body) of
              Inl e \<Rightarrow> Inl e
            | Inr hmac \<Rightarrow> Inr (header @ body @ hmac))))"

definition LinkLayerSessKeyEncrypt :: "ll_crypto \<Rightarrow> bool \<Rightarrow> bytes option \<Rightarrow> ret + bytes" where
  "LinkLayerSessKeyEncrypt cr memok data =
    (case data of
       None \<Rightarrow> Inl IOTC_ERR_PARAM_INVALID
     | Some d \<Rightarrow>
         if \<not> length d > 0 then Inl IOTC_ERR_PARAM_INVALID
         else
           (case DecodeCmdData (Some d) of
              Inl e \<Rightarrow> Inl e
            | Inr cmdParam \<Rightarrow>
                if \<not> (bc_request cmdParam \<noteq> None \<and> bc_requestLen cmdParam > 0 \<and> bc_requestLen cmdParam < length d) then
                  Inl IOTC_CORE_BLE_LL_ERR_BODY
                else if \<not> memok then Inl IOTC_ADAPTER_MEM_ERR_CALLOC
                else sess_frame cr d cmdParam))"

text \<open>The output is the prefix of the caller's buffer that was filled.\<close>

definition LinkLayerSessKeyEncryptInto :: "ll_crypto \<Rightarrow> bytes option \<Rightarrow> nat \<Rightarrow> ret + bytes" where
  "LinkLayerSessKeyEncryptInto cr data buffCap =
    (case data of
       None \<Rightarrow> Inl IOTC_ERR_PARAM_INVALID
     | Some d \<Rightarrow>
         if \<not> length d > 0 then Inl IOTC_ERR_PARAM_INVALID
         else
           (case DecodeCmdData (Some d) of
              Inl e \<Rightarrow> Inl e
            | Inr cmdParam \<Rightarrow>
                if \<not> (bc_request cmdParam \<noteq> None \<and> bc_requestLen cmdParam > 0 \<and> bc_requestLen cmdParam < length d) then
                  Inl IOTC_CORE_BLE_LL_ERR_BODY
                else
                  (let svcHeaderLen = length d - bc_requestLen cmdParam;
                       needed = svcHeaderLen + (SESS_IV_LEN + (bc_requestLen cmdParam + SESS_TAG_LEN) + SESS_ID_LEN) + SESS_HMAC_LEN
                   in if \<not> buffCap \<ge> needed then Inl IOTC_ERR_PARAM_INVALID
                      else sess_frame cr d cmdParam)))"

text \<open>
  Decryption in place: \<open>data\<close> is the whole buffer, of which the first \<open>dataLen\<close> bytes are the
  message; the result is the buffer afterwards and the length of the plain message in it.
\<close>

definition LinkLayerSessKeyDecrypt :: "ll_crypto \<Rightarrow> bool \<Rightarrow> bytes option \<Rightarrow> nat \<Rightarrow> ret + bytes \<times> nat" where
  "LinkLayerSessKeyDecrypt cr memok data dataLen =
    (case data of
       None \<Rightarrow> Inl IOTC_ERR_PARAM_INVALID
     | Some buf \<Rightarrow>
         if \<not> dataLen > SESS_HMAC_LEN then Inl IOTC_ERR_PARAM_INVALID
         else
           (let d = take dataLen buf;
                plain = take (dataLen - SESS_HMAC_LEN) d;
                r = SessKeyCheckHmac cr plain (drop (dataLen - SESS_HMAC_LEN) d)
            in
            if r \<noteq> IOTC_OK then Inl r
            else
              (case DecodeCmdData (Some plain) of
                 Inl e \<Rightarrow> Inl e
               | Inr cmdParam \<Rightarrow>
                   if bc_request cmdParam = None then Inl IOTC_CORE_BLE_LL_ERR_BODY
                   else if \<not> (bc_requestLen cmdParam > SESS_TAG_LEN + SESS_IV_LEN + SESS_ID_LEN \<and>
                              bc_requestLen cmdParam < dataLen - SESS_HMAC_LEN) then Inl IOTC_CORE_BLE_LL_ERR_BODY
                   else
                     (let svcHeaderLen = dataLen - SESS_HMAC_LEN - bc_requestLen cmdParam;
                          decBodyLen = bc_requestLen cmdParam - SESS_TAG_LEN - SESS_IV_LEN - SESS_ID_LEN;
                          outLen = svcHeaderLen + decBodyLen
                      in
                      if \<not> memok then Inl IOTC_ADAPTER_MEM_ERR_CALLOC
                      else if \<not> svcHeaderLen \<ge> SVC_PAYLOAD_LEN_LEN then Inl IOTC_CORE_BLE_LL_ERR_BODY
                      else
                        (let header = set_body_len (take svcHeaderLen d) decBodyLen in
                         case SessKeyDecrypt cr (the (bc_request cmdParam)) decBodyLen of
                           Inl e \<Rightarrow> Inl e
                         | Inr body \<Rightarrow>
                             if outLen > dataLen then Inl IOTC_ERR_SECUREC_MEMCPY
                             else
                               (let buf = overwrite buf 0 (header @ body)
                                in Inr (if outLen < dataLen then buf[outLen := 0] else buf, outLen)))))))"

definition LinkLayerSessKeyExist :: "ll_crypto \<Rightarrow> bool" where
  "LinkLayerSessKeyExist cr = (case sk_checkExist (cr_sess cr) of None \<Rightarrow> False | Some b \<Rightarrow> b)"

section \<open>SPEKE\<close>

definition LinkLayerSpekeEncryptInto :: "ll_crypto \<Rightarrow> bytes option \<Rightarrow> nat \<Rightarrow> ret + bytes" where
  "LinkLayerSpekeEncryptInto cr data buffCap =
    (case data of
       None \<Rightarrow> Inl IOTC_ERR_PARAM_INVALID
     | Some d \<Rightarrow>
         if \<not> length d > 0 then Inl IOTC_ERR_PARAM_INVALID
         else
           (case cr_speke cr of
              None \<Rightarrow> Inl IOTC_CORE_BLE_LL_ERR_SPEKE_NULL
            | Some s \<Rightarrow>
               (let (r, enc) = sp_encrypt s d buffCap in if r \<noteq> IOTC_OK then Inl r else Inr enc)))"

definition LinkLayerSpekeDecrypt :: "ll_crypto \<Rightarrow> bytes option \<Rightarrow> nat \<Rightarrow> ret + bytes \<times> nat" where
  "LinkLayerSpekeDecrypt cr data dataLen =
    (case data of
       None \<Rightarrow> Inl IOTC_ERR_PARAM_INVALID
     | Some buf \<Rightarrow>
        (case cr_speke cr of
           None \<Rightarrow> Inl IOTC_CORE_BLE_LL_ERR_SPEKE_NULL
         | Some s \<Rightarrow>
            (let (r, dec) = sp_decrypt s (take dataLen buf) in
             if r \<noteq> IOTC_OK then Inl r
             else
               (let buf = overwrite buf 0 dec
                in Inr (if length dec < dataLen then buf[length dec := 0] else buf, length dec)))))"

section \<open>Selection by type\<close>

definition LinkLayerSetEncryptType :: "ll_crypto \<Rightarrow> u8 \<Rightarrow> ret \<times> ll_crypto" where
  "LinkLayerSetEncryptType cr encryptType =
    (if encryptType \<in> {ENC_TYPE_UNENCRYPTED, ENC_TYPE_SPEKE, ENC_TYPE_SESSKEY} then
       (IOTC_OK, cr\<lparr>cr_type := encryptType\<rparr>)
     else (IOTC_CORE_BLE_LL_ERR_ENCRYPT_TYPE, cr))"

definition LinkLayerGetEncryptType :: "ll_crypto \<Rightarrow> u8" where
  "LinkLayerGetEncryptType cr = (if LinkLayerSessKeyExist cr then ENC_TYPE_SESSKEY else cr_type cr)"

definition LinkLayerDecryptData :: "ll_crypto \<Rightarrow> bool \<Rightarrow> bytes option \<Rightarrow> nat \<Rightarrow> u8 \<Rightarrow> ret + bytes \<times> nat" where
  "LinkLayerDecryptData cr memok data dataLen encryptType =
    (case data of
       None \<Rightarrow> Inl IOTC_ERR_PARAM_INVALID
     | Some buf \<Rightarrow>
         if encryptType = ENC_TYPE_UNENCRYPTED then Inr (buf, dataLen)
         else if encryptType = ENC_TYPE_SPEKE then LinkLayerSpekeDecrypt cr data dataLen
         else if encryptType = ENC_TYPE_SESSKEY then LinkLayerSessKeyDecrypt cr memok data dataLen
         else Inl IOTC_CORE_BLE_LL_ERR_ENCRYPT_TYPE)"

definition LinkLayerEncryptDataInto :: "ll_crypto \<Rightarrow> bytes option \<Rightarrow> u8 \<Rightarrow> nat \<Rightarrow> ret + bytes" where
  "LinkLayerEncryptDataInto cr data encryptType buffCap =
    (case data of
       None \<Rightarrow> Inl IOTC_ERR_PARAM_INVALID
     | Some d \<Rightarrow>
         if \<not> length d > 0 then Inl IOTC_ERR_PARAM_INVALID
         else if encryptType = ENC_TYPE_UNENCRYPTED then
           (if \<not> buffCap \<ge> length d then Inl IOTC_ERR_PARAM_INVALID else Inr d)
         else if encryptType = ENC_TYPE_SPEKE then LinkLayerSpekeEncryptInto cr data buffCap
         else if encryptType = ENC_TYPE_SESSKEY then LinkLayerSessKeyEncryptInto cr data buffCap
         else Inl IOTC_CORE_BLE_LL_ERR_ENCRYPT_TYPE)"

section \<open>Shape of a service frame\<close>

definition svc_frame :: "u8 \<Rightarrow> bytes \<Rightarrow> bytes \<Rightarrow> bytes" where
  "svc_frame ty svc req =
    [ty, of_nat (length svc)] @ svc @
    [of_nat (length req), ucast (drop_bit 8 (of_nat (length req) :: u32))] @ req"

definition svc_param :: "u8 \<Rightarrow> bytes \<Rightarrow> bytes \<Rightarrow> BtCmdParam" where
  "svc_param ty svc req = \<lparr>bc_dataFormat = drop_bit 4 (ty AND 0xF0), bc_opType = ty AND 0x0F, bc_service = cstr svc,
     bc_request = (if req = [] then None else Some req), bc_requestLen = length req\<rparr>"

lemma DecodeCmdData_svc_frame:
  assumes "drop_bit 4 (ty AND 0xF0) = 1" "length svc < 32" "length req < 65536"
  shows "DecodeCmdData (Some (svc_frame ty svc req)) = Inr (svc_param ty svc req)"
proof -
  define lo hi :: u8 where "lo = of_nat (length req)" and "hi = ucast (drop_bit 8 (of_nat (length req) :: u32))"
  have len: "unat hi * 256 + unat lo = length req"
    using assms(3) by (simp add: lo_def hi_def unat_lo unat_hi)
  have sl: "unat (of_nat (length svc) :: u8) = length svc" using assms(2) by (simp add: unat_lo)
  have frame: "svc_frame ty svc req = ty # of_nat (length svc) # svc @ lo # hi # req"
    by (simp add: svc_frame_def lo_def hi_def)
  have nth: "(ty # of_nat (length svc) # svc @ lo # hi # req) ! Suc (Suc (length svc)) = lo"
    "(ty # of_nat (length svc) # svc @ lo # hi # req) ! Suc (Suc (Suc (length svc))) = hi"
    by (simp_all add: nth_append)
  show ?thesis
    unfolding frame using assms(1,2) len sl nth by (auto simp: DecodeCmdData_def Let_def svc_param_def)
qed

lemma word_of_lo_hi:
  fixes lo hi :: u8
  shows "(of_nat (unat hi * 256 + unat lo) :: u8) = lo"
    "(ucast (drop_bit 8 (of_nat (unat hi * 256 + unat lo) :: u32)) :: u8) = hi"
proof -
  have b: "unat hi * 256 + unat lo < 65536" using unat_u8_lt [of hi] unat_u8_lt [of lo] by simp
  show "(of_nat (unat hi * 256 + unat lo) :: u8) = lo"
    using unat_u8_lt [of lo] by (simp add: word_unat_eq_iff unat_lo del: of_nat_add)
  show "(ucast (drop_bit 8 (of_nat (unat hi * 256 + unat lo) :: u32)) :: u8) = hi"
    using unat_hi [OF b] unat_u8_lt [of lo] by (simp add: word_unat_eq_iff)
qed

lemma DecodeCmdData_shape:
  assumes "DecodeCmdData (Some x) = Inr c"
  obtains ty svc req where "x = svc_frame ty svc req" "c = svc_param ty svc req"
    "drop_bit 4 (ty AND 0xF0) = 1" "length svc < 32" "length req < 65536"
proof -
  define n where "n = unat (x ! Suc 0)"
  define lo hi where "lo = x ! Suc (Suc n)" and "hi = x ! Suc (Suc (Suc n))"
  define svc req where "svc = take n (drop (Suc (Suc 0)) x)" and "req = drop (Suc (Suc (Suc (Suc n)))) x"
  have f: "drop_bit 4 (x ! 0 AND 0xF0) = 1" "Suc (Suc n) \<le> length x" "n < 32" "Suc (Suc (Suc (Suc n))) \<le> length x"
    "Suc (Suc (Suc (Suc n))) + (unat hi * 256 + unat lo) = length x"
    "c = \<lparr>bc_dataFormat = drop_bit 4 (x ! 0 AND 0xF0), bc_opType = x ! 0 AND 0x0F, bc_service = cstr svc,
      bc_request = (if unat hi * 256 + unat lo = 0 then None else Some req),
      bc_requestLen = unat hi * 256 + unat lo\<rparr>"
    using assms by (auto simp: DecodeCmdData_def Let_def n_def lo_def hi_def svc_def req_def numeral_2_eq_2
        split: if_splits)
  have len: "length svc = n" "length req = unat hi * 256 + unat lo" using f by (auto simp: svc_def req_def)
  have d4: "drop (Suc (Suc n)) x = lo # hi # req"
    using f(4) by (simp add: lo_def hi_def req_def Cons_nth_drop_Suc)
  have d2: "drop (Suc (Suc 0)) x = svc @ drop (Suc (Suc n)) x"
    unfolding svc_def by (metis add_2_eq_Suc' append_take_drop_id drop_drop numeral_2_eq_2)
  have x2: "x = x ! 0 # x ! Suc 0 # drop (Suc (Suc 0)) x"
    using f(2) by (cases x; cases "tl x") auto
  have sl: "x ! Suc 0 = of_nat n" by (simp add: n_def)
  have "x ! 0 # x ! Suc 0 # drop (Suc (Suc 0)) x = svc_frame (x ! 0) svc req"
    unfolding svc_frame_def len sl word_of_lo_hi d2 d4 by simp
  then have "x = svc_frame (x ! 0) svc req" by (rule trans [OF x2])
  moreover have "c = svc_param (x ! 0) svc req" using f(6) len(2) by (auto simp: svc_param_def)
  moreover have "length req < 65536" using len(2) unat_u8_lt [of hi] unat_u8_lt [of lo] by simp
  ultimately show thesis using that f(1,3) len(1) by blast
qed

lemma take_svc_frame:
  "take (length svc + 4) (svc_frame ty svc req) =
    [ty, of_nat (length svc)] @ svc @ [of_nat (length req), ucast (drop_bit 8 (of_nat (length req) :: u32))]"
proof -
  have "length svc + 4 = Suc (Suc (length svc + Suc (Suc 0)))" by simp
  then show ?thesis by (simp only: svc_frame_def) simp
qed

lemma length_svc_frame: "length (svc_frame ty svc req) = length svc + 4 + length req"
  by (simp add: svc_frame_def)

lemma set_body_len_svc:
  "set_body_len ([ty, sl] @ svc @ [a, b]) n = [ty, sl] @ svc @ [of_nat n, ucast (drop_bit 8 (of_nat n :: u32))]"
  by (simp add: set_body_len_def Let_def list_update_append)

section \<open>Session key encryption round trips\<close>

lemma sess_frame_svc:
  assumes "SessKeyEncrypt cr req (length req + 60) = Inr body" "length body = length req + 60" "req \<noteq> []"
    "SessKeyCalHmac cr (svc_frame ty svc body) = Inr hmac"
  shows "sess_frame cr (svc_frame ty svc req) (svc_param ty svc req) = Inr (svc_frame ty svc body @ hmac)"
proof -
  let ?h = "[ty, of_nat (length svc)] @ svc @ [of_nat (length body), ucast (drop_bit 8 (of_nat (length body) :: u32))]"
  have hl: "length (svc_frame ty svc req) - bc_requestLen (svc_param ty svc req) = length svc + 4"
    by (simp add: length_svc_frame svc_param_def)
  have tot: "12 + (bc_requestLen (svc_param ty svc req) + 16) + 32 = length body"
    using assms(2) by (simp add: svc_param_def)
  have rq: "the (bc_request (svc_param ty svc req)) = req" using assms(3) by (simp add: svc_param_def)
  have hdr: "set_body_len (take (length svc + 4) (svc_frame ty svc req)) (length body) = ?h"
    by (simp only: take_svc_frame set_body_len_svc)
  have enc: "SessKeyEncrypt cr req (length body) = Inr body" using assms(1,2) by simp
  have whole: "?h @ body = svc_frame ty svc body" by (simp add: svc_frame_def)
  then have whole': "?h @ body @ hmac = svc_frame ty svc body @ hmac" by simp
  show ?thesis
    unfolding sess_frame_def Let_def hl tot rq hdr enc sum.case whole assms(4) whole' by simp
qed

lemma LinkLayerSessKeyDecrypt_svc:
  assumes "drop_bit 4 (ty AND 0xF0) = 1" "length svc < 32" "length body = length req + 60" "req \<noteq> []"
    "length body < 65536" "length hm = 32" "SessKeyCheckHmac cr (svc_frame ty svc body) hm = IOTC_OK"
    "SessKeyDecrypt cr body (length req) = Inr req"
  shows "LinkLayerSessKeyDecrypt cr True (Some ((svc_frame ty svc body @ hm) @ [0])) (length svc + 4 + length body + 32) =
    Inr ((overwrite ((svc_frame ty svc body @ hm) @ [0]) 0 (svc_frame ty svc req))[length svc + 4 + length req := 0],
         length svc + 4 + length req)"
proof -
  let ?y = "svc_frame ty svc body" and ?n = "length svc + 4 + length body"
  have ly: "length ?y = ?n" by (simp add: length_svc_frame)
  have e1: "take (?n + 32) ((?y @ hm) @ [0]) = ?y @ hm" using ly assms(6) by simp
  have e2: "?n + 32 - 32 = ?n" by simp
  have e3: "take ?n (?y @ hm) = ?y" "drop ?n (?y @ hm) = hm" using ly by simp_all
  have d1: "DecodeCmdData (Some ?y) = Inr (svc_param ty svc body)"
    using assms(1,2,5) by (rule DecodeCmdData_svc_frame)
  have body: "body \<noteq> []" using assms(3) by auto
  have rq: "bc_request (svc_param ty svc body) = Some body" "bc_requestLen (svc_param ty svc body) = length body"
    using body by (simp_all add: svc_param_def)
  have e4: "?n - length body = length svc + 4" "length body - 16 - 12 - 32 = length req" using assms(3) by simp_all
  have e5: "take (length svc + 4) (?y @ hm) = take (length svc + 4) ?y" using ly by simp
  have hd: "set_body_len (take (length svc + 4) ?y) (length req) @ req = svc_frame ty svc req"
    unfolding take_svc_frame set_body_len_svc by (simp add: svc_frame_def)
  have g: "?n + 32 > 32" "length body > 16 + 12 + 32 \<and> length body < ?n" "length svc + 4 \<ge> 2"
    "\<not> length svc + 4 + length req > ?n + 32" "length svc + 4 + length req < ?n + 32"
    using assms(3,4) by auto
  show ?thesis
    unfolding LinkLayerSessKeyDecrypt_def option.case Let_def e1 e2 e3 assms(7) d1 sum.case rq e4 e5 assms(8) option.sel hd
    using g by (simp only: simp_thms if_True if_False option.distinct refl not_False_eq_True)
qed


definition pad_crypto :: ll_crypto where
  "pad_crypto = \<lparr>cr_sess = \<lparr>sk_encrypt = Some (\<lambda>d n. (0, replicate (n - length d) 0 @ d)),
       sk_decrypt = Some (\<lambda>d n. (0, drop (length d - n) d)), sk_calHmac = Some (\<lambda>x. (0, replicate 32 7)),
       sk_checkHmac = Some (\<lambda>x h. if h = replicate 32 7 then 0 else - 1), sk_checkExist = Some True\<rparr>,
     cr_speke = None, cr_type = 0\<rparr>"


end
