(* ===== verification/LL_Process.thy ===== *)
theory LL_Process
  imports LL_Encrypt
begin

text \<open>
  The packet processing of the BLE link (\<open>linklayer_process.c\<close> and the reporting functions of
  \<open>linklayer_service.c\<close>): packet heads, collecting fragments, decrypting, dispatching to a service and
  answering.  A call returns its code, the new state and the packets sent, in order.
\<close>

section \<open>Packet heads\<close>

datatype CmdType = CMD_TYPE_REQUEST | CMD_TYPE_RESPONSE | CMD_TYPE_REPORT

record PkgHead =
  ph_version :: u8
  ph_cmdType :: u8
  ph_token :: u8
  ph_pkgNum :: u8
  ph_pkgIdx :: u8
  ph_reserved :: u8
  ph_encryptType :: u8
  ph_ret :: u8

definition ParsePkgHead :: "bytes \<Rightarrow> PkgHead" where
  "ParsePkgHead buff =
    \<lparr>ph_version = drop_bit 4 (buff ! PKG_HEAD_TYPE_IDX), ph_cmdType = buff ! PKG_HEAD_TYPE_IDX AND 0x0F,
     ph_token = buff ! PKG_HEAD_TOKEN_IDX, ph_pkgNum = buff ! PKG_HEAD_PKGNUM_IDX,
     ph_pkgIdx = buff ! PKG_HEAD_INDEX_IDX, ph_reserved = buff ! PKG_HEAD_RESERVED_IDX,
     ph_encryptType = buff ! PKG_HEAD_ENCRYPT_TYPE_IDX, ph_ret = buff ! PKG_HEAD_RET_IDX\<rparr>"

definition SetPkgHeadVersion :: "bytes \<Rightarrow> u8 \<Rightarrow> bytes" where
  "SetPkgHeadVersion head version =
    head[PKG_HEAD_TYPE_IDX := (head ! PKG_HEAD_TYPE_IDX AND 0x0F) OR push_bit 4 version]"

definition SetPkgHeadCmdType :: "bytes \<Rightarrow> CmdType \<Rightarrow> bytes" where
  "SetPkgHeadCmdType head ty =
    (case ty of
       CMD_TYPE_REQUEST \<Rightarrow> head[PKG_HEAD_TYPE_IDX := head ! PKG_HEAD_TYPE_IDX AND 0xF0]
     | CMD_TYPE_RESPONSE \<Rightarrow> head[PKG_HEAD_TYPE_IDX := (head ! PKG_HEAD_TYPE_IDX AND 0xF0) OR 0x01]
     | CMD_TYPE_REPORT \<Rightarrow> head[PKG_HEAD_TYPE_IDX := (head ! PKG_HEAD_TYPE_IDX AND 0xF0) OR 0x02])"

section \<open>State\<close>

record ll_state =
  st_send :: ll_send
  st_pool :: PkgList
  st_crypto :: ll_crypto
  st_svc :: ll_services
  st_token :: u8

text \<open>The environment of a call: clock readings and allocation outcomes.\<close>

record ll_env =
  en_clock :: "nat \<Rightarrow> u32"
  en_insert :: alloc
  en_mem :: alloc

section \<open>Processing\<close>

abbreviation (input) LL_RET_ERR :: u8 where "LL_RET_ERR \<equiv> 1"

definition LinkLayerRspExceptionData :: "ll_state \<Rightarrow> bytes \<Rightarrow> u8 \<Rightarrow> bytes list" where
  "LinkLayerRspExceptionData st reqBuff retVal =
    (let sendBuff = take PKG_HEAD_LEN reqBuff;
         sendBuff = SetPkgHeadCmdType (SetPkgHeadVersion sendBuff 0) CMD_TYPE_RESPONSE;
         sendBuff = sendBuff[PKG_HEAD_PKGNUM_IDX := 1, PKG_HEAD_INDEX_IDX := 0, PKG_HEAD_RET_IDX := retVal]
     in if LinkLayerBtDataSend (st_send st) 0 sendBuff = IOTC_OK then [sendBuff] else [])"

text \<open>On success the decrypted buffer and its length.\<close>

definition GetCompleteData ::
    "ll_env \<Rightarrow> ll_state \<Rightarrow> bytes \<Rightarrow> u8 \<Rightarrow> u8 \<Rightarrow> ret \<times> ll_state \<times> bytes list \<times> (bytes \<times> nat) option" where
  "GetCompleteData env st reqBuff tk encryptType =
    (let (r, pool, merged) = LinkLayerRecvMergePkgs (st_pool st) tk; st = st\<lparr>st_pool := pool\<rparr> in
     case merged of
       None \<Rightarrow> (r, st, [], None)
     | Some (buf, len) \<Rightarrow>
         if \<not> (r = IOTC_OK \<and> len > 0) then (r, st, [], None)
         else
           (case LinkLayerDecryptData (st_crypto st) (en_mem env 0) (Some buf) len encryptType of
              Inl e \<Rightarrow> (e, st, LinkLayerRspExceptionData st reqBuff LL_RET_ERR, None)
            | Inr (buf', len') \<Rightarrow> (IOTC_OK, st, [], Some (buf', len'))))"

text \<open>\<open>rspData\<close> has the packet head reserved in front of the \<open>rspDataLen\<close> bytes of the frame.\<close>

definition SendRspData :: "ll_env \<Rightarrow> ll_state \<Rightarrow> bytes \<Rightarrow> u8 \<Rightarrow> bytes \<Rightarrow> nat \<Rightarrow> ret \<times> bytes list" where
  "SendRspData env st reqBuff encryptType rspData rspDataLen =
    (if encryptType = ENC_TYPE_UNENCRYPTED then
       (let rspData = overwrite rspData 0 (take PKG_HEAD_LEN reqBuff);
            rspData = (SetPkgHeadCmdType rspData CMD_TYPE_RESPONSE)[PKG_HEAD_RET_IDX := 0]
        in LinkLayerSendBtPkg (st_send st) (Some (take (PKG_HEAD_LEN + rspDataLen) rspData)))
     else
       (let sendBuffLen = PKG_HEAD_LEN + rspDataLen + ENC_DATA_MAX_OVERHEAD in
        if \<not> en_mem env 2 then (IOTC_ADAPTER_MEM_ERR_CALLOC, [])
        else
          (case LinkLayerEncryptDataInto (st_crypto st) (Some (take rspDataLen (drop PKG_HEAD_LEN rspData))) encryptType
                  (sendBuffLen - PKG_HEAD_LEN) of
             Inl e \<Rightarrow> (e, LinkLayerRspExceptionData st reqBuff LL_RET_ERR)
           | Inr enc \<Rightarrow>
               if enc = [] then (IOTC_OK, LinkLayerRspExceptionData st reqBuff LL_RET_ERR)
               else
                 (let head = (SetPkgHeadCmdType (take PKG_HEAD_LEN reqBuff) CMD_TYPE_RESPONSE)[PKG_HEAD_RET_IDX := 0]
                  in LinkLayerSendBtPkg (st_send st) (Some (head @ enc))))))"

definition LinkLayerProcessBtData :: "ll_env \<Rightarrow> ll_state \<Rightarrow> bytes option \<Rightarrow> ret \<times> ll_state \<times> bytes list" where
  "LinkLayerProcessBtData env st buff =
    (case buff of
       None \<Rightarrow> (IOTC_ERR_PARAM_INVALID, st, [])
     | Some b \<Rightarrow>
         if \<not> length b > PKG_HEAD_LEN then (IOTC_ERR_PARAM_INVALID, st, [])
         else
           (let h = ParsePkgHead b;
                (r, pool) = LinkLayerRecvPkgInsert (en_clock env) (en_insert env) (st_pool st)
                              (ph_token h) (ph_pkgNum h) (ph_pkgIdx h) (Some (drop PKG_HEAD_LEN b));
                st = st\<lparr>st_pool := pool\<rparr>
            in
            if r \<noteq> IOTC_OK then (r, st, [])
            else
              (let (r, cr) = LinkLayerSetEncryptType (st_crypto st) (ph_encryptType h); st = st\<lparr>st_crypto := cr\<rparr> in
               if r \<noteq> IOTC_OK then (r, st, [])
               else
                 (let (r, isComplete) = LinkLayerRecvCompleteCheck (st_pool st) (ph_token h) in
                  if \<not> (r = IOTC_OK \<and> isComplete = Some True) then (r, st, [])
                  else
                    (let (r, st, sent, complete) = GetCompleteData env st b (ph_token h) (ph_encryptType h) in
                     case complete of
                       None \<Rightarrow> (r, st, sent)
                     | Some (buf, len) \<Rightarrow>
                         if \<not> (r = IOTC_OK \<and> len > 0) then (r, st, sent)
                         else
                           (case LinkLayerProcessData (en_mem env 1) (st_svc st) (Some (take len buf)) (ph_encryptType h) of
                              Inl e \<Rightarrow> (e, st, sent @ LinkLayerRspExceptionData st b LL_RET_ERR)
                            | Inr (rsp, rspLen) \<Rightarrow>
                               (case rsp of
                                  None \<Rightarrow> (IOTC_OK, st, sent @ LinkLayerRspExceptionData st b LL_RET_ERR)
                                | Some rspBuf \<Rightarrow>
                                    if rspLen = 0 then (IOTC_OK, st, sent @ LinkLayerRspExceptionData st b LL_RET_ERR)
                                    else
                                      (let (r, out) = SendRspData env st b (ph_encryptType h) rspBuf rspLen
                                       in (r, st, sent @ out)))))))))"

section \<open>Reporting\<close>

text \<open>The head of a report: zeroed, version 0, type report, the next send token.\<close>

definition report_head :: "u8 \<Rightarrow> u8 \<Rightarrow> bytes" where
  "report_head tk encType =
    (SetPkgHeadCmdType (SetPkgHeadVersion (replicate PKG_HEAD_LEN 0) 0) CMD_TYPE_REPORT)
      [PKG_HEAD_TOKEN_IDX := tk, PKG_HEAD_ENCRYPT_TYPE_IDX := encType, PKG_HEAD_RESERVED_IDX := 0, PKG_HEAD_RET_IDX := 0]"

text \<open>\<open>buff\<close> has the packet head reserved in front of the \<open>len\<close> bytes of the frame.\<close>

definition LinkLayerReportEncryptCmdData ::
    "bool \<Rightarrow> ll_state \<Rightarrow> bytes option \<Rightarrow> nat \<Rightarrow> ret \<times> ll_state \<times> bytes list" where
  "LinkLayerReportEncryptCmdData memok st buff len =
    (case buff of
       None \<Rightarrow> (IOTC_ERR_PARAM_INVALID, st, [])
     | Some b \<Rightarrow>
         if \<not> len > 0 then (IOTC_ERR_PARAM_INVALID, st, [])
         else
           (let encType = LinkLayerGetEncryptType (st_crypto st);
                sendBuffLen = PKG_HEAD_LEN + len + ENC_DATA_MAX_OVERHEAD
            in
            if \<not> memok then (IOTC_ADAPTER_MEM_ERR_CALLOC, st, [])
            else
              (case LinkLayerEncryptDataInto (st_crypto st) (Some (take len (drop PKG_HEAD_LEN b))) encType
                      (sendBuffLen - PKG_HEAD_LEN) of
                 Inl e \<Rightarrow> (e, st, [])
               | Inr enc \<Rightarrow>
                   if enc = [] then (IOTC_OK, st, [])
                   else
                     (let (r, sent) = LinkLayerSendBtPkg (st_send st) (Some (report_head (st_token st) encType @ enc))
                      in (r, st\<lparr>st_token := st_token st + 1\<rparr>, sent)))))"

definition LinkLayerReportCmdData :: "bool \<Rightarrow> ll_state \<Rightarrow> bytes option \<Rightarrow> nat \<Rightarrow> ret \<times> ll_state \<times> bytes list" where
  "LinkLayerReportCmdData memok st buff len =
    (case buff of
       None \<Rightarrow> (IOTC_ERR_PARAM_INVALID, st, [])
     | Some b \<Rightarrow>
         if \<not> len > 0 then (IOTC_ERR_PARAM_INVALID, st, [])
         else if \<not> memok then (IOTC_ADAPTER_MEM_ERR_CALLOC, st, [])
         else
           (let (r, sent) = LinkLayerSendBtPkg (st_send st)
                  (Some (report_head (st_token st) ENC_TYPE_UNENCRYPTED @ take len (drop PKG_HEAD_LEN b)))
            in (r, st\<lparr>st_token := st_token st + 1\<rparr>, sent)))"

definition CreateAndSendRptCmdData ::
    "alloc \<Rightarrow> ll_state \<Rightarrow> bytes \<Rightarrow> bytes \<Rightarrow> bool \<Rightarrow> ret \<times> ll_state \<times> bytes list" where
  "CreateAndSendRptCmdData mem st service data encrypt =
    (case GetBtSvcInfoByService (st_svc st) service of
       None \<Rightarrow> (IOTC_CORE_BLE_LL_ERR_SVC_NOT_FOUND, st, [])
     | Some svcInfo \<Rightarrow>
        (let r = SvcCheckEncType svcInfo (if encrypt then LinkLayerGetEncryptType (st_crypto st) else ENC_TYPE_UNENCRYPTED) in
         if r \<noteq> IOTC_OK then (r, st, [])
         else if \<not> length service + 1 \<le> BT_SVC_LEN then (IOTC_ERR_SECUREC_STRCPY, st, [])
         else
           (let cmdParam = \<lparr>bc_dataFormat = BT_CMD_DATA_MODE_JSON, bc_opType = BT_OPTYPE_RPT, bc_service = service,
                  bc_request = None, bc_requestLen = 0\<rparr>
            in
            case EncodeCmdData (mem 0) cmdParam (Some data) of
              Inl e \<Rightarrow> (e, st, [])
            | Inr (rptData, rptDataLen) \<Rightarrow>
                if encrypt then LinkLayerReportEncryptCmdData (mem 1) st (Some rptData) rptDataLen
                else LinkLayerReportCmdData (mem 1) st (Some rptData) rptDataLen)))"

definition LinkLayerReportSvcData ::
    "alloc \<Rightarrow> ll_state \<Rightarrow> bytes option \<Rightarrow> bytes option \<Rightarrow> ret \<times> ll_state \<times> bytes list" where
  "LinkLayerReportSvcData mem st service data =
    (case (service, data) of
       (Some s, Some d) \<Rightarrow>
         if d = [] then (IOTC_ERR_PARAM_INVALID, st, []) else CreateAndSendRptCmdData mem st s d False
     | _ \<Rightarrow> (IOTC_ERR_PARAM_INVALID, st, []))"

definition LinkLayerReportSvcDataEnc ::
    "alloc \<Rightarrow> ll_state \<Rightarrow> bytes option \<Rightarrow> bytes option \<Rightarrow> ret \<times> ll_state \<times> bytes list" where
  "LinkLayerReportSvcDataEnc mem st service data =
    (case (service, data) of
       (Some s, Some d) \<Rightarrow>
         if d = [] then (IOTC_ERR_PARAM_INVALID, st, []) else CreateAndSendRptCmdData mem st s d True
     | _ \<Rightarrow> (IOTC_ERR_PARAM_INVALID, st, []))"

section \<open>What a call sends\<close>

text \<open>Every packet sent while \<open>head\<close> is in front carries its token, type and encryption bytes.\<close>

definition answers :: "bytes \<Rightarrow> bytes \<Rightarrow> bool" where
  "answers b p \<longleftrightarrow> 7 \<le> length p \<and> length p \<le> 160 \<and> p ! 1 = b ! 1 \<and> p ! 0 AND 0x0F = 1 \<and> p ! 5 = b ! 5"

lemma response_type [simp]: "((x :: u8) AND 0xF0 OR 1) AND 0x0F = 1"
  by (rule bit_word_eqI) (auto simp: bit_simps numeral_eq_Suc less_Suc_eq)

lemma send_loop_sent:
  assumes "send_loop st b n i k left = (r, sent)" "p \<in> set sent" "7 \<le> length b"
  shows "7 \<le> length p \<and> length p \<le> 160 \<and> p ! 0 = b ! 0 \<and> p ! 1 = b ! 1 \<and> p ! 5 = b ! 5"
  using assms(1,2)
proof (induction k arbitrary: i left sent)
  case (Suc k)
  define q where "q = (take 7 b)[2 := of_nat n, 3 := of_nat i] @ take (min 160 (length left + 7) - 7) left"
  obtain r' sent' where rest: "send_loop st b n (i + 1) k (drop (min 160 (length left + 7) - 7) left) = (r', sent')"
    by fastforce
  have q: "7 \<le> length q \<and> length q \<le> 160 \<and> q ! 0 = b ! 0 \<and> q ! 1 = b ! 1 \<and> q ! 5 = b ! 5"
    using assms(3) by (auto simp: q_def nth_append)
  have "p = q \<or> p \<in> set sent' \<and> r = r'"
    using Suc.prems rest by (auto simp: Let_def q_def split: if_splits)
  then show ?case using q Suc.IH [of "i + 1" _ sent'] rest by blast
qed simp

lemma LinkLayerSendBtPkg_sent:
  assumes "LinkLayerSendBtPkg st (Some h) = (r, sent)" "p \<in> set sent"
    "h ! 1 = b ! 1" "h ! 0 AND 0x0F = 1" "h ! 5 = b ! 5"
  shows "answers b p"
  using assms send_loop_sent [of st h _ 0 _ "drop 7 h" r sent p]
  by (auto simp: answers_def LinkLayerSendBtPkg_def Let_def split: if_splits)

lemma LinkLayerRspExceptionData_sent:
  assumes "7 < length b"
  shows "p \<in> set (LinkLayerRspExceptionData st b v) \<Longrightarrow> answers b p"
  using assms
  by (auto simp: LinkLayerRspExceptionData_def SetPkgHeadCmdType_def SetPkgHeadVersion_def answers_def Let_def
      split: if_splits)

lemma SendRspData_sent:
  assumes "7 < length b" "7 + n \<le> length rsp"
    "SendRspData env st b t rsp n = (r, sent)" "p \<in> set sent"
  shows "answers b p"
proof -
  have head: "(take 7 b @ c)[0 := x] ! 0 = x" for c x using assms(1) by (cases b) auto
  show ?thesis using assms
    by (auto simp: head SendRspData_def SetPkgHeadCmdType_def Let_def overwrite_def nth_append
        split: if_splits sum.splits intro: LinkLayerRspExceptionData_sent
        elim!: LinkLayerSendBtPkg_sent)
qed

lemma LinkLayerProcessData_response:
  assumes "LinkLayerProcessData memok sv buff t = Inr (Some rsp, n)" "0 < n"
  shows "7 + n \<le> length rsp"
proof -
  have enc: "EncodeCmdData m c x = Inr (out, k) \<Longrightarrow> 7 + k \<le> length out" for m c x out k
    by (auto simp: EncodeCmdData_def LinkLayerWriteSvcHeader_def Let_def split: option.splits if_splits)
  from assms show ?thesis
    by (auto simp: LinkLayerProcessData_def Let_def split: option.splits if_splits sum.splits prod.splits dest!: enc)
qed

lemma GetCompleteData_sent:
  assumes "7 < length b" "GetCompleteData env st b tk t = (r, st', sent, out)" "p \<in> set sent"
  shows "answers b p"
  using assms LinkLayerRspExceptionData_sent [OF assms(1)]
  by (auto simp: GetCompleteData_def Let_def split: prod.splits option.splits if_splits sum.splits)

text \<open>
  C26. Whatever packet arrives in whatever state, every packet the device sends in answer has a full
  head, at most 160 bytes, the response type, and the token and encryption type of the packet that
  triggered it.
\<close>

theorem LinkLayerProcessBtData_answers:
  assumes "LinkLayerProcessBtData env st (Some b) = (r, st', sent)" "p \<in> set sent"
  shows "7 \<le> length p \<and> length p \<le> 160 \<and> p ! 1 = b ! 1 \<and> p ! 0 AND 0x0F = 1 \<and> p ! 5 = b ! 5"
proof -
  have len: "7 < length b" using assms by (auto simp: LinkLayerProcessBtData_def split: if_splits)
  note ex = LinkLayerRspExceptionData_sent [OF len]
  have "answers b p"
    using assms len
    by (auto simp: LinkLayerProcessBtData_def Let_def split: prod.splits option.splits if_splits sum.splits
        intro: ex GetCompleteData_sent [OF len] SendRspData_sent [OF len LinkLayerProcessData_response])
  then show ?thesis by (simp add: answers_def)
qed

section \<open>A request and its answer\<close>

lemma send_loop_OK:
  assumes "send_loop st b n i k left = (IOTC_OK, sent)" "left = drop (153 * i) D"
  shows "sent = map (\<lambda>j. pkg_head b n j @ frag D j) [i..<i + k]"
  using assms
proof (induction k arbitrary: i left sent)
  case (Suc k)
  have cut: "take (min 160 (length left + 7) - 7) left = take 153 left"
    "drop (min 160 (length left + 7) - 7) left = drop 153 left"
    by (auto simp: min_def)
  have tl: "drop 153 left = drop (153 * (i + 1)) D"
    using Suc.prems(2) by (simp add: add.commute)
  obtain r s where rest: "send_loop st b n (i + 1) k (drop 153 left) = (r, s)" by fastforce
  have "sent = (pkg_head b n i @ take 153 left) # s" "r = IOTC_OK"
    using Suc.prems(1) rest by (auto simp: cut pkg_head_def Let_def split: if_splits)
  moreover have "s = map (\<lambda>j. pkg_head b n j @ frag D j) [i + 1..<i + 1 + k]"
    using Suc.IH [of "i + 1" "drop 153 left" s] rest tl \<open>r = IOTC_OK\<close> by blast
  moreover have "[i..<i + Suc k] = i # [i + 1..<i + 1 + k]" by (simp add: upt_conv_Cons del: upt_Suc)
  moreover have "take 153 left = frag D i" using Suc.prems(2) by (simp add: frag_def)
  ultimately show ?case by (simp only: list.map)
qed simp

lemma LinkLayerSendBtPkg_OK:
  assumes "LinkLayerSendBtPkg st (Some b) = (IOTC_OK, sent)"
  shows "7 < length b" "sent = map (\<lambda>j. pkg_head b (length sent) j @ frag (drop 7 b) j) [0..<length sent]"
    "length sent = frag_count (drop 7 b)"
proof -
  show "7 < length b" using assms by (auto simp: LinkLayerSendBtPkg_def split: if_splits)
  have "send_loop st b (frag_count (drop 7 b)) 0 (frag_count (drop 7 b)) (drop 7 b) = (IOTC_OK, sent)"
    using assms by (simp add: LinkLayerSendBtPkg_def frag_count_def Let_def split: if_splits)
  then have sent: "sent = map (\<lambda>j. pkg_head b (frag_count (drop 7 b)) j @ frag (drop 7 b) j) [0..<0 + frag_count (drop 7 b)]"
    by (rule send_loop_OK) simp
  show len: "length sent = frag_count (drop 7 b)" by (subst sent) simp
  show "sent = map (\<lambda>j. pkg_head b (length sent) j @ frag (drop 7 b) j) [0..<length sent]"
    unfolding len using sent by simp
qed

lemma ParsePkgHead_frag:
  assumes "7 < length b"
  shows "ph_token (ParsePkgHead (pkg_head b n i @ d)) = b ! 1" "ph_pkgNum (ParsePkgHead (pkg_head b n i @ d)) = of_nat n"
    "ph_pkgIdx (ParsePkgHead (pkg_head b n i @ d)) = of_nat i" "ph_encryptType (ParsePkgHead (pkg_head b n i @ d)) = b ! 5"
    "drop 7 (pkg_head b n i @ d) = d" "take 7 (pkg_head b n i @ d) = pkg_head b n i" "length (pkg_head b n i) = 7"
  using assms by (auto simp: ParsePkgHead_def pkg_head_def nth_append)

text \<open>The receive pool while the fragments \<open>S\<close> of the message \<open>D\<close> are in, the first since \<open>t0\<close>.\<close>

definition collecting :: "bytes \<Rightarrow> u8 \<Rightarrow> u32 \<Rightarrow> nat set \<Rightarrow> PkgList \<Rightarrow> bool" where
  "collecting D tk t0 S pool \<longleftrightarrow>
    (if S = {} then pool = empty_pool else \<exists>e. pool = \<lparr>pl_size = 1, pl_pkgs = [e]\<rparr> \<and> recv_entry D tk t0 S e)"

definition in_time :: "u32 \<Rightarrow> nat set \<Rightarrow> ll_env \<Rightarrow> bool" where
  "in_time t0 S env \<longleftrightarrow> en_insert env = (\<lambda>_. True) \<and>
    (if S = {} then en_clock env 1 = t0 else en_clock env 0 - t0 < PKG_TIMEOUT)"

lemma collect_frag:
  assumes "collecting D tk t0 S pool" "in_time t0 S env" "i < frag_count D" "frag_count D \<le> 16"
  obtains e where "LinkLayerRecvPkgInsert (en_clock env) (en_insert env) pool tk (of_nat (frag_count D)) (of_nat i) (Some (frag D i)) =
      (IOTC_OK, \<lparr>pl_size = 1, pl_pkgs = [e]\<rparr>)" "recv_entry D tk t0 (insert i S) e"
proof (cases "S = {}")
  case True
  then show thesis
    using recv_frag_first [OF assms(3,4), of tk "en_clock env"] assms(1,2) that
    by (auto simp: collecting_def in_time_def recv_frag_def)
next
  case False
  then obtain e0 where "pool = \<lparr>pl_size = 1, pl_pkgs = [e0]\<rparr>" "recv_entry D tk t0 S e0"
    using assms(1) by (auto simp: collecting_def)
  then show thesis
    using recv_frag_next [OF assms(3,4), of tk t0 S e0 "en_clock env"] assms(2) False that
    by (auto simp: in_time_def recv_frag_def)
qed

lemma recv_entry_check:
  assumes "recv_entry D tk t0 S e" "frag_count D \<le> 16"
  shows "LinkLayerRecvCompleteCheck \<lparr>pl_size = 1, pl_pkgs = [e]\<rparr> tk = (IOTC_OK, Some (S = {..<frag_count D}))"
proof -
  have S: "S \<subseteq> {..<frag_count D}" "cp_token e = tk" "cp_curSize e = card S" "unat (cp_pkgNum e) = frag_count D"
    using assms by (simp_all add: recv_entry_def unat_small_u8)
  have "card S < frag_count D" if "S \<noteq> {..<frag_count D}"
    using psubset_card_mono [of "{..<frag_count D}" S] S(1) that by auto
  then show ?thesis using S
    by (cases "S = {..<frag_count D}") (auto simp: LinkLayerRecvCompleteCheck_def FindPkgByToken_def)
qed

text \<open>The state after a packet of an unencrypted message has been stored.\<close>

definition stored :: "ll_state \<Rightarrow> PkgList \<Rightarrow> ll_state" where
  "stored st pool = st\<lparr>st_pool := pool, st_crypto := (st_crypto st)\<lparr>cr_type := ENC_TYPE_UNENCRYPTED\<rparr>\<rparr>"

lemma process_frag:
  assumes "collecting D (b ! 1) t0 S (st_pool st)" "in_time t0 S env" "i < frag_count D" "frag_count D \<le> 16"
    and b: "7 < length b" "b ! 5 = 0" "D = drop 7 b" and part: "insert i S \<noteq> {..<frag_count D}"
  shows "\<exists>pool. LinkLayerProcessBtData env st (Some (pkg_head b (frag_count D) i @ frag D i)) = (IOTC_OK, stored st pool, []) \<and>
    collecting D (b ! 1) t0 (insert i S) pool"
proof -
  obtain e where e: "LinkLayerRecvPkgInsert (en_clock env) (en_insert env) (st_pool st) (b ! 1) (of_nat (frag_count D))
      (of_nat i) (Some (frag D i)) = (IOTC_OK, \<lparr>pl_size = 1, pl_pkgs = [e]\<rparr>)" "recv_entry D (b ! 1) t0 (insert i S) e"
    using collect_frag [OF assms(1-4)] by blast
  have "0 < length (frag D i)" using frag_facts(1) [OF assms(3)] .
  then have "LinkLayerProcessBtData env st (Some (pkg_head b (frag_count D) i @ frag D i)) =
      (IOTC_OK, stored st \<lparr>pl_size = 1, pl_pkgs = [e]\<rparr>, [])"
    using e(1) recv_entry_check [OF e(2) assms(4)] part b
    by (simp add: LinkLayerProcessBtData_def Let_def ParsePkgHead_frag LinkLayerSetEncryptType_def stored_def)
  then show ?thesis using e(2) by (auto simp: collecting_def)
qed

text \<open>The head of the answer to a packet \<open>head\<close>.\<close>

definition response_head :: "bytes \<Rightarrow> bytes" where
  "response_head head = (SetPkgHeadCmdType head CMD_TYPE_RESPONSE)[6 := 0]"

lemma SendRspData_plain:
  assumes "length head = 7" "7 + n \<le> length rsp"
  shows "SendRspData env st (head @ d) ENC_TYPE_UNENCRYPTED rsp n =
    LinkLayerSendBtPkg (st_send st) (Some (response_head head @ take n (drop 7 rsp)))"
proof -
  have "head \<noteq> []" using assms(1) by auto
  then have "(SetPkgHeadCmdType (overwrite rsp 0 head) CMD_TYPE_RESPONSE)[6 := 0] = response_head head @ drop 7 rsp"
    using assms(1) by (simp add: SetPkgHeadCmdType_def response_head_def overwrite_def list_update_append nth_append)
  moreover have "length (response_head head) = 7" using assms(1) by (simp add: response_head_def SetPkgHeadCmdType_def)
  ultimately show ?thesis using assms by (simp add: SendRspData_def Let_def)
qed

lemma process_last:
  assumes "collecting D (b ! 1) t0 S (st_pool st)" "in_time t0 S env" "i < frag_count D" "frag_count D \<le> 16"
    and b: "7 < length b" "b ! 5 = 0" "D = drop 7 b" and all: "insert i S = {..<frag_count D}"
    and rsp: "LinkLayerProcessData (en_mem env 1) (st_svc st) (Some D) ENC_TYPE_UNENCRYPTED = Inr (Some rsp, n)" "0 < n"
  shows "LinkLayerProcessBtData env st (Some (pkg_head b (frag_count D) i @ frag D i)) =
    (let (r, sent) = LinkLayerSendBtPkg (st_send st)
           (Some (response_head (pkg_head b (frag_count D) i) @ take n (drop 7 rsp)))
     in (r, stored st empty_pool, sent))"
proof -
  obtain e where e: "LinkLayerRecvPkgInsert (en_clock env) (en_insert env) (st_pool st) (b ! 1) (of_nat (frag_count D))
      (of_nat i) (Some (frag D i)) = (IOTC_OK, \<lparr>pl_size = 1, pl_pkgs = [e]\<rparr>)" "recv_entry D (b ! 1) t0 (insert i S) e"
    using collect_frag [OF assms(1-4)] by blast
  have D: "D \<noteq> []" using b by simp
  obtain buf where buf: "LinkLayerRecvMergePkgs \<lparr>pl_size = 1, pl_pkgs = [e]\<rparr> (b ! 1) =
      (IOTC_OK, empty_pool, Some (buf, length D))" "take (length D) buf = D"
    using merge_complete [OF _ D assms(4)] e(2) all by metis
  have "0 < length (frag D i)" using frag_facts(1) [OF assms(3)] .
  moreover have "GetCompleteData env (stored st \<lparr>pl_size = 1, pl_pkgs = [e]\<rparr>) (pkg_head b (frag_count D) i @ frag D i) (b ! 1) 0 =
      (IOTC_OK, stored st empty_pool, [], Some (buf, length D))"
    using buf(1) D by (simp add: GetCompleteData_def stored_def LinkLayerDecryptData_def)
  ultimately show ?thesis
    using e(1) recv_entry_check [OF e(2) assms(4)] all b rsp buf(2) D
      SendRspData_plain [OF ParsePkgHead_frag(7) [OF b(1)] LinkLayerProcessData_response [OF rsp]]
    by (simp add: LinkLayerProcessBtData_def Let_def ParsePkgHead_frag LinkLayerSetEncryptType_def stored_def)
qed

text \<open>A sequence of arriving packets: what each call returns and sends, and the state afterwards.\<close>

primrec deliver :: "ll_state \<Rightarrow> (ll_env \<times> bytes) list \<Rightarrow> (ret \<times> bytes list) list \<times> ll_state" where
  "deliver st [] = ([], st)"
| "deliver st (ev # evs) =
    (let (r, st, sent) = LinkLayerProcessBtData (fst ev) st (Some (snd ev)); (outs, st) = deliver st evs
     in ((r, sent) # outs, st))"

lemma deliver_append:
  "deliver st (xs @ ys) = (let (o1, st) = deliver st xs; (o2, st) = deliver st ys in (o1 @ o2, st))"
  by (induction xs arbitrary: st) (simp_all add: Let_def split: prod.splits)

primrec timely :: "u32 \<Rightarrow> nat set \<Rightarrow> (ll_env \<times> nat) list \<Rightarrow> bool" where
  "timely t0 S [] = True"
| "timely t0 S (ev # evs) = (in_time t0 S (fst ev) \<and> timely t0 (insert (snd ev) S) evs)"

lemma timely_append: "timely t0 S (xs @ ys) \<longleftrightarrow> timely t0 S xs \<and> timely t0 (S \<union> snd ` set xs) ys"
  by (induction xs arbitrary: S) auto

lemma timely_later:
  "S \<noteq> {} \<Longrightarrow> (\<forall>(e, i) \<in> set evs. en_insert e = (\<lambda>_. True) \<and> en_clock e 0 - t0 < PKG_TIMEOUT) \<Longrightarrow> timely t0 S evs"
  by (induction evs arbitrary: S) (auto simp: in_time_def)

lemma timely_all:
  assumes "evs \<noteq> []" "\<forall>(e, i) \<in> set evs. en_insert e = (\<lambda>_. True)"
    "\<forall>(e, i) \<in> set (tl evs). en_clock e 0 - en_clock (fst (hd evs)) 1 < PKG_TIMEOUT"
  shows "timely (en_clock (fst (hd evs)) 1) {} evs"
proof -
  obtain ev rest where evs: "evs = ev # rest" using assms(1) by (cases evs) auto
  have "timely (en_clock (fst ev) 1) {snd ev} rest"
    by (rule timely_later) (use assms(2,3) in \<open>auto simp: evs\<close>)
  then show ?thesis using assms(2) by (auto simp: evs in_time_def split: prod.splits)
qed

lemma deliver_parts:
  assumes "collecting D (b ! 1) t0 S (st_pool st)" "timely t0 S evs" "frag_count D \<le> 16"
    and b: "7 < length b" "b ! 5 = 0" "D = drop 7 b"
    and part: "S \<union> snd ` set evs \<subset> {..<frag_count D}"
  shows "\<exists>st'. deliver st (map (\<lambda>(e, i). (e, pkg_head b (frag_count D) i @ frag D i)) evs) =
      (replicate (length evs) (IOTC_OK, []), st') \<and>
    collecting D (b ! 1) t0 (S \<union> snd ` set evs) (st_pool st') \<and> st_send st' = st_send st \<and> st_svc st' = st_svc st"
  using assms(1,2) part
proof (induction evs arbitrary: S st)
  case (Cons ev evs)
  obtain env i where ev: "ev = (env, i)" by fastforce
  have i: "i < frag_count D" "insert i S \<noteq> {..<frag_count D}" "in_time t0 S env" "timely t0 (insert i S) evs"
    "insert i S \<union> snd ` set evs \<subset> {..<frag_count D}"
    using Cons.prems(2,3) by (auto simp: ev)
  obtain pool where p: "LinkLayerProcessBtData env st (Some (pkg_head b (frag_count D) i @ frag D i)) = (IOTC_OK, stored st pool, [])"
    "collecting D (b ! 1) t0 (insert i S) (st_pool (stored st pool))"
    using process_frag [OF Cons.prems(1) i(3,1) assms(3) b i(2)] by (auto simp: stored_def)
  show ?case
    using Cons.IH [OF p(2) i(4,5)] p(1) by (auto simp: ev stored_def)
qed simp


definition demo_env :: ll_env where
  "demo_env = \<lparr>en_clock = (\<lambda>_. 5), en_insert = (\<lambda>_. True), en_mem = (\<lambda>_. True)\<rparr>"

definition demo_send :: ll_send where
  "demo_send = \<lparr>ls_pkgMaxNum = 16, ls_cb = Some (\<lambda>_ _. 0)\<rparr>"

definition demo_state :: ll_state where
  "demo_state = \<lparr>st_send = demo_send, st_pool = empty_pool, st_crypto = pad_crypto,
     st_svc = \<lparr>sv_list = [echo_service], sv_num = 1\<rparr>, st_token = 0\<rparr>"

definition demo_request :: bytes where
  "demo_request = [0, 9, 0, 0, 0, 0, 0, 0x10, 1, 97, 160, 0] @ replicate 160 5"

definition demo_packets :: "bytes list" where
  "demo_packets = snd (LinkLayerSendBtPkg demo_send (Some demo_request))"


theorem LinkLayerProcessBtData_answers_witness:
  "(case LinkLayerProcessBtData demo_env demo_state (Some [0, 9, 1, 0, 0, 0, 0, 1]) of
     (r, st', sent) \<Rightarrow> sent \<noteq> [] \<and> hd sent ! 1 = 9 \<and> hd sent ! 0 AND 0x0F = 1)"
proof -
  obtain r st' sent where c: "LinkLayerProcessBtData demo_env demo_state (Some [0, 9, 1, 0, 0, 0, 0, 1]) = (r, st', sent)"
    by (metis prod_cases3)
  have "case LinkLayerProcessBtData demo_env demo_state (Some [0, 9, 1, 0, 0, 0, 0, 1]) of (r, st', sent) \<Rightarrow> sent \<noteq> []"
    by code_simp
  then have "sent \<noteq> []" by (simp add: c)
  then show ?thesis
    using LinkLayerProcessBtData_answers [OF c, of "hd sent"] by (simp add: c)
qed

section \<open>Reports\<close>


definition speke_state :: ll_state where
  "speke_state = demo_state\<lparr>st_crypto := \<lparr>cr_sess = \<lparr>sk_encrypt = None, sk_decrypt = None, sk_calHmac = None,
     sk_checkHmac = None, sk_checkExist = None\<rparr>,
     cr_speke = Some \<lparr>sp_encrypt = \<lambda>d n. (0, map (\<lambda>x. x XOR 0x55) d), sp_decrypt = \<lambda>d. (0, map (\<lambda>x. x XOR 0x55) d)\<rparr>,
     cr_type = 1\<rparr>\<rparr>"


end
