(* ===== verification/Coap_Codec.thy ===== *)
theory Coap_Codec
  imports Errcode Contracts
begin

text \<open>
  The CoAP message codec over UDP: \<open>coap_codec_comm.c\<close>, \<open>coap_codec_udp.c\<close> and the accessors of
  \<open>coap_codec_utils.c\<close>.  A received packet is a list of bytes and a position in it; a
  \<open>CoapBuffer\<close> under construction is its size and the bytes written so far.  A write behind the end
  of the buffer is the result \<^term>\<open>None\<close>.  Positions and lengths are natural numbers; messages are far
  shorter than the 32-bit range of the source's length type.
\<close>

section \<open>Data\<close>

abbreviation (input) COAP_OPTION_MAX_NUM :: nat where "COAP_OPTION_MAX_NUM \<equiv> 16"
abbreviation (input) COAP_TOKEN_MAX_LEN :: nat where "COAP_TOKEN_MAX_LEN \<equiv> 8"
abbreviation (input) COAP_OPTION_MIN_LEN :: nat where "COAP_OPTION_MIN_LEN \<equiv> 1"
abbreviation (input) COAP_EXTEND_DELTA_VALUE_UINT8 :: nat where "COAP_EXTEND_DELTA_VALUE_UINT8 \<equiv> 13"
abbreviation (input) COAP_EXTEND_DELTA_VALUE_UINT16 :: nat where "COAP_EXTEND_DELTA_VALUE_UINT16 \<equiv> 14"
abbreviation (input) COAP_EXTEND_DELTA_VALUE_UINT32 :: nat where "COAP_EXTEND_DELTA_VALUE_UINT32 \<equiv> 15"
abbreviation (input) COAP_DELTA_UINT8_ADD_NUM :: nat where "COAP_DELTA_UINT8_ADD_NUM \<equiv> 13"
abbreviation (input) COAP_DELTA_UINT16_ADD_NUM :: nat where "COAP_DELTA_UINT16_ADD_NUM \<equiv> 269"
abbreviation (input) COAP_DELTA_UINT32_ADD_NUM :: nat where "COAP_DELTA_UINT32_ADD_NUM \<equiv> 65805"
abbreviation (input) COAP_OPTION_TYPE_URI_PATH :: nat where "COAP_OPTION_TYPE_URI_PATH \<equiv> 11"
abbreviation (input) COAP_OPTION_TYPE_URI_QUERY :: nat where "COAP_OPTION_TYPE_URI_QUERY \<equiv> 15"

text \<open>A pointer with a length: \<^term>\<open>None\<close> for null, else the bytes pointed to.\<close>

record CoapData =
  cd_data :: "bytes option"
  cd_len :: nat

record CoapHeader =
  ch_ver :: u8
  ch_type :: u8
  ch_tkl :: u8
  ch_code :: u8
  ch_msgId :: u16

record CoapTcpHeader =
  ct_len :: u8
  ct_exlen :: u32

record CoapOption =
  op_option :: nat
  op_value :: CoapData

record CoapPacket =
  ck_header :: CoapHeader
  ck_tcpheader :: CoapTcpHeader
  ck_token :: bytes
  ck_opNum :: nat
  ck_options :: "CoapOption list"
  ck_payload :: CoapData

text \<open>
  The payload callback gets the free room of the buffer and returns a code and the bytes it appended.
  The number of options is the length of the option array.
\<close>

record CoapBuildPacket =
  bp_header :: CoapHeader
  bp_token :: bytes
  bp_options :: "CoapOption list"
  bp_payload :: "CoapData option"
  bp_buildFunc :: "(nat \<Rightarrow> ret \<times> bytes) option"

record CoapBuffer =
  cb_size :: nat
  cb_data :: bytes

section \<open>Parsing\<close>

text \<open>Big-endian reads of the packet.\<close>

definition be16 :: "bytes \<Rightarrow> nat \<Rightarrow> nat" where
  "be16 raw pos = 256 * unat (raw ! pos) + unat (raw ! (pos + 1))"

definition be32 :: "bytes \<Rightarrow> nat \<Rightarrow> nat" where
  "be32 raw pos = 65536 * be16 raw pos + be16 raw (pos + 2)"

definition CoapCommParseExtension :: "nat \<Rightarrow> bytes \<Rightarrow> nat \<Rightarrow> ret + nat \<times> nat" where
  "CoapCommParseExtension val raw pos =
    (if val = COAP_EXTEND_DELTA_VALUE_UINT8 then
       (if length raw < pos + 1 then Inl IOTC_CORE_WIFI_TRANS_ERR_COAP_CODEC_EXT_SHORT
        else Inr (unat (raw ! pos) + COAP_DELTA_UINT8_ADD_NUM, pos + 1))
     else if val = COAP_EXTEND_DELTA_VALUE_UINT16 then
       (if length raw < pos + 2 then Inl IOTC_CORE_WIFI_TRANS_ERR_COAP_CODEC_EXT_SHORT
        else Inr (be16 raw pos + COAP_DELTA_UINT16_ADD_NUM, pos + 2))
     else if val = COAP_EXTEND_DELTA_VALUE_UINT32 then
       (if length raw < pos + 4 then Inl IOTC_CORE_WIFI_TRANS_ERR_COAP_CODEC_EXT_SHORT
        else if be32 raw pos > 0xFFFFFFFF - COAP_DELTA_UINT32_ADD_NUM then
          Inl IOTC_CORE_WIFI_TRANS_ERR_COAP_CODEC_EXT_LONG
        else Inr (be32 raw pos + COAP_DELTA_UINT32_ADD_NUM, pos + 4))
     else Inr (val, pos))"

text \<open>The option, the option number reached and the position behind it.\<close>

definition CoapCommParseSingleOption :: "nat \<Rightarrow> bytes \<Rightarrow> nat \<Rightarrow> ret + CoapOption \<times> nat \<times> nat" where
  "CoapCommParseSingleOption delta raw pos =
    (if length raw < pos + COAP_OPTION_MIN_LEN then Inl IOTC_CORE_WIFI_TRANS_ERR_COAP_CODEC_OPTION_SHORT
     else
       (let curDelta = unat (drop_bit 4 (raw ! pos AND 0xF0)); curLen = unat (raw ! pos AND 0x0F) in
        if curDelta = COAP_EXTEND_DELTA_VALUE_UINT32 \<or> curLen = COAP_EXTEND_DELTA_VALUE_UINT32 then
          Inl IOTC_CORE_WIFI_TRANS_ERR_COAP_CODEC_USE_RESERVED
        else
          (case CoapCommParseExtension curDelta raw (pos + 1) of
             Inl e \<Rightarrow> Inl e
           | Inr (curDelta, pos) \<Rightarrow>
               if curDelta > 0xFFFF - delta then Inl IOTC_CORE_WIFI_TRANS_ERR_COAP_CODEC_OPTION_BIG
               else
                 (case CoapCommParseExtension curLen raw pos of
                    Inl e \<Rightarrow> Inl e
                  | Inr (curLen, pos) \<Rightarrow>
                      if length raw < pos + curLen then Inl IOTC_CORE_WIFI_TRANS_ERR_COAP_CODEC_OPTION_LONG
                      else Inr (\<lparr>op_option = delta + curDelta,
                                 op_value = \<lparr>cd_data = Some (take curLen (drop pos raw)), cd_len = curLen\<rparr>\<rparr>,
                                delta + curDelta, pos + curLen)))))"

text \<open>The option loop with room for \<open>k\<close> more options.\<close>

primrec parse_options ::
    "nat \<Rightarrow> bytes \<Rightarrow> nat \<Rightarrow> nat \<Rightarrow> nat \<Rightarrow> CoapOption list \<Rightarrow> ret + nat \<times> nat \<times> CoapOption list" where
  "parse_options 0 raw opNum delta pos opts = Inr (opNum, pos, opts)"
| "parse_options (Suc k) raw opNum delta pos opts =
    (if pos < length raw \<and> raw ! pos \<noteq> 0xFF then
       (case CoapCommParseSingleOption delta raw pos of
          Inl e \<Rightarrow> Inl e
        | Inr (opt, delta, pos) \<Rightarrow> parse_options k raw (opNum + 1) delta pos (opts[opNum := opt]))
     else Inr (opNum, pos, opts))"

definition CoapCommParseOptions :: "CoapPacket \<Rightarrow> bytes option \<Rightarrow> nat \<Rightarrow> ret + CoapPacket \<times> nat" where
  "CoapCommParseOptions pkt data pos =
    (case data of
       None \<Rightarrow> Inl IOTC_ERR_PARAM_INVALID
     | Some raw \<Rightarrow>
         if \<not> (length raw \<noteq> 0 \<and> pos \<le> length raw) then Inl IOTC_ERR_PARAM_INVALID
         else
           (case parse_options COAP_OPTION_MAX_NUM raw 0 0 pos (ck_options pkt) of
              Inl e \<Rightarrow> Inl e
            | Inr (opNum, pos, opts) \<Rightarrow>
                if pos < length raw \<and> raw ! pos \<noteq> 0xFF \<and> opNum \<ge> COAP_OPTION_MAX_NUM then
                  Inl IOTC_CORE_WIFI_TRANS_ERR_COAP_CODEC_OPTION_NUM
                else Inr (pkt\<lparr>ck_options := opts, ck_opNum := opNum\<rparr>, pos)))"

definition CoapCommParseToken :: "CoapPacket \<Rightarrow> bytes option \<Rightarrow> nat \<Rightarrow> ret + CoapPacket \<times> nat" where
  "CoapCommParseToken pkt data pos =
    (case data of
       None \<Rightarrow> Inl IOTC_ERR_PARAM_INVALID
     | Some raw \<Rightarrow>
         if \<not> (length raw \<noteq> 0 \<and> pos \<le> length raw) then Inl IOTC_ERR_PARAM_INVALID
         else
           (let tkl = unat (ch_tkl (ck_header pkt)) in
            if tkl = 0 then Inr (pkt, pos)
            else if length raw < pos + tkl then Inl IOTC_CORE_WIFI_TRANS_ERR_COAP_CODEC_UDP_TOKEN_SHORT
            else if tkl > COAP_TOKEN_MAX_LEN then Inl IOTC_ERR_SECUREC_MEMCPY
            else Inr (pkt\<lparr>ck_token := overwrite (ck_token pkt) 0 (take tkl (drop pos raw))\<rparr>, pos + tkl)))"

definition CoapCommParsePayload :: "CoapPacket \<Rightarrow> bytes option \<Rightarrow> nat \<Rightarrow> ret + CoapPacket \<times> nat" where
  "CoapCommParsePayload pkt data pos =
    (case data of
       None \<Rightarrow> Inl IOTC_ERR_PARAM_INVALID
     | Some raw \<Rightarrow>
         if \<not> (length raw \<noteq> 0 \<and> pos \<le> length raw) then Inl IOTC_ERR_PARAM_INVALID
         else if pos \<ge> length raw \<or> raw ! pos \<noteq> 0xFF then
           Inr (pkt\<lparr>ck_payload := \<lparr>cd_data = None, cd_len = 0\<rparr>\<rparr>, pos)
         else Inr (pkt\<lparr>ck_payload := \<lparr>cd_data = Some (drop (pos + 1) raw), cd_len = length raw - (pos + 1)\<rparr>\<rparr>, pos + 1))"

section \<open>Building\<close>

definition cb_room :: "CoapBuffer \<Rightarrow> nat" where
  "cb_room buf = cb_size buf - length (cb_data buf)"

definition cb_put :: "CoapBuffer \<Rightarrow> bytes \<Rightarrow> CoapBuffer" where
  "cb_put buf d = buf\<lparr>cb_data := cb_data buf @ d\<rparr>"

text \<open>\<open>buf->buffer[buf->len++] = 0xFF\<close>, which has no check of its own.\<close>

definition put_marker :: "CoapBuffer \<Rightarrow> CoapBuffer option" where
  "put_marker buf = (if length (cb_data buf) < cb_size buf then Some (cb_put buf [0xFF]) else None)"

definition CoapCommBuildToken :: "CoapBuildPacket \<Rightarrow> CoapPacket \<Rightarrow> CoapBuffer \<Rightarrow> ret \<times> CoapPacket \<times> CoapBuffer" where
  "CoapCommBuildToken build pkt buf =
    (if \<not> cb_size buf \<ge> length (cb_data buf) then (IOTC_ERR_PARAM_INVALID, pkt, buf)
     else
       (let tkl = unat (ch_tkl (bp_header build)) in
        if tkl = 0 then (IOTC_OK, pkt, buf)
        else if tkl > cb_room buf then (IOTC_CORE_WIFI_TRANS_ERR_COAP_CODEC_BUFFER_SHORT, pkt, buf)
        else if tkl > COAP_TOKEN_MAX_LEN then
          (IOTC_ERR_SECUREC_MEMCPY, pkt\<lparr>ck_token := replicate COAP_TOKEN_MAX_LEN 0\<rparr>, buf)
        else (IOTC_OK, pkt\<lparr>ck_token := overwrite (ck_token pkt) 0 (take tkl (bp_token build))\<rparr>,
              cb_put buf (take tkl (bp_token build)))))"

text \<open>The nibble and the number of extension bytes.\<close>

definition CoapCommGetExtensionBase :: "nat \<Rightarrow> nat \<times> nat" where
  "CoapCommGetExtensionBase val =
    (if val < COAP_DELTA_UINT8_ADD_NUM then (val, 0)
     else if val \<le> COAP_DELTA_UINT16_ADD_NUM then (COAP_EXTEND_DELTA_VALUE_UINT8, 1)
     else if val \<le> COAP_DELTA_UINT32_ADD_NUM then (COAP_EXTEND_DELTA_VALUE_UINT16, 2)
     else (COAP_EXTEND_DELTA_VALUE_UINT32, 4))"

definition CoapCommBuildExtension :: "CoapBuffer \<Rightarrow> nat \<Rightarrow> ret \<times> CoapBuffer" where
  "CoapCommBuildExtension buf val =
    (if val < COAP_DELTA_UINT8_ADD_NUM then (IOTC_OK, buf)
     else if val \<le> COAP_DELTA_UINT16_ADD_NUM then
       (if cb_room buf < 1 then (IOTC_CORE_WIFI_TRANS_ERR_COAP_CODEC_BUFFER_SHORT, buf)
        else (IOTC_OK, cb_put buf [of_nat (val - COAP_DELTA_UINT8_ADD_NUM)]))
     else if val \<le> COAP_DELTA_UINT32_ADD_NUM then
       (if cb_room buf < 2 then (IOTC_CORE_WIFI_TRANS_ERR_COAP_CODEC_BUFFER_SHORT, buf)
        else
          (let ext = val - COAP_DELTA_UINT16_ADD_NUM
           in (IOTC_OK, cb_put buf [of_nat (ext div 256), of_nat ext])))
     else if cb_room buf < 4 then (IOTC_CORE_WIFI_TRANS_ERR_COAP_CODEC_BUFFER_SHORT, buf)
     else
       (let ext = val - COAP_DELTA_UINT32_ADD_NUM
        in (IOTC_OK, cb_put buf [of_nat (ext div 16777216), of_nat (ext div 65536), of_nat (ext div 256), of_nat ext])))"

text \<open>An option without data reserves zeroed space and leaves the packet's copy of the option as it is.\<close>

definition CoapCommBuildOptionData :: "CoapBuffer \<Rightarrow> CoapOption \<Rightarrow> CoapOption \<Rightarrow> ret \<times> CoapBuffer \<times> CoapOption" where
  "CoapCommBuildOptionData buf src dst =
    (let n = cd_len (op_value src) in
     if n = 0 then (IOTC_OK, buf, dst)
     else
       (case cd_data (op_value src) of
          None \<Rightarrow> (IOTC_OK, cb_put buf (replicate n 0), dst)
        | Some d \<Rightarrow>
            if n > cb_room buf then (IOTC_ERR_SECUREC_MEMCPY, buf, dst)
            else (IOTC_OK, cb_put buf (take n d), dst\<lparr>op_value := \<lparr>cd_data = Some (take n d), cd_len = n\<rparr>\<rparr>)))"

text \<open>\<open>prev\<close> is the number of the option before, 0 for the first.\<close>

definition CoapCommBuildSingleOption ::
    "nat \<Rightarrow> CoapOption \<Rightarrow> CoapOption \<Rightarrow> CoapBuffer \<Rightarrow> ret \<times> CoapBuffer \<times> CoapOption" where
  "CoapCommBuildSingleOption prev cur dst buf =
    (let delta = op_option cur - prev; vlen = cd_len (op_value cur);
         (deltaBase, deltaExtLen) = CoapCommGetExtensionBase delta;
         (lenBase, lenExtLen) = CoapCommGetExtensionBase vlen
     in
     if deltaBase = COAP_EXTEND_DELTA_VALUE_UINT32 \<or> lenBase = COAP_EXTEND_DELTA_VALUE_UINT32 then
       (IOTC_CORE_WIFI_TRANS_ERR_COAP_CODEC_USE_RESERVED, buf, dst)
     else if 1 + deltaExtLen + lenExtLen + vlen > cb_room buf then
       (IOTC_CORE_WIFI_TRANS_ERR_COAP_CODEC_BUFFER_SHORT, buf, dst)
     else
       (let buf = cb_put buf [push_bit 4 (of_nat deltaBase) OR of_nat lenBase];
            (r, buf) = CoapCommBuildExtension buf delta
        in if r \<noteq> IOTC_OK then (r, buf, dst)
           else
             (let (r, buf) = CoapCommBuildExtension buf vlen in
              if r \<noteq> IOTC_OK then (r, buf, dst)
              else
                (let (r, buf, dst) = CoapCommBuildOptionData buf cur dst in
                 if r \<noteq> IOTC_OK then (r, buf, dst)
                 else (IOTC_OK, buf, dst\<lparr>op_option := op_option cur\<rparr>)))))"

text \<open>The check that the option numbers ascend.\<close>

fun options_ascend :: "nat \<Rightarrow> CoapOption list \<Rightarrow> bool" where
  "options_ascend prev [] = True"
| "options_ascend prev (o1 # os) = (if op_option o1 < prev then False else options_ascend (op_option o1) os)"

text \<open>The building loop over the options still to write, from index \<open>i\<close> on.\<close>

fun build_options ::
    "nat \<Rightarrow> nat \<Rightarrow> CoapOption list \<Rightarrow> CoapOption list \<Rightarrow> CoapBuffer \<Rightarrow> ret \<times> CoapOption list \<times> CoapBuffer" where
  "build_options i prev [] dsts buf = (IOTC_OK, dsts, buf)"
| "build_options i prev (cur # rest) dsts buf =
    (case CoapCommBuildSingleOption prev cur (dsts ! i) buf of (r, buf, dst) \<Rightarrow>
       if r \<noteq> IOTC_OK then (r, dsts[i := dst], buf)
       else build_options (Suc i) (op_option cur) rest (dsts[i := dst]) buf)"

definition CoapCommBuildOption ::
    "CoapBuildPacket \<Rightarrow> CoapPacket \<Rightarrow> CoapBuffer \<Rightarrow> (ret \<times> CoapPacket \<times> CoapBuffer) option" where
  "CoapCommBuildOption build pkt buf =
    (if \<not> cb_size buf \<ge> length (cb_data buf) then Some (IOTC_ERR_PARAM_INVALID, pkt, buf)
     else
       (let opNum = length (bp_options build);
            (r, pkt, buf) =
              (if opNum = 0 then (IOTC_OK, pkt, buf)
               else if opNum > COAP_OPTION_MAX_NUM then (IOTC_CORE_WIFI_TRANS_ERR_COAP_CODEC_INVALID_BUILD, pkt, buf)
               else if \<not> options_ascend 0 (bp_options build) then
                 (IOTC_CORE_WIFI_TRANS_ERR_COAP_CODEC_OPTION_ORDER, pkt, buf)
               else
                 (let (r, dsts, buf) = build_options 0 0 (bp_options build) (ck_options pkt) buf;
                      pkt = pkt\<lparr>ck_options := dsts\<rparr>
                  in (r, if r \<noteq> IOTC_OK then pkt else pkt\<lparr>ck_opNum := opNum\<rparr>, buf)))
        in case put_marker buf of None \<Rightarrow> None | Some buf \<Rightarrow> Some (r, pkt, buf)))"

text \<open>A callback that writes more than the room it was given overruns the buffer.\<close>

definition BuildPayloadByCallback ::
    "(nat \<Rightarrow> ret \<times> bytes) \<Rightarrow> CoapPacket \<Rightarrow> CoapBuffer \<Rightarrow> (ret \<times> CoapPacket \<times> CoapBuffer) option" where
  "BuildPayloadByCallback buildFunc pkt buf =
    (let (r, d) = buildFunc (cb_room buf) in
     if length d > cb_room buf then None
     else if r \<noteq> IOTC_OK \<or> d = [] then Some (IOTC_CORE_WIFI_TRANS_ERR_COAP_CODEC_BUILD_FUNC, pkt, cb_put buf d)
     else Some (IOTC_OK, pkt\<lparr>ck_payload := \<lparr>cd_data = Some d, cd_len = length d\<rparr>\<rparr>, cb_put buf d))"

definition BuildPayloadByData :: "CoapData \<Rightarrow> CoapPacket \<Rightarrow> CoapBuffer \<Rightarrow> ret \<times> CoapPacket \<times> CoapBuffer" where
  "BuildPayloadByData payload pkt buf =
    (case cd_data payload of
       None \<Rightarrow> (IOTC_CORE_WIFI_TRANS_ERR_COAP_CODEC_INVALID_BUILD, pkt, buf)
     | Some d \<Rightarrow>
         if cd_len payload = 0 then (IOTC_CORE_WIFI_TRANS_ERR_COAP_CODEC_INVALID_BUILD, pkt, buf)
         else if cb_room buf < cd_len payload then (IOTC_CORE_WIFI_TRANS_ERR_COAP_CODEC_BUFFER_SHORT, pkt, buf)
         else
           (let d = take (cd_len payload) d
            in (IOTC_OK, pkt\<lparr>ck_payload := \<lparr>cd_data = Some d, cd_len = cd_len payload\<rparr>\<rparr>, cb_put buf d)))"

text \<open>The payload pointer is set first; the bytes behind it come with the payload.\<close>

definition CoapCommBuildPayload ::
    "CoapBuildPacket \<Rightarrow> CoapPacket \<Rightarrow> CoapBuffer \<Rightarrow> (ret \<times> CoapPacket \<times> CoapBuffer) option" where
  "CoapCommBuildPayload build pkt buf =
    (if \<not> cb_size buf \<ge> length (cb_data buf) then Some (IOTC_ERR_PARAM_INVALID, pkt, buf)
     else if bp_payload build = None \<and> bp_buildFunc build = None then Some (IOTC_OK, pkt, buf)
     else if cb_size buf = length (cb_data buf) then
       Some (IOTC_CORE_WIFI_TRANS_ERR_COAP_CODEC_BUFFER_SHORT, pkt, buf)
     else
       (let pkt = pkt\<lparr>ck_payload := (ck_payload pkt)\<lparr>cd_data := Some []\<rparr>\<rparr> in
        case bp_buildFunc build of
          Some f \<Rightarrow> BuildPayloadByCallback f pkt buf
        | None \<Rightarrow> Some (BuildPayloadByData (the (bp_payload build)) pkt buf)))"

section \<open>UDP\<close>

abbreviation (input) COAP_UDP_HEADER_LEN :: nat where "COAP_UDP_HEADER_LEN \<equiv> 4"
abbreviation (input) COAP_UDP_VER :: u8 where "COAP_UDP_VER \<equiv> 1"

definition CoapUdpParseHeader :: "CoapPacket \<Rightarrow> bytes \<Rightarrow> nat \<Rightarrow> ret + CoapPacket \<times> nat" where
  "CoapUdpParseHeader pkt raw pos =
    (if length raw < pos + COAP_UDP_HEADER_LEN then Inl IOTC_CORE_WIFI_TRANS_ERR_COAP_CODEC_UDP_HEADER_SHORT
     else
       (let ver = drop_bit 6 (raw ! pos) AND 0x03 in
        if ver \<noteq> COAP_UDP_VER then Inl IOTC_CORE_WIFI_TRANS_ERR_COAP_CODEC_UDP_INVALID_VER
        else Inr (pkt\<lparr>ck_header := \<lparr>ch_ver = ver, ch_type = drop_bit 4 (raw ! pos AND 0x30) AND 0x03,
                        ch_tkl = raw ! pos AND 0x0F, ch_code = raw ! (pos + 1),
                        ch_msgId = of_nat (be16 raw (pos + 2))\<rparr>\<rparr>, pos + 4)))"

definition CoapUdpDecode :: "CoapPacket \<Rightarrow> bytes option \<Rightarrow> ret + CoapPacket" where
  "CoapUdpDecode pkt data =
    (case data of
       None \<Rightarrow> Inl IOTC_ERR_PARAM_INVALID
     | Some raw \<Rightarrow>
         if \<not> length raw \<noteq> 0 then Inl IOTC_ERR_PARAM_INVALID
         else
           (case CoapUdpParseHeader pkt raw 0 of
              Inl e \<Rightarrow> Inl e
            | Inr (pkt, pos) \<Rightarrow>
               (case CoapCommParseToken pkt data pos of
                  Inl e \<Rightarrow> Inl e
                | Inr (pkt, pos) \<Rightarrow>
                   (case CoapCommParseOptions pkt data pos of
                      Inl e \<Rightarrow> Inl e
                    | Inr (pkt, pos) \<Rightarrow>
                       (case CoapCommParsePayload pkt data pos of Inl e \<Rightarrow> Inl e | Inr (pkt, pos) \<Rightarrow> Inr pkt)))))"

definition CoapUdpBuildHeader :: "CoapBuildPacket \<Rightarrow> CoapPacket \<Rightarrow> CoapBuffer \<Rightarrow> ret \<times> CoapPacket \<times> CoapBuffer" where
  "CoapUdpBuildHeader build pkt buf =
    (if COAP_UDP_HEADER_LEN > cb_room buf then (IOTC_CORE_WIFI_TRANS_ERR_COAP_CODEC_BUFFER_SHORT, pkt, buf)
     else if ch_code (bp_header build) = 0 \<and>
       (ch_tkl (bp_header build) \<noteq> 0 \<or> bp_payload build \<noteq> None \<or> bp_buildFunc build \<noteq> None) then
       (IOTC_CORE_WIFI_TRANS_ERR_COAP_CODEC_INVALID_BUILD, pkt, buf)
     else
       (let h = (bp_header build)\<lparr>ch_ver := COAP_UDP_VER\<rparr>
        in (IOTC_OK, pkt\<lparr>ck_header := h\<rparr>,
            cb_put buf [push_bit 6 (ch_ver h) OR push_bit 4 (ch_type h) OR ch_tkl h, ch_code h,
              ucast (drop_bit 8 (ch_msgId h)), ucast (ch_msgId h)])))"

definition CoapUdpEncode ::
    "CoapBuildPacket \<Rightarrow> CoapPacket \<Rightarrow> CoapBuffer \<Rightarrow> (ret \<times> CoapPacket \<times> CoapBuffer) option" where
  "CoapUdpEncode build pkt buf =
    (if \<not> cb_size buf \<noteq> 0 then Some (IOTC_ERR_PARAM_INVALID, pkt, buf)
     else
       (let (r, pkt, buf) = CoapUdpBuildHeader build pkt buf in
        if r \<noteq> IOTC_OK then Some (r, pkt, buf)
        else
          (let (r, pkt, buf) = CoapCommBuildToken build pkt buf in
           if r \<noteq> IOTC_OK then Some (r, pkt, buf)
           else
             (case CoapCommBuildOption build pkt buf of
                None \<Rightarrow> None
              | Some (r, pkt, buf) \<Rightarrow>
                  if r \<noteq> IOTC_OK then Some (r, pkt, buf) else CoapCommBuildPayload build pkt buf))))"

section \<open>Extensions\<close>

text \<open>The extension bytes of a value, as they are written.\<close>

definition ext_bytes :: "nat \<Rightarrow> bytes" where
  "ext_bytes v =
    (if v < 13 then [] else if v \<le> 269 then [of_nat (v - 13)]
     else if v \<le> 65805 then [of_nat ((v - 269) div 256), of_nat (v - 269)]
     else [of_nat ((v - 65805) div 16777216), of_nat ((v - 65805) div 65536), of_nat ((v - 65805) div 256), of_nat (v - 65805)])"

definition ext_nibble :: "nat \<Rightarrow> nat" where
  "ext_nibble v = (if v < 13 then v else if v \<le> 269 then 13 else if v \<le> 65805 then 14 else 15)"

lemma GetExtensionBase_eq: "CoapCommGetExtensionBase v = (ext_nibble v, length (ext_bytes v))"
  by (simp add: CoapCommGetExtensionBase_def ext_nibble_def ext_bytes_def)

lemma BuildExtension_eq:
  "length (ext_bytes v) \<le> cb_room buf \<Longrightarrow> CoapCommBuildExtension buf v = (IOTC_OK, cb_put buf (ext_bytes v))"
  by (auto simp: CoapCommBuildExtension_def ext_bytes_def Let_def cb_put_def split: if_splits)

text \<open>The values the codec can carry: all below 65805 but 269, see the property below.\<close>

definition ext_ok :: "nat \<Rightarrow> bool" where
  "ext_ok v \<longleftrightarrow> v < 65805 \<and> v \<noteq> 269"

lemma be16_bytes:
  "n < 65536 \<Longrightarrow> be16 (pre @ of_nat (n div 256) # of_nat n # post) (length pre) = n"
  by (simp add: be16_def nth_append unat_lo)

lemma ParseExtension_ext_bytes:
  assumes "ext_ok v" "length pre = k"
  shows "CoapCommParseExtension (ext_nibble v) (pre @ ext_bytes v @ post) k = Inr (v, k + length (ext_bytes v))"
proof -
  consider "v < 13" | "13 \<le> v" "v < 269" | "269 < v" "v < 65805"
    using assms(1) by (force simp: ext_ok_def)
  then show ?thesis
  proof cases
    case 2
    then have "unat (of_nat (v - 13) :: u8) = v - 13" by (simp add: unat_lo del: of_nat_diff)
    then show ?thesis using 2 assms(2)
      by (simp add: CoapCommParseExtension_def ext_bytes_def ext_nibble_def nth_append del: of_nat_diff)
  next
    case 3
    then have "be16 (pre @ of_nat ((v - 269) div 256) # of_nat (v - 269) # post) k = v - 269"
      using be16_bytes [of "v - 269" pre post] assms(2) by simp
    then show ?thesis using 3 assms(2) by (simp add: CoapCommParseExtension_def ext_bytes_def ext_nibble_def)
  qed (use assms(2) in \<open>simp_all add: CoapCommParseExtension_def ext_bytes_def ext_nibble_def nth_append unat_lo\<close>)
qed

section \<open>Options\<close>

definition option_bytes :: "nat \<Rightarrow> CoapOption \<Rightarrow> bytes" where
  "option_bytes prev o1 =
    (push_bit 4 (of_nat (ext_nibble (op_option o1 - prev))) OR of_nat (ext_nibble (cd_len (op_value o1)))) #
    ext_bytes (op_option o1 - prev) @ ext_bytes (cd_len (op_value o1)) @ the (cd_data (op_value o1))"

definition option_ok :: "nat \<Rightarrow> CoapOption \<Rightarrow> bool" where
  "option_ok prev o1 \<longleftrightarrow> prev \<le> op_option o1 \<and> op_option o1 < 65536 \<and> ext_ok (op_option o1 - prev) \<and>
    ext_ok (cd_len (op_value o1)) \<and> (\<exists>d. cd_data (op_value o1) = Some d \<and> length d = cd_len (op_value o1))"

lemma ext_nibble_le: "ext_ok v \<Longrightarrow> ext_nibble v \<le> 14"
  by (auto simp: ext_ok_def ext_nibble_def)

lemma nibbles:
  assumes "a \<le> 14" "b \<le> 14"
  defines "h \<equiv> push_bit 4 (of_nat a) OR of_nat b :: u8"
  shows "unat (drop_bit 4 (h AND 0xF0)) = a" "unat (h AND 0x0F) = b" "h \<noteq> 0xFF"
proof -
  have lt: "(of_nat a :: u8) < 16" "(of_nat b :: u8) < 16"
    using assms(1,2) by (simp_all add: word_less_nat_alt unat_lo)
  have h: "h = push_bit 4 (of_nat a AND 0x0F) OR (of_nat b AND 0x0F)"
    using nibble_take_bit [OF lt(1)] nibble_take_bit [OF lt(2)]
    by (simp add: h_def nibble_masks flip: take_bit_eq_mask)
  have ab: "drop_bit 4 (h AND 0xF0) = of_nat a" "h AND 0x0F = of_nat b" unfolding h by (rule type_byte [OF lt])+
  show "unat (drop_bit 4 (h AND 0xF0)) = a" unfolding ab using assms(1) by (simp add: unat_lo)
  show b: "unat (h AND 0x0F) = b" unfolding ab using assms(2) by (simp add: unat_lo)
  show "h \<noteq> 0xFF" using b assms(2) by auto
qed

lemma length_option_bytes:
  "option_ok prev o1 \<Longrightarrow> length (option_bytes prev o1) =
    1 + length (ext_bytes (op_option o1 - prev)) + length (ext_bytes (cd_len (op_value o1))) + cd_len (op_value o1)"
  by (auto simp: option_ok_def option_bytes_def)

lemma cb_put_room [simp]:
  "length d \<le> cb_room buf \<Longrightarrow> cb_room (cb_put buf d) = cb_room buf - length d"
  "cb_put (cb_put buf d) e = cb_put buf (d @ e)" "cb_size (cb_put buf d) = cb_size buf"
  "cb_data (cb_put buf d) = cb_data buf @ d"
  by (auto simp: cb_room_def cb_put_def)

lemma cb_put_Nil [simp]: "cb_put buf [] = buf"
  by (simp add: cb_put_def)

lemma BuildSingleOption_ok:
  assumes "option_ok prev o1" "length (option_bytes prev o1) \<le> cb_room buf"
  shows "\<exists>dst'. CoapCommBuildSingleOption prev o1 dst buf = (IOTC_OK, cb_put buf (option_bytes prev o1), dst')"
proof -
  let ?x = "ext_bytes (op_option o1 - prev)" and ?l = "ext_bytes (cd_len (op_value o1))"
  obtain d where d: "cd_data (op_value o1) = Some d" "length d = cd_len (op_value o1)"
    using assms(1) by (auto simp: option_ok_def)
  have n: "ext_nibble (op_option o1 - prev) \<noteq> 15" "ext_nibble (cd_len (op_value o1)) \<noteq> 15"
    using assms(1) ext_nibble_le by (fastforce simp: option_ok_def)+
  have room: "1 + length ?x + length ?l + cd_len (op_value o1) \<le> cb_room buf"
    using assms length_option_bytes by simp
  show ?thesis using n room d
    by (auto simp: CoapCommBuildSingleOption_def GetExtensionBase_eq BuildExtension_eq CoapCommBuildOptionData_def
        option_bytes_def Let_def)
qed

lemma ParseSingleOption_bytes:
  assumes ok: "option_ok prev o1" and k: "length pre = k"
  shows "CoapCommParseSingleOption prev (pre @ option_bytes prev o1 @ post) k =
    Inr (o1, op_option o1, k + length (option_bytes prev o1))"
proof -
  let ?dl = "op_option o1 - prev" and ?n = "cd_len (op_value o1)"
  obtain d where d: "cd_data (op_value o1) = Some d" "length d = ?n"
    using ok by (auto simp: option_ok_def)
  have e: "ext_ok ?dl" "ext_ok ?n" "prev \<le> op_option o1" "op_option o1 < 65536" using ok by (auto simp: option_ok_def)
  define h :: u8 where "h = push_bit 4 (of_nat (ext_nibble ?dl)) OR of_nat (ext_nibble ?n)"
  let ?raw = "pre @ option_bytes prev o1 @ post"
  have raw: "?raw = pre @ h # ext_bytes ?dl @ ext_bytes ?n @ d @ post" by (simp add: option_bytes_def h_def d)
  have h: "unat (drop_bit 4 (h AND 0xF0)) = ext_nibble ?dl" "unat (h AND 0x0F) = ext_nibble ?n"
    using nibbles [OF ext_nibble_le [OF e(1)] ext_nibble_le [OF e(2)]] by (simp_all add: h_def)
  have p1: "CoapCommParseExtension (ext_nibble ?dl) ?raw (k + 1) = Inr (?dl, k + 1 + length (ext_bytes ?dl))"
    using ParseExtension_ext_bytes [OF e(1), of "pre @ [h]" "k + 1" "ext_bytes ?n @ d @ post"] k by (simp add: raw)
  have p2: "CoapCommParseExtension (ext_nibble ?n) ?raw (k + 1 + length (ext_bytes ?dl)) =
      Inr (?n, k + 1 + length (ext_bytes ?dl) + length (ext_bytes ?n))"
    using ParseExtension_ext_bytes [OF e(2), of "pre @ h # ext_bytes ?dl" "k + 1 + length (ext_bytes ?dl)" "d @ post"] k
    by (simp add: raw)
  have n: "ext_nibble ?dl \<noteq> 15" "ext_nibble ?n \<noteq> 15" using ext_nibble_le e(1,2) by fastforce+
  have "?raw ! k = h" "\<not> length ?raw < k + 1" using k by (simp_all add: raw nth_append)
  moreover have "drop (k + 1 + length (ext_bytes ?dl) + length (ext_bytes ?n)) ?raw = d @ post"
    using k by (simp add: raw)
  moreover have "\<not> length ?raw < k + 1 + length (ext_bytes ?dl) + length (ext_bytes ?n) + ?n"
    using k d by (simp add: raw)
  moreover have "o1 = \<lparr>op_option = prev + ?dl, op_value = \<lparr>cd_data = Some d, cd_len = ?n\<rparr>\<rparr>"
    using d e(3) by simp
  ultimately show ?thesis
    using p1 p2 h n d e(3,4)
    by (simp add: CoapCommParseSingleOption_def Let_def length_option_bytes [OF ok] add.assoc)
qed

fun options_bytes :: "nat \<Rightarrow> CoapOption list \<Rightarrow> bytes" where
  "options_bytes prev [] = []"
| "options_bytes prev (o1 # os) = option_bytes prev o1 @ options_bytes (op_option o1) os"

fun options_ok :: "nat \<Rightarrow> CoapOption list \<Rightarrow> bool" where
  "options_ok prev [] = True"
| "options_ok prev (o1 # os) = (option_ok prev o1 \<and> options_ok (op_option o1) os)"

lemma options_ok_ascend: "options_ok prev os \<Longrightarrow> options_ascend prev os"
  by (induction os arbitrary: prev) (auto simp: option_ok_def)

lemma build_options_ok:
  assumes "options_ok prev os" "length (options_bytes prev os) \<le> cb_room buf"
  shows "\<exists>dsts'. build_options i prev os dsts buf = (IOTC_OK, dsts', cb_put buf (options_bytes prev os))"
  using assms
proof (induction os arbitrary: i prev dsts buf)
  case Nil
  then show ?case by (simp add: cb_put_def)
next
  case (Cons o1 os)
  obtain dst where "CoapCommBuildSingleOption prev o1 (dsts ! i) buf = (IOTC_OK, cb_put buf (option_bytes prev o1), dst)"
    using BuildSingleOption_ok [of prev o1 buf] Cons.prems by fastforce
  then show ?case
    using Cons.IH [of "op_option o1" "cb_put buf (option_bytes prev o1)" "Suc i" "dsts[i := dst]"] Cons.prems by simp
qed

lemma option_bytes_head: "option_ok prev o1 \<Longrightarrow> option_bytes prev o1 \<noteq> [] \<and> hd (option_bytes prev o1) \<noteq> 0xFF"
  using nibbles(3) [OF ext_nibble_le ext_nibble_le] by (auto simp: option_bytes_def option_ok_def)

lemma parse_options_bytes:
  assumes "options_ok prev os" "length os \<le> k" "i + length os \<le> length opts" "post = [] \<or> hd post = 0xFF" "length pre = pos"
  shows "parse_options k (pre @ options_bytes prev os @ post) i prev pos opts =
    Inr (i + length os, pos + length (options_bytes prev os), take i opts @ os @ drop (i + length os) opts)"
  using assms
proof (induction os arbitrary: k i prev pos pre opts)
  case Nil
  then show ?case by (cases k; cases post) (auto simp: nth_append)
next
  case (Cons o1 os)
  obtain k' where k: "k = Suc k'" using Cons.prems(2) by (cases k) auto
  let ?raw = "pre @ option_bytes prev o1 @ options_bytes (op_option o1) os @ post"
  have o1: "option_ok prev o1" "options_ok (op_option o1) os" using Cons.prems(1) by auto
  have "?raw ! pos = hd (option_bytes prev o1)" "pos < length ?raw"
    using option_bytes_head [OF o1(1)] Cons.prems(5) by (auto simp: nth_append hd_conv_nth)
  then have go: "pos < length ?raw \<and> ?raw ! pos \<noteq> 0xFF" using option_bytes_head [OF o1(1)] by simp
  have one: "CoapCommParseSingleOption prev ?raw pos = Inr (o1, op_option o1, pos + length (option_bytes prev o1))"
    by (rule ParseSingleOption_bytes [OF o1(1) Cons.prems(5)])
  have "parse_options k' ((pre @ option_bytes prev o1) @ options_bytes (op_option o1) os @ post) (Suc i) (op_option o1)
      (pos + length (option_bytes prev o1)) (opts[i := o1]) =
    Inr (Suc i + length os, pos + length (option_bytes prev o1) + length (options_bytes (op_option o1) os),
      take (Suc i) (opts[i := o1]) @ os @ drop (Suc i + length os) (opts[i := o1]))"
    by (rule Cons.IH) (use Cons.prems o1 k in auto)
  moreover have "take (Suc i) (opts[i := o1]) = take i opts @ [o1]"
    using Cons.prems(3) by (simp add: take_Suc_conv_app_nth)
  ultimately show ?case
    using go one by (simp add: k)
qed

section \<open>Headers\<close>

lemma udp_first_byte:
  fixes v t k :: u8
  assumes "v < 4" "t < 4" "k < 16"
  defines "h \<equiv> push_bit 6 v OR push_bit 4 t OR k"
  shows "drop_bit 6 h AND 0x03 = v" "drop_bit 4 (h AND 0x30) AND 0x03 = t" "h AND 0x0F = k"
proof -
  have two: "take_bit 2 x = x" if "x < 4" for x :: u8
    using that by (simp add: take_bit_eq_mod word_unat_eq_iff unat_mod word_less_nat_alt)
  have bits: "bit v i \<Longrightarrow> i < 2" "bit t i \<Longrightarrow> i < 2" "bit k i \<Longrightarrow> i < 4" for i
    using two [OF assms(1)] two [OF assms(2)] nibble_take_bit [OF assms(3)] by (metis bit_take_bit_iff)+
  have masks: "(0x03 :: u8) = mask 2" "(0x30 :: u8) = push_bit 4 (mask 2)" "(0x0F :: u8) = mask 4"
    by (simp_all add: mask_eq_exp_minus_1)
  show "drop_bit 6 h AND 0x03 = v"
    unfolding masks h_def by (rule bit_eqI) (auto simp: bit_simps dest: bits)
  show "drop_bit 4 (h AND 0x30) AND 0x03 = t"
    unfolding masks h_def by (rule bit_eqI) (auto simp: bit_simps dest: bits)
  show "h AND 0x0F = k"
    unfolding masks h_def by (rule bit_eqI) (auto simp: bit_simps dest: bits)
qed

lemma msgId_bytes:
  fixes m :: u16
  shows "of_nat (256 * unat (ucast (drop_bit 8 m) :: u8) + unat (ucast m :: u8)) = m"
proof -
  have "unat m < 65536" by (rule unat_u16_lt)
  then have "drop_bit 8 (unat m) mod 256 = unat m div 256"
    by (simp add: drop_bit_eq_div less_mult_imp_div_less)
  then have "unat (ucast (drop_bit 8 m) :: u8) = unat m div 256"
    by (subst unsigned_ucast_eq) (simp add: unat_drop_bit_eq take_bit_eq_mod)
  moreover have "unat (ucast m :: u8) = unat m mod 256" by (simp add: unsigned_ucast_eq take_bit_eq_mod)
  ultimately have "256 * unat (ucast (drop_bit 8 m) :: u8) + unat (ucast m :: u8) = unat m" by simp
  then show ?thesis by simp
qed

section \<open>The UDP codec\<close>

text \<open>The message format: header, token, options, the payload marker and the payload \<open>d\<close>.\<close>

definition udp_wire :: "CoapBuildPacket \<Rightarrow> bytes \<Rightarrow> bytes" where
  "udp_wire b d =
    (let h = bp_header b in
     [push_bit 6 1 OR push_bit 4 (ch_type h) OR ch_tkl h, ch_code h, ucast (drop_bit 8 (ch_msgId h)), ucast (ch_msgId h)] @
     take (unat (ch_tkl h)) (bp_token b) @ options_bytes 0 (bp_options b) @ 0xFF # d)"

text \<open>A message that may be built: the bit fields and arrays have their sizes, the options can be encoded.\<close>

definition build_ok :: "CoapBuildPacket \<Rightarrow> bool" where
  "build_ok b \<longleftrightarrow> ch_type (bp_header b) < 4 \<and> unat (ch_tkl (bp_header b)) \<le> 8 \<and> length (bp_token b) = 8 \<and>
    ch_code (bp_header b) \<noteq> 0 \<and> length (bp_options b) \<le> 16 \<and> options_ok 0 (bp_options b)"

lemma CoapCommBuildOption_ok:
  assumes "options_ok 0 (bp_options b)" "length (bp_options b) \<le> 16" "length (cb_data buf) \<le> cb_size buf"
    "length (options_bytes 0 (bp_options b)) < cb_room buf"
  shows "\<exists>pkt'. CoapCommBuildOption b pkt buf = Some (IOTC_OK, pkt', cb_put buf (options_bytes 0 (bp_options b) @ [0xFF]))"
proof -
  obtain dsts where "build_options 0 0 (bp_options b) (ck_options pkt) buf =
      (IOTC_OK, dsts, cb_put buf (options_bytes 0 (bp_options b)))"
    using build_options_ok [OF assms(1)] assms(4) by fastforce
  moreover have "put_marker (cb_put buf (options_bytes 0 (bp_options b))) = Some (cb_put buf (options_bytes 0 (bp_options b) @ [0xFF]))"
    using assms(4) by (simp add: put_marker_def cb_room_def)
  ultimately show ?thesis
    using assms options_ok_ascend [OF assms(1)] by (auto simp: CoapCommBuildOption_def Let_def)
qed

lemma CoapUdpEncode_wire:
  assumes b: "build_ok b" "bp_buildFunc b = None" "bp_payload b = Some \<lparr>cd_data = Some d, cd_len = length d\<rparr>" "d \<noteq> []"
    and buf: "cb_data buf = []" "length (udp_wire b d) \<le> cb_size buf"
  shows "\<exists>pkt'. CoapUdpEncode b pkt buf = Some (IOTC_OK, pkt', buf\<lparr>cb_data := udp_wire b d\<rparr>)"
proof -
  let ?tok = "take (unat (ch_tkl (bp_header b))) (bp_token b)" and ?os = "options_bytes 0 (bp_options b)"
  define hd4 where "hd4 = take 4 (udp_wire b d)"
  have wire: "udp_wire b d = hd4 @ ?tok @ ?os @ 0xFF # d" and h4: "length hd4 = 4"
    by (simp_all add: hd4_def udp_wire_def Let_def)
  have len: "4 + unat (ch_tkl (bp_header b)) + length ?os + 1 + length d \<le> cb_size buf"
    using buf(2) b(1) by (auto simp: wire h4 build_ok_def min_def split: if_splits)
  define b1 b2 where "b1 = cb_put buf hd4" and "b2 = cb_put b1 ?tok"
  obtain p1 where head: "CoapUdpBuildHeader b pkt buf = (IOTC_OK, p1, b1)"
    using b(1) buf(1) len
    by (simp add: CoapUdpBuildHeader_def b1_def hd4_def udp_wire_def build_ok_def Let_def cb_room_def)
  have "cb_room b1 = cb_size buf - 4" "length (cb_data b1) = 4" "cb_size b1 = cb_size buf"
    using buf(1) h4 by (simp_all add: b1_def cb_room_def)
  then have "\<exists>p2. CoapCommBuildToken b p1 b1 = (IOTC_OK, p2, b2)"
    using b(1) len by (auto simp: CoapCommBuildToken_def b2_def build_ok_def Let_def)
  then obtain p2 where tok: "CoapCommBuildToken b p1 b1 = (IOTC_OK, p2, b2)" by blast
  have l2: "length (cb_data b2) = 4 + unat (ch_tkl (bp_header b))" "cb_size b2 = cb_size buf"
    using b(1) buf(1) h4 by (simp_all add: b1_def b2_def build_ok_def)
  have r2: "length (cb_data b2) \<le> cb_size b2" "length ?os < cb_room b2"
    unfolding cb_room_def l2 using len by linarith+
  obtain p3 where opts: "CoapCommBuildOption b p2 b2 = Some (IOTC_OK, p3, cb_put b2 (?os @ [0xFF]))"
    using CoapCommBuildOption_ok [OF _ _ r2] b(1) unfolding build_ok_def by blast
  define b3 where "b3 = cb_put b2 (?os @ [0xFF])"
  have "length (cb_data b3) = 5 + unat (ch_tkl (bp_header b)) + length ?os" "cb_size b3 = cb_size buf"
    using l2 by (simp_all add: b3_def)
  moreover have "0 < length d" using b(4) by simp
  ultimately have "length (cb_data b3) < cb_size b3" "length d \<le> cb_room b3" "cb_size buf \<noteq> 0"
    using len unfolding cb_room_def by linarith+
  then have "\<exists>pkt'. CoapUdpEncode b pkt buf = Some (IOTC_OK, pkt', cb_put b3 d)"
    using head tok opts b(2-4)
    by (simp add: CoapUdpEncode_def CoapCommBuildPayload_def BuildPayloadByData_def Let_def flip: b3_def)
  moreover have "cb_put b3 d = buf\<lparr>cb_data := udp_wire b d\<rparr>"
    using buf(1) by (simp add: b1_def b2_def b3_def cb_put_def wire)
  ultimately show ?thesis by simp
qed

lemma CoapUdpDecode_wire:
  assumes b: "build_ok b" and p: "length (ck_options pkt) = 16" "length (ck_token pkt) = 8"
  shows "\<exists>q. CoapUdpDecode pkt (Some (udp_wire b d)) = Inr q \<and> ck_header q = (bp_header b)\<lparr>ch_ver := 1\<rparr> \<and>
    take (unat (ch_tkl (bp_header b))) (ck_token q) = take (unat (ch_tkl (bp_header b))) (bp_token b) \<and>
    ck_opNum q = length (bp_options b) \<and> take (ck_opNum q) (ck_options q) = bp_options b \<and>
    ck_payload q = \<lparr>cd_data = Some d, cd_len = length d\<rparr>"
proof -
  let ?h = "bp_header b" and ?n = "unat (ch_tkl (bp_header b))" and ?w = "udp_wire b d" and ?os = "options_bytes 0 (bp_options b)"
  define f where "f = push_bit 6 (1 :: u8) OR push_bit 4 (ch_type ?h) OR ch_tkl ?h"
  define tok where "tok = take ?n (bp_token b)"
  have w: "?w = f # ch_code ?h # ucast (drop_bit 8 (ch_msgId ?h)) # ucast (ch_msgId ?h) # tok @ ?os @ 0xFF # d"
    by (simp add: udp_wire_def f_def tok_def Let_def)
  have tl: "length tok = ?n" "?n \<le> 8" "ch_tkl ?h < 16" "ch_type ?h < 4"
    using b by (auto simp: tok_def build_ok_def word_less_nat_alt)
  have f: "drop_bit 6 f AND 0x03 = 1" "drop_bit 4 (f AND 0x30) AND 0x03 = ch_type ?h" "f AND 0x0F = ch_tkl ?h"
    unfolding f_def by (rule udp_first_byte; use tl in simp)+
  define p1 where "p1 = pkt\<lparr>ck_header := ?h\<lparr>ch_ver := 1\<rparr>\<rparr>"
  have head: "CoapUdpParseHeader pkt ?w 0 = Inr (p1, 4)"
    using f msgId_bytes [of "ch_msgId ?h"] by (simp add: CoapUdpParseHeader_def w be16_def p1_def Let_def numeral_2_eq_2 numeral_3_eq_3)
  define p2 where "p2 = (if ?n = 0 then p1 else p1\<lparr>ck_token := overwrite (ck_token p1) 0 tok\<rparr>)"
  have tk: "CoapCommParseToken p1 (Some ?w) 4 = Inr (p2, 4 + ?n)"
    using tl by (simp add: CoapCommParseToken_def w p1_def p2_def Let_def)
  let ?pre = "f # ch_code ?h # ucast (drop_bit 8 (ch_msgId ?h)) # ucast (ch_msgId ?h) # tok"
  have pre: "?w = ?pre @ ?os @ 0xFF # d" "length ?pre = 4 + ?n" using tl(1) by (simp_all add: w)
  define p3 where "p3 = p2\<lparr>ck_options := bp_options b @ drop (length (bp_options b)) (ck_options p2), ck_opNum := length (bp_options b)\<rparr>"
  have "parse_options 16 ?w 0 0 (4 + ?n) (ck_options p2) =
      Inr (length (bp_options b), 4 + ?n + length ?os, bp_options b @ drop (length (bp_options b)) (ck_options p2))"
    using parse_options_bytes [of 0 "bp_options b" 16 0 "ck_options p2" "0xFF # d" ?pre "4 + ?n"] b p pre
    by (simp add: build_ok_def p2_def p1_def)
  moreover have mark: "?w ! (4 + ?n + length ?os) = 0xFF" "4 + ?n + length ?os < length ?w" "?w \<noteq> []" "4 + ?n \<le> length ?w"
    using tl(1) by (simp_all add: w nth_append)
  ultimately have op: "CoapCommParseOptions p2 (Some ?w) (4 + ?n) = Inr (p3, 4 + ?n + length ?os)"
    by (simp add: CoapCommParseOptions_def p3_def)
  have "?w = (?pre @ ?os @ [0xFF]) @ d" "length (?pre @ ?os @ [0xFF]) = 4 + ?n + length ?os + 1"
    using pre by simp_all
  then have "drop (4 + ?n + length ?os + 1) ?w = d" "length ?w - (4 + ?n + length ?os + 1) = length d"
    by (metis append_eq_conv_conj) (simp add: w tl(1))
  then have "CoapCommParsePayload p3 (Some ?w) (4 + ?n + length ?os) =
      Inr (p3\<lparr>ck_payload := \<lparr>cd_data = Some d, cd_len = length d\<rparr>\<rparr>, 4 + ?n + length ?os + 1)"
    using mark by (simp add: CoapCommParsePayload_def)
  then have "CoapUdpDecode pkt (Some ?w) = Inr (p3\<lparr>ck_payload := \<lparr>cd_data = Some d, cd_len = length d\<rparr>\<rparr>)"
    using head tk op mark by (simp add: CoapUdpDecode_def)
  moreover have "take ?n (ck_token p3) = tok"
    using tl p by (auto simp: p3_def p2_def p1_def overwrite_def)
  ultimately show ?thesis by (simp add: p3_def p2_def p1_def tok_def)
qed

text \<open>
  C8. The UDP codec round trips: every message with a payload whose options ascend, with no option
  delta or length of 269 and none from 65805 on, is encoded into any buffer it fits in (to the last
  byte) as header, token, options, marker and payload, and decoding those bytes gives back header,
  token, options and payload.
\<close>

theorem CoapUdp_roundtrip:
  assumes b: "build_ok b" "bp_buildFunc b = None" "bp_payload b = Some \<lparr>cd_data = Some d, cd_len = length d\<rparr>" "d \<noteq> []"
    and buf: "cb_data buf = []" "length (udp_wire b d) \<le> cb_size buf"
    and p: "length (ck_options pkt0) = 16" "length (ck_token pkt0) = 8"
  shows "\<exists>pkt' buf' q. CoapUdpEncode b pkt buf = Some (IOTC_OK, pkt', buf') \<and> cb_data buf' = udp_wire b d \<and>
    CoapUdpDecode pkt0 (Some (cb_data buf')) = Inr q \<and> ck_header q = (bp_header b)\<lparr>ch_ver := 1\<rparr> \<and>
    take (unat (ch_tkl (bp_header b))) (ck_token q) = take (unat (ch_tkl (bp_header b))) (bp_token b) \<and>
    take (ck_opNum q) (ck_options q) = bp_options b \<and> ck_payload q = \<lparr>cd_data = Some d, cd_len = length d\<rparr>"
proof -
  obtain pkt' where e: "CoapUdpEncode b pkt buf = Some (IOTC_OK, pkt', buf\<lparr>cb_data := udp_wire b d\<rparr>)"
    using CoapUdpEncode_wire [OF b buf] by blast
  have w: "cb_data (buf\<lparr>cb_data := udp_wire b d\<rparr>) = udp_wire b d" by simp
  obtain q where q: "CoapUdpDecode pkt0 (Some (udp_wire b d)) = Inr q" "ck_header q = (bp_header b)\<lparr>ch_ver := 1\<rparr>"
    "take (unat (ch_tkl (bp_header b))) (ck_token q) = take (unat (ch_tkl (bp_header b))) (bp_token b)"
    "take (ck_opNum q) (ck_options q) = bp_options b" "ck_payload q = \<lparr>cd_data = Some d, cd_len = length d\<rparr>"
    using CoapUdpDecode_wire [OF b(1) p] by blast
  show ?thesis
    by (intro exI [of _ pkt'] exI [of _ "buf\<lparr>cb_data := udp_wire b d\<rparr>"] exI [of _ q]) (simp add: e q)
qed

definition demo_build :: CoapBuildPacket where
  "demo_build = \<lparr>bp_header = \<lparr>ch_ver = 0, ch_type = 1, ch_tkl = 2, ch_code = 2, ch_msgId = 0x1234\<rparr>,
     bp_token = [7, 8, 0, 0, 0, 0, 0, 0],
     bp_options = [\<lparr>op_option = 11, op_value = \<lparr>cd_data = Some [97, 98], cd_len = 2\<rparr>\<rparr>,
                   \<lparr>op_option = 2048, op_value = \<lparr>cd_data = Some [1], cd_len = 1\<rparr>\<rparr>],
     bp_payload = Some \<lparr>cd_data = Some [5, 6], cd_len = length [5, 6 :: u8]\<rparr>, bp_buildFunc = None\<rparr>"

definition zero_packet :: CoapPacket where
  "zero_packet = \<lparr>ck_header = \<lparr>ch_ver = 0, ch_type = 0, ch_tkl = 0, ch_code = 0, ch_msgId = 0\<rparr>,
     ck_tcpheader = \<lparr>ct_len = 0, ct_exlen = 0\<rparr>, ck_token = replicate 8 0, ck_opNum = 0,
     ck_options = replicate 16 \<lparr>op_option = 0, op_value = \<lparr>cd_data = None, cd_len = 0\<rparr>\<rparr>,
     ck_payload = \<lparr>cd_data = None, cd_len = 0\<rparr>\<rparr>"

lemma demo_build_ok: "build_ok demo_build"
  by (simp add: build_ok_def demo_build_def option_ok_def ext_ok_def)

theorem CoapUdp_roundtrip_witness:
  "\<exists>pkt' buf' q. CoapUdpEncode demo_build zero_packet \<lparr>cb_size = 64, cb_data = []\<rparr> = Some (IOTC_OK, pkt', buf') \<and>
    cb_data buf' = udp_wire demo_build [5, 6] \<and> CoapUdpDecode zero_packet (Some (cb_data buf')) = Inr q \<and>
    ck_header q = (bp_header demo_build)\<lparr>ch_ver := 1\<rparr> \<and>
    take (unat (ch_tkl (bp_header demo_build))) (ck_token q) = take (unat (ch_tkl (bp_header demo_build))) (bp_token demo_build) \<and>
    take (ck_opNum q) (ck_options q) = bp_options demo_build \<and> ck_payload q = \<lparr>cd_data = Some [5, 6], cd_len = length [5, 6 :: u8]\<rparr>"
proof (rule CoapUdp_roundtrip [OF demo_build_ok])
  show "length (udp_wire demo_build [5, 6]) \<le> cb_size \<lparr>cb_size = 64, cb_data = []\<rparr>"
    by (simp add: udp_wire_def demo_build_def option_bytes_def ext_bytes_def)
qed (simp_all add: demo_build_def zero_packet_def)

section \<open>Limits of the codec\<close>

text \<open>
  Extension values of 269 and 65805 are not representable: building one succeeds, and parsing
  what was built gives 13 and 269 instead.
\<close>

theorem extension_boundary:
  "map (\<lambda>v. let (nib, _) = CoapCommGetExtensionBase v; (r, buf) = CoapCommBuildExtension \<lparr>cb_size = 8, cb_data = []\<rparr> v
            in (r, CoapCommParseExtension nib (cb_data buf) 0)) [268, 269, 270, 65804, 65805] =
   [(IOTC_OK, Inr (268, 1)), (IOTC_OK, Inr (13, 1)), (IOTC_OK, Inr (270, 2)), (IOTC_OK, Inr (65804, 2)), (IOTC_OK, Inr (269, 2))]"
  by (simp add: CoapCommGetExtensionBase_def CoapCommBuildExtension_def CoapCommParseExtension_def cb_room_def cb_put_def be16_def)

text \<open>
  The payload marker is written without a check: a message without options is encoded with a
  write one byte behind the buffer exactly when header and token fill the buffer.
\<close>

theorem CoapUdpEncode_overrun:
  assumes "bp_options b = []" "cb_data buf = []" "ch_code (bp_header b) \<noteq> 0" "unat (ch_tkl (bp_header b)) \<le> 8"
    "length (bp_token b) = 8" "bp_buildFunc b = None"
  shows "CoapUdpEncode b pkt buf = None \<longleftrightarrow> cb_size buf = 4 + unat (ch_tkl (bp_header b))"
  using assms
  by (auto simp: CoapUdpEncode_def CoapUdpBuildHeader_def CoapCommBuildToken_def CoapCommBuildOption_def put_marker_def
      CoapCommBuildPayload_def Let_def cb_room_def split: prod.splits if_splits) (metis prod_cases3)+

theorem CoapUdpEncode_overrun_witness:
  "CoapUdpEncode (demo_build\<lparr>bp_options := []\<rparr>) zero_packet \<lparr>cb_size = 6, cb_data = []\<rparr> = None"
  using CoapUdpEncode_overrun [of "demo_build\<lparr>bp_options := []\<rparr>" "\<lparr>cb_size = 6, cb_data = []\<rparr>" zero_packet]
  by (simp add: demo_build_def)

end
