(* ===== verification/Utils_Buffer.thy ===== *)
theory Utils_Buffer
  imports Errcode Contracts
begin

text \<open>
  The shared transport buffers (\<open>utils_buffer.c\<close>): one block of memory behind a semaphore that is
  created with one unit, is enlarged on demand and shrinks again after several short uses.  The count
  of the semaphore is part of the state and a wait on an empty one times out; the outcome of an
  allocation is an argument.  Sizes are natural numbers: none is above \<open>UTILS_BUFFER_MAX_SIZE\<close>.
\<close>

section \<open>Data\<close>

abbreviation (input) UTILS_BUFFER_MAX_ALLOC_SIZE :: nat where "UTILS_BUFFER_MAX_ALLOC_SIZE \<equiv> 65536"
abbreviation (input) UTILS_BUFFER_MAX_SIZE :: nat where "UTILS_BUFFER_MAX_SIZE \<equiv> 2162688"
abbreviation (input) UTILS_EACH_EXPEND_CNT_INCREASE :: nat where "UTILS_EACH_EXPEND_CNT_INCREASE \<equiv> 5"

record UtilsBuffer =
  ub_buffer :: "bytes option"
  ub_len :: nat
  ub_size :: nat

record UtilsBufferCtx =
  bx_exCnt :: nat
  bx_allocSize :: nat
  bx_maxSize :: nat
  bx_sem :: nat
  bx_buffer :: UtilsBuffer

section \<open>Operations\<close>

text \<open>The allocations are the context, its block of memory and the semaphore.\<close>

definition UtilsBufferCtxNew :: "alloc \<Rightarrow> nat \<Rightarrow> nat \<Rightarrow> UtilsBufferCtx option" where
  "UtilsBufferCtxNew mem preAlloc mx =
    (if preAlloc > UTILS_BUFFER_MAX_ALLOC_SIZE \<or> mx > UTILS_BUFFER_MAX_SIZE then None
     else if \<not> mem 0 then None
     else if \<not> mem 1 then None
     else if \<not> mem 2 then None
     else Some \<lparr>bx_exCnt = 0, bx_allocSize = preAlloc, bx_maxSize = mx, bx_sem = 1,
            bx_buffer = \<lparr>ub_buffer = Some (replicate preAlloc 0), ub_len = 0, ub_size = preAlloc\<rparr>\<rparr>)"

definition BufferRealloc :: "bool \<Rightarrow> UtilsBuffer \<Rightarrow> nat \<Rightarrow> ret \<times> UtilsBuffer" where
  "BufferRealloc memok buf sz =
    (if ub_size buf = sz \<and> ub_buffer buf \<noteq> None then (IOTC_OK, buf)
     else if \<not> memok then (IOTC_ADAPTER_MEM_ERR_CALLOC, buf\<lparr>ub_buffer := None, ub_size := 0\<rparr>)
     else (IOTC_OK, buf\<lparr>ub_size := sz, ub_buffer := Some (replicate sz 0)\<rparr>))"

text \<open>Whether the caller gets the buffer, and the context afterwards.  A wait that fails is followed by a post.\<close>

definition UtilsGetBuffer :: "bool \<Rightarrow> UtilsBufferCtx \<Rightarrow> bool \<times> UtilsBufferCtx" where
  "UtilsGetBuffer memok ctx =
    (if bx_sem ctx = 0 then (False, ctx\<lparr>bx_sem := bx_sem ctx + 1\<rparr>)
     else
       (let ctx = ctx\<lparr>bx_sem := bx_sem ctx - 1\<rparr>;
            (r, buf) = (if ub_size (bx_buffer ctx) = 0 \<or> ub_buffer (bx_buffer ctx) = None
                        then BufferRealloc memok (bx_buffer ctx) (bx_allocSize ctx) else (IOTC_OK, bx_buffer ctx))
        in if r \<noteq> IOTC_OK then (False, ctx\<lparr>bx_buffer := buf, bx_sem := bx_sem ctx + 1\<rparr>)
           else (True, ctx\<lparr>bx_buffer := buf\<lparr>ub_buffer := Some (replicate (ub_size buf) 0), ub_len := 0\<rparr>\<rparr>)))"

definition UtilsReleaseBuffer :: "bool \<Rightarrow> UtilsBufferCtx \<Rightarrow> UtilsBufferCtx" where
  "UtilsReleaseBuffer memok ctx =
    (let ctx =
       (if ub_len (bx_buffer ctx) > bx_allocSize ctx then ctx\<lparr>bx_exCnt := UTILS_EACH_EXPEND_CNT_INCREASE\<rparr>
        else if bx_exCnt ctx > 0 then
          (let ctx = ctx\<lparr>bx_exCnt := bx_exCnt ctx - 1\<rparr> in
           if bx_exCnt ctx = 0 then ctx\<lparr>bx_buffer := snd (BufferRealloc memok (bx_buffer ctx) (bx_allocSize ctx))\<rparr>
           else ctx)
        else ctx)
     in ctx\<lparr>bx_sem := bx_sem ctx + 1\<rparr>)"

text \<open>The buffer argument is the one of the context, as in all calls.\<close>

definition UtilsExpendBuffer :: "bool \<Rightarrow> UtilsBufferCtx \<Rightarrow> nat \<Rightarrow> ret \<times> UtilsBufferCtx" where
  "UtilsExpendBuffer memok ctx mx =
    (let temp = bx_buffer ctx in
     if \<not> ub_len temp < ub_size temp then (IOTC_ERR_PARAM_INVALID, ctx)
     else if mx \<le> ub_size temp then (IOTC_OK, ctx)
     else if mx > bx_maxSize ctx then (IOTC_CORE_COMM_UTILS_ERR_BUFFER_EXPEND_OVERSIZE, ctx)
     else
       (let (r, buf) = BufferRealloc memok \<lparr>ub_buffer = None, ub_len = 0, ub_size = 0\<rparr> mx in
        if r \<noteq> IOTC_OK then (r, ctx)
        else
          (case ub_buffer temp of
             None \<Rightarrow> (IOTC_OK, ctx\<lparr>bx_buffer := buf, bx_exCnt := UTILS_EACH_EXPEND_CNT_INCREASE\<rparr>)
           | Some old \<Rightarrow>
               (let new = overwrite (the (ub_buffer buf)) 0 (take (ub_len temp) old)
                in (IOTC_OK, ctx\<lparr>bx_buffer := buf\<lparr>ub_buffer := Some new, ub_len := ub_len temp\<rparr>,
                     bx_exCnt := UTILS_EACH_EXPEND_CNT_INCREASE\<rparr>)))))"

definition UtilsBufferAlloc :: "bool \<Rightarrow> UtilsBuffer \<Rightarrow> nat \<Rightarrow> ret \<times> UtilsBuffer" where
  "UtilsBufferAlloc memok buf sz =
    (if ub_buffer buf \<noteq> None \<or> sz = 0 \<or> sz > UTILS_BUFFER_MAX_SIZE then (IOTC_ERR_PARAM_INVALID, buf)
     else if \<not> memok then (IOTC_ADAPTER_MEM_ERR_CALLOC, buf)
     else (IOTC_OK, \<lparr>ub_buffer = Some (replicate sz 0), ub_len = 0, ub_size = sz\<rparr>))"

definition UtilsBufferFree :: "UtilsBuffer \<Rightarrow> UtilsBuffer" where
  "UtilsBufferFree buf =
    (if ub_buffer buf = None then buf else \<lparr>ub_buffer = None, ub_len = 0, ub_size = 0\<rparr>)"

section \<open>The block of memory\<close>

text \<open>The recorded size is the size of the block, and it stays between the two configured sizes.\<close>

definition block_ok :: "UtilsBuffer \<Rightarrow> bool" where
  "block_ok buf = (case ub_buffer buf of None \<Rightarrow> ub_size buf = 0 | Some b \<Rightarrow> length b = ub_size buf)"

definition buffer_inv :: "UtilsBufferCtx \<Rightarrow> bool" where
  "buffer_inv ctx \<longleftrightarrow> block_ok (bx_buffer ctx) \<and> bx_exCnt ctx \<le> UTILS_EACH_EXPEND_CNT_INCREASE \<and>
    ub_size (bx_buffer ctx) \<le> max (bx_allocSize ctx) (bx_maxSize ctx) \<and>
    (ub_buffer (bx_buffer ctx) \<noteq> None \<longrightarrow> bx_allocSize ctx \<le> ub_size (bx_buffer ctx)) \<and>
    (bx_exCnt ctx = 0 \<longrightarrow> ub_size (bx_buffer ctx) \<le> bx_allocSize ctx)"

lemmas buffer_defs = buffer_inv_def block_ok_def BufferRealloc_def

lemma UtilsBufferCtxNew_inv: "UtilsBufferCtxNew mem n mx = Some ctx \<Longrightarrow> buffer_inv ctx"
  by (auto simp: UtilsBufferCtxNew_def buffer_defs split: if_splits)

lemma UtilsGetBuffer_inv: "buffer_inv ctx \<Longrightarrow> buffer_inv (snd (UtilsGetBuffer memok ctx))"
  by (auto simp: UtilsGetBuffer_def buffer_defs Let_def split: option.splits)

lemma UtilsReleaseBuffer_inv: "buffer_inv ctx \<Longrightarrow> buffer_inv (UtilsReleaseBuffer memok ctx)"
  by (auto simp: UtilsReleaseBuffer_def buffer_defs Let_def split: option.splits)

lemma UtilsExpendBuffer_inv: "buffer_inv ctx \<Longrightarrow> buffer_inv (snd (UtilsExpendBuffer memok ctx mx))"
  by (auto simp: UtilsExpendBuffer_def buffer_defs Let_def split: option.splits)

text \<open>What a holder of the buffer does with it: the block keeps its size.\<close>

datatype buffer_op = BGet bool | BRelease bool | BExpend bool nat | BWrite bytes

definition buffer_write :: "bytes \<Rightarrow> UtilsBufferCtx \<Rightarrow> UtilsBufferCtx" where
  "buffer_write d ctx =
    (if ub_buffer (bx_buffer ctx) = None \<or> length d > ub_size (bx_buffer ctx) then ctx
     else ctx\<lparr>bx_buffer := (bx_buffer ctx)\<lparr>ub_buffer := Some (overwrite (the (ub_buffer (bx_buffer ctx))) 0 d),
            ub_len := length d\<rparr>\<rparr>)"

fun buffer_step :: "UtilsBufferCtx \<Rightarrow> buffer_op \<Rightarrow> UtilsBufferCtx" where
  "buffer_step ctx (BGet m) = snd (UtilsGetBuffer m ctx)"
| "buffer_step ctx (BRelease m) = UtilsReleaseBuffer m ctx"
| "buffer_step ctx (BExpend m n) = snd (UtilsExpendBuffer m ctx n)"
| "buffer_step ctx (BWrite d) = buffer_write d ctx"

lemma buffer_write_inv: "buffer_inv ctx \<Longrightarrow> buffer_inv (buffer_write d ctx)"
  by (auto simp: buffer_write_def buffer_defs split: option.splits)

interpretation buffer_run: step_system buffer_step buffer_inv
proof
  fix s e assume "buffer_inv s"
  then show "buffer_inv (buffer_step s e)"
    by (cases e) (simp_all add: UtilsGetBuffer_inv UtilsReleaseBuffer_inv UtilsExpendBuffer_inv buffer_write_inv)
qed

lemma buffer_sizes_kept: "bx_allocSize (buffer_step ctx e) = bx_allocSize ctx \<and> bx_maxSize (buffer_step ctx e) = bx_maxSize ctx"
  by (cases e) (auto simp: UtilsGetBuffer_def UtilsReleaseBuffer_def UtilsExpendBuffer_def buffer_write_def BufferRealloc_def
    Let_def split: option.splits)

text \<open>Whoever gets the buffer gets zeros, at least as many as were configured.\<close>

lemma UtilsGetBuffer_zeroed:
  assumes "buffer_inv ctx" "UtilsGetBuffer memok ctx = (True, ctx')"
  shows "ub_buffer (bx_buffer ctx') = Some (replicate (ub_size (bx_buffer ctx')) 0) \<and> ub_len (bx_buffer ctx') = 0 \<and>
    bx_allocSize ctx \<le> ub_size (bx_buffer ctx')"
  using assms by (auto simp: UtilsGetBuffer_def buffer_defs Let_def split: if_splits option.splits)

lemma UtilsGetBuffer_frame:
  "UtilsGetBuffer memok ctx = (g, ctx') \<Longrightarrow> bx_allocSize ctx' = bx_allocSize ctx \<and> bx_maxSize ctx' = bx_maxSize ctx"
  using buffer_sizes_kept [of ctx "BGet memok"] by simp

lemma UtilsGetBuffer_free:
  assumes "bx_sem ctx \<noteq> 0"
  obtains ctx' where "UtilsGetBuffer True ctx = (True, ctx')" "bx_sem ctx' = bx_sem ctx - 1" "bx_exCnt ctx' = bx_exCnt ctx"
  using assms that [of "snd (UtilsGetBuffer True ctx)"]
  by (simp add: UtilsGetBuffer_def BufferRealloc_def Let_def split_beta split: if_splits)

text \<open>Enlarging keeps the bytes in use and refuses nothing up to the maximum.\<close>

theorem UtilsExpendBuffer_keeps:
  assumes "buffer_inv ctx" "ub_len (bx_buffer ctx) < ub_size (bx_buffer ctx)" "mx \<le> bx_maxSize ctx"
  shows "\<exists>ctx'. UtilsExpendBuffer True ctx mx = (IOTC_OK, ctx') \<and> ub_size (bx_buffer ctx') = max mx (ub_size (bx_buffer ctx)) \<and>
    ub_len (bx_buffer ctx') = ub_len (bx_buffer ctx) \<and>
    take (ub_len (bx_buffer ctx)) (the (ub_buffer (bx_buffer ctx'))) =
      take (ub_len (bx_buffer ctx)) (the (ub_buffer (bx_buffer ctx)))"
  using assms
  by (auto simp: UtilsExpendBuffer_def buffer_defs Let_def overwrite_def max_def split: option.splits)

section \<open>Shrinking\<close>

text \<open>A use of the buffer that ends with a short message.\<close>

definition short_use :: "UtilsBufferCtx \<Rightarrow> bytes \<Rightarrow> UtilsBufferCtx" where
  "short_use ctx d = UtilsReleaseBuffer True (buffer_write d (snd (UtilsGetBuffer True ctx)))"

lemma short_use_step:
  assumes "buffer_inv ctx" "bx_sem ctx = 1" "length d \<le> bx_allocSize ctx"
  shows "buffer_inv (short_use ctx d) \<and> bx_sem (short_use ctx d) = 1 \<and> bx_allocSize (short_use ctx d) = bx_allocSize ctx \<and>
    bx_exCnt (short_use ctx d) = bx_exCnt ctx - 1"
proof -
  obtain ctx1 where g: "UtilsGetBuffer True ctx = (True, ctx1)" "bx_sem ctx1 = 0" "bx_exCnt ctx1 = bx_exCnt ctx"
    using assms(2) by (metis UtilsGetBuffer_free diff_self_eq_0 one_neq_zero)
  have i1: "buffer_inv ctx1" "bx_allocSize ctx1 = bx_allocSize ctx"
    using UtilsGetBuffer_inv [OF assms(1), of True] UtilsGetBuffer_frame [OF g(1)] g(1) by simp_all
  define ctx2 where "ctx2 = buffer_write d ctx1"
  note n = UtilsGetBuffer_zeroed [OF assms(1) g(1)]
  have f2: "bx_sem ctx2 = 0" "bx_exCnt ctx2 = bx_exCnt ctx" "bx_allocSize ctx2 = bx_allocSize ctx" "ub_len (bx_buffer ctx2) = length d"
    using g i1 n assms(3) by (simp_all add: ctx2_def buffer_write_def)
  have "buffer_inv ctx2" unfolding ctx2_def by (rule buffer_write_inv [OF i1(1)])
  then have "buffer_inv (UtilsReleaseBuffer True ctx2)" by (rule UtilsReleaseBuffer_inv)
  moreover have "short_use ctx d = UtilsReleaseBuffer True ctx2" by (simp add: short_use_def g ctx2_def)
  ultimately show ?thesis using f2 assms(3) by (simp add: UtilsReleaseBuffer_def Let_def)
qed

text \<open>After five uses in a row with short messages an enlarged buffer has its configured size again.\<close>

theorem buffer_shrinks:
  assumes "buffer_inv ctx" "bx_sem ctx = 1" "\<forall>d \<in> set ds. length d \<le> bx_allocSize ctx" "length ds = 5"
    "ub_buffer (bx_buffer (foldl short_use ctx ds)) \<noteq> None"
  shows "ub_size (bx_buffer (foldl short_use ctx ds)) = bx_allocSize ctx"
proof -
  have run: "buffer_inv (foldl short_use c es) \<and> bx_exCnt (foldl short_use c es) = bx_exCnt c - length es \<and>
      bx_allocSize (foldl short_use c es) = bx_allocSize c"
    if "buffer_inv c" "bx_sem c = 1" "\<forall>d \<in> set es. length d \<le> bx_allocSize c" for c es
    using that
  proof (induction es arbitrary: c)
    case (Cons e es)
    then have "length e \<le> bx_allocSize c" by simp
    note s = short_use_step [OF Cons.prems(1,2) this]
    show ?case using Cons.IH [of "short_use c e"] s Cons.prems(3) by simp
  qed simp
  have "bx_exCnt ctx \<le> 5" using assms(1) by (simp add: buffer_inv_def)
  then have "bx_exCnt (foldl short_use ctx ds) = 0" using run [OF assms(1-3)] assms(4) by simp
  then show ?thesis using run [OF assms(1-3)] assms(5) by (auto simp: buffer_inv_def)
qed

section \<open>Exclusion\<close>

text \<open>
  The post after a wait that timed out hands out the unit of the current holder: with the buffer in
  use, the second of two further calls gets the same buffer, which is cleared under the holder.
\<close>

theorem two_holders:
  assumes "buffer_inv ctx" "bx_sem ctx = 1"
  shows "fst (UtilsGetBuffer True ctx) \<and>
    \<not> fst (UtilsGetBuffer True (buffer_write d (snd (UtilsGetBuffer True ctx)))) \<and>
    (\<exists>ctx' n. UtilsGetBuffer True (snd (UtilsGetBuffer True (buffer_write d (snd (UtilsGetBuffer True ctx))))) = (True, ctx') \<and>
      ub_buffer (bx_buffer ctx') = Some (replicate n 0) \<and> ub_len (bx_buffer ctx') = 0)"
proof -
  obtain c1 where c1: "UtilsGetBuffer True ctx = (True, c1)" "bx_sem c1 = 0"
    using assms(2) by (metis UtilsGetBuffer_free diff_self_eq_0 one_neq_zero)
  define c2 where "c2 = (buffer_write d c1)\<lparr>bx_sem := 1\<rparr>"
  have c2: "UtilsGetBuffer True (buffer_write d c1) = (False, c2)"
    using c1(2) by (simp add: UtilsGetBuffer_def c2_def buffer_write_def)
  have "buffer_inv c1" using UtilsGetBuffer_inv [OF assms(1), of True] c1(1) by simp
  then have i2: "buffer_inv c2" using UtilsGetBuffer_inv [OF buffer_write_inv, of c1 True d] c2 by simp
  have "bx_sem c2 \<noteq> 0" by (simp add: c2_def)
  then obtain c3 where c3: "UtilsGetBuffer True c2 = (True, c3)" by (rule UtilsGetBuffer_free)
  show ?thesis using UtilsGetBuffer_zeroed [OF i2 c3] c1 c2 c3 by auto
qed

end
