(* ===== verification/Coap_Uri.thy ===== *)
theory Coap_Uri
  imports Coap_Codec Utils_Buffer Utils_Common
begin

text \<open>
  The accessors of \<open>coap_codec_utils.c\<close>: finding the options of a type, the URI they spell, the JSON
  payload builder and the functions that replace or extend the payload inside the message buffer.
  Where a payload pointer points into the buffer matters for the last two, so it is their argument: its
  offset, or \<^term>\<open>None\<close> for a pointer that is not into the buffer.  A write behind the end of
  the buffer is the result \<^term>\<open>None\<close>.
\<close>

section \<open>Options and URIs\<close>

abbreviation (input) COAP_URI_MAX_LEN :: nat where "COAP_URI_MAX_LEN \<equiv> 128"
abbreviation (input) CHAR_SLASH :: u8 where "CHAR_SLASH \<equiv> 47"
abbreviation (input) CHAR_AMP :: u8 where "CHAR_AMP \<equiv> 38"
abbreviation (input) CHAR_QUERY :: u8 where "CHAR_QUERY \<equiv> 63"

text \<open>The first run of options of a type: the address of its first element and its length.\<close>

fun find_option :: "nat \<Rightarrow> CoapOption list \<Rightarrow> CoapOption list" where
  "find_option opt [] = []"
| "find_option opt (x # xs) =
    (if op_option x = opt then x # takeWhile (\<lambda>y. op_option y = opt) xs else find_option opt xs)"

definition CoapUtilsFindOption :: "CoapPacket \<Rightarrow> nat \<Rightarrow> CoapOption list" where
  "CoapUtilsFindOption pkt opt = find_option opt (take (ck_opNum pkt) (ck_options pkt))"

text \<open>The loop over the segments; the text starts at \<open>off\<close> and has room for \<open>sz\<close> bytes.\<close>

fun uri_loop :: "u8 \<Rightarrow> nat \<Rightarrow> nat \<Rightarrow> CoapOption list \<Rightarrow> nat \<Rightarrow> bytes \<Rightarrow> ret + bytes \<times> nat" where
  "uri_loop delimiter off sz [] len buf = Inr (buf, len)"
| "uri_loop delimiter off sz (cur # rest) len buf =
    (case cd_data (op_value cur) of
       None \<Rightarrow> Inl IOTC_CORE_WIFI_TRANS_ERR_COAP_CODEC_OPTION_INVALID
     | Some d \<Rightarrow>
         if cd_len (op_value cur) = 0 then Inl IOTC_CORE_WIFI_TRANS_ERR_COAP_CODEC_OPTION_INVALID
         else if sz - len < cd_len (op_value cur) then Inl IOTC_CORE_WIFI_TRANS_ERR_COAP_CODEC_BUFFER_SHORT
         else
           (let buf = overwrite buf (off + len) (take (cd_len (op_value cur)) d);
                len = len + cd_len (op_value cur)
            in if rest \<noteq> [] then
                 (if \<not> len < sz then Inl IOTC_CORE_WIFI_TRANS_ERR_COAP_CODEC_BUFFER_SHORT
                  else uri_loop delimiter off sz rest (len + 1) (buf[off + len := delimiter]))
               else uri_loop delimiter off sz rest len buf))"

definition CoapUtilsGetUriOption :: "CoapPacket \<Rightarrow> bytes \<Rightarrow> nat \<Rightarrow> nat \<Rightarrow> nat \<Rightarrow> u8 \<Rightarrow> ret + bytes \<times> nat" where
  "CoapUtilsGetUriOption pkt buf off bufSize opt delimiter =
    (let uriOptions = CoapUtilsFindOption pkt opt in
     if uriOptions = [] then Inr (buf, 0) else uri_loop delimiter off bufSize uriOptions 0 buf)"

definition CoapUtilsGetUriPath :: "CoapPacket \<Rightarrow> bytes \<Rightarrow> nat \<Rightarrow> ret + bytes" where
  "CoapUtilsGetUriPath pkt buf sz =
    (if \<not> sz \<noteq> 0 then Inl IOTC_ERR_PARAM_INVALID
     else
       (case CoapUtilsGetUriOption pkt buf 0 sz COAP_OPTION_TYPE_URI_PATH CHAR_SLASH of
          Inl e \<Rightarrow> Inl e
        | Inr (buf, bufSize) \<Rightarrow>
            if bufSize \<ge> sz then Inl IOTC_CORE_WIFI_TRANS_ERR_COAP_CODEC_BUFFER_SHORT
            else Inr (buf[bufSize := 0])))"

definition CoapUtilsGetUri :: "CoapPacket \<Rightarrow> bytes \<Rightarrow> nat \<Rightarrow> ret + bytes" where
  "CoapUtilsGetUri pkt buf sz =
    (if \<not> sz \<noteq> 0 then Inl IOTC_ERR_PARAM_INVALID
     else
       (case CoapUtilsGetUriOption pkt buf 0 sz COAP_OPTION_TYPE_URI_PATH CHAR_SLASH of
          Inl e \<Rightarrow> Inl e
        | Inr (buf, len) \<Rightarrow>
            if CoapUtilsFindOption pkt COAP_OPTION_TYPE_URI_PATH = [] then Inr buf
            else if len \<ge> sz - 1 then Inl IOTC_CORE_WIFI_TRANS_ERR_COAP_CODEC_BUFFER_SHORT
            else
              (let len = len + 1 in
               case CoapUtilsGetUriOption pkt buf len (sz - len) COAP_OPTION_TYPE_URI_QUERY CHAR_AMP of
                 Inl e \<Rightarrow> Inl e
               | Inr (buf, queryLen) \<Rightarrow>
                   if queryLen = 0 then Inr (buf[len - 1 := 0]) else Inr (buf[len - 1 := CHAR_QUERY]))))"

section \<open>Payloads\<close>

text \<open>\<open>print\<close> is the JSON printer on the room that is left: a code, the size it reports and what it wrote.\<close>

definition CoapUtilsBuildJsonPayloadFunc :: "(nat \<Rightarrow> ret \<times> nat \<times> bytes) \<Rightarrow> UtilsBuffer \<Rightarrow> ret \<times> UtilsBuffer" where
  "CoapUtilsBuildJsonPayloadFunc print buf =
    (case ub_buffer buf of
       None \<Rightarrow> (IOTC_ERR_PARAM_INVALID, buf)
     | Some b \<Rightarrow>
         if \<not> ub_len buf < ub_size buf then (IOTC_ERR_PARAM_INVALID, buf)
         else
           (let (r, sz, d) = print (ub_size buf - ub_len buf); buf = buf\<lparr>ub_buffer := Some (overwrite b (ub_len buf) d)\<rparr> in
            if r \<noteq> IOTC_OK then (r, buf)
            else if sz > ub_size buf - ub_len buf then (IOTC_ADAPTER_JSON_ERR_PRINT, buf)
            else (IOTC_OK, buf\<lparr>ub_len := ub_len buf + sz\<rparr>)))"

text \<open>The result is the code, the buffer and the new length of the payload.\<close>

definition CoapUtilsReplacePayload :: "nat option \<Rightarrow> nat \<Rightarrow> UtilsBuffer \<Rightarrow> bytes \<Rightarrow> (ret \<times> UtilsBuffer \<times> nat) option" where
  "CoapUtilsReplacePayload payloadPoint plen buf payload =
    (if \<not> (ub_size buf \<noteq> 0 \<and> payload \<noteq> []) then Some (IOTC_ERR_PARAM_INVALID, buf, plen)
     else
       (case (payloadPoint, ub_buffer buf) of
          (Some p, Some b) \<Rightarrow>
            if p > ub_size buf then Some (IOTC_CORE_WIFI_TRANS_ERR_COAP_CODEC_PAYLOAD_INVALID, buf, plen)
            else
              (let payloadBufferSize = ub_size buf - p in
               if payloadBufferSize \<le> length payload then Some (IOTC_CORE_WIFI_TRANS_ERR_COAP_CODEC_BUFFER_SHORT, buf, plen)
               else
                 (let b = overwrite b (ub_size buf - payloadBufferSize) payload;
                      len = ub_size buf - payloadBufferSize + length payload
                  in if len \<ge> length b then None
                     else Some (IOTC_OK, buf\<lparr>ub_buffer := Some (b[len := 0]), ub_len := len\<rparr>, length payload)))
        | _ \<Rightarrow> Some (IOTC_CORE_WIFI_TRANS_ERR_COAP_CODEC_PAYLOAD_INVALID, buf, plen)))"

definition CoapUtilsAddPayload :: "nat option \<Rightarrow> nat \<Rightarrow> UtilsBuffer \<Rightarrow> bytes \<Rightarrow> (ret \<times> UtilsBuffer \<times> nat) option" where
  "CoapUtilsAddPayload payloadPoint plen buf payload =
    (if \<not> (ub_size buf \<noteq> 0 \<and> payload \<noteq> []) then Some (IOTC_ERR_PARAM_INVALID, buf, plen)
     else
       (case (payloadPoint, ub_buffer buf) of
          (Some p, Some b) \<Rightarrow>
            if p > ub_size buf then Some (IOTC_CORE_WIFI_TRANS_ERR_COAP_CODEC_PAYLOAD_INVALID, buf, plen)
            else if p + plen + length payload > length b then None
            else
              (let b = overwrite b (p + plen) payload; len = ub_len buf + length payload
               in if len \<ge> length b then None
                  else Some (IOTC_OK, buf\<lparr>ub_buffer := Some (b[len := 0]), ub_len := len\<rparr>, len))
        | _ \<Rightarrow> Some (IOTC_CORE_WIFI_TRANS_ERR_COAP_CODEC_PAYLOAD_INVALID, buf, plen)))"

section \<open>What a URI spells\<close>

fun join :: "u8 \<Rightarrow> bytes list \<Rightarrow> bytes" where
  "join c [] = []"
| "join c [s] = s"
| "join c (s # t # ss) = s @ c # join c (t # ss)"

text \<open>Segments a URI may have: nothing empty, no terminator.\<close>

definition segments :: "CoapOption list \<Rightarrow> bytes list \<Rightarrow> bool" where
  "segments opts ss \<longleftrightarrow>
    map op_value opts = map (\<lambda>s. \<lparr>cd_data = Some s, cd_len = length s\<rparr>) ss \<and> [] \<notin> set ss \<and> 0 \<notin> set (concat ss)"

lemma segments_Nil [simp]: "segments [] ss \<longleftrightarrow> ss = []"
  by (auto simp: segments_def)

lemma segments_Cons:
  "segments (x # xs) ss \<longleftrightarrow> (\<exists>s ss'. ss = s # ss' \<and> op_value x = \<lparr>cd_data = Some s, cd_len = length s\<rparr> \<and> s \<noteq> [] \<and>
    0 \<notin> set s \<and> segments xs ss')"
  by (cases ss) (auto simp: segments_def)

lemma overwrite_twice:
  "off + length a + length b \<le> length buf \<Longrightarrow> overwrite (overwrite buf off a) (off + length a) b = overwrite buf off (a @ b)"
  by (simp add: overwrite_def ac_simps)

lemma overwrite_update:
  "off + length a < length buf \<Longrightarrow> (overwrite buf off a)[off + length a := c] = overwrite buf off (a @ [c])"
  using overwrite_twice [of off a "[c]" buf]
  by (simp add: overwrite_def list_update_append upd_conv_take_nth_drop)

lemma uri_loop_join:
  assumes "segments opts ss" "len \<le> sz" "off + sz \<le> length buf"
  shows "uri_loop c off sz opts len buf =
    (if len + length (join c ss) \<le> sz then Inr (overwrite buf (off + len) (join c ss), len + length (join c ss))
     else Inl IOTC_CORE_WIFI_TRANS_ERR_COAP_CODEC_BUFFER_SHORT)"
  using assms
proof (induction c off sz opts len buf arbitrary: ss rule: uri_loop.induct)
  case (2 c off sz x xs len buf)
  then obtain s ss' where s: "ss = s # ss'" "op_value x = \<lparr>cd_data = Some s, cd_len = length s\<rparr>" "s \<noteq> []" "segments xs ss'"
    by (auto simp: segments_Cons)
  show ?case
  proof (cases ss')
    case Nil
    then have "xs = []" using s(4) by (cases xs) (auto simp: segments_Cons)
    then show ?thesis using s Nil "2.prems" by auto
  next
    case (Cons t ts)
    then have xs: "xs \<noteq> []" using s(4) by auto
    have pos: "0 < length (join c ss')" using Cons s(4) by (cases xs; cases ts) (auto simp: segments_Cons)
    have j: "join c ss = s @ c # join c ss'" using s(1) Cons by simp
    show ?thesis
    proof (cases "len + length s < sz")
      case True
      define b1 where "b1 = (overwrite buf (off + len) s)[off + (len + length s) := c]"
      have b1: "b1 = overwrite buf (off + len) (s @ [c])"
        using overwrite_update [of "off + len" s buf c] True "2.prems"(3) by (simp add: b1_def add.assoc)
      have u: "uri_loop c off sz (x # xs) len buf = uri_loop c off sz xs (len + length s + 1) b1"
        using True xs s(2,3) by (auto simp: b1_def Let_def)
      have lb: "length b1 = length buf" using True "2.prems"(3) by (simp add: b1)
      have ih: "uri_loop c off sz xs (len + length s + 1) b1 =
          (if len + length s + 1 + length (join c ss') \<le> sz
           then Inr (overwrite b1 (off + (len + length s + 1)) (join c ss'), len + length s + 1 + length (join c ss'))
           else Inl IOTC_CORE_WIFI_TRANS_ERR_COAP_CODEC_BUFFER_SHORT)"
      proof -
        have c2: "off + sz \<le> length b1" using lb "2.prems"(3) by simp
        show ?thesis using "2.IH"(1) [of s, OF _ _ _ refl refl xs] s True c2 by (simp add: b1_def)
      qed
      have "overwrite b1 (off + (len + length s + 1)) (join c ss') = overwrite buf (off + len) (join c ss)"
        if "len + length (join c ss) \<le> sz"
        using overwrite_twice [of "off + len" "s @ [c]" "join c ss'" buf] that "2.prems"(3)
        by (simp add: b1 j add.assoc)
      then show ?thesis unfolding u ih by (auto simp: j)
    next
      case False
      then show ?thesis using pos s(2,3) xs by (auto simp: j)
    qed
  qed
qed (simp add: overwrite_def)

lemma GetUriOption_join:
  assumes "segments (CoapUtilsFindOption pkt opt) ss" "off + sz \<le> length buf"
  shows "CoapUtilsGetUriOption pkt buf off sz opt c =
    (if length (join c ss) \<le> sz then Inr (overwrite buf off (join c ss), length (join c ss))
     else Inl IOTC_CORE_WIFI_TRANS_ERR_COAP_CODEC_BUFFER_SHORT)"
  using assms uri_loop_join [OF assms(1), of 0 sz off buf c]
  by (auto simp: CoapUtilsGetUriOption_def Let_def overwrite_def)

lemma join_nonempty: "segments opts ss \<Longrightarrow> ss \<noteq> [] \<Longrightarrow> join c ss \<noteq> []"
  by (cases "(c, ss)" rule: join.cases) (auto simp: segments_def)

lemma join_no_zero: "0 \<notin> set (concat ss) \<Longrightarrow> c \<noteq> 0 \<Longrightarrow> 0 \<notin> set (join c ss)"
  by (induction c ss rule: join.induct) auto

lemma cstr_overwrite_zeros:
  assumes "0 \<notin> set t" "length t < n"
  shows "cstr (overwrite (replicate n 0) 0 t) = t"
proof -
  have "overwrite (replicate n 0) 0 t = t @ 0 # replicate (n - length t - 1) 0"
    using assms(2) by (cases "n - length t") (simp_all add: overwrite_def)
  then show ?thesis using assms(1) by (auto simp: cstr_def takeWhile_append takeWhile_eq_all_conv)
qed

text \<open>The URI of a request: its path, and its query behind a question mark.\<close>

definition uri_text :: "bytes list \<Rightarrow> bytes list \<Rightarrow> bytes" where
  "uri_text ps qs = join CHAR_SLASH ps @ (if qs = [] then [] else CHAR_QUERY # join CHAR_AMP qs)"

theorem GetUri_text:
  assumes p: "segments (CoapUtilsFindOption pkt COAP_OPTION_TYPE_URI_PATH) ps" "ps \<noteq> []"
    and q: "segments (CoapUtilsFindOption pkt COAP_OPTION_TYPE_URI_QUERY) qs"
    and len: "length (join CHAR_SLASH ps) < 127" "length (uri_text ps qs) \<le> COAP_URI_MAX_LEN"
  shows "\<exists>buf. CoapUtilsGetUri pkt (replicate (COAP_URI_MAX_LEN + 1) 0) COAP_URI_MAX_LEN = Inr buf \<and> cstr buf = uri_text ps qs"
proof -
  let ?z = "replicate 129 (0 :: u8)" and ?n = "length (join CHAR_SLASH ps)"
  define b1 where "b1 = overwrite ?z 0 (join CHAR_SLASH ps)"
  have l1: "length b1 = 129" using len(1) by (simp add: b1_def)
  have g1: "CoapUtilsGetUriOption pkt ?z 0 128 COAP_OPTION_TYPE_URI_PATH CHAR_SLASH = Inr (b1, ?n)"
    using GetUriOption_join [OF p(1), of 0 128 ?z CHAR_SLASH] len(1) by (simp add: b1_def)
  have ne: "CoapUtilsFindOption pkt COAP_OPTION_TYPE_URI_PATH \<noteq> []"
    using p by (auto simp: segments_def)
  have fit: "length (join CHAR_AMP qs) \<le> 128 - (?n + 1)"
    using len by (auto simp: uri_text_def split: if_splits)
  define b2 where "b2 = overwrite b1 (?n + 1) (join CHAR_AMP qs)"
  have g2: "CoapUtilsGetUriOption pkt b1 (?n + 1) (128 - (?n + 1)) COAP_OPTION_TYPE_URI_QUERY CHAR_AMP = Inr (b2, length (join CHAR_AMP qs))"
    using GetUriOption_join [OF q, of "?n + 1" "128 - (?n + 1)" b1 CHAR_AMP] len(1) fit l1 by (simp add: b2_def)
  have zp: "0 \<notin> set (join CHAR_SLASH ps)" "0 \<notin> set (join CHAR_AMP qs)"
    using p q join_no_zero [of ps CHAR_SLASH] join_no_zero [of qs CHAR_AMP] by (auto simp: segments_def)
  have "join CHAR_AMP qs = [] \<longleftrightarrow> qs = []" using join_nonempty [OF q] by auto
  then have uri: "CoapUtilsGetUri pkt ?z 128 = Inr (b2[?n := (if qs = [] then 0 else CHAR_QUERY)])"
    using g1 g2 ne len(1) by (simp add: CoapUtilsGetUri_def Let_def)
  have "cstr (b2[?n := (if qs = [] then 0 else CHAR_QUERY)]) = uri_text ps qs"
  proof (cases "qs = []")
    case True
    then have "b2 = b1" by (simp add: b2_def overwrite_def)
    moreover have "b1[?n := 0] = b1"
      using len(1) by (intro list_update_same_conv [THEN iffD2]) (simp_all add: b1_def nth_overwrite)
    ultimately show ?thesis using True cstr_overwrite_zeros [OF zp(1), of 129] len(1) by (simp add: b1_def uri_text_def)
  next
    case False
    have "b2[?n := CHAR_QUERY] = overwrite ?z 0 (uri_text ps qs)"
    proof (rule nth_equalityI)
      fix i assume "i < length (b2[?n := CHAR_QUERY])"
      then have i: "i < 129" using l1 fit len(1) by (simp add: b2_def)
      show "b2[?n := CHAR_QUERY] ! i = overwrite ?z 0 (uri_text ps qs) ! i"
        using i l1 fit len False
        by (auto simp: b2_def b1_def nth_overwrite nth_list_update uri_text_def nth_append nth_Cons')
    qed (use l1 fit len in \<open>simp add: b2_def\<close>)
    moreover have "0 \<notin> set (uri_text ps qs)" using zp by (auto simp: uri_text_def)
    ultimately show ?thesis using cstr_overwrite_zeros [of "uri_text ps qs" 129] len(2) False by simp
  qed
  then show ?thesis using uri by simp
qed

text \<open>Without a path there is no URI, whatever the query.\<close>

theorem GetUri_no_path:
  assumes "CoapUtilsFindOption pkt COAP_OPTION_TYPE_URI_PATH = []"
  shows "CoapUtilsGetUri pkt (replicate 129 0) 128 = Inr (replicate 129 0)"
  using assms by (simp add: CoapUtilsGetUri_def CoapUtilsGetUriOption_def)

section \<open>Payloads in the buffer\<close>

text \<open>Replacing a payload never leaves the buffer and keeps what is before the payload.\<close>

theorem ReplacePayload_inside:
  assumes "block_ok buf" "length payload > 0"
  shows "\<exists>r buf' n. CoapUtilsReplacePayload pp plen buf payload = Some (r, buf', n) \<and> block_ok buf' \<and> ub_size buf' = ub_size buf \<and>
    (r = IOTC_OK \<longrightarrow> (\<exists>p. pp = Some p \<and> n = length payload \<and> ub_len buf' = p + n \<and>
       take (p + n) (the (ub_buffer buf')) = take p (the (ub_buffer buf)) @ payload))"
  using assms
  by (auto simp: CoapUtilsReplacePayload_def block_ok_def Let_def overwrite_def min_def split: option.splits)

text \<open>
  Appending does not check the room, and it stores the length of the whole message as the length of
  the payload.
\<close>

theorem AddPayload_length:
  assumes "ub_buffer buf = Some b" "length b = ub_size buf" "payload \<noteq> []" "p + plen = ub_len buf"
    "ub_len buf \<le> ub_size buf" "ub_size buf \<noteq> 0"
  shows "CoapUtilsAddPayload (Some p) plen buf payload =
    (if ub_len buf + length payload < ub_size buf then
       Some (IOTC_OK, buf\<lparr>ub_buffer := Some ((overwrite b (ub_len buf) payload)[ub_len buf + length payload := 0]),
               ub_len := ub_len buf + length payload\<rparr>, p + plen + length payload)
     else None)"
  using assms by (auto simp: CoapUtilsAddPayload_def Let_def)

end
