(* ===== verification/Trans_Link.thy ===== *)
theory Trans_Link
  imports Utils_Buffer
begin

text \<open>
  The transport below CoAP: the socket wrapper (\<open>trans_socket.c\<close>), the link that sends and receives
  through it (\<open>trans_link.c\<close>) and the session with its chains of message handlers
  (\<open>trans_sess.c\<close>).  The functions of a socket interface are the adapter's: whether a pointer is set
  is part of the state, what a call returns is an argument.  A function pointer is a number, and what
  the functions behind the handlers of a session do is an argument.  Calls to the socket and to the
  error callback are returned as output; \<^term>\<open>None\<close> is a callback that does not return.
\<close>

section \<open>Sockets\<close>

abbreviation (input) TRANS_SOCKET_INVALID_FD :: int where "TRANS_SOCKET_INVALID_FD \<equiv> -1"

record SocketAddr =
  sa_port :: u16
  sa_addr :: u32

record SocketIf =
  if_socketInit :: bool
  if_socketConnect :: bool
  if_socketSend :: bool
  if_socketRecv :: bool
  if_socketClose :: bool
  if_socketFree :: bool

record TransSocket =
  tk_fd :: int
  tk_socketIf :: "SocketIf option"

datatype link_out =
    Sock_init
  | Sock_send u32 bytes "SocketAddr option"
  | Sock_close
  | Sock_free
  | Link_error nat

definition TransSocketFree :: "TransSocket \<Rightarrow> link_out list" where
  "TransSocketFree sk =
    (case tk_socketIf sk of None \<Rightarrow> [] | Some i \<Rightarrow> if if_socketFree i then [Sock_free] else [])"

definition TransSocketNew :: "bool \<Rightarrow> ret \<Rightarrow> SocketIf option \<Rightarrow> TransSocket option \<times> link_out list" where
  "TransSocketNew memok r socketIf =
    (case socketIf of
       None \<Rightarrow> (None, [])
     | Some i \<Rightarrow>
         if \<not> if_socketInit i then (None, [])
         else if \<not> memok then (None, [])
         else
           (let sk = \<lparr>tk_fd = TRANS_SOCKET_INVALID_FD, tk_socketIf = socketIf\<rparr> in
            if r \<noteq> IOTC_OK then (None, Sock_init # TransSocketFree sk) else (Some sk, [Sock_init])))"

definition TransSocketGetFd :: "TransSocket \<Rightarrow> int" where
  "TransSocketGetFd sk = tk_fd sk"

text \<open>\<open>fd\<close> is what the connect function of the interface returns.\<close>

definition TransSocketConnect :: "int \<Rightarrow> TransSocket \<Rightarrow> ret \<times> TransSocket" where
  "TransSocketConnect fd sk =
    (case tk_socketIf sk of
       None \<Rightarrow> (IOTC_ERR_CALLBACK_NULL, sk)
     | Some i \<Rightarrow>
         if \<not> if_socketConnect i then (IOTC_ERR_CALLBACK_NULL, sk)
         else if tk_fd sk \<ge> 0 then (IOTC_OK, sk)
         else if fd < 0 then (IOTC_CORE_WIFI_TRANS_ERR_SOCKET_CONNECT, sk\<lparr>tk_fd := fd\<rparr>)
         else (IOTC_OK, sk\<lparr>tk_fd := fd\<rparr>))"

definition TransSocketSend ::
    "(bytes \<Rightarrow> SocketAddr option \<Rightarrow> ret) \<Rightarrow> TransSocket \<Rightarrow> u32 \<Rightarrow> bytes \<Rightarrow> SocketAddr option \<Rightarrow> ret \<times> link_out list" where
  "TransSocketSend snd_fn sk tmo data addr =
    (if \<not> data \<noteq> [] then (IOTC_ERR_PARAM_INVALID, [])
     else
       (case tk_socketIf sk of
          None \<Rightarrow> (IOTC_ERR_CALLBACK_NULL, [])
        | Some i \<Rightarrow>
            if \<not> if_socketSend i then (IOTC_ERR_CALLBACK_NULL, [])
            else if \<not> tk_fd sk \<ge> 0 then (IOTC_CORE_WIFI_TRANS_ERR_SOCKET_INVALID, [])
            else (snd_fn data addr, [Sock_send tmo data addr])))"

text \<open>A receive function gets the buffer and returns a code, the buffer and the address of the sender.\<close>

type_synonym recv_fn = "UtilsBuffer \<Rightarrow> int \<times> UtilsBuffer \<times> SocketAddr"

definition TransSocketRecv :: "recv_fn \<Rightarrow> TransSocket \<Rightarrow> UtilsBuffer \<Rightarrow> SocketAddr \<Rightarrow> int \<times> UtilsBuffer \<times> SocketAddr" where
  "TransSocketRecv recv sk buf addr =
    (if \<not> (ub_size buf \<noteq> 0 \<and> ub_buffer buf \<noteq> None \<and> ub_size buf \<ge> ub_len buf) then (IOTC_ERR_PARAM_INVALID, buf, addr)
     else
       (case tk_socketIf sk of
          None \<Rightarrow> (IOTC_ERR_CALLBACK_NULL, buf, addr)
        | Some i \<Rightarrow>
            if \<not> if_socketRecv i then (IOTC_ERR_CALLBACK_NULL, buf, addr)
            else if \<not> tk_fd sk \<ge> 0 then (IOTC_CORE_WIFI_TRANS_ERR_SOCKET_INVALID, buf, addr)
            else recv buf))"

definition TransSocketClose :: "TransSocket \<Rightarrow> TransSocket \<times> link_out list" where
  "TransSocketClose sk =
    (case tk_socketIf sk of
       None \<Rightarrow> (sk, [])
     | Some i \<Rightarrow>
         if \<not> if_socketClose i then (sk, [])
         else if tk_fd sk < 0 then (sk, [])
         else (sk\<lparr>tk_fd := TRANS_SOCKET_INVALID_FD\<rparr>, [Sock_close]))"

section \<open>Links\<close>

abbreviation (input) TRANS_LINK_DEFAULT_SEND_TIMEOUT :: u32 where "TRANS_LINK_DEFAULT_SEND_TIMEOUT \<equiv> 10000"
abbreviation (input) TRANS_LINK_DEFAULT_RECV_TIMEOUT :: u32 where "TRANS_LINK_DEFAULT_RECV_TIMEOUT \<equiv> 10000"

record TransLink =
  tl_recvTmo :: u32
  tl_sendTmo :: u32
  tl_errFunc :: "nat option"
  tl_dataFunc :: "nat option"
  tl_socket :: TransSocket
  tl_buffer :: UtilsBufferCtx

definition TransLinkNew :: "bool \<Rightarrow> TransSocket \<Rightarrow> UtilsBufferCtx \<Rightarrow> TransLink option" where
  "TransLinkNew memok sk buffer =
    (if \<not> memok then None
     else Some \<lparr>tl_recvTmo = TRANS_LINK_DEFAULT_RECV_TIMEOUT, tl_sendTmo = TRANS_LINK_DEFAULT_SEND_TIMEOUT,
            tl_errFunc = None, tl_dataFunc = None, tl_socket = sk, tl_buffer = buffer\<rparr>)"

definition TransLinkRegErrorCallback :: "TransLink \<Rightarrow> nat option \<Rightarrow> ret \<times> TransLink" where
  "TransLinkRegErrorCallback lk cb =
    (if \<not> cb \<noteq> None then (IOTC_ERR_PARAM_INVALID, lk)
     else if \<not> tl_errFunc lk = None then (IOTC_CORE_WIFI_TRANS_ERR_LINK_HAVE_CALLBACK, lk)
     else (IOTC_OK, lk\<lparr>tl_errFunc := cb\<rparr>))"

definition TransLinkRegDataCallback :: "TransLink \<Rightarrow> nat option \<Rightarrow> ret \<times> TransLink" where
  "TransLinkRegDataCallback lk cb =
    (if \<not> cb \<noteq> None then (IOTC_ERR_PARAM_INVALID, lk)
     else if \<not> tl_dataFunc lk = None then (IOTC_CORE_WIFI_TRANS_ERR_LINK_HAVE_CALLBACK, lk)
     else (IOTC_OK, lk\<lparr>tl_dataFunc := cb\<rparr>))"

definition TransLinkUnregErrorCallback :: "TransLink \<Rightarrow> TransLink" where
  "TransLinkUnregErrorCallback lk = lk\<lparr>tl_errFunc := None\<rparr>"

definition TransLinkUnregDataCallback :: "TransLink \<Rightarrow> TransLink" where
  "TransLinkUnregDataCallback lk = lk\<lparr>tl_dataFunc := None\<rparr>"

definition TransLinkConfTimeout :: "TransLink \<Rightarrow> u32 \<Rightarrow> u32 \<Rightarrow> TransLink" where
  "TransLinkConfTimeout lk recvTmo sendTmo = lk\<lparr>tl_recvTmo := recvTmo, tl_sendTmo := sendTmo\<rparr>"

definition TransLinkConnect :: "int \<Rightarrow> TransLink \<Rightarrow> ret \<times> TransLink" where
  "TransLinkConnect fd lk =
    (let (r, sk) = TransSocketConnect fd (tl_socket lk) in (r, lk\<lparr>tl_socket := sk\<rparr>))"

definition TransLinkGetFd :: "TransLink \<Rightarrow> int" where
  "TransLinkGetFd lk = TransSocketGetFd (tl_socket lk)"

definition TransLinkClose :: "TransLink \<Rightarrow> TransLink \<times> link_out list" where
  "TransLinkClose lk =
    (let (sk, os) = TransSocketClose (tl_socket lk) in (lk\<lparr>tl_socket := sk\<rparr>, os))"

definition TransLinkRecvErrorEvent :: "TransLink \<Rightarrow> link_out list" where
  "TransLinkRecvErrorEvent lk = (case tl_errFunc lk of None \<Rightarrow> [] | Some f \<Rightarrow> [Link_error f])"

definition TransLinkSendData ::
    "(bytes \<Rightarrow> SocketAddr option \<Rightarrow> ret) \<Rightarrow> TransLink \<Rightarrow> bytes \<Rightarrow> SocketAddr option \<Rightarrow> ret \<times> link_out list" where
  "TransLinkSendData snd_fn lk data addr =
    (if \<not> data \<noteq> [] then (IOTC_ERR_PARAM_INVALID, [])
     else
       (let (r, os) = TransSocketSend snd_fn (tl_socket lk) (tl_sendTmo lk) data addr in
        if r \<noteq> IOTC_OK then (r, os @ TransLinkRecvErrorEvent lk) else (r, os)))"

text \<open>
  A positive code is the number of bytes the buffer lacks: it is enlarged and the rest is read.  The
  buffer is the one of the context, so the result is the context.
\<close>

definition TransLinkReadDataFromSocket ::
    "bool \<Rightarrow> recv_fn \<Rightarrow> recv_fn \<Rightarrow> TransLink \<Rightarrow> SocketAddr \<Rightarrow> ret \<times> UtilsBufferCtx \<times> SocketAddr" where
  "TransLinkReadDataFromSocket memok recv1 recv2 lk addr =
    (let (r, buf, addr) = TransSocketRecv recv1 (tl_socket lk) (bx_buffer (tl_buffer lk)) addr;
         ctx = (tl_buffer lk)\<lparr>bx_buffer := buf\<rparr>
     in if r = 0 then (IOTC_OK, ctx, addr)
        else if r < 0 then (r, ctx, addr)
        else if ub_len buf > ub_size buf \<or> r > int (unat UINT32_MAX - ub_len buf) \<or> r < int (ub_size buf - ub_len buf) then
          (IOTC_CORE_WIFI_TRANS_ERR_SOCKET_RECV_INVALID, ctx, addr)
        else
          (let (e, ctx) = UtilsExpendBuffer memok ctx (nat r + ub_len buf) in
           if e \<noteq> IOTC_OK then (e, ctx, addr)
           else
             (let (r, buf, addr) = TransSocketRecv recv2 (tl_socket lk) (bx_buffer ctx) addr
              in (r, ctx\<lparr>bx_buffer := buf\<rparr>, addr))))"

text \<open>The data callback gets the buffer, the address and its own state.\<close>

type_synonym 's data_fn = "nat \<Rightarrow> UtilsBuffer \<Rightarrow> SocketAddr \<Rightarrow> 's \<Rightarrow> (ret \<times> UtilsBuffer \<times> 's) option"

definition TransLinkRecvReadEvent ::
    "alloc \<Rightarrow> recv_fn \<Rightarrow> recv_fn \<Rightarrow> 's data_fn \<Rightarrow> TransLink \<Rightarrow> 's \<Rightarrow> (TransLink \<times> link_out list \<times> 's) option" where
  "TransLinkRecvReadEvent mem recv1 recv2 data lk s =
    (let (got, ctx) = UtilsGetBuffer (mem 0) (tl_buffer lk); lk = lk\<lparr>tl_buffer := ctx\<rparr> in
     if \<not> got then Some (lk, [], s)
     else
       (let (r, ctx, addr) = TransLinkReadDataFromSocket (mem 1) recv1 recv2 lk \<lparr>sa_port = 0, sa_addr = 0\<rparr>;
            lk = lk\<lparr>tl_buffer := ctx\<rparr>
        in if r \<noteq> IOTC_OK then Some (lk, TransLinkRecvErrorEvent lk, s)
           else
             (case tl_dataFunc lk of
                None \<Rightarrow> Some (lk\<lparr>tl_buffer := UtilsReleaseBuffer (mem 2) ctx\<rparr>, [], s)
              | Some f \<Rightarrow>
                  (case data f (bx_buffer ctx) addr s of
                     None \<Rightarrow> None
                   | Some (r, buf, s) \<Rightarrow>
                       Some (lk\<lparr>tl_buffer := UtilsReleaseBuffer (mem 2) (ctx\<lparr>bx_buffer := buf\<rparr>)\<rparr>,
                             if r \<noteq> IOTC_OK then TransLinkRecvErrorEvent lk else [], s)))))"

definition TransLinkFree :: "TransLink \<Rightarrow> link_out list" where
  "TransLinkFree lk = snd (TransLinkClose lk)"

section \<open>Sessions\<close>

datatype SessCode = SESS_CODE_OK | SESS_CODE_ERR | SESS_CODE_CONTINUE

record MsgCor =
  mc_handler :: "nat option"
  mc_nodeData :: nat

datatype CorType = COR_TYPE_RECV_TAIL | COR_TYPE_RECV_HEAD | COR_TYPE_SEND_TAIL | COR_TYPE_SEND_HEAD

abbreviation (input) TRANS_SESS_MSG_MAX_SIZE :: nat where "TRANS_SESS_MSG_MAX_SIZE \<equiv> 1024"

text \<open>\<open>tr_msg\<close> tells whether the block for the decoded message is there.\<close>

record TransSess =
  tr_link :: TransLink
  tr_msgSize :: nat
  tr_msg :: bool
  tr_recvCor :: "MsgCor list"
  tr_sendCor :: "MsgCor list"

definition MsgCorNew :: "bool \<Rightarrow> nat \<Rightarrow> nat \<Rightarrow> MsgCor option" where
  "MsgCorNew memok handler nodeData =
    (if \<not> memok then None else Some \<lparr>mc_handler = Some handler, mc_nodeData = nodeData\<rparr>)"

text \<open>The number of \<open>SessionOnLinkRecvData\<close>, the data callback of every session.\<close>

abbreviation (input) SessionOnLinkRecvData_fn :: nat where "SessionOnLinkRecvData_fn \<equiv> 1"

definition TransSessFree :: "TransSess \<Rightarrow> TransLink" where
  "TransSessFree sess = TransLinkUnregDataCallback (tr_link sess)"

text \<open>The session, or the link that is left when none is created.\<close>

definition TransSessNew :: "alloc \<Rightarrow> TransLink \<Rightarrow> nat \<Rightarrow> TransLink + TransSess" where
  "TransSessNew mem lk msgSize =
    (if \<not> (msgSize \<noteq> 0 \<and> msgSize \<le> TRANS_SESS_MSG_MAX_SIZE) then Inl lk
     else if \<not> mem 0 then Inl lk
     else
       (let sess = \<lparr>tr_link = lk, tr_msgSize = msgSize, tr_msg = mem 1, tr_recvCor = [], tr_sendCor = []\<rparr> in
        if \<not> mem 1 then Inl (TransSessFree sess)
        else
          (let (r, lk) = TransLinkRegDataCallback lk (Some SessionOnLinkRecvData_fn); sess = sess\<lparr>tr_link := lk\<rparr> in
           if r \<noteq> IOTC_OK then Inl (TransSessFree sess) else Inr sess)))"

definition AddCorListHandler :: "bool \<Rightarrow> TransSess \<Rightarrow> nat \<Rightarrow> nat \<Rightarrow> CorType \<Rightarrow> TransSess" where
  "AddCorListHandler memok sess handler nodeData ty =
    (case MsgCorNew memok handler nodeData of
       None \<Rightarrow> sess
     | Some cor \<Rightarrow>
         (case ty of
            COR_TYPE_RECV_TAIL \<Rightarrow> sess\<lparr>tr_recvCor := tr_recvCor sess @ [cor]\<rparr>
          | COR_TYPE_RECV_HEAD \<Rightarrow> sess\<lparr>tr_recvCor := cor # tr_recvCor sess\<rparr>
          | COR_TYPE_SEND_TAIL \<Rightarrow> sess\<lparr>tr_sendCor := tr_sendCor sess @ [cor]\<rparr>
          | COR_TYPE_SEND_HEAD \<Rightarrow> sess\<lparr>tr_sendCor := cor # tr_sendCor sess\<rparr>))"

definition TransSessAddRecvTailHandler :: "bool \<Rightarrow> TransSess \<Rightarrow> nat option \<Rightarrow> nat \<Rightarrow> TransSess" where
  "TransSessAddRecvTailHandler memok sess nxt nodeData =
    (case nxt of None \<Rightarrow> sess | Some h \<Rightarrow> AddCorListHandler memok sess h nodeData COR_TYPE_RECV_TAIL)"

definition TransSessAddSendTailHandler :: "bool \<Rightarrow> TransSess \<Rightarrow> nat option \<Rightarrow> nat \<Rightarrow> TransSess" where
  "TransSessAddSendTailHandler memok sess nxt nodeData =
    (case nxt of None \<Rightarrow> sess | Some h \<Rightarrow> AddCorListHandler memok sess h nodeData COR_TYPE_SEND_TAIL)"

definition TransSessAddRecvHeadHandler :: "bool \<Rightarrow> TransSess \<Rightarrow> nat option \<Rightarrow> nat \<Rightarrow> TransSess" where
  "TransSessAddRecvHeadHandler memok sess before nodeData =
    (case before of None \<Rightarrow> sess | Some h \<Rightarrow> AddCorListHandler memok sess h nodeData COR_TYPE_RECV_HEAD)"

definition TransSessAddSendHeadHandler :: "bool \<Rightarrow> TransSess \<Rightarrow> nat option \<Rightarrow> nat \<Rightarrow> TransSess" where
  "TransSessAddSendHeadHandler memok sess before nodeData =
    (case before of None \<Rightarrow> sess | Some h \<Rightarrow> AddCorListHandler memok sess h nodeData COR_TYPE_SEND_HEAD)"

definition TransSessRemoveHandler :: "TransSess \<Rightarrow> nat \<Rightarrow> TransSess" where
  "TransSessRemoveHandler sess handler =
    sess\<lparr>tr_recvCor := filter (\<lambda>n. mc_handler n \<noteq> Some handler) (tr_recvCor sess),
      tr_sendCor := filter (\<lambda>n. mc_handler n \<noteq> Some handler) (tr_sendCor sess)\<rparr>"

text \<open>The function behind a handler, with its node data, on the message, the buffer and its state.\<close>

type_synonym 's cor_fn = "nat \<Rightarrow> nat \<Rightarrow> 's \<Rightarrow> (SessCode \<times> 's) option"

fun cor_loop :: "'s cor_fn \<Rightarrow> MsgCor list \<Rightarrow> SessCode \<Rightarrow> 's \<Rightarrow> (SessCode \<times> 's) option" where
  "cor_loop call [] code s = Some (code, s)"
| "cor_loop call (n # ns) code s =
    (case mc_handler n of
       None \<Rightarrow> Some (SESS_CODE_ERR, s)
     | Some h \<Rightarrow>
         (case call h (mc_nodeData n) s of
            None \<Rightarrow> None
          | Some (code, s) \<Rightarrow> if code \<noteq> SESS_CODE_CONTINUE then Some (code, s) else cor_loop call ns code s))"

definition TransSessMsgCorNodeProcess :: "'s cor_fn \<Rightarrow> MsgCor list \<Rightarrow> 's \<Rightarrow> (bool \<times> 's) option" where
  "TransSessMsgCorNodeProcess call corList s =
    (case cor_loop call corList SESS_CODE_OK s of None \<Rightarrow> None | Some (code, s) \<Rightarrow> Some (code \<noteq> SESS_CODE_ERR, s))"

definition TransSessMsgSend ::
    "('m \<times> UtilsBuffer) cor_fn \<Rightarrow> (bytes \<Rightarrow> SocketAddr option \<Rightarrow> ret) \<Rightarrow> TransSess \<Rightarrow> 'm \<Rightarrow> UtilsBuffer \<Rightarrow>
      SocketAddr option \<Rightarrow> (ret \<times> 'm \<times> UtilsBuffer \<times> link_out list) option" where
  "TransSessMsgSend call snd_fn sess msg buf addr =
    (if \<not> (ub_buffer buf \<noteq> None \<and> ub_len buf \<noteq> 0 \<and> ub_size buf \<ge> ub_len buf \<and> ub_size buf \<noteq> 0) then
       Some (IOTC_ERR_PARAM_INVALID, msg, buf, [])
     else
       (case TransSessMsgCorNodeProcess call (tr_sendCor sess) (msg, buf) of
          None \<Rightarrow> None
        | Some (ok, msg, buf) \<Rightarrow>
            if ok then
              (let (r, os) = (case ub_buffer buf of
                    None \<Rightarrow> (IOTC_ERR_PARAM_INVALID, [])
                  | Some b \<Rightarrow> TransLinkSendData snd_fn (tr_link sess) (take (ub_len buf) b) addr)
               in Some (r, msg, buf, os))
            else Some (IOTC_CORE_WIFI_TRANS_ERR_SESS_SEND_COR, msg, buf, [])))"

definition TransSessSendRaw ::
    "(bytes \<Rightarrow> SocketAddr option \<Rightarrow> ret) \<Rightarrow> TransSess \<Rightarrow> bytes \<Rightarrow> SocketAddr option \<Rightarrow> ret \<times> link_out list" where
  "TransSessSendRaw snd_fn sess data addr =
    (if \<not> data \<noteq> [] then (IOTC_ERR_PARAM_INVALID, []) else TransLinkSendData snd_fn (tr_link sess) data addr)"

text \<open>The message block is cleared first: \<open>zero\<close> is the message of zeros.\<close>

definition TransSessMsgRecv ::
    "('m \<times> UtilsBuffer \<times> 's) cor_fn \<Rightarrow> 'm \<Rightarrow> TransSess \<Rightarrow> UtilsBuffer \<Rightarrow> 's \<Rightarrow> (ret \<times> UtilsBuffer \<times> 's) option" where
  "TransSessMsgRecv call zero sess buf s =
    (if \<not> (ub_buffer buf \<noteq> None \<and> ub_size buf \<noteq> 0 \<and> ub_len buf < ub_size buf) then Some (IOTC_ERR_PARAM_INVALID, buf, s)
     else if \<not> tr_msg sess \<or> tr_msgSize sess = 0 then Some (IOTC_ERR_PARAM_INVALID, buf, s)
     else
       (case TransSessMsgCorNodeProcess call (tr_recvCor sess) (zero, buf, s) of
          None \<Rightarrow> None
        | Some (ok, msg, buf, s) \<Rightarrow>
            Some (if ok then IOTC_OK else IOTC_CORE_WIFI_TRANS_ERR_SESS_SEND_COR, buf, s)))"

text \<open>The data callback of a session: \<open>call\<close> are the functions behind its handlers, which get the address.\<close>

definition SessionOnLinkRecvData ::
    "(SocketAddr \<Rightarrow> ('m \<times> UtilsBuffer \<times> 's) cor_fn) \<Rightarrow> 'm \<Rightarrow> TransSess \<Rightarrow> 's data_fn" where
  "SessionOnLinkRecvData call zero sess f buf addr s = TransSessMsgRecv (call addr) zero sess buf s"

section \<open>The receive buffer\<close>

text \<open>What a receive function may do with the buffer, and a data callback: the block keeps its size.\<close>

definition keeps_block :: "UtilsBuffer \<Rightarrow> UtilsBuffer \<Rightarrow> bool" where
  "keeps_block buf buf' \<longleftrightarrow> ub_size buf' = ub_size buf \<and> map_option length (ub_buffer buf') = map_option length (ub_buffer buf)"

lemma UtilsReleaseBuffer_sem [simp]: "bx_sem (UtilsReleaseBuffer m ctx) = bx_sem ctx + 1"
  by (auto simp: UtilsReleaseBuffer_def Let_def)

lemma UtilsExpendBuffer_sem [simp]: "bx_sem (snd (UtilsExpendBuffer m ctx n)) = bx_sem ctx"
  by (auto simp: UtilsExpendBuffer_def BufferRealloc_def Let_def split: if_splits option.splits)

lemma read_sem:
  assumes "TransLinkReadDataFromSocket m recv1 recv2 lk a = (r, ctx, addr)"
  shows "bx_sem ctx = bx_sem (tl_buffer lk)"
  using assms
  by (auto simp: TransLinkReadDataFromSocket_def Let_def split_beta split: if_splits)

text \<open>An event that gets the buffer and reads without an error gives the buffer back.\<close>

theorem read_event_releases:
  assumes "UtilsGetBuffer (mem 0) (tl_buffer lk) = (True, ctx0)"
    "TransLinkReadDataFromSocket (mem 1) recv1 recv2 (lk\<lparr>tl_buffer := ctx0\<rparr>) \<lparr>sa_port = 0, sa_addr = 0\<rparr> = (IOTC_OK, ctx1, addr)"
    "TransLinkRecvReadEvent mem recv1 recv2 data lk s = Some (lk', os, s')"
  shows "bx_sem (tl_buffer lk') = bx_sem (tl_buffer lk)"
proof -
  have "bx_sem ctx0 + 1 = bx_sem (tl_buffer lk)"
    using assms(1) by (auto simp: UtilsGetBuffer_def Let_def split_beta split: if_splits)
  then show ?thesis
    using assms(2,3) read_sem [OF assms(2)]
    by (auto simp: TransLinkRecvReadEvent_def assms(1) Let_def split: option.splits)
qed

text \<open>
  An event whose read fails keeps the buffer: the error callback runs, and the next event finds no
  buffer and reads nothing, whatever has arrived.
\<close>

theorem read_error_keeps_buffer:
  assumes "UtilsGetBuffer (mem 0) (tl_buffer lk) = (True, ctx0)" "bx_sem (tl_buffer lk) = 1"
    "TransLinkReadDataFromSocket (mem 1) recv1 recv2 (lk\<lparr>tl_buffer := ctx0\<rparr>) \<lparr>sa_port = 0, sa_addr = 0\<rparr> = (r, ctx1, addr)"
    "r \<noteq> IOTC_OK"
  shows "\<exists>lk'. TransLinkRecvReadEvent mem recv1 recv2 data lk s = Some (lk', TransLinkRecvErrorEvent lk, s) \<and>
    bx_sem (tl_buffer lk') = 0 \<and>
    (\<forall>mem' recv1' recv2' data' s'. \<exists>lk''. TransLinkRecvReadEvent mem' recv1' recv2' data' lk' s' = Some (lk'', [], s') \<and>
       bx_sem (tl_buffer lk'') = 1)"
proof -
  have "bx_sem ctx0 = 0"
    using assms(1,2) by (auto simp: UtilsGetBuffer_def Let_def split_beta split: if_splits)
  then have s1: "bx_sem ctx1 = 0" using read_sem [OF assms(3)] by simp
  then show ?thesis
    using assms by (simp add: TransLinkRecvReadEvent_def TransLinkRecvErrorEvent_def UtilsGetBuffer_def)
qed

text \<open>A packet that fits the buffer is handed to the data callback as it came.\<close>

definition wire_recv :: "bytes \<Rightarrow> SocketAddr \<Rightarrow> recv_fn" where
  "wire_recv w addr buf = (0, buf\<lparr>ub_buffer := map_option (\<lambda>b. overwrite b 0 w) (ub_buffer buf), ub_len := length w\<rparr>, addr)"

definition can_read :: "TransLink \<Rightarrow> bool" where
  "can_read lk \<longleftrightarrow> buffer_inv (tl_buffer lk) \<and> bx_sem (tl_buffer lk) = 1 \<and> bx_allocSize (tl_buffer lk) \<noteq> 0 \<and>
    tk_fd (tl_socket lk) \<ge> 0 \<and> (\<exists>i. tk_socketIf (tl_socket lk) = Some i \<and> if_socketRecv i)"

lemma read_event_hands_over:
  assumes "can_read lk" "tl_dataFunc lk = Some f" "length w \<le> bx_allocSize (tl_buffer lk)" "mem 0"
  obtains buf where "ub_buffer buf = Some (w @ replicate (ub_size buf - length w) 0)" "ub_len buf = length w"
    "bx_allocSize (tl_buffer lk) \<le> ub_size buf" "length w \<le> ub_size buf"
    "\<And>s r buf' s'. data f buf addr s = Some (r, buf', s') \<Longrightarrow>
       \<exists>lk'. TransLinkRecvReadEvent mem (wire_recv w addr) recv2 data lk s =
         Some (lk', if r \<noteq> IOTC_OK then TransLinkRecvErrorEvent lk else [], s') \<and> bx_sem (tl_buffer lk') = 1"
proof -
  have c: "buffer_inv (tl_buffer lk)" "bx_sem (tl_buffer lk) \<noteq> 0" using assms(1) by (simp_all add: can_read_def)
  obtain c1 where c1: "UtilsGetBuffer True (tl_buffer lk) = (True, c1)" "bx_sem c1 = bx_sem (tl_buffer lk) - 1"
    using c(2) by (rule UtilsGetBuffer_free)
  note z = UtilsGetBuffer_zeroed [OF c(1) c1(1)]
  define buf where "buf = (bx_buffer c1)\<lparr>ub_buffer := Some (overwrite (replicate (ub_size (bx_buffer c1)) 0) 0 w), ub_len := length w\<rparr>"
  have sz: "ub_size (bx_buffer c1) \<noteq> 0" "length w \<le> ub_size (bx_buffer c1)" using z assms(1,3) by (auto simp: can_read_def)
  have rd: "TransLinkReadDataFromSocket m (wire_recv w addr) recv2 (lk\<lparr>tl_buffer := c1\<rparr>) a = (IOTC_OK, c1\<lparr>bx_buffer := buf\<rparr>, addr)" for m a
    using assms(1) z sz
    by (auto simp: TransLinkReadDataFromSocket_def TransSocketRecv_def wire_recv_def can_read_def buf_def Let_def)
  show thesis
  proof (rule that [of buf])
    show "ub_buffer buf = Some (w @ replicate (ub_size buf - length w) 0)" using sz(2) by (simp add: buf_def overwrite_def)
    show "ub_len buf = length w" "bx_allocSize (tl_buffer lk) \<le> ub_size buf" "length w \<le> ub_size buf"
      using z sz(2) by (simp_all add: buf_def)
  next
    fix s r buf' s'
    assume "data f buf addr s = Some (r, buf', s')"
    then show "\<exists>lk'. TransLinkRecvReadEvent mem (wire_recv w addr) recv2 data lk s =
        Some (lk', if r \<noteq> IOTC_OK then TransLinkRecvErrorEvent lk else [], s') \<and> bx_sem (tl_buffer lk') = 1"
      using c1 rd assms(1,2,4)
      by (simp add: TransLinkRecvReadEvent_def TransLinkRecvErrorEvent_def can_read_def)
  qed
qed

end
