(* ===== verification/Coap_Endpoint.thy ===== *)
theory Coap_Endpoint
  imports Coap_Uri Trans_Link
begin

text \<open>
  The CoAP endpoint (\<open>coap_endpoint.c\<close>, \<open>coap_endpoint_client.c\<close>, \<open>coap_endpoint_server.c\<close>,
  \<open>coap_endpoint_retrans.c\<close>, \<open>coap_endpoint_event_source.c\<close>): requests that wait for their answer, resources
  that answer requests, messages that are sent again, and the event source that drives the waiting.
  The endpoint's mutex is not recursive and a part of the state: a lock fails while it is held.  What a
  call depends on (the clock, allocations, random bytes, the codec, the session's handlers, the socket
  and the functions behind the callback pointers) is the record \<open>coap_env\<close>.  Calls of callbacks and
  of the socket are the output.  A call that faults or does not return has the result \<^term>\<open>None\<close>.
\<close>

section \<open>Data\<close>

abbreviation (input) COAP_CLIENT_DEFAULT_RESP_TIMEOUT :: u32 where "COAP_CLIENT_DEFAULT_RESP_TIMEOUT \<equiv> 30000"
abbreviation (input) COAP_ENDPOINT_CLIENT_REQ_MAX_CNT :: u32 where "COAP_ENDPOINT_CLIENT_REQ_MAX_CNT \<equiv> 255"
abbreviation (input) COAP_CODE_CLASS_REQ :: u8 where "COAP_CODE_CLASS_REQ \<equiv> 0"
abbreviation (input) COAP_MSG_TYPE_CON :: u8 where "COAP_MSG_TYPE_CON \<equiv> 0"
abbreviation (input) COAP_MSG_TYPE_ACK :: u8 where "COAP_MSG_TYPE_ACK \<equiv> 2"
abbreviation (input) COAP_RESPONSE_CODE_CONTENT :: u8 where "COAP_RESPONSE_CODE_CONTENT \<equiv> 69"

definition COAP_CODE_CLASS :: "u8 \<Rightarrow> u8" where
  "COAP_CODE_CLASS code = drop_bit 5 (code AND 0xE0)"

record CoapReqNode =
  rq_time :: u32
  rq_msgId :: u16
  rq_token :: bytes
  rq_respHandler :: "nat option"

record CoapEndpointClient =
  cl_tkl :: u8
  cl_msgId :: u16
  cl_timeout :: u32
  cl_reqCnt :: u32
  cl_reqList :: "CoapReqNode list"
  cl_defaultHandler :: "nat option"

record CoapResource =
  rc_method :: u8
  rc_uri :: bytes
  rc_checker :: "nat option"
  rc_handler :: "nat option"

text \<open>A resource array is its address and its elements; \<open>num\<close> is the number of elements.\<close>

record CoapResourceNode =
  rn_addr :: nat
  rn_resource :: "CoapResource list"

record CoapEndpointServer =
  es_globalChecker :: "nat option"
  es_defaultHandler :: "nat option"
  es_resList :: "CoapResourceNode list"

record CoapRetransParam =
  rp_msgId :: u16
  rp_tkl :: u8
  rp_token :: bytes
  rp_cnt :: u8
  rp_addr :: SocketAddr

record CoapRetransNode =
  rt_param :: CoapRetransParam
  rt_raw :: bytes
  rt_remainTime :: u32
  rt_lastTime :: u32

record CoapEndpointRetrans =
  re_retransCheck :: "nat option"
  re_maxBufSize :: u32
  re_curBufSize :: u32
  re_retransList :: "CoapRetransNode list"

record CoapEndpoint =
  ep_locked :: bool
  ep_sess :: TransSess
  ep_sendBuf :: UtilsBufferCtx
  ep_retrans :: CoapEndpointRetrans
  ep_client :: CoapEndpointClient
  ep_server :: CoapEndpointServer

record CoapClientReqParam =
  qp_type :: u8
  qp_code :: u8
  qp_options :: "CoapOption list"
  qp_payload :: "CoapData option"
  qp_payloadBuilder :: "(nat \<Rightarrow> ret \<times> bytes) option"
  qp_respHandler :: "nat option"
  qp_preSize :: nat

record CoapServerRespParam =
  sq_req :: CoapPacket
  sq_type :: u8
  sq_code :: u8
  sq_options :: "CoapOption list"
  sq_payload :: "CoapData option"
  sq_payloadBuilder :: "(nat \<Rightarrow> ret \<times> bytes) option"
  sq_preSize :: nat

text \<open>The output: what the link does, calls of response handlers (with the timeout flag), calls of request handlers.\<close>

datatype coap_out =
    Net link_out
  | Resp_call nat "CoapPacket option" "SocketAddr option" bool
  | Req_call nat CoapPacket "SocketAddr option"

text \<open>
  \<open>ee_now\<close> is the clock when a call starts, \<open>ee_ins\<close> when it appends a request.  The allocations
  are: 0 the send buffer, 1 its enlargement, 2 its release, 3 a message to send again, 4 its bytes,
  5 a waiting request.  A callback may call the endpoint again, so it maps the endpoint to a new one
  and to the output of its calls.
\<close>

record coap_env =
  ee_now :: u32
  ee_ins :: u32
  ee_mem :: alloc
  ee_token :: bytes
  ee_encode :: "CoapBuildPacket \<Rightarrow> CoapPacket \<Rightarrow> CoapBuffer \<Rightarrow> (ret \<times> CoapPacket \<times> CoapBuffer) option"
  ee_decode :: "CoapPacket \<Rightarrow> bytes option \<Rightarrow> ret + CoapPacket"
  ee_cor :: "(CoapPacket \<times> UtilsBuffer) cor_fn"
  ee_send :: "bytes \<Rightarrow> SocketAddr option \<Rightarrow> ret"
  ee_check :: "nat \<Rightarrow> CoapRetransParam \<Rightarrow> bytes \<Rightarrow> u32 option"
  ee_checker :: "nat \<Rightarrow> CoapPacket \<Rightarrow> SocketAddr option \<Rightarrow> bool"
  ee_resp :: "nat \<Rightarrow> CoapPacket option \<Rightarrow> SocketAddr option \<Rightarrow> bool \<Rightarrow> CoapEndpoint \<Rightarrow> CoapEndpoint \<times> coap_out list"
  ee_req :: "nat \<Rightarrow> CoapPacket \<Rightarrow> SocketAddr option \<Rightarrow> CoapEndpoint \<Rightarrow> CoapEndpoint \<times> coap_out list"

section \<open>Sending again\<close>

abbreviation (input) COAP_DEFAULT_COAP_RETRANS_CNT :: u8 where "COAP_DEFAULT_COAP_RETRANS_CNT \<equiv> 5"
abbreviation (input) COAP_DEFAULT_RETRANS_INTERVAL :: u32 where "COAP_DEFAULT_RETRANS_INTERVAL \<equiv> 1000"
abbreviation (input) SOFTAP_MAX_RETRANS_TIMES :: u8 where "SOFTAP_MAX_RETRANS_TIMES \<equiv> 4"
abbreviation (input) SOFTAP_RETRANS_LAST_INTERVAL :: u32 where "SOFTAP_RETRANS_LAST_INTERVAL \<equiv> 100"
abbreviation (input) SOFTAP_RETRANS_NORMAL_INTERVAL :: u32 where "SOFTAP_RETRANS_NORMAL_INTERVAL \<equiv> 1000"

definition CoapEndpointRetransEnable :: "CoapEndpoint \<Rightarrow> nat option \<Rightarrow> u32 \<Rightarrow> ret \<times> CoapEndpoint" where
  "CoapEndpointRetransEnable ep func maxBufSize =
    (if \<not> (func \<noteq> None \<and> maxBufSize \<noteq> 0) then (IOTC_ERR_PARAM_INVALID, ep)
     else if ep_locked ep then (IOTC_ERR_TIMEOUT, ep)
     else (IOTC_OK, ep\<lparr>ep_retrans := (ep_retrans ep)\<lparr>re_retransCheck := func, re_maxBufSize := maxBufSize\<rparr>\<rparr>))"

definition CoapEndpointRetransInit :: "CoapEndpointRetrans \<Rightarrow> CoapEndpointRetrans" where
  "CoapEndpointRetransInit retrans = retrans\<lparr>re_retransList := []\<rparr>"

text \<open>Going through a list whose head was never initialised reads through a null pointer.\<close>

definition CoapEndpointRetransDeinit :: "bool \<Rightarrow> CoapEndpointRetrans \<Rightarrow> CoapEndpointRetrans option" where
  "CoapEndpointRetransDeinit inited retrans = (if \<not> inited then None else Some (retrans\<lparr>re_retransList := []\<rparr>))"

definition RetransNodeNew :: "alloc \<Rightarrow> CoapPacket \<Rightarrow> bytes \<Rightarrow> SocketAddr option \<Rightarrow> CoapRetransNode option" where
  "RetransNodeNew mem pkt raw addr =
    (if \<not> mem 3 then None
     else
       (case addr of
          None \<Rightarrow> None
        | Some a \<Rightarrow>
            (let tkl = ch_tkl (ck_header pkt) in
             if unat tkl > COAP_TOKEN_MAX_LEN then None
             else if \<not> mem 4 then None
             else Some \<lparr>rt_param = \<lparr>rp_msgId = ch_msgId (ck_header pkt), rp_tkl = tkl,
                          rp_token = overwrite (replicate COAP_TOKEN_MAX_LEN 0) 0 (take (unat tkl) (ck_token pkt)),
                          rp_cnt = 0, rp_addr = a\<rparr>,
                        rt_raw = raw, rt_remainTime = 0, rt_lastTime = 0\<rparr>)))"

definition CoapRetransAddPacket :: "coap_env \<Rightarrow> CoapEndpoint \<Rightarrow> CoapPacket \<Rightarrow> bytes \<Rightarrow> SocketAddr option \<Rightarrow> ret \<times> CoapEndpoint" where
  "CoapRetransAddPacket env ep pkt raw addr =
    (if \<not> raw \<noteq> [] then (IOTC_ERR_PARAM_INVALID, ep)
     else
       (case re_retransCheck (ep_retrans ep) of
          None \<Rightarrow> (IOTC_OK, ep)
        | Some f \<Rightarrow>
            if ep_locked ep then (IOTC_ERR_TIMEOUT, ep)
            else
              (let retrans = ep_retrans ep in
               if of_nat (length raw) > re_maxBufSize retrans - re_curBufSize retrans then
                 (IOTC_CORE_WIFI_TRANS_ERR_COAP_RETRANS_BUFFER_OVER_SIZE, ep)
               else
                 (case RetransNodeNew (ee_mem env) pkt raw addr of
                    None \<Rightarrow> (IOTC_CORE_WIFI_TRANS_ERR_COAP_RETRANS_NODE_NEW, ep)
                  | Some newNode \<Rightarrow>
                      (case ee_check env f (rt_param newNode) raw of
                         None \<Rightarrow> (IOTC_CORE_WIFI_TRANS_ERR_COAP_RETRANS_CHECK, ep)
                       | Some nxt \<Rightarrow>
                           (IOTC_OK, ep\<lparr>ep_retrans := retrans\<lparr>re_curBufSize := re_curBufSize retrans + of_nat (length raw),
                              re_retransList := re_retransList retrans @
                                [newNode\<lparr>rt_lastTime := ee_now env, rt_remainTime := nxt\<rparr>]\<rparr>\<rparr>))))))"

definition CoapEndpointRetransPrepare :: "CoapEndpoint \<Rightarrow> u32 \<Rightarrow> u32" where
  "CoapEndpointRetransPrepare ep timeout =
    (if re_retransList (ep_retrans ep) = [] then timeout
     else if ep_locked ep then timeout
     else foldl (\<lambda>timeout node. if timeout < rt_remainTime node then timeout else rt_remainTime node) timeout
            (re_retransList (ep_retrans ep)))"

definition retrans_elapse :: "u32 \<Rightarrow> CoapRetransNode \<Rightarrow> CoapRetransNode" where
  "retrans_elapse cur node =
    (let delta = UtilsDeltaTime cur (rt_lastTime node) in
     node\<lparr>rt_remainTime := (if delta > rt_remainTime node then 0 else rt_remainTime node - delta), rt_lastTime := cur\<rparr>)"

text \<open>A clock of zero returns the error code, which reads as true.\<close>

definition CoapEndpointRetransCheck :: "CoapEndpoint \<Rightarrow> u32 \<Rightarrow> bool \<times> CoapEndpoint" where
  "CoapEndpointRetransCheck ep cur =
    (if \<not> cur \<noteq> 0 then (True, ep)
     else
       (list_ex (\<lambda>node. UtilsDeltaTime cur (rt_lastTime node) > rt_remainTime node) (re_retransList (ep_retrans ep)),
        ep\<lparr>ep_retrans := (ep_retrans ep)\<lparr>re_retransList := map (retrans_elapse cur) (re_retransList (ep_retrans ep))\<rparr>\<rparr>))"

definition RetransNodeFreeBuffer :: "u32 \<Rightarrow> CoapRetransNode \<Rightarrow> u32" where
  "RetransNodeFreeBuffer curBufSize node =
    (let len = of_nat (length (rt_raw node)) in if curBufSize > len then curBufSize - len else 0)"

text \<open>The loop over the messages: the messages that stay, the bytes they take and the output.\<close>

fun retrans_loop ::
    "coap_env \<Rightarrow> TransSess \<Rightarrow> nat option \<Rightarrow> CoapRetransNode list \<Rightarrow> u32 \<Rightarrow> CoapRetransNode list \<times> u32 \<times> link_out list" where
  "retrans_loop env sess chk [] cur = ([], cur, [])"
| "retrans_loop env sess chk (node # nodes) cur =
    (if rt_remainTime node \<noteq> 0 then
       (let (ns, cur, os) = retrans_loop env sess chk nodes cur in (node # ns, cur, os))
     else
       (let (r, os1) = TransSessSendRaw (ee_send env) sess (rt_raw node) (Some (rp_addr (rt_param node)));
            node = node\<lparr>rt_param := (rt_param node)\<lparr>rp_cnt := rp_cnt (rt_param node) + 1\<rparr>\<rparr>
        in case (case chk of None \<Rightarrow> None | Some f \<Rightarrow> ee_check env f (rt_param node) (rt_raw node)) of
             Some nxt \<Rightarrow>
               (let (ns, cur, os) = retrans_loop env sess chk nodes cur in (node\<lparr>rt_remainTime := nxt\<rparr> # ns, cur, os1 @ os))
           | None \<Rightarrow>
               (let (ns, cur, os) = retrans_loop env sess chk nodes (RetransNodeFreeBuffer cur node) in (ns, cur, os1 @ os))))"

definition CoapEndpointRetransDispatch :: "coap_env \<Rightarrow> CoapEndpoint \<Rightarrow> CoapEndpoint \<times> coap_out list" where
  "CoapEndpointRetransDispatch env ep =
    (if re_retransList (ep_retrans ep) = [] then (ep, [])
     else if ep_locked ep then (ep, [])
     else
       (let (ns, cur, os) = retrans_loop env (ep_sess ep) (re_retransCheck (ep_retrans ep))
              (re_retransList (ep_retrans ep)) (re_curBufSize (ep_retrans ep))
        in (ep\<lparr>ep_retrans := (ep_retrans ep)\<lparr>re_retransList := ns, re_curBufSize := cur\<rparr>\<rparr>, map Net os)))"

definition retrans_match :: "CoapPacket \<Rightarrow> SocketAddr \<Rightarrow> CoapRetransNode \<Rightarrow> bool" where
  "retrans_match pkt addr node \<longleftrightarrow>
    \<not> (rp_msgId (rt_param node) \<noteq> ch_msgId (ck_header pkt) \<or> sa_addr (rp_addr (rt_param node)) \<noteq> sa_addr addr \<or>
       sa_port (rp_addr (rt_param node)) \<noteq> sa_port addr \<or> rp_tkl (rt_param node) \<noteq> ch_tkl (ck_header pkt) \<or>
       rp_token (rt_param node) \<noteq> ck_token pkt)"

definition CoapEndpointRecvPacketRetransProcess ::
    "coap_env \<Rightarrow> CoapEndpoint \<Rightarrow> CoapPacket \<Rightarrow> SocketAddr option \<Rightarrow> bool \<times> coap_out list" where
  "CoapEndpointRecvPacketRetransProcess env ep pkt addr =
    (case addr of
       None \<Rightarrow> (False, [])
     | Some a \<Rightarrow>
         (case find (retrans_match pkt a) (re_retransList (ep_retrans ep)) of
            None \<Rightarrow> (False, [])
          | Some node \<Rightarrow>
              (let (r, os) = TransSessSendRaw (ee_send env) (ep_sess ep) (rt_raw node) (Some (rp_addr (rt_param node)))
               in (True, map Net os))))"

definition CoapEndpointRetransDefaultCheckFunc :: "CoapRetransParam \<Rightarrow> bytes \<Rightarrow> u32 option" where
  "CoapEndpointRetransDefaultCheckFunc param raw =
    (if rp_cnt param \<ge> COAP_DEFAULT_COAP_RETRANS_CNT then None else Some COAP_DEFAULT_RETRANS_INTERVAL)"

text \<open>\<open>lastMsgId\<close> is the last message of the active peer with that address, if there is one.\<close>

definition SoftapCoapRetransCheckFunc :: "(SocketAddr \<Rightarrow> u16 option) \<Rightarrow> CoapRetransParam \<Rightarrow> bytes \<Rightarrow> u32 option" where
  "SoftapCoapRetransCheckFunc lastMsgId param raw =
    (if rp_cnt param \<ge> SOFTAP_MAX_RETRANS_TIMES then None
     else if lastMsgId (rp_addr param) = Some (rp_msgId param) then Some SOFTAP_RETRANS_LAST_INTERVAL
     else Some SOFTAP_RETRANS_NORMAL_INTERVAL)"

section \<open>The client\<close>

definition CoapEndpointClientInit :: "ret \<Rightarrow> u16 \<Rightarrow> CoapEndpointClient \<Rightarrow> ret \<times> CoapEndpointClient" where
  "CoapEndpointClientInit r rnd cli =
    (let cli = cli\<lparr>cl_reqList := [], cl_timeout := COAP_CLIENT_DEFAULT_RESP_TIMEOUT, cl_tkl := of_nat COAP_TOKEN_MAX_LEN\<rparr> in
     if r \<noteq> IOTC_OK then (r, cli) else (IOTC_OK, cli\<lparr>cl_msgId := rnd\<rparr>))"

definition CoapEndpointClientDeinit :: "bool \<Rightarrow> CoapEndpointClient \<Rightarrow> CoapEndpointClient option" where
  "CoapEndpointClientDeinit inited cli = (if \<not> inited then None else Some (cli\<lparr>cl_reqList := []\<rparr>))"

definition CoapClientSetTokenLen :: "CoapEndpoint \<Rightarrow> u8 \<Rightarrow> ret \<times> CoapEndpoint" where
  "CoapClientSetTokenLen ep tkl =
    (if \<not> unat tkl \<le> COAP_TOKEN_MAX_LEN then (IOTC_ERR_PARAM_INVALID, ep)
     else if ep_locked ep then (IOTC_ERR_TIMEOUT, ep)
     else (IOTC_OK, ep\<lparr>ep_client := (ep_client ep)\<lparr>cl_tkl := tkl\<rparr>\<rparr>))"

definition req_match :: "CoapEndpointClient \<Rightarrow> CoapPacket \<Rightarrow> CoapReqNode \<Rightarrow> bool" where
  "req_match cli pkt node \<longleftrightarrow> ch_msgId (ck_header pkt) = rq_msgId node \<and>
    (cl_tkl cli = 0 \<or>
     cl_tkl cli = ch_tkl (ck_header pkt) \<and>
     take (unat (ch_tkl (ck_header pkt))) (ck_token pkt) = take (unat (ch_tkl (ck_header pkt))) (rq_token node))"

definition req_less :: "u32 \<Rightarrow> u32" where
  "req_less cnt = (if cnt > 0 then cnt - 1 else 0)"

fun take_req :: "(CoapReqNode \<Rightarrow> bool) \<Rightarrow> CoapReqNode list \<Rightarrow> (CoapReqNode \<times> CoapReqNode list) option" where
  "take_req P [] = None"
| "take_req P (n # ns) = (if P n then Some (n, ns) else map_option (\<lambda>(m, ms). (m, n # ms)) (take_req P ns))"

definition GetRespHandler :: "CoapEndpoint \<Rightarrow> CoapPacket \<Rightarrow> nat option \<times> CoapEndpoint" where
  "GetRespHandler ep pkt =
    (if ep_locked ep then (None, ep)
     else
       (let cli = ep_client ep in
        case take_req (req_match cli pkt) (cl_reqList cli) of
          None \<Rightarrow> (cl_defaultHandler cli, ep)
        | Some (node, ns) \<Rightarrow>
            (rq_respHandler node, ep\<lparr>ep_client := cli\<lparr>cl_reqList := ns, cl_reqCnt := req_less (cl_reqCnt cli)\<rparr>\<rparr>)))"

definition req_expired :: "u32 \<Rightarrow> u32 \<Rightarrow> CoapReqNode \<Rightarrow> bool" where
  "req_expired cur timeout node \<longleftrightarrow> UtilsDeltaTime cur (rq_time node) > timeout"

text \<open>The loop over the requests: the handler to call, the requests that stay and their number.\<close>

fun timeout_scan :: "u32 \<Rightarrow> u32 \<Rightarrow> CoapReqNode list \<Rightarrow> nat option \<Rightarrow> u32 \<Rightarrow> nat option \<times> CoapReqNode list \<times> u32" where
  "timeout_scan cur timeout [] h cnt = (h, [], cnt)"
| "timeout_scan cur timeout (node # nodes) h cnt =
    (if req_expired cur timeout node then timeout_scan cur timeout nodes (rq_respHandler node) (req_less cnt)
     else (let (h, ns, cnt) = timeout_scan cur timeout nodes h cnt in (h, node # ns, cnt)))"

definition GetTimeoutRespHandler :: "CoapEndpoint \<Rightarrow> u32 \<Rightarrow> nat option \<times> CoapEndpoint" where
  "GetTimeoutRespHandler ep cur =
    (if ep_locked ep then (None, ep)
     else
       (let cli = ep_client ep;
            (h, ns, cnt) = timeout_scan cur (cl_timeout cli) (cl_reqList cli) None (cl_reqCnt cli)
        in (h, ep\<lparr>ep_client := cli\<lparr>cl_reqList := ns, cl_reqCnt := cnt\<rparr>\<rparr>)))"

partial_function (option) resp_timeout_loop ::
    "coap_env \<Rightarrow> u32 \<Rightarrow> CoapEndpoint \<Rightarrow> coap_out list \<Rightarrow> (CoapEndpoint \<times> coap_out list) option" where
  "resp_timeout_loop env cur ep os =
    (case fst (GetTimeoutRespHandler ep cur) of
       None \<Rightarrow> Some (snd (GetTimeoutRespHandler ep cur), os)
     | Some h \<Rightarrow>
         resp_timeout_loop env cur (fst (ee_resp env h None None True (snd (GetTimeoutRespHandler ep cur))))
           (os @ Resp_call h None None True # snd (ee_resp env h None None True (snd (GetTimeoutRespHandler ep cur)))))"

definition CoapClientRespTimeoutCheck :: "coap_env \<Rightarrow> CoapEndpoint \<Rightarrow> (CoapEndpoint \<times> coap_out list) option" where
  "CoapClientRespTimeoutCheck env ep = resp_timeout_loop env (ee_now env) ep []"

definition CoapEndpointClientRecvRespPacket ::
    "coap_env \<Rightarrow> CoapEndpoint \<Rightarrow> CoapPacket \<Rightarrow> SocketAddr option \<Rightarrow> (ret \<times> CoapEndpoint \<times> coap_out list) option" where
  "CoapEndpointClientRecvRespPacket env ep pkt addr =
    (let (handler, ep) = GetRespHandler ep pkt;
         (ep, os) = (case handler of
             None \<Rightarrow> (ep, [])
           | Some h \<Rightarrow> (let (ep, os) = ee_resp env h (Some pkt) addr False ep in (ep, Resp_call h (Some pkt) addr False # os)))
     in case CoapClientRespTimeoutCheck env ep of
          None \<Rightarrow> None
        | Some (ep, os') \<Rightarrow> Some (IOTC_OK, ep, os @ os'))"

definition CoapClientSetRespTimeout :: "CoapEndpoint \<Rightarrow> u32 \<Rightarrow> ret \<times> CoapEndpoint" where
  "CoapClientSetRespTimeout ep ms =
    (if ep_locked ep then (IOTC_ERR_TIMEOUT, ep)
     else (IOTC_OK, ep\<lparr>ep_client := (ep_client ep)\<lparr>cl_timeout := ms\<rparr>\<rparr>))"

definition GetMsgId :: "CoapEndpoint \<Rightarrow> u16 \<times> CoapEndpoint" where
  "GetMsgId ep =
    (if ep_locked ep then (0, ep)
     else (cl_msgId (ep_client ep), ep\<lparr>ep_client := (ep_client ep)\<lparr>cl_msgId := cl_msgId (ep_client ep) + 1\<rparr>\<rparr>))"

text \<open>The two error returns behind the allocation leave the mutex locked.\<close>

definition CoapClientInsertReq ::
    "coap_env \<Rightarrow> CoapEndpoint \<Rightarrow> u16 \<Rightarrow> bytes \<Rightarrow> u8 \<Rightarrow> nat option \<Rightarrow> (ret \<times> CoapEndpoint \<times> coap_out list) option" where
  "CoapClientInsertReq env ep msgId token tkl handler =
    (case CoapClientRespTimeoutCheck env ep of
       None \<Rightarrow> None
     | Some (ep, os) \<Rightarrow>
         if ep_locked ep then Some (IOTC_ERR_TIMEOUT, ep, os)
         else if cl_reqCnt (ep_client ep) \<ge> COAP_ENDPOINT_CLIENT_REQ_MAX_CNT then
           Some (IOTC_CORE_WIFI_TRANS_ERR_COAP_ENDPOINT_REQ_LIST_FULL, ep, os)
         else if \<not> ee_mem env 5 then Some (IOTC_ADAPTER_MEM_ERR_MALLOC, ep\<lparr>ep_locked := True\<rparr>, os)
         else if unat tkl > COAP_TOKEN_MAX_LEN then Some (IOTC_ERR_SECUREC_MEMCPY, ep\<lparr>ep_locked := True\<rparr>, os)
         else
           (let cli = ep_client ep;
                newNode = \<lparr>rq_time = ee_ins env, rq_msgId = msgId,
                  rq_token = overwrite (replicate COAP_TOKEN_MAX_LEN 0) 0 (take (unat tkl) token), rq_respHandler = handler\<rparr>
            in Some (IOTC_OK, ep\<lparr>ep_client := cli\<lparr>cl_reqList := cl_reqList cli @ [newNode], cl_reqCnt := cl_reqCnt cli + 1\<rparr>\<rparr>, os)))"

definition CoapClientAddDefaultRespHandler :: "CoapEndpoint \<Rightarrow> nat option \<Rightarrow> ret \<times> CoapEndpoint" where
  "CoapClientAddDefaultRespHandler ep handler =
    (if \<not> handler \<noteq> None then (IOTC_ERR_PARAM_INVALID, ep)
     else if ep_locked ep then (IOTC_ERR_TIMEOUT, ep)
     else (IOTC_OK, ep\<lparr>ep_client := (ep_client ep)\<lparr>cl_defaultHandler := handler\<rparr>\<rparr>))"

definition CoapClientReqPrepare :: "u32 \<Rightarrow> CoapEndpoint \<Rightarrow> u32 \<Rightarrow> u32" where
  "CoapClientReqPrepare now ep timeout =
    (case cl_reqList (ep_client ep) of
       [] \<Rightarrow> timeout
     | firstNode # _ \<Rightarrow>
         if ep_locked ep then timeout
         else if now > rq_time firstNode then 0 else UtilsDeltaTime now (rq_time firstNode))"

definition CoapEndpointReqCheck :: "CoapEndpoint \<Rightarrow> u32 \<Rightarrow> bool" where
  "CoapEndpointReqCheck ep cur =
    (if \<not> cur \<noteq> 0 then True
     else
       (case cl_reqList (ep_client ep) of
          [] \<Rightarrow> False
        | firstNode # _ \<Rightarrow>
            if ep_locked ep then False
            else cur > rq_time firstNode \<or> UtilsDeltaTime cur (rq_time firstNode) > cl_timeout (ep_client ep)))"

section \<open>Sending\<close>

definition sent_buffer :: "UtilsBuffer \<Rightarrow> bytes" where
  "sent_buffer buf = (case ub_buffer buf of None \<Rightarrow> [] | Some b \<Rightarrow> take (ub_len buf) b)"

text \<open>The session's part of sending: the message in the buffer goes through the handlers and the link.\<close>

definition send_buffered ::
    "coap_env \<Rightarrow> CoapEndpoint \<Rightarrow> CoapPacket \<Rightarrow> SocketAddr option \<Rightarrow> (ret \<times> CoapEndpoint \<times> CoapPacket \<times> coap_out list) option" where
  "send_buffered env ep pkt addr =
    (case TransSessMsgSend (ee_cor env) (ee_send env) (ep_sess ep) pkt (bx_buffer (ep_sendBuf ep)) addr of
       None \<Rightarrow> None
     | Some (r, pkt, buf, os) \<Rightarrow>
         (let ep = ep\<lparr>ep_sendBuf := (ep_sendBuf ep)\<lparr>bx_buffer := buf\<rparr>\<rparr> in
          if r \<noteq> IOTC_OK then Some (r, ep, pkt, map Net os)
          else Some (r, snd (CoapRetransAddPacket env ep pkt (sent_buffer buf) addr), pkt, map Net os)))"

definition release_send :: "coap_env \<Rightarrow> CoapEndpoint \<Rightarrow> CoapEndpoint" where
  "release_send env ep = ep\<lparr>ep_sendBuf := UtilsReleaseBuffer (ee_mem env 2) (ep_sendBuf ep)\<rparr>"

definition CoapEndpointSendPacket ::
    "coap_env \<Rightarrow> CoapEndpoint \<Rightarrow> CoapBuildPacket \<Rightarrow> CoapPacket \<Rightarrow> nat \<Rightarrow> SocketAddr option \<Rightarrow>
      (ret \<times> CoapEndpoint \<times> CoapPacket \<times> coap_out list) option" where
  "CoapEndpointSendPacket env ep buildPkt pkt preSize addr =
    (let (got, ctx) = UtilsGetBuffer (ee_mem env 0) (ep_sendBuf ep); ep = ep\<lparr>ep_sendBuf := ctx\<rparr> in
     if \<not> got then Some (IOTC_CORE_COMM_UTILS_ERR_BUFFER_GET, ep, pkt, [])
     else
       (let (r, ctx) = (if preSize > ub_size (bx_buffer ctx) then UtilsExpendBuffer (ee_mem env 1) ctx preSize else (IOTC_OK, ctx));
            ep = ep\<lparr>ep_sendBuf := ctx\<rparr>
        in if r \<noteq> IOTC_OK then Some (r, release_send env ep, pkt, [])
           else
             (case ee_encode env buildPkt pkt \<lparr>cb_size = ub_size (bx_buffer ctx), cb_data = []\<rparr> of
                None \<Rightarrow> None
              | Some (r, pkt, cb) \<Rightarrow>
                  (let ep = ep\<lparr>ep_sendBuf := buffer_write (cb_data cb) ctx\<rparr> in
                   if r \<noteq> IOTC_OK then Some (r, release_send env ep, pkt, [])
                   else
                     (case send_buffered env ep pkt addr of
                        None \<Rightarrow> None
                      | Some (r, ep, pkt, os) \<Rightarrow> Some (r, release_send env ep, pkt, os))))))"

abbreviation csmMsg :: bytes where "csmMsg \<equiv> [0x50, 0xe1, 0x23, 0x80, 0x01, 0x00, 0x20]"

text \<open>Seven bytes and a terminator are written without a check of the size.\<close>

definition CoapEndpointSendCSM ::
    "coap_env \<Rightarrow> CoapEndpoint \<Rightarrow> CoapPacket \<Rightarrow> SocketAddr option \<Rightarrow> (ret \<times> CoapEndpoint \<times> CoapPacket \<times> coap_out list) option" where
  "CoapEndpointSendCSM env ep pkt addr =
    (let (got, ctx) = UtilsGetBuffer (ee_mem env 0) (ep_sendBuf ep); ep = ep\<lparr>ep_sendBuf := ctx\<rparr> in
     if \<not> got then Some (IOTC_CORE_COMM_UTILS_ERR_BUFFER_GET, ep, pkt, [])
     else if ub_size (bx_buffer ctx) < 8 then None
     else
       (case send_buffered env (ep\<lparr>ep_sendBuf := buffer_write csmMsg ctx\<rparr>) pkt addr of
          None \<Rightarrow> None
        | Some (r, ep, pkt, os) \<Rightarrow> Some (r, release_send env ep, pkt, os)))"

definition CoapClientSendReq ::
    "coap_env \<Rightarrow> CoapEndpoint \<Rightarrow> CoapClientReqParam \<Rightarrow> SocketAddr option \<Rightarrow> (ret \<times> CoapEndpoint \<times> coap_out list) option" where
  "CoapClientSendReq env ep param addr =
    (let (msgId, ep) = GetMsgId ep;
         tkl = cl_tkl (ep_client ep);
         buildPkt = \<lparr>bp_header = \<lparr>ch_ver = 0, ch_type = qp_type param, ch_tkl = tkl, ch_code = qp_code param, ch_msgId = msgId\<rparr>,
           bp_token = overwrite (replicate COAP_TOKEN_MAX_LEN 0) 0 (take (unat tkl) (ee_token env)),
           bp_options = qp_options param, bp_payload = qp_payload param, bp_buildFunc = qp_payloadBuilder param\<rparr>
     in case CoapEndpointSendPacket env ep buildPkt zero_packet (qp_preSize param) addr of
          None \<Rightarrow> None
        | Some (r, ep, pkt, os) \<Rightarrow>
            if r \<noteq> IOTC_OK then Some (r, ep, os)
            else if qp_respHandler param \<noteq> None then
              (case CoapClientInsertReq env ep (ch_msgId (ck_header pkt)) (ck_token pkt) (ch_tkl (ck_header pkt)) (qp_respHandler param) of
                 None \<Rightarrow> None
               | Some (r, ep, os') \<Rightarrow> Some (IOTC_OK, ep, os @ os'))
            else Some (IOTC_OK, ep, os))"

definition CoapClientSendCSM :: "coap_env \<Rightarrow> CoapEndpoint \<Rightarrow> CoapPacket \<Rightarrow> SocketAddr option \<Rightarrow> (ret \<times> CoapEndpoint \<times> coap_out list) option" where
  "CoapClientSendCSM env ep pkt addr =
    (case CoapEndpointSendCSM env ep pkt addr of None \<Rightarrow> None | Some (r, ep, pkt, os) \<Rightarrow> Some (r, ep, os))"

section \<open>The server\<close>

definition CoapEndpointServerInit :: "CoapEndpointServer \<Rightarrow> CoapEndpointServer" where
  "CoapEndpointServerInit server = server\<lparr>es_resList := []\<rparr>"

definition CoapEndpointServerDeinit :: "bool \<Rightarrow> CoapEndpointServer \<Rightarrow> CoapEndpointServer option" where
  "CoapEndpointServerDeinit inited server = (if \<not> inited then None else Some (server\<lparr>es_resList := []\<rparr>))"

definition CoapServerAddGlobalChecker :: "CoapEndpoint \<Rightarrow> nat option \<Rightarrow> ret \<times> CoapEndpoint" where
  "CoapServerAddGlobalChecker ep checker =
    (if \<not> checker \<noteq> None then (IOTC_ERR_PARAM_INVALID, ep)
     else if ep_locked ep then (IOTC_ERR_TIMEOUT, ep)
     else (IOTC_OK, ep\<lparr>ep_server := (ep_server ep)\<lparr>es_globalChecker := checker\<rparr>\<rparr>))"

definition CoapServerAddDefaultReqHandler :: "CoapEndpoint \<Rightarrow> nat option \<Rightarrow> ret \<times> CoapEndpoint" where
  "CoapServerAddDefaultReqHandler ep handler =
    (if \<not> handler \<noteq> None then (IOTC_ERR_PARAM_INVALID, ep)
     else if ep_locked ep then (IOTC_ERR_TIMEOUT, ep)
     else (IOTC_OK, ep\<lparr>ep_server := (ep_server ep)\<lparr>es_defaultHandler := handler\<rparr>\<rparr>))"

definition CoapServerAddResource :: "bool \<Rightarrow> CoapEndpoint \<Rightarrow> nat \<Rightarrow> CoapResource list \<Rightarrow> ret \<times> CoapEndpoint" where
  "CoapServerAddResource memok ep addr res =
    (if \<not> res \<noteq> [] then (IOTC_ERR_PARAM_INVALID, ep)
     else if \<not> memok then (IOTC_ADAPTER_MEM_ERR_MALLOC, ep)
     else if ep_locked ep then (IOTC_ERR_TIMEOUT, ep)
     else (IOTC_OK, ep\<lparr>ep_server := (ep_server ep)\<lparr>es_resList := es_resList (ep_server ep) @ [\<lparr>rn_addr = addr, rn_resource = res\<rparr>]\<rparr>\<rparr>))"

definition CoapServerRemoveResource :: "CoapEndpoint \<Rightarrow> nat \<Rightarrow> CoapEndpoint" where
  "CoapServerRemoveResource ep addr =
    (if ep_locked ep then ep
     else ep\<lparr>ep_server := (ep_server ep)\<lparr>es_resList := filter (\<lambda>n. \<not> rn_addr n = addr) (es_resList (ep_server ep))\<rparr>\<rparr>)"

definition CoapServerSendResp ::
    "coap_env \<Rightarrow> CoapEndpoint \<Rightarrow> CoapServerRespParam \<Rightarrow> SocketAddr option \<Rightarrow> (ret \<times> CoapEndpoint \<times> coap_out list) option" where
  "CoapServerSendResp env ep param addr =
    (let h = ck_header (sq_req param);
         header = \<lparr>ch_ver = 0, ch_type = (if ch_type h = COAP_MSG_TYPE_CON then COAP_MSG_TYPE_ACK else sq_type param),
           ch_tkl = ch_tkl h, ch_code = sq_code param, ch_msgId = ch_msgId h\<rparr>
     in if unat (ch_tkl h) > COAP_TOKEN_MAX_LEN then Some (IOTC_ERR_SECUREC_MEMCPY, ep, [])
        else
          (let buildPkt = \<lparr>bp_header = header,
                 bp_token = overwrite (replicate COAP_TOKEN_MAX_LEN 0) 0 (take (unat (ch_tkl h)) (ck_token (sq_req param))),
                 bp_options = sq_options param, bp_payload = sq_payload param, bp_buildFunc = sq_payloadBuilder param\<rparr>
           in case CoapEndpointSendPacket env ep buildPkt zero_packet (sq_preSize param) addr of
                None \<Rightarrow> None
              | Some (r, ep, pkt, os) \<Rightarrow> Some (r, ep, os)))"

definition CoapReqChecker :: "coap_env \<Rightarrow> CoapPacket \<Rightarrow> SocketAddr option \<Rightarrow> nat option \<Rightarrow> nat option \<Rightarrow> bool" where
  "CoapReqChecker env pkt addr globalChecker sourceChecker =
    (let pass = (case globalChecker of None \<Rightarrow> True | Some c \<Rightarrow> ee_checker env c pkt addr) in
     if pass then (case sourceChecker of None \<Rightarrow> pass | Some c \<Rightarrow> ee_checker env c pkt addr) else pass)"

definition CoapReqHandler ::
    "coap_env \<Rightarrow> CoapEndpoint \<Rightarrow> CoapPacket \<Rightarrow> SocketAddr option \<Rightarrow> nat option \<Rightarrow> nat option \<Rightarrow> CoapEndpoint \<times> coap_out list" where
  "CoapReqHandler env ep pkt addr defaultHandler sourceHandler =
    (case (sourceHandler, defaultHandler) of
       (Some h, _) \<Rightarrow> (let (ep, os) = ee_req env h pkt addr ep in (ep, Req_call h pkt addr # os))
     | (None, Some h) \<Rightarrow> (let (ep, os) = ee_req env h pkt addr ep in (ep, Req_call h pkt addr # os))
     | (None, None) \<Rightarrow> (ep, []))"

text \<open>The search for the first resource with a URI.\<close>

fun find_resource :: "bytes \<Rightarrow> CoapResourceNode list \<Rightarrow> CoapResource option" where
  "find_resource uri [] = None"
| "find_resource uri (n # ns) =
    (case find (\<lambda>r. rc_uri r = uri) (rn_resource n) of Some r \<Rightarrow> Some r | None \<Rightarrow> find_resource uri ns)"

definition CoapEndpointServerRecvReqPacket ::
    "coap_env \<Rightarrow> CoapEndpoint \<Rightarrow> CoapPacket \<Rightarrow> SocketAddr option \<Rightarrow> ret \<times> CoapEndpoint \<times> coap_out list" where
  "CoapEndpointServerRecvReqPacket env ep pkt addr =
    (case CoapUtilsGetUri pkt (replicate (COAP_URI_MAX_LEN + 1) 0) COAP_URI_MAX_LEN of
       Inl e \<Rightarrow> (e, ep, [])
     | Inr buf \<Rightarrow>
         if ep_locked ep then (IOTC_ERR_TIMEOUT, ep, [])
         else
           (let (sourceChecker, sourceHandler) = (case find_resource (cstr buf) (es_resList (ep_server ep)) of
                  None \<Rightarrow> (None, None) | Some r \<Rightarrow> (rc_checker r, rc_handler r))
            in if CoapReqChecker env pkt addr (es_globalChecker (ep_server ep)) sourceChecker then
                 (let (ep, os) = CoapReqHandler env ep pkt addr (es_defaultHandler (ep_server ep)) sourceHandler in (IOTC_OK, ep, os))
               else (IOTC_OK, ep, [])))"

text \<open>The answer whose payload the JSON builder writes; \<open>print\<close> is that builder on the answer.\<close>

definition CoapServerBuildDefaultRespParam :: "CoapPacket \<Rightarrow> (nat \<Rightarrow> ret \<times> bytes) \<Rightarrow> CoapServerRespParam" where
  "CoapServerBuildDefaultRespParam reqPkt print =
    \<lparr>sq_req = reqPkt, sq_type = COAP_MSG_TYPE_ACK, sq_code = COAP_RESPONSE_CODE_CONTENT, sq_options = [],
     sq_payload = None, sq_payloadBuilder = Some print, sq_preSize = 0\<rparr>"

section \<open>The endpoint\<close>

definition CoapEndpointRecvPacket ::
    "coap_env \<Rightarrow> CoapEndpoint \<Rightarrow> CoapPacket \<Rightarrow> SocketAddr option \<Rightarrow> (ret \<times> CoapEndpoint \<times> coap_out list) option" where
  "CoapEndpointRecvPacket env ep pkt addr =
    (if COAP_CODE_CLASS (ch_code (ck_header pkt)) = COAP_CODE_CLASS_REQ then
       (let (done, os) = CoapEndpointRecvPacketRetransProcess env ep pkt addr in
        if done then Some (IOTC_OK, ep, os) else Some (CoapEndpointServerRecvReqPacket env ep pkt addr))
     else CoapEndpointClientRecvRespPacket env ep pkt addr)"

text \<open>The handlers of the receive chain, as numbers; the state is the endpoint and the output so far.\<close>

abbreviation (input) SessMsgProcessCoapDecode_fn :: nat where "SessMsgProcessCoapDecode_fn \<equiv> 1"
abbreviation (input) SessMsgProcessCoapEndpoint_fn :: nat where "SessMsgProcessCoapEndpoint_fn \<equiv> 2"

type_synonym recv_state = "CoapPacket \<times> UtilsBuffer \<times> CoapEndpoint \<times> coap_out list"

definition SessMsgProcessCoapDecode :: "coap_env \<Rightarrow> recv_state \<Rightarrow> SessCode \<times> recv_state" where
  "SessMsgProcessCoapDecode env st =
    (let (pkt, buf, rest) = st in
     if \<not> (ub_buffer buf \<noteq> None \<and> ub_len buf \<noteq> 0) then (SESS_CODE_ERR, st)
     else
       (case ee_decode env pkt (Some (sent_buffer buf)) of
          Inl e \<Rightarrow> (SESS_CODE_ERR, st)
        | Inr pkt \<Rightarrow> (SESS_CODE_CONTINUE, pkt, buf, rest)))"

definition SessMsgProcessCoapEndpoint :: "coap_env \<Rightarrow> SocketAddr option \<Rightarrow> recv_state \<Rightarrow> (SessCode \<times> recv_state) option" where
  "SessMsgProcessCoapEndpoint env addr st =
    (let (pkt, buf, ep, os) = st in
     if \<not> (ub_buffer buf \<noteq> None \<and> ub_len buf \<noteq> 0 \<and> ub_size buf \<ge> ub_len buf) then Some (SESS_CODE_OK, st)
     else
       (case CoapEndpointRecvPacket env ep pkt addr of
          None \<Rightarrow> None
        | Some (r, ep, os') \<Rightarrow>
            Some (if r \<noteq> IOTC_OK then SESS_CODE_ERR else SESS_CODE_CONTINUE, pkt, buf, ep, os @ os')))"

text \<open>The receive chain of an endpoint; \<open>other\<close> are the handlers that other modules have added.\<close>

definition coap_cor :: "coap_env \<Rightarrow> SocketAddr option \<Rightarrow> recv_state cor_fn \<Rightarrow> recv_state cor_fn" where
  "coap_cor env addr other h nodeData st =
    (if h = SessMsgProcessCoapDecode_fn then Some (SessMsgProcessCoapDecode env st)
     else if h = SessMsgProcessCoapEndpoint_fn then SessMsgProcessCoapEndpoint env addr st
     else other h nodeData st)"

definition CoapEndpointSessSetup :: "alloc \<Rightarrow> TransSess \<Rightarrow> TransSess" where
  "CoapEndpointSessSetup mem sess =
    TransSessAddRecvTailHandler (mem 1)
      (TransSessAddRecvHeadHandler (mem 0) sess (Some SessMsgProcessCoapDecode_fn) 0) (Some SessMsgProcessCoapEndpoint_fn) 0"

text \<open>Which of the three lists are initialised decides whether the release goes through; the result is the session.\<close>

definition CoapEndpointFree :: "bool \<Rightarrow> bool \<Rightarrow> bool \<Rightarrow> CoapEndpoint \<Rightarrow> TransSess option" where
  "CoapEndpointFree srv cli ret ep =
    (let sess = TransSessRemoveHandler (TransSessRemoveHandler (ep_sess ep) SessMsgProcessCoapDecode_fn) SessMsgProcessCoapEndpoint_fn in
     case CoapEndpointServerDeinit srv (ep_server ep) of
       None \<Rightarrow> None
     | Some _ \<Rightarrow>
        (case CoapEndpointClientDeinit cli (ep_client ep) of
           None \<Rightarrow> None
         | Some _ \<Rightarrow>
            (case CoapEndpointRetransDeinit ret (ep_retrans ep) of
               None \<Rightarrow> None
             | Some _ \<Rightarrow> Some sess)))"

definition zero_endpoint :: "TransSess \<Rightarrow> UtilsBufferCtx \<Rightarrow> CoapEndpoint" where
  "zero_endpoint sess buf =
    \<lparr>ep_locked = False, ep_sess = sess, ep_sendBuf = buf,
     ep_retrans = \<lparr>re_retransCheck = None, re_maxBufSize = 0, re_curBufSize = 0, re_retransList = []\<rparr>,
     ep_client = \<lparr>cl_tkl = 0, cl_msgId = 0, cl_timeout = 0, cl_reqCnt = 0, cl_reqList = [], cl_defaultHandler = None\<rparr>,
     ep_server = \<lparr>es_globalChecker = None, es_defaultHandler = None, es_resList = []\<rparr>\<rparr>"

text \<open>The allocations are the endpoint and its mutex; \<open>r\<close> and \<open>rnd\<close> come from the random generator.\<close>

definition CoapEndpointNew :: "alloc \<Rightarrow> ret \<Rightarrow> u16 \<Rightarrow> UtilsBufferCtx \<Rightarrow> TransSess \<Rightarrow> CoapEndpoint option option" where
  "CoapEndpointNew mem r rnd buf sess =
    (if \<not> mem 0 then Some None
     else
       (let ep = zero_endpoint sess buf in
        if \<not> mem 1 then map_option (\<lambda>_. None) (CoapEndpointFree False False False ep)
        else
          (let (r, cli) = CoapEndpointClientInit r rnd (ep_client ep); ep = ep\<lparr>ep_client := cli\<rparr> in
           if r \<noteq> IOTC_OK then map_option (\<lambda>_. None) (CoapEndpointFree False True False ep)
           else Some (Some (ep\<lparr>ep_server := CoapEndpointServerInit (ep_server ep),
                  ep_retrans := CoapEndpointRetransInit (ep_retrans ep)\<rparr>)))))"

section \<open>The event source\<close>

definition CoapEndpointSourcePrepare :: "coap_env \<Rightarrow> CoapEndpoint \<Rightarrow> bool \<times> u32" where
  "CoapEndpointSourcePrepare env ep =
    (True, CoapClientReqPrepare (ee_now env) ep (CoapEndpointRetransPrepare ep UINT32_MAX))"

definition CoapEndpointSourceCheck :: "coap_env \<Rightarrow> CoapEndpoint \<Rightarrow> bool \<times> CoapEndpoint" where
  "CoapEndpointSourceCheck env ep =
    (let (ready, ep) = CoapEndpointRetransCheck ep (ee_now env) in
     if ready then (True, ep) else (CoapEndpointReqCheck ep (ee_now env), ep))"

definition RetransSourceDispatch :: "coap_env \<Rightarrow> CoapEndpoint \<Rightarrow> (CoapEndpoint \<times> coap_out list) option" where
  "RetransSourceDispatch env ep =
    (case CoapClientRespTimeoutCheck env ep of
       None \<Rightarrow> None
     | Some (ep, os) \<Rightarrow> (let (ep, os') = CoapEndpointRetransDispatch env ep in Some (ep, os @ os')))"

section \<open>An example\<close>

text \<open>An endpoint on an open socket, with the UDP codec, the default check function and callbacks that do nothing.\<close>

definition open_sess :: TransSess where
  "open_sess =
    \<lparr>tr_link = \<lparr>tl_recvTmo = 10000, tl_sendTmo = 10000, tl_errFunc = None, tl_dataFunc = Some 1,
       tl_socket = \<lparr>tk_fd = 3, tk_socketIf = Some \<lparr>if_socketInit = True, if_socketConnect = True, if_socketSend = True,
         if_socketRecv = True, if_socketClose = True, if_socketFree = True\<rparr>\<rparr>,
       tl_buffer = the (UtilsBufferCtxNew (\<lambda>_. True) 128 128)\<rparr>,
     tr_msgSize = 512, tr_msg = True, tr_recvCor = [], tr_sendCor = []\<rparr>"

definition open_endpoint :: CoapEndpoint where
  "open_endpoint =
    (zero_endpoint (CoapEndpointSessSetup (\<lambda>_. True) open_sess) (the (UtilsBufferCtxNew (\<lambda>_. True) 64 128)))
      \<lparr>ep_retrans := \<lparr>re_retransCheck = Some 7, re_maxBufSize = 64, re_curBufSize = 0, re_retransList = []\<rparr>,
       ep_client := snd (CoapEndpointClientInit IOTC_OK 100 (ep_client (zero_endpoint open_sess (the (UtilsBufferCtxNew (\<lambda>_. True) 64 128)))))\<rparr>"

definition quiet_env :: coap_env where
  "quiet_env =
    \<lparr>ee_now = 1000, ee_ins = 1000, ee_mem = \<lambda>_. True, ee_token = [1, 2, 3, 4, 5, 6, 7, 8], ee_encode = CoapUdpEncode,
     ee_decode = CoapUdpDecode, ee_cor = \<lambda>h d s. Some (SESS_CODE_CONTINUE, s), ee_send = \<lambda>d a. IOTC_OK,
     ee_check = \<lambda>f. CoapEndpointRetransDefaultCheckFunc, ee_checker = \<lambda>c p a. True,
     ee_resp = \<lambda>h p a b ep. (ep, []), ee_req = \<lambda>h p a ep. (ep, [])\<rparr>"

end
