(* ===== verification/Coap_Retrans.thy ===== *)
theory Coap_Retrans
  imports Coap_Endpoint
begin

text \<open>
  How long a CoAP endpoint sends a message again, how much it keeps for that, and what it does with a
  request that arrives again.  What the two check functions of the program have in common is the
  locale \<open>retrans_policy\<close>.
\<close>

section \<open>The bytes that are kept\<close>

definition kept_bytes :: "CoapRetransNode list \<Rightarrow> nat" where
  "kept_bytes ns = (\<Sum>n\<leftarrow>ns. length (rt_raw n))"

lemma kept_bytes_simps [simp]:
  "kept_bytes [] = 0" "kept_bytes (n # ns) = length (rt_raw n) + kept_bytes ns" "kept_bytes (ns @ ms) = kept_bytes ns + kept_bytes ms"
  by (simp_all add: kept_bytes_def)

lemma kept_bytes_elapse [simp]: "kept_bytes (map (retrans_elapse t) ns) = kept_bytes ns"
  by (induction ns) (simp_all add: retrans_elapse_def Let_def)

text \<open>The counter is the number of bytes, and the limit holds.\<close>

definition retrans_inv :: "CoapEndpointRetrans \<Rightarrow> bool" where
  "retrans_inv re \<longleftrightarrow> unat (re_curBufSize re) = kept_bytes (re_retransList re) \<and> re_curBufSize re \<le> re_maxBufSize re \<and>
    (\<forall>n \<in> set (re_retransList re). rt_raw n \<noteq> [])"

lemma RetransNodeFreeBuffer_sub:
  assumes "length (rt_raw n) \<le> unat cur"
  shows "unat (RetransNodeFreeBuffer cur n) = unat cur - length (rt_raw n)"
proof -
  have "length (rt_raw n) < 4294967296" using assms unat_u32_lt [of cur] by simp
  then have l: "unat (of_nat (length (rt_raw n)) :: u32) = length (rt_raw n)" by (simp add: unat_of_nat)
  show ?thesis
  proof (cases "cur > of_nat (length (rt_raw n))")
    case True
    then have "unat (cur - of_nat (length (rt_raw n))) = unat cur - length (rt_raw n)" using l by (simp add: unat_sub order_less_imp_le)
    then show ?thesis using True by (simp add: RetransNodeFreeBuffer_def)
  next
    case False
    then have "unat cur \<le> length (rt_raw n)" using l by (simp add: word_less_nat_alt)
    then show ?thesis using False by (simp add: RetransNodeFreeBuffer_def)
  qed
qed

text \<open>One message in the dispatch: it stays as it is, is sent and stays, or is sent and dropped.\<close>

definition bump :: "CoapRetransNode \<Rightarrow> CoapRetransNode" where
  "bump n = n\<lparr>rt_param := (rt_param n)\<lparr>rp_cnt := rp_cnt (rt_param n) + 1\<rparr>\<rparr>"

definition verdict :: "coap_env \<Rightarrow> nat option \<Rightarrow> CoapRetransNode \<Rightarrow> CoapRetransNode option" where
  "verdict env chk n =
    (if rt_remainTime n \<noteq> 0 then Some n
     else
       (case chk of
          None \<Rightarrow> None
        | Some f \<Rightarrow> map_option (\<lambda>nxt. (bump n)\<lparr>rt_remainTime := nxt\<rparr>) (ee_check env f (rt_param (bump n)) (rt_raw n))))"

definition sends :: "coap_env \<Rightarrow> TransSess \<Rightarrow> CoapRetransNode \<Rightarrow> link_out list" where
  "sends env sess n =
    (if rt_remainTime n \<noteq> 0 then []
     else snd (TransSessSendRaw (ee_send env) sess (rt_raw n) (Some (rp_addr (rt_param n)))))"

lemma bump_raw [simp]: "rt_raw (bump n) = rt_raw n" "rt_lastTime (bump n) = rt_lastTime n"
  by (simp_all add: bump_def)

lemma retrans_loop_Cons:
  "retrans_loop env sess chk (n # ns) cur =
    (case verdict env chk n of
       Some m \<Rightarrow> (let (ms, cur', os) = retrans_loop env sess chk ns cur in (m # ms, cur', sends env sess n @ os))
     | None \<Rightarrow> (let (ms, cur', os) = retrans_loop env sess chk ns (RetransNodeFreeBuffer cur n) in (ms, cur', sends env sess n @ os)))"
  by (auto simp: verdict_def sends_def bump_def RetransNodeFreeBuffer_def Let_def split_beta split: option.split)

lemma retrans_loop_eq:
  "retrans_loop env sess chk ns cur =
    (List.map_filter (verdict env chk) ns, foldl RetransNodeFreeBuffer cur (filter (\<lambda>n. verdict env chk n = None) ns),
     concat (map (sends env sess) ns))"
  by (induction ns arbitrary: cur)
     (simp_all add: retrans_loop_Cons map_filter_simps del: retrans_loop.simps(2) split: option.split)

lemma verdict_raw: "verdict env chk n = Some m \<Longrightarrow> rt_raw m = rt_raw n"
  by (auto simp: verdict_def split: if_splits option.splits)

lemma dispatch_bytes:
  assumes "unat cur = kept_bytes ns + k"
  shows "unat (foldl RetransNodeFreeBuffer cur (filter (\<lambda>n. verdict env chk n = None) ns)) =
    kept_bytes (List.map_filter (verdict env chk) ns) + k"
  using assms
proof (induction ns arbitrary: cur k)
  case (Cons n ns)
  show ?case
  proof (cases "verdict env chk n")
    case None
    have "unat (RetransNodeFreeBuffer cur n) = kept_bytes ns + k"
      using RetransNodeFreeBuffer_sub [of n cur] Cons.prems by simp
    from Cons.IH [OF this] show ?thesis using None by (simp add: map_filter_simps)
  next
    case (Some m)
    then show ?thesis
      using Cons.IH [of cur "k + length (rt_raw n)"] Cons.prems by (simp add: map_filter_simps verdict_raw ac_simps)
  qed
qed (simp add: map_filter_simps)

lemma kept_bytes_map_filter: "kept_bytes (List.map_filter (verdict env chk) ns) \<le> kept_bytes ns"
  by (induction ns) (auto simp: map_filter_simps verdict_raw split: option.split)

lemma map_filter_raw: "rt_raw ` set (List.map_filter (verdict env chk) ns) \<subseteq> rt_raw ` set ns"
  by (induction ns) (auto simp: map_filter_simps verdict_raw split: option.split)

text \<open>No message that waits is lost from the books: adding, waiting and sending keep the counter right.\<close>

lemma retrans_inv_add:
  assumes "retrans_inv (ep_retrans ep)" "length raw < 4294967296"
  shows "retrans_inv (ep_retrans (snd (CoapRetransAddPacket env ep pkt raw addr)))"
proof (cases "\<exists>f nd nxt. re_retransCheck (ep_retrans ep) = Some f \<and> raw \<noteq> [] \<and> \<not> ep_locked ep \<and>
    \<not> of_nat (length raw) > re_maxBufSize (ep_retrans ep) - re_curBufSize (ep_retrans ep) \<and>
    RetransNodeNew (ee_mem env) pkt raw addr = Some nd \<and> ee_check env f (rt_param nd) raw = Some nxt")
  case True
  then obtain f nd nxt where c: "re_retransCheck (ep_retrans ep) = Some f" "raw \<noteq> []" "\<not> ep_locked ep"
    "of_nat (length raw) \<le> re_maxBufSize (ep_retrans ep) - re_curBufSize (ep_retrans ep)"
    "RetransNodeNew (ee_mem env) pkt raw addr = Some nd" "ee_check env f (rt_param nd) raw = Some nxt"
    by (auto simp: not_less)
  let ?c = "re_curBufSize (ep_retrans ep)" and ?m = "re_maxBufSize (ep_retrans ep)" and ?l = "of_nat (length raw) :: u32"
  have l: "unat ?l = length raw" using assms(2) by (simp add: unat_of_nat)
  have cm: "?c \<le> ?m" using assms(1) by (simp add: retrans_inv_def)
  then have "length raw + unat ?c \<le> unat ?m"
    using c(4) l unat_sub [OF cm] by (simp add: word_le_nat_alt)
  moreover from this have "unat (?c + ?l) = unat ?c + length raw"
    using l unat_u32_lt [of ?m] by (simp add: unat_word_ariths)
  moreover have "rt_raw nd = raw" using c(5) by (auto simp: RetransNodeNew_def Let_def split: if_splits option.splits)
  ultimately show ?thesis
    using assms(1) c by (auto simp: CoapRetransAddPacket_def retrans_inv_def Let_def word_le_nat_alt)
next
  case False
  then have "snd (CoapRetransAddPacket env ep pkt raw addr) = ep"
    by (auto simp: CoapRetransAddPacket_def Let_def split: option.splits)
  then show ?thesis using assms(1) by simp
qed

lemma retrans_inv_check: "retrans_inv (ep_retrans ep) \<Longrightarrow> retrans_inv (ep_retrans (snd (CoapEndpointRetransCheck ep t)))"
  by (auto simp: CoapEndpointRetransCheck_def retrans_inv_def retrans_elapse_def Let_def)

lemma retrans_inv_dispatch:
  assumes "retrans_inv (ep_retrans ep)"
  shows "retrans_inv (ep_retrans (fst (CoapEndpointRetransDispatch env ep)))"
proof -
  let ?re = "ep_retrans ep" and ?v = "verdict env (re_retransCheck (ep_retrans ep))"
  let ?cur = "foldl RetransNodeFreeBuffer (re_curBufSize ?re) (filter (\<lambda>n. ?v n = None) (re_retransList ?re))"
  have "unat ?cur = kept_bytes (List.map_filter ?v (re_retransList ?re))"
    using dispatch_bytes [of "re_curBufSize ?re" "re_retransList ?re" 0] assms by (simp add: retrans_inv_def)
  moreover from this have "?cur \<le> re_maxBufSize ?re"
    using kept_bytes_map_filter [of env "re_retransCheck ?re" "re_retransList ?re"] assms
    by (simp add: retrans_inv_def word_le_nat_alt)
  ultimately show ?thesis
    using assms map_filter_raw [of env "re_retransCheck ?re" "re_retransList ?re"]
    by (auto simp: CoapEndpointRetransDispatch_def retrans_loop_eq retrans_inv_def)
qed

section \<open>Every message is sent a bounded number of times\<close>

text \<open>
  What a check function promises: it lets a message be sent again below a number of times and not
  from there on, and it never waits longer than an interval.
\<close>

locale retrans_policy =
  fixes check :: "CoapRetransParam \<Rightarrow> bytes \<Rightarrow> u32 option"
    and limit :: nat
    and interval :: u32
  assumes stops: "limit \<le> unat (rp_cnt p) \<Longrightarrow> check p raw = None"
    and goes_on: "unat (rp_cnt p) < limit \<Longrightarrow> check p raw \<noteq> None"
    and waits: "check p raw = Some nxt \<Longrightarrow> nxt \<le> interval"
    and limit_u8: "limit \<le> 255"

interpretation default_policy: retrans_policy CoapEndpointRetransDefaultCheckFunc 5 COAP_DEFAULT_RETRANS_INTERVAL
  by unfold_locales (auto simp: CoapEndpointRetransDefaultCheckFunc_def word_le_nat_alt split: if_splits)

interpretation softap_policy: retrans_policy "SoftapCoapRetransCheckFunc lastMsgId" 4 SOFTAP_RETRANS_NORMAL_INTERVAL for lastMsgId
  by unfold_locales (auto simp: SoftapCoapRetransCheckFunc_def word_le_nat_alt split: if_splits)

text \<open>One turn of the event source at a time, and a series of turns.\<close>

definition retrans_round :: "coap_env \<Rightarrow> CoapEndpoint \<Rightarrow> u32 \<Rightarrow> CoapEndpoint \<times> coap_out list" where
  "retrans_round env ep t = CoapEndpointRetransDispatch env (snd (CoapEndpointRetransCheck ep t))"

fun retrans_rounds :: "coap_env \<Rightarrow> CoapEndpoint \<Rightarrow> u32 list \<Rightarrow> CoapEndpoint \<times> coap_out list" where
  "retrans_rounds env ep [] = (ep, [])"
| "retrans_rounds env ep (t # ts) =
    (let (ep, os) = retrans_round env ep t; (ep, os') = retrans_rounds env ep ts in (ep, os @ os'))"

text \<open>Turns that are further apart than an interval, on a clock that may wrap around.\<close>

fun spaced :: "u32 \<Rightarrow> u32 \<Rightarrow> u32 list \<Rightarrow> bool" where
  "spaced interval t [] = True"
| "spaced interval t (u # us) = (u \<noteq> 0 \<and> interval < u - t \<and> spaced interval u us)"

text \<open>The socket takes every message.\<close>

definition link_up :: "coap_env \<Rightarrow> TransSess \<Rightarrow> bool" where
  "link_up env sess \<longleftrightarrow> (\<forall>d a. ee_send env d a = IOTC_OK) \<and> tk_fd (tl_socket (tr_link sess)) \<ge> 0 \<and>
    (\<exists>i. tk_socketIf (tl_socket (tr_link sess)) = Some i \<and> if_socketSend i)"

lemma send_up:
  "link_up env sess \<Longrightarrow> raw \<noteq> [] \<Longrightarrow>
    TransSessSendRaw (ee_send env) sess raw a = (IOTC_OK, [Sock_send (tl_sendTmo (tr_link sess)) raw a])"
  by (auto simp: link_up_def TransSessSendRaw_def TransLinkSendData_def TransSocketSend_def)

definition times_left :: "nat \<Rightarrow> CoapRetransNode list \<Rightarrow> nat" where
  "times_left limit ns = (\<Sum>n\<leftarrow>ns. limit - unat (rp_cnt (rt_param n)))"

lemma elapse_due: "rt_remainTime n < t - rt_lastTime n \<Longrightarrow> retrans_elapse t n = n\<lparr>rt_remainTime := 0, rt_lastTime := t\<rparr>"
  by (simp add: retrans_elapse_def Let_def)

lemma in_map_filter: "m \<in> set (List.map_filter f ns) \<longleftrightarrow> (\<exists>n \<in> set ns. f n = Some m)"
  by (force simp: map_filter_def)

context retrans_policy
begin

text \<open>A due message is sent; it stays, counted once more, as long as it may be sent again.\<close>

lemma verdict_due:
  assumes "ee_check env f = check" "unat (rp_cnt (rt_param n)) < limit" "rt_remainTime n = 0"
  shows "verdict env (Some f) n = None \<longleftrightarrow> limit = unat (rp_cnt (rt_param n)) + 1"
    and "verdict env (Some f) n = Some m \<Longrightarrow> rt_remainTime m \<le> interval \<and> rt_lastTime m = rt_lastTime n \<and>
      unat (rp_cnt (rt_param m)) = unat (rp_cnt (rt_param n)) + 1 \<and> unat (rp_cnt (rt_param m)) < limit"
proof -
  have "unat (rp_cnt (rt_param n)) + 1 < 256" using assms(2) limit_u8 by simp
  then have c: "unat (rp_cnt (rt_param n) + 1) = unat (rp_cnt (rt_param n)) + 1" by (simp add: unat_word_ariths)
  have cnt: "unat (rp_cnt (rt_param (bump n))) = unat (rp_cnt (rt_param n)) + 1" unfolding c [symmetric] by (simp add: bump_def)
  have st: "check (rt_param (bump n)) (rt_raw n) = None \<longleftrightarrow> limit \<le> unat (rp_cnt (rt_param n)) + 1"
    unfolding cnt [symmetric] using stops goes_on not_le by blast
  have v: "verdict env (Some f) n = map_option (\<lambda>nxt. (bump n)\<lparr>rt_remainTime := nxt\<rparr>) (check (rt_param (bump n)) (rt_raw n))"
    by (simp add: verdict_def assms(1,3))
  show "verdict env (Some f) n = None \<longleftrightarrow> limit = unat (rp_cnt (rt_param n)) + 1"
    unfolding v option.map_disc_iff st using assms(2) by linarith
  assume m: "verdict env (Some f) n = Some m"
  then obtain nxt where nxt: "check (rt_param (bump n)) (rt_raw n) = Some nxt" "m = (bump n)\<lparr>rt_remainTime := nxt\<rparr>"
    unfolding v by blast
  have "\<not> limit \<le> unat (rp_cnt (rt_param n)) + 1" using st nxt(1) by simp
  then show "rt_remainTime m \<le> interval \<and> rt_lastTime m = rt_lastTime n \<and>
      unat (rp_cnt (rt_param m)) = unat (rp_cnt (rt_param n)) + 1 \<and> unat (rp_cnt (rt_param m)) < limit"
    using waits [OF nxt(1)] cnt nxt(2) by simp
qed

lemma all_due:
  assumes "ee_check env f = check" "\<forall>n \<in> set ns. unat (rp_cnt (rt_param n)) < limit \<and> rt_remainTime n = 0"
  shows "times_left limit ns = length ns + times_left limit (List.map_filter (verdict env (Some f)) ns)"
  using assms(2)
proof (induction ns)
  case (Cons n ns)
  then have n: "unat (rp_cnt (rt_param n)) < limit" "rt_remainTime n = 0" by simp_all
  show ?case
  proof (cases "verdict env (Some f) n")
    case None
    then show ?thesis using verdict_due(1) [OF assms(1) n] Cons by (simp add: map_filter_simps times_left_def)
  next
    case (Some m)
    have "limit - unat (rp_cnt (rt_param n)) = Suc (limit - unat (rp_cnt (rt_param m)))"
      using verdict_due(2) [OF assms(1) n Some] by (simp add: Suc_diff_Suc)
    then show ?thesis using Some Cons by (simp add: map_filter_simps times_left_def)
  qed
qed (simp add: map_filter_simps times_left_def)

text \<open>One turn at which all messages are due.\<close>

lemma round_due:
  assumes env: "ee_check env f = check" "link_up env (ep_sess ep)"
    and ep: "\<not> ep_locked ep" "re_retransCheck (ep_retrans ep) = Some f" "retrans_inv (ep_retrans ep)"
    and t: "t \<noteq> 0" "\<forall>n \<in> set (re_retransList (ep_retrans ep)). rt_remainTime n < t - rt_lastTime n"
    and cnt: "\<forall>n \<in> set (re_retransList (ep_retrans ep)). unat (rp_cnt (rt_param n)) < limit \<and> limit \<le> unat (rp_cnt (rt_param n)) + Suc k"
  shows "\<exists>ns cur os. retrans_round env ep t =
      (ep\<lparr>ep_retrans := (ep_retrans ep)\<lparr>re_retransList := ns, re_curBufSize := cur\<rparr>\<rparr>, os) \<and>
    times_left limit (re_retransList (ep_retrans ep)) = length os + times_left limit ns \<and>
    (\<forall>n \<in> set ns. rt_remainTime n \<le> interval \<and> rt_lastTime n = t \<and> unat (rp_cnt (rt_param n)) < limit \<and>
      limit \<le> unat (rp_cnt (rt_param n)) + k) \<and>
    set os \<subseteq> (\<lambda>n. Net (Sock_send (tl_sendTmo (tr_link (ep_sess ep))) (rt_raw n) (Some (rp_addr (rt_param n))))) `
      set (re_retransList (ep_retrans ep))"
proof -
  let ?L = "re_retransList (ep_retrans ep)"
  define M where "M = map (retrans_elapse t) ?L"
  define ep1 where "ep1 = snd (CoapEndpointRetransCheck ep t)"
  have ep1: "ep1 = ep\<lparr>ep_retrans := (ep_retrans ep)\<lparr>re_retransList := M\<rparr>\<rparr>"
    using t(1) by (simp add: ep1_def M_def CoapEndpointRetransCheck_def)
  have M: "M = map (\<lambda>n. n\<lparr>rt_remainTime := 0, rt_lastTime := t\<rparr>) ?L"
    unfolding M_def using t(2) by (intro map_cong refl elapse_due) blast
  have due: "\<forall>n \<in> set M. unat (rp_cnt (rt_param n)) < limit \<and> rt_remainTime n = 0" using cnt by (auto simp: M)
  have raw: "\<forall>n \<in> set ?L. rt_raw n \<noteq> []" using ep(3) by (simp add: retrans_inv_def)
  let ?ns = "List.map_filter (verdict env (Some f)) M"
  let ?snd = "\<lambda>n. Sock_send (tl_sendTmo (tr_link (ep_sess ep))) (rt_raw n) (Some (rp_addr (rt_param n)))"
  have sends: "concat (map (sends env (ep_sess ep)) M) = map ?snd ?L"
    using raw by (simp add: M sends_def send_up [OF env(2)] comp_def concat_map_singleton cong: map_cong)
  have "times_left limit ?L = times_left limit M" by (simp add: M times_left_def comp_def)
  then have left: "times_left limit ?L = length (map (Net \<circ> ?snd) ?L) + times_left limit ?ns"
    using all_due [OF env(1) due] by (simp add: M)
  have kept: "\<forall>m \<in> set ?ns. rt_remainTime m \<le> interval \<and> rt_lastTime m = t \<and> unat (rp_cnt (rt_param m)) < limit \<and>
      limit \<le> unat (rp_cnt (rt_param m)) + k"
  proof
    fix m assume "m \<in> set ?ns"
    then obtain n where n: "n \<in> set M" "verdict env (Some f) n = Some m" by (auto simp: in_map_filter)
    have "rt_lastTime n = t" "limit \<le> unat (rp_cnt (rt_param n)) + Suc k" using n(1) cnt by (auto simp: M)
    then show "rt_remainTime m \<le> interval \<and> rt_lastTime m = t \<and> unat (rp_cnt (rt_param m)) < limit \<and>
        limit \<le> unat (rp_cnt (rt_param m)) + k"
      using verdict_due(2) [OF env(1) _ _ n(2)] due n(1) by simp
  qed
  show ?thesis
  proof (cases "?L = []")
    case True
    then show ?thesis
      using kept left by (intro exI [of _ "[]"] exI [of _ "re_curBufSize (ep_retrans ep)"])
        (simp add: retrans_round_def ep1 CoapEndpointRetransDispatch_def M times_left_def flip: ep1_def)
  next
    case False
    then have "retrans_round env ep t = (ep\<lparr>ep_retrans := (ep_retrans ep)\<lparr>re_retransList := ?ns,
        re_curBufSize := foldl RetransNodeFreeBuffer (re_curBufSize (ep_retrans ep)) (filter (\<lambda>n. verdict env (Some f) n = None) M)\<rparr>\<rparr>,
        map (Net \<circ> ?snd) ?L)"
      using ep(1,2) sends
      by (simp add: retrans_round_def ep1 CoapEndpointRetransDispatch_def retrans_loop_eq M_def flip: ep1_def)
    then show ?thesis using left kept by (intro exI conjI) auto
  qed
qed

text \<open>Turns further apart than the interval empty the list, after sending each message as often as it may be.\<close>

lemma rounds_end:
  assumes env: "ee_check env f = check" "link_up env (ep_sess ep)"
    and ep: "\<not> ep_locked ep" "re_retransCheck (ep_retrans ep) = Some f" "retrans_inv (ep_retrans ep)"
    and t: "t \<noteq> 0" "\<forall>n \<in> set (re_retransList (ep_retrans ep)). rt_remainTime n < t - rt_lastTime n" "spaced interval t ts"
    and cnt: "\<forall>n \<in> set (re_retransList (ep_retrans ep)). unat (rp_cnt (rt_param n)) < limit \<and>
      limit \<le> unat (rp_cnt (rt_param n)) + Suc (length ts)"
  shows "\<exists>ep' os. retrans_rounds env ep (t # ts) = (ep', os) \<and> re_retransList (ep_retrans ep') = [] \<and>
    re_curBufSize (ep_retrans ep') = 0 \<and> length os = times_left limit (re_retransList (ep_retrans ep))"
  using assms(2-)
proof (induction ts arbitrary: ep t)
  case Nil
  obtain ns cur os where r: "retrans_round env ep t = (ep\<lparr>ep_retrans := (ep_retrans ep)\<lparr>re_retransList := ns, re_curBufSize := cur\<rparr>\<rparr>, os)"
    "times_left limit (re_retransList (ep_retrans ep)) = length os + times_left limit ns"
    "\<forall>n \<in> set ns. unat (rp_cnt (rt_param n)) < limit \<and> limit \<le> unat (rp_cnt (rt_param n)) + 0"
    using round_due [OF env(1) Nil.prems(1-6), of 0] Nil.prems(8) by auto
  have ns: "ns = []" using r(3) by (cases ns) auto
  moreover have "retrans_inv (ep_retrans (fst (retrans_round env ep t)))"
    unfolding retrans_round_def by (intro retrans_inv_dispatch retrans_inv_check Nil.prems(4))
  ultimately show ?case using r(1,2) by (simp add: retrans_inv_def times_left_def unat_eq_zero)
next
  case (Cons u us)
  obtain ns cur os where r: "retrans_round env ep t = (ep\<lparr>ep_retrans := (ep_retrans ep)\<lparr>re_retransList := ns, re_curBufSize := cur\<rparr>\<rparr>, os)"
    "times_left limit (re_retransList (ep_retrans ep)) = length os + times_left limit ns"
    "\<forall>n \<in> set ns. rt_remainTime n \<le> interval \<and> rt_lastTime n = t \<and> unat (rp_cnt (rt_param n)) < limit \<and>
      limit \<le> unat (rp_cnt (rt_param n)) + Suc (length us)"
    using round_due [OF env(1) Cons.prems(1-6), of "Suc (length us)"] Cons.prems(8) by auto
  define ep1 where "ep1 = ep\<lparr>ep_retrans := (ep_retrans ep)\<lparr>re_retransList := ns, re_curBufSize := cur\<rparr>\<rparr>"
  have inv: "retrans_inv (ep_retrans (fst (retrans_round env ep t)))"
    unfolding retrans_round_def by (intro retrans_inv_dispatch retrans_inv_check Cons.prems(4))
  have "\<exists>ep' os. retrans_rounds env ep1 (u # us) = (ep', os) \<and> re_retransList (ep_retrans ep') = [] \<and>
      re_curBufSize (ep_retrans ep') = 0 \<and> length os = times_left limit (re_retransList (ep_retrans ep1))"
  proof (rule Cons.IH)
    show "link_up env (ep_sess ep1)" "\<not> ep_locked ep1" "re_retransCheck (ep_retrans ep1) = Some f"
      using Cons.prems(1-3) by (simp_all add: ep1_def)
    show "retrans_inv (ep_retrans ep1)" using inv r(1) by (simp add: ep1_def)
    show "u \<noteq> 0" "spaced interval u us" using Cons.prems(7) by simp_all
    show "\<forall>n \<in> set (re_retransList (ep_retrans ep1)). rt_remainTime n < u - rt_lastTime n"
      using r(3) Cons.prems(7) by (auto simp: ep1_def)
    show "\<forall>n \<in> set (re_retransList (ep_retrans ep1)). unat (rp_cnt (rt_param n)) < limit \<and>
        limit \<le> unat (rp_cnt (rt_param n)) + Suc (length us)"
      using r(3) by (simp add: ep1_def)
  qed
  then obtain ep' os' where "retrans_rounds env ep1 (u # us) = (ep', os')" "re_retransList (ep_retrans ep') = []"
    "re_curBufSize (ep_retrans ep') = 0" "length os' = times_left limit ns"
    by (auto simp: ep1_def)
  then show ?case using r(1,2) by (simp add: flip: ep1_def)
qed

end


text \<open>A message that was just added, and one that has been sent three times.\<close>

definition waiting_endpoint :: CoapEndpoint where
  "waiting_endpoint =
    (let nd = \<lparr>rt_param = \<lparr>rp_msgId = 9, rp_tkl = 0, rp_token = replicate 8 0, rp_cnt = 0, rp_addr = \<lparr>sa_port = 5683, sa_addr = 1\<rparr>\<rparr>,
                rt_raw = [64, 69, 0, 9], rt_remainTime = 1000, rt_lastTime = 4294967000\<rparr>
     in open_endpoint\<lparr>ep_retrans := \<lparr>re_retransCheck = Some 7, re_maxBufSize = 64, re_curBufSize = 8,
          re_retransList = [nd, nd\<lparr>rt_param := (rt_param nd)\<lparr>rp_cnt := 3\<rparr>\<rparr>]\<rparr>\<rparr>)"


section \<open>Sending a message\<close>

lemma CoapUdpEncode_id:
  assumes "CoapUdpEncode b pkt buf = Some (IOTC_OK, pkt', buf')"
  shows "ck_header pkt' = (bp_header b)\<lparr>ch_ver := 1\<rparr>"
    and "ck_token pkt' = (if ch_tkl (bp_header b) = 0 then ck_token pkt
      else overwrite (ck_token pkt) 0 (take (unat (ch_tkl (bp_header b))) (bp_token b)))"
proof -
  obtain p1 b1 p2 b2 p3 b3 where c: "CoapUdpBuildHeader b pkt buf = (IOTC_OK, p1, b1)" "CoapCommBuildToken b p1 b1 = (IOTC_OK, p2, b2)"
    "CoapCommBuildOption b p2 b2 = Some (IOTC_OK, p3, b3)" "CoapCommBuildPayload b p3 b3 = Some (IOTC_OK, pkt', buf')"
    using assms by (auto simp: CoapUdpEncode_def Let_def split: if_splits option.splits prod.splits)
  have h: "ck_header p1 = (bp_header b)\<lparr>ch_ver := 1\<rparr>" "ck_token p1 = ck_token pkt"
    using c(1) by (auto simp: CoapUdpBuildHeader_def Let_def split: if_splits)
  have t: "ck_header p2 = ck_header p1" "ck_token p2 = (if ch_tkl (bp_header b) = 0 then ck_token p1
      else overwrite (ck_token p1) 0 (take (unat (ch_tkl (bp_header b))) (bp_token b)))"
    using c(2) by (auto simp: CoapCommBuildToken_def Let_def unat_eq_0 split: if_splits)
  have o: "ck_header p3 = ck_header p2" "ck_token p3 = ck_token p2"
    using c(3) by (auto simp: CoapCommBuildOption_def Let_def split: if_splits option.splits prod.splits)
  have p: "ck_header pkt' = ck_header p3" "ck_token pkt' = ck_token p3"
    using c(4) by (auto simp: CoapCommBuildPayload_def BuildPayloadByCallback_def BuildPayloadByData_def Let_def
      split: if_splits option.splits prod.splits)
  show "ck_header pkt' = (bp_header b)\<lparr>ch_ver := 1\<rparr>" using h t o p by simp
  show "ck_token pkt' = (if ch_tkl (bp_header b) = 0 then ck_token pkt
      else overwrite (ck_token pkt) 0 (take (unat (ch_tkl (bp_header b))) (bp_token b)))" using h t o p by simp
qed

lemma RetransAdd_frame [simp]:
  "ep_locked (snd (CoapRetransAddPacket env ep pkt raw addr)) = ep_locked ep"
  "ep_sess (snd (CoapRetransAddPacket env ep pkt raw addr)) = ep_sess ep"
  "ep_sendBuf (snd (CoapRetransAddPacket env ep pkt raw addr)) = ep_sendBuf ep"
  "ep_client (snd (CoapRetransAddPacket env ep pkt raw addr)) = ep_client ep"
  "ep_server (snd (CoapRetransAddPacket env ep pkt raw addr)) = ep_server ep"
  by (auto simp: CoapRetransAddPacket_def Let_def split: option.splits)

lemma RetransAdd_sendBuf [simp]:
  "ep_retrans (snd (CoapRetransAddPacket env (ep\<lparr>ep_sendBuf := x\<rparr>) pkt raw addr)) = ep_retrans (snd (CoapRetransAddPacket env ep pkt raw addr))"
  by (simp add: CoapRetransAddPacket_def Let_def split: option.split)

text \<open>An endpoint that can send: a free buffer, an open link and no handlers in the send chain.\<close>

definition can_send :: "coap_env \<Rightarrow> CoapEndpoint \<Rightarrow> bool" where
  "can_send env ep \<longleftrightarrow> ee_mem env 0 \<and> ee_encode env = CoapUdpEncode \<and> link_up env (ep_sess ep) \<and>
    tr_sendCor (ep_sess ep) = [] \<and> buffer_inv (ep_sendBuf ep) \<and> bx_sem (ep_sendBuf ep) = 1"

text \<open>A message with a payload that fits the buffer as it was configured.\<close>

definition can_build :: "CoapBuildPacket \<Rightarrow> bytes \<Rightarrow> nat \<Rightarrow> CoapEndpoint \<Rightarrow> bool" where
  "can_build b d n ep \<longleftrightarrow> build_ok b \<and> bp_buildFunc b = None \<and> bp_payload b = Some \<lparr>cd_data = Some d, cd_len = length d\<rparr> \<and>
    d \<noteq> [] \<and> length (udp_wire b d) \<le> bx_allocSize (ep_sendBuf ep) \<and> n \<le> bx_allocSize (ep_sendBuf ep)"

lemma link_send_up:
  "link_up env sess \<Longrightarrow> raw \<noteq> [] \<Longrightarrow>
    TransLinkSendData (ee_send env) (tr_link sess) raw a = (IOTC_OK, [Sock_send (tl_sendTmo (tr_link sess)) raw a])"
  by (auto simp: link_up_def TransLinkSendData_def TransSocketSend_def)

lemma udp_wire_nonempty [simp]: "udp_wire b d \<noteq> []"
  by (simp add: udp_wire_def Let_def)

lemma SendPacket_ok:
  assumes ep: "can_send env ep" and b: "can_build b d n ep"
  shows "\<exists>ep' pkt'. CoapEndpointSendPacket env ep b zero_packet n addr =
      Some (IOTC_OK, ep', pkt', [Net (Sock_send (tl_sendTmo (tr_link (ep_sess ep))) (udp_wire b d) addr)]) \<and>
    ck_header pkt' = (bp_header b)\<lparr>ch_ver := 1\<rparr> \<and>
    take (unat (ch_tkl (bp_header b))) (ck_token pkt') = take (unat (ch_tkl (bp_header b))) (bp_token b) \<and>
    ep_retrans ep' = ep_retrans (snd (CoapRetransAddPacket env ep pkt' (udp_wire b d) addr)) \<and>
    buffer_inv (ep_sendBuf ep') \<and> bx_sem (ep_sendBuf ep') = 1 \<and> bx_allocSize (ep_sendBuf ep') = bx_allocSize (ep_sendBuf ep)"
proof -
  let ?ctx = "ep_sendBuf ep" and ?w = "udp_wire b d"
  have c: "buffer_inv ?ctx" "bx_sem ?ctx = 1" using ep by (simp_all add: can_send_def)
  have bb: "build_ok b" "bp_buildFunc b = None" "bp_payload b = Some \<lparr>cd_data = Some d, cd_len = length d\<rparr>" "d \<noteq> []"
    "length ?w \<le> bx_allocSize ?ctx" "n \<le> bx_allocSize ?ctx"
    using b by (simp_all add: can_build_def)
  obtain c1 where c1: "UtilsGetBuffer True ?ctx = (True, c1)" "bx_sem c1 = 0"
    using c(2) by (metis UtilsGetBuffer_free diff_self_eq_0 one_neq_zero)
  note z = UtilsGetBuffer_zeroed [OF c(1) c1(1)]
  have i1: "buffer_inv c1" using UtilsGetBuffer_inv [OF c(1), of True] c1(1) by simp
  let ?sz = "ub_size (bx_buffer c1)"
  have fit: "length ?w \<le> ?sz" "\<not> n > ?sz" using z bb(5,6) by simp_all
  obtain p where e: "CoapUdpEncode b zero_packet \<lparr>cb_size = ?sz, cb_data = []\<rparr> = Some (IOTC_OK, p, \<lparr>cb_size = ?sz, cb_data = ?w\<rparr>)"
    using CoapUdpEncode_wire [OF bb(1-4), of "\<lparr>cb_size = ?sz, cb_data = []\<rparr>" zero_packet] fit(1) by auto
  note id = CoapUdpEncode_id [OF e]
  define c2 where "c2 = buffer_write ?w c1"
  have buf: "bx_buffer c2 = (bx_buffer c1)\<lparr>ub_buffer := Some (overwrite (replicate ?sz 0) 0 ?w), ub_len := length ?w\<rparr>" "bx_sem c2 = 0"
    "bx_allocSize c2 = bx_allocSize c1"
    using z fit(1) c1(2) by (simp_all add: c2_def buffer_write_def)
  have sb: "sent_buffer (bx_buffer c2) = ?w" using fit(1) by (simp add: sent_buffer_def buf overwrite_def)
  have len: "length ?w \<noteq> 0" by simp
  then have pos: "0 < ?sz" using fit(1) by linarith
  have ms: "TransSessMsgSend (ee_cor env) (ee_send env) (ep_sess ep) p (bx_buffer c2) addr =
      Some (IOTC_OK, p, bx_buffer c2, [Sock_send (tl_sendTmo (tr_link (ep_sess ep))) ?w addr])"
    using ep fit(1) len link_send_up [of env "ep_sess ep" ?w addr] sb
    by (auto simp: TransSessMsgSend_def TransSessMsgCorNodeProcess_def can_send_def buf sent_buffer_def pos)
  define ep2 where "ep2 = snd (CoapRetransAddPacket env (ep\<lparr>ep_sendBuf := c2\<rparr>) p ?w addr)"
  have sbuf: "send_buffered env (ep\<lparr>ep_sendBuf := c2\<rparr>) p addr = Some (IOTC_OK, ep2, p, [Net (Sock_send (tl_sendTmo (tr_link (ep_sess ep))) ?w addr)])"
    by (simp add: send_buffered_def ms sb ep2_def)
  have mem: "ee_mem env 0" "ee_encode env = CoapUdpEncode" using ep by (simp_all add: can_send_def)
  have "CoapEndpointSendPacket env ep b zero_packet n addr =
      Some (IOTC_OK, release_send env ep2, p, [Net (Sock_send (tl_sendTmo (tr_link (ep_sess ep))) ?w addr)])"
    using fit(2) sbuf by (simp add: CoapEndpointSendPacket_def mem c1(1) e flip: c2_def)
  moreover have "take (unat (ch_tkl (bp_header b))) (ck_token p) = take (unat (ch_tkl (bp_header b))) (bp_token b)"
    using id(2) bb(1) by (auto simp: zero_packet_def overwrite_def build_ok_def)
  moreover have "buffer_inv c2" unfolding c2_def by (rule buffer_write_inv [OF i1])
  moreover have "bx_allocSize (UtilsReleaseBuffer m c2) = bx_allocSize ?ctx" for m
    using buffer_sizes_kept [of c2 "BRelease m"] buffer_sizes_kept [of ?ctx "BGet True"] c1(1) buf(3) by simp
  ultimately show ?thesis
    using id(1) buf(2) by (auto simp: release_send_def ep2_def UtilsReleaseBuffer_inv)
qed

section \<open>A request that arrives again\<close>

text \<open>Handlers of the send chain that leave the identity of a message alone (they encrypt its payload).\<close>

definition keeps_id :: "coap_env \<Rightarrow> bool" where
  "keeps_id env \<longleftrightarrow> (\<forall>h d p b c p' b'. ee_cor env h d (p, b) = Some (c, p', b') \<longrightarrow>
    ck_header p' = ck_header p \<and> ck_token p' = ck_token p)"

lemma cor_loop_id:
  assumes "keeps_id env" "cor_loop (ee_cor env) ns code (p, b) = Some (c, p', b')"
  shows "ck_header p' = ck_header p \<and> ck_token p' = ck_token p"
  using assms(2)
proof (induction ns arbitrary: code p b)
  case (Cons n ns)
  obtain h where h: "mc_handler n = None \<or> mc_handler n = Some h" by (cases "mc_handler n") auto
  show ?case
  proof (cases "mc_handler n = None")
    case False
    with h have n: "mc_handler n = Some h" by simp
    then obtain c1 p1 b1 where s: "ee_cor env h (mc_nodeData n) (p, b) = Some (c1, p1, b1)"
      using Cons.prems by (auto split: option.splits prod.splits)
    then have "ck_header p1 = ck_header p \<and> ck_token p1 = ck_token p" using assms(1) unfolding keeps_id_def by blast
    moreover have "ck_header p' = ck_header p1 \<and> ck_token p' = ck_token p1"
      using Cons.prems n s Cons.IH [of c1 p1 b1] by (auto split: if_splits)
    ultimately show ?thesis by simp
  qed (use Cons.prems in simp)
qed simp

lemma MsgSend_id:
  assumes "keeps_id env" "TransSessMsgSend (ee_cor env) snd_fn sess p b addr = Some (IOTC_OK, p', b', os)"
  shows "ck_header p' = ck_header p \<and> ck_token p' = ck_token p \<and>
    os = snd (TransLinkSendData snd_fn (tr_link sess) (sent_buffer b') addr)"
proof -
  obtain code where l: "cor_loop (ee_cor env) (tr_sendCor sess) SESS_CODE_OK (p, b) = Some (code, p', b')"
    and b': "ub_buffer b' \<noteq> None" and os: "os = snd (TransLinkSendData snd_fn (tr_link sess) (sent_buffer b') addr)"
    using assms(2)
    by (auto simp: TransSessMsgSend_def TransSessMsgCorNodeProcess_def sent_buffer_def Let_def
        split: if_splits option.splits prod.splits)
  show ?thesis using cor_loop_id [OF assms(1) l] os by simp
qed

text \<open>A message is kept with its identity, its address and its bytes, or the list does not change.\<close>

definition kept_as :: "CoapPacket \<Rightarrow> bytes \<Rightarrow> SocketAddr \<Rightarrow> CoapRetransNode \<Rightarrow> bool" where
  "kept_as pkt raw a nd \<longleftrightarrow> rt_raw nd = raw \<and> rp_addr (rt_param nd) = a \<and> rp_msgId (rt_param nd) = ch_msgId (ck_header pkt) \<and>
    rp_tkl (rt_param nd) = ch_tkl (ck_header pkt) \<and>
    rp_token (rt_param nd) = overwrite (replicate 8 0) 0 (take (unat (ch_tkl (ck_header pkt))) (ck_token pkt))"

lemma RetransAdd_list:
  "re_retransList (ep_retrans (snd (CoapRetransAddPacket env ep pkt raw addr))) = re_retransList (ep_retrans ep) \<or>
   (\<exists>a nd. addr = Some a \<and> kept_as pkt raw a nd \<and>
      re_retransList (ep_retrans (snd (CoapRetransAddPacket env ep pkt raw addr))) = re_retransList (ep_retrans ep) @ [nd])"
  by (auto simp: CoapRetransAddPacket_def RetransNodeNew_def kept_as_def Let_def split: option.splits)

lemma send_buffered_keeps:
  assumes "keeps_id env" "send_buffered env ep pkt addr = Some (r, ep', pkt', os)"
    "re_retransList (ep_retrans ep') \<noteq> re_retransList (ep_retrans ep)"
  shows "\<exists>a nd. addr = Some a \<and> kept_as pkt (rt_raw nd) a nd \<and>
    re_retransList (ep_retrans ep') = re_retransList (ep_retrans ep) @ [nd] \<and>
    os = map Net (snd (TransLinkSendData (ee_send env) (tr_link (ep_sess ep)) (rt_raw nd) addr))"
proof -
  obtain buf os' where s: "TransSessMsgSend (ee_cor env) (ee_send env) (ep_sess ep) pkt (bx_buffer (ep_sendBuf ep)) addr =
      Some (IOTC_OK, pkt', buf, os')" "os = map Net os'"
    and ep': "ep' = snd (CoapRetransAddPacket env (ep\<lparr>ep_sendBuf := (ep_sendBuf ep)\<lparr>bx_buffer := buf\<rparr>\<rparr>) pkt' (sent_buffer buf) addr)"
    using assms(2,3) by (auto simp: send_buffered_def Let_def split: option.splits if_splits prod.splits)
  note m = MsgSend_id [OF assms(1) s(1)]
  have "\<exists>a nd. addr = Some a \<and> kept_as pkt' (sent_buffer buf) a nd \<and>
      re_retransList (ep_retrans ep') = re_retransList (ep_retrans ep) @ [nd]"
    using RetransAdd_list [of env "ep\<lparr>ep_sendBuf := (ep_sendBuf ep)\<lparr>bx_buffer := buf\<rparr>\<rparr>" pkt' "sent_buffer buf" addr]
      assms(3) ep' by auto
  then show ?thesis using m s(2) by (auto simp: kept_as_def)
qed

lemma SendPacket_keeps:
  assumes "ee_encode env = CoapUdpEncode" "keeps_id env"
    "CoapEndpointSendPacket env ep b pkt n addr = Some (r, ep', pkt', os)"
    "re_retransList (ep_retrans ep') \<noteq> re_retransList (ep_retrans ep)"
  shows "\<exists>a nd p buf buf'. addr = Some a \<and> CoapUdpEncode b pkt buf = Some (IOTC_OK, p, buf') \<and> kept_as p (rt_raw nd) a nd \<and>
    re_retransList (ep_retrans ep') = re_retransList (ep_retrans ep) @ [nd] \<and>
    os = map Net (snd (TransLinkSendData (ee_send env) (tr_link (ep_sess ep)) (rt_raw nd) addr))"
proof -
  obtain ctx p cb buf ep1 where e: "CoapUdpEncode b pkt buf = Some (IOTC_OK, p, cb)"
    and s: "send_buffered env (ep\<lparr>ep_sendBuf := buffer_write (cb_data cb) ctx\<rparr>) p addr = Some (r, ep1, pkt', os)"
    and ep': "ep' = release_send env ep1"
    using assms(3,4)
    by (auto simp: CoapEndpointSendPacket_def assms(1) release_send_def Let_def split: option.splits if_splits prod.splits)
  show ?thesis using send_buffered_keeps [OF assms(2) s] assms(4) e by (fastforce simp: ep' release_send_def)
qed

lemma send_buffered_frame:
  assumes "send_buffered env ep pkt addr = Some (r, ep', pkt', os)"
  shows "ep_locked ep' = ep_locked ep \<and> ep_sess ep' = ep_sess ep \<and> ep_client ep' = ep_client ep \<and> ep_server ep' = ep_server ep"
  using assms by (auto simp: send_buffered_def Let_def split: option.splits if_splits prod.splits)

lemma SendPacket_frame:
  assumes "CoapEndpointSendPacket env ep b pkt n addr = Some (r, ep', pkt', os)"
  shows "ep_locked ep' = ep_locked ep \<and> ep_sess ep' = ep_sess ep \<and> ep_client ep' = ep_client ep \<and> ep_server ep' = ep_server ep"
  using assms
  by (auto simp: CoapEndpointSendPacket_def release_send_def Let_def dest!: send_buffered_frame
      split: option.splits if_splits prod.splits)

text \<open>The message of an answer: it has the identity of the request.\<close>

definition resp_build :: "CoapServerRespParam \<Rightarrow> CoapBuildPacket" where
  "resp_build param =
    (let h = ck_header (sq_req param) in
     \<lparr>bp_header = \<lparr>ch_ver = 0, ch_type = (if ch_type h = COAP_MSG_TYPE_CON then COAP_MSG_TYPE_ACK else sq_type param),
        ch_tkl = ch_tkl h, ch_code = sq_code param, ch_msgId = ch_msgId h\<rparr>,
      bp_token = overwrite (replicate COAP_TOKEN_MAX_LEN 0) 0 (take (unat (ch_tkl h)) (ck_token (sq_req param))),
      bp_options = sq_options param, bp_payload = sq_payload param, bp_buildFunc = sq_payloadBuilder param\<rparr>)"

lemma SendResp_eq:
  "CoapServerSendResp env ep param addr =
    (if unat (ch_tkl (ck_header (sq_req param))) > 8 then Some (IOTC_ERR_SECUREC_MEMCPY, ep, [])
     else map_option (\<lambda>(r, ep, pkt, os). (r, ep, os))
       (CoapEndpointSendPacket env ep (resp_build param) zero_packet (sq_preSize param) addr))"
  by (auto simp: CoapServerSendResp_def resp_build_def Let_def split: option.splits)

text \<open>
  C13. A request that arrives again is not handled again: once its answer is kept for sending again,
  the same packet from the same address gets the same bytes as the first time, no handler is called
  and the endpoint does not change.
\<close>

theorem repeated_request:
  assumes env: "ee_encode env = CoapUdpEncode" "keeps_id env"
    and sent: "CoapServerSendResp env ep param (Some a) = Some (r, ep', os)"
    and kept: "re_retransList (ep_retrans ep') \<noteq> re_retransList (ep_retrans ep)"
    and req: "sq_req param = q" "COAP_CODE_CLASS (ch_code (ck_header q)) = COAP_CODE_CLASS_REQ"
      "length (ck_token q) = 8" "\<forall>i < 8. unat (ch_tkl (ck_header q)) \<le> i \<longrightarrow> ck_token q ! i = 0"
    and fresh: "find (retrans_match q a) (re_retransList (ep_retrans ep)) = None"
  shows "\<exists>raw. os = map Net (snd (TransLinkSendData (ee_send env) (tr_link (ep_sess ep)) raw (Some a))) \<and>
    CoapEndpointRecvPacket env' ep' q (Some a) =
      Some (IOTC_OK, ep', map Net (snd (TransSessSendRaw (ee_send env') (ep_sess ep) raw (Some a))))"
proof -
  let ?n = "unat (ch_tkl (ck_header q))"
  have tkl: "?n \<le> 8" using sent kept req(1) by (auto simp: SendResp_eq split: if_splits)
  define tok where "tok = overwrite (replicate 8 (0 :: u8)) 0 (take ?n (ck_token q))"
  define b where "b = resp_build param"
  have b: "ch_msgId (bp_header b) = ch_msgId (ck_header q)" "ch_tkl (bp_header b) = ch_tkl (ck_header q)" "bp_token b = tok"
    using req(1) by (simp_all add: b_def resp_build_def tok_def Let_def)
  obtain pkt where s: "CoapEndpointSendPacket env ep b zero_packet (sq_preSize param) (Some a) = Some (r, ep', pkt, os)"
    using sent req(1) tkl by (auto simp: SendResp_eq b_def)
  obtain nd p buf buf' where nd: "CoapUdpEncode b zero_packet buf = Some (IOTC_OK, p, buf')" "kept_as p (rt_raw nd) a nd"
    "re_retransList (ep_retrans ep') = re_retransList (ep_retrans ep) @ [nd]"
    "os = map Net (snd (TransLinkSendData (ee_send env) (tr_link (ep_sess ep)) (rt_raw nd) (Some a)))"
    using SendPacket_keeps [OF env s kept] by auto
  note id = CoapUdpEncode_id [OF nd(1)]
  have q: "ck_token q = tok"
    using req(3,4) tkl by (intro nth_equalityI) (auto simp: tok_def nth_overwrite)
  have "take ?n tok = take ?n (ck_token q)" by (simp add: q)
  then have "rp_token (rt_param nd) = tok"
    using nd(2) id b tkl req(3) by (auto simp: kept_as_def tok_def zero_packet_def overwrite_def unat_eq_0 split: if_splits)
  then have "retrans_match q a nd"
    using nd(2) id b q by (simp add: retrans_match_def kept_as_def)
  then have "find (retrans_match q a) (re_retransList (ep_retrans ep')) = Some nd"
    using fresh nd(3) by (simp add: find_snoc)
  moreover have "rp_addr (rt_param nd) = a" using nd(2) by (simp add: kept_as_def)
  ultimately have "CoapEndpointRecvPacket env' ep' q (Some a) =
      Some (IOTC_OK, ep', map Net (snd (TransSessSendRaw (ee_send env') (ep_sess ep) (rt_raw nd) (Some a))))"
    using SendPacket_frame [OF s] req(2)
    by (simp add: CoapEndpointRecvPacket_def CoapEndpointRecvPacketRetransProcess_def Let_def split_beta)
  then show ?thesis using nd(4) by blast
qed

definition demo_request :: CoapPacket where
  "demo_request = zero_packet\<lparr>ck_header := \<lparr>ch_ver = 1, ch_type = 0, ch_tkl = 2, ch_code = 1, ch_msgId = 9\<rparr>,
     ck_token := [1, 2, 0, 0, 0, 0, 0, 0]\<rparr>"

definition demo_answer :: CoapServerRespParam where
  "demo_answer = \<lparr>sq_req = demo_request, sq_type = 2, sq_code = 69, sq_options = [],
     sq_payload = Some \<lparr>cd_data = Some [5], cd_len = 1\<rparr>, sq_payloadBuilder = None, sq_preSize = 0\<rparr>"

definition demo_peer :: SocketAddr where
  "demo_peer = \<lparr>sa_port = 5683, sa_addr = 1\<rparr>"

lemma open_endpoint_sends: "can_send quiet_env open_endpoint"
proof -
  obtain ctx where "UtilsBufferCtxNew (\<lambda>_. True) 64 128 = Some ctx" "bx_sem ctx = 1"
    by (simp add: UtilsBufferCtxNew_def)
  moreover from this have "buffer_inv ctx" by (blast intro: UtilsBufferCtxNew_inv)
  ultimately show ?thesis
    by (simp add: can_send_def open_endpoint_def zero_endpoint_def quiet_env_def link_up_def open_sess_def
      CoapEndpointSessSetup_def TransSessAddRecvTailHandler_def TransSessAddRecvHeadHandler_def AddCorListHandler_def MsgCorNew_def)
qed

lemma open_endpoint_simps:
  "bx_allocSize (ep_sendBuf open_endpoint) = 64" "\<not> ep_locked open_endpoint"
  "ep_retrans open_endpoint = \<lparr>re_retransCheck = Some 7, re_maxBufSize = 64, re_curBufSize = 0, re_retransList = []\<rparr>"
  by (simp_all add: open_endpoint_def zero_endpoint_def UtilsBufferCtxNew_def)

definition demo_answered :: "ret \<times> CoapEndpoint \<times> coap_out list" where
  "demo_answered = the (CoapServerSendResp quiet_env open_endpoint demo_answer (Some demo_peer))"

lemma demo_answered_sent:
  "CoapServerSendResp quiet_env open_endpoint demo_answer (Some demo_peer) =
    Some (fst demo_answered, fst (snd demo_answered), snd (snd demo_answered)) \<and>
   re_retransList (ep_retrans (fst (snd demo_answered))) \<noteq> []"
proof -
  have "can_build (resp_build demo_answer) [5] 0 open_endpoint"
    by (simp add: can_build_def open_endpoint_simps resp_build_def demo_answer_def demo_request_def build_ok_def
      udp_wire_def overwrite_def Let_def)
  from SendPacket_ok [OF open_endpoint_sends this, of "Some demo_peer"] obtain ep' pkt' os where
    s: "CoapEndpointSendPacket quiet_env open_endpoint (resp_build demo_answer) zero_packet 0 (Some demo_peer) = Some (IOTC_OK, ep', pkt', os)"
    "ck_header pkt' = (bp_header (resp_build demo_answer))\<lparr>ch_ver := 1\<rparr>"
    "ep_retrans ep' = ep_retrans (snd (CoapRetransAddPacket quiet_env open_endpoint pkt' (udp_wire (resp_build demo_answer) [5]) (Some demo_peer)))"
    by blast
  have "re_retransList (ep_retrans ep') \<noteq> []"
    using s(2) unfolding s(3)
    by (simp add: CoapRetransAddPacket_def RetransNodeNew_def open_endpoint_simps quiet_env_def CoapEndpointRetransDefaultCheckFunc_def
      resp_build_def demo_answer_def demo_request_def udp_wire_def overwrite_def Let_def)
  moreover have "CoapServerSendResp quiet_env open_endpoint demo_answer (Some demo_peer) = Some (IOTC_OK, ep', os)"
    using s(1) by (simp add: SendResp_eq) (simp add: demo_answer_def demo_request_def)
  ultimately show ?thesis by (simp add: demo_answered_def)
qed

theorem repeated_request_witness:
  "\<exists>raw. snd (snd demo_answered) = map Net (snd (TransLinkSendData (ee_send quiet_env) (tr_link (ep_sess open_endpoint)) raw (Some demo_peer))) \<and>
    CoapEndpointRecvPacket quiet_env (fst (snd demo_answered)) demo_request (Some demo_peer) =
      Some (IOTC_OK, fst (snd demo_answered),
        map Net (snd (TransSessSendRaw (ee_send quiet_env) (ep_sess open_endpoint) raw (Some demo_peer))))"
proof (rule repeated_request [OF _ _ conjunct1 [OF demo_answered_sent]])
  show "ee_encode quiet_env = CoapUdpEncode" "keeps_id quiet_env" by (simp_all add: quiet_env_def keeps_id_def)
  show "re_retransList (ep_retrans (fst (snd demo_answered))) \<noteq> re_retransList (ep_retrans open_endpoint)"
    "find (retrans_match demo_request demo_peer) (re_retransList (ep_retrans open_endpoint)) = None"
    using demo_answered_sent by (simp_all add: open_endpoint_simps)
  show "sq_req demo_answer = demo_request" "length (ck_token demo_request) = 8" "COAP_CODE_CLASS (ch_code (ck_header demo_request)) = 0"
    by (simp_all add: demo_answer_def demo_request_def COAP_CODE_CLASS_def)
  show "\<forall>i < 8. unat (ch_tkl (ck_header demo_request)) \<le> i \<longrightarrow> ck_token demo_request ! i = 0"
    by (auto simp: demo_request_def nth_Cons')
qed

end
