(* ===== verification/Coap_Client.thy ===== *)
theory Coap_Client
  imports Coap_Retrans
begin

text \<open>
  The waiting requests of a CoAP endpoint: how many there are, what happens when they are not answered
  in time, what a failing allocation does to the endpoint, and the invariant of the endpoint over
  every series of calls.
\<close>

section \<open>Requests that expire\<close>

lemma timeout_scan_handler:
  "fst (timeout_scan cur tmo ns h cnt) =
    (let E = filter (req_expired cur tmo) ns in if E = [] then h else rq_respHandler (last E))"
  by (induction ns arbitrary: h cnt) (auto simp: Let_def split_beta)

lemma timeout_scan_list: "fst (snd (timeout_scan cur tmo ns h cnt)) = filter (\<lambda>n. \<not> req_expired cur tmo n) ns"
  by (induction ns arbitrary: h cnt) (auto simp: Let_def split_beta)

lemma req_less_unat: "unat (req_less cnt) = unat cnt - 1"
proof (cases "cnt = 0")
  case False
  then have "1 \<le> cnt" by (simp add: unat_gt_0 word_le_nat_alt Suc_le_eq)
  then show ?thesis using False by (simp add: req_less_def unat_sub word_gt_0)
qed (simp add: req_less_def)

lemma timeout_scan_cnt:
  "unat (snd (snd (timeout_scan cur tmo ns h cnt))) = unat cnt - length (filter (req_expired cur tmo) ns)"
  by (induction ns arbitrary: h cnt) (auto simp: Let_def split_beta req_less_unat)

text \<open>
  The callbacks of a scan at time \<open>cur\<close> that change no timeout and leave no request behind that is
  expired at \<open>cur\<close> and was not there before.
\<close>

definition tame :: "coap_env \<Rightarrow> u32 \<Rightarrow> bool" where
  "tame env cur \<longleftrightarrow> (\<forall>h ep. let ep' = fst (ee_resp env h None None True ep) in
    cl_timeout (ep_client ep') = cl_timeout (ep_client ep) \<and>
    (\<forall>n \<in> set (cl_reqList (ep_client ep')). n \<in> set (cl_reqList (ep_client ep)) \<or> \<not> req_expired cur (cl_timeout (ep_client ep)) n))"

definition none_expired :: "u32 \<Rightarrow> CoapEndpoint \<Rightarrow> bool" where
  "none_expired cur ep \<longleftrightarrow> (\<forall>n \<in> set (cl_reqList (ep_client ep)). \<not> req_expired cur (cl_timeout (ep_client ep)) n)"

definition handlers_set :: "CoapEndpoint \<Rightarrow> bool" where
  "handlers_set ep \<longleftrightarrow> (\<forall>n \<in> set (cl_reqList (ep_client ep)). rq_respHandler n \<noteq> None)"

lemma GetTimeout_none:
  assumes "none_expired cur ep"
  shows "GetTimeoutRespHandler ep cur = (None, ep)"
proof (cases "ep_locked ep")
  case False
  have f: "filter (req_expired cur (cl_timeout (ep_client ep))) (cl_reqList (ep_client ep)) = []"
    "filter (\<lambda>n. \<not> req_expired cur (cl_timeout (ep_client ep)) n) (cl_reqList (ep_client ep)) = cl_reqList (ep_client ep)"
    using assms by (simp_all add: none_expired_def filter_empty_conv)
  let ?s = "timeout_scan cur (cl_timeout (ep_client ep)) (cl_reqList (ep_client ep)) None (cl_reqCnt (ep_client ep))"
  have "fst ?s = None" "fst (snd ?s) = cl_reqList (ep_client ep)" "snd (snd ?s) = cl_reqCnt (ep_client ep)"
    using f timeout_scan_cnt [of cur "cl_timeout (ep_client ep)" "cl_reqList (ep_client ep)" None "cl_reqCnt (ep_client ep)"]
    by (simp_all add: timeout_scan_handler timeout_scan_list word_unat_eq_iff)
  then show ?thesis using False by (simp add: GetTimeoutRespHandler_def Let_def split_beta)
qed (simp add: GetTimeoutRespHandler_def)

lemma loop_none_expired:
  "none_expired cur ep \<Longrightarrow> resp_timeout_loop env cur ep os = Some (ep, os)"
  by (subst resp_timeout_loop.simps) (simp add: GetTimeout_none)

text \<open>
  C14. The check for requests without an answer ends: with callbacks that leave no expired request
  behind it returns, no request that has waited longer than the timeout is left, and of all the
  requests that were removed exactly one has its callback called, the last one.
\<close>

theorem timeout_check_ends:
  assumes "\<not> ep_locked ep" "handlers_set ep" "tame env (ee_now env)"
  defines "E \<equiv> filter (req_expired (ee_now env) (cl_timeout (ep_client ep))) (cl_reqList (ep_client ep))"
  shows "\<exists>ep' os. CoapClientRespTimeoutCheck env ep = Some (ep', os) \<and> none_expired (ee_now env) ep' \<and>
    (E = [] \<longrightarrow> ep' = ep \<and> os = []) \<and>
    (E \<noteq> [] \<longrightarrow> (\<exists>h ep1. rq_respHandler (last E) = Some h \<and> ep_client ep1 = (ep_client ep)\<lparr>
        cl_reqList := filter (\<lambda>n. n \<notin> set E) (cl_reqList (ep_client ep)), cl_reqCnt := cl_reqCnt (ep_client ep1)\<rparr> \<and>
      ep' = fst (ee_resp env h None None True ep1) \<and>
      os = Resp_call h None None True # snd (ee_resp env h None None True ep1)))"
proof (cases "E = []")
  case True
  then have "none_expired (ee_now env) ep" by (simp add: E_def none_expired_def filter_empty_conv)
  then show ?thesis using True by (simp add: CoapClientRespTimeoutCheck_def loop_none_expired)
next
  case False
  let ?now = "ee_now env" and ?cli = "ep_client ep"
  define s where "s = timeout_scan ?now (cl_timeout ?cli) (cl_reqList ?cli) None (cl_reqCnt ?cli)"
  have "last E \<in> set E" using False by simp
  then have "last E \<in> set (cl_reqList ?cli)" by (simp add: E_def)
  then obtain h where h: "rq_respHandler (last E) = Some h" using assms(2) by (auto simp: handlers_set_def)
  define ep1 where "ep1 = ep\<lparr>ep_client := ?cli\<lparr>cl_reqList := fst (snd s), cl_reqCnt := snd (snd s)\<rparr>\<rparr>"
  have f: "fst s = Some h" using False h by (simp add: s_def timeout_scan_handler flip: E_def)
  then have g: "GetTimeoutRespHandler ep ?now = (Some h, ep1)"
    using assms(1) by (simp add: GetTimeoutRespHandler_def Let_def split_beta ep1_def flip: s_def)
  have l: "fst (snd s) = filter (\<lambda>n. n \<notin> set E) (cl_reqList ?cli)"
    by (auto simp: s_def timeout_scan_list E_def intro!: filter_cong)
  have n1: "none_expired ?now ep1" by (auto simp: none_expired_def ep1_def s_def timeout_scan_list)
  define ep' where "ep' = fst (ee_resp env h None None True ep1)"
  have "none_expired ?now ep'"
    using assms(3) n1 unfolding tame_def none_expired_def ep'_def Let_def by metis
  then have "CoapClientRespTimeoutCheck env ep = Some (ep', Resp_call h None None True # snd (ee_resp env h None None True ep1))"
    unfolding CoapClientRespTimeoutCheck_def
    by (subst resp_timeout_loop.simps) (simp add: g loop_none_expired flip: ep'_def)
  moreover have "ep_client ep1 = ?cli\<lparr>cl_reqList := filter (\<lambda>n. n \<notin> set E) (cl_reqList ?cli), cl_reqCnt := cl_reqCnt (ep_client ep1)\<rparr>"
    by (simp add: ep1_def l)
  ultimately show ?thesis using \<open>none_expired ?now ep'\<close> False h ep'_def by blast
qed

text \<open>
  A request that is dated after the clock of the scan counts as expired at once, since the
  difference wraps around; so a callback that sends its request again a moment later keeps the scan
  from ending.
\<close>

lemma future_expired:
  assumes "0 < k" "unat k + unat tmo < 4294967296"
  shows "req_expired cur tmo \<lparr>rq_time = cur + k, rq_msgId = i, rq_token = t, rq_respHandler = h\<rparr>"
proof -
  have "0 < unat k" using assms(1) by (simp add: word_less_nat_alt)
  define s where "s = unat (- k) + unat k"
  have s: "s mod 4294967296 = 0" "0 < s" "s - 4294967296 < 4294967296"
    using unat_word_ariths(1) [of "- k" k] \<open>0 < unat k\<close> unat_u32_lt [of k] unat_u32_lt [of "- k"] by (simp_all add: s_def)
  have "\<not> s < 4294967296" using s(1,2) by auto
  then have "(s - 4294967296) mod 4294967296 = 0" using s(1) by (simp add: le_mod_geq)
  then have "s = 4294967296" using s(3) \<open>\<not> s < 4294967296\<close> by simp
  then have "unat (- k) = 4294967296 - unat k" by (simp add: s_def)
  then show ?thesis using assms(2) by (simp add: req_expired_def word_less_nat_alt)
qed

definition resends :: "coap_env \<Rightarrow> u32 \<Rightarrow> nat \<Rightarrow> bool" where
  "resends env cur h \<longleftrightarrow> (\<forall>ep. \<not> ep_locked ep \<longrightarrow> (let ep' = fst (ee_resp env h None None True ep) in
    \<not> ep_locked ep' \<and> (\<exists>ns n. cl_reqList (ep_client ep') = ns @ [n] \<and> rq_respHandler n = Some h \<and>
      req_expired cur (cl_timeout (ep_client ep')) n)))"

definition resend_waits :: "u32 \<Rightarrow> nat \<Rightarrow> CoapEndpoint \<Rightarrow> bool" where
  "resend_waits cur h ep \<longleftrightarrow> \<not> ep_locked ep \<and> (\<exists>ns n. cl_reqList (ep_client ep) = ns @ [n] \<and> rq_respHandler n = Some h \<and>
    req_expired cur (cl_timeout (ep_client ep)) n)"

lemma resend_no_return:
  assumes "resp_timeout_loop env cur ep os = Some r"
  shows "resends env cur h \<longrightarrow> \<not> resend_waits cur h ep"
proof (rule resp_timeout_loop.raw_induct [where P = "\<lambda>env cur ep os r. resends env cur h \<longrightarrow> \<not> resend_waits cur h ep", OF _ assms])
  fix loop :: "coap_env \<Rightarrow> u32 \<Rightarrow> CoapEndpoint \<Rightarrow> coap_out list \<Rightarrow> (CoapEndpoint \<times> coap_out list) option"
    and env cur ep os r
  assume ih: "\<And>env cur ep os r. loop env cur ep os = Some r \<Longrightarrow> resends env cur h \<longrightarrow> \<not> resend_waits cur h ep"
  let ?ep1 = "snd (GetTimeoutRespHandler ep cur)"
  assume body: "(case fst (GetTimeoutRespHandler ep cur) of None \<Rightarrow> Some (?ep1, os)
      | Some h \<Rightarrow> loop env cur (fst (ee_resp env h None None True ?ep1))
           (os @ Resp_call h None None True # snd (ee_resp env h None None True ?ep1))) = Some r"
  show "resends env cur h \<longrightarrow> \<not> resend_waits cur h ep"
  proof (intro impI notI)
    assume r: "resends env cur h" and w: "resend_waits cur h ep"
    then have g: "fst (GetTimeoutRespHandler ep cur) = Some h" "\<not> ep_locked ?ep1"
      by (auto simp: resend_waits_def GetTimeoutRespHandler_def Let_def split_beta timeout_scan_handler)
    have "resend_waits cur h (fst (ee_resp env h None None True ?ep1))"
      using r g(2) unfolding resends_def resend_waits_def Let_def by blast
    moreover obtain r' where "loop env cur (fst (ee_resp env h None None True ?ep1))
           (os @ Resp_call h None None True # snd (ee_resp env h None None True ?ep1)) = Some r'"
      using body g(1) by simp
    ultimately show False using ih r by blast
  qed
qed

theorem resend_diverges:
  assumes "resends env (ee_now env) h" "resend_waits (ee_now env) h ep"
  shows "CoapClientRespTimeoutCheck env ep = None"
proof (rule ccontr)
  assume "CoapClientRespTimeoutCheck env ep \<noteq> None"
  then obtain r where "resp_timeout_loop env (ee_now env) ep [] = Some r" by (auto simp: CoapClientRespTimeoutCheck_def)
  from resend_no_return [OF this, of h] assms show False by blast
qed

text \<open>Three requests, of which the first two have waited for more than thirty seconds.\<close>

definition late_endpoint :: CoapEndpoint where
  "late_endpoint =
    (let nd = \<lparr>rq_time = 500, rq_msgId = 1, rq_token = replicate 8 0, rq_respHandler = Some 11\<rparr>
     in open_endpoint\<lparr>ep_client := (ep_client open_endpoint)\<lparr>cl_reqCnt := 3,
          cl_reqList := [nd, nd\<lparr>rq_msgId := 2, rq_respHandler := Some 12\<rparr>, nd\<lparr>rq_msgId := 3, rq_time := 40000, rq_respHandler := Some 13\<rparr>]\<rparr>\<rparr>)"

theorem timeout_check_ends_witness:
  "\<exists>ep'. CoapClientRespTimeoutCheck (quiet_env\<lparr>ee_now := 50000\<rparr>) late_endpoint = Some (ep', [Resp_call 12 None None True]) \<and>
    none_expired 50000 ep'"
proof -
  let ?env = "quiet_env\<lparr>ee_now := 50000\<rparr>"
  let ?cli = "ep_client late_endpoint"
  have cli: "cl_timeout ?cli = 30000" "map rq_time (cl_reqList ?cli) = [500, 500, 40000]"
    by (simp_all add: late_endpoint_def open_endpoint_def zero_endpoint_def CoapEndpointClientInit_def Let_def)
  have E: "filter (req_expired 50000 30000) (cl_reqList ?cli) = take 2 (cl_reqList ?cli)"
    "rq_respHandler (last (take 2 (cl_reqList ?cli))) = Some 12" "take 2 (cl_reqList ?cli) \<noteq> []"
    by (simp_all add: late_endpoint_def req_expired_def Let_def)
  have "\<not> ep_locked late_endpoint" "handlers_set late_endpoint" "tame ?env (ee_now ?env)"
    by (simp_all add: late_endpoint_def open_endpoint_def zero_endpoint_def handlers_set_def tame_def quiet_env_def Let_def)
  from timeout_check_ends [OF this] show ?thesis using E(3) by (auto simp: cli E(1,2) quiet_env_def)
qed

section \<open>Running out of memory\<close>

text \<open>The message of a request.\<close>

definition req_build :: "coap_env \<Rightarrow> CoapEndpoint \<Rightarrow> CoapClientReqParam \<Rightarrow> CoapBuildPacket" where
  "req_build env ep param =
    (let tkl = cl_tkl (ep_client ep) in
     \<lparr>bp_header = \<lparr>ch_ver = 0, ch_type = qp_type param, ch_tkl = tkl, ch_code = qp_code param, ch_msgId = fst (GetMsgId ep)\<rparr>,
      bp_token = overwrite (replicate COAP_TOKEN_MAX_LEN 0) 0 (take (unat tkl) (ee_token env)),
      bp_options = qp_options param, bp_payload = qp_payload param, bp_buildFunc = qp_payloadBuilder param\<rparr>)"

lemma GetMsgId_frame [simp]:
  "cl_tkl (ep_client (snd (GetMsgId ep))) = cl_tkl (ep_client ep)" "ep_sendBuf (snd (GetMsgId ep)) = ep_sendBuf ep"
  "ep_sess (snd (GetMsgId ep)) = ep_sess ep" "ep_locked (snd (GetMsgId ep)) = ep_locked ep"
  "ep_retrans (snd (GetMsgId ep)) = ep_retrans ep" "cl_reqList (ep_client (snd (GetMsgId ep))) = cl_reqList (ep_client ep)"
  "cl_timeout (ep_client (snd (GetMsgId ep))) = cl_timeout (ep_client ep)"
  "cl_reqCnt (ep_client (snd (GetMsgId ep))) = cl_reqCnt (ep_client ep)" "ep_server (snd (GetMsgId ep)) = ep_server ep"
  "cl_defaultHandler (ep_client (snd (GetMsgId ep))) = cl_defaultHandler (ep_client ep)"
  by (simp_all add: GetMsgId_def)

lemma SendReq_eq:
  "CoapClientSendReq env ep param addr =
    (case CoapEndpointSendPacket env (snd (GetMsgId ep)) (req_build env ep param) zero_packet (qp_preSize param) addr of
       None \<Rightarrow> None
     | Some (r, ep, pkt, os) \<Rightarrow>
         if r \<noteq> IOTC_OK then Some (r, ep, os)
         else if qp_respHandler param \<noteq> None then
           (case CoapClientInsertReq env ep (ch_msgId (ck_header pkt)) (ck_token pkt) (ch_tkl (ck_header pkt)) (qp_respHandler param) of
              None \<Rightarrow> None
            | Some (r, ep, os') \<Rightarrow> Some (IOTC_OK, ep, os @ os'))
         else Some (IOTC_OK, ep, os))"
  by (simp add: CoapClientSendReq_def req_build_def Let_def split_beta)

lemma can_send_msgid [simp]: "can_send env (snd (GetMsgId ep)) = can_send env ep"
  by (simp add: can_send_def)

lemma can_build_msgid [simp]: "can_build b d n (snd (GetMsgId ep)) = can_build b d n ep"
  by (simp add: can_build_def)

text \<open>A locked endpoint loses every answer and gives every request the same number.\<close>

definition dead :: "CoapEndpoint \<Rightarrow> bool" where
  "dead ep \<longleftrightarrow> (\<forall>env pkt a. COAP_CODE_CLASS (ch_code (ck_header pkt)) \<noteq> COAP_CODE_CLASS_REQ \<longrightarrow>
      CoapEndpointRecvPacket env ep pkt a = Some (IOTC_OK, ep, [])) \<and>
    GetMsgId ep = (0, ep) \<and> (\<forall>env i t l h. CoapClientInsertReq env ep i t l h = Some (IOTC_ERR_TIMEOUT, ep, [])) \<and>
    (\<forall>env. CoapEndpointRetransDispatch env ep = (ep, []))"

lemma locked_check: "ep_locked ep \<Longrightarrow> CoapClientRespTimeoutCheck env ep = Some (ep, [])"
  unfolding CoapClientRespTimeoutCheck_def by (subst resp_timeout_loop.simps) (simp add: GetTimeoutRespHandler_def)

lemma locked_dead: "ep_locked ep \<Longrightarrow> dead ep"
  by (simp add: dead_def CoapEndpointRecvPacket_def CoapEndpointClientRecvRespPacket_def GetRespHandler_def locked_check
    GetMsgId_def CoapClientInsertReq_def CoapEndpointRetransDispatch_def)

text \<open>
  C16. One failing allocation silences an endpoint: when there is no memory for the record of a
  request, the request is sent and reported as sent, but the mutex stays locked; from then on every
  answer is lost without a callback, every request has the message number zero and cannot be recorded,
  and nothing is sent again.
\<close>

theorem no_memory_deadlock:
  assumes "can_send env ep" "can_build (req_build env ep param) d (qp_preSize param) ep" "\<not> ep_locked ep"
    "none_expired (ee_now env) ep" "cl_reqCnt (ep_client ep) < COAP_ENDPOINT_CLIENT_REQ_MAX_CNT" "qp_respHandler param \<noteq> None"
    "\<not> ee_mem env 5"
  shows "\<exists>ep' os. CoapClientSendReq env ep param addr = Some (IOTC_OK, ep', os) \<and> dead ep'"
proof -
  obtain ep1 pkt os where s: "CoapEndpointSendPacket env (snd (GetMsgId ep)) (req_build env ep param) zero_packet (qp_preSize param) addr =
      Some (IOTC_OK, ep1, pkt, os)"
    using SendPacket_ok [of env "snd (GetMsgId ep)" "req_build env ep param" d "qp_preSize param" addr] assms(1,2) by auto
  note f = SendPacket_frame [OF s]
  have ne: "none_expired (ee_now env) ep1" using f assms(4) by (simp add: none_expired_def)
  have "CoapClientInsertReq env ep1 i t l h = Some (IOTC_ADAPTER_MEM_ERR_MALLOC, ep1\<lparr>ep_locked := True\<rparr>, [])" for i t l h
    using ne f assms(3,5,7) by (simp add: CoapClientInsertReq_def CoapClientRespTimeoutCheck_def loop_none_expired)
  then show ?thesis using s assms(6) by (simp add: SendReq_eq locked_dead)
qed

definition demo_query :: CoapClientReqParam where
  "demo_query = \<lparr>qp_type = 1, qp_code = 2, qp_options = [], qp_payload = Some \<lparr>cd_data = Some [5], cd_len = length [5 :: u8]\<rparr>,
     qp_payloadBuilder = None, qp_respHandler = Some 11, qp_preSize = 0\<rparr>"

lemma demo_query_builds: "can_build (req_build quiet_env open_endpoint demo_query) [5] 0 open_endpoint"
  by (simp add: can_build_def open_endpoint_simps req_build_def demo_query_def build_ok_def udp_wire_def overwrite_def Let_def
    quiet_env_def open_endpoint_def zero_endpoint_def CoapEndpointClientInit_def UtilsBufferCtxNew_def)

theorem no_memory_deadlock_witness:
  "\<exists>ep' os. CoapClientSendReq (quiet_env\<lparr>ee_mem := \<lambda>i. i < 5\<rparr>) open_endpoint demo_query None = Some (IOTC_OK, ep', os) \<and> dead ep'"
proof (rule no_memory_deadlock)
  let ?env = "quiet_env\<lparr>ee_mem := \<lambda>i. i < 5\<rparr>"
  show "can_send ?env open_endpoint" using open_endpoint_sends by (simp add: can_send_def quiet_env_def link_up_def)
  have "req_build ?env open_endpoint demo_query = req_build quiet_env open_endpoint demo_query" by (simp add: req_build_def)
  then show "can_build (req_build ?env open_endpoint demo_query) [5] (qp_preSize demo_query) open_endpoint"
    using demo_query_builds by (simp add: demo_query_def)
  show "\<not> ep_locked open_endpoint" "none_expired (ee_now ?env) open_endpoint" "cl_reqCnt (ep_client open_endpoint) < 255"
    by (simp_all add: open_endpoint_def zero_endpoint_def none_expired_def CoapEndpointClientInit_def Let_def)
qed (simp_all add: demo_query_def)


text \<open>
  While a request sent in an earlier millisecond waits for its answer, the event source asks for no
  delay and reports to be ready, although nothing is due: the loop does not sleep.
\<close>

theorem pending_request_spins:
  assumes "\<not> ep_locked ep" "cl_reqList (ep_client ep) = n # ns" "rq_time n < ee_now env"
  shows "snd (CoapEndpointSourcePrepare env ep) = 0 \<and> fst (CoapEndpointSourceCheck env ep)"
  using assms
  by (auto simp: CoapEndpointSourcePrepare_def CoapClientReqPrepare_def CoapEndpointSourceCheck_def CoapEndpointReqCheck_def
    CoapEndpointRetransCheck_def Let_def split_beta)

section \<open>The invariant of an endpoint\<close>

definition client_inv :: "CoapEndpointClient \<Rightarrow> bool" where
  "client_inv cli \<longleftrightarrow> unat (cl_reqCnt cli) = length (cl_reqList cli) \<and> length (cl_reqList cli) \<le> 255 \<and> unat (cl_tkl cli) \<le> 8 \<and>
    (\<forall>n \<in> set (cl_reqList cli). rq_respHandler n \<noteq> None)"

definition ep_inv :: "CoapEndpoint \<Rightarrow> bool" where
  "ep_inv ep \<longleftrightarrow> client_inv (ep_client ep) \<and> retrans_inv (ep_retrans ep) \<and> buffer_inv (ep_sendBuf ep) \<and>
    bx_allocSize (ep_sendBuf ep) \<le> UTILS_BUFFER_MAX_ALLOC_SIZE \<and> bx_maxSize (ep_sendBuf ep) \<le> UTILS_BUFFER_MAX_SIZE"

text \<open>Handlers of the send chain work inside the buffer, and callbacks use the endpoint through its functions.\<close>

definition env_ok :: "coap_env \<Rightarrow> bool" where
  "env_ok env \<longleftrightarrow> (\<forall>h d p b c p' b'. ee_cor env h d (p, b) = Some (c, p', b') \<longrightarrow> keeps_block b b') \<and>
    (\<forall>h p a t ep. ep_inv ep \<longrightarrow> ep_inv (fst (ee_resp env h p a t ep))) \<and>
    (\<forall>h p a ep. ep_inv ep \<longrightarrow> ep_inv (fst (ee_req env h p a ep)))"

lemma cor_loop_block:
  assumes "env_ok env" "cor_loop (ee_cor env) ns code (p, b) = Some (c, p', b')"
  shows "keeps_block b b'"
  using assms(2)
proof (induction ns arbitrary: code p b)
  case (Cons n ns)
  show ?case
  proof (cases "mc_handler n")
    case (Some h)
    then obtain c1 p1 b1 where s: "ee_cor env h (mc_nodeData n) (p, b) = Some (c1, p1, b1)"
      using Cons.prems by (auto split: option.splits prod.splits)
    then have "keeps_block b b1" using assms(1) unfolding env_ok_def by blast
    moreover have "keeps_block b1 b'"
      using Cons.prems Some s Cons.IH [of c1 p1 b1] by (auto simp: keeps_block_def split: if_splits)
    ultimately show ?thesis by (simp add: keeps_block_def)
  qed (use Cons.prems in \<open>simp add: keeps_block_def\<close>)
qed (simp add: keeps_block_def)

lemma MsgSend_block:
  assumes "env_ok env" "TransSessMsgSend (ee_cor env) snd_fn sess p b addr = Some (r, p', b', os)"
  shows "keeps_block b b'"
  using assms(2) cor_loop_block [OF assms(1)]
  by (fastforce simp: TransSessMsgSend_def TransSessMsgCorNodeProcess_def keeps_block_def Let_def split_beta
      split: if_splits option.splits prod.splits)

lemma buffer_inv_block:
  "buffer_inv ctx \<Longrightarrow> keeps_block (bx_buffer ctx) buf \<Longrightarrow> buffer_inv (ctx\<lparr>bx_buffer := buf\<rparr>)"
  by (cases "ub_buffer buf"; cases "ub_buffer (bx_buffer ctx)") (auto simp: buffer_inv_def block_ok_def keeps_block_def)

lemma buffer_step_ep:
  "ep_inv ep \<Longrightarrow> ep_inv (ep\<lparr>ep_sendBuf := buffer_step (ep_sendBuf ep) e\<rparr>)"
  using buffer_sizes_kept [of "ep_sendBuf ep" e] by (simp add: ep_inv_def buffer_run.step_inv)

lemma sent_buffer_short:
  assumes "buffer_inv ctx" "bx_allocSize ctx \<le> UTILS_BUFFER_MAX_ALLOC_SIZE" "bx_maxSize ctx \<le> UTILS_BUFFER_MAX_SIZE"
  shows "length (sent_buffer (bx_buffer ctx)) < 4294967296"
  using assms by (auto simp: buffer_inv_def block_ok_def sent_buffer_def split: option.splits)

lemma send_buffered_inv:
  assumes "env_ok env" "ep_inv ep" "send_buffered env ep pkt addr = Some (r, ep', pkt', os)"
  shows "ep_inv ep'"
proof -
  obtain buf os' where s: "TransSessMsgSend (ee_cor env) (ee_send env) (ep_sess ep) pkt (bx_buffer (ep_sendBuf ep)) addr =
      Some (r, pkt', buf, os')"
    and ep': "ep' = (let ep = ep\<lparr>ep_sendBuf := (ep_sendBuf ep)\<lparr>bx_buffer := buf\<rparr>\<rparr> in
      if r \<noteq> IOTC_OK then ep else snd (CoapRetransAddPacket env ep pkt' (sent_buffer buf) addr))"
    using assms(3) by (auto simp: send_buffered_def Let_def split: option.splits if_splits prod.splits)
  let ?ep = "ep\<lparr>ep_sendBuf := (ep_sendBuf ep)\<lparr>bx_buffer := buf\<rparr>\<rparr>"
  have i: "ep_inv ?ep"
    using assms(2) buffer_inv_block [OF _ MsgSend_block [OF assms(1) s]] by (simp add: ep_inv_def)
  then have "length (sent_buffer buf) < 4294967296"
    using sent_buffer_short [of "ep_sendBuf ?ep"] by (simp add: ep_inv_def)
  then show ?thesis
    using i retrans_inv_add [of ?ep "sent_buffer buf" env pkt' addr] by (auto simp: ep' ep_inv_def Let_def)
qed

lemma release_inv: "ep_inv ep \<Longrightarrow> ep_inv (release_send env ep)"
  using buffer_step_ep [of ep "BRelease (ee_mem env 2)"] by (simp add: release_send_def)

lemma SendPacket_inv:
  assumes "env_ok env" "ep_inv ep" "CoapEndpointSendPacket env ep b pkt n addr = Some (r, ep', pkt', os)"
  shows "ep_inv ep'"
proof -
  define e1 where "e1 = ep\<lparr>ep_sendBuf := snd (UtilsGetBuffer (ee_mem env 0) (ep_sendBuf ep))\<rparr>"
  have i1: "ep_inv e1" using buffer_step_ep [OF assms(2), of "BGet (ee_mem env 0)"] by (simp add: e1_def)
  define e2 where "e2 = (if n > ub_size (bx_buffer (ep_sendBuf e1)) then e1\<lparr>ep_sendBuf := snd (UtilsExpendBuffer (ee_mem env 1) (ep_sendBuf e1) n)\<rparr> else e1)"
  have i2: "ep_inv e2" using buffer_step_ep [OF i1, of "BExpend (ee_mem env 1) n"] i1 by (simp add: e2_def)
  have i3: "ep_inv (e2\<lparr>ep_sendBuf := buffer_write d (ep_sendBuf e2)\<rparr>)" for d
    using buffer_step_ep [OF i2, of "BWrite d"] by simp
  have "ep' = e1 \<or> ep' = release_send env e2 \<or> (\<exists>d. ep' = release_send env (e2\<lparr>ep_sendBuf := buffer_write d (ep_sendBuf e2)\<rparr>)) \<or>
      (\<exists>d p r e p' os. send_buffered env (e2\<lparr>ep_sendBuf := buffer_write d (ep_sendBuf e2)\<rparr>) p addr = Some (r, e, p', os) \<and> ep' = release_send env e)"
    using assms(3)
    by (auto simp: CoapEndpointSendPacket_def Let_def split_beta e1_def e2_def split: option.splits if_splits) blast+
  then show ?thesis using i1 i2 i3 release_inv send_buffered_inv [OF assms(1)] by metis
qed

lemma SendCSM_inv:
  assumes "env_ok env" "ep_inv ep" "CoapEndpointSendCSM env ep pkt addr = Some (r, ep', pkt', os)"
  shows "ep_inv ep'"
proof -
  define e1 where "e1 = ep\<lparr>ep_sendBuf := snd (UtilsGetBuffer (ee_mem env 0) (ep_sendBuf ep))\<rparr>"
  have i1: "ep_inv e1" using buffer_step_ep [OF assms(2), of "BGet (ee_mem env 0)"] by (simp add: e1_def)
  have i2: "ep_inv (e1\<lparr>ep_sendBuf := buffer_write csmMsg (ep_sendBuf e1)\<rparr>)"
    using buffer_step_ep [OF i1, of "BWrite csmMsg"] by simp
  have "ep' = e1 \<or> (\<exists>r e p' os. send_buffered env (e1\<lparr>ep_sendBuf := buffer_write csmMsg (ep_sendBuf e1)\<rparr>) pkt addr = Some (r, e, p', os) \<and>
      ep' = release_send env e)"
    using assms(3) by (auto simp: CoapEndpointSendCSM_def Let_def split_beta e1_def split: option.splits if_splits)
  then show ?thesis using i1 i2 release_inv send_buffered_inv [OF assms(1)] by metis
qed

lemma take_req_sub:
  "take_req P ns = Some (n, ms) \<Longrightarrow> length ns = Suc (length ms) \<and> set ms \<subseteq> set ns \<and> n \<in> set ns \<and> P n"
  by (induction ns arbitrary: n ms) (auto split: if_splits)

lemma GetRespHandler_inv: "ep_inv ep \<Longrightarrow> ep_inv (snd (GetRespHandler ep pkt))"
  using take_req_sub [of "req_match (ep_client ep) pkt" "cl_reqList (ep_client ep)"]
  by (fastforce simp: GetRespHandler_def ep_inv_def client_inv_def req_less_unat Let_def split: option.splits)

lemma GetTimeout_inv: "ep_inv ep \<Longrightarrow> ep_inv (snd (GetTimeoutRespHandler ep cur))"
proof -
  assume ep: "ep_inv ep"
  let ?cli = "ep_client ep"
  have "length (filter (\<lambda>n. \<not> req_expired cur (cl_timeout ?cli) n) (cl_reqList ?cli)) =
      length (cl_reqList ?cli) - length (filter (req_expired cur (cl_timeout ?cli)) (cl_reqList ?cli))"
    using sum_length_filter_compl [of "req_expired cur (cl_timeout ?cli)" "cl_reqList ?cli"] by simp
  then show ?thesis
    using ep by (auto simp: GetTimeoutRespHandler_def ep_inv_def client_inv_def Let_def split_beta timeout_scan_list timeout_scan_cnt
        intro: order_trans [OF length_filter_le])
qed

lemma loop_inv:
  assumes "resp_timeout_loop env cur ep os = Some r"
  shows "env_ok env \<longrightarrow> ep_inv ep \<longrightarrow> ep_inv (fst r)"
proof (rule resp_timeout_loop.raw_induct [where P = "\<lambda>env cur ep os r. env_ok env \<longrightarrow> ep_inv ep \<longrightarrow> ep_inv (fst r)", OF _ assms])
  fix loop :: "coap_env \<Rightarrow> u32 \<Rightarrow> CoapEndpoint \<Rightarrow> coap_out list \<Rightarrow> (CoapEndpoint \<times> coap_out list) option"
    and env cur ep os r
  assume ih: "\<And>env cur ep os r. loop env cur ep os = Some r \<Longrightarrow> env_ok env \<longrightarrow> ep_inv ep \<longrightarrow> ep_inv (fst r)"
  let ?ep1 = "snd (GetTimeoutRespHandler ep cur)"
  assume body: "(case fst (GetTimeoutRespHandler ep cur) of None \<Rightarrow> Some (?ep1, os)
      | Some h \<Rightarrow> loop env cur (fst (ee_resp env h None None True ?ep1))
           (os @ Resp_call h None None True # snd (ee_resp env h None None True ?ep1))) = Some r"
  show "env_ok env \<longrightarrow> ep_inv ep \<longrightarrow> ep_inv (fst r)"
  proof (intro impI)
    assume env: "env_ok env" and "ep_inv ep"
    then have i: "ep_inv ?ep1" by (intro GetTimeout_inv)
    show "ep_inv (fst r)"
    proof (cases "fst (GetTimeoutRespHandler ep cur)")
      case None
      then show ?thesis using body i by auto
    next
      case (Some h)
      moreover have "ep_inv (fst (ee_resp env h None None True ?ep1))" using env i unfolding env_ok_def by blast
      ultimately show ?thesis using body ih env by fastforce
    qed
  qed
qed

lemma TimeoutCheck_inv: "env_ok env \<Longrightarrow> ep_inv ep \<Longrightarrow> CoapClientRespTimeoutCheck env ep = Some (ep', os) \<Longrightarrow> ep_inv ep'"
  using loop_inv by (fastforce simp: CoapClientRespTimeoutCheck_def)

lemma InsertReq_inv:
  assumes "env_ok env" "ep_inv ep" "CoapClientInsertReq env ep i t l (Some h) = Some (r, ep', os)"
  shows "ep_inv ep'"
proof -
  obtain e1 os1 where c: "CoapClientRespTimeoutCheck env ep = Some (e1, os1)"
    using assms(3) by (auto simp: CoapClientInsertReq_def split: option.splits)
  have i: "ep_inv e1" by (rule TimeoutCheck_inv [OF assms(1,2) c])
  have cnt: "unat (cl_reqCnt (ep_client e1) + 1) = unat (cl_reqCnt (ep_client e1)) + 1" "unat (cl_reqCnt (ep_client e1)) < 255"
    if "\<not> cl_reqCnt (ep_client e1) \<ge> 255"
    using that by (simp_all add: word_le_nat_alt unat_word_ariths)
  show ?thesis
    using assms(3) c i cnt by (auto simp: CoapClientInsertReq_def ep_inv_def client_inv_def Let_def split: if_splits)
qed

lemma GetMsgId_inv: "ep_inv ep \<Longrightarrow> ep_inv (snd (GetMsgId ep))"
  by (simp add: ep_inv_def client_inv_def)

lemma SendReq_inv:
  assumes "env_ok env" "ep_inv ep" "CoapClientSendReq env ep param addr = Some (r, ep', os)"
  shows "ep_inv ep'"
proof -
  obtain r1 e1 pkt os1 where s: "CoapEndpointSendPacket env (snd (GetMsgId ep)) (req_build env ep param) zero_packet (qp_preSize param) addr =
      Some (r1, e1, pkt, os1)"
    using assms(3) by (auto simp: SendReq_eq split: option.splits prod.splits)
  have i: "ep_inv e1" by (rule SendPacket_inv [OF assms(1) GetMsgId_inv [OF assms(2)] s])
  show ?thesis
    using assms(3) s i InsertReq_inv [OF assms(1) i] by (auto simp: SendReq_eq split: option.splits if_splits prod.splits)
qed

lemma SendResp_inv:
  assumes "env_ok env" "ep_inv ep" "CoapServerSendResp env ep param addr = Some (r, ep', os)"
  shows "ep_inv ep'"
  using assms SendPacket_inv [OF assms(1,2)] by (auto simp: SendResp_eq split: if_splits)

lemma resp_call_inv: "env_ok env \<Longrightarrow> ep_inv ep \<Longrightarrow> ep_inv (fst (ee_resp env h p a t ep))"
  by (simp add: env_ok_def)

lemma req_call_inv: "env_ok env \<Longrightarrow> ep_inv ep \<Longrightarrow> ep_inv (fst (ee_req env h p a ep))"
  by (simp add: env_ok_def)

lemma ServerRecv_inv:
  assumes "env_ok env" "ep_inv ep"
  shows "ep_inv (fst (snd (CoapEndpointServerRecvReqPacket env ep pkt addr)))"
  using assms req_call_inv [OF assms]
  by (auto simp: CoapEndpointServerRecvReqPacket_def CoapReqHandler_def Let_def split_beta split: sum.splits option.splits)

lemma RecvPacket_inv:
  assumes "env_ok env" "ep_inv ep" "CoapEndpointRecvPacket env ep pkt addr = Some (r, ep', os)"
  shows "ep_inv ep'"
proof -
  define e1 where "e1 = (case fst (GetRespHandler ep pkt) of None \<Rightarrow> snd (GetRespHandler ep pkt)
    | Some h \<Rightarrow> fst (ee_resp env h (Some pkt) addr False (snd (GetRespHandler ep pkt))))"
  have i: "ep_inv e1"
    using GetRespHandler_inv [OF assms(2), of pkt] resp_call_inv [OF assms(1)] by (auto simp: e1_def split: option.split)
  have "ep' = ep \<or> ep' = fst (snd (CoapEndpointServerRecvReqPacket env ep pkt addr)) \<or> (\<exists>os. CoapClientRespTimeoutCheck env e1 = Some (ep', os))"
    using assms(3)
    by (auto simp: CoapEndpointRecvPacket_def CoapEndpointClientRecvRespPacket_def e1_def Let_def split_beta split: if_splits option.splits)
  then show ?thesis using assms ServerRecv_inv [OF assms(1,2)] TimeoutCheck_inv [OF assms(1) i] by auto
qed

text \<open>The calls on an endpoint that is set up; a call that does not return leaves no endpoint to speak of.\<close>

datatype ep_op =
    ESendReq coap_env CoapClientReqParam "SocketAddr option"
  | ESendResp coap_env CoapServerRespParam "SocketAddr option"
  | ESendCSM coap_env CoapPacket "SocketAddr option"
  | ERecv coap_env CoapPacket "SocketAddr option"
  | ECheck coap_env
  | EDispatch coap_env
  | ESetTokenLen u8
  | ESetTimeout u32
  | EDefaultHandler "nat option"
  | EAddResource bool nat "CoapResource list"
  | ERemoveResource nat

fun ep_step :: "CoapEndpoint \<Rightarrow> ep_op \<Rightarrow> CoapEndpoint" where
  "ep_step ep (ESendReq env p a) = (case CoapClientSendReq env ep p a of None \<Rightarrow> ep | Some (r, ep', os) \<Rightarrow> ep')"
| "ep_step ep (ESendResp env p a) = (case CoapServerSendResp env ep p a of None \<Rightarrow> ep | Some (r, ep', os) \<Rightarrow> ep')"
| "ep_step ep (ESendCSM env p a) = (case CoapClientSendCSM env ep p a of None \<Rightarrow> ep | Some (r, ep', os) \<Rightarrow> ep')"
| "ep_step ep (ERecv env p a) = (case CoapEndpointRecvPacket env ep p a of None \<Rightarrow> ep | Some (r, ep', os) \<Rightarrow> ep')"
| "ep_step ep (ECheck env) = snd (CoapEndpointSourceCheck env ep)"
| "ep_step ep (EDispatch env) = (case RetransSourceDispatch env ep of None \<Rightarrow> ep | Some (ep', os) \<Rightarrow> ep')"
| "ep_step ep (ESetTokenLen l) = snd (CoapClientSetTokenLen ep l)"
| "ep_step ep (ESetTimeout t) = snd (CoapClientSetRespTimeout ep t)"
| "ep_step ep (EDefaultHandler h) = snd (CoapClientAddDefaultRespHandler ep h)"
| "ep_step ep (EAddResource m a rs) = snd (CoapServerAddResource m ep a rs)"
| "ep_step ep (ERemoveResource a) = CoapServerRemoveResource ep a"

fun op_ok :: "ep_op \<Rightarrow> bool" where
  "op_ok (ESendReq env p a) = env_ok env"
| "op_ok (ESendResp env p a) = env_ok env"
| "op_ok (ESendCSM env p a) = env_ok env"
| "op_ok (ERecv env p a) = env_ok env"
| "op_ok (EDispatch env) = env_ok env"
| "op_ok _ = True"

lemma Check_inv: "ep_inv ep \<Longrightarrow> ep_inv (snd (CoapEndpointSourceCheck env ep))"
  using retrans_inv_check [of ep "ee_now env"]
  by (auto simp: CoapEndpointSourceCheck_def ep_inv_def CoapEndpointRetransCheck_def Let_def split_beta)

lemma Dispatch_inv:
  assumes "env_ok env" "ep_inv ep" "RetransSourceDispatch env ep = Some (ep', os)"
  shows "ep_inv ep'"
proof -
  obtain e1 os1 where c: "CoapClientRespTimeoutCheck env ep = Some (e1, os1)" "ep' = fst (CoapEndpointRetransDispatch env e1)"
    using assms(3) by (auto simp: RetransSourceDispatch_def Let_def split_beta split: option.splits)
  have "ep_inv e1" by (rule TimeoutCheck_inv [OF assms(1,2) c(1)])
  then show ?thesis
    using retrans_inv_dispatch [of e1 env]
    by (auto simp: c(2) ep_inv_def CoapEndpointRetransDispatch_def Let_def split_beta split: if_splits)
qed

lemma settings_inv:
  assumes "ep_inv ep"
  shows "ep_inv (snd (CoapClientSetTokenLen ep l))" "ep_inv (snd (CoapClientSetRespTimeout ep t))"
    "ep_inv (snd (CoapClientAddDefaultRespHandler ep h))" "ep_inv (snd (CoapServerAddResource m ep a rs))"
    "ep_inv (CoapServerRemoveResource ep a)"
  using assms
  by (simp_all add: ep_inv_def client_inv_def CoapClientSetTokenLen_def CoapClientSetRespTimeout_def
      CoapClientAddDefaultRespHandler_def CoapServerAddResource_def CoapServerRemoveResource_def)

interpretation endpoint_run: guarded_system ep_step ep_inv op_ok
proof
  fix e s assume ok: "op_ok e" and inv: "ep_inv s"
  show "ep_inv (ep_step s e)"
  proof (cases e)
    case (ESendCSM env p a)
    then show ?thesis using ok inv SendCSM_inv [of env s p a] by (auto simp: CoapClientSendCSM_def split: option.splits)
  qed (use ok inv in \<open>auto simp: settings_inv Check_inv split: option.splits dest: SendReq_inv SendResp_inv RecvPacket_inv Dispatch_inv\<close>)
qed


lemma open_endpoint_inv: "ep_inv open_endpoint"
  using open_endpoint_sends
  by (simp add: ep_inv_def client_inv_def retrans_inv_def can_send_def open_endpoint_def zero_endpoint_def CoapEndpointClientInit_def
      UtilsBufferCtxNew_def Let_def)


end
