(* ===== verification/Coap_Exchange.thy ===== *)
theory Coap_Exchange
  imports Coap_Client
begin

text \<open>
  A request and its answer through two endpoints: the client's endpoint, the codec, the link, the
  server's session with its chain of handlers, the resource that the URI names, and the way back to the
  callback of the request.
\<close>

section \<open>Receiving\<close>

text \<open>
  A packet on the wire goes through the socket, the link and the session to the endpoint; the link
  itself gets its buffer back.
\<close>

definition receive :: "coap_env \<Rightarrow> SocketAddr \<Rightarrow> bytes \<Rightarrow> CoapEndpoint \<Rightarrow> (CoapEndpoint \<times> coap_out list) option" where
  "receive env addr w ep =
    map_option (\<lambda>(lk, los, ep, os). (ep, os @ map Net los))
      (TransLinkRecvReadEvent (\<lambda>_. True) (wire_recv w addr) (wire_recv w addr)
        (SessionOnLinkRecvData (\<lambda>addr. coap_cor env (Some addr) (\<lambda>h d st. Some (SESS_CODE_CONTINUE, st))) zero_packet (ep_sess ep))
        (tr_link (ep_sess ep)) (ep, []))"

definition listens :: "TransSess \<Rightarrow> bool" where
  "listens sess \<longleftrightarrow> can_read (tr_link sess) \<and> tl_dataFunc (tr_link sess) = Some SessionOnLinkRecvData_fn \<and> tr_msg sess \<and> tr_msgSize sess \<noteq> 0 \<and>
    map mc_handler (tr_recvCor sess) = [Some SessMsgProcessCoapDecode_fn, Some SessMsgProcessCoapEndpoint_fn]"

lemma SessSetup_listens:
  "can_read (tr_link sess) \<Longrightarrow> tl_dataFunc (tr_link sess) = Some SessionOnLinkRecvData_fn \<Longrightarrow> tr_msg sess \<Longrightarrow> tr_msgSize sess \<noteq> 0 \<Longrightarrow>
    tr_recvCor sess = [] \<Longrightarrow> listens (CoapEndpointSessSetup (\<lambda>_. True) sess)"
  by (simp add: listens_def CoapEndpointSessSetup_def TransSessAddRecvTailHandler_def TransSessAddRecvHeadHandler_def
    AddCorListHandler_def MsgCorNew_def)

lemma receive_ok:
  assumes "listens (ep_sess ep)" "w \<noteq> []" "length w < bx_allocSize (tl_buffer (tr_link (ep_sess ep)))"
    "ee_decode env zero_packet (Some w) = Inr q" "CoapEndpointRecvPacket env ep q (Some addr) = Some (IOTC_OK, ep', os)"
  shows "receive env addr w ep = Some (ep', os)"
proof -
  let ?data = "SessionOnLinkRecvData (\<lambda>addr. coap_cor env (Some addr) (\<lambda>h d st. Some (SESS_CODE_CONTINUE, st))) zero_packet (ep_sess ep)"
  have l: "can_read (tr_link (ep_sess ep))" "tl_dataFunc (tr_link (ep_sess ep)) = Some 1" using assms(1) by (simp_all add: listens_def)
  obtain buf where b: "ub_buffer buf = Some (w @ replicate (ub_size buf - length w) 0)" "ub_len buf = length w"
    "bx_allocSize (tl_buffer (tr_link (ep_sess ep))) \<le> ub_size buf"
    and ev: "\<And>s r buf' s'. ?data 1 buf addr s = Some (r, buf', s') \<Longrightarrow>
       \<exists>lk'. TransLinkRecvReadEvent (\<lambda>_. True) (wire_recv w addr) (wire_recv w addr) ?data (tr_link (ep_sess ep)) s =
         Some (lk', if r \<noteq> IOTC_OK then TransLinkRecvErrorEvent (tr_link (ep_sess ep)) else [], s') \<and> bx_sem (tl_buffer lk') = 1"
    by (rule read_event_hands_over [OF l, of w "\<lambda>_. True" ?data addr "wire_recv w addr"]) (use assms(3) in \<open>auto\<close>)
  obtain c1 c2 where c: "tr_recvCor (ep_sess ep) = [c1, c2]" "mc_handler c1 = Some 1" "mc_handler c2 = Some 2"
    using assms(1) by (auto simp: listens_def)
  have sb: "sent_buffer buf = w" by (simp add: sent_buffer_def b)
  have "?data 1 buf addr (ep, []) = Some (IOTC_OK, buf, ep', os)"
    using assms b sb c
    by (simp add: SessionOnLinkRecvData_def TransSessMsgRecv_def TransSessMsgCorNodeProcess_def coap_cor_def SessMsgProcessCoapDecode_def
      SessMsgProcessCoapEndpoint_def listens_def)
  from ev [OF this] show ?thesis by (auto simp: receive_def)
qed

section \<open>The request\<close>

lemma length_udp_wire:
  "build_ok b \<Longrightarrow> length (udp_wire b d) = 5 + unat (ch_tkl (bp_header b)) + length (options_bytes 0 (bp_options b)) + length d"
  by (simp add: udp_wire_def build_ok_def Let_def min_def)

lemma token_length [simp]: "n \<le> 8 \<Longrightarrow> length (overwrite (replicate 8 0) 0 (take n xs)) = 8"
  by (simp add: overwrite_def)

text \<open>A request with a payload for a method of class 0, and room for it.\<close>

definition request_ok :: "CoapClientReqParam \<Rightarrow> bytes \<Rightarrow> CoapEndpoint \<Rightarrow> bool" where
  "request_ok param d ep \<longleftrightarrow> qp_type param < 4 \<and> qp_code param \<noteq> 0 \<and> COAP_CODE_CLASS (qp_code param) = COAP_CODE_CLASS_REQ \<and>
    length (qp_options param) \<le> 16 \<and> options_ok 0 (qp_options param) \<and> d \<noteq> [] \<and>
    qp_payload param = Some \<lparr>cd_data = Some d, cd_len = length d\<rparr> \<and> qp_payloadBuilder param = None \<and> qp_preSize param = 0 \<and>
    unat (cl_tkl (ep_client ep)) \<le> 8 \<and>
    5 + unat (cl_tkl (ep_client ep)) + length (options_bytes 0 (qp_options param)) + length d \<le> bx_allocSize (ep_sendBuf ep)"

lemma request_builds:
  assumes "request_ok param d ep"
  shows "can_build (req_build env ep param) d 0 ep"
proof -
  have b: "build_ok (req_build env ep param)"
    using assms by (simp add: request_ok_def build_ok_def req_build_def Let_def)
  then show ?thesis
    using assms length_udp_wire [OF b, of d] by (simp add: can_build_def request_ok_def req_build_def Let_def)
qed

text \<open>The record of a request that was sent.\<close>

definition waits_for :: "coap_env \<Rightarrow> CoapEndpoint \<Rightarrow> CoapClientReqParam \<Rightarrow> CoapReqNode \<Rightarrow> bool" where
  "waits_for env ep param nd \<longleftrightarrow> rq_msgId nd = fst (GetMsgId ep) \<and> rq_respHandler nd = qp_respHandler param \<and>
    take (unat (cl_tkl (ep_client ep))) (rq_token nd) =
      take (unat (cl_tkl (ep_client ep))) (bp_token (req_build env ep param))"

lemma SendReq_ok:
  assumes "can_send env ep" "request_ok param d ep" "\<not> ep_locked ep" "none_expired (ee_now env) ep"
    "cl_reqCnt (ep_client ep) < COAP_ENDPOINT_CLIENT_REQ_MAX_CNT" "qp_respHandler param \<noteq> None" "ee_mem env 5"
  shows "\<exists>ep' nd. CoapClientSendReq env ep param addr =
      Some (IOTC_OK, ep', [Net (Sock_send (tl_sendTmo (tr_link (ep_sess ep))) (udp_wire (req_build env ep param) d) addr)]) \<and>
    cl_reqList (ep_client ep') = cl_reqList (ep_client ep) @ [nd] \<and> waits_for env ep param nd \<and> \<not> ep_locked ep' \<and>
    ep_sess ep' = ep_sess ep \<and> cl_tkl (ep_client ep') = cl_tkl (ep_client ep) \<and> cl_timeout (ep_client ep') = cl_timeout (ep_client ep)"
proof -
  let ?b = "req_build env ep param" and ?n = "unat (cl_tkl (ep_client ep))"
  have pre: "qp_preSize param = 0" "?n \<le> 8" using assms(2) by (simp_all add: request_ok_def)
  obtain ep1 pkt where s: "CoapEndpointSendPacket env (snd (GetMsgId ep)) ?b zero_packet 0 addr =
      Some (IOTC_OK, ep1, pkt, [Net (Sock_send (tl_sendTmo (tr_link (ep_sess ep))) (udp_wire ?b d) addr)])"
    "ck_header pkt = (bp_header ?b)\<lparr>ch_ver := 1\<rparr>" "take (unat (ch_tkl (bp_header ?b))) (ck_token pkt) = take (unat (ch_tkl (bp_header ?b))) (bp_token ?b)"
    using SendPacket_ok [of env "snd (GetMsgId ep)" ?b d 0 addr] assms(1) request_builds [OF assms(2), of env] by auto
  note f = SendPacket_frame [OF s(1)]
  have h: "ch_tkl (bp_header ?b) = cl_tkl (ep_client ep)" "ch_msgId (bp_header ?b) = fst (GetMsgId ep)"
    by (simp_all add: req_build_def Let_def)
  define nd where "nd = \<lparr>rq_time = ee_ins env, rq_msgId = fst (GetMsgId ep),
    rq_token = overwrite (replicate 8 0) 0 (take ?n (ck_token pkt)), rq_respHandler = qp_respHandler param\<rparr>"
  have ne: "none_expired (ee_now env) ep1" using f assms(4) by (simp add: none_expired_def)
  have ins: "CoapClientInsertReq env ep1 (fst (GetMsgId ep)) (ck_token pkt) (cl_tkl (ep_client ep)) (qp_respHandler param) =
      Some (IOTC_OK, ep1\<lparr>ep_client := (ep_client ep1)\<lparr>cl_reqList := cl_reqList (ep_client ep1) @ [nd],
        cl_reqCnt := cl_reqCnt (ep_client ep1) + 1\<rparr>\<rparr>, [])"
    using ne f assms(3,5,7) pre(2)
    by (simp add: CoapClientInsertReq_def CoapClientRespTimeoutCheck_def loop_none_expired nd_def Let_def)
  have "length (bp_token ?b) = 8" using pre(2) by (simp add: req_build_def Let_def)
  then have "waits_for env ep param nd"
    using s(3) h pre(2) by (simp add: waits_for_def nd_def overwrite_def)
  then show ?thesis using s h ins f assms(3,6) pre(1) by (auto simp: SendReq_eq)
qed

section \<open>The answer\<close>

text \<open>A server whose resource for a URI has a handler that sends an answer, with everything the handler is given.\<close>

record answer =
  an_type :: u8
  an_code :: u8
  an_options :: "CoapOption list"
  an_payload :: bytes

definition answer_param :: "answer \<Rightarrow> CoapPacket \<Rightarrow> CoapServerRespParam" where
  "answer_param an q = \<lparr>sq_req = q, sq_type = an_type an, sq_code = an_code an, sq_options = an_options an,
     sq_payload = Some \<lparr>cd_data = Some (an_payload an), cd_len = length (an_payload an)\<rparr>, sq_payloadBuilder = None, sq_preSize = 0\<rparr>"

definition answers :: "coap_env \<Rightarrow> coap_env \<Rightarrow> nat \<Rightarrow> answer \<Rightarrow> bool" where
  "answers env env' h an \<longleftrightarrow> (\<forall>q a ep. ee_req env h q a ep =
    (case CoapServerSendResp env' ep (answer_param an q) a of None \<Rightarrow> (ep, []) | Some (r, ep', os) \<Rightarrow> (ep', os)))"

definition answer_ok :: "answer \<Rightarrow> nat \<Rightarrow> CoapEndpoint \<Rightarrow> bool" where
  "answer_ok an tkl ep \<longleftrightarrow> an_type an < 4 \<and> COAP_CODE_CLASS (an_code an) \<noteq> COAP_CODE_CLASS_REQ \<and> length (an_options an) \<le> 16 \<and>
    options_ok 0 (an_options an) \<and> an_payload an \<noteq> [] \<and>
    5 + tkl + length (options_bytes 0 (an_options an)) + length (an_payload an) \<le> bx_allocSize (ep_sendBuf ep)"

lemma code_class_zero [simp]: "COAP_CODE_CLASS 0 = 0"
  by (simp add: COAP_CODE_CLASS_def)

lemma answer_builds:
  assumes "answer_ok an (unat (ch_tkl (ck_header q))) ep" "unat (ch_tkl (ck_header q)) \<le> 8"
  shows "can_build (resp_build (answer_param an q)) (an_payload an) 0 ep"
proof -
  have "an_code an \<noteq> 0" using assms(1) by (auto simp: answer_ok_def)
  then have b: "build_ok (resp_build (answer_param an q))"
    using assms by (simp add: answer_ok_def build_ok_def resp_build_def answer_param_def Let_def)
  then show ?thesis
    using assms length_udp_wire [OF b, of "an_payload an"] by (simp add: can_build_def answer_ok_def resp_build_def answer_param_def Let_def)
qed

text \<open>A request reaches the handler of its resource, and the answer goes out to the sender.\<close>

lemma server_answers:
  assumes env: "can_send env' ep" "answers env env' hs an" "\<forall>c p a. ee_checker env c p a"
    and q: "COAP_CODE_CLASS (ch_code (ck_header q)) = COAP_CODE_CLASS_REQ" "unat (ch_tkl (ck_header q)) \<le> 8"
    and uri: "segments (CoapUtilsFindOption q COAP_OPTION_TYPE_URI_PATH) ps" "ps \<noteq> []"
      "segments (CoapUtilsFindOption q COAP_OPTION_TYPE_URI_QUERY) qs"
      "length (join CHAR_SLASH ps) < 127" "length (uri_text ps qs) \<le> COAP_URI_MAX_LEN"
    and res: "find_resource (uri_text ps qs) (es_resList (ep_server ep)) = Some rs" "rc_handler rs = Some hs"
    and ep: "\<not> ep_locked ep" "\<forall>n \<in> set (re_retransList (ep_retrans ep)). rp_msgId (rt_param n) \<noteq> ch_msgId (ck_header q)"
    and an: "answer_ok an (unat (ch_tkl (ck_header q))) ep"
  shows "\<exists>ep'. CoapEndpointRecvPacket env ep q (Some a) = Some (IOTC_OK, ep', [Req_call hs q (Some a),
    Net (Sock_send (tl_sendTmo (tr_link (ep_sess ep))) (udp_wire (resp_build (answer_param an q)) (an_payload an)) (Some a))])"
proof -
  have fresh: "find (retrans_match q a) (re_retransList (ep_retrans ep)) = None"
    using ep(2) by (auto simp: find_None_iff retrans_match_def)
  obtain buf where u: "CoapUtilsGetUri q (replicate 129 0) 128 = Inr buf" "cstr buf = uri_text ps qs"
    using GetUri_text [OF uri] by auto
  obtain ep' pkt where s: "CoapEndpointSendPacket env' ep (resp_build (answer_param an q)) zero_packet 0 (Some a) =
      Some (IOTC_OK, ep', pkt, [Net (Sock_send (tl_sendTmo (tr_link (ep_sess ep))) (udp_wire (resp_build (answer_param an q)) (an_payload an)) (Some a))])"
    using SendPacket_ok [OF env(1) answer_builds [OF an q(2)], of "Some a"] by blast
  have r: "sq_req (answer_param an q) = q" "sq_preSize (answer_param an q) = 0" by (simp_all add: answer_param_def)
  have "ee_req env hs q (Some a) ep =
      (ep', [Net (Sock_send (tl_sendTmo (tr_link (ep_sess ep))) (udp_wire (resp_build (answer_param an q)) (an_payload an)) (Some a))])"
    using env(2) s q(2) r by (simp add: answers_def SendResp_eq)
  then show ?thesis
    using q(1) u ep(1) res env(3) fresh
    by (simp add: CoapEndpointRecvPacket_def CoapEndpointRecvPacketRetransProcess_def CoapEndpointServerRecvReqPacket_def
      CoapReqChecker_def CoapReqHandler_def Let_def split: option.split)
qed

text \<open>An answer reaches the callback of its request, and the request stops waiting.\<close>

lemma take_req_snoc: "\<forall>n \<in> set ns. \<not> P n \<Longrightarrow> P m \<Longrightarrow> take_req P (ns @ [m]) = Some (m, ns)"
  by (induction ns) auto

lemma client_hears:
  assumes ep: "\<not> ep_locked ep" "cl_reqList (ep_client ep) = ns @ [nd]" "rq_respHandler nd = Some h"
    and q: "COAP_CODE_CLASS (ch_code (ck_header q)) \<noteq> COAP_CODE_CLASS_REQ" "ch_msgId (ck_header q) = rq_msgId nd"
      "ch_tkl (ck_header q) = cl_tkl (ep_client ep)"
      "take (unat (ch_tkl (ck_header q))) (ck_token q) = take (unat (ch_tkl (ck_header q))) (rq_token nd)"
    and fresh: "\<forall>n \<in> set ns. rq_msgId n \<noteq> rq_msgId nd"
    and env: "\<forall>h p a t ep. ee_resp env h p a t ep = (ep, [])" "\<forall>n \<in> set ns. \<not> req_expired (ee_now env) (cl_timeout (ep_client ep)) n"
  shows "\<exists>ep'. CoapEndpointRecvPacket env ep q a = Some (IOTC_OK, ep', [Resp_call h (Some q) a False]) \<and>
    cl_reqList (ep_client ep') = ns"
proof -
  have t: "take_req (req_match (ep_client ep) q) (cl_reqList (ep_client ep)) = Some (nd, ns)"
    unfolding ep(2) using q fresh by (intro take_req_snoc) (auto simp: req_match_def)
  define ep1 where "ep1 = ep\<lparr>ep_client := (ep_client ep)\<lparr>cl_reqList := ns, cl_reqCnt := req_less (cl_reqCnt (ep_client ep))\<rparr>\<rparr>"
  have "GetRespHandler ep q = (Some h, ep1)" using t ep by (simp add: GetRespHandler_def ep1_def Let_def)
  moreover have "none_expired (ee_now env) ep1" using env(2) by (simp add: none_expired_def ep1_def)
  ultimately have "CoapEndpointRecvPacket env ep q a = Some (IOTC_OK, ep1, [Resp_call h (Some q) a False])"
    using q(1) env(1)
    by (simp add: CoapEndpointRecvPacket_def CoapEndpointClientRecvRespPacket_def CoapClientRespTimeoutCheck_def loop_none_expired)
  then show ?thesis by (auto simp: ep1_def)
qed

section \<open>The exchange\<close>

text \<open>A client that may send a request, and hear the answer to it later.\<close>

definition client_ready :: "coap_env \<Rightarrow> coap_env \<Rightarrow> CoapEndpoint \<Rightarrow> CoapClientReqParam \<Rightarrow> bytes \<Rightarrow> bool" where
  "client_ready env env' ep param d \<longleftrightarrow> can_send env ep \<and> ee_mem env 5 \<and> request_ok param d ep \<and> \<not> ep_locked ep \<and> listens (ep_sess ep) \<and>
    none_expired (ee_now env) ep \<and> none_expired (ee_now env') ep \<and>
    cl_reqCnt (ep_client ep) < COAP_ENDPOINT_CLIENT_REQ_MAX_CNT \<and>
    (\<forall>n \<in> set (cl_reqList (ep_client ep)). rq_msgId n \<noteq> cl_msgId (ep_client ep)) \<and>
    ee_decode env' = CoapUdpDecode \<and> (\<forall>h p a t ep. ee_resp env' h p a t ep = (ep, []))"

text \<open>A server with a resource for the URI, whose handler answers.\<close>

definition server_ready :: "coap_env \<Rightarrow> coap_env \<Rightarrow> CoapEndpoint \<Rightarrow> bytes \<Rightarrow> nat \<Rightarrow> answer \<Rightarrow> bool" where
  "server_ready env env' ep uri hs an \<longleftrightarrow> can_send env' ep \<and> answers env env' hs an \<and> (\<forall>c p a. ee_checker env c p a) \<and>
    ee_decode env = CoapUdpDecode \<and> listens (ep_sess ep) \<and> \<not> ep_locked ep \<and>
    (\<exists>rs. find_resource uri (es_resList (ep_server ep)) = Some rs \<and> rc_handler rs = Some hs)"

definition uri_ok :: "CoapOption list \<Rightarrow> bytes list \<Rightarrow> bytes list \<Rightarrow> bool" where
  "uri_ok opts ps qs \<longleftrightarrow> segments (find_option COAP_OPTION_TYPE_URI_PATH opts) ps \<and> ps \<noteq> [] \<and>
    segments (find_option COAP_OPTION_TYPE_URI_QUERY opts) qs \<and> length (join CHAR_SLASH ps) < 127 \<and>
    length (uri_text ps qs) \<le> COAP_URI_MAX_LEN"

lemma zero_packet_lengths [simp]: "length (ck_options zero_packet) = 16" "length (ck_token zero_packet) = 8"
  by (simp_all add: zero_packet_def)

text \<open>
  C3. A request is answered end to end: the client's endpoint sends the request, the server's
  session decodes it, the resource that the URI spells has its handler called with the payload, its
  answer goes to the sender, and the client's session hands it to the callback of exactly that
  request, which no longer waits; all other requests still do.
\<close>

theorem coap_exchange:
  assumes A: "client_ready envA envA' A param d" "qp_respHandler param = Some h"
    and B: "server_ready envB envB' B (uri_text ps qs) hs an" "uri_ok (qp_options param) ps qs"
      "\<forall>n \<in> set (re_retransList (ep_retrans B)). rp_msgId (rt_param n) \<noteq> cl_msgId (ep_client A)"
      "answer_ok an (unat (cl_tkl (ep_client A))) B"
    and size: "bx_allocSize (ep_sendBuf A) < bx_allocSize (tl_buffer (tr_link (ep_sess B)))"
      "bx_allocSize (ep_sendBuf B) < bx_allocSize (tl_buffer (tr_link (ep_sess A)))"
  shows "\<exists>A' A'' B' w w' q q'.
    CoapClientSendReq envA A param (Some b) = Some (IOTC_OK, A', [Net (Sock_send (tl_sendTmo (tr_link (ep_sess A))) w (Some b))]) \<and>
    receive envB a w B = Some (B', [Req_call hs q (Some a), Net (Sock_send (tl_sendTmo (tr_link (ep_sess B))) w' (Some a))]) \<and>
    ck_payload q = \<lparr>cd_data = Some d, cd_len = length d\<rparr> \<and> ch_code (ck_header q) = qp_code param \<and>
    take (ck_opNum q) (ck_options q) = qp_options param \<and>
    receive envA' b w' A' = Some (A'', [Resp_call h (Some q') (Some b) False]) \<and>
    ck_payload q' = \<lparr>cd_data = Some (an_payload an), cd_len = length (an_payload an)\<rparr> \<and> ch_code (ck_header q') = an_code an \<and>
    cl_reqList (ep_client A'') = cl_reqList (ep_client A)"
proof -
  let ?b = "req_build envA A param"
  have a: "can_send envA A" "request_ok param d A" "\<not> ep_locked A" "none_expired (ee_now envA) A"
    "cl_reqCnt (ep_client A) < 255" "qp_respHandler param \<noteq> None" "ee_mem envA 5"
    using A by (simp_all add: client_ready_def)
  have tkl: "unat (cl_tkl (ep_client A)) \<le> 8" using a(2) by (simp add: request_ok_def)
  define w where "w = udp_wire ?b d"
  have build: "can_build ?b d 0 A" by (rule request_builds [OF a(2)])
  obtain A' nd where sent: "CoapClientSendReq envA A param (Some b) = Some (IOTC_OK, A', [Net (Sock_send (tl_sendTmo (tr_link (ep_sess A))) w (Some b))])"
    "cl_reqList (ep_client A') = cl_reqList (ep_client A) @ [nd]" "waits_for envA A param nd" "\<not> ep_locked A'" "ep_sess A' = ep_sess A"
    "cl_tkl (ep_client A') = cl_tkl (ep_client A)" "cl_timeout (ep_client A') = cl_timeout (ep_client A)"
    using SendReq_ok [OF a, of "Some b"] unfolding w_def by blast
  have msg: "fst (GetMsgId A) = cl_msgId (ep_client A)" using a(3) by (simp add: GetMsgId_def)
  have h: "ch_msgId (bp_header ?b) = cl_msgId (ep_client A)" "ch_tkl (bp_header ?b) = cl_tkl (ep_client A)"
    "ch_code (bp_header ?b) = qp_code param" "bp_options ?b = qp_options param"
    by (simp_all add: req_build_def msg Let_def)
  obtain q where q: "CoapUdpDecode zero_packet (Some w) = Inr q" "ck_header q = (bp_header ?b)\<lparr>ch_ver := 1\<rparr>"
    "take (unat (cl_tkl (ep_client A))) (ck_token q) = take (unat (cl_tkl (ep_client A))) (bp_token ?b)"
    "take (ck_opNum q) (ck_options q) = qp_options param" "ck_payload q = \<lparr>cd_data = Some d, cd_len = length d\<rparr>"
    using CoapUdpDecode_wire [of ?b zero_packet d] build h unfolding w_def can_build_def by auto
  have find: "CoapUtilsFindOption q opt = find_option opt (qp_options param)" for opt
    by (simp add: CoapUtilsFindOption_def q(4))
  define w' where "w' = udp_wire (resp_build (answer_param an q)) (an_payload an)"
  have an: "answer_ok an (unat (ch_tkl (ck_header q))) B" "unat (ch_tkl (ck_header q)) \<le> 8" using B(4) tkl q(2) h by simp_all
  obtain rs where rs: "find_resource (uri_text ps qs) (es_resList (ep_server B)) = Some rs" "rc_handler rs = Some hs"
    using B(1) by (auto simp: server_ready_def)
  have s: "can_send envB' B" "answers envB envB' hs an" "\<forall>c p a. ee_checker envB c p a" "ee_decode envB = CoapUdpDecode"
    "listens (ep_sess B)" "\<not> ep_locked B"
    using B(1) by (simp_all add: server_ready_def)
  have "COAP_CODE_CLASS (ch_code (ck_header q)) = 0" using a(2) q(2) h by (simp add: request_ok_def)
  then obtain B' where recvB: "CoapEndpointRecvPacket envB B q (Some a) =
      Some (IOTC_OK, B', [Req_call hs q (Some a), Net (Sock_send (tl_sendTmo (tr_link (ep_sess B))) w' (Some a))])"
    using server_answers [where a = a, OF s(1-3) _ an(2) _ _ _ _ _ rs s(6) _ an(1)] B(2,3) q(2) h
    unfolding w'_def uri_ok_def find by auto
  have lw: "w \<noteq> []" "length w < bx_allocSize (tl_buffer (tr_link (ep_sess B)))" using build size(1) by (simp_all add: w_def can_build_def)
  have gotB: "receive envB a w B = Some (B', [Req_call hs q (Some a), Net (Sock_send (tl_sendTmo (tr_link (ep_sess B))) w' (Some a))])"
    using receive_ok [OF s(5) lw _ recvB] s(4) q(1) by simp
  have buildB: "can_build (resp_build (answer_param an q)) (an_payload an) 0 B" by (rule answer_builds [OF an])
  have hr: "ch_msgId (bp_header (resp_build (answer_param an q))) = cl_msgId (ep_client A)"
    "ch_tkl (bp_header (resp_build (answer_param an q))) = cl_tkl (ep_client A)" "ch_code (bp_header (resp_build (answer_param an q))) = an_code an"
    "take (unat (cl_tkl (ep_client A))) (bp_token (resp_build (answer_param an q))) = take (unat (cl_tkl (ep_client A))) (bp_token ?b)"
    using q(2,3) h tkl build by (simp_all add: resp_build_def answer_param_def Let_def overwrite_def can_build_def build_ok_def)
  obtain q' where q': "CoapUdpDecode zero_packet (Some w') = Inr q'" "ck_header q' = (bp_header (resp_build (answer_param an q)))\<lparr>ch_ver := 1\<rparr>"
    "take (unat (cl_tkl (ep_client A))) (ck_token q') = take (unat (cl_tkl (ep_client A))) (bp_token ?b)"
    "ck_payload q' = \<lparr>cd_data = Some (an_payload an), cd_len = length (an_payload an)\<rparr>"
    using CoapUdpDecode_wire [of "resp_build (answer_param an q)" zero_packet "an_payload an"] buildB hr unfolding w'_def can_build_def by auto
  have nd: "rq_respHandler nd = Some h" "rq_msgId nd = cl_msgId (ep_client A)"
    "take (unat (cl_tkl (ep_client A))) (rq_token nd) = take (unat (cl_tkl (ep_client A))) (bp_token ?b)"
    using sent(3) A(2) msg by (simp_all add: waits_for_def)
  have "COAP_CODE_CLASS (ch_code (ck_header q')) \<noteq> 0" using q'(2) hr B(4) by (simp add: answer_ok_def)
  then obtain A'' where recvA: "CoapEndpointRecvPacket envA' A' q' (Some b) = Some (IOTC_OK, A'', [Resp_call h (Some q') (Some b) False])"
    "cl_reqList (ep_client A'') = cl_reqList (ep_client A)"
    using client_hears [OF sent(4,2) nd(1), of q' envA' "Some b"] A(1) q'(2,3) hr nd sent(6,7)
    by (auto simp: client_ready_def none_expired_def)
  have lw': "w' \<noteq> []" "length w' < bx_allocSize (tl_buffer (tr_link (ep_sess A')))" using buildB size(2) sent(5) by (simp_all add: w'_def can_build_def)
  have gotA: "receive envA' b w' A' = Some (A'', [Resp_call h (Some q') (Some b) False])"
    using receive_ok [OF _ lw' _ recvA(1)] A(1) q'(1) sent(5) by (simp add: client_ready_def)
  have "ch_code (ck_header q) = qp_code param" "ch_code (ck_header q') = an_code an" using q(2) q'(2) h hr by simp_all
  then show ?thesis using sent(1) gotB gotA q(4,5) q'(4) recvA(2) by blast
qed

text \<open>A server with one resource and the handler behind it.\<close>

definition demo_post :: CoapClientReqParam where
  "demo_post = demo_query\<lparr>qp_options := [\<lparr>op_option = 11, op_value = \<lparr>cd_data = Some [97], cd_len = length [97 :: u8]\<rparr>\<rparr>]\<rparr>"

definition demo_reply :: answer where
  "demo_reply = \<lparr>an_type = 1, an_code = 69, an_options = [], an_payload = [6]\<rparr>"

definition serving_env :: coap_env where
  "serving_env = quiet_env\<lparr>ee_req := \<lambda>h q a ep.
     case CoapServerSendResp quiet_env ep (answer_param demo_reply q) a of None \<Rightarrow> (ep, []) | Some (r, ep', os) \<Rightarrow> (ep', os)\<rparr>"

definition serving_endpoint :: CoapEndpoint where
  "serving_endpoint = open_endpoint\<lparr>ep_server := \<lparr>es_globalChecker = None, es_defaultHandler = None,
     es_resList = [\<lparr>rn_addr = 1, rn_resource = [\<lparr>rc_method = 2, rc_uri = [97], rc_checker = None, rc_handler = Some 21\<rparr>]\<rparr>]\<rparr>\<rparr>"

theorem coap_exchange_witness:
  "\<exists>A' A'' B' w w' q q'.
    CoapClientSendReq quiet_env open_endpoint demo_post (Some demo_peer) =
      Some (IOTC_OK, A', [Net (Sock_send (tl_sendTmo (tr_link (ep_sess open_endpoint))) w (Some demo_peer))]) \<and>
    receive serving_env demo_peer w serving_endpoint =
      Some (B', [Req_call 21 q (Some demo_peer), Net (Sock_send (tl_sendTmo (tr_link (ep_sess serving_endpoint))) w' (Some demo_peer))]) \<and>
    ck_payload q = \<lparr>cd_data = Some [5], cd_len = length [5 :: u8]\<rparr> \<and> ch_code (ck_header q) = qp_code demo_post \<and>
    take (ck_opNum q) (ck_options q) = qp_options demo_post \<and>
    receive quiet_env demo_peer w' A' = Some (A'', [Resp_call 11 (Some q') (Some demo_peer) False]) \<and>
    ck_payload q' = \<lparr>cd_data = Some (an_payload demo_reply), cd_len = length (an_payload demo_reply)\<rparr> \<and>
    ch_code (ck_header q') = an_code demo_reply \<and> cl_reqList (ep_client A'') = cl_reqList (ep_client open_endpoint)"
proof (rule coap_exchange)
  have ctx: "bx_sem (the (UtilsBufferCtxNew (\<lambda>_. True) 128 128)) = 1" "bx_allocSize (the (UtilsBufferCtxNew (\<lambda>_. True) 128 128)) = 128"
    "buffer_inv (the (UtilsBufferCtxNew (\<lambda>_. True) 128 128))"
    by (simp_all add: UtilsBufferCtxNew_def buffer_inv_def block_ok_def)
  then have "can_read (tr_link open_sess)" by (simp add: can_read_def open_sess_def)
  then have l: "listens (ep_sess open_endpoint)"
    by (simp add: open_endpoint_def zero_endpoint_def) (simp add: SessSetup_listens open_sess_def)
  have lk: "tr_link (ep_sess open_endpoint) = tr_link open_sess"
    by (simp add: open_endpoint_def zero_endpoint_def CoapEndpointSessSetup_def TransSessAddRecvTailHandler_def
      TransSessAddRecvHeadHandler_def AddCorListHandler_def MsgCorNew_def)
  have cli: "cl_tkl (ep_client open_endpoint) = 8" "cl_reqList (ep_client open_endpoint) = []" "cl_reqCnt (ep_client open_endpoint) = 0"
    by (simp_all add: open_endpoint_def zero_endpoint_def CoapEndpointClientInit_def Let_def)
  have r: "request_ok demo_post [5] open_endpoint"
    by (simp add: request_ok_def demo_post_def demo_query_def COAP_CODE_CLASS_def cli open_endpoint_simps option_ok_def ext_ok_def
      option_bytes_def ext_bytes_def ext_nibble_def)
  show "client_ready quiet_env quiet_env open_endpoint demo_post [5]"
    using l r open_endpoint_sends by (simp add: client_ready_def open_endpoint_simps none_expired_def cli) (simp add: quiet_env_def)
  show "qp_respHandler demo_post = Some 11" by (simp add: demo_post_def demo_query_def)
  show "uri_ok (qp_options demo_post) [[97]] []" by (simp add: uri_ok_def demo_post_def segments_def uri_text_def)
  have "can_send quiet_env serving_endpoint" using open_endpoint_sends by (simp add: can_send_def serving_endpoint_def)
  then show "server_ready serving_env quiet_env serving_endpoint (uri_text [[97]] []) 21 demo_reply"
    using l by (simp add: server_ready_def serving_env_def serving_endpoint_def answers_def uri_text_def open_endpoint_simps)
      (simp add: quiet_env_def)
  show "\<forall>n \<in> set (re_retransList (ep_retrans serving_endpoint)). rp_msgId (rt_param n) \<noteq> cl_msgId (ep_client open_endpoint)"
    by (simp add: serving_endpoint_def open_endpoint_simps)
  show "answer_ok demo_reply (unat (cl_tkl (ep_client open_endpoint))) serving_endpoint"
    by (simp add: answer_ok_def demo_reply_def COAP_CODE_CLASS_def serving_endpoint_def open_endpoint_simps cli)
  show "bx_allocSize (ep_sendBuf open_endpoint) < bx_allocSize (tl_buffer (tr_link (ep_sess serving_endpoint)))"
    "bx_allocSize (ep_sendBuf serving_endpoint) < bx_allocSize (tl_buffer (tr_link (ep_sess open_endpoint)))"
    by (simp_all add: serving_endpoint_def open_endpoint_simps lk open_sess_def ctx)
qed

end
