(* ===== verification/Event_Timer.thy ===== *)
theory Event_Timer
  imports Utils_Common Contracts
begin

text \<open>
  The timer source of the event loop (\<open>event_source_timer.c\<close>): timers wait in an add list until the
  next prepare phase, count down in the check phase, and their callbacks run in the dispatch phase.
  The clock reading and the outcome of an allocation are arguments; a callback is the list of calls
  it makes on its own timer source.
\<close>

section \<open>Data\<close>

abbreviation (input) EVENT_TIMER_MAX_NUM :: nat where "EVENT_TIMER_MAX_NUM \<equiv> 255"
abbreviation (input) TIMER_SOURCE_BIT_MAP_DELETE :: nat where "TIMER_SOURCE_BIT_MAP_DELETE \<equiv> 0"
abbreviation (input) TIMER_SOURCE_BIT_MAP_FINISH :: nat where "TIMER_SOURCE_BIT_MAP_FINISH \<equiv> 2"

datatype EventSourceTimerType = EVENT_SOURCE_TIMER_TYPE_ONCE | EVENT_SOURCE_TIMER_TYPE_REPEAT

datatype EventSourceTimerStatus =
  EVENT_SOURCE_TIMER_STATUS_INVALID | EVENT_SOURCE_TIMER_STATUS_RUNNING | EVENT_SOURCE_TIMER_STATUS_FINISH

text \<open>\<open>tn_cb\<close> tells whether the callback pointer is set.\<close>

record TimerNode =
  tn_bitMap :: u8
  tn_id :: int
  tn_interval :: u32
  tn_remainTime :: u32
  tn_lastTime :: u32
  tn_type :: EventSourceTimerType
  tn_cb :: bool
  tn_status :: EventSourceTimerStatus

record EventSourceTimer =
  ts_cnt :: nat
  ts_idBase :: int
  ts_timerList :: "TimerNode list"
  ts_addList :: "TimerNode list"

section \<open>The calls of clients\<close>

definition EventSourceTimerNew :: "bool \<Rightarrow> EventSourceTimer option" where
  "EventSourceTimerNew memok =
    (if memok then Some \<lparr>ts_cnt = 0, ts_idBase = 0, ts_timerList = [], ts_addList = []\<rparr> else None)"

definition TimerNodeUpdate :: "u32 \<Rightarrow> EventSourceTimerType \<Rightarrow> u32 \<Rightarrow> TimerNode \<Rightarrow> TimerNode" where
  "TimerNodeUpdate now ty ms node =
    node\<lparr>tn_bitMap := 0, tn_type := ty, tn_interval := ms, tn_remainTime := ms, tn_lastTime := now,
      tn_status := EVENT_SOURCE_TIMER_STATUS_RUNNING\<rparr>"

definition TimerNodeNew :: "bool \<Rightarrow> u32 \<Rightarrow> int \<Rightarrow> EventSourceTimerType \<Rightarrow> bool \<Rightarrow> u32 \<Rightarrow> TimerNode option" where
  "TimerNodeNew memok now tid ty cb ms =
    (if \<not> memok then None
     else Some (TimerNodeUpdate now ty ms
       \<lparr>tn_bitMap = 0, tn_id = tid, tn_interval = 0, tn_remainTime = 0, tn_lastTime = 0,
        tn_type = EVENT_SOURCE_TIMER_TYPE_ONCE, tn_cb = cb, tn_status = EVENT_SOURCE_TIMER_STATUS_INVALID\<rparr>))"

definition EventSourceTimerAdd ::
    "bool \<Rightarrow> u32 \<Rightarrow> EventSourceTimer \<Rightarrow> EventSourceTimerType \<Rightarrow> bool \<Rightarrow> u32 \<Rightarrow> ret \<times> EventSourceTimer" where
  "EventSourceTimerAdd memok now ts ty cb ms =
    (if ts_cnt ts \<ge> EVENT_TIMER_MAX_NUM then (IOTC_CORE_COMM_FWK_ERR_SOURCE_TIMER_MAX, ts)
     else
       (let tid = ts_idBase ts + 1; ts = ts\<lparr>ts_idBase := tid\<rparr> in
        case TimerNodeNew memok now tid ty cb ms of
          None \<Rightarrow> (IOTC_CORE_COMM_FWK_ERR_SOURCE_TIMER_CREATE, ts)
        | Some newNode \<Rightarrow> (tid, ts\<lparr>ts_addList := ts_addList ts @ [newNode]\<rparr>)))"

text \<open>The searches for the first node with an id.\<close>

fun update_node :: "int \<Rightarrow> (TimerNode \<Rightarrow> TimerNode) \<Rightarrow> TimerNode list \<Rightarrow> TimerNode list" where
  "update_node tid f [] = []"
| "update_node tid f (n # ns) = (if tn_id n \<noteq> tid then n # update_node tid f ns else f n # ns)"

fun delete_node :: "int \<Rightarrow> TimerNode list \<Rightarrow> TimerNode list" where
  "delete_node tid [] = []"
| "delete_node tid (n # ns) = (if tn_id n \<noteq> tid then n # delete_node tid ns else ns)"

definition has_node :: "int \<Rightarrow> TimerNode list \<Rightarrow> bool" where
  "has_node tid ns = list_ex (\<lambda>n. tn_id n = tid) ns"

definition EventSourceTimerRemove :: "EventSourceTimer \<Rightarrow> int \<Rightarrow> EventSourceTimer" where
  "EventSourceTimerRemove ts tid =
    (if \<not> tid > 0 then ts
     else if has_node tid (ts_addList ts) then ts\<lparr>ts_addList := delete_node tid (ts_addList ts)\<rparr>
     else ts\<lparr>ts_timerList := update_node tid
            (\<lambda>n. n\<lparr>tn_bitMap := tn_bitMap n OR push_bit TIMER_SOURCE_BIT_MAP_DELETE 1,
                   tn_status := EVENT_SOURCE_TIMER_STATUS_INVALID\<rparr>) (ts_timerList ts)\<rparr>)"

definition EventSourceTimerUpdate :: "u32 \<Rightarrow> EventSourceTimer \<Rightarrow> int \<Rightarrow> EventSourceTimerType \<Rightarrow> u32 \<Rightarrow> EventSourceTimer" where
  "EventSourceTimerUpdate now ts tid ty ms =
    (if \<not> tid > 0 then ts
     else if has_node tid (ts_addList ts) then
       ts\<lparr>ts_addList := update_node tid (TimerNodeUpdate now ty ms) (ts_addList ts)\<rparr>
     else ts\<lparr>ts_timerList := update_node tid (TimerNodeUpdate now ty ms) (ts_timerList ts)\<rparr>)"

definition EventSourceTimerGetStatus :: "EventSourceTimer \<Rightarrow> int \<Rightarrow> EventSourceTimerStatus" where
  "EventSourceTimerGetStatus ts tid =
    (if \<not> tid > 0 then EVENT_SOURCE_TIMER_STATUS_INVALID
     else
       (case find (\<lambda>n. tn_id n = tid) (ts_addList ts) of
          Some n \<Rightarrow> tn_status n
        | None \<Rightarrow>
           (case find (\<lambda>n. tn_id n = tid) (ts_timerList ts) of
              Some n \<Rightarrow> tn_status n
            | None \<Rightarrow> EVENT_SOURCE_TIMER_STATUS_INVALID)))"

section \<open>The phases of the loop\<close>

definition TimerSourceUpdate :: "EventSourceTimer \<Rightarrow> EventSourceTimer" where
  "TimerSourceUpdate ts =
    ts\<lparr>ts_timerList := ts_timerList ts @ ts_addList ts, ts_addList := [], ts_cnt := ts_cnt ts + length (ts_addList ts)\<rparr>"

definition deleted :: "TimerNode \<Rightarrow> bool" where
  "deleted n = (tn_bitMap n AND push_bit TIMER_SOURCE_BIT_MAP_DELETE 1 \<noteq> 0)"

text \<open>The timeout and the source without the nodes marked as deleted.\<close>

definition TimerSourcePrepare :: "EventSourceTimer \<Rightarrow> u32 \<times> EventSourceTimer" where
  "TimerSourcePrepare ts =
    (let ts = (if ts_addList ts \<noteq> [] then TimerSourceUpdate ts else ts);
         live = filter (\<lambda>n. \<not> deleted n) (ts_timerList ts)
     in (foldl (\<lambda>timeout n. if timeout < tn_remainTime n then timeout else tn_remainTime n) 0xFFFFFFFF live,
         ts\<lparr>ts_timerList := live\<rparr>))"

definition check_node :: "u32 \<Rightarrow> TimerNode \<Rightarrow> TimerNode" where
  "check_node now n =
    (let delta = UtilsDeltaTime now (tn_lastTime n) in
     n\<lparr>tn_remainTime := (if delta > tn_remainTime n then 0 else tn_remainTime n - delta), tn_lastTime := now\<rparr>)"

definition TimerSourceCheck :: "u32 \<Rightarrow> EventSourceTimer \<Rightarrow> bool \<times> EventSourceTimer" where
  "TimerSourceCheck now ts =
    (list_ex (\<lambda>n. UtilsDeltaTime now (tn_lastTime n) > tn_remainTime n) (ts_timerList ts),
     ts\<lparr>ts_timerList := map (check_node now) (ts_timerList ts)\<rparr>)"

text \<open>The calls a callback makes on its source.\<close>

datatype timer_op =
    TAdd bool u32 EventSourceTimerType bool u32
  | TRemove int
  | TUpdate u32 int EventSourceTimerType u32

fun run_op :: "EventSourceTimer \<Rightarrow> timer_op \<Rightarrow> EventSourceTimer" where
  "run_op ts (TAdd memok now ty cb ms) = snd (EventSourceTimerAdd memok now ts ty cb ms)"
| "run_op ts (TRemove tid) = EventSourceTimerRemove ts tid"
| "run_op ts (TUpdate now tid ty ms) = EventSourceTimerUpdate now ts tid ty ms"

definition set_node :: "nat \<Rightarrow> (TimerNode \<Rightarrow> TimerNode) \<Rightarrow> EventSourceTimer \<Rightarrow> EventSourceTimer" where
  "set_node i f ts = ts\<lparr>ts_timerList := (ts_timerList ts)[i := f (ts_timerList ts ! i)]\<rparr>"

text \<open>
  The dispatch of one node.  A callback adds to the add list and only marks nodes of the timer list,
  so the positions in the timer list stay as they are.
\<close>

definition dispatch_node :: "(int \<Rightarrow> timer_op list) \<Rightarrow> EventSourceTimer \<Rightarrow> nat \<Rightarrow> EventSourceTimer \<times> int list" where
  "dispatch_node cbs ts i =
    (let n = ts_timerList ts ! i in
     if tn_remainTime n \<noteq> 0 \<or> tn_bitMap n \<noteq> 0 then (ts, [])
     else if \<not> tn_cb n then
       (set_node i (\<lambda>n. n\<lparr>tn_bitMap := tn_bitMap n OR push_bit TIMER_SOURCE_BIT_MAP_DELETE 1\<rparr>) ts, [])
     else
       (let ts = set_node i (\<lambda>n. n\<lparr>tn_remainTime := tn_interval n\<rparr>) ts;
            ts = foldl run_op ts (cbs (tn_id n));
            ts = (if tn_type (ts_timerList ts ! i) = EVENT_SOURCE_TIMER_TYPE_ONCE then
                    set_node i (\<lambda>n. n\<lparr>tn_bitMap := tn_bitMap n OR push_bit TIMER_SOURCE_BIT_MAP_FINISH 1,
                                      tn_status := EVENT_SOURCE_TIMER_STATUS_FINISH\<rparr>) ts
                  else ts)
        in (ts, [tn_id n])))"

text \<open>The source afterwards and the ids of the timers that fired, in order.\<close>

definition TimerSourceDispatch :: "(int \<Rightarrow> timer_op list) \<Rightarrow> EventSourceTimer \<Rightarrow> EventSourceTimer \<times> int list" where
  "TimerSourceDispatch cbs ts =
    foldl (\<lambda>(ts, fired) i. let (ts, f) = dispatch_node cbs ts i in (ts, fired @ f)) (ts, [])
      [0..<length (ts_timerList ts)]"

definition TimerSourceFinalize :: "EventSourceTimer \<Rightarrow> EventSourceTimer" where
  "TimerSourceFinalize ts = ts\<lparr>ts_addList := [], ts_timerList := []\<rparr>"

section \<open>Identifiers\<close>

text \<open>Every timer of a source has its own positive id, at most the last id given out.\<close>

definition timers_ok :: "EventSourceTimer \<Rightarrow> bool" where
  "timers_ok ts \<longleftrightarrow> 0 \<le> ts_idBase ts \<and> distinct (map tn_id (ts_timerList ts @ ts_addList ts)) \<and>
    (\<forall>n \<in> set (ts_timerList ts @ ts_addList ts). 0 < tn_id n \<and> tn_id n \<le> ts_idBase ts)"

lemma map_id_update_node: "(\<And>n. tn_id (f n) = tn_id n) \<Longrightarrow> map tn_id (update_node tid f ns) = map tn_id ns"
  by (induction ns) auto

lemma delete_node_set: "set (delete_node tid ns) \<subseteq> set ns"
  by (induction ns) auto

lemma delete_node_distinct: "distinct (map tn_id ns) \<Longrightarrow> distinct (map tn_id (delete_node tid ns))"
  using delete_node_set by (induction ns) fastforce+

lemma TimerNodeUpdate_id [simp]: "tn_id (TimerNodeUpdate now ty ms n) = tn_id n"
  by (simp add: TimerNodeUpdate_def)

text \<open>The invariant depends on the ids only.\<close>

lemma timers_ok_ids:
  "timers_ok ts \<longleftrightarrow> 0 \<le> ts_idBase ts \<and> distinct (map tn_id (ts_timerList ts) @ map tn_id (ts_addList ts)) \<and>
    (\<forall>k \<in> set (map tn_id (ts_timerList ts)) \<union> set (map tn_id (ts_addList ts)). 0 < k \<and> k \<le> ts_idBase ts)"
  unfolding timers_ok_def by auto

lemma timers_ok_same_ids:
  assumes "timers_ok ts" "map tn_id (ts_timerList ts') = map tn_id (ts_timerList ts)"
    "map tn_id (ts_addList ts') = map tn_id (ts_addList ts)" "ts_idBase ts' = ts_idBase ts"
  shows "timers_ok ts'"
  using assms(1) unfolding timers_ok_ids assms(2-4) .

lemma timers_ok_next_id:
  assumes "timers_ok ts"
  shows "timers_ok (ts\<lparr>ts_idBase := ts_idBase ts + 1\<rparr>)"
    "tn_id n = ts_idBase ts + 1 \<Longrightarrow>
      timers_ok (ts\<lparr>ts_idBase := ts_idBase ts + 1, ts_addList := ts_addList ts @ [n]\<rparr>)"
proof -
  have old: "0 < tn_id x \<and> tn_id x \<le> ts_idBase ts" if "x \<in> set (ts_timerList ts @ ts_addList ts)" for x
    using assms that unfolding timers_ok_def by blast
  then have lt: "0 < tn_id x \<and> tn_id x < ts_idBase ts + 1" if "x \<in> set (ts_timerList ts @ ts_addList ts)" for x
    using that by fastforce
  have base: "0 \<le> ts_idBase ts" "distinct (map tn_id (ts_timerList ts @ ts_addList ts))"
    using assms unfolding timers_ok_def by blast+
  show "timers_ok (ts\<lparr>ts_idBase := ts_idBase ts + 1\<rparr>)"
    unfolding timers_ok_def using base lt by (simp add: order_less_imp_le)
  assume n: "tn_id n = ts_idBase ts + 1"
  then have "tn_id n \<notin> tn_id ` set (ts_timerList ts @ ts_addList ts)" using lt by fastforce
  then show "timers_ok (ts\<lparr>ts_idBase := ts_idBase ts + 1, ts_addList := ts_addList ts @ [n]\<rparr>)"
    unfolding timers_ok_def using base lt n by (simp add: order_less_imp_le) blast
qed

lemma EventSourceTimerAdd_ok:
  "timers_ok ts \<Longrightarrow> timers_ok (snd (EventSourceTimerAdd memok now ts ty cb ms))"
  using timers_ok_next_id [of ts] by (simp add: EventSourceTimerAdd_def TimerNodeNew_def Let_def)

lemma EventSourceTimerRemove_ok:
  assumes "timers_ok ts"
  shows "timers_ok (EventSourceTimerRemove ts tid)"
proof (cases "0 < tid \<and> has_node tid (ts_addList ts)")
  case True
  then show ?thesis
    using assms delete_node_set [of tid "ts_addList ts"] delete_node_distinct [of "ts_addList ts" tid]
    by (auto simp: timers_ok_def EventSourceTimerRemove_def)
next
  case False
  then show ?thesis
    by (auto intro!: timers_ok_same_ids [OF assms] map_id_update_node simp: EventSourceTimerRemove_def)
qed

lemma EventSourceTimerUpdate_ok: "timers_ok ts \<Longrightarrow> timers_ok (EventSourceTimerUpdate now ts tid ty ms)"
  by (erule timers_ok_same_ids) (auto simp: EventSourceTimerUpdate_def map_id_update_node)

lemma run_op_ok: "timers_ok ts \<Longrightarrow> timers_ok (run_op ts op)"
  by (cases op) (simp_all add: EventSourceTimerAdd_ok EventSourceTimerRemove_ok EventSourceTimerUpdate_ok)

interpretation timer_calls: step_system run_op timers_ok
  by unfold_locales (rule run_op_ok)

text \<open>No call changes the positions of the timer list.\<close>

lemma run_op_timer_ids: "map tn_id (ts_timerList (run_op ts op)) = map tn_id (ts_timerList ts)"
  by (cases op)
    (simp_all add: EventSourceTimerAdd_def EventSourceTimerRemove_def EventSourceTimerUpdate_def Let_def
      map_id_update_node split: option.splits)

lemma run_ops_timer_ids: "map tn_id (ts_timerList (foldl run_op ts ops)) = map tn_id (ts_timerList ts)"
  by (induction ops arbitrary: ts) (simp_all add: run_op_timer_ids)

lemma run_ops_length [simp]: "length (ts_timerList (foldl run_op ts ops)) = length (ts_timerList ts)"
  using arg_cong [OF run_ops_timer_ids, of length] by simp

lemma set_node_ok:
  assumes "timers_ok ts" "i < length (ts_timerList ts)" "\<And>n. tn_id (f n) = tn_id n"
  shows "timers_ok (set_node i f ts)"
proof -
  have "map tn_id ((ts_timerList ts)[i := f (ts_timerList ts ! i)]) = map tn_id (ts_timerList ts)"
    using assms(2,3) by (simp add: map_update list_update_same_conv)
  then show ?thesis by (auto intro: timers_ok_same_ids [OF assms(1)] simp: set_node_def)
qed

lemma length_set_node [simp]: "length (ts_timerList (set_node i f ts)) = length (ts_timerList ts)"
  by (simp add: set_node_def)

lemma dispatch_node_length [simp]:
  "length (ts_timerList (fst (dispatch_node cbs ts i))) = length (ts_timerList ts)"
  by (simp add: dispatch_node_def Let_def)

lemma dispatch_node_ok:
  assumes "timers_ok ts" "i < length (ts_timerList ts)"
  shows "timers_ok (fst (dispatch_node cbs ts i))"
  using assms by (auto simp: dispatch_node_def Let_def intro!: set_node_ok timer_calls.run_inv)

lemma dispatch_loop_ok:
  assumes "timers_ok ts" "set is \<subseteq> {..<length (ts_timerList ts)}"
  shows "timers_ok (fst (foldl (\<lambda>(ts, fired) i. let (ts, f) = dispatch_node cbs ts i in (ts, fired @ f)) (ts, fired) is))"
  using assms
proof (induction "is" arbitrary: ts fired)
  case (Cons i "is")
  obtain ts' f where d: "dispatch_node cbs ts i = (ts', f)" by fastforce
  then have "timers_ok ts'" "length (ts_timerList ts') = length (ts_timerList ts)"
    using dispatch_node_ok [of ts i cbs] dispatch_node_length [of cbs ts i] Cons.prems by simp_all
  then show ?case using Cons.IH [of ts' "fired @ f"] Cons.prems(2) d by simp
qed simp

lemma TimerSourceDispatch_ok: "timers_ok ts \<Longrightarrow> timers_ok (fst (TimerSourceDispatch cbs ts))"
  unfolding TimerSourceDispatch_def by (rule dispatch_loop_ok) auto

lemma TimerSourceCheck_ok: "timers_ok ts \<Longrightarrow> timers_ok (snd (TimerSourceCheck now ts))"
  by (erule timers_ok_same_ids) (simp_all add: TimerSourceCheck_def check_node_def Let_def)

lemma TimerSourcePrepare_ok: "timers_ok ts \<Longrightarrow> timers_ok (snd (TimerSourcePrepare ts))"
  by (auto simp: timers_ok_def TimerSourcePrepare_def TimerSourceUpdate_def Let_def distinct_map_filter
      intro: inj_on_subset)

datatype timer_event = TCall timer_op | TPrepare | TCheck u32 | TDispatch "int \<Rightarrow> timer_op list"

fun timer_step :: "EventSourceTimer \<Rightarrow> timer_event \<Rightarrow> EventSourceTimer" where
  "timer_step ts (TCall op) = run_op ts op"
| "timer_step ts TPrepare = snd (TimerSourcePrepare ts)"
| "timer_step ts (TCheck now) = snd (TimerSourceCheck now ts)"
| "timer_step ts (TDispatch cbs) = fst (TimerSourceDispatch cbs ts)"

lemma timer_step_ok: "timers_ok ts \<Longrightarrow> timers_ok (timer_step ts ev)"
  by (cases ev) (simp_all add: run_op_ok TimerSourcePrepare_ok TimerSourceCheck_ok TimerSourceDispatch_ok)

interpretation timer_run: step_system timer_step timers_ok
  by unfold_locales (rule timer_step_ok)


section \<open>Countdown\<close>

text \<open>The time that passed over a sequence of clock readings, each at most one wrap after the one before.\<close>

primrec elapsed :: "u32 \<Rightarrow> u32 list \<Rightarrow> nat" where
  "elapsed t [] = 0"
| "elapsed t (t' # ts) = unat (t' - t) + elapsed t' ts"

definition checks :: "u32 list \<Rightarrow> EventSourceTimer \<Rightarrow> EventSourceTimer" where
  "checks tms ts = foldl (\<lambda>ts t. snd (TimerSourceCheck t ts)) ts tms"

lemma check_node_remain:
  "unat (tn_remainTime (check_node now n)) = unat (tn_remainTime n) - unat (now - tn_lastTime n)"
  by (auto simp: check_node_def Let_def word_less_nat_alt unat_sub word_le_nat_alt)

lemma check_nodes_remain:
  "unat (tn_remainTime (fold check_node tms n)) = unat (tn_remainTime n) - elapsed (tn_lastTime n) tms"
proof (induction tms arbitrary: n)
  case (Cons t tms)
  have "tn_lastTime (check_node t n) = t" by (simp add: check_node_def Let_def)
  then show ?case using Cons [of "check_node t n"] by (simp add: check_node_remain)
qed simp

lemma checks_timerList: "ts_timerList (checks tms ts) = map (fold check_node tms) (ts_timerList ts)"
  unfolding checks_def by (induction tms arbitrary: ts) (simp_all add: TimerSourceCheck_def)

lemma check_nodes_frame [simp]:
  "tn_id (fold check_node tms n) = tn_id n" "tn_bitMap (fold check_node tms n) = tn_bitMap n"
  "tn_cb (fold check_node tms n) = tn_cb n"
  by (induction tms arbitrary: n) (simp_all add: check_node_def Let_def)

definition due :: "TimerNode \<Rightarrow> bool" where
  "due n \<longleftrightarrow> tn_remainTime n = 0 \<and> tn_bitMap n = 0 \<and> tn_cb n"

text \<open>With callbacks that leave the source alone, a dispatch changes the node it visits only.\<close>

lemma dispatch_node_quiet:
  assumes "i < length (ts_timerList ts)"
  shows "snd (dispatch_node (\<lambda>_. []) ts i) = (if due (ts_timerList ts ! i) then [tn_id (ts_timerList ts ! i)] else [])"
    "j \<noteq> i \<Longrightarrow> ts_timerList (fst (dispatch_node (\<lambda>_. []) ts i)) ! j = ts_timerList ts ! j"
  using assms by (auto simp: dispatch_node_def due_def Let_def set_node_def)

lemma dispatch_loop_quiet:
  assumes "k + m = length (ts_timerList ts)" "drop k (ts_timerList ts) = drop k ns"
  shows "snd (foldl (\<lambda>(ts, fired) i. let (ts, f) = dispatch_node (\<lambda>_. []) ts i in (ts, fired @ f)) (ts, fired) [k..<k + m]) =
    fired @ map tn_id (filter due (drop k ns))"
  using assms
proof (induction m arbitrary: k ts fired)
  case 0
  then have "drop k ns = []" by simp
  then show ?case by simp
next
  case (Suc m)
  let ?l = "ts_timerList ts"
  have k: "k < length ?l" using Suc.prems(1) by simp
  obtain ts' f where d: "dispatch_node (\<lambda>_. []) ts k = (ts', f)" by fastforce
  have f: "f = (if due (?l ! k) then [tn_id (?l ! k)] else [])" using dispatch_node_quiet(1) [OF k] d by simp
  have len: "length (ts_timerList ts') = length ?l" using dispatch_node_length [of "\<lambda>_. []" ts k] d by simp
  have "drop (Suc k) (ts_timerList ts') = drop (Suc k) ?l"
    using dispatch_node_quiet(2) [OF k] d len by (auto intro!: nth_equalityI)
  also have "\<dots> = drop (Suc k) ns" using Suc.prems(2) by (metis drop_drop plus_1_eq_Suc)
  finally have "drop (Suc k) (ts_timerList ts') = drop (Suc k) ns" .
  moreover have "drop k ns = ?l ! k # drop (Suc k) ns"
    using Cons_nth_drop_Suc [OF k] Suc.prems(2) by (metis drop_drop plus_1_eq_Suc)
  moreover have "[k..<k + Suc m] = k # [Suc k..<Suc k + m]" by (simp add: upt_conv_Cons del: upt_Suc)
  ultimately show ?case
    using Suc.IH [of "Suc k" ts' "fired @ f"] Suc.prems(1) len d f by (simp del: upt_Suc)
qed

lemma TimerSourceDispatch_quiet:
  "snd (TimerSourceDispatch (\<lambda>_. []) ts) = map tn_id (filter due (ts_timerList ts))"
  using dispatch_loop_quiet [of 0 "length (ts_timerList ts)" ts "ts_timerList ts" "[]"]
  by (simp add: TimerSourceDispatch_def)


definition one_timer :: EventSourceTimer where
  "one_timer = snd (TimerSourcePrepare (snd (EventSourceTimerAdd True 100 \<lparr>ts_cnt = 0, ts_idBase = 0, ts_timerList = [], ts_addList = []\<rparr>
     EVENT_SOURCE_TIMER_TYPE_ONCE True 50)))"


section \<open>Preparing\<close>

lemma foldl_min:
  "foldl (\<lambda>t n. if t < tn_remainTime n then t else tn_remainTime n) a ns = Min (insert a (tn_remainTime ` set ns))"
proof (induction ns arbitrary: a)
  case (Cons n ns)
  have "(if a < tn_remainTime n then a else tn_remainTime n) = min a (tn_remainTime n)" by (auto simp: min_def)
  then show ?case using Cons by (cases "ns = []") (simp_all add: min.assoc)
qed simp

lemma Prepare_Min:
  "fst (TimerSourcePrepare ts) =
     Min (insert 0xFFFFFFFF (tn_remainTime ` {n \<in> set (ts_timerList ts @ ts_addList ts). \<not> deleted n}))"
proof -
  have "ts_timerList (if ts_addList ts \<noteq> [] then TimerSourceUpdate ts else ts) = ts_timerList ts @ ts_addList ts"
    by (simp add: TimerSourceUpdate_def)
  then show ?thesis by (simp add: TimerSourcePrepare_def Let_def foldl_min)
qed

text \<open>
  The timeout of the prepare phase is at most the remaining time of every timer that is not
  marked as deleted, the new ones included, and is the remaining time of one of them unless there is
  none (or none below the largest 32-bit value): the loop neither sleeps past a timer nor wakes up
  for nothing.
\<close>

theorem TimerSourcePrepare_timeout:
  fixes ts :: EventSourceTimer
  defines "live \<equiv> {n \<in> set (ts_timerList ts @ ts_addList ts). \<not> deleted n}"
  shows "(\<forall>n \<in> live. fst (TimerSourcePrepare ts) \<le> tn_remainTime n) \<and>
    (fst (TimerSourcePrepare ts) = 0xFFFFFFFF \<or> (\<exists>n \<in> live. fst (TimerSourcePrepare ts) = tn_remainTime n))"
proof -
  let ?M = "insert 0xFFFFFFFF (tn_remainTime ` live)"
  have t: "fst (TimerSourcePrepare ts) = Min ?M" unfolding live_def by (rule Prepare_Min)
  have fin: "finite ?M" unfolding live_def by simp
  have "Min ?M \<in> ?M" by (rule Min_in [OF fin]) simp
  then show ?thesis unfolding t using fin by auto
qed

theorem TimerSourcePrepare_timeout_witness:
  "fst (TimerSourcePrepare one_timer) \<le> 50"
  using TimerSourcePrepare_timeout [of one_timer]
  by (simp add: one_timer_def TimerSourcePrepare_def EventSourceTimerAdd_def TimerNodeNew_def TimerSourceUpdate_def
      TimerNodeUpdate_def deleted_def)

section \<open>Slots are never given back\<close>

text \<open>Starting a timer and removing it again, with the loop running in between.\<close>

definition timer_round :: "EventSourceTimer \<Rightarrow> EventSourceTimer" where
  "timer_round ts =
    (let (tid, ts) = EventSourceTimerAdd True 0 ts EVENT_SOURCE_TIMER_TYPE_ONCE True 1000;
         ts = snd (TimerSourcePrepare ts)
     in snd (TimerSourcePrepare (EventSourceTimerRemove ts tid)))"

lemma timer_round_empty:
  assumes "ts_timerList ts = []" "ts_addList ts = []" "ts_cnt ts < 255" "0 \<le> ts_idBase ts"
  shows "timer_round ts = ts\<lparr>ts_cnt := ts_cnt ts + 1, ts_idBase := ts_idBase ts + 1\<rparr>"
  using assms
  by (simp add: timer_round_def EventSourceTimerAdd_def TimerNodeNew_def TimerNodeUpdate_def TimerSourcePrepare_def
      TimerSourceUpdate_def EventSourceTimerRemove_def has_node_def deleted_def Let_def)

text \<open>
  A slot of the source is never given back: after 255 timers were started and removed one after
  the other, no timer is left, and every further timer is refused.
\<close>

theorem timer_slots_exhausted:
  "case EventSourceTimerNew True of
     None \<Rightarrow> False
   | Some ts \<Rightarrow>
      (let ts' = (timer_round ^^ 255) ts in
       ts_timerList ts' = [] \<and> ts_addList ts' = [] \<and>
       EventSourceTimerAdd memok now ts' ty cb ms = (IOTC_CORE_COMM_FWK_ERR_SOURCE_TIMER_MAX, ts'))"
proof -
  define ts where "ts = \<lparr>ts_cnt = 0, ts_idBase = 0, ts_timerList = [], ts_addList = []\<rparr>"
  have "n \<le> 255 \<Longrightarrow> (timer_round ^^ n) ts = ts\<lparr>ts_cnt := n, ts_idBase := int n\<rparr>" for n
  proof (induction n)
    case (Suc n)
    then show ?case using timer_round_empty [of "ts\<lparr>ts_cnt := n, ts_idBase := int n\<rparr>"] by (simp add: ts_def)
  qed (simp add: ts_def)
  then have "(timer_round ^^ 255) ts = ts\<lparr>ts_cnt := 255, ts_idBase := int 255\<rparr>" by blast
  then show ?thesis by (simp add: EventSourceTimerNew_def EventSourceTimerAdd_def ts_def Let_def)
qed

section \<open>Finished timers\<close>

definition spinning :: "EventSourceTimer \<Rightarrow> bool" where
  "spinning ts \<longleftrightarrow> (\<exists>n \<in> set (ts_timerList ts). tn_remainTime n = 0 \<and> tn_bitMap n = 4)"

lemma spinning_prepare: "spinning ts \<Longrightarrow> spinning (snd (TimerSourcePrepare ts))"
  by (auto simp: spinning_def TimerSourcePrepare_def TimerSourceUpdate_def deleted_def Let_def)

lemma spinning_check: "spinning ts \<Longrightarrow> spinning (snd (TimerSourceCheck now ts))"
proof -
  have "tn_remainTime (check_node now n) = 0" if "tn_remainTime n = 0" for n
    unfolding unat_eq_0 [symmetric] check_node_remain that by simp
  then show "spinning ts \<Longrightarrow> ?thesis"
    unfolding spinning_def TimerSourceCheck_def using check_nodes_frame(2) [of "[now]"] by auto
qed

lemma spinning_dispatch_node:
  assumes "spinning ts" "i < length (ts_timerList ts)"
  shows "spinning (fst (dispatch_node (\<lambda>_. []) ts i))"
proof -
  obtain j where j: "j < length (ts_timerList ts)" "tn_remainTime (ts_timerList ts ! j) = 0" "tn_bitMap (ts_timerList ts ! j) = 4"
    using assms(1) unfolding spinning_def by (auto simp: in_set_conv_nth)
  have "ts_timerList (fst (dispatch_node (\<lambda>_. []) ts i)) ! j = ts_timerList ts ! j"
  proof (cases "j = i")
    case True
    then show ?thesis using j by (simp add: dispatch_node_def Let_def)
  qed (use dispatch_node_quiet(2) [OF assms(2)] in blast)
  then show ?thesis
    unfolding spinning_def using j nth_mem [of j "ts_timerList (fst (dispatch_node (\<lambda>_. []) ts i))"] by auto
qed

lemma spinning_dispatch: "spinning ts \<Longrightarrow> spinning (fst (TimerSourceDispatch (\<lambda>_. []) ts))"
proof -
  have loop: "spinning (fst (foldl (\<lambda>(ts, fired) i. let (ts, f) = dispatch_node (\<lambda>_. []) ts i in (ts, fired @ f)) (ts, fired) is))"
    if "spinning ts" "set is \<subseteq> {..<length (ts_timerList ts)}" for ts fired "is"
    using that
  proof (induction "is" arbitrary: ts fired)
    case (Cons i "is")
    obtain ts' f where d: "dispatch_node (\<lambda>_. []) ts i = (ts', f)" by fastforce
    have "spinning ts'" using spinning_dispatch_node [OF Cons.prems(1), of i] Cons.prems(2) d by simp
    moreover have "length (ts_timerList ts') = length (ts_timerList ts)" using dispatch_node_length [of "\<lambda>_. []" ts i] d by simp
    ultimately show ?case using Cons.IH [of ts' "fired @ f"] Cons.prems(2) d by simp
  qed simp
  show "spinning ts \<Longrightarrow> ?thesis" unfolding TimerSourceDispatch_def by (rule loop) auto
qed

text \<open>The phases of the loop, with callbacks that leave the source alone.\<close>

fun quiet :: "timer_event \<Rightarrow> bool" where
  "quiet (TCall op) = False"
| "quiet TPrepare = True"
| "quiet (TCheck now) = True"
| "quiet (TDispatch cbs) = (cbs = (\<lambda>_. []))"

lemma spinning_step: "spinning ts \<Longrightarrow> quiet ev \<Longrightarrow> spinning (timer_step ts ev)"
  by (cases ev) (auto simp: spinning_prepare spinning_check spinning_dispatch)

text \<open>
  A one-shot timer that has fired and was not removed stays in the list.  Once it counted down
  again, every later prepare phase tells the loop not to sleep at all, whatever is checked and
  dispatched in between.
\<close>

theorem finished_timer_spins:
  assumes "n \<in> set (ts_timerList ts)" "tn_remainTime n = 0" "tn_bitMap n = push_bit TIMER_SOURCE_BIT_MAP_FINISH 1"
    "list_all quiet evs"
  shows "fst (TimerSourcePrepare (foldl timer_step ts evs)) = 0"
proof -
  have "spinning ts" using assms(1-3) by (auto simp: spinning_def)
  then have "spinning (foldl timer_step ts evs)"
    using assms(4) by (induction evs arbitrary: ts) (simp_all add: spinning_step)
  then obtain n' where n': "n' \<in> set (ts_timerList (foldl timer_step ts evs))" "tn_remainTime n' = 0" "tn_bitMap n' = 4"
    unfolding spinning_def by blast
  then have "\<not> deleted n'" by (simp add: deleted_def)
  then have "(0 :: u32) \<in> insert 0xFFFFFFFF (tn_remainTime `
      {n \<in> set (ts_timerList (foldl timer_step ts evs) @ ts_addList (foldl timer_step ts evs)). \<not> deleted n})"
    using n' by force
  then show ?thesis unfolding Prepare_Min by (intro Min_eqI) auto
qed

theorem finished_timer_spins_witness:
  "fst (TimerSourcePrepare (foldl timer_step (fst (TimerSourceDispatch (\<lambda>_. []) (checks [151] one_timer)))
     [TCheck 300, TPrepare, TDispatch (\<lambda>_. [])])) = 0"
proof -
  let ?ts = "snd (TimerSourceCheck 300 (fst (TimerSourceDispatch (\<lambda>_. []) (checks [151] one_timer))))"
  have "map (\<lambda>n. (tn_remainTime n, tn_bitMap n)) (ts_timerList ?ts) = [(0, 4)]" by code_simp
  then obtain n where "ts_timerList ?ts = [n]" "tn_remainTime n = 0" "tn_bitMap n = push_bit 2 1" by auto
  then show ?thesis using finished_timer_spins [of n ?ts "[TPrepare, TDispatch (\<lambda>_. [])]"] by simp
qed

end
