(* ===== verification/Event_Bus.thy ===== *)
theory Event_Bus
  imports Errcode Contracts
begin

text \<open>
  The event bus (\<open>event_bus.c\<close>): subscriptions by event, by a match function or to all events, and the
  publication to a snapshot of the subscribers.  Listeners and match functions are pointers, here
  numbers; what a match function answers is an argument.  The outcomes of locking, allocating and
  of the asynchronous executor are arguments; what a listener does to the bus when it is called is a
  function on the bus.
\<close>

section \<open>Data\<close>

datatype EventType = EVENT_TYPE_SINGLE | EVENT_TYPE_ALL | EVENT_TYPE_MATCH

record EventList =
  el_type :: EventType
  el_event :: u32
  el_match :: "nat option"
  el_listener :: "nat option"

record 'p AsyncEventParam =
  ap_event :: u32
  ap_name :: "string option"
  ap_param :: 'p
  ap_len :: u32
  ap_freeFunc :: "nat option"

text \<open>A call of a listener or of a free function: the function, the event, the parameter and its length.\<close>

type_synonym 'p call = "nat \<times> u32 \<times> 'p \<times> u32"

text \<open>\<open>g_eventList\<close>, whether \<open>g_eventMutex\<close> exists, and whether \<open>g_asyncExecutor\<close> is set.\<close>

record event_bus =
  eb_eventList :: "EventList list"
  eb_eventMutex :: bool
  eb_asyncExecutor :: bool

text \<open>A lock is taken when the mutex exists and the adapter grants it.\<close>

definition bus_lock :: "bool \<Rightarrow> event_bus \<Rightarrow> bool" where
  "bus_lock lockok bus = (eb_eventMutex bus \<and> lockok)"

section \<open>Subscribing\<close>

definition existed_by :: "nat option \<Rightarrow> u32 \<Rightarrow> nat option \<Rightarrow> EventList \<Rightarrow> bool" where
  "existed_by listener event match node =
    (case el_type node of
       EVENT_TYPE_SINGLE \<Rightarrow> listener = el_listener node \<and> event = el_event node
     | EVENT_TYPE_ALL \<Rightarrow> listener = el_listener node
     | EVENT_TYPE_MATCH \<Rightarrow> match = el_match node)"

definition IsExisted :: "event_bus \<Rightarrow> EventType \<Rightarrow> nat option \<Rightarrow> u32 \<Rightarrow> nat option \<Rightarrow> bool" where
  "IsExisted bus ty listener event match = list_ex (existed_by listener event match) (eb_eventList bus)"

definition bus_append :: "event_bus \<Rightarrow> EventList \<Rightarrow> event_bus" where
  "bus_append bus node = bus\<lparr>eb_eventList := eb_eventList bus @ [node]\<rparr>"

definition SubScribe :: "bool \<Rightarrow> event_bus \<Rightarrow> nat option \<Rightarrow> u32 \<Rightarrow> ret \<times> event_bus" where
  "SubScribe memok bus listener event =
    (if IsExisted bus EVENT_TYPE_SINGLE listener event None then (IOTC_OK, bus)
     else if \<not> memok then (IOTC_ERROR, bus)
     else (IOTC_OK, bus_append bus
       \<lparr>el_type = EVENT_TYPE_SINGLE, el_event = event, el_match = None, el_listener = listener\<rparr>))"

definition SubScribeMatch :: "bool \<Rightarrow> event_bus \<Rightarrow> nat option \<Rightarrow> nat option \<Rightarrow> ret \<times> event_bus" where
  "SubScribeMatch memok bus listener match =
    (if IsExisted bus EVENT_TYPE_MATCH listener 0 match then (IOTC_OK, bus)
     else if \<not> memok then (IOTC_ERROR, bus)
     else (IOTC_OK, bus_append bus
       \<lparr>el_type = EVENT_TYPE_MATCH, el_event = 0, el_match = match, el_listener = listener\<rparr>))"

definition SubScribeAll :: "bool \<Rightarrow> event_bus \<Rightarrow> nat option \<Rightarrow> ret \<times> event_bus" where
  "SubScribeAll memok bus listener =
    (if IsExisted bus EVENT_TYPE_ALL listener 0 None then (IOTC_OK, bus)
     else if \<not> memok then (IOTC_ERROR, bus)
     else (IOTC_OK, bus_append bus
       \<lparr>el_type = EVENT_TYPE_ALL, el_event = 0, el_match = None, el_listener = listener\<rparr>))"

definition UnsubScribe :: "event_bus \<Rightarrow> nat option \<Rightarrow> ret \<times> event_bus" where
  "UnsubScribe bus listener =
    (let found = list_ex (\<lambda>n. el_listener n = listener) (eb_eventList bus)
     in (if \<not> found then IOTC_ERROR else IOTC_OK,
         bus\<lparr>eb_eventList := filter (\<lambda>n. el_listener n \<noteq> listener) (eb_eventList bus)\<rparr>))"

definition EventBusInit :: "bool \<Rightarrow> event_bus \<Rightarrow> ret \<times> event_bus" where
  "EventBusInit mutexok bus =
    (if eb_eventMutex bus then (IOTC_OK, bus)
     else if \<not> mutexok then (IOTC_CORE_COMM_UTILS_ERR_EX_MUTEX_CREATE, bus)
     else (IOTC_OK, bus\<lparr>eb_eventMutex := True\<rparr>))"

definition EventBusRegAsyncExecutor :: "bool \<Rightarrow> event_bus \<Rightarrow> bool \<Rightarrow> ret \<times> event_bus" where
  "EventBusRegAsyncExecutor lockok bus asyncExecutor =
    (if \<not> bus_lock lockok bus then (IOTC_ERROR, bus) else (IOTC_OK, bus\<lparr>eb_asyncExecutor := asyncExecutor\<rparr>))"

definition EventBusDeinit :: "event_bus \<Rightarrow> event_bus" where
  "EventBusDeinit bus = bus\<lparr>eb_eventList := [], eb_eventMutex := False\<rparr>"

definition EventBusSubscribe :: "bool \<Rightarrow> bool \<Rightarrow> event_bus \<Rightarrow> nat option \<Rightarrow> u32 \<Rightarrow> ret \<times> event_bus" where
  "EventBusSubscribe lockok memok bus listener event =
    (if listener = None then (IOTC_ERROR, bus)
     else if \<not> bus_lock lockok bus then (IOTC_ERROR, bus)
     else SubScribe memok bus listener event)"

definition EventBusSubscribeMatch :: "bool \<Rightarrow> bool \<Rightarrow> event_bus \<Rightarrow> nat option \<Rightarrow> nat option \<Rightarrow> ret \<times> event_bus" where
  "EventBusSubscribeMatch lockok memok bus listener match =
    (if listener = None \<or> match = None then (IOTC_ERROR, bus)
     else if \<not> bus_lock lockok bus then (IOTC_ERROR, bus)
     else SubScribeMatch memok bus listener match)"

definition EventBusSubscribeAll :: "bool \<Rightarrow> bool \<Rightarrow> event_bus \<Rightarrow> nat option \<Rightarrow> ret \<times> event_bus" where
  "EventBusSubscribeAll lockok memok bus listener =
    (if listener = None then (IOTC_ERROR, bus)
     else if \<not> bus_lock lockok bus then (IOTC_ERROR, bus)
     else SubScribeAll memok bus listener)"

definition EventBusUnsubscribe :: "bool \<Rightarrow> event_bus \<Rightarrow> nat option \<Rightarrow> ret \<times> event_bus" where
  "EventBusUnsubscribe lockok bus listener =
    (if listener = None then (IOTC_ERROR, bus)
     else if \<not> bus_lock lockok bus then (IOTC_ERROR, bus)
     else UnsubScribe bus listener)"

section \<open>Publishing\<close>

text \<open>The copied nodes; \<^term>\<open>Inr []\<close> stands for the null list when nobody may be interested.\<close>

definition GetPublishList :: "bool \<Rightarrow> bool \<Rightarrow> event_bus \<Rightarrow> u32 \<Rightarrow> ret + EventList list" where
  "GetPublishList lockok memok bus event =
    (if \<not> bus_lock lockok bus then Inl IOTC_ERR_TIMEOUT
     else
       (let nodes = filter (\<lambda>n. \<not> (el_type n = EVENT_TYPE_SINGLE \<and> event \<noteq> el_event n)) (eb_eventList bus) in
        if length nodes = 0 then Inr []
        else if \<not> memok then Inl IOTC_ADAPTER_MEM_ERR_CALLOC
        else Inr nodes))"

definition node_calls :: "(nat \<Rightarrow> u32 \<Rightarrow> bool) \<Rightarrow> u32 \<Rightarrow> EventList \<Rightarrow> bool" where
  "node_calls matches event cur =
    (if el_listener cur = None then False
     else
       (case el_type cur of
          EVENT_TYPE_SINGLE \<Rightarrow> event = el_event cur
        | EVENT_TYPE_ALL \<Rightarrow> True
        | EVENT_TYPE_MATCH \<Rightarrow> matches (the (el_match cur)) event))"

text \<open>The loop over the copied nodes: the calls of listeners, in order, and the bus afterwards.\<close>

fun publish_loop ::
    "(nat \<Rightarrow> u32 \<Rightarrow> bool) \<Rightarrow> (nat \<Rightarrow> event_bus \<Rightarrow> event_bus) \<Rightarrow> u32 \<Rightarrow> 'p \<Rightarrow> u32 \<Rightarrow> EventList list \<Rightarrow> event_bus \<Rightarrow>
      'p call list \<times> event_bus" where
  "publish_loop matches eff event param len [] bus = ([], bus)"
| "publish_loop matches eff event param len (cur # rest) bus =
    (if node_calls matches event cur then
       (let l = the (el_listener cur); (calls, bus) = publish_loop matches eff event param len rest (eff l bus)
        in ((l, event, param, len) # calls, bus))
     else publish_loop matches eff event param len rest bus)"

definition EventBusPublishSyncInner ::
    "bool \<Rightarrow> bool \<Rightarrow> (nat \<Rightarrow> u32 \<Rightarrow> bool) \<Rightarrow> (nat \<Rightarrow> event_bus \<Rightarrow> event_bus) \<Rightarrow> event_bus \<Rightarrow> u32 \<Rightarrow> 'p \<Rightarrow> u32 \<Rightarrow>
      'p call list \<times> event_bus" where
  "EventBusPublishSyncInner lockok memok matches eff bus event param len =
    (case GetPublishList lockok memok bus event of
       Inl e \<Rightarrow> ([], bus)
     | Inr nodes \<Rightarrow> if nodes = [] then ([], bus) else publish_loop matches eff event param len nodes bus)"

text \<open>The job handed to the executor, when it accepts it.\<close>

definition EventBusPublishAsyncInner ::
    "bool \<Rightarrow> bool \<Rightarrow> ret \<Rightarrow> event_bus \<Rightarrow> u32 \<Rightarrow> string option \<Rightarrow> 'p \<Rightarrow> u32 \<Rightarrow> nat option \<Rightarrow> ret \<times> 'p AsyncEventParam option" where
  "EventBusPublishAsyncInner lockok memok exec bus event name param len freeFunc =
    (if \<not> bus_lock lockok bus then (IOTC_ERROR, None)
     else if \<not> eb_asyncExecutor bus then (IOTC_ERR_PARAM_INVALID, None)
     else if \<not> memok then (IOTC_ADAPTER_MEM_ERR_MALLOC, None)
     else if exec \<noteq> IOTC_OK then (exec, None)
     else (IOTC_OK, Some \<lparr>ap_event = event, ap_name = name, ap_param = param, ap_len = len, ap_freeFunc = freeFunc\<rparr>))"

text \<open>The job when it runs: the calls of listeners, the bus afterwards, and the calls of the free function.\<close>

definition AsyncHandle ::
    "bool \<Rightarrow> bool \<Rightarrow> (nat \<Rightarrow> u32 \<Rightarrow> bool) \<Rightarrow> (nat \<Rightarrow> event_bus \<Rightarrow> event_bus) \<Rightarrow> event_bus \<Rightarrow> 'p AsyncEventParam option \<Rightarrow>
      'p call list \<times> event_bus \<times> 'p call list" where
  "AsyncHandle lockok memok matches eff bus param =
    (case param of
       None \<Rightarrow> ([], bus, [])
     | Some job \<Rightarrow>
        (let (calls, bus) = EventBusPublishSyncInner lockok memok matches eff bus (ap_event job) (ap_param job) (ap_len job)
         in (calls, bus,
             case ap_freeFunc job of None \<Rightarrow> [] | Some f \<Rightarrow> [(f, ap_event job, ap_param job, ap_len job)])))"

section \<open>Who is called\<close>

definition interested :: "(nat \<Rightarrow> u32 \<Rightarrow> bool) \<Rightarrow> u32 \<Rightarrow> EventList list \<Rightarrow> nat list" where
  "interested matches event nodes = map (the \<circ> el_listener) (filter (node_calls matches event) nodes)"

lemma interested_simps [simp]:
  "interested matches event [] = []"
  "interested matches event (n # ns) =
    (if node_calls matches event n then the (el_listener n) # interested matches event ns else interested matches event ns)"
  "interested matches event (ns @ ms) = interested matches event ns @ interested matches event ms"
  by (simp_all add: interested_def)

lemma publish_loop_calls:
  "fst (publish_loop matches eff event param len nodes bus) = map (\<lambda>l. (l, event, param, len)) (interested matches event nodes)"
proof (induction nodes arbitrary: bus)
  case (Cons n nodes)
  then show ?case
    by (cases "publish_loop matches eff event param len nodes (eff (the (el_listener n)) bus)")
      (use Cons [of "eff (the (el_listener n)) bus"] in auto)
qed simp

abbreviation candidates :: "u32 \<Rightarrow> EventList list \<Rightarrow> EventList list" where
  "candidates event nodes \<equiv> filter (\<lambda>n. \<not> (el_type n = EVENT_TYPE_SINGLE \<and> event \<noteq> el_event n)) nodes"

lemma interested_candidates: "interested matches event (candidates event nodes) = interested matches event nodes"
  by (induction nodes) (auto simp: node_calls_def)

lemma publish_calls:
  assumes "eb_eventMutex bus"
  shows "fst (EventBusPublishSyncInner True True matches eff bus event param len) =
    map (\<lambda>l. (l, event, param, len)) (interested matches event (eb_eventList bus))"
proof (cases "candidates event (eb_eventList bus) = []")
  case True
  then have "interested matches event (eb_eventList bus) = []"
    using interested_candidates [of matches event "eb_eventList bus"] by simp
  then show ?thesis using assms True by (simp add: EventBusPublishSyncInner_def GetPublishList_def bus_lock_def)
next
  case False
  then have "GetPublishList True True bus event = Inr (candidates event (eb_eventList bus))"
    using assms by (simp add: GetPublishList_def bus_lock_def)
  then show ?thesis
    using False by (simp only: EventBusPublishSyncInner_def sum.case if_False publish_loop_calls interested_candidates)
qed

section \<open>Well-formed buses\<close>

text \<open>Every node has a listener, and a match function when it is of the match type.\<close>

definition node_ok :: "EventList \<Rightarrow> bool" where
  "node_ok n = (el_listener n \<noteq> None \<and> (el_type n = EVENT_TYPE_MATCH \<longrightarrow> el_match n \<noteq> None))"

definition bus_ok :: "event_bus \<Rightarrow> bool" where
  "bus_ok bus = list_all node_ok (eb_eventList bus)"

datatype bus_op =
    Init bool
  | RegExecutor bool bool
  | Deinit
  | Subscribe bool bool "nat option" u32
  | SubscribeMatch bool bool "nat option" "nat option"
  | SubscribeAll bool bool "nat option"
  | Unsubscribe bool "nat option"

fun bus_step :: "event_bus \<Rightarrow> bus_op \<Rightarrow> event_bus" where
  "bus_step bus (Init m) = snd (EventBusInit m bus)"
| "bus_step bus (RegExecutor k e) = snd (EventBusRegAsyncExecutor k bus e)"
| "bus_step bus Deinit = EventBusDeinit bus"
| "bus_step bus (Subscribe k m l e) = snd (EventBusSubscribe k m bus l e)"
| "bus_step bus (SubscribeMatch k m l f) = snd (EventBusSubscribeMatch k m bus l f)"
| "bus_step bus (SubscribeAll k m l) = snd (EventBusSubscribeAll k m bus l)"
| "bus_step bus (Unsubscribe k l) = snd (EventBusUnsubscribe k bus l)"

lemmas subscribe_defs =
  EventBusSubscribe_def EventBusSubscribeMatch_def EventBusSubscribeAll_def EventBusUnsubscribe_def
  SubScribe_def SubScribeMatch_def SubScribeAll_def UnsubScribe_def bus_append_def

lemma bus_step_ok: "bus_ok bus \<Longrightarrow> bus_ok (bus_step bus op)"
  by (cases op)
    (auto simp: subscribe_defs EventBusInit_def EventBusRegAsyncExecutor_def EventBusDeinit_def Let_def bus_ok_def
      node_ok_def list_all_iff)

interpretation bus_run: step_system bus_step bus_ok
  by unfold_locales (rule bus_step_ok)

definition empty_bus :: event_bus where
  "empty_bus = \<lparr>eb_eventList = [], eb_eventMutex = False, eb_asyncExecutor = False\<rparr>"

lemma empty_bus_ok: "bus_ok empty_bus"
  by (simp add: bus_ok_def empty_bus_def)

text \<open>Calls that may take a subscription of a listener away.\<close>

fun drops :: "nat \<Rightarrow> bus_op \<Rightarrow> bool" where
  "drops l (Unsubscribe k l') = (l' = Some l)"
| "drops l Deinit = True"
| "drops l op = False"

text \<open>Calls that may give a listener a subscription.\<close>

fun gains :: "nat \<Rightarrow> bus_op \<Rightarrow> bool" where
  "gains l (Subscribe k m l' e) = (l' = Some l)"
| "gains l (SubscribeMatch k m l' f) = (l' = Some l)"
| "gains l (SubscribeAll k m l') = (l' = Some l)"
| "gains l op = False"

definition subscribed :: "(nat \<Rightarrow> u32 \<Rightarrow> bool) \<Rightarrow> u32 \<Rightarrow> nat \<Rightarrow> event_bus \<Rightarrow> bool" where
  "subscribed matches event l bus =
    (eb_eventMutex bus \<and> (\<exists>n \<in> set (eb_eventList bus). el_listener n = Some l \<and> node_calls matches event n))"

lemma subscribed_called:
  "subscribed matches event l bus \<Longrightarrow>
    (l, event, param, len) \<in> set (fst (EventBusPublishSyncInner True True matches eff bus event param len))"
  by (force simp: subscribed_def publish_calls interested_def)

lemma subscribed_step:
  "subscribed matches event l bus \<Longrightarrow> \<not> drops l op \<Longrightarrow> subscribed matches event l (bus_step bus op)"
  by (cases op)
    (auto simp: subscribe_defs EventBusInit_def EventBusRegAsyncExecutor_def EventBusDeinit_def Let_def subscribed_def)

lemma subscribed_run:
  "subscribed matches event l bus \<Longrightarrow> list_all (\<lambda>op. \<not> drops l op) ops \<Longrightarrow>
    subscribed matches event l (foldl bus_step bus ops)"
  by (induction ops arbitrary: bus) (simp_all add: subscribed_step)

lemma existed_subscribed:
  assumes "node_ok n" "existed_by (Some l) event None n"
  shows "el_listener n = Some l \<and> node_calls matches event n"
  using assms by (auto simp: node_ok_def existed_by_def node_calls_def split: EventType.splits)

lemma EventBusSubscribe_subscribed:
  assumes "bus_ok bus" "EventBusSubscribe lockok memok bus (Some l) event = (IOTC_OK, bus')"
  shows "subscribed matches event l bus'"
proof (cases "IsExisted bus EVENT_TYPE_SINGLE (Some l) event None")
  case True
  then obtain n where "n \<in> set (eb_eventList bus)" "existed_by (Some l) event None n"
    by (auto simp: IsExisted_def list_ex_iff)
  moreover have "node_ok n" using assms(1) calculation(1) by (simp add: bus_ok_def list_all_iff)
  moreover have "bus' = bus" "eb_eventMutex bus"
    using assms(2) True by (auto simp: EventBusSubscribe_def SubScribe_def bus_lock_def split: if_splits)
  ultimately show ?thesis using existed_subscribed [of n l event matches] by (auto simp: subscribed_def)
next
  case False
  then show ?thesis
    using assms(2)
    by (auto simp: EventBusSubscribe_def SubScribe_def bus_lock_def bus_append_def subscribed_def node_calls_def split: if_splits)
qed

section \<open>Properties\<close>

text \<open>
  A synchronous publication calls the listeners that are subscribed when it starts, in the order
  of their subscriptions: those subscribed to the event, to all events, and those whose match
  function accepts it.  What listeners subscribe or unsubscribe while they are called does not change
  who is called.
\<close>

theorem publish_snapshot:
  assumes "eb_eventMutex bus"
  shows "fst (EventBusPublishSyncInner True True matches eff bus event param len) =
    map (\<lambda>n. (the (el_listener n), event, param, len)) (filter (\<lambda>n. el_listener n \<noteq> None \<and>
      (el_type n = EVENT_TYPE_ALL \<or> el_type n = EVENT_TYPE_SINGLE \<and> el_event n = event \<or>
       el_type n = EVENT_TYPE_MATCH \<and> matches (the (el_match n)) event)) (eb_eventList bus))"
proof -
  have "node_calls matches event = (\<lambda>n. el_listener n \<noteq> None \<and>
      (el_type n = EVENT_TYPE_ALL \<or> el_type n = EVENT_TYPE_SINGLE \<and> el_event n = event \<or>
       el_type n = EVENT_TYPE_MATCH \<and> matches (the (el_match n)) event))"
    by (auto simp: node_calls_def fun_eq_iff split: EventType.splits)
  then show ?thesis using publish_calls [of bus matches eff event param len] assms by (simp add: interested_def)
qed

definition demo_bus :: event_bus where
  "demo_bus = \<lparr>eb_eventList = [\<lparr>el_type = EVENT_TYPE_SINGLE, el_event = 5, el_match = None, el_listener = Some 1\<rparr>,
     \<lparr>el_type = EVENT_TYPE_ALL, el_event = 0, el_match = None, el_listener = Some 2\<rparr>],
     eb_eventMutex = True, eb_asyncExecutor = False\<rparr>"

theorem publish_snapshot_witness:
  "eb_eventMutex demo_bus \<and>
   fst (EventBusPublishSyncInner True True (\<lambda>_ _. False) (\<lambda>l bus. snd (EventBusUnsubscribe True bus (Some 2))) demo_bus 5 () 0) =
     [(1, 5, (), 0), (2, 5, (), 0)]"
  using publish_snapshot [of demo_bus "\<lambda>_ _. False" "\<lambda>l bus. snd (EventBusUnsubscribe True bus (Some 2))" 5 "()" 0]
  by (simp add: demo_bus_def)

text \<open>
  C33. After any calls on the bus, a listener whose subscription to an event succeeds is called by every
  publication of the event, whatever is called in between, until it unsubscribes or the bus is shut down.
\<close>

theorem subscribe_delivers:
  assumes "EventBusSubscribe lockok memok (foldl bus_step empty_bus before) (Some l) event = (IOTC_OK, bus)"
    and "list_all (\<lambda>op. \<not> drops l op) after"
  shows "(l, event, param, len) \<in>
    set (fst (EventBusPublishSyncInner True True matches eff (foldl bus_step bus after) event param len))"
proof -
  have "bus_ok (foldl bus_step empty_bus before)" by (rule bus_run.run_inv [OF empty_bus_ok])
  then have "subscribed matches event l bus" using assms(1) by (rule EventBusSubscribe_subscribed)
  then show ?thesis using assms(2) by (intro subscribed_called subscribed_run)
qed

lemma demo_subscription:
  "EventBusSubscribe True True (foldl bus_step empty_bus [Init True]) (Some 1) 5 =
    (IOTC_OK, \<lparr>eb_eventList = [\<lparr>el_type = EVENT_TYPE_SINGLE, el_event = 5, el_match = None, el_listener = Some 1\<rparr>],
       eb_eventMutex = True, eb_asyncExecutor = False\<rparr>)"
  by (simp add: empty_bus_def EventBusInit_def EventBusSubscribe_def bus_lock_def SubScribe_def IsExisted_def bus_append_def)

theorem subscribe_delivers_witness:
  "(1, 5, (), 0) \<in> set (fst (EventBusPublishSyncInner True True (\<lambda>_ _. False) (\<lambda>_. id)
     (foldl bus_step \<lparr>eb_eventList = [\<lparr>el_type = EVENT_TYPE_SINGLE, el_event = 5, el_match = None, el_listener = Some 1\<rparr>],
       eb_eventMutex = True, eb_asyncExecutor = False\<rparr> [Unsubscribe True (Some 2)]) 5 () 0))"
  by (rule subscribe_delivers [OF demo_subscription]) simp

lemma unsubscribed_step:
  "\<forall>n \<in> set (eb_eventList bus). el_listener n \<noteq> Some l \<Longrightarrow> \<not> gains l op \<Longrightarrow>
    \<forall>n \<in> set (eb_eventList (bus_step bus op)). el_listener n \<noteq> Some l"
  by (cases op)
    (auto simp: subscribe_defs EventBusInit_def EventBusRegAsyncExecutor_def EventBusDeinit_def Let_def)

lemma unsubscribed_run:
  "\<forall>n \<in> set (eb_eventList bus). el_listener n \<noteq> Some l \<Longrightarrow> list_all (\<lambda>op. \<not> gains l op) ops \<Longrightarrow>
    \<forall>n \<in> set (eb_eventList (foldl bus_step bus ops)). el_listener n \<noteq> Some l"
proof (induction ops arbitrary: bus)
  case (Cons op ops)
  then show ?case using unsubscribed_step [of bus l op] by simp
qed simp

lemma calls_of_nodes:
  assumes "(l, e, p, k) \<in> set (fst (EventBusPublishSyncInner lockok memok matches eff bus event param len))"
  shows "\<exists>n \<in> set (eb_eventList bus). el_listener n = Some l"
proof -
  obtain nodes where "GetPublishList lockok memok bus event = Inr nodes"
    and called: "(l, e, p, k) \<in> set (fst (publish_loop matches eff event param len nodes bus))"
    using assms by (auto simp: EventBusPublishSyncInner_def split: sum.splits if_splits)
  then have "set nodes \<subseteq> set (eb_eventList bus)"
    by (auto simp: GetPublishList_def Let_def split: if_splits)
  moreover obtain n where "n \<in> set nodes" "node_calls matches event n" "l = the (el_listener n)"
    using called by (auto simp: publish_loop_calls interested_def)
  ultimately show ?thesis by (auto simp: node_calls_def split: if_splits)
qed

text \<open>
  Once a listener has unsubscribed successfully, no publication of any event calls it, under any outcome of
  locks and allocations, until it subscribes again.
\<close>

theorem unsubscribe_silences:
  assumes "EventBusUnsubscribe lockok bus (Some l) = (IOTC_OK, bus')"
    and "list_all (\<lambda>op. \<not> gains l op) after"
  shows "l \<notin> fst ` set (fst (EventBusPublishSyncInner lk memok matches eff (foldl bus_step bus' after) event param len))"
proof -
  have "\<forall>n \<in> set (eb_eventList bus'). el_listener n \<noteq> Some l"
    using assms(1) by (auto simp: EventBusUnsubscribe_def UnsubScribe_def Let_def split: if_splits)
  then have "\<forall>n \<in> set (eb_eventList (foldl bus_step bus' after)). el_listener n \<noteq> Some l"
    using assms(2) by (rule unsubscribed_run)
  then show ?thesis using calls_of_nodes by fastforce
qed

lemma demo_unsubscription: "EventBusUnsubscribe True demo_bus (Some 1) =
    (IOTC_OK, demo_bus\<lparr>eb_eventList := tl (eb_eventList demo_bus)\<rparr>)"
  by (simp add: EventBusUnsubscribe_def UnsubScribe_def bus_lock_def demo_bus_def)

theorem unsubscribe_silences_witness:
  "1 \<notin> fst ` set (fst (EventBusPublishSyncInner True True (\<lambda>_ _. False) (\<lambda>_. id)
     (foldl bus_step (demo_bus\<lparr>eb_eventList := tl (eb_eventList demo_bus)\<rparr>) [SubscribeAll True True (Some 3)]) 5 () 0))"
  by (rule unsubscribe_silences [OF demo_unsubscription]) simp

definition clash_bus :: event_bus where
  "clash_bus = foldl bus_step empty_bus
    [Init True, SubscribeMatch True True (Some 1) (Some 7), Subscribe True True (Some 3) 0]"

text \<open>
  The test for an existing subscription does not look at the kind that is asked for.  A listener that
  subscribes with a match function another listener already uses is told that it is subscribed and is not, and so
  is a listener with a subscription to event 0 that subscribes to all events: neither is ever called for an
  event the test function accepts, respectively for another event.
\<close>

theorem subscription_dropped:
  "EventBusSubscribeMatch True True clash_bus (Some 2) (Some 7) = (IOTC_OK, clash_bus) \<and>
    EventBusSubscribeAll True True clash_bus (Some 3) = (IOTC_OK, clash_bus) \<and>
    fst (EventBusPublishSyncInner True True (\<lambda>f e. e = 5) eff clash_bus 5 param len) = [(1, 5, param, len)]"
proof -
  have bus: "clash_bus = \<lparr>eb_eventList = [\<lparr>el_type = EVENT_TYPE_MATCH, el_event = 0, el_match = Some 7, el_listener = Some 1\<rparr>,
      \<lparr>el_type = EVENT_TYPE_SINGLE, el_event = 0, el_match = None, el_listener = Some 3\<rparr>],
      eb_eventMutex = True, eb_asyncExecutor = False\<rparr>"
    by (simp add: clash_bus_def empty_bus_def EventBusInit_def EventBusSubscribe_def EventBusSubscribeMatch_def bus_lock_def
        SubScribe_def SubScribeMatch_def IsExisted_def existed_by_def bus_append_def)
  show ?thesis
    unfolding bus
    by (simp add: EventBusSubscribeMatch_def EventBusSubscribeAll_def bus_lock_def SubScribeAll_def SubScribeMatch_def
        IsExisted_def existed_by_def EventBusPublishSyncInner_def GetPublishList_def node_calls_def)
qed

end
