(* ===== verification/Service_Manager.thy ===== *)
theory Service_Manager
  imports Errcode Contracts
begin

text \<open>
  The service manager (\<open>service_manager.c\<close>): the registry of services, their life cycle, the
  subscriptions to the messages of a service and the delivery of a message to its subscribers.

  Handlers are pointers, here numbers; what a handler answers and what it does to the manager is an
  argument of the calls that run it (they hold no lock while it runs).  The outcomes of locks,
  allocations and of the executor are arguments.  \<^const>\<open>None\<close> as the result of a call is a memory
  fault: a list head that was never set up, a read behind an array, or the overflow of the instance
  numbers.  The context is that after the first \<open>ServiceManagerInit\<close>.
\<close>

section \<open>Data\<close>

text \<open>Identifiers are \<open>int32_t\<close> values that are only compared.\<close>

type_synonym s32 = "32 word"

datatype ServiceIdType = SERVICE_ID | INSTANCE_ID

abbreviation (input) SERVICE_BIT_MAP_RUNNING :: nat where
  "SERVICE_BIT_MAP_RUNNING \<equiv> 0"

record MessageSubNode =
  mb_serviceId :: s32
  mb_subHandler :: nat

text \<open>A \<open>subList\<close> of \<^const>\<open>None\<close> is a list head with null pointers.\<close>

record MessageNode =
  mn_messageId :: s32
  mn_subNum :: u32
  mn_subList :: "MessageSubNode list option"

record ServiceHandler =
  sh_onStart :: "nat option"
  sh_onStop :: "nat option"
  sh_onReset :: "nat option"

text \<open>\<open>msgNum\<close> is the length of \<open>msgs\<close>; \<open>depends\<close> and \<open>depNum\<close> are never set.\<close>

record ServiceNode =
  sn_serviceId :: s32
  sn_instanceId :: s32
  sn_bitMap :: u32
  sn_name :: "string option"
  sn_handler :: ServiceHandler
  sn_apiHandler :: "nat option"
  sn_msgs :: "MessageNode list"

record ServiceManagerContext =
  sx_instanceIdBase :: s32
  sx_mutex :: bool
  sx_serviceList :: "ServiceNode list"
  sx_executor :: "nat option"

record ServiceInstance =
  si_serviceId :: s32
  si_name :: "string option"
  si_handler :: "ServiceHandler option"
  si_msgNum :: u32
  si_msgIds :: "s32 list option"
  si_apiHandler :: "nat option"

datatype ServiceMessageType = SERVICE_MESSAGE_TYPE_REQUEST | SERVICE_MESSAGE_TYPE_RESPONSE

record ServiceMessage =
  sm_serviceId :: s32
  sm_msgId :: s32
  sm_type :: ServiceMessageType
  sm_msg :: "nat option"
  sm_ctx :: "nat option"

record ServiceRequestInfo =
  ri_instanceId :: s32
  ri_msgId :: s32
  ri_req :: "nat option"

record ServiceResponseInfo =
  rs_resp :: "nat option"
  rs_freeHandler :: "nat option"

record ServiceAsyncMsgInfo =
  am_reqInfo :: ServiceRequestInfo
  am_freeHandler :: "nat option"
  am_respHandler :: "nat option"

text \<open>The lock is taken when the mutex exists and the adapter grants it.\<close>

definition svc_lock :: "bool \<Rightarrow> ServiceManagerContext \<Rightarrow> bool" where
  "svc_lock lockok ctx = (sx_mutex ctx \<and> lockok)"

text \<open>A write through a pointer to the first element with some property.\<close>

fun update_first :: "('a \<Rightarrow> bool) \<Rightarrow> ('a \<Rightarrow> 'a) \<Rightarrow> 'a list \<Rightarrow> 'a list" where
  "update_first P f [] = []"
| "update_first P f (x # xs) = (if P x then f x # xs else x # update_first P f xs)"

fun remove_first :: "('a \<Rightarrow> bool) \<Rightarrow> 'a list \<Rightarrow> 'a list" where
  "remove_first P [] = []"
| "remove_first P (x # xs) = (if P x then xs else x # remove_first P xs)"

section \<open>Looking up and clearing\<close>

definition GetMessageNode :: "ServiceNode \<Rightarrow> s32 \<Rightarrow> MessageNode option" where
  "GetMessageNode svcNode mid = find (\<lambda>m. mn_messageId m = mid) (sn_msgs svcNode)"

definition id_matches :: "s32 \<Rightarrow> ServiceIdType \<Rightarrow> ServiceNode \<Rightarrow> bool" where
  "id_matches i type node =
    (if type = SERVICE_ID \<and> i \<noteq> sn_serviceId node then False
     else if type = INSTANCE_ID \<and> i \<noteq> sn_instanceId node then False
     else True)"

definition GetServiceNode :: "ServiceManagerContext \<Rightarrow> s32 \<Rightarrow> ServiceIdType \<Rightarrow> ServiceNode option" where
  "GetServiceNode ctx i type = find (id_matches i type) (sx_serviceList ctx)"

text \<open>The loop over a list of subscribers that removes those of one service.\<close>

fun remove_subs :: "s32 \<Rightarrow> MessageSubNode list \<Rightarrow> u32 \<Rightarrow> MessageSubNode list \<times> u32" where
  "remove_subs sid [] n = ([], n)"
| "remove_subs sid (s # ss) n =
    (if mb_serviceId s \<noteq> sid then (let (ss', n') = remove_subs sid ss n in (s # ss', n'))
     else remove_subs sid ss (if n > 0 then n - 1 else 0))"

definition clear_msg :: "s32 \<Rightarrow> MessageNode \<Rightarrow> MessageNode option" where
  "clear_msg sid msgNode =
    (if mn_subNum msgNode = 0 then Some msgNode
     else
       (case mn_subList msgNode of
          None \<Rightarrow> None
        | Some ss \<Rightarrow>
            (let (ss', n) = remove_subs sid ss (mn_subNum msgNode)
             in Some (msgNode\<lparr>mn_subList := Some ss', mn_subNum := n\<rparr>))))"

definition ClearServiceMsgSub :: "ServiceNode \<Rightarrow> s32 \<Rightarrow> ServiceNode option" where
  "ClearServiceMsgSub svcNode sid =
    map_option (\<lambda>ms. svcNode\<lparr>sn_msgs := ms\<rparr>) (those (map (clear_msg sid) (sn_msgs svcNode)))"

definition ClearServiceAllMsgSub :: "ServiceManagerContext \<Rightarrow> s32 \<Rightarrow> ServiceManagerContext option" where
  "ClearServiceAllMsgSub ctx sid =
    map_option (\<lambda>ns. ctx\<lparr>sx_serviceList := ns\<rparr>)
      (those (map (\<lambda>n. if sn_serviceId n = sid \<or> sn_msgs n = [] then Some n else ClearServiceMsgSub n sid)
        (sx_serviceList ctx)))"

section \<open>Life cycle of a service\<close>

definition UTILS_BIT :: "nat \<Rightarrow> u32" where
  "UTILS_BIT n = push_bit n 1"

definition is_running :: "ServiceNode \<Rightarrow> bool" where
  "is_running node = (sn_bitMap node AND UTILS_BIT SERVICE_BIT_MAP_RUNNING \<noteq> 0)"

definition OnServiceFinish :: "bool \<Rightarrow> ServiceManagerContext \<Rightarrow> s32 \<Rightarrow> ServiceManagerContext option" where
  "OnServiceFinish lockok ctx instanceId =
    (if \<not> svc_lock lockok ctx then Some ctx
     else
       (case GetServiceNode ctx instanceId INSTANCE_ID of
          None \<Rightarrow> Some ctx
        | Some svcNode \<Rightarrow>
            (let ctx = ctx\<lparr>sx_serviceList :=
               update_first (id_matches instanceId INSTANCE_ID)
                 (\<lambda>n. n\<lparr>sn_bitMap := sn_bitMap n AND NOT (UTILS_BIT SERVICE_BIT_MAP_RUNNING)\<rparr>)
                 (sx_serviceList ctx)\<rparr>
             in ClearServiceAllMsgSub ctx (sn_serviceId svcNode))))"

text \<open>The second critical section of a start, with what the start handler returned.\<close>

definition start_end :: "bool \<Rightarrow> ServiceManagerContext \<Rightarrow> s32 \<Rightarrow> ret \<Rightarrow> ret \<times> ServiceManagerContext" where
  "start_end lockok ctx serviceId r =
    (if \<not> svc_lock lockok ctx then (IOTC_ERR_TIMEOUT, ctx)
     else
       (case GetServiceNode ctx serviceId SERVICE_ID of
          None \<Rightarrow> (IOTC_CORE_COMM_FWK_ERR_SERVICE_INVALID, ctx)
        | Some svcNode \<Rightarrow>
            (if is_running svcNode then (IOTC_OK, ctx)
             else if r = IOTC_OK then
               (r, ctx\<lparr>sx_serviceList :=
                  update_first (id_matches serviceId SERVICE_ID)
                    (\<lambda>n. n\<lparr>sn_bitMap := sn_bitMap n OR UTILS_BIT SERVICE_BIT_MAP_RUNNING\<rparr>)
                    (sx_serviceList ctx)\<rparr>)
             else (r, ctx))))"

text \<open>
  The last component of a result is the call made to a handler of the service, with the instance
  number it is given.  \<open>run h i ctx\<close> is what handler \<open>h\<close> returns and the context it leaves.
\<close>

definition ServiceProxyStartService ::
    "bool \<Rightarrow> bool \<Rightarrow> (nat \<Rightarrow> s32 \<Rightarrow> ServiceManagerContext \<Rightarrow> ret \<times> ServiceManagerContext) \<Rightarrow>
     ServiceManagerContext \<Rightarrow> s32 \<Rightarrow> ret \<times> ServiceManagerContext \<times> (nat \<times> s32) option" where
  "ServiceProxyStartService lock1 lock2 run ctx serviceId =
    (if \<not> svc_lock lock1 ctx then (IOTC_ERR_TIMEOUT, ctx, None)
     else
       (case GetServiceNode ctx serviceId SERVICE_ID of
          None \<Rightarrow> (IOTC_CORE_COMM_FWK_ERR_SERVICE_INVALID, ctx, None)
        | Some svcNode \<Rightarrow>
            (if is_running svcNode then (IOTC_OK, ctx, None)
             else
               (case sh_onStart (sn_handler svcNode) of
                  None \<Rightarrow> (IOTC_ERR_CALLBACK_NULL, ctx, None)
                | Some h \<Rightarrow>
                    (let (r, ctx) = run h (sn_instanceId svcNode) ctx;
                         (r, ctx) = start_end lock2 ctx serviceId r
                     in (r, ctx, Some (h, sn_instanceId svcNode)))))))"

definition ServiceProxyStopService ::
    "bool \<Rightarrow> (nat \<Rightarrow> s32 \<Rightarrow> ServiceManagerContext \<Rightarrow> ret \<times> ServiceManagerContext) \<Rightarrow>
     ServiceManagerContext \<Rightarrow> s32 \<Rightarrow> ret \<times> ServiceManagerContext \<times> (nat \<times> s32) option" where
  "ServiceProxyStopService lockok run ctx serviceId =
    (if \<not> svc_lock lockok ctx then (IOTC_ERR_TIMEOUT, ctx, None)
     else
       (case GetServiceNode ctx serviceId SERVICE_ID of
          None \<Rightarrow> (IOTC_CORE_COMM_FWK_ERR_SERVICE_INVALID, ctx, None)
        | Some svcNode \<Rightarrow>
            (if \<not> is_running svcNode then (IOTC_OK, ctx, None)
             else
               (case sh_onStop (sn_handler svcNode) of
                  None \<Rightarrow> (IOTC_ERR_CALLBACK_NULL, ctx, None)
                | Some h \<Rightarrow>
                    (let (r, ctx) = run h (sn_instanceId svcNode) ctx
                     in (r, ctx, Some (h, sn_instanceId svcNode)))))))"

definition ServiceProxyResetService ::
    "bool \<Rightarrow> (nat \<Rightarrow> s32 \<Rightarrow> ServiceManagerContext \<Rightarrow> ret \<times> ServiceManagerContext) \<Rightarrow>
     ServiceManagerContext \<Rightarrow> s32 \<Rightarrow> ret \<times> ServiceManagerContext \<times> (nat \<times> s32) option" where
  "ServiceProxyResetService lockok run ctx serviceId =
    (if \<not> svc_lock lockok ctx then (IOTC_ERR_TIMEOUT, ctx, None)
     else
       (case GetServiceNode ctx serviceId SERVICE_ID of
          None \<Rightarrow> (IOTC_CORE_COMM_FWK_ERR_SERVICE_INVALID, ctx, None)
        | Some svcNode \<Rightarrow>
            (if \<not> is_running svcNode then (IOTC_OK, ctx, None)
             else
               (case sh_onReset (sn_handler svcNode) of
                  None \<Rightarrow> (IOTC_ERR_CALLBACK_NULL, ctx, None)
                | Some h \<Rightarrow>
                    (let (r, ctx) = run h (sn_instanceId svcNode) ctx
                     in (r, ctx, Some (h, sn_instanceId svcNode)))))))"

text \<open>The second component is the pointer stored through \<open>apiHandler\<close>, when one is stored.\<close>

definition ServiceProxyGetApiHandler ::
    "bool \<Rightarrow> ServiceManagerContext \<Rightarrow> s32 \<Rightarrow> bool \<Rightarrow> ret \<times> nat option option" where
  "ServiceProxyGetApiHandler lockok ctx serviceId out =
    (if \<not> out then (IOTC_ERR_PARAM_INVALID, None)
     else if \<not> svc_lock lockok ctx then (IOTC_ERR_TIMEOUT, None)
     else
       (case GetServiceNode ctx serviceId SERVICE_ID of
          None \<Rightarrow> (IOTC_CORE_COMM_FWK_ERR_SERVICE_INSTANCE_INVALID, None)
        | Some svc \<Rightarrow>
            (if \<not> is_running svc then (IOTC_CORE_COMM_FWK_ERR_SERVICE_INSTANCE_INVALID, None)
             else if sn_apiHandler svc = None then
               (IOTC_CORE_COMM_FWK_ERR_SERVICE_NO_API, Some (sn_apiHandler svc))
             else (IOTC_OK, Some (sn_apiHandler svc)))))"

section \<open>Subscriptions\<close>

definition MessageSubNodeNew :: "bool \<Rightarrow> s32 \<Rightarrow> nat \<Rightarrow> MessageSubNode option" where
  "MessageSubNodeNew memok serviceId subHandler =
    (if \<not> memok then None else Some \<lparr>mb_serviceId = serviceId, mb_subHandler = subHandler\<rparr>)"

definition update_msg ::
    "s32 \<Rightarrow> s32 \<Rightarrow> (MessageNode \<Rightarrow> MessageNode) \<Rightarrow> ServiceManagerContext \<Rightarrow> ServiceManagerContext" where
  "update_msg serviceId msgId f ctx =
    ctx\<lparr>sx_serviceList :=
      update_first (id_matches serviceId SERVICE_ID)
        (\<lambda>n. n\<lparr>sn_msgs := update_first (\<lambda>m. mn_messageId m = msgId) f (sn_msgs n)\<rparr>)
        (sx_serviceList ctx)\<rparr>"

definition ServiceProxySubscribeMessage ::
    "bool \<Rightarrow> bool \<Rightarrow> ServiceManagerContext \<Rightarrow> s32 \<Rightarrow> s32 \<Rightarrow> s32 \<Rightarrow> nat option \<Rightarrow>
     (ret \<times> ServiceManagerContext) option" where
  "ServiceProxySubscribeMessage lockok memok ctx instanceId serviceId msgId handler =
    (case handler of
       None \<Rightarrow> Some (IOTC_ERR_PARAM_INVALID, ctx)
     | Some h \<Rightarrow>
    (if \<not> svc_lock lockok ctx then Some (IOTC_ERR_TIMEOUT, ctx)
     else
       (case GetServiceNode ctx instanceId INSTANCE_ID of
          None \<Rightarrow> Some (IOTC_CORE_COMM_FWK_ERR_SERVICE_INSTANCE_INVALID, ctx)
        | Some srcSvc \<Rightarrow>
    (if sn_serviceId srcSvc = serviceId then Some (IOTC_CORE_COMM_FWK_ERR_SERVICE_SUB_MSG_SELF, ctx)
     else
       (case GetServiceNode ctx serviceId SERVICE_ID of
          None \<Rightarrow> Some (IOTC_CORE_COMM_FWK_ERR_SERVICE_INVALID, ctx)
        | Some dstSvc \<Rightarrow>
       (case GetMessageNode dstSvc msgId of
          None \<Rightarrow> Some (IOTC_CORE_COMM_FWK_ERR_SERVICE_MESSAGE_INVALID, ctx)
        | Some msg \<Rightarrow>
       (case mn_subList msg of
          None \<Rightarrow> None
        | Some subs \<Rightarrow>
            (if list_ex (\<lambda>s. mb_serviceId s = sn_serviceId srcSvc) subs then Some (IOTC_OK, ctx)
             else
               (case MessageSubNodeNew memok (sn_serviceId srcSvc) h of
                  None \<Rightarrow> Some (IOTC_ADAPTER_MEM_ERR_CALLOC, ctx)
                | Some newSubNode \<Rightarrow>
                    Some (IOTC_OK,
                      update_msg serviceId msgId
                        (\<lambda>m. m\<lparr>mn_subList := Some (subs @ [newSubNode]), mn_subNum := mn_subNum m + 1\<rparr>)
                        ctx))))))))))"

definition ServiceProxyRemoveSubscribe ::
    "bool \<Rightarrow> ServiceManagerContext \<Rightarrow> s32 \<Rightarrow> s32 \<Rightarrow> s32 \<Rightarrow> (ret \<times> ServiceManagerContext) option" where
  "ServiceProxyRemoveSubscribe lockok ctx instanceId serviceId msgId =
    (if \<not> svc_lock lockok ctx then Some (IOTC_ERR_TIMEOUT, ctx)
     else
       (case GetServiceNode ctx instanceId INSTANCE_ID of
          None \<Rightarrow> Some (IOTC_CORE_COMM_FWK_ERR_SERVICE_INSTANCE_INVALID, ctx)
        | Some srcSvc \<Rightarrow>
       (case GetServiceNode ctx serviceId SERVICE_ID of
          None \<Rightarrow> Some (IOTC_CORE_COMM_FWK_ERR_SERVICE_INVALID, ctx)
        | Some dstSvc \<Rightarrow>
       (case GetMessageNode dstSvc msgId of
          None \<Rightarrow> Some (IOTC_CORE_COMM_FWK_ERR_SERVICE_MESSAGE_INVALID, ctx)
        | Some msg \<Rightarrow>
       (case mn_subList msg of
          None \<Rightarrow> None
        | Some subs \<Rightarrow>
            (if list_ex (\<lambda>s. mb_serviceId s = sn_serviceId srcSvc) subs then
               Some (IOTC_OK,
                 update_msg serviceId msgId
                   (\<lambda>m. m\<lparr>mn_subList := Some (remove_first (\<lambda>s. mb_serviceId s = sn_serviceId srcSvc) subs),
                          mn_subNum := (if mn_subNum m > 0 then mn_subNum m - 1 else 0)\<rparr>)
                   ctx)
             else Some (IOTC_OK, ctx)))))))"

section \<open>Sending a message\<close>

definition zero_message :: ServiceMessage where
  "zero_message = \<lparr>sm_serviceId = 0, sm_msgId = 0, sm_type = SERVICE_MESSAGE_TYPE_REQUEST, sm_msg = None, sm_ctx = None\<rparr>"

text \<open>The loop that fills the two zeroed arrays of \<open>num\<close> entries, at entry \<open>i\<close>.\<close>

fun fill_subs ::
    "nat \<Rightarrow> s32 \<Rightarrow> MessageSubNode list \<Rightarrow> nat \<Rightarrow> nat option list \<Rightarrow> ServiceMessage list \<Rightarrow>
     nat option list \<times> ServiceMessage list" where
  "fill_subs num msgId [] i hs resp = (hs, resp)"
| "fill_subs num msgId (s # ss) i hs resp =
    (if i \<ge> num then (hs, resp)
     else fill_subs num msgId ss (i + 1) (hs[i := Some (mb_subHandler s)])
       (resp[i := (resp ! i)\<lparr>sm_msgId := msgId, sm_serviceId := mb_serviceId s,
                             sm_type := SERVICE_MESSAGE_TYPE_RESPONSE\<rparr>]))"

text \<open>The arrays are empty when there is no subscriber; \<open>mem 0\<close> and \<open>mem 1\<close> are the two allocations.\<close>

definition GetMsgSubList ::
    "alloc \<Rightarrow> ServiceNode \<Rightarrow> s32 \<Rightarrow> (ret \<times> nat option list \<times> ServiceMessage list) option" where
  "GetMsgSubList mem svcNode msgId =
    (case GetMessageNode svcNode msgId of
       None \<Rightarrow> Some (IOTC_CORE_COMM_FWK_ERR_SERVICE_MESSAGE_INVALID, [], [])
     | Some msgNode \<Rightarrow>
         (let num = unat (mn_subNum msgNode) in
          if num = 0 then Some (IOTC_OK, [], [])
          else if \<not> mem 0 then Some (IOTC_ADAPTER_MEM_ERR_CALLOC, [], [])
          else if \<not> mem 1 then Some (IOTC_ADAPTER_MEM_ERR_CALLOC, [], [])
          else
            (case mn_subList msgNode of
               None \<Rightarrow> None
             | Some subs \<Rightarrow>
                 (let (hs, resp) = fill_subs num msgId subs 0 (replicate num None) (replicate num zero_message)
                  in Some (IOTC_OK, hs, resp)))))"

text \<open>
  Moving the answers to the front: the loop at entry \<open>i\<close>, with the array, the first gap seen
  (\<open>num\<close> when there is none) and the count of answers.  The copy is between two entries of the
  array and always succeeds.
\<close>

function sort_loop ::
    "nat \<Rightarrow> nat \<Rightarrow> nat \<Rightarrow> nat \<Rightarrow> ServiceMessage list \<Rightarrow> ServiceMessage list \<times> nat" where
  "sort_loop num i index finalNum resp =
    (if i \<ge> num then (resp, finalNum)
     else if sm_msg (resp ! i) = None then
       sort_loop num (i + 1) (if index = num then i else index) finalNum resp
     else if index \<ge> i then sort_loop num (i + 1) index (finalNum + 1) resp
     else sort_loop num (i + 1) index (finalNum + 1) (resp[index := resp ! i, i := zero_message]))"
  by auto
termination by (relation "measure (\<lambda>(num, i, _). num - i)") auto

declare sort_loop.simps [simp del]

definition ResponseMessageSort :: "ServiceMessage list \<Rightarrow> ret \<times> ServiceMessage list \<times> nat" where
  "ResponseMessageSort resp =
    (let num = length resp; (resp, finalNum) = sort_loop num 0 num 0 resp in (IOTC_OK, resp, finalNum))"

text \<open>What handler \<open>h\<close> returns for a request, the answer it fills in and the context it leaves.\<close>

type_synonym sub_run =
  "nat \<Rightarrow> ServiceMessage \<Rightarrow> ServiceManagerContext \<Rightarrow> ret \<times> ServiceResponseInfo \<times> ServiceManagerContext"

text \<open>The calls of the subscribers in order, over the two arrays.\<close>

fun SendMsgToSubHandler ::
    "sub_run \<Rightarrow> ServiceMessage \<Rightarrow> nat option list \<Rightarrow> ServiceMessage list \<Rightarrow> ServiceManagerContext \<Rightarrow>
     ServiceMessage list \<times> nat list \<times> ServiceManagerContext" where
  "SendMsgToSubHandler run reqMsg (h # hs) (m # ms) ctx =
    (case h of
       None \<Rightarrow> (let (ms', calls, ctx) = SendMsgToSubHandler run reqMsg hs ms ctx in (m # ms', calls, ctx))
     | Some f \<Rightarrow>
         (let (r, respInfo, ctx) = run f reqMsg ctx;
              m' = (if r \<noteq> IOTC_OK then m
                    else if rs_resp respInfo = None then m
                    else m\<lparr>sm_msg := rs_resp respInfo, sm_ctx := rs_freeHandler respInfo\<rparr>);
              (ms', calls, ctx) = SendMsgToSubHandler run reqMsg hs ms ctx
          in (m' # ms', f # calls, ctx)))"
| "SendMsgToSubHandler run reqMsg hs ms ctx = (ms, [], ctx)"

text \<open>The calls of free handlers with the answer they release; a null array is \<^const>\<open>None\<close>.\<close>

definition ServiceProxyFreeResponseMessage :: "ServiceMessage list option \<Rightarrow> nat \<Rightarrow> (nat \<times> nat) list option" where
  "ServiceProxyFreeResponseMessage resp respNum =
    (case resp of
       None \<Rightarrow> Some []
     | Some ms \<Rightarrow>
         (if respNum = 0 then Some []
          else if respNum > length ms then None
          else Some (List.map_filter
            (\<lambda>cur. case (sm_msg cur, sm_ctx cur) of (Some msg, Some f) \<Rightarrow> Some (f, msg) | _ \<Rightarrow> None)
            (take respNum ms))))"

text \<open>What a send leaves: the array stored through \<open>resp\<close>, \<open>*respNum\<close> when it is written, the
  handlers called, the answers released and the context.\<close>

record send_out =
  so_resp :: "ServiceMessage list option"
  so_respNum :: "nat option"
  so_calls :: "nat list"
  so_frees :: "(nat \<times> nat) list"
  so_ctx :: ServiceManagerContext

definition no_send :: "ServiceManagerContext \<Rightarrow> send_out" where
  "no_send ctx = \<lparr>so_resp = None, so_respNum = None, so_calls = [], so_frees = [], so_ctx = ctx\<rparr>"

definition ServiceProxySendMessage ::
    "bool \<Rightarrow> alloc \<Rightarrow> sub_run \<Rightarrow> ServiceManagerContext \<Rightarrow> ServiceRequestInfo option \<Rightarrow> bool \<Rightarrow> bool \<Rightarrow>
     (ret \<times> send_out) option" where
  "ServiceProxySendMessage lockok mem run ctx request resp respNum =
    (case request of
       None \<Rightarrow> Some (IOTC_ERR_PARAM_INVALID, no_send ctx)
     | Some req \<Rightarrow>
    (if ri_req req = None then Some (IOTC_ERR_PARAM_INVALID, no_send ctx)
     else if \<not> svc_lock lockok ctx then Some (IOTC_ERR_TIMEOUT, no_send ctx)
     else
       (case GetServiceNode ctx (ri_instanceId req) INSTANCE_ID of
          None \<Rightarrow> Some (IOTC_CORE_COMM_FWK_ERR_SERVICE_INSTANCE_INVALID, no_send ctx)
        | Some srcSvc \<Rightarrow>
       (case GetMsgSubList mem srcSvc (ri_msgId req) of
          None \<Rightarrow> None
        | Some (r, subHandler, respMsg) \<Rightarrow>
            (if r \<noteq> IOTC_OK \<or> length subHandler = 0 then Some (r, no_send ctx)
             else
               (let reqMsg = \<lparr>sm_serviceId = sn_serviceId srcSvc, sm_msgId = ri_msgId req,
                              sm_type = SERVICE_MESSAGE_TYPE_REQUEST, sm_msg = ri_req req, sm_ctx = None\<rparr>;
                    num = length subHandler;
                    (respMsg, calls, ctx) = SendMsgToSubHandler run reqMsg subHandler respMsg ctx
                in if \<not> resp \<or> \<not> respNum then
                     map_option (\<lambda>frees. (IOTC_OK, (no_send ctx)\<lparr>so_calls := calls, so_frees := frees\<rparr>))
                       (ServiceProxyFreeResponseMessage (Some respMsg) num)
                   else
                     (let (r, respMsg, n) = ResponseMessageSort respMsg in
                      if r \<noteq> IOTC_OK \<or> n = 0 then
                        map_option (\<lambda>frees. (r, (no_send ctx)\<lparr>so_respNum := Some 0, so_calls := calls, so_frees := frees\<rparr>))
                          (ServiceProxyFreeResponseMessage (Some respMsg) num)
                      else
                        Some (IOTC_OK, (no_send ctx)\<lparr>so_resp := Some respMsg, so_respNum := Some n,
                                         so_calls := calls\<rparr>))))))))"

text \<open>
  The asynchronous handler: the result of the send, the call of the response handler, the answers
  released (by the send and afterwards) and the release of the request.
\<close>

record async_out =
  ao_ret :: ret
  ao_calls :: "nat list"
  ao_resp :: "(nat \<times> s32 \<times> ServiceMessage list option \<times> nat) option"
  ao_frees :: "(nat \<times> nat) list"
  ao_reqFree :: "(nat \<times> nat option) option"
  ao_ctx :: ServiceManagerContext

definition ServiceAsyncHandler ::
    "bool \<Rightarrow> alloc \<Rightarrow> sub_run \<Rightarrow> ServiceManagerContext \<Rightarrow> ServiceAsyncMsgInfo \<Rightarrow> async_out option" where
  "ServiceAsyncHandler lockok mem run ctx asyncParam =
    (let want = am_respHandler asyncParam \<noteq> None in
     case ServiceProxySendMessage lockok mem run ctx (Some (am_reqInfo asyncParam)) want want of
       None \<Rightarrow> None
     | Some (r, out) \<Rightarrow>
         (let respNum = (case so_respNum out of None \<Rightarrow> 0 | Some n \<Rightarrow> n);
              reqFree = map_option (\<lambda>f. (f, ri_req (am_reqInfo asyncParam))) (am_freeHandler asyncParam)
          in if r = IOTC_OK then
               map_option
                 (\<lambda>frees. \<lparr>ao_ret = r, ao_calls = so_calls out,
                   ao_resp = map_option (\<lambda>h. (h, ri_msgId (am_reqInfo asyncParam), so_resp out, respNum))
                               (am_respHandler asyncParam),
                   ao_frees = so_frees out @ frees, ao_reqFree = reqFree, ao_ctx = so_ctx out\<rparr>)
                 (ServiceProxyFreeResponseMessage (so_resp out) respNum)
             else
               Some \<lparr>ao_ret = r, ao_calls = so_calls out, ao_resp = None, ao_frees = so_frees out,
                     ao_reqFree = reqFree, ao_ctx = so_ctx out\<rparr>))"

text \<open>\<open>exec\<close> is what the executor returns; the last component is the task handed to it.\<close>

definition ServiceProxySendAsyncMessage ::
    "bool \<Rightarrow> bool \<Rightarrow> ret \<Rightarrow> ServiceManagerContext \<Rightarrow> ServiceRequestInfo option \<Rightarrow> nat option \<Rightarrow> nat option \<Rightarrow>
     ret \<times> (nat \<times> ServiceAsyncMsgInfo) option" where
  "ServiceProxySendAsyncMessage lockok memok exec ctx request freeHandler respHandler =
    (case request of
       None \<Rightarrow> (IOTC_ERR_PARAM_INVALID, None)
     | Some req \<Rightarrow>
    (if ri_req req = None then (IOTC_ERR_PARAM_INVALID, None)
     else if \<not> svc_lock lockok ctx then (IOTC_ERR_TIMEOUT, None)
     else
       (case sx_executor ctx of
          None \<Rightarrow> (IOTC_ERR_CALLBACK_NULL, None)
        | Some executor \<Rightarrow>
            (if \<not> memok then (IOTC_ADAPTER_MEM_ERR_MALLOC, None)
             else if exec \<noteq> IOTC_OK then (exec, None)
             else (IOTC_OK, Some (executor, \<lparr>am_reqInfo = req, am_freeHandler = freeHandler,
                                            am_respHandler = respHandler\<rparr>))))))"

section \<open>Registering services\<close>

definition MessageNodeSubListClear :: "MessageNode \<Rightarrow> MessageNode option" where
  "MessageNodeSubListClear node =
    (case mn_subList node of None \<Rightarrow> None | Some _ \<Rightarrow> Some (node\<lparr>mn_subList := Some []\<rparr>))"

definition ServiceNodeFree :: "ServiceNode \<Rightarrow> unit option" where
  "ServiceNodeFree node = map_option (\<lambda>_. ()) (those (map MessageNodeSubListClear (sn_msgs node)))"

text \<open>The sizes of the two structs with 8-byte pointers; the size of the block is a \<open>uint32_t\<close>.\<close>

definition allocSize :: "u32 \<Rightarrow> u32" where
  "allocSize msgNum = 72 + msgNum * 40"

definition msgs_fit :: "u32 \<Rightarrow> bool" where
  "msgs_fit msgNum = (72 + unat msgNum * 40 \<le> unat (allocSize msgNum))"

text \<open>
  The outer \<^const>\<open>None\<close> is a fault: a block too small for the messages, or fewer message ids than
  announced.  The inner one is a failed allocation.
\<close>

definition ServiceNodeNew :: "bool \<Rightarrow> ServiceInstance \<Rightarrow> s32 \<Rightarrow> ServiceNode option option" where
  "ServiceNodeNew memok ins instanceId =
    (if \<not> memok then Some None
     else if \<not> msgs_fit (si_msgNum ins) then None
     else
       (let num = unat (si_msgNum ins);
            node = (\<lambda>msgs. \<lparr>sn_serviceId = si_serviceId ins, sn_instanceId = instanceId, sn_bitMap = 0,
                     sn_name = si_name ins, sn_handler = the (si_handler ins),
                     sn_apiHandler = si_apiHandler ins, sn_msgs = msgs\<rparr>)
        in case si_msgIds ins of
             None \<Rightarrow> Some (Some (node (replicate num \<lparr>mn_messageId = 0, mn_subNum = 0, mn_subList = None\<rparr>)))
           | Some ids \<Rightarrow>
               (if num > length ids then None
                else Some (Some (node (map (\<lambda>i. \<lparr>mn_messageId = i, mn_subNum = 0, mn_subList = Some []\<rparr>)
                                 (take num ids)))))))"

definition ServiceManagerRegisterInstance ::
    "bool \<Rightarrow> bool \<Rightarrow> ServiceManagerContext \<Rightarrow> ServiceInstance option \<Rightarrow> (ret \<times> ServiceManagerContext) option" where
  "ServiceManagerRegisterInstance lockok memok ctx instance =
    (case instance of
       None \<Rightarrow> Some (IOTC_ERR_PARAM_INVALID, ctx)
     | Some ins \<Rightarrow>
    (if si_handler ins = None then Some (IOTC_ERR_PARAM_INVALID, ctx)
     else if \<not> svc_lock lockok ctx then Some (IOTC_ERR_TIMEOUT, ctx)
     else if list_ex (\<lambda>n. sn_serviceId n = si_serviceId ins) (sx_serviceList ctx) then Some (IOTC_OK, ctx)
     else if sx_instanceIdBase ctx = 0x7FFFFFFF then None
     else
       (let instanceId = sx_instanceIdBase ctx;
            ctx = ctx\<lparr>sx_instanceIdBase := sx_instanceIdBase ctx + 1\<rparr>
        in case ServiceNodeNew memok ins instanceId of
             None \<Rightarrow> None
           | Some None \<Rightarrow> Some (IOTC_ADAPTER_MEM_ERR_MALLOC, ctx)
           | Some (Some svcNode) \<Rightarrow>
               Some (IOTC_OK, ctx\<lparr>sx_serviceList := sx_serviceList ctx @ [svcNode]\<rparr>))))"

definition ServiceManagerUnregisterInstance ::
    "bool \<Rightarrow> ServiceManagerContext \<Rightarrow> s32 \<Rightarrow> ServiceManagerContext option" where
  "ServiceManagerUnregisterInstance lockok ctx serviceId =
    (if \<not> svc_lock lockok ctx then Some ctx
     else
       (case find (\<lambda>n. sn_serviceId n = serviceId) (sx_serviceList ctx) of
          None \<Rightarrow> Some ctx
        | Some node \<Rightarrow>
            map_option (\<lambda>_. ctx\<lparr>sx_serviceList := remove_first (\<lambda>n. sn_serviceId n = serviceId) (sx_serviceList ctx)\<rparr>)
              (ServiceNodeFree node)))"

definition ServiceManagerRegisterExecutor ::
    "bool \<Rightarrow> ServiceManagerContext \<Rightarrow> nat option \<Rightarrow> ServiceManagerContext" where
  "ServiceManagerRegisterExecutor lockok ctx executor =
    (if executor = None then ctx
     else if \<not> svc_lock lockok ctx then ctx
     else ctx\<lparr>sx_executor := executor\<rparr>)"

text \<open>\<open>rnd\<close> is the random number the instance numbers start from.\<close>

definition ServiceManagerInit :: "bool \<Rightarrow> u32 \<Rightarrow> ret \<times> ServiceManagerContext" where
  "ServiceManagerInit mutexok rnd =
    (let ctx = \<lparr>sx_instanceIdBase = 0, sx_mutex = mutexok, sx_serviceList = [], sx_executor = None\<rparr> in
     if \<not> sx_mutex ctx then (IOTC_CORE_COMM_UTILS_ERR_EX_MUTEX_CREATE, ctx)
     else (IOTC_OK, ctx\<lparr>sx_instanceIdBase := rnd mod 0xFFFF\<rparr>))"

definition ServiceManagerDeinit :: "ServiceManagerContext \<Rightarrow> ServiceManagerContext option" where
  "ServiceManagerDeinit ctx =
    map_option (\<lambda>_. ctx\<lparr>sx_serviceList := [], sx_mutex := False\<rparr>)
      (those (map ServiceNodeFree (sx_serviceList ctx)))"

section \<open>Moving the answers to the front\<close>

definition has_msg :: "ServiceMessage \<Rightarrow> bool" where
  "has_msg m = (sm_msg m \<noteq> None)"

definition blank :: "ServiceMessage \<Rightarrow> ServiceMessage" where
  "blank m = (if has_msg m then zero_message else m)"

lemma has_msg_blank [simp]: "\<not> has_msg (blank m)"
  by (simp add: blank_def has_msg_def zero_message_def)

lemma no_msg_iff [simp]: "sm_msg m = None \<longleftrightarrow> \<not> has_msg m"
  by (simp add: has_msg_def)

text \<open>After the first gap every answer goes to that gap and leaves its own entry blank.\<close>

lemma sort_loop_after_gap:
  "sort_loop (length (A @ x # B @ rest)) (length (A @ x # B)) (length A) finalNum (A @ x # B @ rest) =
    (A @ last (x # filter has_msg rest) # B @ map blank rest, finalNum + length (filter has_msg rest))"
proof (induction rest arbitrary: x B finalNum)
  case Nil
  then show ?case by (subst sort_loop.simps) simp
next
  case (Cons m rest)
  have m: "(A @ x # B @ m # rest) ! length (A @ x # B) = m"
    by (simp add: nth_append)
  show ?case
  proof (cases "has_msg m")
    case False
    then show ?thesis
      using Cons.IH [of x "B @ [m]" finalNum] m
      by (subst sort_loop.simps) (simp add: blank_def)
  next
    case True
    have upd: "(A @ x # B @ m # rest)[length A := m, length (A @ x # B) := zero_message] = A @ m # (B @ [zero_message]) @ rest"
      by (simp add: list_update_append)
    then show ?thesis
      using Cons.IH [of m "B @ [zero_message]" "finalNum + 1"] m True
      by (subst sort_loop.simps) (simp add: blank_def)
  qed
qed

lemma sort_loop_before_gap:
  assumes "list_all has_msg T"
  shows "sort_loop (length (D @ T @ rest)) (length D) (length (D @ T @ rest)) finalNum (D @ T @ rest) =
    sort_loop (length (D @ T @ rest)) (length (D @ T)) (length (D @ T @ rest)) (finalNum + length T) (D @ T @ rest)"
  using assms
proof (induction T arbitrary: D finalNum)
  case (Cons m T)
  have "(D @ (m # T) @ rest) ! length D = m" by simp
  then show ?case
    using Cons.IH [of "D @ [m]" "finalNum + 1"] Cons.prems
    by (subst sort_loop.simps) simp
qed simp

lemma ResponseMessageSort_result:
  "ResponseMessageSort resp = (IOTC_OK,
    (case dropWhile has_msg resp of
       [] \<Rightarrow> resp
     | gap # rest \<Rightarrow> takeWhile has_msg resp @ last (gap # filter has_msg rest) # map blank rest),
    length (filter has_msg resp))"
proof (cases "dropWhile has_msg resp")
  case Nil
  then have all: "list_all has_msg resp" by (simp add: list_all_iff dropWhile_eq_Nil_conv)
  then have "filter has_msg resp = resp" by (simp add: list_all_iff)
  then show ?thesis
    using sort_loop_before_gap [OF all, of "[]" "[]" 0]
    by (simp add: ResponseMessageSort_def Nil sort_loop.simps [of "length resp" "length resp"])
next
  case (Cons gap rest)
  define T where "T = takeWhile has_msg resp"
  have resp: "resp = T @ gap # rest" using Cons takeWhile_dropWhile_id [of has_msg resp] by (simp add: T_def)
  have T: "list_all has_msg T" by (auto simp: T_def list_all_iff dest: set_takeWhileD)
  then have fT: "filter has_msg T = T" by (simp add: list_all_iff)
  have gap: "\<not> has_msg gap" using Cons hd_dropWhile [of has_msg resp] by simp
  have dw: "dropWhile has_msg (T @ gap # rest) = gap # rest" "takeWhile has_msg (T @ gap # rest) = T"
    using T gap by (simp_all add: list_all_iff dropWhile_append2 takeWhile_append2)
  have "sort_loop (length resp) (length T) (length resp) (length T) resp =
      sort_loop (length resp) (length (T @ [gap])) (length T) (length T) resp"
    using gap by (subst sort_loop.simps) (simp add: resp)
  then show ?thesis
    using sort_loop_before_gap [OF T, of "[]" "gap # rest" 0] sort_loop_after_gap [of T gap "[]" rest "length T"] gap
    by (simp add: ResponseMessageSort_def resp fT dw)
qed

text \<open>
  The answers handed to the caller of a send are the answers of the subscribers in order exactly
  when at most one of them comes after the first subscriber without an answer; otherwise the later
  ones overwrite each other, although all of them are counted.
\<close>

theorem ResponseMessageSort_compacts_iff:
  "take (snd (snd (ResponseMessageSort resp))) (fst (snd (ResponseMessageSort resp))) = filter has_msg resp
   \<longleftrightarrow> length (filter has_msg (dropWhile has_msg resp)) \<le> 1"
proof (cases "dropWhile has_msg resp")
  case Nil
  then have "filter has_msg resp = resp" by (simp add: filter_id_conv)
  then show ?thesis by (simp add: ResponseMessageSort_result Nil)
next
  case (Cons gap rest)
  define T where "T = takeWhile has_msg resp"
  define L where "L = filter has_msg rest"
  have resp: "resp = T @ gap # rest" using Cons takeWhile_dropWhile_id [of has_msg resp] by (simp add: T_def)
  have fT: "filter has_msg T = T" by (auto simp: T_def filter_id_conv dest: set_takeWhileD)
  have gap: "\<not> has_msg gap" using Cons hd_dropWhile [of has_msg resp] by simp
  have f: "filter has_msg resp = T @ L" by (simp add: resp fT gap L_def)
  have "length L \<le> length rest" by (simp add: L_def)
  then have "take (length L) (last (gap # L) # map blank rest) = L \<longleftrightarrow> length L \<le> 1"
  proof (cases L)
    case (Cons a L')
    show ?thesis
    proof (cases L')
      case Nil
      then show ?thesis using Cons by simp
    next
      case (Cons b L'')
      have "b \<in> set L" using \<open>L = a # L'\<close> Cons by simp
      then have "has_msg b" by (simp add: L_def)
      moreover obtain r rest' where "rest = r # rest'" using \<open>length L \<le> length rest\<close> \<open>L = a # L'\<close> Cons by (cases rest) auto
      ultimately show ?thesis using \<open>L = a # L'\<close> Cons has_msg_blank [of r] by auto
    qed
  qed simp
  then show ?thesis
    by (cases "L = []") (simp_all add: ResponseMessageSort_result Cons f gap flip: T_def L_def)
qed

section \<open>Well-formed managers\<close>

text \<open>
  The subscribers of a message are counted, are pairwise different services and do not include the
  owner of the message.
\<close>

definition msg_wf :: "s32 \<Rightarrow> MessageNode \<Rightarrow> bool" where
  "msg_wf owner m =
    (case mn_subList m of
       None \<Rightarrow> False
     | Some subs \<Rightarrow>
         unat (mn_subNum m) = length subs \<and> distinct (map mb_serviceId subs) \<and> owner \<notin> set (map mb_serviceId subs))"

definition node_wf :: "ServiceNode \<Rightarrow> bool" where
  "node_wf n = list_all (msg_wf (sn_serviceId n)) (sn_msgs n)"

definition svc_wf :: "ServiceManagerContext \<Rightarrow> bool" where
  "svc_wf ctx =
    (distinct (map sn_serviceId (sx_serviceList ctx)) \<and>
     distinct (map sn_instanceId (sx_serviceList ctx)) \<and>
     list_all node_wf (sx_serviceList ctx) \<and>
     list_all (\<lambda>n. sn_instanceId n < sx_instanceIdBase ctx) (sx_serviceList ctx) \<and>
     sx_instanceIdBase ctx \<le> 0x7FFFFFFF)"

lemma msg_wfE:
  assumes "msg_wf owner m"
  obtains subs where "mn_subList m = Some subs" "unat (mn_subNum m) = length subs"
    "distinct (map mb_serviceId subs)" "owner \<notin> mb_serviceId ` set subs"
  using assms by (auto simp: msg_wf_def split: option.splits)

lemma map_update_first: "(\<And>x. g (f x) = g x) \<Longrightarrow> map g (update_first P f xs) = map g xs"
  by (induction xs) simp_all

lemma update_first_found:
  "find P xs = Some y \<Longrightarrow> list_all Q xs \<Longrightarrow> Q (f y) \<Longrightarrow> list_all Q (update_first P f xs)"
  by (induction xs) (auto split: if_splits)

lemma list_all_update_first:
  "list_all Q xs \<Longrightarrow> (\<And>x. Q x \<Longrightarrow> Q (f x)) \<Longrightarrow> list_all Q (update_first P f xs)"
  by (induction xs) auto

lemma find_Some_in: "find P xs = Some y \<Longrightarrow> y \<in> set xs \<and> P y"
  by (induction xs) (auto split: if_splits)

lemma set_remove_first: "set (remove_first P xs) \<subseteq> set xs"
  by (induction xs) auto

lemma distinct_remove_first: "distinct (map g xs) \<Longrightarrow> distinct (map g (remove_first P xs))"
  using set_remove_first [of P] by (induction xs) auto

lemma length_remove_first: "list_ex P xs \<Longrightarrow> Suc (length (remove_first P xs)) = length xs"
  by (induction xs) auto

lemma list_all_remove_first: "list_all Q xs \<Longrightarrow> list_all Q (remove_first P xs)"
  using set_remove_first [of P xs] by (auto simp: list_all_iff)

lemma those_map_Some: "(\<And>x. x \<in> set xs \<Longrightarrow> f x = Some (g x)) \<Longrightarrow> those (map f xs) = Some (map g xs)"
  by (induction xs) simp_all

lemma node_wf_msg: "node_wf n \<Longrightarrow> m \<in> set (sn_msgs n) \<Longrightarrow> msg_wf (sn_serviceId n) m"
  by (simp add: node_wf_def list_all_iff)

lemma node_wf_bitMap [simp]: "node_wf (n\<lparr>sn_bitMap := b\<rparr>) = node_wf n"
  by (simp add: node_wf_def)

text \<open>Updating one node in a way that keeps its identifiers and its well-formedness.\<close>

lemma svc_wf_update:
  assumes wf: "svc_wf ctx" and found: "find P (sx_serviceList ctx) = Some n"
    and ids: "\<And>x. sn_serviceId (f x) = sn_serviceId x" "\<And>x. sn_instanceId (f x) = sn_instanceId x"
    and ok: "node_wf (f n)"
  shows "svc_wf (ctx\<lparr>sx_serviceList := update_first P f (sx_serviceList ctx)\<rparr>)"
proof -
  have "sn_instanceId (f n) < sx_instanceIdBase ctx"
    using wf find_Some_in [OF found] by (simp add: svc_wf_def list_all_iff ids)
  then show ?thesis
    using wf by (simp add: svc_wf_def map_update_first ids update_first_found [OF found] ok)
qed

lemma remove_subs_filter:
  "length ss \<le> unat n \<Longrightarrow> fst (remove_subs sid ss n) = filter (\<lambda>s. mb_serviceId s \<noteq> sid) ss \<and>
    unat (snd (remove_subs sid ss n)) + length ss = unat n + length (filter (\<lambda>s. mb_serviceId s \<noteq> sid) ss)"
proof (induction ss arbitrary: n)
  case (Cons s ss)
  show ?case
  proof (cases "mb_serviceId s = sid")
    case True
    have n: "n > 0" using Cons.prems by (auto simp: word_less_nat_alt)
    then have "unat (n - 1) = unat n - 1" by (simp add: unat_minus_one)
    then show ?thesis using Cons.IH [of "n - 1"] Cons.prems n True by simp
  next
    case False
    then show ?thesis using Cons.IH [of n] Cons.prems by (auto split: prod.splits)
  qed
qed simp

lemma clear_msg_wf:
  assumes "msg_wf owner m"
  obtains m' subs where "clear_msg sid m = Some m'" "msg_wf owner m'" "mn_messageId m' = mn_messageId m"
    "mn_subList m = Some subs" "mn_subList m' = Some (filter (\<lambda>s. mb_serviceId s \<noteq> sid) subs)"
proof -
  obtain subs where subs: "mn_subList m = Some subs" "unat (mn_subNum m) = length subs"
    "distinct (map mb_serviceId subs)" "owner \<notin> mb_serviceId ` set subs"
    by (rule msg_wfE [OF assms])
  obtain ss n where r: "remove_subs sid subs (mn_subNum m) = (ss, n)" by (cases "remove_subs sid subs (mn_subNum m)")
  then have ss: "ss = filter (\<lambda>s. mb_serviceId s \<noteq> sid) subs" "unat n = length ss"
    using remove_subs_filter [of subs "mn_subNum m" sid] subs(2) by auto
  show thesis
  proof (cases "mn_subNum m = 0")
    case True
    then show thesis using that [of m subs] assms subs by (simp add: clear_msg_def)
  next
    case False
    have "msg_wf owner (m\<lparr>mn_subList := Some ss, mn_subNum := n\<rparr>)"
      using subs ss by (auto simp: msg_wf_def distinct_map_filter)
    then show thesis using that [of "m\<lparr>mn_subList := Some ss, mn_subNum := n\<rparr>" subs] False subs r ss
      by (simp add: clear_msg_def)
  qed
qed

text \<open>The services that subscribe to a message.\<close>

definition sub_ids :: "MessageNode \<Rightarrow> s32 list" where
  "sub_ids m = (case mn_subList m of None \<Rightarrow> [] | Some subs \<Rightarrow> map mb_serviceId subs)"

lemma sub_ids_owner: "msg_wf owner m \<Longrightarrow> owner \<notin> set (sub_ids m)"
  by (auto simp: msg_wf_def sub_ids_def split: option.splits)

lemma clear_msg_ok:
  "msg_wf owner m \<Longrightarrow> clear_msg sid m = Some (the (clear_msg sid m)) \<and> msg_wf owner (the (clear_msg sid m)) \<and>
    sid \<notin> set (sub_ids (the (clear_msg sid m)))"
  by (rule clear_msg_wf [of owner m sid]) (auto simp: sub_ids_def)

lemma ClearServiceMsgSub_ok:
  assumes "node_wf n"
  shows "ClearServiceMsgSub n sid = Some (n\<lparr>sn_msgs := map (the \<circ> clear_msg sid) (sn_msgs n)\<rparr>)"
    "node_wf (n\<lparr>sn_msgs := map (the \<circ> clear_msg sid) (sn_msgs n)\<rparr>)"
    "\<forall>m \<in> set (map (the \<circ> clear_msg sid) (sn_msgs n)). sid \<notin> set (sub_ids m)"
proof -
  note m = clear_msg_ok [OF node_wf_msg [OF assms]]
  show "ClearServiceMsgSub n sid = Some (n\<lparr>sn_msgs := map (the \<circ> clear_msg sid) (sn_msgs n)\<rparr>)"
    unfolding ClearServiceMsgSub_def using m by (subst those_map_Some [where g = "the \<circ> clear_msg sid"]) simp_all
  show "node_wf (n\<lparr>sn_msgs := map (the \<circ> clear_msg sid) (sn_msgs n)\<rparr>)"
    using m by (auto simp: node_wf_def list_all_iff)
  show "\<forall>m \<in> set (map (the \<circ> clear_msg sid) (sn_msgs n)). sid \<notin> set (sub_ids m)"
    using m by auto
qed

definition cleared :: "s32 \<Rightarrow> ServiceNode \<Rightarrow> ServiceNode" where
  "cleared sid n = (if sn_serviceId n = sid \<or> sn_msgs n = [] then n
     else n\<lparr>sn_msgs := map (the \<circ> clear_msg sid) (sn_msgs n)\<rparr>)"

lemma cleared_ok:
  assumes "node_wf n"
  shows "node_wf (cleared sid n)" "\<forall>m \<in> set (sn_msgs (cleared sid n)). sid \<notin> set (sub_ids m)"
    and "sn_serviceId (cleared sid n) = sn_serviceId n" "sn_instanceId (cleared sid n) = sn_instanceId n"
  using assms ClearServiceMsgSub_ok [OF assms, of sid] sub_ids_owner [OF node_wf_msg [OF assms]]
  by (auto simp: cleared_def)

lemma ClearServiceAllMsgSub_ok:
  assumes "svc_wf ctx"
  shows "ClearServiceAllMsgSub ctx sid = Some (ctx\<lparr>sx_serviceList := map (cleared sid) (sx_serviceList ctx)\<rparr>)"
    "svc_wf (ctx\<lparr>sx_serviceList := map (cleared sid) (sx_serviceList ctx)\<rparr>)"
proof -
  have wf: "node_wf n" if "n \<in> set (sx_serviceList ctx)" for n
    using assms that by (simp add: svc_wf_def list_all_iff)
  show "ClearServiceAllMsgSub ctx sid = Some (ctx\<lparr>sx_serviceList := map (cleared sid) (sx_serviceList ctx)\<rparr>)"
    unfolding ClearServiceAllMsgSub_def using ClearServiceMsgSub_ok(1) [OF wf]
    by (subst those_map_Some [where g = "cleared sid"]) (simp_all add: cleared_def)
  have ids: "map (sn_serviceId \<circ> cleared sid) (sx_serviceList ctx) = map sn_serviceId (sx_serviceList ctx)"
    "map (sn_instanceId \<circ> cleared sid) (sx_serviceList ctx) = map sn_instanceId (sx_serviceList ctx)"
    using cleared_ok(3,4) [OF wf] by simp_all
  show "svc_wf (ctx\<lparr>sx_serviceList := map (cleared sid) (sx_serviceList ctx)\<rparr>)"
    using assms cleared_ok(1,4) [OF wf] by (simp add: svc_wf_def list_all_iff ids)
qed

section \<open>Every operation keeps the manager well-formed\<close>

lemma GetServiceNode_in:
  assumes "GetServiceNode ctx i ty = Some n"
  shows "n \<in> set (sx_serviceList ctx)" "id_matches i ty n"
  using assms find_Some_in by (fastforce simp: GetServiceNode_def)+

lemma OnServiceFinish_ok:
  assumes "svc_wf ctx"
  obtains ctx' where "OnServiceFinish lockok ctx iid = Some ctx'" "svc_wf ctx'"
    "sx_instanceIdBase ctx' = sx_instanceIdBase ctx"
proof (cases "svc_lock lockok ctx \<and> GetServiceNode ctx iid INSTANCE_ID \<noteq> None")
  case True
  then obtain n where n: "svc_lock lockok ctx" "GetServiceNode ctx iid INSTANCE_ID = Some n" by auto
  define ctx1 where "ctx1 = ctx\<lparr>sx_serviceList := update_first (id_matches iid INSTANCE_ID)
    (\<lambda>n. n\<lparr>sn_bitMap := sn_bitMap n AND NOT (UTILS_BIT 0)\<rparr>) (sx_serviceList ctx)\<rparr>"
  have "node_wf n" using assms GetServiceNode_in(1) [OF n(2)] by (simp add: svc_wf_def list_all_iff)
  then have "svc_wf ctx1"
    unfolding ctx1_def using n(2) by (intro svc_wf_update [OF assms]) (simp_all add: GetServiceNode_def)
  then show thesis
    using that ClearServiceAllMsgSub_ok [of ctx1 "sn_serviceId n"] n
    by (simp add: OnServiceFinish_def flip: ctx1_def) (simp add: ctx1_def)
next
  case False
  then show thesis using that [of ctx] assms by (auto simp: OnServiceFinish_def)
qed

lemma start_end_ok:
  assumes "svc_wf ctx"
  shows "svc_wf (snd (start_end lockok ctx sid r))"
    "sx_instanceIdBase (snd (start_end lockok ctx sid r)) = sx_instanceIdBase ctx"
proof -
  show "svc_wf (snd (start_end lockok ctx sid r))"
  proof (cases "GetServiceNode ctx sid SERVICE_ID")
    case (Some n)
    then have "node_wf n" using assms GetServiceNode_in(1) [OF Some] by (simp add: svc_wf_def list_all_iff)
    then have "svc_wf (ctx\<lparr>sx_serviceList := update_first (id_matches sid SERVICE_ID)
        (\<lambda>n. n\<lparr>sn_bitMap := sn_bitMap n OR UTILS_BIT 0\<rparr>) (sx_serviceList ctx)\<rparr>)"
      using Some by (intro svc_wf_update [OF assms]) (simp_all add: GetServiceNode_def)
    then show ?thesis using Some assms by (simp add: start_end_def)
  qed (simp add: start_end_def assms)
  show "sx_instanceIdBase (snd (start_end lockok ctx sid r)) = sx_instanceIdBase ctx"
    by (simp add: start_end_def split: option.splits)
qed

text \<open>Writing one message of one service.\<close>

lemma update_msg_wf:
  assumes wf: "svc_wf ctx" and n: "GetServiceNode ctx sid SERVICE_ID = Some n" and m: "GetMessageNode n mid = Some m"
    and ok: "msg_wf sid (f m)"
  shows "svc_wf (update_msg sid mid f ctx)" "sx_instanceIdBase (update_msg sid mid f ctx) = sx_instanceIdBase ctx"
proof -
  have sid: "sn_serviceId n = sid" and nwf: "node_wf n"
    using wf GetServiceNode_in [OF n] by (auto simp: id_matches_def svc_wf_def list_all_iff split: if_splits)
  have "node_wf (n\<lparr>sn_msgs := update_first (\<lambda>m. mn_messageId m = mid) f (sn_msgs n)\<rparr>)"
    using nwf ok m by (simp add: node_wf_def sid GetMessageNode_def update_first_found [where y = m])
  then show "svc_wf (update_msg sid mid f ctx)"
    unfolding update_msg_def using n by (intro svc_wf_update [OF wf]) (simp_all add: GetServiceNode_def)
qed (simp add: update_msg_def)

text \<open>
  The subscribers of a message are services other than its owner, so the count cannot wrap: there
  is room for one more.
\<close>

lemma sub_count_bound:
  fixes ids :: "s32 list"
  assumes "distinct ids" "a \<notin> set ids" "b \<notin> set ids" "a \<noteq> b"
  shows "length ids + 2 \<le> 4294967296"
proof -
  have "card (UNIV :: s32 set) = 4294967296" by (simp add: card_word)
  then show ?thesis
    using card_mono [of "UNIV :: s32 set" "set (a # b # ids)"] assms by (simp add: distinct_card)
qed

lemma subscribe_wf:
  assumes "msg_wf owner m" "mn_subList m = Some subs" "sid \<noteq> owner" "\<not> list_ex (\<lambda>s. mb_serviceId s = sid) subs"
  shows "msg_wf owner (m\<lparr>mn_subList := Some (subs @ [\<lparr>mb_serviceId = sid, mb_subHandler = h\<rparr>]), mn_subNum := mn_subNum m + 1\<rparr>)"
proof -
  have m: "unat (mn_subNum m) = length subs" "distinct (map mb_serviceId subs)" "owner \<notin> mb_serviceId ` set subs"
    using assms(1,2) by (auto simp: msg_wf_def)
  have new: "sid \<notin> mb_serviceId ` set subs" using assms(4) by (auto simp: list_ex_iff)
  have "length subs + 2 \<le> 4294967296"
    using sub_count_bound [OF m(2), of owner sid] m(3) new assms(3) by simp
  then have "unat (mn_subNum m + 1) = length subs + 1" using m(1) by (simp add: unat_plus_if')
  then show ?thesis using m new assms(3) by (simp add: msg_wf_def)
qed

lemma unsubscribe_wf:
  assumes "msg_wf owner m" "mn_subList m = Some subs" "list_ex P subs"
  shows "msg_wf owner (m\<lparr>mn_subList := Some (remove_first P subs), mn_subNum := (if mn_subNum m > 0 then mn_subNum m - 1 else 0)\<rparr>)"
proof -
  have m: "unat (mn_subNum m) = length subs" "distinct (map mb_serviceId subs)" "owner \<notin> mb_serviceId ` set subs"
    using assms(1,2) by (auto simp: msg_wf_def)
  have len: "Suc (length (remove_first P subs)) = length subs" by (rule length_remove_first [OF assms(3)])
  then have "mn_subNum m > 0" using m(1) by (auto simp: word_less_nat_alt)
  then have "unat (mn_subNum m - 1) = length (remove_first P subs)"
    using m(1) len by (simp add: unat_minus_one)
  then show ?thesis
    using m distinct_remove_first [OF m(2), of P] set_remove_first [of P subs] \<open>mn_subNum m > 0\<close>
    by (auto simp: msg_wf_def)
qed

lemma found_msg_wf:
  assumes "svc_wf ctx" "GetServiceNode ctx i ty = Some n" "GetMessageNode n mid = Some m"
  shows "msg_wf (sn_serviceId n) m"
proof (rule node_wf_msg)
  show "node_wf n" using assms(1) GetServiceNode_in(1) [OF assms(2)] by (simp add: svc_wf_def list_all_iff)
  show "m \<in> set (sn_msgs n)" using assms(3) find_Some_in by (fastforce simp: GetMessageNode_def)
qed

lemma Subscribe_ok:
  assumes wf: "svc_wf ctx"
  obtains r ctx' where "ServiceProxySubscribeMessage lockok memok ctx iid sid mid h = Some (r, ctx')" "svc_wf ctx'"
    "sx_instanceIdBase ctx' = sx_instanceIdBase ctx"
proof -
  have "\<exists>r ctx'. ServiceProxySubscribeMessage lockok memok ctx iid sid mid h = Some (r, ctx') \<and> svc_wf ctx' \<and>
    sx_instanceIdBase ctx' = sx_instanceIdBase ctx"
  proof (cases "\<exists>src n m f. h = Some f \<and> svc_lock lockok ctx \<and> GetServiceNode ctx iid INSTANCE_ID = Some src \<and>
      sn_serviceId src \<noteq> sid \<and> GetServiceNode ctx sid SERVICE_ID = Some n \<and> GetMessageNode n mid = Some m")
    case True
    then obtain src n m f where c: "h = Some f" "svc_lock lockok ctx" "GetServiceNode ctx iid INSTANCE_ID = Some src"
      "sn_serviceId src \<noteq> sid" "GetServiceNode ctx sid SERVICE_ID = Some n" "GetMessageNode n mid = Some m" by blast
    have m: "msg_wf sid m"
      using found_msg_wf [OF wf c(5,6)] GetServiceNode_in [OF c(5)] by (simp add: id_matches_def split: if_splits)
    then obtain subs where subs: "mn_subList m = Some subs" by (rule msg_wfE)
    show ?thesis
    proof (cases "memok \<and> \<not> list_ex (\<lambda>s. mb_serviceId s = sn_serviceId src) subs")
      case True
      then show ?thesis
        using update_msg_wf [OF wf c(5,6)] subscribe_wf [OF m subs c(4)] c subs
        by (simp add: ServiceProxySubscribeMessage_def MessageSubNodeNew_def)
    next
      case False
      then show ?thesis
        using c subs wf by (auto simp: ServiceProxySubscribeMessage_def MessageSubNodeNew_def)
    qed
  next
    case False
    then show ?thesis using wf by (auto simp: ServiceProxySubscribeMessage_def split: option.splits)
  qed
  then show thesis using that by blast
qed

lemma RemoveSubscribe_ok:
  assumes wf: "svc_wf ctx"
  obtains r ctx' where "ServiceProxyRemoveSubscribe lockok ctx iid sid mid = Some (r, ctx')" "svc_wf ctx'"
    "sx_instanceIdBase ctx' = sx_instanceIdBase ctx"
proof -
  have "\<exists>r ctx'. ServiceProxyRemoveSubscribe lockok ctx iid sid mid = Some (r, ctx') \<and> svc_wf ctx' \<and>
    sx_instanceIdBase ctx' = sx_instanceIdBase ctx"
  proof (cases "\<exists>src n m. svc_lock lockok ctx \<and> GetServiceNode ctx iid INSTANCE_ID = Some src \<and>
      GetServiceNode ctx sid SERVICE_ID = Some n \<and> GetMessageNode n mid = Some m")
    case True
    then obtain src n m where c: "svc_lock lockok ctx" "GetServiceNode ctx iid INSTANCE_ID = Some src"
      "GetServiceNode ctx sid SERVICE_ID = Some n" "GetMessageNode n mid = Some m" by blast
    have m: "msg_wf sid m"
      using found_msg_wf [OF wf c(3,4)] GetServiceNode_in [OF c(3)] by (simp add: id_matches_def split: if_splits)
    then obtain subs where subs: "mn_subList m = Some subs" by (rule msg_wfE)
    show ?thesis
      using update_msg_wf [OF wf c(3,4)] unsubscribe_wf [OF m subs] c subs wf
      by (simp add: ServiceProxyRemoveSubscribe_def)
  next
    case False
    then show ?thesis using wf by (auto simp: ServiceProxyRemoveSubscribe_def split: option.splits)
  qed
  then show thesis using that by blast
qed

text \<open>A registration announces no more message ids than it has, and no more than a block can hold.\<close>

definition instance_ok :: "ServiceInstance \<Rightarrow> bool" where
  "instance_ok ins =
    (case si_msgIds ins of
       None \<Rightarrow> si_msgNum ins = 0
     | Some ids \<Rightarrow> unat (si_msgNum ins) \<le> length ids \<and> msgs_fit (si_msgNum ins))"

lemma ServiceNodeNew_ok:
  assumes "instance_ok ins"
  obtains "ServiceNodeNew memok ins iid = Some None"
  | n where "ServiceNodeNew memok ins iid = Some (Some n)" "node_wf n" "sn_instanceId n = iid" "sn_serviceId n = si_serviceId ins"
  using assms that
  by (cases memok) (auto simp: instance_ok_def ServiceNodeNew_def node_wf_def msg_wf_def list_all_iff msgs_fit_def
      allocSize_def Let_def split: option.splits if_splits)

lemma Register_ok:
  assumes wf: "svc_wf ctx" and ins: "\<And>x. ins = Some x \<Longrightarrow> instance_ok x" and base: "sx_instanceIdBase ctx < 0x7FFFFFFF"
  obtains r ctx' where "ServiceManagerRegisterInstance lockok memok ctx ins = Some (r, ctx')" "svc_wf ctx'"
    "unat (sx_instanceIdBase ctx') \<le> unat (sx_instanceIdBase ctx) + 1"
proof (cases "\<exists>x. ins = Some x \<and> si_handler x \<noteq> None \<and> svc_lock lockok ctx \<and>
    \<not> list_ex (\<lambda>n. sn_serviceId n = si_serviceId x) (sx_serviceList ctx)")
  case False
  then have "\<exists>r. ServiceManagerRegisterInstance lockok memok ctx ins = Some (r, ctx)"
    by (cases ins) (auto simp: ServiceManagerRegisterInstance_def)
  then show thesis using that [of _ ctx] wf by auto
next
  case True
  then obtain x where x: "ins = Some x" "si_handler x \<noteq> None" "svc_lock lockok ctx"
    "\<not> list_ex (\<lambda>n. sn_serviceId n = si_serviceId x) (sx_serviceList ctx)" by blast
  define ctx1 where "ctx1 = ctx\<lparr>sx_instanceIdBase := sx_instanceIdBase ctx + 1\<rparr>"
  have succ: "unat (sx_instanceIdBase ctx + 1) = unat (sx_instanceIdBase ctx) + 1"
    using base by (simp add: unat_plus_if' word_less_nat_alt)
  have below: "i < sx_instanceIdBase ctx + 1" if "i < sx_instanceIdBase ctx \<or> i = sx_instanceIdBase ctx" for i
    using that succ by (auto simp: word_less_nat_alt)
  have wf1: "svc_wf ctx1"
    using wf base succ below by (auto simp: svc_wf_def ctx1_def list_all_iff word_le_nat_alt word_less_nat_alt)
  have reg: "ServiceManagerRegisterInstance lockok memok ctx ins =
      (case ServiceNodeNew memok x (sx_instanceIdBase ctx) of
         None \<Rightarrow> None
       | Some None \<Rightarrow> Some (IOTC_ADAPTER_MEM_ERR_MALLOC, ctx1)
       | Some (Some n) \<Rightarrow> Some (IOTC_OK, ctx1\<lparr>sx_serviceList := sx_serviceList ctx1 @ [n]\<rparr>))"
    using x base by (auto simp: ServiceManagerRegisterInstance_def ctx1_def Let_def split: option.splits)
  show thesis
  proof (rule ServiceNodeNew_ok [OF ins [OF x(1)], of memok "sx_instanceIdBase ctx"])
    assume "ServiceNodeNew memok x (sx_instanceIdBase ctx) = Some None"
    then show thesis using that [of _ ctx1] reg wf1 succ by (simp add: ctx1_def)
  next
    fix n assume n: "ServiceNodeNew memok x (sx_instanceIdBase ctx) = Some (Some n)" "node_wf n"
      "sn_instanceId n = sx_instanceIdBase ctx" "sn_serviceId n = si_serviceId x"
    have "sx_instanceIdBase ctx \<notin> sn_instanceId ` set (sx_serviceList ctx)"
      using wf by (auto simp: svc_wf_def list_all_iff)
    moreover have "sn_serviceId n \<notin> sn_serviceId ` set (sx_serviceList ctx)"
      using x(4) n(4) by (auto simp: list_ex_iff)
    ultimately have "svc_wf (ctx1\<lparr>sx_serviceList := sx_serviceList ctx1 @ [n]\<rparr>)"
      using wf1 n below by (auto simp: svc_wf_def ctx1_def)
    then show thesis using that reg n succ by (simp add: ctx1_def)
  qed
qed

lemma ServiceNodeFree_ok: "node_wf n \<Longrightarrow> ServiceNodeFree n = Some ()"
  unfolding ServiceNodeFree_def
  by (subst those_map_Some [where g = "\<lambda>m. m\<lparr>mn_subList := Some []\<rparr>"])
    (auto simp: node_wf_def list_all_iff msg_wf_def MessageNodeSubListClear_def split: option.splits)

lemma Unregister_ok:
  assumes wf: "svc_wf ctx"
  obtains ctx' where "ServiceManagerUnregisterInstance lockok ctx sid = Some ctx'" "svc_wf ctx'"
    "sx_instanceIdBase ctx' = sx_instanceIdBase ctx"
proof (cases "svc_lock lockok ctx \<and> find (\<lambda>n. sn_serviceId n = sid) (sx_serviceList ctx) \<noteq> None")
  case True
  then obtain n where n: "find (\<lambda>n. sn_serviceId n = sid) (sx_serviceList ctx) = Some n" by blast
  have "node_wf n" using wf find_Some_in [OF n] by (simp add: svc_wf_def list_all_iff)
  then show thesis
    using that True n ServiceNodeFree_ok wf
    by (simp add: ServiceManagerUnregisterInstance_def svc_wf_def distinct_remove_first list_all_remove_first)
next
  case False
  then show thesis using that [of ctx] wf by (auto simp: ServiceManagerUnregisterInstance_def)
qed

lemma Deinit_ok:
  assumes "svc_wf ctx"
  obtains ctx' where "ServiceManagerDeinit ctx = Some ctx'" "svc_wf ctx'" "sx_instanceIdBase ctx' = sx_instanceIdBase ctx"
  using assms that
  by (auto simp: ServiceManagerDeinit_def svc_wf_def list_all_iff those_map_Some [where g = "\<lambda>_. ()"] ServiceNodeFree_ok)

lemma Init_ok:
  "svc_wf (snd (ServiceManagerInit mutexok rnd))"
  "unat (sx_instanceIdBase (snd (ServiceManagerInit mutexok rnd))) \<le> 65534"
proof -
  have "unat (rnd mod 0xFFFF) < 65535" by (simp add: unat_mod)
  then show "svc_wf (snd (ServiceManagerInit mutexok rnd))"
    "unat (sx_instanceIdBase (snd (ServiceManagerInit mutexok rnd))) \<le> 65534"
    by (cases mutexok; simp add: ServiceManagerInit_def svc_wf_def word_le_nat_alt)+
qed

section \<open>Runs\<close>

text \<open>
  The critical sections that change the manager, each one step: every interleaving of calls, also
  of those that handlers make, is a sequence of them.  \<open>SvcStarted\<close> is the end of a start whose
  handler returned the given code.
\<close>

datatype svc_op =
    SvcInit bool u32
  | SvcDeinit
  | SvcRegister bool bool "ServiceInstance option"
  | SvcUnregister bool s32
  | SvcExecutor bool "nat option"
  | SvcFinish bool s32
  | SvcStarted bool s32 ret
  | SvcSubscribe bool bool s32 s32 s32 "nat option"
  | SvcRemove bool s32 s32 s32

fun svc_op_ok :: "svc_op \<Rightarrow> bool" where
  "svc_op_ok (SvcRegister _ _ (Some ins)) = instance_ok ins"
| "svc_op_ok _ = True"

fun svc_apply :: "ServiceManagerContext \<Rightarrow> svc_op \<Rightarrow> ServiceManagerContext option" where
  "svc_apply ctx (SvcInit mutexok rnd) = Some (snd (ServiceManagerInit mutexok rnd))"
| "svc_apply ctx SvcDeinit = ServiceManagerDeinit ctx"
| "svc_apply ctx (SvcRegister lockok memok ins) = map_option snd (ServiceManagerRegisterInstance lockok memok ctx ins)"
| "svc_apply ctx (SvcUnregister lockok sid) = ServiceManagerUnregisterInstance lockok ctx sid"
| "svc_apply ctx (SvcExecutor lockok e) = Some (ServiceManagerRegisterExecutor lockok ctx e)"
| "svc_apply ctx (SvcFinish lockok iid) = OnServiceFinish lockok ctx iid"
| "svc_apply ctx (SvcStarted lockok sid r) = Some (snd (start_end lockok ctx sid r))"
| "svc_apply ctx (SvcSubscribe lockok memok iid sid mid h) =
    map_option snd (ServiceProxySubscribeMessage lockok memok ctx iid sid mid h)"
| "svc_apply ctx (SvcRemove lockok iid sid mid) = map_option snd (ServiceProxyRemoveSubscribe lockok ctx iid sid mid)"

text \<open>A run, with the number of steps so far; \<^const>\<open>None\<close> is a fault.\<close>

definition svc_step :: "nat \<times> ServiceManagerContext option \<Rightarrow> svc_op \<Rightarrow> nat \<times> ServiceManagerContext option" where
  "svc_step s e = (Suc (fst s), Option.bind (snd s) (\<lambda>ctx. svc_apply ctx e))"

text \<open>Instance numbers start below 65535, so the first two thousand million steps cannot use them up.\<close>

definition svc_run_ok :: "nat \<times> ServiceManagerContext option \<Rightarrow> bool" where
  "svc_run_ok s = (fst s \<le> 2147418113 \<longrightarrow>
    (case snd s of None \<Rightarrow> False | Some ctx \<Rightarrow> svc_wf ctx \<and> unat (sx_instanceIdBase ctx) \<le> 65534 + fst s))"

lemma svc_apply_ok:
  assumes "svc_wf ctx" "svc_op_ok e" "sx_instanceIdBase ctx < 0x7FFFFFFF"
  shows "\<exists>ctx'. svc_apply ctx e = Some ctx' \<and> svc_wf ctx' \<and>
    (unat (sx_instanceIdBase ctx') \<le> unat (sx_instanceIdBase ctx) + 1 \<or> unat (sx_instanceIdBase ctx') \<le> 65534)"
proof (cases e)
  case (SvcInit mutexok rnd)
  then show ?thesis using Init_ok [of mutexok rnd] by simp
next
  case SvcDeinit
  then show ?thesis using Deinit_ok [OF assms(1)] by (metis svc_apply.simps(2) le_add1)
next
  case (SvcRegister lockok memok ins)
  have "instance_ok x" if "ins = Some x" for x using assms(2) SvcRegister that by simp
  from Register_ok [OF assms(1) this assms(3), of ins lockok memok] show ?thesis
    using SvcRegister by (metis option.simps(9) snd_conv svc_apply.simps(3))
next
  case (SvcUnregister lockok sid)
  then show ?thesis using Unregister_ok [OF assms(1), of lockok sid] by (metis svc_apply.simps(4) le_add1)
next
  case (SvcExecutor lockok x)
  then show ?thesis using assms(1) by (simp add: ServiceManagerRegisterExecutor_def svc_wf_def)
next
  case (SvcFinish lockok iid)
  then show ?thesis using OnServiceFinish_ok [OF assms(1), of lockok iid] by (metis svc_apply.simps(6) le_add1)
next
  case (SvcStarted lockok sid r)
  then show ?thesis using start_end_ok [OF assms(1), of lockok sid r] by simp
next
  case (SvcSubscribe lockok memok iid sid mid h)
  obtain r ctx' where "ServiceProxySubscribeMessage lockok memok ctx iid sid mid h = Some (r, ctx')" "svc_wf ctx'"
    "sx_instanceIdBase ctx' = sx_instanceIdBase ctx" by (rule Subscribe_ok [OF assms(1)])
  then show ?thesis using SvcSubscribe by simp
next
  case (SvcRemove lockok iid sid mid)
  obtain r ctx' where "ServiceProxyRemoveSubscribe lockok ctx iid sid mid = Some (r, ctx')" "svc_wf ctx'"
    "sx_instanceIdBase ctx' = sx_instanceIdBase ctx" by (rule RemoveSubscribe_ok [OF assms(1)])
  then show ?thesis using SvcRemove by simp
qed

interpretation svc_run: guarded_system svc_step svc_run_ok svc_op_ok
proof
  fix e s assume e: "svc_op_ok e" and s: "svc_run_ok s"
  show "svc_run_ok (svc_step s e)"
  proof (cases "fst s < 2147418113")
    case True
    then obtain ctx where ctx: "snd s = Some ctx" "svc_wf ctx" "unat (sx_instanceIdBase ctx) \<le> 65534 + fst s"
      using s by (auto simp: svc_run_ok_def split: option.splits)
    then have "sx_instanceIdBase ctx < 0x7FFFFFFF" using True by (simp add: word_less_nat_alt)
    from svc_apply_ok [OF ctx(2) e this] obtain ctx' where "svc_apply ctx e = Some ctx'" "svc_wf ctx'"
      "unat (sx_instanceIdBase ctx') \<le> unat (sx_instanceIdBase ctx) + 1 \<or> unat (sx_instanceIdBase ctx') \<le> 65534" by blast
    then show ?thesis using ctx by (auto simp: svc_run_ok_def svc_step_def)
  qed (simp add: svc_run_ok_def svc_step_def)
qed

lemma svc_step_count: "fst (foldl svc_step (n, s) ops) = n + length ops"
  by (induction ops arbitrary: n s) (simp_all add: svc_step_def)


definition demo_instance :: "s32 \<Rightarrow> s32 list \<Rightarrow> ServiceInstance" where
  "demo_instance sid ids = \<lparr>si_serviceId = sid, si_name = None,
     si_handler = Some \<lparr>sh_onStart = None, sh_onStop = None, sh_onReset = None\<rparr>,
     si_msgNum = of_nat (length ids), si_msgIds = Some ids, si_apiHandler = None\<rparr>"


section \<open>Delivery\<close>

definition response_slot :: "s32 \<Rightarrow> MessageSubNode \<Rightarrow> ServiceMessage" where
  "response_slot msgId s = \<lparr>sm_serviceId = mb_serviceId s, sm_msgId = msgId,
     sm_type = SERVICE_MESSAGE_TYPE_RESPONSE, sm_msg = None, sm_ctx = None\<rparr>"

lemma fill_subs_eq:
  "length A = i \<Longrightarrow> length B = i \<Longrightarrow>
    fill_subs (i + length ss) mid ss i (A @ replicate (length ss) None) (B @ replicate (length ss) zero_message) =
    (A @ map (Some \<circ> mb_subHandler) ss, B @ map (response_slot mid) ss)"
proof (induction ss arbitrary: i A B)
  case (Cons s ss)
  show ?case
    using Cons.IH [of "A @ [Some (mb_subHandler s)]" "i + 1" "B @ [response_slot mid s]"] Cons.prems
    by (simp add: list_update_append nth_append zero_message_def response_slot_def)
qed simp

text \<open>The arrays that a send works on hold one entry per subscriber, in order.\<close>

lemma GetMsgSubList_subs:
  assumes "GetMessageNode n mid = Some m" "msg_wf owner m" "mn_subList m = Some subs" "mem 0" "mem 1"
  shows "GetMsgSubList mem n mid = Some (IOTC_OK, map (Some \<circ> mb_subHandler) subs, map (response_slot mid) subs)"
proof -
  have "unat (mn_subNum m) = length subs" using assms(2,3) by (simp add: msg_wf_def)
  then show ?thesis
    using fill_subs_eq [of "[]" 0 "[]" subs mid] assms by (simp add: GetMsgSubList_def Let_def)
qed

lemma GetMsgSubList_total:
  assumes "\<And>m. GetMessageNode n mid = Some m \<Longrightarrow> msg_wf owner m"
  shows "\<exists>r hs resp. GetMsgSubList mem n mid = Some (r, hs, resp) \<and> length hs = length resp"
proof (cases "GetMessageNode n mid")
  case None
  then show ?thesis by (simp add: GetMsgSubList_def)
next
  case (Some m)
  then obtain subs where "mn_subList m = Some subs" by (meson assms msg_wfE)
  with Some show ?thesis
    using GetMsgSubList_subs [OF Some assms [OF Some], of subs mem]
    by (cases "mem 0 \<and> mem 1 \<and> mn_subNum m \<noteq> 0") (auto simp: GetMsgSubList_def Let_def unat_eq_zero)
qed

lemma SendMsgToSubHandler_calls:
  "length hs = length ms \<Longrightarrow> fst (snd (SendMsgToSubHandler run req (map Some hs) ms ctx)) = hs"
  by (induction hs ms arbitrary: ctx rule: list_induct2) (simp_all add: case_prod_unfold Let_def)

lemma SendMsgToSubHandler_length:
  "length (fst (SendMsgToSubHandler run req hs ms ctx)) = length ms"
proof (induction hs arbitrary: ms ctx)
  case (Cons h hs)
  then show ?case by (cases ms; cases h) (simp_all add: case_prod_unfold Let_def)
qed simp

lemma FreeResponse_total: "n \<le> length ms \<Longrightarrow> \<exists>frees. ServiceProxyFreeResponseMessage (Some ms) n = Some frees"
  by (simp add: ServiceProxyFreeResponseMessage_def)

lemma ResponseMessageSort_length: "length (fst (snd (ResponseMessageSort resp))) = length resp"
proof (cases "dropWhile has_msg resp")
  case (Cons gap rest)
  have "length resp = length (takeWhile has_msg resp) + length (dropWhile has_msg resp)"
    by (simp flip: length_append)
  then show ?thesis by (simp add: ResponseMessageSort_result Cons)
next
  case Nil
  show ?thesis by (simp add: ResponseMessageSort_result Nil)
qed

text \<open>What a send does once it has the two arrays.\<close>

lemma send_arrays:
  assumes "ri_req req \<noteq> None" "svc_lock lockok ctx" "GetServiceNode ctx (ri_instanceId req) INSTANCE_ID = Some n"
    "GetMsgSubList mem n (ri_msgId req) = Some (IOTC_OK, map Some hs, resp)" "length hs = length resp"
  shows "\<exists>out. ServiceProxySendMessage lockok mem run ctx (Some req) want1 want2 = Some (IOTC_OK, out) \<and> so_calls out = hs"
proof (cases "hs = []")
  case True
  then show ?thesis using assms by (simp add: ServiceProxySendMessage_def no_send_def)
next
  case False
  define reqMsg where "reqMsg = \<lparr>sm_serviceId = sn_serviceId n, sm_msgId = ri_msgId req,
    sm_type = SERVICE_MESSAGE_TYPE_REQUEST, sm_msg = ri_req req, sm_ctx = None\<rparr>"
  obtain ms calls ctx' where s: "SendMsgToSubHandler run reqMsg (map Some hs) resp ctx = (ms, calls, ctx')"
    by (metis prod_cases3)
  have calls: "calls = hs" using SendMsgToSubHandler_calls [OF assms(5), of run reqMsg ctx] s by simp
  have len: "length ms = length hs" using SendMsgToSubHandler_length [of run reqMsg "map Some hs" resp ctx] s assms(5) by simp
  obtain ms2 k where sort: "ResponseMessageSort ms = (IOTC_OK, ms2, k)" by (simp add: ResponseMessageSort_result)
  have "length ms2 = length hs" using ResponseMessageSort_length [of ms] sort len by simp
  then show ?thesis
    using FreeResponse_total [of "length hs" ms] FreeResponse_total [of "length hs" ms2] assms(1-4) False s sort calls len
    by (cases "want1 \<and> want2"; cases "k = 0") (auto simp: ServiceProxySendMessage_def no_send_def reqMsg_def Let_def)
qed

text \<open>Service 2 subscribes to message 7 of service 1.\<close>

definition demo_services :: ServiceManagerContext where
  "demo_services =
    \<lparr>sx_instanceIdBase = 102, sx_mutex = True,
     sx_serviceList =
       [\<lparr>sn_serviceId = 1, sn_instanceId = 100, sn_bitMap = 1, sn_name = None,
         sn_handler = \<lparr>sh_onStart = None, sh_onStop = None, sh_onReset = None\<rparr>, sn_apiHandler = None,
         sn_msgs = [\<lparr>mn_messageId = 7, mn_subNum = 1, mn_subList = Some [\<lparr>mb_serviceId = 2, mb_subHandler = 5\<rparr>]\<rparr>]\<rparr>,
        \<lparr>sn_serviceId = 2, sn_instanceId = 101, sn_bitMap = 1, sn_name = None,
         sn_handler = \<lparr>sh_onStart = None, sh_onStop = None, sh_onReset = None\<rparr>, sn_apiHandler = None, sn_msgs = []\<rparr>],
     sx_executor = None\<rparr>"

lemma demo_services_wf: "svc_wf demo_services"
  by (simp add: demo_services_def svc_wf_def node_wf_def msg_wf_def)

text \<open>
  C40. A message is delivered to exactly its subscribers, in the order of their subscriptions:
  whatever the handlers do to the manager while they run, the send calls the handler of every
  subscription there was at its start, once, and no other.
\<close>

theorem send_delivers:
  assumes "svc_wf ctx" "svc_lock lockok ctx" "ri_req req \<noteq> None" "mem 0" "mem 1"
    "GetServiceNode ctx (ri_instanceId req) INSTANCE_ID = Some n" "GetMessageNode n (ri_msgId req) = Some m"
    "mn_subList m = Some subs"
  shows "\<exists>out. ServiceProxySendMessage lockok mem run ctx (Some req) want1 want2 = Some (IOTC_OK, out) \<and>
    so_calls out = map mb_subHandler subs"
  using send_arrays [OF assms(3,2,6), of mem "map mb_subHandler subs"]
    GetMsgSubList_subs [OF assms(7) found_msg_wf [OF assms(1,6,7)] assms(8,4,5)] by simp

theorem send_delivers_witness:
  "\<exists>out. ServiceProxySendMessage True (\<lambda>_. True) (\<lambda>h m ctx. (IOTC_OK, \<lparr>rs_resp = Some h, rs_freeHandler = None\<rparr>, ctx))
      demo_services (Some \<lparr>ri_instanceId = 100, ri_msgId = 7, ri_req = Some 3\<rparr>) True True = Some (IOTC_OK, out) \<and>
    so_calls out = [5]"
  using send_delivers [OF demo_services_wf, of True "\<lparr>ri_instanceId = 100, ri_msgId = 7, ri_req = Some 3\<rparr>" "\<lambda>_. True"
      "sx_serviceList demo_services ! 0" "sn_msgs (sx_serviceList demo_services ! 0) ! 0"
      "[\<lparr>mb_serviceId = 2, mb_subHandler = 5\<rparr>]"]
  by (simp add: demo_services_def svc_lock_def GetServiceNode_def GetMessageNode_def id_matches_def)

lemma find_remove_other: "find P xs = Some y \<Longrightarrow> \<not> Q y \<Longrightarrow> find P (remove_first Q xs) = Some y"
  by (induction xs) (auto split: if_splits)

lemma find_remove_same:
  "distinct (map g xs) \<Longrightarrow> find (\<lambda>x. g x = a) (remove_first (\<lambda>x. g x = a) xs) = None"
  by (induction xs) (auto simp: find_None_iff rev_image_eqI)

lemma id_matches_eq [simp]:
  "id_matches i SERVICE_ID = (\<lambda>n. sn_serviceId n = i)" "id_matches i INSTANCE_ID = (\<lambda>n. sn_instanceId n = i)"
  by (simp_all add: id_matches_def fun_eq_iff eq_commute)

text \<open>
  When a service finishes, no message of any service has it as a subscriber any more, and it is
  no longer running.
\<close>

theorem OnServiceFinish_clears:
  assumes "svc_wf ctx" "svc_lock lockok ctx" "GetServiceNode ctx iid INSTANCE_ID = Some n"
  shows "\<exists>ctx'. OnServiceFinish lockok ctx iid = Some ctx' \<and> svc_wf ctx' \<and>
    (\<forall>node \<in> set (sx_serviceList ctx'). \<forall>m \<in> set (sn_msgs node). sn_serviceId n \<notin> set (sub_ids m)) \<and>
    (\<forall>node. GetServiceNode ctx' iid INSTANCE_ID = Some node \<longrightarrow> \<not> is_running node)"
proof -
  define ctx1 where "ctx1 = ctx\<lparr>sx_serviceList := update_first (id_matches iid INSTANCE_ID)
    (\<lambda>n. n\<lparr>sn_bitMap := sn_bitMap n AND NOT (UTILS_BIT 0)\<rparr>) (sx_serviceList ctx)\<rparr>"
  have "node_wf n" using assms(1) GetServiceNode_in(1) [OF assms(3)] by (simp add: svc_wf_def list_all_iff)
  then have wf1: "svc_wf ctx1"
    unfolding ctx1_def using assms(3) by (intro svc_wf_update [OF assms(1)]) (simp_all add: GetServiceNode_def)
  have nodes: "node_wf x" if "x \<in> set (sx_serviceList ctx1)" for x
    using wf1 that by (simp add: svc_wf_def list_all_iff)
  have stopped: "\<not> is_running x" if "find (\<lambda>n. sn_instanceId n = iid)
      (update_first (\<lambda>n. sn_instanceId n = iid) (\<lambda>n. n\<lparr>sn_bitMap := sn_bitMap n AND NOT (UTILS_BIT 0)\<rparr>) ns) = Some x" for x ns
    using that
    by (induction ns) (auto simp: is_running_def and.assoc and.left_commute split: if_splits)
  have cleared_find: "find (\<lambda>n. sn_instanceId n = iid) (map (cleared s) ns) =
      map_option (cleared s) (find (\<lambda>n. sn_instanceId n = iid) ns)" for s ns
    by (induction ns) (auto simp: cleared_def)
  have "\<not> is_running node" if "find (\<lambda>n. sn_instanceId n = iid) (map (cleared s) (sx_serviceList ctx1)) = Some node" for node s
    using that stopped unfolding cleared_find by (auto simp: ctx1_def is_running_def cleared_def)
  then show ?thesis
    using ClearServiceAllMsgSub_ok [OF wf1, of "sn_serviceId n"] cleared_ok(2) [OF nodes] assms(2,3)
    by (simp add: OnServiceFinish_def GetServiceNode_def flip: ctx1_def) (simp add: ctx1_def)
qed

theorem OnServiceFinish_clears_witness:
  "\<exists>ctx'. OnServiceFinish True demo_services 101 = Some ctx' \<and> svc_wf ctx' \<and>
    (\<forall>node \<in> set (sx_serviceList ctx'). \<forall>m \<in> set (sn_msgs node). 2 \<notin> set (sub_ids m))"
  using OnServiceFinish_clears [OF demo_services_wf, of True 101 "sx_serviceList demo_services ! 1"]
  by (auto simp: demo_services_def svc_lock_def GetServiceNode_def)

text \<open>
  Removing a service from the manager leaves its subscriptions in the lists of the others: a
  message that it subscribed to still calls its handler after it is gone.
\<close>

theorem unregistered_still_called:
  assumes "svc_wf ctx" "svc_lock True ctx" "ri_req req \<noteq> None" "mem 0" "mem 1"
    "GetServiceNode ctx (ri_instanceId req) INSTANCE_ID = Some n" "GetMessageNode n (ri_msgId req) = Some m"
    "mn_subList m = Some subs" "s \<in> set subs"
  shows "\<exists>ctx' out. ServiceManagerUnregisterInstance True ctx (mb_serviceId s) = Some ctx' \<and>
    GetServiceNode ctx' (mb_serviceId s) SERVICE_ID = None \<and>
    ServiceProxySendMessage True mem run ctx' (Some req) want1 want2 = Some (IOTC_OK, out) \<and>
    mb_subHandler s \<in> set (so_calls out)"
proof -
  obtain ctx' where ctx': "ServiceManagerUnregisterInstance True ctx (mb_serviceId s) = Some ctx'" "svc_wf ctx'"
    by (rule Unregister_ok [OF assms(1)])
  have other: "sn_serviceId n \<noteq> mb_serviceId s"
    using found_msg_wf [OF assms(1,6,7)] assms(8,9) by (auto simp: msg_wf_def)
  have list: "GetServiceNode ctx' (mb_serviceId s) SERVICE_ID = None"
    "GetServiceNode ctx' (ri_instanceId req) INSTANCE_ID = Some n" "svc_lock True ctx'"
    using ctx'(1) assms(1,2,6) other find_remove_same [of sn_serviceId "sx_serviceList ctx"]
    by (auto simp: ServiceManagerUnregisterInstance_def GetServiceNode_def svc_lock_def svc_wf_def find_remove_other
        split: option.splits)
  have "GetMsgSubList mem n (ri_msgId req) =
      Some (IOTC_OK, map Some (map mb_subHandler subs), map (response_slot (ri_msgId req)) subs)"
    using GetMsgSubList_subs [OF assms(7) found_msg_wf [OF assms(1,6,7)] assms(8,4,5)] by simp
  from send_arrays [OF assms(3) list(3,2) this] show ?thesis
    using ctx'(1) list(1) assms(9) by fastforce
qed

theorem unregistered_still_called_witness:
  "\<exists>ctx' out. ServiceManagerUnregisterInstance True demo_services 2 = Some ctx' \<and>
    GetServiceNode ctx' 2 SERVICE_ID = None \<and>
    ServiceProxySendMessage True (\<lambda>_. True) (\<lambda>h m ctx. (IOTC_OK, \<lparr>rs_resp = None, rs_freeHandler = None\<rparr>, ctx))
      ctx' (Some \<lparr>ri_instanceId = 100, ri_msgId = 7, ri_req = Some 3\<rparr>) False False = Some (IOTC_OK, out) \<and>
    5 \<in> set (so_calls out)"
  using unregistered_still_called [OF demo_services_wf, of "\<lparr>ri_instanceId = 100, ri_msgId = 7, ri_req = Some 3\<rparr>" "\<lambda>_. True"
      "sx_serviceList demo_services ! 0" "sn_msgs (sx_serviceList demo_services ! 0) ! 0"
      "[\<lparr>mb_serviceId = 2, mb_subHandler = 5\<rparr>]" "\<lparr>mb_serviceId = 2, mb_subHandler = 5\<rparr>"]
  by (simp add: demo_services_def svc_lock_def GetServiceNode_def GetMessageNode_def)

section \<open>Starting a service\<close>

lemma find_update_first: "find P xs = Some y \<Longrightarrow> P (f y) \<Longrightarrow> find P (update_first P f xs) = Some (f y)"
  by (induction xs) (auto split: if_splits)

lemma start_end_running:
  assumes "start_end lockok ctx sid r = (IOTC_OK, ctx')"
  shows "\<exists>n. GetServiceNode ctx' sid SERVICE_ID = Some n \<and> is_running n"
proof (cases "GetServiceNode ctx sid SERVICE_ID")
  case None
  then show ?thesis using assms by (simp add: start_end_def split: if_splits)
next
  case (Some n)
  have bit: "(sn_bitMap n OR UTILS_BIT 0) AND UTILS_BIT 0 \<noteq> 0"
    by (simp add: UTILS_BIT_def bit.conj_disj_distrib2)
  show ?thesis
  proof (cases "is_running n")
    case True
    then show ?thesis using Some assms by (auto simp: start_end_def split: if_splits)
  next
    case False
    have "find (\<lambda>n. sn_serviceId n = sid) (update_first (\<lambda>n. sn_serviceId n = sid)
        (\<lambda>n. n\<lparr>sn_bitMap := sn_bitMap n OR UTILS_BIT 0\<rparr>) (sx_serviceList ctx)) =
        Some (n\<lparr>sn_bitMap := sn_bitMap n OR UTILS_BIT 0\<rparr>)"
      using Some find_Some_in [of "\<lambda>n. sn_serviceId n = sid" "sx_serviceList ctx" n]
      by (intro find_update_first) (simp_all add: GetServiceNode_def)
    then show ?thesis
      using Some False assms bit by (auto simp: start_end_def GetServiceNode_def is_running_def split: if_splits)
  qed
qed

text \<open>A start reports success only when the service is registered and running at its end.\<close>

lemma start_success_running:
  assumes "ServiceProxyStartService lock1 lock2 run ctx sid = (IOTC_OK, ctx', call)"
  shows "\<exists>n. GetServiceNode ctx' sid SERVICE_ID = Some n \<and> is_running n"
proof (cases "\<exists>n h. svc_lock lock1 ctx \<and> GetServiceNode ctx sid SERVICE_ID = Some n \<and> \<not> is_running n \<and> sh_onStart (sn_handler n) = Some h")
  case True
  then obtain n h where c: "svc_lock lock1 ctx" "GetServiceNode ctx sid SERVICE_ID = Some n" "\<not> is_running n"
    "sh_onStart (sn_handler n) = Some h" by blast
  then have "start_end lock2 (snd (run h (sn_instanceId n) ctx)) sid (fst (run h (sn_instanceId n) ctx)) = (IOTC_OK, ctx')"
    using assms by (simp add: ServiceProxyStartService_def case_prod_unfold Let_def prod_eq_iff)
  then show ?thesis by (rule start_end_running)
next
  case False
  then show ?thesis using assms by (auto simp: ServiceProxyStartService_def split: if_splits option.splits)
qed

text \<open>A start whose handler behaves as some sequence of calls on the manager is itself one.\<close>

lemma start_is_run:
  assumes "\<And>h i. \<exists>ops. Some (snd (run h i ctx)) = snd (foldl svc_step (0, Some ctx) ops)"
  shows "\<exists>ops. Some (fst (snd (ServiceProxyStartService lock1 lock2 run ctx sid))) = snd (foldl svc_step (0, Some ctx) ops)"
proof (cases "\<exists>n h. svc_lock lock1 ctx \<and> GetServiceNode ctx sid SERVICE_ID = Some n \<and> \<not> is_running n \<and> sh_onStart (sn_handler n) = Some h")
  case True
  then obtain n h where c: "svc_lock lock1 ctx" "GetServiceNode ctx sid SERVICE_ID = Some n" "\<not> is_running n"
    "sh_onStart (sn_handler n) = Some h" by blast
  obtain ops where ops: "Some (snd (run h (sn_instanceId n) ctx)) = snd (foldl svc_step (0, Some ctx) ops)"
    using assms by blast
  have "Some (fst (snd (ServiceProxyStartService lock1 lock2 run ctx sid))) =
      snd (foldl svc_step (0, Some ctx) (ops @ [SvcStarted lock2 sid (fst (run h (sn_instanceId n) ctx))]))"
    using c by (simp add: ServiceProxyStartService_def case_prod_unfold Let_def svc_step_def flip: ops)
  then show ?thesis by blast
next
  case False
  then have "fst (snd (ServiceProxyStartService lock1 lock2 run ctx sid)) = ctx"
    by (auto simp: ServiceProxyStartService_def split: option.splits)
  then show ?thesis by (intro exI [of _ "[]"]) simp
qed

end
