(* ===== verification/Speke_Flat.thy ===== *)
theory Speke_Flat
  imports Errcode
begin

text \<open>
  The scanner that picks fields out of a JSON text without building a tree
  (\<open>security_speke_flat.c\<close>).  A text is the list of its bytes, so the length argument of the C
  functions is its length; positions are numbers, and the two differences that can fall below zero
  are taken modulo 2^32 as in the code.  Reads that the code does not guard return
  \<^const>\<open>None\<close> outside of the text.
\<close>

section \<open>Characters\<close>

abbreviation (input) QUOTE :: u8 where "QUOTE \<equiv> 0x22"
abbreviation (input) BACKSLASH :: u8 where "BACKSLASH \<equiv> 0x5C"
abbreviation (input) LBRACE :: u8 where "LBRACE \<equiv> 0x7B"
abbreviation (input) RBRACE :: u8 where "RBRACE \<equiv> 0x7D"
abbreviation (input) LBRACK :: u8 where "LBRACK \<equiv> 0x5B"
abbreviation (input) RBRACK :: u8 where "RBRACK \<equiv> 0x5D"
abbreviation (input) COMMA :: u8 where "COMMA \<equiv> 0x2C"
abbreviation (input) COLON :: u8 where "COLON \<equiv> 0x3A"
abbreviation (input) MINUS :: u8 where "MINUS \<equiv> 0x2D"

text \<open>The bytes of a string literal.\<close>

definition ascii :: "string \<Rightarrow> bytes" where
  "ascii s = map of_char s"

definition isspace :: "u8 \<Rightarrow> bool" where
  "isspace c = (c = 32 \<or> (9 \<le> c \<and> c \<le> 13))"

definition rd :: "bytes \<Rightarrow> nat \<Rightarrow> u8 option" where
  "rd json i = (if i < length json then Some (json ! i) else None)"

definition sub32 :: "nat \<Rightarrow> nat \<Rightarrow> nat" where
  "sub32 a b = (if b \<le> a then a - b else 2 ^ 32 - (b - a))"

section \<open>Skipping\<close>

function SpekeFlatSkipWs :: "bytes \<Rightarrow> nat \<Rightarrow> nat" where
  "SpekeFlatSkipWs json i =
    (if i < length json \<and> isspace (json ! i) then SpekeFlatSkipWs json (i + 1) else i)"
  by auto
termination by (relation "measure (\<lambda>(json, i). length json - i)") auto

declare SpekeFlatSkipWs.simps [simp del]

text \<open>The loop behind the opening quote.\<close>

function skip_str_loop :: "bytes \<Rightarrow> nat \<Rightarrow> nat" where
  "skip_str_loop json i =
    (if i < length json then
       (if json ! i = BACKSLASH then skip_str_loop json (i + 2)
        else if json ! i = QUOTE then i + 1
        else skip_str_loop json (i + 1))
     else length json)"
  by auto
termination by (relation "measure (\<lambda>(json, i). length json - i)") auto

declare skip_str_loop.simps [simp del]

definition SpekeFlatSkipStr :: "bytes \<Rightarrow> nat \<Rightarrow> nat" where
  "SpekeFlatSkipStr json i =
    (if i \<ge> length json \<or> json ! i \<noteq> QUOTE then length json else skip_str_loop json (i + 1))"

lemma skip_str_loop_le: "skip_str_loop json i \<le> length json"
  by (induction json i rule: skip_str_loop.induct) (subst skip_str_loop.simps, simp)

lemma skip_str_loop_ge: "i \<le> length json \<Longrightarrow> i \<le> skip_str_loop json i"
proof (induction json i rule: skip_str_loop.induct)
  case (1 json i)
  then show ?case
    by (cases "i + 2 \<le> length json") (subst skip_str_loop.simps, auto simp: skip_str_loop.simps [of json "Suc (Suc i)"])+
qed

lemma SkipStr_le: "SpekeFlatSkipStr json i \<le> length json"
  by (simp add: SpekeFlatSkipStr_def skip_str_loop_le)

lemma SkipStr_gt: "i < length json \<Longrightarrow> i < SpekeFlatSkipStr json i"
  using skip_str_loop_ge [of "i + 1" json] by (simp add: SpekeFlatSkipStr_def)

function skip_nested :: "u8 \<Rightarrow> u8 \<Rightarrow> bytes \<Rightarrow> nat \<Rightarrow> int \<Rightarrow> nat" where
  "skip_nested opn cls json i depth =
    (if i < length json then
       (if json ! i = QUOTE then skip_nested opn cls json (SpekeFlatSkipStr json i) depth
        else if json ! i = opn then skip_nested opn cls json (i + 1) (depth + 1)
        else if json ! i = cls then
          (if depth - 1 = 0 then i + 1 else skip_nested opn cls json (i + 1) (depth - 1))
        else skip_nested opn cls json (i + 1) depth)
     else length json)"
  by auto
termination
  by (relation "measure (\<lambda>(opn, cls, json, i, depth). length json - i)")
    (auto intro: diff_less_mono2 SkipStr_gt)

declare skip_nested.simps [simp del]

definition SpekeFlatSkipNested :: "bytes \<Rightarrow> nat \<Rightarrow> u8 \<Rightarrow> u8 \<Rightarrow> nat" where
  "SpekeFlatSkipNested json i opn cls = skip_nested opn cls json i 0"

text \<open>A number, a truth value or null: up to the next delimiter.\<close>

function skip_plain :: "bytes \<Rightarrow> nat \<Rightarrow> nat" where
  "skip_plain json i =
    (if i < length json \<and> json ! i \<noteq> COMMA \<and> json ! i \<noteq> RBRACE \<and> json ! i \<noteq> RBRACK \<and> \<not> isspace (json ! i)
     then skip_plain json (i + 1) else i)"
  by auto
termination by (relation "measure (\<lambda>(json, i). length json - i)") auto

declare skip_plain.simps [simp del]

definition SpekeFlatSkipVal :: "bytes \<Rightarrow> nat \<Rightarrow> nat" where
  "SpekeFlatSkipVal json i =
    (if i \<ge> length json then length json
     else if json ! i = QUOTE then SpekeFlatSkipStr json i
     else if json ! i = LBRACE then SpekeFlatSkipNested json i LBRACE RBRACE
     else if json ! i = LBRACK then SpekeFlatSkipNested json i LBRACK RBRACK
     else skip_plain json i)"

section \<open>Field names\<close>

definition SPEKE_SESSION_ID_JSON :: bytes where "SPEKE_SESSION_ID_JSON = ascii ''sessionId''"
definition SPEKE_SEC_DATA_JSON :: bytes where "SPEKE_SEC_DATA_JSON = ascii ''securityData''"
definition SPEKE_SEC_DATA_MESSAGE_JSON :: bytes where "SPEKE_SEC_DATA_MESSAGE_JSON = ascii ''message''"
definition SPEKE_SEC_DATA_PAYLOAD_JSON :: bytes where "SPEKE_SEC_DATA_PAYLOAD_JSON = ascii ''payload''"
definition SPEKE_SEC_DATA_VER_JSON :: bytes where "SPEKE_SEC_DATA_VER_JSON = ascii ''version''"
definition SPEKE_SEC_DATA_CUR_VER_JSON :: bytes where "SPEKE_SEC_DATA_CUR_VER_JSON = ascii ''currentVersion''"
definition SPEKE_SEC_DATA_MIN_VER_JSON :: bytes where "SPEKE_SEC_DATA_MIN_VER_JSON = ascii ''minVersion''"
definition SPEKE_SEC_DATA_OPCODE_JSON :: bytes where "SPEKE_SEC_DATA_OPCODE_JSON = ascii ''operationCode''"
definition SPEKE_SEC_DATA_256MODE_JSON :: bytes where "SPEKE_SEC_DATA_256MODE_JSON = ascii ''support256mod''"
definition SPEKE_SEC_DATA_CHALLENGE_JSON :: bytes where "SPEKE_SEC_DATA_CHALLENGE_JSON = ascii ''challenge''"
definition SPEKE_SEC_DATA_SALT_JSON :: bytes where "SPEKE_SEC_DATA_SALT_JSON = ascii ''salt''"
definition SPEKE_SEC_DATA_EPK_JSON :: bytes where "SPEKE_SEC_DATA_EPK_JSON = ascii ''epk''"
definition SPEKE_SEC_DATA_KCF_JSON :: bytes where "SPEKE_SEC_DATA_KCF_JSON = ascii ''kcfData''"
definition SPEKE_SEC_DATA_ERR_JSON :: bytes where "SPEKE_SEC_DATA_ERR_JSON = ascii ''errorCode''"

lemmas speke_keys =
  SPEKE_SESSION_ID_JSON_def SPEKE_SEC_DATA_JSON_def SPEKE_SEC_DATA_MESSAGE_JSON_def
  SPEKE_SEC_DATA_PAYLOAD_JSON_def SPEKE_SEC_DATA_VER_JSON_def SPEKE_SEC_DATA_CUR_VER_JSON_def
  SPEKE_SEC_DATA_MIN_VER_JSON_def SPEKE_SEC_DATA_OPCODE_JSON_def SPEKE_SEC_DATA_256MODE_JSON_def
  SPEKE_SEC_DATA_CHALLENGE_JSON_def SPEKE_SEC_DATA_SALT_JSON_def SPEKE_SEC_DATA_EPK_JSON_def
  SPEKE_SEC_DATA_KCF_JSON_def SPEKE_SEC_DATA_ERR_JSON_def ascii_def

definition SpekeFlatGetMaxLen :: "bytes \<Rightarrow> nat" where
  "SpekeFlatGetMaxLen key =
    (if key = SPEKE_SEC_DATA_EPK_JSON then 1024
     else if key = SPEKE_SEC_DATA_CHALLENGE_JSON then 32
     else if key = SPEKE_SEC_DATA_SALT_JSON then 32
     else if key = SPEKE_SEC_DATA_KCF_JSON then 64
     else if key = SPEKE_SESSION_ID_JSON then 32
     else if key = SPEKE_SEC_DATA_MESSAGE_JSON then 5
     else if key = SPEKE_SEC_DATA_OPCODE_JSON then 5
     else if key = SPEKE_SEC_DATA_ERR_JSON then 5
     else if key = SPEKE_SEC_DATA_CUR_VER_JSON \<or> key = SPEKE_SEC_DATA_MIN_VER_JSON then 16
     else 256)"

section \<open>Validation\<close>

abbreviation (input) SPEKE_FLAT_MAX_DEPTH :: int where "SPEKE_FLAT_MAX_DEPTH \<equiv> 4"

record SpekeFlatScanState =
  fs_depth :: int
  fs_arrDepth :: int
  fs_rootClosed :: bool

function SpekeFlatScanBalance :: "bytes \<Rightarrow> nat \<Rightarrow> SpekeFlatScanState \<Rightarrow> ret + SpekeFlatScanState" where
  "SpekeFlatScanBalance json i st =
    (if i < length json then
       (if fs_rootClosed st then
          (if \<not> isspace (json ! i) then Inl IOTC_ADAPTER_JSON_ERR_PARSE
           else SpekeFlatScanBalance json (i + 1) st)
        else if json ! i = QUOTE then SpekeFlatScanBalance json (SpekeFlatSkipStr json i) st
        else if json ! i = LBRACE then
          (if fs_depth st + 1 > SPEKE_FLAT_MAX_DEPTH then Inl IOTC_ADAPTER_JSON_ERR_PARSE
           else SpekeFlatScanBalance json (i + 1) (st\<lparr>fs_depth := fs_depth st + 1\<rparr>))
        else if json ! i = RBRACE then
          (if fs_depth st - 1 < 0 then Inl IOTC_ADAPTER_JSON_ERR_PARSE
           else SpekeFlatScanBalance json (i + 1)
             (st\<lparr>fs_depth := fs_depth st - 1, fs_rootClosed := (fs_depth st - 1 = 0)\<rparr>))
        else if json ! i = LBRACK then
          SpekeFlatScanBalance json (i + 1) (st\<lparr>fs_arrDepth := fs_arrDepth st + 1\<rparr>)
        else if json ! i = RBRACK then
          (if fs_arrDepth st - 1 < 0 then Inl IOTC_ADAPTER_JSON_ERR_PARSE
           else SpekeFlatScanBalance json (i + 1) (st\<lparr>fs_arrDepth := fs_arrDepth st - 1\<rparr>))
        else SpekeFlatScanBalance json (i + 1) st)
     else Inr st)"
  by auto
termination
  by (relation "measure (\<lambda>(json, i, st). length json - i)") (auto intro: diff_less_mono2 SkipStr_gt)

declare SpekeFlatScanBalance.simps [simp del]

definition SpekeFlatValidate :: "bytes \<Rightarrow> ret" where
  "SpekeFlatValidate json =
    (if length json = 0 then IOTC_ERR_PARAM_INVALID
     else
       (let i = SpekeFlatSkipWs json 0 in
        if i \<ge> length json \<or> json ! i \<noteq> LBRACE then IOTC_ADAPTER_JSON_ERR_PARSE
        else
          (case SpekeFlatScanBalance json i \<lparr>fs_depth = 0, fs_arrDepth = 0, fs_rootClosed = False\<rparr> of
             Inl r \<Rightarrow> r
           | Inr st \<Rightarrow>
               if fs_depth st \<noteq> 0 \<or> fs_arrDepth st \<noteq> 0 \<or> \<not> fs_rootClosed st then IOTC_ADAPTER_JSON_ERR_PARSE
               else IOTC_OK)))"

section \<open>Finding a key\<close>

text \<open>Positions are one behind the end of the text when there is an error.\<close>

definition SpekeFlatSkipEntryVal :: "bytes \<Rightarrow> nat \<Rightarrow> nat" where
  "SpekeFlatSkipEntryVal json valStart =
    (let i = SpekeFlatSkipVal json valStart in
     if i > length json then length json + 1
     else
       (let i = SpekeFlatSkipWs json i in
        if i < length json \<and> json ! i = COMMA then i + 1 else i))"

text \<open>The position behind the key, and where its text starts and ends.\<close>

definition SpekeFlatScanKey :: "bytes \<Rightarrow> nat \<Rightarrow> nat \<times> nat \<times> nat" where
  "SpekeFlatScanKey json i =
    (if i \<ge> length json \<or> json ! i \<noteq> QUOTE then (length json + 1, 0, 0)
     else
       (let k = SpekeFlatSkipStr json i in
        if k > length json then (length json + 1, i + 1, 0) else (k, i + 1, k - 1)))"

definition SpekeFlatScanColon :: "bytes \<Rightarrow> nat \<Rightarrow> nat" where
  "SpekeFlatScanColon json i =
    (let i = SpekeFlatSkipWs json i in
     if i \<ge> length json \<or> json ! i \<noteq> COLON then length json + 1
     else SpekeFlatSkipWs json (i + 1))"

definition SpekeFlatKeyHit :: "bytes \<Rightarrow> bytes \<Rightarrow> nat \<Rightarrow> nat \<Rightarrow> nat \<Rightarrow> (nat \<times> nat) option" where
  "SpekeFlatKeyHit json key keyStart keyClose valStart =
    (let kLen = sub32 keyClose keyStart; targetLen = length key in
     if kLen \<noteq> targetLen \<or> take targetLen (drop keyStart json) \<noteq> key then None
     else
       (let valEnd = SpekeFlatSkipVal json valStart in
        if valEnd > length json then None else Some (valStart, sub32 valEnd valStart)))"

subsection \<open>Progress and bounds\<close>

lemma SkipWs_ge: "i \<le> SpekeFlatSkipWs json i"
  by (induction json i rule: SpekeFlatSkipWs.induct) (subst SpekeFlatSkipWs.simps, auto)

lemma SkipWs_le: "i \<le> length json \<Longrightarrow> SpekeFlatSkipWs json i \<le> length json"
  by (induction json i rule: SpekeFlatSkipWs.induct) (subst SpekeFlatSkipWs.simps, auto)

lemma skip_nested_le: "skip_nested opn cls json i depth \<le> length json"
  by (induction opn cls json i depth rule: skip_nested.induct) (subst skip_nested.simps, auto)

lemma skip_nested_ge: "i \<le> length json \<Longrightarrow> i \<le> skip_nested opn cls json i depth"
proof (induction opn cls json i depth rule: skip_nested.induct)
  case (1 opn cls json i depth)
  show ?case
  proof (cases "i < length json \<and> json ! i = QUOTE")
    case True
    then show ?thesis
      using "1.IH"(1) SkipStr_gt [of i json] SkipStr_le [of json i] by (subst skip_nested.simps) simp
  next
    case False
    then show ?thesis using "1.IH"(2-) "1.prems" by (subst skip_nested.simps) auto
  qed
qed

lemma skip_plain_ge: "i \<le> skip_plain json i"
  by (induction json i rule: skip_plain.induct) (subst skip_plain.simps, auto)

lemma skip_plain_le: "i \<le> length json \<Longrightarrow> skip_plain json i \<le> length json"
  by (induction json i rule: skip_plain.induct) (subst skip_plain.simps, auto)

lemma SkipVal_le: "SpekeFlatSkipVal json i \<le> length json"
  by (simp add: SpekeFlatSkipVal_def SpekeFlatSkipNested_def SkipStr_le skip_nested_le skip_plain_le)

lemma SkipVal_ge: "i \<le> length json \<Longrightarrow> i \<le> SpekeFlatSkipVal json i"
  using SkipStr_gt [of i json]
  by (auto simp: SpekeFlatSkipVal_def SpekeFlatSkipNested_def skip_nested_ge skip_plain_ge)

lemma SkipEntryVal_ge: "i \<le> length json \<Longrightarrow> i \<le> SpekeFlatSkipEntryVal json i"
  using order_trans [OF SkipVal_ge SkipWs_ge, of i json json] SkipVal_le [of json i]
  by (auto simp: SpekeFlatSkipEntryVal_def Let_def)

lemma ScanKey_gt: "i < fst (SpekeFlatScanKey json i) \<or> length json < fst (SpekeFlatScanKey json i)"
  using SkipStr_gt [of i json] by (auto simp: SpekeFlatScanKey_def Let_def)

lemma ScanColon_ge: "i \<le> SpekeFlatScanColon json i \<or> length json < SpekeFlatScanColon json i"
  using SkipWs_ge [of i json] SkipWs_ge [of "SpekeFlatSkipWs json i + 1" json]
  by (auto simp: SpekeFlatScanColon_def Let_def)

text \<open>The loop over the entries of the object, with the depth; it ends because every entry is longer than nothing.\<close>

function find_key_loop :: "bytes \<Rightarrow> bytes \<Rightarrow> nat \<Rightarrow> int \<Rightarrow> ret + nat \<times> nat" where
  "find_key_loop json key i depth =
    (if \<not> (i < length json \<and> depth > 0) then Inl IOTC_ADAPTER_JSON_ERR_PARSE
     else
       (let i = SpekeFlatSkipWs json i in
        if i \<ge> length json then Inl IOTC_ADAPTER_JSON_ERR_PARSE
        else if json ! i = RBRACE then find_key_loop json key (i + 1) (depth - 1)
        else
          (let (i, keyStart, keyClose) = SpekeFlatScanKey json i in
           if i > length json then Inl IOTC_ADAPTER_JSON_ERR_PARSE
           else
             (let i = SpekeFlatScanColon json i in
              if i > length json then Inl IOTC_ADAPTER_JSON_ERR_PARSE
              else
                (case (if depth = 1 then SpekeFlatKeyHit json key keyStart keyClose i else None) of
                   Some (start, n) \<Rightarrow> Inr (start, start + n)
                 | None \<Rightarrow>
                     (let i = SpekeFlatSkipEntryVal json i in
                      if i > length json then Inl IOTC_ADAPTER_JSON_ERR_PARSE
                      else find_key_loop json key i depth))))))"
  by auto
termination
proof (relation "measure (\<lambda>(json, key, i, depth). length json - i)", goal_cases)
  case (2 json key i depth x)
  then show ?case using SkipWs_ge [of i json] by auto
next
  case (3 json key i depth ws sc k rest ks kc v e)
  then have "i \<le> ws" "ws < k" "k \<le> v" "v \<le> e"
    using SkipWs_ge [of i json] ScanKey_gt [of ws json] ScanColon_ge [of k json] SkipEntryVal_ge [of v json]
    by (metis, metis fst_conv, metis, metis not_less)
  with 3 show ?case by auto
qed auto

declare find_key_loop.simps [simp del]

definition SpekeFlatFindKey :: "bytes \<Rightarrow> bytes \<Rightarrow> ret + nat \<times> nat" where
  "SpekeFlatFindKey json key =
    (let i = SpekeFlatSkipWs json 0 in
     if i \<ge> length json \<or> json ! i \<noteq> LBRACE then Inl IOTC_ADAPTER_JSON_ERR_PARSE
     else find_key_loop json key (i + 1) 1)"

section \<open>Reading a field\<close>

text \<open>A view is a start and a length; \<^const>\<open>None\<close> is a read outside of the text.\<close>

definition SpekeFlatGetStr :: "bytes \<Rightarrow> bytes \<Rightarrow> (ret + nat \<times> nat) option" where
  "SpekeFlatGetStr json key =
    (if length json = 0 then Some (Inl IOTC_ERR_PARAM_INVALID)
     else
       (case SpekeFlatFindKey json key of
          Inl r \<Rightarrow> Some (Inl r)
        | Inr (vStart, vEnd) \<Rightarrow>
            (if vStart \<ge> length json \<or> json ! vStart \<noteq> QUOTE then Some (Inl IOTC_ADAPTER_JSON_ERR_PARSE)
             else if vEnd < 2 then Some (Inl IOTC_ADAPTER_JSON_ERR_PARSE)
             else
               (case rd json (vEnd - 1) of
                  None \<Rightarrow> None
                | Some c \<Rightarrow>
                    (if c \<noteq> QUOTE then Some (Inl IOTC_ADAPTER_JSON_ERR_PARSE)
                     else
                       (let contentLen = sub32 (vEnd - 1) (vStart + 1) in
                        if contentLen > SpekeFlatGetMaxLen key then Some (Inl IOTC_ADAPTER_JSON_ERR_PARSE)
                        else Some (Inr (vStart + 1, contentLen))))))))"

definition SpekeFlatGetObj :: "bytes \<Rightarrow> bytes \<Rightarrow> (ret + nat \<times> nat) option" where
  "SpekeFlatGetObj json key =
    (if length json = 0 then Some (Inl IOTC_ERR_PARAM_INVALID)
     else
       (case SpekeFlatFindKey json key of
          Inl r \<Rightarrow> Some (Inl r)
        | Inr (vStart, vEnd) \<Rightarrow>
            (if vStart \<ge> length json \<or> json ! vStart \<noteq> LBRACE then Some (Inl IOTC_ADAPTER_JSON_ERR_PARSE)
             else if vEnd < 2 then Some (Inl IOTC_ADAPTER_JSON_ERR_PARSE)
             else
               (case rd json (vEnd - 1) of
                  None \<Rightarrow> None
                | Some c \<Rightarrow>
                    (if c \<noteq> RBRACE then Some (Inl IOTC_ADAPTER_JSON_ERR_PARSE)
                     else Some (Inr (vStart, sub32 vEnd vStart)))))))"

text \<open>The digits of a number, with the checks against overflow.\<close>

fun num_loop :: "bytes \<Rightarrow> int \<Rightarrow> ret + int" where
  "num_loop [] val = Inr val"
| "num_loop (c # cs) val =
    (if c < 48 \<or> c > 57 then Inl IOTC_ADAPTER_JSON_ERR_PARSE
     else if val > (9223372036854775807 - (uint c - 48)) div 10 then Inl IOTC_ADAPTER_JSON_ERR_PARSE
     else num_loop cs (val * 10 + (uint c - 48)))"

definition SpekeFlatStrToNum :: "bytes \<Rightarrow> ret + int" where
  "SpekeFlatStrToNum numBuf =
    (case num_loop numBuf 0 of
       Inl r \<Rightarrow> Inl r
     | Inr val \<Rightarrow> if numBuf = [] then Inl IOTC_ADAPTER_JSON_ERR_PARSE else Inr val)"

definition SpekeFlatGetNum :: "bytes \<Rightarrow> bytes \<Rightarrow> ret + int" where
  "SpekeFlatGetNum json key =
    (if length json = 0 then Inl IOTC_ERR_PARAM_INVALID
     else
       (case SpekeFlatFindKey json key of
          Inl r \<Rightarrow> Inl r
        | Inr (vStart, vEnd) \<Rightarrow>
            (if vStart \<ge> length json \<or> vEnd > length json \<or> vEnd \<le> vStart then Inl IOTC_ADAPTER_JSON_ERR_PARSE
             else
               (let numLen = vEnd - vStart in
                if numLen > SpekeFlatGetMaxLen key then Inl IOTC_ADAPTER_JSON_ERR_PARSE
                else if numLen \<ge> 32 then Inl IOTC_ADAPTER_JSON_ERR_PARSE
                else SpekeFlatStrToNum (takeWhile (\<lambda>c. c \<noteq> 0) (take numLen (drop vStart json)))))))"

definition view :: "bytes \<Rightarrow> nat \<times> nat \<Rightarrow> bytes" where
  "view json v = take (snd v) (drop (fst v) json)"

section \<open>Every view lies inside the text\<close>

lemma KeyHit_bounds:
  "SpekeFlatKeyHit json key ks kc v = Some (a, n) \<Longrightarrow> v \<le> length json \<Longrightarrow> a = v \<and> a + n \<le> length json"
  using SkipVal_ge [of v json] by (auto simp: SpekeFlatKeyHit_def sub32_def Let_def split: if_splits)

lemma find_key_loop_bounds:
  "find_key_loop json key i depth = Inr (a, e) \<Longrightarrow> a \<le> e \<and> e \<le> length json"
proof (induction json key i depth rule: find_key_loop.induct)
  case (1 json key i depth)
  obtain k ks kc where sk: "SpekeFlatScanKey json (SpekeFlatSkipWs json i) = (k, ks, kc)" by (metis prod_cases3)
  note run = "1.prems" [unfolded find_key_loop.simps [of json key i depth] Let_def sk]
  show ?case
    using run "1.IH"(1) [OF _ refl] "1.IH"(2) [OF _ refl _ _ refl, unfolded sk, of k "(ks, kc)" ks kc, OF _ _ _ refl refl _ refl _ _ refl]
      KeyHit_bounds [of json key ks kc "SpekeFlatScanColon json k"]
    by (simp split: if_splits option.splits) auto
qed

lemma FindKey_bounds: "SpekeFlatFindKey json key = Inr (a, e) \<Longrightarrow> a \<le> e \<and> e \<le> length json"
  using find_key_loop_bounds by (auto simp: SpekeFlatFindKey_def Let_def split: if_splits)

lemma GetMaxLen_le: "SpekeFlatGetMaxLen key \<le> 1024"
  by (simp add: SpekeFlatGetMaxLen_def)

lemma GetStr_view:
  "\<exists>r. SpekeFlatGetStr json key = Some r \<and>
    (case r of Inl _ \<Rightarrow> True | Inr (a, n) \<Rightarrow> a + n < length json \<and> n \<le> SpekeFlatGetMaxLen key)"
proof (cases "SpekeFlatFindKey json key")
  case (Inl r)
  then show ?thesis by (simp add: SpekeFlatGetStr_def)
next
  case (Inr v)
  obtain a e where v: "v = (a, e)" by (cases v)
  have "a \<le> e" "e \<le> length json" using FindKey_bounds Inr v by auto
  then show ?thesis
    using Inr v GetMaxLen_le [of key] by (auto simp: SpekeFlatGetStr_def rd_def sub32_def Let_def)
qed

lemma GetObj_view:
  "\<exists>r. SpekeFlatGetObj json key = Some r \<and> (case r of Inl _ \<Rightarrow> True | Inr (a, n) \<Rightarrow> a + n \<le> length json)"
proof (cases "SpekeFlatFindKey json key")
  case (Inl r)
  then show ?thesis by (simp add: SpekeFlatGetObj_def)
next
  case (Inr v)
  obtain a e where v: "v = (a, e)" by (cases v)
  have "a \<le> e" "e \<le> length json" using FindKey_bounds Inr v by auto
  then show ?thesis
    using Inr v by (auto simp: SpekeFlatGetObj_def rd_def sub32_def Let_def)
qed


section \<open>JSON texts\<close>

datatype json = JStr bytes | JInt int | JBool bool | JObj "(bytes \<times> json) list"

text \<open>The decimal digits of a number.\<close>

function dec :: "nat \<Rightarrow> bytes" where
  "dec n = (if n < 10 then [48 + of_nat n] else dec (n div 10) @ [48 + of_nat (n mod 10)])"
  by auto
termination by (relation "measure id") auto

declare dec.simps [simp del]

text \<open>The text of a tree without white space; strings are not escaped.\<close>

fun compact :: "json \<Rightarrow> bytes" and members :: "(bytes \<times> json) list \<Rightarrow> bytes" where
  "compact (JStr s) = QUOTE # s @ [QUOTE]"
| "compact (JInt n) = (if n < 0 then MINUS # dec (nat (- n)) else dec (nat n))"
| "compact (JBool b) = ascii (if b then ''true'' else ''false'')"
| "compact (JObj kvs) = LBRACE # members kvs @ [RBRACE]"
| "members [] = []"
| "members ((k, v) # kvs) = QUOTE # k @ QUOTE # COLON # compact v @ (if kvs = [] then [] else COMMA # members kvs)"

text \<open>Texts that need no escapes: no quote, no backslash, no control character.\<close>

definition plain :: "bytes \<Rightarrow> bool" where
  "plain s = list_all (\<lambda>c. c \<noteq> QUOTE \<and> c \<noteq> BACKSLASH \<and> 0x20 \<le> c) s"

fun jplain :: "json \<Rightarrow> bool" and mplain :: "(bytes \<times> json) list \<Rightarrow> bool" where
  "jplain (JStr s) = plain s"
| "jplain (JInt n) = True"
| "jplain (JBool b) = True"
| "jplain (JObj kvs) = mplain kvs"
| "mplain [] = True"
| "mplain ((k, v) # kvs) = (plain k \<and> jplain v \<and> mplain kvs)"

fun jdepth :: "json \<Rightarrow> int" and mdepth :: "(bytes \<times> json) list \<Rightarrow> int" where
  "jdepth (JStr s) = 0"
| "jdepth (JInt n) = 0"
| "jdepth (JBool b) = 0"
| "jdepth (JObj kvs) = 1 + mdepth kvs"
| "mdepth [] = 0"
| "mdepth ((k, v) # kvs) = max (jdepth v) (mdepth kvs)"

text \<open>Characters that no scan treats specially.\<close>

definition neutral :: "u8 \<Rightarrow> bool" where
  "neutral c = (c \<notin> {QUOTE, BACKSLASH, LBRACE, RBRACE, LBRACK, RBRACK, COMMA, COLON} \<and> \<not> isspace c)"

lemma neutral_dec: "list_all neutral (dec n)"
proof (induction n rule: dec.induct)
  case (1 n)
  have digit: "neutral (48 + of_nat k)" if "k < 10" for k
  proof -
    from that have "k \<in> {0,1,2,3,4,5,6,7,8,9}" by auto
    then show ?thesis by (auto simp: neutral_def isspace_def)
  qed
  show ?case using 1 digit by (subst dec.simps) simp
qed

lemma neutral_leaf: "(case v of JStr s \<Rightarrow> False | JObj kvs \<Rightarrow> False | _ \<Rightarrow> True) \<Longrightarrow> list_all neutral (compact v)"
  using neutral_dec by (cases v) (auto simp: ascii_def neutral_def isspace_def)

lemma dec_nonempty: "dec n \<noteq> []"
  by (subst dec.simps) simp

lemma compact_nonempty: "compact v \<noteq> []"
  by (cases v) (auto simp: ascii_def dec_nonempty)

subsection \<open>Scanning a text\<close>

lemma plain_Cons [simp]: "plain (c # s) = (c \<noteq> QUOTE \<and> c \<noteq> BACKSLASH \<and> 0x20 \<le> c \<and> plain s)"
  by (simp add: plain_def conj_assoc)

lemma skip_str_loop_plain:
  "plain s \<Longrightarrow> skip_str_loop (pre @ s @ QUOTE # rest) (length pre) = length pre + length s + 1"
proof (induction s arbitrary: pre)
  case Nil
  then show ?case by (subst skip_str_loop.simps) simp
next
  case (Cons c s)
  then show ?case using Cons.IH [of "pre @ [c]"] by (subst skip_str_loop.simps) simp
qed

lemma SkipStr_plain:
  assumes "plain s"
  shows "SpekeFlatSkipStr (pre @ QUOTE # s @ QUOTE # rest) (length pre) = length pre + length s + 2"
  using skip_str_loop_plain [OF assms, of "pre @ [QUOTE]" rest] by (simp add: SpekeFlatSkipStr_def)

lemma SkipWs_stop: "\<not> isspace c \<Longrightarrow> SpekeFlatSkipWs (pre @ c # rest) (length pre) = length pre"
  by (subst SpekeFlatSkipWs.simps) simp

lemma skip_plain_neutral:
  assumes "list_all neutral s" "c \<in> {COMMA, RBRACE}"
  shows "skip_plain (pre @ s @ c # rest) (length pre) = length pre + length s"
  using assms
proof (induction s arbitrary: pre)
  case Nil
  then show ?case by (subst skip_plain.simps) auto
next
  case (Cons d s)
  then show ?case using Cons.IH [of "pre @ [d]"] by (subst skip_plain.simps) (auto simp: neutral_def)
qed

text \<open>A scan for the end of an object passes over a value inside of it.\<close>

lemma skip_nested_neutral:
  "list_all neutral s \<Longrightarrow> skip_nested LBRACE RBRACE (pre @ s @ rest) (length pre) d =
    skip_nested LBRACE RBRACE (pre @ s @ rest) (length pre + length s) d"
proof (induction s arbitrary: pre)
  case (Cons c s)
  then show ?case
    using Cons.IH [of "pre @ [c]"] by (subst skip_nested.simps) (auto simp: neutral_def)
qed simp

lemma skip_nested_str:
  "plain s \<Longrightarrow> skip_nested LBRACE RBRACE (pre @ QUOTE # s @ QUOTE # rest) (length pre) d =
    skip_nested LBRACE RBRACE (pre @ QUOTE # s @ QUOTE # rest) (length pre + length s + 2) d"
  using SkipStr_plain [of s pre rest] by (subst skip_nested.simps) simp

lemma skip_nested_char:
  "c \<notin> {QUOTE, LBRACE, RBRACE} \<Longrightarrow> skip_nested LBRACE RBRACE (pre @ c # rest) (length pre) d =
    skip_nested LBRACE RBRACE (pre @ c # rest) (length pre + 1) d"
  by (subst skip_nested.simps) simp

lemma skip_nested_value:
  "jplain v \<Longrightarrow> d \<ge> 1 \<Longrightarrow> skip_nested LBRACE RBRACE (pre @ compact v @ rest) (length pre) d =
    skip_nested LBRACE RBRACE (pre @ compact v @ rest) (length pre + length (compact v)) d"
  "mplain kvs \<Longrightarrow> d \<ge> 1 \<Longrightarrow> skip_nested LBRACE RBRACE (pre @ members kvs @ rest) (length pre) d =
    skip_nested LBRACE RBRACE (pre @ members kvs @ rest) (length pre + length (members kvs)) d"
proof (induction v and kvs arbitrary: pre rest d and pre rest d rule: compact_members.induct)
  case (1 s)
  then show ?case using skip_nested_str [of s pre rest d] by simp
next
  case (2 n)
  show ?case using skip_nested_neutral [OF neutral_leaf [of "JInt n"], of pre rest d] by simp
next
  case (3 b)
  show ?case using skip_nested_neutral [OF neutral_leaf [of "JBool b"], of pre rest d] by simp
next
  case (4 kvs)
  define t where "t = pre @ LBRACE # members kvs @ RBRACE # rest"
  have "skip_nested LBRACE RBRACE t (length pre) d = skip_nested LBRACE RBRACE t (length pre + 1) (d + 1)"
    by (subst skip_nested.simps) (simp add: t_def)
  also have "\<dots> = skip_nested LBRACE RBRACE t (length pre + 1 + length (members kvs)) (d + 1)"
    using "4.IH" [of "d + 1" "pre @ [LBRACE]" "RBRACE # rest"] "4.prems" by (simp add: t_def)
  also have "\<dots> = skip_nested LBRACE RBRACE t (length pre + length (members kvs) + 2) d"
    using "4.prems" nth_append_length [of "pre @ LBRACE # members kvs" RBRACE rest]
    by (subst skip_nested.simps) (simp add: t_def)
  finally show ?case by (simp add: t_def)
next
  case (6 k v kvs)
  define tail where "tail = (if kvs = [] then [] else COMMA # members kvs) @ rest"
  define t where "t = pre @ QUOTE # k @ QUOTE # COLON # compact v @ tail"
  have "skip_nested LBRACE RBRACE t (length pre) d = skip_nested LBRACE RBRACE t (length pre + length k + 2) d"
    using skip_nested_str [of k pre "COLON # compact v @ tail" d] "6.prems" by (simp add: t_def)
  also have "\<dots> = skip_nested LBRACE RBRACE t (length pre + length k + 1 + 1 + 1) d"
    using skip_nested_char [of COLON "pre @ QUOTE # k @ [QUOTE]" "compact v @ tail" d] by (simp add: t_def)
  also have "\<dots> = skip_nested LBRACE RBRACE t (length pre + length k + 1 + 1 + 1 + length (compact v)) d"
    using "6.IH"(1) [of d "pre @ QUOTE # k @ [QUOTE, COLON]" tail] "6.prems" by (simp add: t_def)
  also have "\<dots> = skip_nested LBRACE RBRACE t (length pre + length (members ((k, v) # kvs))) d"
  proof (cases "kvs = []")
    case False
    then show ?thesis
      using skip_nested_char [of COMMA "pre @ QUOTE # k @ QUOTE # COLON # compact v" "members kvs @ rest" d]
        "6.IH"(2) [of d "pre @ QUOTE # k @ QUOTE # COLON # compact v @ [COMMA]" rest] "6.prems"
      by (simp add: t_def tail_def add.assoc)
  qed (simp add: add.assoc)
  finally show ?case by (simp add: t_def tail_def)
qed simp

lemma neutral_hd: "jplain v \<Longrightarrow> \<exists>c s. compact v = c # s \<and> \<not> isspace c"
proof (cases v)
  case (JInt n)
  then show ?thesis
    using neutral_leaf [of v] compact_nonempty [of v] by (cases "compact v") (auto simp: neutral_def)
next
  case (JBool b)
  then show ?thesis by (simp add: ascii_def isspace_def)
qed (auto simp: isspace_def)

text \<open>Skipping a value ends right behind it, when a comma or a brace follows.\<close>

lemma SkipVal_compact:
  assumes "jplain v" "c \<in> {COMMA, RBRACE}"
  shows "SpekeFlatSkipVal (pre @ compact v @ c # rest) (length pre) = length pre + length (compact v)"
proof (cases v)
  case (JStr s)
  then show ?thesis
    using SkipStr_plain [of s pre "c # rest"] assms(1) by (simp add: SpekeFlatSkipVal_def)
next
  case (JObj kvs)
  define t where "t = pre @ LBRACE # members kvs @ RBRACE # c # rest"
  have "skip_nested LBRACE RBRACE t (length pre) 0 = skip_nested LBRACE RBRACE t (length pre + 1) 1"
    by (subst skip_nested.simps) (simp add: t_def)
  also have "\<dots> = skip_nested LBRACE RBRACE t (length pre + 1 + length (members kvs)) 1"
    using skip_nested_value(2) [of kvs 1 "pre @ [LBRACE]" "RBRACE # c # rest"] assms(1) JObj by (simp add: t_def)
  also have "\<dots> = length pre + length (members kvs) + 2"
    using nth_append_length [of "pre @ LBRACE # members kvs" RBRACE "c # rest"]
    by (subst skip_nested.simps) (simp add: t_def)
  finally show ?thesis using JObj by (simp add: SpekeFlatSkipVal_def SpekeFlatSkipNested_def t_def)
next
  case (JInt n)
  define s where "s = compact v"
  have s: "list_all neutral s" "s \<noteq> []" using JInt neutral_leaf [of v] compact_nonempty [of v] by (simp_all add: s_def)
  then have "(pre @ s @ c # rest) ! length pre \<notin> {QUOTE, LBRACE, LBRACK}"
    by (cases s) (auto simp: neutral_def)
  then show ?thesis
    using skip_plain_neutral [OF s(1) assms(2), of pre rest] by (simp add: SpekeFlatSkipVal_def flip: s_def)
next
  case (JBool b)
  define s where "s = compact v"
  have s: "list_all neutral s" "s \<noteq> []" using JBool neutral_leaf [of v] compact_nonempty [of v] by (simp_all add: s_def)
  then have "(pre @ s @ c # rest) ! length pre \<notin> {QUOTE, LBRACE, LBRACK}"
    by (cases s) (auto simp: neutral_def)
  then show ?thesis
    using skip_plain_neutral [OF s(1) assms(2), of pre rest] by (simp add: SpekeFlatSkipVal_def flip: s_def)
qed

text \<open>One entry of an object: its key, then its value.\<close>

lemma scan_entry:
  fixes pre rest :: bytes
  assumes "plain k" "jplain v"
  defines "t \<equiv> pre @ QUOTE # k @ QUOTE # COLON # compact v @ rest"
  shows "SpekeFlatSkipWs t (length pre) = length pre" "length pre < length t" "t ! length pre = QUOTE"
    "SpekeFlatScanKey t (length pre) = (length pre + length k + 2, length pre + 1, length pre + 1 + length k)"
    "SpekeFlatScanColon t (length pre + length k + 2) = length pre + length k + 3"
proof -
  show "length pre < length t" "t ! length pre = QUOTE" by (simp_all add: t_def)
  show "SpekeFlatSkipWs t (length pre) = length pre" by (simp add: t_def SkipWs_stop isspace_def)
  have "SpekeFlatSkipStr t (length pre) = length pre + length k + 2"
    using SkipStr_plain [OF assms(1), of pre "COLON # compact v @ rest"] by (simp add: t_def)
  then show "SpekeFlatScanKey t (length pre) = (length pre + length k + 2, length pre + 1, length pre + 1 + length k)"
    by (simp add: SpekeFlatScanKey_def t_def)
  have colon: "t = (pre @ QUOTE # k @ [QUOTE]) @ COLON # compact v @ rest" by (simp add: t_def)
  obtain c s where c: "compact v = c # s" "\<not> isspace c" using neutral_hd [OF assms(2)] by blast
  have val: "t = (pre @ QUOTE # k @ [QUOTE, COLON]) @ c # s @ rest" by (simp add: t_def c)
  have 1: "SpekeFlatSkipWs t (length (pre @ QUOTE # k @ [QUOTE])) = length (pre @ QUOTE # k @ [QUOTE])"
    unfolding colon by (rule SkipWs_stop) (simp add: isspace_def)
  have 2: "SpekeFlatSkipWs t (length (pre @ QUOTE # k @ [QUOTE, COLON])) = length (pre @ QUOTE # k @ [QUOTE, COLON])"
    unfolding val by (rule SkipWs_stop [OF c(2)])
  have "t ! length (pre @ QUOTE # k @ [QUOTE]) = COLON" unfolding colon by (rule nth_append_length)
  then show "SpekeFlatScanColon t (length pre + length k + 2) = length pre + length k + 3"
    using 1 2 by (simp add: SpekeFlatScanColon_def Let_def t_def eval_nat_numeral)
qed

lemma KeyHit_entry:
  fixes pre rest :: bytes
  assumes "plain k" "jplain v" "c \<in> {COMMA, RBRACE}"
  shows "SpekeFlatKeyHit (pre @ QUOTE # k @ QUOTE # COLON # compact v @ c # rest) key
      (length pre + 1) (length pre + 1 + length k) (length pre + length k + 3) =
    (if k = key then Some (length pre + length k + 3, length (compact v)) else None)"
proof -
  define t where "t = pre @ QUOTE # k @ QUOTE # COLON # compact v @ c # rest"
  have "SpekeFlatSkipVal t (length pre + length k + 3) = length pre + length k + 3 + length (compact v)"
    using SkipVal_compact [OF assms(2,3), of "pre @ QUOTE # k @ [QUOTE, COLON]" rest] by (simp add: t_def eval_nat_numeral)
  moreover have "take (length key) (drop (length pre + 1) t) = key \<longleftrightarrow> k = key" if "length k = length key"
    using that by (simp add: t_def)
  ultimately show ?thesis by (auto simp: SpekeFlatKeyHit_def sub32_def t_def)
qed

lemma SkipEntryVal_entry:
  assumes "jplain v"
  shows "SpekeFlatSkipEntryVal (pre @ compact v @ COMMA # rest) (length pre) = length pre + length (compact v) + 1"
proof -
  have "SpekeFlatSkipWs ((pre @ compact v) @ COMMA # rest) (length (pre @ compact v)) = length (pre @ compact v)"
    by (rule SkipWs_stop) (simp add: isspace_def)
  moreover have "((pre @ compact v) @ COMMA # rest) ! length (pre @ compact v) = COMMA" by (rule nth_append_length)
  ultimately show ?thesis
    using SkipVal_compact [OF assms, of COMMA pre rest] by (simp add: SpekeFlatSkipEntryVal_def Let_def)
qed

lemma find_key_members:
  "mplain kvs \<Longrightarrow> map_of kvs key = Some v \<Longrightarrow>
    \<exists>p q. members kvs = p @ compact v @ q \<and> find_key_loop (pre @ members kvs @ RBRACE # rest) key (length pre) 1 =
      Inr (length pre + length p, length pre + length p + length (compact v))"
proof (induction kvs arbitrary: pre)
  case (Cons kv kvs)
  obtain k w where kv: "kv = (k, w)" by (cases kv)
  define c where "c = (if kvs = [] then RBRACE else COMMA)"
  define tail where "tail = (if kvs = [] then rest else members kvs @ RBRACE # rest)"
  define t where "t = pre @ QUOTE # k @ QUOTE # COLON # compact w @ c # tail"
  have t: "pre @ members (kv # kvs) @ RBRACE # rest = t" by (simp add: t_def c_def tail_def kv)
  have c: "c \<in> {COMMA, RBRACE}" by (simp add: c_def)
  have plain: "plain k" "jplain w" "mplain kvs" using Cons.prems(1) kv by auto
  note entry = scan_entry [OF plain(1,2), of pre "c # tail", folded t_def]
  note hit = KeyHit_entry [OF plain(1,2) c, of pre tail key, folded t_def]
  have len: "length pre + length k + 3 \<le> length t" by (simp add: t_def)
  show ?case
  proof (cases "k = key")
    case True
    then have "w = v" using Cons.prems(2) kv by simp
    have "find_key_loop t key (length pre) 1 = Inr (length pre + length k + 3, length pre + length k + 3 + length (compact v))"
      using entry hit len True \<open>w = v\<close> by (subst find_key_loop.simps) (simp add: Let_def)
    moreover have "members (kv # kvs) = (QUOTE # k @ [QUOTE, COLON]) @ compact v @ (if kvs = [] then [] else COMMA # members kvs)"
      by (simp add: kv \<open>w = v\<close>)
    ultimately show ?thesis
      unfolding t by (intro exI [of _ "QUOTE # k @ [QUOTE, COLON]"] exI conjI) (assumption, simp add: eval_nat_numeral)
  next
    case False
    then have key: "map_of kvs key = Some v" using Cons.prems(2) kv by simp
    then have "kvs \<noteq> []" by auto
    define pre' where "pre' = pre @ QUOTE # k @ QUOTE # COLON # compact w @ [COMMA]"
    have t': "t = pre' @ members kvs @ RBRACE # rest" using \<open>kvs \<noteq> []\<close> by (simp add: t_def c_def tail_def pre'_def)
    have skip: "SpekeFlatSkipEntryVal t (length pre + length k + 3) = length pre'"
      using SkipEntryVal_entry [OF plain(2), of "pre @ QUOTE # k @ [QUOTE, COLON]" tail] \<open>kvs \<noteq> []\<close>
      by (simp add: t_def c_def pre'_def eval_nat_numeral)
    have "length pre' \<le> length t" by (simp add: t')
    then have "find_key_loop t key (length pre) 1 = find_key_loop t key (length pre') 1"
      using entry hit len False skip by (subst find_key_loop.simps) (simp add: Let_def)
    moreover obtain p q where pq: "members kvs = p @ compact v @ q"
      "find_key_loop t key (length pre') 1 = Inr (length pre' + length p, length pre' + length p + length (compact v))"
      using Cons.IH [OF plain(3) key, of pre'] t' by auto
    moreover have "members (kv # kvs) = (QUOTE # k @ QUOTE # COLON # compact w @ COMMA # p) @ compact v @ q"
      using \<open>kvs \<noteq> []\<close> pq(1) by (simp add: kv)
    ultimately show ?thesis
      unfolding t by (intro exI [of _ "QUOTE # k @ QUOTE # COLON # compact w @ COMMA # p"] exI conjI)
        (assumption, simp add: pre'_def)
  qed
qed simp

text \<open>A key of an object is found, and the range reported is the text of its value.\<close>

lemma FindKey_compact:
  assumes "mplain kvs" "map_of kvs key = Some v"
  obtains p q where "compact (JObj kvs) = p @ compact v @ q" "p \<noteq> []" "q \<noteq> []"
    "SpekeFlatFindKey (compact (JObj kvs)) key = Inr (length p, length p + length (compact v))"
proof -
  obtain p q where pq: "members kvs = p @ compact v @ q"
    "find_key_loop ([LBRACE] @ members kvs @ RBRACE # []) key (length [LBRACE]) 1 =
      Inr (length [LBRACE] + length p, length [LBRACE] + length p + length (compact v))"
    using find_key_members [OF assms, of "[LBRACE]" "[]"] by blast
  have "SpekeFlatSkipWs (compact (JObj kvs)) 0 = 0"
    by (subst SpekeFlatSkipWs.simps) (simp add: isspace_def)
  then show thesis
    using that [of "LBRACE # p" "q @ [RBRACE]"] pq by (simp add: SpekeFlatFindKey_def)
qed

subsection \<open>Reading the fields of a text\<close>

lemma compact_last: "compact (JObj kvs) = LBRACE # members kvs @ [RBRACE]"
  by simp

lemma GetStr_compact:
  assumes "mplain kvs" "map_of kvs key = Some (JStr s)" "length s \<le> SpekeFlatGetMaxLen key"
  obtains a where "SpekeFlatGetStr (compact (JObj kvs)) key = Some (Inr (a, length s))"
    "view (compact (JObj kvs)) (a, length s) = s" "a + length s \<le> length (compact (JObj kvs))"
proof -
  obtain p q where pq: "compact (JObj kvs) = p @ compact (JStr s) @ q" "p \<noteq> []" "q \<noteq> []"
    "SpekeFlatFindKey (compact (JObj kvs)) key = Inr (length p, length p + length (compact (JStr s)))"
    by (rule FindKey_compact [OF assms(1,2)])
  define t where "t = compact (JObj kvs)"
  have t: "t = p @ QUOTE # s @ QUOTE # q" using pq(1) by (simp add: t_def)
  have "rd t (length p + length s + 1) = Some QUOTE"
    using nth_append_length [of "p @ QUOTE # s" QUOTE q] by (simp add: rd_def t)
  moreover have "SpekeFlatFindKey t key = Inr (length p, length p + length s + 2)" using pq(4) by (simp add: t_def)
  moreover have "t \<noteq> []" "length p < length t" "t ! length p = QUOTE" by (simp_all add: t)
  ultimately have "SpekeFlatGetStr t key = Some (Inr (length p + 1, length s))"
    using assms(3) by (simp add: SpekeFlatGetStr_def sub32_def)
  moreover have "view t (length p + 1, length s) = s" "length p + 1 + length s \<le> length t" by (simp_all add: view_def t)
  ultimately show thesis using that [of "length p + 1"] unfolding t_def by blast
qed

lemma GetObj_compact:
  assumes "mplain kvs" "map_of kvs key = Some (JObj m)"
  obtains a where "SpekeFlatGetObj (compact (JObj kvs)) key = Some (Inr (a, length (compact (JObj m))))"
    "view (compact (JObj kvs)) (a, length (compact (JObj m))) = compact (JObj m)"
    "a + length (compact (JObj m)) \<le> length (compact (JObj kvs))"
proof -
  obtain p q where pq: "compact (JObj kvs) = p @ compact (JObj m) @ q" "p \<noteq> []" "q \<noteq> []"
    "SpekeFlatFindKey (compact (JObj kvs)) key = Inr (length p, length p + length (compact (JObj m)))"
    by (rule FindKey_compact [OF assms])
  define t where "t = compact (JObj kvs)"
  have t: "t = p @ LBRACE # members m @ RBRACE # q" using pq(1) by (simp add: t_def)
  have "rd t (length p + length (members m) + 1) = Some RBRACE"
    using nth_append_length [of "p @ LBRACE # members m" RBRACE q] by (simp add: rd_def t)
  moreover have "SpekeFlatFindKey t key = Inr (length p, length p + length (members m) + 2)" using pq(4) by (simp add: t_def)
  moreover have "t \<noteq> []" "length p < length t" "t ! length p = LBRACE" by (simp_all add: t)
  ultimately have "SpekeFlatGetObj t key = Some (Inr (length p, length (compact (JObj m))))"
    by (simp add: SpekeFlatGetObj_def sub32_def)
  moreover have "view t (length p, length (compact (JObj m))) = compact (JObj m)"
    "length p + length (compact (JObj m)) \<le> length t" by (simp_all add: view_def t)
  ultimately show thesis using that [of "length p"] unfolding t_def by blast
qed

lemma num_loop_snoc:
  "num_loop (xs @ [d]) v = (case num_loop xs v of Inl r \<Rightarrow> Inl r | Inr w \<Rightarrow> num_loop [d] w)"
  by (induction xs arbitrary: v) auto

lemma num_loop_dec: "int n \<le> 9223372036854775807 \<Longrightarrow> num_loop (dec n) 0 = Inr (int n)"
proof (induction n rule: dec.induct)
  case (1 n)
  have digit: "uint (48 + of_nat k :: u8) = 48 + int k" "\<not> (48 + of_nat k :: u8) < 48" "\<not> (48 + of_nat k :: u8) > 57"
    if "k < 10" for k
  proof -
    from that have "k \<in> {0,1,2,3,4,5,6,7,8,9}" by auto
    then show "uint (48 + of_nat k :: u8) = 48 + int k" "\<not> (48 + of_nat k :: u8) < 48" "\<not> (48 + of_nat k :: u8) > 57"
      by auto
  qed
  show ?case
  proof (cases "n < 10")
    case True
    then show ?thesis using digit [of n] by (subst dec.simps) simp
  next
    case False
    have split: "int n = int (n div 10) * 10 + int (n mod 10)" by presburger
    have "num_loop (dec (n div 10)) 0 = Inr (int (n div 10))" using 1 False by (simp add: zdiv_int)
    moreover have "\<not> int (n div 10) > (9223372036854775807 - int (n mod 10)) div 10" using "1.prems" split by simp
    ultimately show ?thesis
      using digit [of "n mod 10"] False split by (subst dec.simps) (simp add: num_loop_snoc)
  qed
qed

lemma nonzero_dec: "0 \<notin> set (dec n)"
proof (induction n rule: dec.induct)
  case (1 n)
  have "(48 + of_nat k :: u8) \<noteq> 0" if "k < 10" for k
  proof -
    from that have "k \<in> {0,1,2,3,4,5,6,7,8,9}" by auto
    then show ?thesis by auto
  qed
  then show ?case using 1 by (subst dec.simps) (auto dest: sym)
qed

lemma GetNum_compact:
  assumes "mplain kvs" "map_of kvs key = Some (JInt n)" "0 \<le> n" "n \<le> 9223372036854775807"
    "length (dec (nat n)) \<le> SpekeFlatGetMaxLen key" "length (dec (nat n)) < 32"
  shows "SpekeFlatGetNum (compact (JObj kvs)) key = Inr n"
proof -
  obtain p q where pq: "compact (JObj kvs) = p @ compact (JInt n) @ q" "p \<noteq> []" "q \<noteq> []"
    "SpekeFlatFindKey (compact (JObj kvs)) key = Inr (length p, length p + length (compact (JInt n)))"
    by (rule FindKey_compact [OF assms(1,2)])
  define t where "t = compact (JObj kvs)"
  have t: "t = p @ dec (nat n) @ q" using pq(1) assms(3) by (simp add: t_def)
  have tw: "takeWhile (\<lambda>c. c \<noteq> 0) (dec (nat n)) = dec (nat n)"
    using nonzero_dec by (auto simp: takeWhile_eq_all_conv)
  have find: "SpekeFlatFindKey t key = Inr (length p, length p + length (dec (nat n)))"
    using pq(4) assms(3) by (simp add: t_def)
  have "SpekeFlatStrToNum (takeWhile (\<lambda>c. c \<noteq> 0) (take (length (dec (nat n))) (drop (length p) t))) = Inr n"
    using num_loop_dec [of "nat n"] assms(3,4) by (simp add: SpekeFlatStrToNum_def t dec_nonempty tw)
  moreover have "t \<noteq> []" "length p < length t" "length p + length (dec (nat n)) \<le> length t"
    using dec_nonempty [of "nat n"] by (simp_all add: t)
  ultimately have "SpekeFlatGetNum t key = Inr n"
    using find assms(5,6) dec_nonempty [of "nat n"] by (simp add: SpekeFlatGetNum_def)
  then show ?thesis by (simp only: t_def)
qed

subsection \<open>A text of at most four levels is valid\<close>

abbreviation (input) open_state :: "int \<Rightarrow> SpekeFlatScanState" where
  "open_state d \<equiv> \<lparr>fs_depth = d, fs_arrDepth = 0, fs_rootClosed = False\<rparr>"

lemma scan_neutral:
  "list_all neutral s \<Longrightarrow> SpekeFlatScanBalance (pre @ s @ rest) (length pre) (open_state d) =
    SpekeFlatScanBalance (pre @ s @ rest) (length pre + length s) (open_state d)"
proof (induction s arbitrary: pre)
  case (Cons c s)
  then show ?case
    using Cons.IH [of "pre @ [c]"] by (subst SpekeFlatScanBalance.simps) (auto simp: neutral_def)
qed simp

lemma scan_str:
  "plain s \<Longrightarrow> SpekeFlatScanBalance (pre @ QUOTE # s @ QUOTE # rest) (length pre) (open_state d) =
    SpekeFlatScanBalance (pre @ QUOTE # s @ QUOTE # rest) (length pre + length s + 2) (open_state d)"
  using SkipStr_plain [of s pre rest] by (subst SpekeFlatScanBalance.simps) simp

lemma scan_char:
  "c \<in> {COMMA, COLON} \<Longrightarrow> SpekeFlatScanBalance (pre @ c # rest) (length pre) (open_state d) =
    SpekeFlatScanBalance (pre @ c # rest) (length pre + 1) (open_state d)"
  by (subst SpekeFlatScanBalance.simps) auto

lemma jdepth_nonneg: "0 \<le> jdepth v" "0 \<le> mdepth kvs"
  by (induction v and kvs rule: jdepth_mdepth.induct) auto

lemma scan_value:
  "jplain v \<Longrightarrow> d \<ge> 1 \<Longrightarrow> d + jdepth v \<le> 4 \<Longrightarrow> SpekeFlatScanBalance (pre @ compact v @ rest) (length pre) (open_state d) =
    SpekeFlatScanBalance (pre @ compact v @ rest) (length pre + length (compact v)) (open_state d)"
  "mplain kvs \<Longrightarrow> d \<ge> 1 \<Longrightarrow> d + mdepth kvs \<le> 4 \<Longrightarrow> SpekeFlatScanBalance (pre @ members kvs @ rest) (length pre) (open_state d) =
    SpekeFlatScanBalance (pre @ members kvs @ rest) (length pre + length (members kvs)) (open_state d)"
proof (induction v and kvs arbitrary: pre rest d and pre rest d rule: compact_members.induct)
  case (1 s)
  then show ?case using scan_str [of s pre rest d] by simp
next
  case (2 n)
  show ?case using scan_neutral [OF neutral_leaf [of "JInt n"], of pre rest d] by simp
next
  case (3 b)
  show ?case using scan_neutral [OF neutral_leaf [of "JBool b"], of pre rest d] by simp
next
  case (4 kvs)
  define t where "t = pre @ LBRACE # members kvs @ RBRACE # rest"
  have "SpekeFlatScanBalance t (length pre) (open_state d) = SpekeFlatScanBalance t (length pre + 1) (open_state (d + 1))"
    using "4.prems" jdepth_nonneg(2) [of kvs] by (subst SpekeFlatScanBalance.simps) (simp add: t_def)
  also have "\<dots> = SpekeFlatScanBalance t (length pre + 1 + length (members kvs)) (open_state (d + 1))"
    using "4.IH" [of "d + 1" "pre @ [LBRACE]" "RBRACE # rest"] "4.prems" by (simp add: t_def)
  also have "\<dots> = SpekeFlatScanBalance t (length pre + length (members kvs) + 2) (open_state d)"
    using "4.prems" nth_append_length [of "pre @ LBRACE # members kvs" RBRACE rest]
    by (subst SpekeFlatScanBalance.simps) (simp add: t_def)
  finally show ?case by (simp add: t_def)
next
  case (6 k v kvs)
  define tail where "tail = (if kvs = [] then [] else COMMA # members kvs) @ rest"
  define t where "t = pre @ QUOTE # k @ QUOTE # COLON # compact v @ tail"
  have "SpekeFlatScanBalance t (length pre) (open_state d) = SpekeFlatScanBalance t (length pre + length k + 2) (open_state d)"
    using scan_str [of k pre "COLON # compact v @ tail" d] "6.prems" by (simp add: t_def)
  also have "\<dots> = SpekeFlatScanBalance t (length pre + length k + 1 + 1 + 1) (open_state d)"
    using scan_char [of COLON "pre @ QUOTE # k @ [QUOTE]" "compact v @ tail" d] by (simp add: t_def)
  also have "\<dots> = SpekeFlatScanBalance t (length pre + length k + 1 + 1 + 1 + length (compact v)) (open_state d)"
    using "6.IH"(1) [of d "pre @ QUOTE # k @ [QUOTE, COLON]" tail] "6.prems" by (simp add: t_def)
  also have "\<dots> = SpekeFlatScanBalance t (length pre + length (members ((k, v) # kvs))) (open_state d)"
  proof (cases "kvs = []")
    case False
    then show ?thesis
      using scan_char [of COMMA "pre @ QUOTE # k @ QUOTE # COLON # compact v" "members kvs @ rest" d]
        "6.IH"(2) [of d "pre @ QUOTE # k @ QUOTE # COLON # compact v @ [COMMA]" rest] "6.prems"
      by (simp add: t_def tail_def add.assoc)
  qed (simp add: add.assoc)
  finally show ?case by (simp add: t_def tail_def)
qed simp

lemma Validate_compact:
  assumes "mplain kvs" "jdepth (JObj kvs) \<le> 4"
  shows "SpekeFlatValidate (compact (JObj kvs)) = IOTC_OK"
proof -
  define t where "t = LBRACE # members kvs @ [RBRACE]"
  have ws: "SpekeFlatSkipWs t 0 = 0" by (subst SpekeFlatSkipWs.simps) (simp add: t_def isspace_def)
  have "SpekeFlatScanBalance t 0 (open_state 0) = SpekeFlatScanBalance t 1 (open_state 1)"
    by (subst SpekeFlatScanBalance.simps) (simp add: t_def)
  also have "\<dots> = SpekeFlatScanBalance t (1 + length (members kvs)) (open_state 1)"
    using scan_value(2) [of kvs 1 "[LBRACE]" "[RBRACE]"] assms by (simp add: t_def)
  also have "\<dots> = SpekeFlatScanBalance t (length t) \<lparr>fs_depth = 0, fs_arrDepth = 0, fs_rootClosed = True\<rparr>"
    using nth_append_length [of "LBRACE # members kvs" RBRACE "[]"]
    by (subst SpekeFlatScanBalance.simps) (simp add: t_def)
  also have "\<dots> = Inr \<lparr>fs_depth = 0, fs_arrDepth = 0, fs_rootClosed = True\<rparr>"
    by (subst SpekeFlatScanBalance.simps) simp
  finally show ?thesis using ws by (simp add: SpekeFlatValidate_def t_def)
qed

section \<open>Reading back\<close>

text \<open>
  The scanner reads back what was printed: the compact text of an object without escapes and at
  most four levels deep is valid, and each of its strings, objects and numbers that keeps to the length
  limit of its key is found under that key.
\<close>

theorem flat_reads_fields:
  assumes "mplain kvs" "jdepth (JObj kvs) \<le> 4" "map_of kvs key = Some v"
  shows "SpekeFlatValidate (compact (JObj kvs)) = IOTC_OK \<and>
    (case v of
       JStr s \<Rightarrow> length s \<le> SpekeFlatGetMaxLen key \<longrightarrow>
         (\<exists>a. SpekeFlatGetStr (compact (JObj kvs)) key = Some (Inr a) \<and> view (compact (JObj kvs)) a = s)
     | JObj m \<Rightarrow> (\<exists>a. SpekeFlatGetObj (compact (JObj kvs)) key = Some (Inr a) \<and> view (compact (JObj kvs)) a = compact (JObj m))
     | JInt n \<Rightarrow> 0 \<le> n \<longrightarrow> n \<le> 9223372036854775807 \<longrightarrow> length (dec (nat n)) \<le> SpekeFlatGetMaxLen key \<longrightarrow>
         length (dec (nat n)) < 32 \<longrightarrow> SpekeFlatGetNum (compact (JObj kvs)) key = Inr n
     | JBool b \<Rightarrow> True)"
proof (cases v)
  case (JStr s)
  have "\<exists>a. SpekeFlatGetStr (compact (JObj kvs)) key = Some (Inr a) \<and> view (compact (JObj kvs)) a = s"
    if "length s \<le> SpekeFlatGetMaxLen key"
    by (rule GetStr_compact [OF assms(1) assms(3) [unfolded JStr] that]) blast
  then show ?thesis using JStr Validate_compact [OF assms(1,2)] by (simp del: compact.simps)
next
  case (JObj m)
  have "\<exists>a. SpekeFlatGetObj (compact (JObj kvs)) key = Some (Inr a) \<and> view (compact (JObj kvs)) a = compact (JObj m)"
    by (rule GetObj_compact [OF assms(1) assms(3) [unfolded JObj]]) blast
  then show ?thesis using JObj Validate_compact [OF assms(1,2)] by (simp del: compact.simps)
next
  case (JInt n)
  then show ?thesis
    using GetNum_compact [OF assms(1)] assms(3) Validate_compact [OF assms(1,2)] by (simp del: compact.simps)
next
  case (JBool b)
  then show ?thesis using Validate_compact [OF assms(1,2)] by (simp del: compact.simps)
qed

theorem flat_reads_fields_witness:
  "\<exists>a. SpekeFlatGetStr (compact (JObj [(SPEKE_SEC_DATA_KCF_JSON, JStr (ascii ''00ff''))])) SPEKE_SEC_DATA_KCF_JSON = Some (Inr a) \<and>
    view (compact (JObj [(SPEKE_SEC_DATA_KCF_JSON, JStr (ascii ''00ff''))])) a = ascii ''00ff''"
proof -
  have "mplain [(SPEKE_SEC_DATA_KCF_JSON, JStr (ascii ''00ff''))]" by (simp add: speke_keys plain_def ascii_def)
  moreover have "length (ascii ''00ff'') \<le> SpekeFlatGetMaxLen SPEKE_SEC_DATA_KCF_JSON"
    by (simp add: SpekeFlatGetMaxLen_def speke_keys ascii_def)
  ultimately show ?thesis
    using flat_reads_fields [of "[(SPEKE_SEC_DATA_KCF_JSON, JStr (ascii ''00ff''))]" SPEKE_SEC_DATA_KCF_JSON "JStr (ascii ''00ff'')"]
    by (simp del: compact.simps)
qed

end
