(* ===== verification/Speke_Nego.thy ===== *)
theory Speke_Nego
  imports Speke_Flat Utils_Common
begin

text \<open>
  The key agreement of a SPEKE session (\<open>security_speke_nego_ctx.c\<close>).

  Big numbers are natural numbers.  What the code takes from the crypto and JSON libraries is a
  record of functions, each giving \<^const>\<open>None\<close> when the library reports an error; random numbers
  and the outcomes of allocations are arguments.
\<close>

section \<open>Libraries and environment\<close>

record speke_lib =
  lb_expMod :: "nat \<Rightarrow> nat \<Rightarrow> nat \<Rightarrow> nat option"
  lb_readString :: "bytes \<Rightarrow> nat option"
  lb_readBinary :: "bytes \<Rightarrow> nat option"
  lb_writeBinary :: "nat \<Rightarrow> nat \<Rightarrow> bytes option"
  lb_hkdf :: "bytes \<Rightarrow> bytes \<Rightarrow> bytes \<Rightarrow> nat \<Rightarrow> bytes option"
  lb_hmac :: "bytes \<Rightarrow> bytes \<Rightarrow> bytes option"
  lb_gcmEncrypt :: "bytes \<Rightarrow> bytes \<Rightarrow> bytes \<Rightarrow> (bytes \<times> bytes) option"
  lb_gcmDecrypt :: "bytes \<Rightarrow> bytes \<Rightarrow> bytes \<Rightarrow> bytes \<Rightarrow> bytes option"
  lb_print :: "json \<Rightarrow> bytes option"

text \<open>The allocations, and the random numbers drawn, of the calls below.\<close>

datatype speke_site =
    MSession | MNegoContext | MPrime | MRandom | MRandomStr | MRandomMpi | MExp | MSecret | MGenerator
  | MPubKeyMpi | MPubKey | MRemotePubKey | MVerifyResult | MSharedMpi | MSharedKey | MRemoteBin
  | MRspMsg | MPrefix | MHex bytes | JCreate nat | JAdd bytes | JDup | MPlain | MCipher | MErrFrame

datatype speke_random = RChallenge | RSecret | RSalt | RSessionId | RIv

record speke_env =
  ev_mem :: "speke_site \<Rightarrow> bool"
  ev_rnd :: "speke_random \<Rightarrow> nat \<Rightarrow> ret + bytes"

section \<open>Constants\<close>

datatype PrimeType = PRIME_NORMAL | PRIME_BIG | PRIME_INVALID

abbreviation (input) MAX_SALT_LEN :: nat where "MAX_SALT_LEN \<equiv> 16"
abbreviation (input) MIN_SALT_LEN :: nat where "MIN_SALT_LEN \<equiv> 8"
abbreviation (input) CHALLENGE_LEN :: nat where "CHALLENGE_LEN \<equiv> 16"
abbreviation (input) SESSION_KEY_LEN :: nat where "SESSION_KEY_LEN \<equiv> 16"
abbreviation (input) HMAC_LEN :: nat where "HMAC_LEN \<equiv> 32"
abbreviation (input) PRIME_KEY_LEN :: nat where "PRIME_KEY_LEN \<equiv> 256"
abbreviation (input) SUPPORT_PRIME_TYPE :: PrimeType where "SUPPORT_PRIME_TYPE \<equiv> PRIME_NORMAL"
abbreviation (input) IOTC_MD_SHA256_BYTE_LEN :: nat where "IOTC_MD_SHA256_BYTE_LEN \<equiv> 32"
abbreviation (input) MIN_PUB_KEY :: nat where "MIN_PUB_KEY \<equiv> 2"

text \<open>The common digits of both primes.\<close>

definition prime_digits :: string where
  "prime_digits =
    ''FFFFFFFFFFFFFFFFC90FDAA22168C234C4C6628B80DC1CD129024E088A67CC74'' @
    ''020BBEA63B139B22514A08798E3404DDEF9519B3CD3A431B302B0A6DF25F1437'' @
    ''4FE1356D6D51C245E485B576625E7EC6F44C42E9A637ED6B0BFF5CB6F406B7ED'' @
    ''EE386BFB5A899FA5AE9F24117C4B1FE649286651ECE45B3DC2007CB8A163BF05'' @
    ''98DA48361C55D39A69163FA8FD24CF5F83655D23DCA3AD961C62F356208552BB'' @
    ''9ED529077096966D670C354E4ABC9804F1746C08CA18217C32905E462E36CE3B'' @
    ''E39E772C180E86039B2783A2EC07A28FB5C55DF06F4C52C9DE2BCBF695581718'' @
    ''3995497CEA956AE515D2261898FA0510''"

definition SPEKE_PRIME :: bytes where
  "SPEKE_PRIME = ascii (prime_digits @ ''15728E5A8AACAA68FFFFFFFFFFFFFFFF'')"

definition SPEKE_BIG_PRIME :: bytes where
  "SPEKE_BIG_PRIME = ascii (prime_digits @
    ''15728E5A8AAAC42DAD33170D04507A33A85521ABDF1CBA64ECFB850458DBEF0A'' @
    ''8AEA71575D060C7DB3970F85A6E1E4C7ABF5AE8CDB0933D71E8C94E04A25619D'' @
    ''CEE3D2261AD2EE6BF12FFA06D98A0864D87602733EC86A64521F2B18177B200C'' @
    ''BBE117577A615D6C770988C0BAD946E208E24FA074E5AB3143DB5BFCE0FD108E'' @
    ''4B82D120A93AD2CAFFFFFFFFFFFFFFFF'')"

definition SPEKE_BASE_INFO :: bytes where "SPEKE_BASE_INFO = ascii ''hichain_speke_base_info''"
definition SPEKE_SESSION_KEY_INFO :: bytes where "SPEKE_SESSION_KEY_INFO = ascii ''hichain_speke_sessionkey_info''"
definition SPEKE_DATA_KEY_INFO :: bytes where "SPEKE_DATA_KEY_INFO = ascii ''hichain_return_key''"

section \<open>The negotiation context\<close>

record NegoContext =
  nc_salt :: bytes
  nc_saltLen :: nat
  nc_pubKey :: "bytes option"
  nc_pubKeyLen :: nat
  nc_random :: nat
  nc_prime :: nat
  nc_localChallenge :: bytes
  nc_remoteChallenge :: bytes
  nc_identityEncKey :: bytes
  nc_hmacKey :: bytes

text \<open>A buffer whose head is overwritten.\<close>

definition set_head :: "bytes \<Rightarrow> bytes \<Rightarrow> bytes" where
  "set_head buf data = data @ drop (length data) buf"

definition InitMpiByString :: "speke_lib \<Rightarrow> bool \<Rightarrow> bytes \<Rightarrow> nat option" where
  "InitMpiByString lib memok s = (if \<not> memok then None else lb_readString lib s)"

definition InitNegoCtxPrime :: "speke_lib \<Rightarrow> speke_env \<Rightarrow> PrimeType \<Rightarrow> ret + nat" where
  "InitNegoCtxPrime lib env primeType =
    (let prime = (if primeType = PRIME_NORMAL then SPEKE_PRIME else SPEKE_BIG_PRIME) in
     case InitMpiByString lib (ev_mem env MPrime) prime of
       None \<Rightarrow> Inl IOTC_ADAPTER_CRYPTO_ERR_MPI_INIT
     | Some p \<Rightarrow> Inr p)"

definition GenerateSpekeNegoRandom :: "speke_env \<Rightarrow> PrimeType \<Rightarrow> bytes option" where
  "GenerateSpekeNegoRandom env primeType =
    (if primeType \<noteq> PRIME_NORMAL \<and> primeType \<noteq> PRIME_BIG then None
     else
       (let randomLen = (if primeType = PRIME_NORMAL then 24 else 32) in
        if \<not> ev_mem env MRandom then None
        else
          (case ev_rnd env RSecret randomLen of
             Inl _ \<Rightarrow> None
           | Inr random \<Rightarrow>
               (if \<not> ev_mem env MRandomStr then None
                else
                  (case UtilsHexify (Some random) (Some (replicate (randomLen * 2 + 1) 0)) of
                     (True, Some str) \<Rightarrow> Some str
                   | _ \<Rightarrow> None)))))"

definition InitNegoCtxRandom :: "speke_lib \<Rightarrow> speke_env \<Rightarrow> PrimeType \<Rightarrow> ret + nat" where
  "InitNegoCtxRandom lib env primeType =
    (case GenerateSpekeNegoRandom env primeType of
       None \<Rightarrow> Inl IOTC_CORE_COMM_SEC_ERR_SPEKE_RANDOM_GEN
     | Some randomStr \<Rightarrow>
         (case InitMpiByString lib (ev_mem env MRandomMpi) (cstr randomStr) of
            None \<Rightarrow> Inl IOTC_ADAPTER_CRYPTO_ERR_MPI_INIT
          | Some r \<Rightarrow> Inr r))"

definition NegoGenHkdfSecret :: "speke_lib \<Rightarrow> bytes \<Rightarrow> bytes \<Rightarrow> ret + bytes" where
  "NegoGenHkdfSecret lib salt pinCode =
    (case lb_hkdf lib salt SPEKE_BASE_INFO pinCode IOTC_MD_SHA256_BYTE_LEN of
       None \<Rightarrow> Inl IOTC_ADAPTER_CRYPTO_ERR_HKDF
     | Some sha256Dec \<Rightarrow>
         (case UtilsHexify (Some sha256Dec) (Some (replicate (IOTC_MD_SHA256_BYTE_LEN * 2 + 1) 0)) of
            (True, Some sha256Hex) \<Rightarrow> Inr sha256Hex
          | _ \<Rightarrow> Inl IOTC_CORE_COMM_UTILS_ERR_HEXIFY))"

definition CalNegoGenerator :: "speke_lib \<Rightarrow> speke_env \<Rightarrow> NegoContext \<Rightarrow> bytes \<Rightarrow> ret + nat" where
  "CalNegoGenerator lib env context pinCode =
    (case InitMpiByString lib (ev_mem env MExp) (ascii ''2'') of
       None \<Rightarrow> Inl IOTC_ADAPTER_CRYPTO_ERR_MPI_INIT
     | Some e \<Rightarrow>
    (case NegoGenHkdfSecret lib (take (nc_saltLen context) (nc_salt context)) pinCode of
       Inl r \<Rightarrow> Inl r
     | Inr sha256Hex \<Rightarrow>
    (case InitMpiByString lib (ev_mem env MSecret) (cstr sha256Hex) of
       None \<Rightarrow> Inl IOTC_ADAPTER_CRYPTO_ERR_MPI_INIT
     | Some secret \<Rightarrow>
         (if \<not> ev_mem env MGenerator then Inl IOTC_ADAPTER_CRYPTO_ERR_MPI_INIT
          else
            (case lb_expMod lib secret e (nc_prime context) of
               None \<Rightarrow> Inl IOTC_ADAPTER_CRYPTO_ERR_MPI_EXP_MOD
             | Some generator \<Rightarrow> Inr generator)))))"

definition InitNegoCtxPubKey :: "speke_lib \<Rightarrow> speke_env \<Rightarrow> NegoContext \<Rightarrow> bytes \<Rightarrow> ret \<times> NegoContext" where
  "InitNegoCtxPubKey lib env context pinCode =
    (case CalNegoGenerator lib env context pinCode of
       Inl r \<Rightarrow> (r, context)
     | Inr generator \<Rightarrow>
         (if \<not> ev_mem env MPubKeyMpi then (IOTC_ADAPTER_CRYPTO_ERR_MPI_INIT, context)
          else
            (case lb_expMod lib generator (nc_random context) (nc_prime context) of
               None \<Rightarrow> (IOTC_ADAPTER_CRYPTO_ERR_MPI_EXP_MOD, context)
             | Some pubKeyMpi \<Rightarrow>
                 (if \<not> ev_mem env MPubKey then (IOTC_ADAPTER_MEM_ERR_MALLOC, context)
                  else
                    (case lb_writeBinary lib pubKeyMpi PRIME_KEY_LEN of
                       None \<Rightarrow> (IOTC_ADAPTER_CRYPTO_ERR_MPI_WRITE_BINARY, context)
                     | Some pubKey \<Rightarrow>
                         (IOTC_OK, context\<lparr>nc_pubKey := Some pubKey, nc_pubKeyLen := PRIME_KEY_LEN\<rparr>))))))"

definition NegoContextRegenPubKey :: "speke_lib \<Rightarrow> speke_env \<Rightarrow> NegoContext \<Rightarrow> bytes \<Rightarrow> ret \<times> NegoContext" where
  "NegoContextRegenPubKey lib env context pinCode =
    (if nc_pubKey context \<noteq> None \<or> length pinCode = 0 then (IOTC_ERR_PARAM_INVALID, context)
     else InitNegoCtxPubKey lib env context pinCode)"

definition CheckInitParamValid :: "bytes \<Rightarrow> bytes \<Rightarrow> PrimeType \<Rightarrow> bool" where
  "CheckInitParamValid pinCode salt primeType =
    (if length pinCode = 0 then False
     else if length salt > MAX_SALT_LEN \<or> length salt < MIN_SALT_LEN then False
     else if primeType \<noteq> PRIME_NORMAL \<and> primeType \<noteq> PRIME_BIG then False
     else True)"

definition NegoContextInit :: "speke_lib \<Rightarrow> speke_env \<Rightarrow> bytes \<Rightarrow> bytes \<Rightarrow> PrimeType \<Rightarrow> NegoContext option" where
  "NegoContextInit lib env pinCode salt primeType =
    (if \<not> CheckInitParamValid pinCode salt primeType then None
     else if \<not> ev_mem env MNegoContext then None
     else
       (case ev_rnd env RChallenge CHALLENGE_LEN of
          Inl _ \<Rightarrow> None
        | Inr challenge \<Rightarrow>
       (case InitNegoCtxPrime lib env primeType of
          Inl _ \<Rightarrow> None
        | Inr prime \<Rightarrow>
       (case InitNegoCtxRandom lib env primeType of
          Inl _ \<Rightarrow> None
        | Inr random \<Rightarrow>
            (let context = \<lparr>nc_salt = set_head (replicate MAX_SALT_LEN 0) salt, nc_saltLen = length salt,
                   nc_pubKey = None, nc_pubKeyLen = 0, nc_random = random, nc_prime = prime,
                   nc_localChallenge = challenge, nc_remoteChallenge = replicate CHALLENGE_LEN 0,
                   nc_identityEncKey = replicate SESSION_KEY_LEN 0, nc_hmacKey = replicate SESSION_KEY_LEN 0\<rparr>;
                 (r, context) = InitNegoCtxPubKey lib env context pinCode
             in if r \<noteq> IOTC_OK then None else Some context)))))"

definition NegoContextSetRemoteChallenge :: "NegoContext \<Rightarrow> bytes \<Rightarrow> ret \<times> NegoContext" where
  "NegoContextSetRemoteChallenge context challenge =
    (if length challenge = 0 \<or> length challenge > CHALLENGE_LEN then (IOTC_ERR_PARAM_INVALID, context)
     else (IOTC_OK, context\<lparr>nc_remoteChallenge := set_head (nc_remoteChallenge context) challenge\<rparr>))"

definition VerifyRemotePubKey :: "speke_env \<Rightarrow> nat \<Rightarrow> nat \<Rightarrow> ret" where
  "VerifyRemotePubKey env prime pubKey =
    (if pubKey < MIN_PUB_KEY then IOTC_CORE_COMM_SEC_ERR_SPEKE_PUBKEY
     else if \<not> ev_mem env MVerifyResult then IOTC_ADAPTER_CRYPTO_ERR_MPI_INIT
     else if int pubKey > int prime - int MIN_PUB_KEY then IOTC_CORE_COMM_SEC_ERR_SPEKE_PUBKEY
     else IOTC_OK)"

definition NegoCtxExportSharedKey :: "speke_lib \<Rightarrow> speke_env \<Rightarrow> nat \<Rightarrow> ret + bytes" where
  "NegoCtxExportSharedKey lib env sharedKeyMpi =
    (if \<not> ev_mem env MSharedKey then Inl IOTC_ADAPTER_MEM_ERR_MALLOC
     else
       (case lb_writeBinary lib sharedKeyMpi PRIME_KEY_LEN of
          None \<Rightarrow> Inl IOTC_ADAPTER_CRYPTO_ERR_MPI_WRITE_BINARY
        | Some key \<Rightarrow> Inr key))"

definition NegoCtxImportRemotePubKey :: "speke_lib \<Rightarrow> speke_env \<Rightarrow> NegoContext \<Rightarrow> bytes \<Rightarrow> ret + nat" where
  "NegoCtxImportRemotePubKey lib env context pubKey =
    (if \<not> ev_mem env MRemotePubKey then Inl IOTC_ADAPTER_CRYPTO_ERR_MPI_INIT
     else
       (case lb_readBinary lib pubKey of
          None \<Rightarrow> Inl IOTC_ADAPTER_CRYPTO_ERR_MPI_READ_BINARY
        | Some remotePubKey \<Rightarrow>
            (let r = VerifyRemotePubKey env (nc_prime context) remotePubKey in
             if r \<noteq> IOTC_OK then Inl r else Inr remotePubKey)))"

definition CalSharedKey :: "speke_lib \<Rightarrow> speke_env \<Rightarrow> NegoContext \<Rightarrow> bytes \<Rightarrow> ret + bytes" where
  "CalSharedKey lib env context pubKey =
    (case NegoCtxImportRemotePubKey lib env context pubKey of
       Inl r \<Rightarrow> Inl r
     | Inr remotePubKey \<Rightarrow>
         (if \<not> ev_mem env MSharedMpi then Inl IOTC_ADAPTER_CRYPTO_ERR_MPI_INIT
          else
            (case lb_expMod lib remotePubKey (nc_random context) (nc_prime context) of
               None \<Rightarrow> Inl IOTC_ADAPTER_CRYPTO_ERR_MPI_EXP_MOD
             | Some sharedKeyMpi \<Rightarrow> NegoCtxExportSharedKey lib env sharedKeyMpi)))"

definition GenSessionKey :: "speke_lib \<Rightarrow> NegoContext \<Rightarrow> bytes \<Rightarrow> ret \<times> NegoContext" where
  "GenSessionKey lib context sharedKey =
    (case lb_hkdf lib (take (nc_saltLen context) (nc_salt context)) SPEKE_SESSION_KEY_INFO sharedKey
            (SESSION_KEY_LEN + SESSION_KEY_LEN) of
       None \<Rightarrow> (IOTC_ADAPTER_CRYPTO_ERR_HKDF, context)
     | Some sessionKey \<Rightarrow>
         (IOTC_OK, context\<lparr>nc_identityEncKey := take SESSION_KEY_LEN sessionKey,
                          nc_hmacKey := take SESSION_KEY_LEN (drop SESSION_KEY_LEN sessionKey)\<rparr>))"

definition NegoContextGenSessionKey :: "speke_lib \<Rightarrow> speke_env \<Rightarrow> NegoContext \<Rightarrow> bytes \<Rightarrow> ret \<times> NegoContext" where
  "NegoContextGenSessionKey lib env context pubKey =
    (if length pubKey = 0 then (IOTC_ERR_PARAM_INVALID, context)
     else
       (case CalSharedKey lib env context pubKey of
          Inl r \<Rightarrow> (r, context)
        | Inr sharedKey \<Rightarrow>
            (if length sharedKey = 0 then (IOTC_OK, context) else GenSessionKey lib context sharedKey)))"

definition GenNegoHmac :: "speke_lib \<Rightarrow> bytes \<Rightarrow> bytes \<Rightarrow> bytes \<Rightarrow> ret + bytes" where
  "GenNegoHmac lib hmacKey challenge1 challenge2 =
    (case lb_hmac lib hmacKey (challenge1 @ challenge2) of
       None \<Rightarrow> Inl IOTC_ADAPTER_CRYPTO_ERR_HMAC_CALC
     | Some mac \<Rightarrow> Inr mac)"

definition NegoContextGenHmac :: "speke_lib \<Rightarrow> NegoContext \<Rightarrow> ret + bytes" where
  "NegoContextGenHmac lib context =
    GenNegoHmac lib (nc_hmacKey context) (nc_localChallenge context) (nc_remoteChallenge context)"

definition NegoContextVerifyHmac :: "speke_lib \<Rightarrow> NegoContext \<Rightarrow> bytes \<Rightarrow> ret" where
  "NegoContextVerifyHmac lib context mac =
    (if length mac \<noteq> HMAC_LEN then IOTC_ERR_PARAM_INVALID
     else
       (case GenNegoHmac lib (nc_hmacKey context) (nc_remoteChallenge context) (nc_localChallenge context) of
          Inl r \<Rightarrow> r
        | Inr calHmac \<Rightarrow>
            (if mac \<noteq> calHmac then IOTC_CORE_COMM_SEC_ERR_SPEKE_VERIFY_HMAC else IOTC_OK)))"

definition NegoContextGenDataEncKey :: "speke_lib \<Rightarrow> NegoContext \<Rightarrow> ret + bytes" where
  "NegoContextGenDataEncKey lib context =
    (case lb_hkdf lib (take (nc_saltLen context) (nc_salt context)) SPEKE_DATA_KEY_INFO
            (nc_identityEncKey context) SESSION_KEY_LEN of
       None \<Rightarrow> Inl IOTC_ADAPTER_CRYPTO_ERR_HKDF
     | Some key \<Rightarrow> Inr key)"

end
