(* ===== verification/Speke_Msg.thy ===== *)
theory Speke_Msg
  imports Speke_Nego
begin

text \<open>
  The messages of a SPEKE negotiation: building them as JSON trees (\<open>security_speke_common.c\<close>) and,
  for the large answer of the server, by hand into one buffer (\<open>security_speke_server.c\<close>).
\<close>

section \<open>Building trees\<close>

abbreviation (input) SPEKE_SEC_DATA_MSG_TYPE_CLIENT_REQ :: int where "SPEKE_SEC_DATA_MSG_TYPE_CLIENT_REQ \<equiv> 0x0001"
abbreviation (input) SPEKE_SEC_DATA_MSG_TYPE_SERVER_RSP :: int where "SPEKE_SEC_DATA_MSG_TYPE_SERVER_RSP \<equiv> 0x8001"
abbreviation (input) SPEKE_SEC_DATA_MSG_TYPE_CLIENT_CFM :: int where "SPEKE_SEC_DATA_MSG_TYPE_CLIENT_CFM \<equiv> 0x0002"
abbreviation (input) SPEKE_SEC_DATA_MSG_TYPE_SERVER_CFM :: int where "SPEKE_SEC_DATA_MSG_TYPE_SERVER_CFM \<equiv> 0x8002"
abbreviation (input) SPEKE_SEC_DATA_MSG_TYPE_INFORM_MSG :: int where "SPEKE_SEC_DATA_MSG_TYPE_INFORM_MSG \<equiv> 0x8080"

definition SPEKE_VERSION :: bytes where "SPEKE_VERSION = ascii ''1.0.0''"
abbreviation (input) SPEKE_OPCODE :: int where "SPEKE_OPCODE \<equiv> 6"

text \<open>Adding an entry at the end of an object.\<close>

definition add_entry :: "speke_env \<Rightarrow> (bytes \<times> json) list \<Rightarrow> bytes \<Rightarrow> json \<Rightarrow> ret + (bytes \<times> json) list" where
  "add_entry env kvs name v = (if \<not> ev_mem env (JAdd name) then Inl IOTC_ADAPTER_JSON_ERR_ADD else Inr (kvs @ [(name, v)]))"

definition SpekeCommonAddVerInfoToJson :: "speke_env \<Rightarrow> (bytes \<times> json) list \<Rightarrow> ret + (bytes \<times> json) list" where
  "SpekeCommonAddVerInfoToJson env payload =
    (if \<not> ev_mem env (JCreate 0) then Inl IOTC_ADAPTER_JSON_ERR_CREATE
     else
       (case add_entry env [] SPEKE_SEC_DATA_CUR_VER_JSON (JStr SPEKE_VERSION) of
          Inl r \<Rightarrow> Inl r
        | Inr version \<Rightarrow>
       (case add_entry env version SPEKE_SEC_DATA_MIN_VER_JSON (JStr SPEKE_VERSION) of
          Inl r \<Rightarrow> Inl r
        | Inr version \<Rightarrow> add_entry env payload SPEKE_SEC_DATA_VER_JSON (JObj version))))"

text \<open>Reading a field never leaves the text, so the reads below have a result.\<close>

definition get_str :: "bytes \<Rightarrow> bytes \<Rightarrow> ret + nat \<times> nat" where
  "get_str json key = the (SpekeFlatGetStr json key)"

definition get_obj :: "bytes \<Rightarrow> bytes \<Rightarrow> ret + nat \<times> nat" where
  "get_obj json key = the (SpekeFlatGetObj json key)"

definition SpekeCommonVerifyVersion :: "bytes \<Rightarrow> ret" where
  "SpekeCommonVerifyVersion payload =
    (if length payload = 0 then IOTC_ERR_PARAM_INVALID
     else
       (case get_obj payload SPEKE_SEC_DATA_VER_JSON of
          Inl r \<Rightarrow> r
        | Inr verObj \<Rightarrow>
       (case get_str (view payload verObj) SPEKE_SEC_DATA_CUR_VER_JSON of
          Inl r \<Rightarrow> r
        | Inr curVer \<Rightarrow>
            (if view (view payload verObj) curVer \<noteq> SPEKE_VERSION
             then IOTC_CORE_COMM_SEC_ERR_SPEKE_VER_NOT_SUPP else IOTC_OK))))"

definition CreateSecDataObj :: "speke_env \<Rightarrow> int \<Rightarrow> json \<Rightarrow> (bytes \<times> json) list option" where
  "CreateSecDataObj env msgType payload =
    (if \<not> ev_mem env (JCreate 1) then None
     else
       (case add_entry env [] SPEKE_SEC_DATA_MESSAGE_JSON (JInt msgType) of
          Inl _ \<Rightarrow> None
        | Inr secData \<Rightarrow>
            (if \<not> ev_mem env JDup then None
             else
               (case add_entry env secData SPEKE_SEC_DATA_PAYLOAD_JSON payload of
                  Inl _ \<Rightarrow> None
                | Inr secData \<Rightarrow> Some secData))))"

definition CreateNegoMsgObj :: "speke_env \<Rightarrow> bytes \<Rightarrow> json \<Rightarrow> (bytes \<times> json) list option" where
  "CreateNegoMsgObj env sessionId secData =
    (if \<not> ev_mem env (JCreate 2) then None
     else
       (case add_entry env [] SPEKE_SESSION_ID_JSON (JStr sessionId) of
          Inl _ \<Rightarrow> None
        | Inr root \<Rightarrow>
            (case add_entry env root SPEKE_SEC_DATA_JSON secData of
               Inl _ \<Rightarrow> None
             | Inr root \<Rightarrow> Some root)))"

definition SpekeCommonCreateNegoMsg :: "speke_lib \<Rightarrow> speke_env \<Rightarrow> bytes \<Rightarrow> int \<Rightarrow> json \<Rightarrow> ret + bytes" where
  "SpekeCommonCreateNegoMsg lib env sessionId msgType payload =
    (case CreateSecDataObj env msgType payload of
       None \<Rightarrow> Inl IOTC_ADAPTER_JSON_ERR_CREATE
     | Some secData \<Rightarrow>
    (case CreateNegoMsgObj env sessionId (JObj secData) of
       None \<Rightarrow> Inl IOTC_ADAPTER_JSON_ERR_CREATE
     | Some root \<Rightarrow>
    (case lb_print lib (JObj root) of
       None \<Rightarrow> Inl IOTC_CORE_COMM_UTILS_ERR_JSON_MALLOC_PRINT
     | Some outMsg \<Rightarrow> Inr outMsg)))"

definition SpekeCommonAddDataToJson ::
    "speke_env \<Rightarrow> (bytes \<times> json) list \<Rightarrow> bytes \<Rightarrow> bytes \<Rightarrow> ret + (bytes \<times> json) list" where
  "SpekeCommonAddDataToJson env target name input =
    (if length input = 0 \<or> length input > 512 then Inl IOTC_ERR_PARAM_INVALID
     else if \<not> ev_mem env (MHex name) then Inl IOTC_ADAPTER_MEM_ERR_MALLOC
     else
       (case UtilsHexify (Some input) (Some (replicate (length input * 2 + 1) 0)) of
          (True, Some data) \<Rightarrow> add_entry env target name (JStr (cstr data))
        | _ \<Rightarrow> Inl IOTC_CORE_COMM_UTILS_ERR_HEXIFY))"

text \<open>A null message stays null; a failed allocation releases the message.\<close>

definition SpekeCommonWrapPrefix :: "speke_env \<Rightarrow> bytes option \<Rightarrow> nat \<Rightarrow> ret \<times> bytes option" where
  "SpekeCommonWrapPrefix env msg prefixLen =
    (case msg of
       None \<Rightarrow> (IOTC_OK, None)
     | Some m \<Rightarrow>
         (if prefixLen = 0 then (IOTC_OK, Some m)
          else if \<not> ev_mem env MPrefix then (IOTC_ADAPTER_MEM_ERR_MALLOC, None)
          else (IOTC_OK, Some (replicate prefixLen 0 @ m))))"

section \<open>The answer of the server, written by hand\<close>

text \<open>Appending to a buffer at a position; the bounds are those of the copy function.\<close>

definition RspMsgAppend :: "bytes \<Rightarrow> nat \<Rightarrow> bytes \<Rightarrow> ret + bytes \<times> nat" where
  "RspMsgAppend buf pos str =
    (if length buf - pos = 0 \<or> length str > length buf - pos then Inl IOTC_ERR_SECUREC_MEMCPY
     else Inr (overwrite buf pos str, pos + length str))"

definition RspMsgAppendHex :: "bytes \<Rightarrow> nat \<Rightarrow> bytes \<Rightarrow> ret + bytes \<times> nat" where
  "RspMsgAppendHex buf pos data =
    (case UtilsHexify (Some data) (Some (drop pos buf)) of
       (True, Some tail) \<Rightarrow> Inr (take pos buf @ tail, pos + length data * 2)
     | _ \<Rightarrow> Inl IOTC_CORE_COMM_UTILS_ERR_HEXIFY)"

definition SpekeSessionIdNeedEscape :: "bytes \<Rightarrow> bool" where
  "SpekeSessionIdNeedEscape sessionId = list_ex (\<lambda>c. c = QUOTE \<or> c = BACKSLASH \<or> c < 0x20) sessionId"

definition LIT_HEAD :: bytes where "LIT_HEAD = ascii ''{\"sessionId\":\"''"
definition LIT_SEC_DATA :: bytes where "LIT_SEC_DATA = ascii ''\",\"securityData\":{\"message\":''"
definition LIT_PAYLOAD :: bytes where "LIT_PAYLOAD = ascii '',\"payload\":{\"version\":{\"currentVersion\":\"''"
definition LIT_MIN_VER :: bytes where "LIT_MIN_VER = ascii ''\",\"minVersion\":\"''"
definition LIT_VER_END :: bytes where "LIT_VER_END = ascii ''\"},\"challenge\":\"''"
definition LIT_SALT :: bytes where "LIT_SALT = ascii ''\",\"salt\":\"''"
definition LIT_EPK :: bytes where "LIT_EPK = ascii ''\",\"epk\":\"''"
definition LIT_TAIL :: bytes where "LIT_TAIL = ascii ''\"}}}''"

text \<open>The digits of a number from the last one on, at most \<open>cap\<close> of them.\<close>

function num_rev :: "nat \<Rightarrow> nat \<Rightarrow> nat \<Rightarrow> bytes" where
  "num_rev numVal numLen cap =
    (48 + of_nat (numVal mod 10)) #
      (if numVal div 10 > 0 \<and> numLen + 1 < cap then num_rev (numVal div 10) (numLen + 1) cap else [])"
  by auto
termination by (relation "measure (\<lambda>(numVal, numLen, cap). cap - numLen)") auto

declare num_rev.simps [simp del]

definition SpekeRspNumToStr :: "nat \<Rightarrow> nat \<Rightarrow> bytes" where
  "SpekeRspNumToStr numVal cap = rev (num_rev numVal 0 cap)"

text \<open>The parts of the message; hexadecimal data is marked.\<close>

datatype rsp_part = Lit bytes | Hex bytes

definition rsp_parts :: "NegoContext \<Rightarrow> bytes \<Rightarrow> rsp_part list" where
  "rsp_parts negoCtx sessionId =
    [Lit LIT_HEAD, Lit sessionId, Lit LIT_SEC_DATA,
     Lit (SpekeRspNumToStr (nat SPEKE_SEC_DATA_MSG_TYPE_SERVER_RSP) 11), Lit LIT_PAYLOAD, Lit SPEKE_VERSION,
     Lit LIT_MIN_VER, Lit SPEKE_VERSION, Lit LIT_VER_END, Hex (nc_localChallenge negoCtx), Lit LIT_SALT,
     Hex (take (nc_saltLen negoCtx) (nc_salt negoCtx)), Lit LIT_EPK, Hex (the (nc_pubKey negoCtx)), Lit LIT_TAIL]"

fun write_parts :: "rsp_part list \<Rightarrow> bytes \<Rightarrow> nat \<Rightarrow> ret + bytes \<times> nat" where
  "write_parts [] buf pos = Inr (buf, pos)"
| "write_parts (p # ps) buf pos =
    (case (case p of Lit s \<Rightarrow> RspMsgAppend buf pos s | Hex d \<Rightarrow> RspMsgAppendHex buf pos d) of
       Inl r \<Rightarrow> Inl r
     | Inr (buf, pos) \<Rightarrow> write_parts ps buf pos)"

definition SpekeRspWriteSegments :: "bytes \<Rightarrow> nat \<Rightarrow> NegoContext \<Rightarrow> bytes \<Rightarrow> ret + bytes \<times> nat" where
  "SpekeRspWriteSegments buf pos negoCtx sessionId = write_parts (rsp_parts negoCtx sessionId) buf pos"

text \<open>The buffer is not initialised; here it starts as zeros, and every byte of the result is written.\<close>

definition rsp_total :: "NegoContext \<Rightarrow> bytes \<Rightarrow> nat" where
  "rsp_total negoCtx sessionId =
    length LIT_HEAD + length LIT_SEC_DATA + length LIT_PAYLOAD + length LIT_MIN_VER +
    length LIT_VER_END + length LIT_SALT + length LIT_EPK + length LIT_TAIL +
    length sessionId + length (SpekeRspNumToStr (nat SPEKE_SEC_DATA_MSG_TYPE_SERVER_RSP) 11) +
    length SPEKE_VERSION * 2 + CHALLENGE_LEN * 2 + nc_saltLen negoCtx * 2 + nc_pubKeyLen negoCtx * 2"

definition CreateSpekeServerRspMsg :: "speke_env \<Rightarrow> NegoContext \<Rightarrow> bytes \<Rightarrow> nat \<Rightarrow> ret + bytes" where
  "CreateSpekeServerRspMsg env negoCtx sessionId prefixLen =
    (if nc_pubKey negoCtx = None \<or> nc_pubKeyLen negoCtx = 0 \<or> nc_saltLen negoCtx = 0 then Inl IOTC_ERR_PARAM_INVALID
     else
       (let total = rsp_total negoCtx sessionId; capAll = prefixLen + total + 1
        in if \<not> ev_mem env MRspMsg then Inl IOTC_ADAPTER_MEM_ERR_MALLOC
           else
             (case SpekeRspWriteSegments (replicate capAll 0) prefixLen negoCtx sessionId of
                Inl r \<Rightarrow> Inl r
              | Inr (buf, pos) \<Rightarrow>
                  (if pos \<noteq> prefixLen + total then Inl IOTC_ERR_PARAM_INVALID
                   else Inr (take (prefixLen + total) (buf[prefixLen + total := 0]))))))"

section \<open>Hexadecimal texts\<close>

lemma hex_digit_plain: "d < 16 \<Longrightarrow> hex_digit d \<noteq> 0 \<and> hex_digit d \<noteq> QUOTE \<and> hex_digit d \<noteq> BACKSLASH \<and> 0x20 \<le> hex_digit d"
  by (auto simp: hex_digit_def word_nat unat_word_ariths split: if_splits)

lemma hex_string_plain: "plain (hex_string bs)" "0 \<notin> set (hex_string bs)"
  using hex_digit_plain [OF nibbles_lt(1)] hex_digit_plain [OF nibbles_lt(2)]
  by (induction bs) (auto simp: plain_def dest: sym)

lemma hex_string_Nil [simp]: "hex_string bs = [] \<longleftrightarrow> bs = []"
  by (cases bs) simp_all

lemma UtilsHexify_zeros:
  "inp \<noteq> [] \<Longrightarrow> UtilsHexify (Some inp) (Some (replicate (length inp * 2 + 1) 0)) = (True, Some (hex_string inp @ [0]))"
  by (simp add: UtilsHexify_def hex_loop_overwrite overwrite_def mult.commute del: replicate_Suc) simp

lemma cstr_hex [simp]: "cstr (hex_string bs @ [0]) = hex_string bs"
  using hex_string_plain(2) [of bs] by (auto simp: cstr_def takeWhile_append takeWhile_eq_all_conv)

lemma cstr_plain: "plain s \<Longrightarrow> cstr s = s"
  by (auto simp: cstr_def plain_def list_all_iff takeWhile_eq_all_conv)

lemma UtilsUnhexify_hex:
  "inp \<noteq> [] \<Longrightarrow> length inp \<le> length out \<Longrightarrow>
    UtilsUnhexify (Some (hex_string inp)) (Some out) = (True, Some (set_head out inp))"
  by (auto simp: UtilsUnhexify_def unhex_loop_hex_string overwrite_def set_head_def)

section \<open>The answer written by hand is the text of its tree\<close>

fun part_text :: "rsp_part \<Rightarrow> bytes" where
  "part_text (Lit s) = s"
| "part_text (Hex d) = hex_string d"

fun part_ok :: "rsp_part \<Rightarrow> bool" where
  "part_ok (Lit s) = True"
| "part_ok (Hex d) = (d \<noteq> [])"

lemma append_part:
  assumes "part_ok p" "length (part_text p) < length rest"
  shows "(case p of Lit s \<Rightarrow> RspMsgAppend (pre @ rest) (length pre) s | Hex d \<Rightarrow> RspMsgAppendHex (pre @ rest) (length pre) d) =
    Inr ((pre @ part_text p) @ drop (length (part_text p)) rest, length (pre @ part_text p))"
  using assms
  by (cases p) (auto simp: RspMsgAppend_def RspMsgAppendHex_def UtilsHexify_def hex_loop_overwrite overwrite_def)

lemma write_parts_text:
  assumes "list_all part_ok ps" "length (concat (map part_text ps)) < length rest"
  shows "write_parts ps (pre @ rest) (length pre) =
    Inr (pre @ concat (map part_text ps) @ drop (length (concat (map part_text ps))) rest,
         length pre + length (concat (map part_text ps)))"
  using assms
proof (induction ps arbitrary: pre rest)
  case (Cons p ps)
  show ?case
    using append_part [of p rest pre] Cons.IH [of "drop (length (part_text p)) rest" "pre @ part_text p"] Cons.prems
    by (simp add: add.commute add.left_commute)
qed simp

lemma num_rev_dec: "k < cap \<Longrightarrow> n < 10 ^ (cap - k) \<Longrightarrow> num_rev n k cap = rev (dec n)"
proof (induction n arbitrary: k rule: dec.induct)
  case (1 n)
  show ?case
  proof (cases "n < 10")
    case True
    then show ?thesis by (subst num_rev.simps, subst dec.simps) simp
  next
    case False
    have pow: "10 ^ (cap - k) = (10 :: nat) * 10 ^ (cap - (k + 1))"
      using "1.prems"(1) by (simp flip: power_Suc add: Suc_diff_Suc)
    have "k + 1 < cap"
    proof (rule ccontr)
      assume "\<not> k + 1 < cap"
      then have "cap - k = 1" using "1.prems"(1) by simp
      then show False using "1.prems"(2) False by simp
    qed
    moreover have "n div 10 < 10 ^ (cap - (k + 1))" using "1.prems"(2) pow by (simp add: less_mult_imp_div_less mult.commute)
    ultimately show ?thesis
      using "1.IH" [OF False, of "k + 1"] False by (subst num_rev.simps, subst dec.simps) simp
  qed
qed

lemma SpekeRspNumToStr_dec: "0 < cap \<Longrightarrow> n < 10 ^ cap \<Longrightarrow> SpekeRspNumToStr n cap = dec n"
  by (simp add: SpekeRspNumToStr_def num_rev_dec)

text \<open>The tree of a message, and of the answer.\<close>

definition nego_tree :: "bytes \<Rightarrow> int \<Rightarrow> json \<Rightarrow> (bytes \<times> json) list" where
  "nego_tree sessionId msgType payload =
    [(SPEKE_SESSION_ID_JSON, JStr sessionId),
     (SPEKE_SEC_DATA_JSON, JObj [(SPEKE_SEC_DATA_MESSAGE_JSON, JInt msgType), (SPEKE_SEC_DATA_PAYLOAD_JSON, payload)])]"

definition version_tree :: json where
  "version_tree = JObj [(SPEKE_SEC_DATA_CUR_VER_JSON, JStr SPEKE_VERSION), (SPEKE_SEC_DATA_MIN_VER_JSON, JStr SPEKE_VERSION)]"

definition rsp_tree :: "bytes \<Rightarrow> bytes \<Rightarrow> bytes \<Rightarrow> (bytes \<times> json) list" where
  "rsp_tree challenge salt epk =
    [(SPEKE_SEC_DATA_VER_JSON, version_tree), (SPEKE_SEC_DATA_CHALLENGE_JSON, JStr (hex_string challenge)),
     (SPEKE_SEC_DATA_SALT_JSON, JStr (hex_string salt)), (SPEKE_SEC_DATA_EPK_JSON, JStr (hex_string epk))]"

lemma rsp_parts_text:
  "concat (map part_text (rsp_parts ctx sid)) =
    compact (JObj (nego_tree sid SPEKE_SEC_DATA_MSG_TYPE_SERVER_RSP
      (JObj (rsp_tree (nc_localChallenge ctx) (take (nc_saltLen ctx) (nc_salt ctx)) (the (nc_pubKey ctx))))))"
  by (simp add: rsp_parts_def SpekeRspNumToStr_dec nego_tree_def rsp_tree_def version_tree_def speke_keys
      LIT_HEAD_def LIT_SEC_DATA_def LIT_PAYLOAD_def LIT_MIN_VER_def LIT_VER_END_def LIT_SALT_def LIT_EPK_def LIT_TAIL_def)

definition ctx_wf :: "NegoContext \<Rightarrow> bool" where
  "ctx_wf ctx =
    (length (nc_salt ctx) = 16 \<and> 8 \<le> nc_saltLen ctx \<and> nc_saltLen ctx \<le> 16 \<and>
     length (nc_localChallenge ctx) = 16 \<and> length (nc_remoteChallenge ctx) = 16 \<and>
     (case nc_pubKey ctx of None \<Rightarrow> True | Some k \<Rightarrow> length k = 256 \<and> nc_pubKeyLen ctx = 256))"

lemma RspMsg_text:
  assumes "ctx_wf ctx" "nc_pubKey ctx = Some epk" "ev_mem env MRspMsg"
  shows "CreateSpekeServerRspMsg env ctx sid prefixLen = Inr (replicate prefixLen 0 @
    compact (JObj (nego_tree sid SPEKE_SEC_DATA_MSG_TYPE_SERVER_RSP
      (JObj (rsp_tree (nc_localChallenge ctx) (take (nc_saltLen ctx) (nc_salt ctx)) epk)))))"
proof -
  define body where "body = concat (map part_text (rsp_parts ctx sid))"
  have len: "length (nc_localChallenge ctx) = 16" "length (take (nc_saltLen ctx) (nc_salt ctx)) = nc_saltLen ctx"
    "length epk = 256" "nc_pubKeyLen ctx = 256" "0 < nc_saltLen ctx"
    using assms(1,2) by (auto simp: ctx_wf_def)
  have total: "length body = rsp_total ctx sid"
    using len assms(2) by (simp add: body_def rsp_parts_def rsp_total_def)
  have parts: "list_all part_ok (rsp_parts ctx sid)"
    using len assms(2) by (auto simp: rsp_parts_def)
  have z: "drop (length body) (replicate (length body + 1) (0 :: u8)) = [0]"
    by (simp only: drop_replicate) simp
  have "replicate (prefixLen + length body + 1) (0 :: u8) = replicate prefixLen 0 @ replicate (length body + 1) 0"
    by (simp only: replicate_add append_assoc [symmetric] add.assoc)
  then have "write_parts (rsp_parts ctx sid) (replicate (prefixLen + length body + 1) 0) prefixLen =
      Inr (replicate prefixLen 0 @ body @ [0], prefixLen + length body)"
    using write_parts_text [OF parts, of "replicate (length body + 1) 0" "replicate prefixLen 0", folded body_def]
    using z by (simp del: replicate_Suc)
  then have "CreateSpekeServerRspMsg env ctx sid prefixLen = Inr (replicate prefixLen 0 @ body)"
    using assms(2,3) len(4,5)
    by (simp add: CreateSpekeServerRspMsg_def SpekeRspWriteSegments_def Let_def flip: total)
  then show ?thesis using rsp_parts_text [of ctx sid] assms(2) by (simp only: body_def option.sel)
qed

end
