(* ===== verification/Speke_Session.thy ===== *)
theory Speke_Session
  imports Speke_Msg
begin

text \<open>
  SPEKE sessions: the server (\<open>security_speke_server.c\<close>), the client (\<open>security_speke_client.c\<close>), the
  dispatch of packets and the encryption of data (\<open>security_speke_session.c\<close>).
\<close>

section \<open>Sessions\<close>

datatype SpekeType = SPEKE_TYPE_UNKNOWN | SPEKE_TYPE_CLIENT | SPEKE_TYPE_SERVER

text \<open>The bytes of \<open>pinCode\<close> are the first \<open>pinCodeLen\<close> ones; the callbacks are arguments of the calls.\<close>

record TagSpekeSession =
  ss_spekeType :: SpekeType
  ss_pinCode :: bytes
  ss_negoContext :: "NegoContext option"
  ss_dataEncKey :: bytes

record SpekeProcessParam =
  pp_msgType :: int
  pp_sessionId :: bytes
  pp_payload :: bytes
  pp_payloadWritable :: bool
  pp_prefixLen :: nat

section \<open>Server\<close>

definition VerifyClientReqPayload :: "bytes \<Rightarrow> ret" where
  "VerifyClientReqPayload payload =
    (case SpekeFlatGetNum payload SPEKE_SEC_DATA_OPCODE_JSON of
       Inl r \<Rightarrow> r
     | Inr opCode \<Rightarrow>
         (if opCode \<noteq> SPEKE_OPCODE then IOTC_CORE_COMM_SEC_ERR_SPEKE_OPCODE
          else SpekeCommonVerifyVersion payload))"

definition CreateSpekeServerRspSecPayload :: "speke_env \<Rightarrow> NegoContext \<Rightarrow> ret + (bytes \<times> json) list" where
  "CreateSpekeServerRspSecPayload env negoCtx =
    (if \<not> ev_mem env (JCreate 3) then Inl IOTC_ADAPTER_JSON_ERR_CREATE
     else
       (case SpekeCommonAddVerInfoToJson env [] of
          Inl r \<Rightarrow> Inl r
        | Inr payload \<Rightarrow>
       (case SpekeCommonAddDataToJson env payload SPEKE_SEC_DATA_CHALLENGE_JSON (nc_localChallenge negoCtx) of
          Inl r \<Rightarrow> Inl r
        | Inr payload \<Rightarrow>
       (case SpekeCommonAddDataToJson env payload SPEKE_SEC_DATA_SALT_JSON (take (nc_saltLen negoCtx) (nc_salt negoCtx)) of
          Inl r \<Rightarrow> Inl r
        | Inr payload \<Rightarrow>
            SpekeCommonAddDataToJson env payload SPEKE_SEC_DATA_EPK_JSON
              (case nc_pubKey negoCtx of None \<Rightarrow> [] | Some k \<Rightarrow> k)))))"

definition drop_pubKey :: "NegoContext \<Rightarrow> NegoContext" where
  "drop_pubKey negoCtx = negoCtx\<lparr>nc_pubKey := None, nc_pubKeyLen := 0\<rparr>"

text \<open>The prefix is added to a copy; a failure leaves no message.\<close>

definition SpekeServerBuildRspFallback ::
    "speke_lib \<Rightarrow> speke_env \<Rightarrow> NegoContext \<Rightarrow> SpekeProcessParam \<Rightarrow> ret \<times> NegoContext \<times> bytes option" where
  "SpekeServerBuildRspFallback lib env negoCtx param =
    (case CreateSpekeServerRspSecPayload env negoCtx of
       Inl r \<Rightarrow> (r, negoCtx, None)
     | Inr rspPayload \<Rightarrow>
    (case SpekeCommonCreateNegoMsg lib env (pp_sessionId param) SPEKE_SEC_DATA_MSG_TYPE_SERVER_RSP (JObj rspPayload) of
       Inl r \<Rightarrow> (r, negoCtx, None)
     | Inr msg \<Rightarrow>
         (let (r, msg) = SpekeCommonWrapPrefix env (Some msg) (pp_prefixLen param) in
          if r = IOTC_OK then (r, drop_pubKey negoCtx, msg) else (r, negoCtx, msg))))"

definition SpekeServerProcessReq ::
    "speke_lib \<Rightarrow> speke_env \<Rightarrow> TagSpekeSession \<Rightarrow> SpekeProcessParam \<Rightarrow> ret \<times> TagSpekeSession \<times> bytes option" where
  "SpekeServerProcessReq lib env session param =
    (if ss_spekeType session \<noteq> SPEKE_TYPE_SERVER then (IOTC_CORE_COMM_SEC_ERR_SPEKE_TYPE, session, None)
     else
       (let r = VerifyClientReqPayload (pp_payload param) in
        if r \<noteq> IOTC_OK then (r, session, None)
        else
          (case ss_negoContext session of
             None \<Rightarrow> (IOTC_CORE_COMM_SEC_ERR_SPEKE_NEGOCTX_NOT_INIT, session, None)
           | Some negoCtx \<Rightarrow>
               (let (r, negoCtx) =
                  (if nc_pubKey negoCtx = None then NegoContextRegenPubKey lib env negoCtx (ss_pinCode session)
                   else (IOTC_OK, negoCtx))
                in if r \<noteq> IOTC_OK then (r, session\<lparr>ss_negoContext := Some negoCtx\<rparr>, None)
                   else if \<not> SpekeSessionIdNeedEscape (pp_sessionId param) then
                     (case CreateSpekeServerRspMsg env negoCtx (pp_sessionId param) (pp_prefixLen param) of
                        Inl r \<Rightarrow> (r, session\<lparr>ss_negoContext := Some negoCtx\<rparr>, None)
                      | Inr msg \<Rightarrow> (IOTC_OK, session\<lparr>ss_negoContext := Some (drop_pubKey negoCtx)\<rparr>, Some msg))
                   else
                     (let (r, negoCtx, msg) = SpekeServerBuildRspFallback lib env negoCtx param
                      in (r, session\<lparr>ss_negoContext := Some negoCtx\<rparr>, msg))))))"

text \<open>
  Decoding hexadecimal digits over themselves: pair \<open>i\<close> of the view is read at twice the offset at
  which its value is written.
\<close>

function unhex_inplace :: "bytes \<Rightarrow> nat \<Rightarrow> nat \<Rightarrow> nat \<Rightarrow> bool \<times> bytes" where
  "unhex_inplace buf start n i =
    (if i \<ge> n then (True, buf)
     else
       (case HexChar2Num (buf ! (start + 2 * i)) of
          None \<Rightarrow> (False, buf)
        | Some high \<Rightarrow>
       (case HexChar2Num (buf ! (start + 2 * i + 1)) of
          None \<Rightarrow> (False, buf)
        | Some low \<Rightarrow> unhex_inplace (buf[start + i := push_bit 4 high OR low]) start n (i + 1))))"
  by auto
termination by (relation "measure (\<lambda>(buf, start, n, i). n - i)") auto

declare unhex_inplace.simps [simp del]

text \<open>The last component is the text the view points into, which decoding in place changes.\<close>

definition SpekeServerGenSessionKey ::
    "speke_lib \<Rightarrow> speke_env \<Rightarrow> NegoContext \<Rightarrow> bytes \<Rightarrow> nat \<times> nat \<Rightarrow> bool \<Rightarrow> ret \<times> NegoContext \<times> bytes" where
  "SpekeServerGenSessionKey lib env negoCtx payload epkView inPlace =
    (let (start, len) = epkView in
     if len = 0 \<or> len mod 2 \<noteq> 0 then (IOTC_ADAPTER_JSON_ERR_PARSE, negoCtx, payload)
     else
       (let binCap = len div 2 in
        if inPlace then
          (let (ok, payload) = unhex_inplace payload start binCap 0 in
           if \<not> ok then (IOTC_CORE_COMM_UTILS_ERR_UNHEXIFY, negoCtx, payload)
           else
             (let (r, negoCtx) = NegoContextGenSessionKey lib env negoCtx (take binCap (drop start payload))
              in (r, negoCtx, payload)))
        else if \<not> ev_mem env MRemoteBin then (IOTC_ADAPTER_MEM_ERR_MALLOC, negoCtx, payload)
        else
          (case UtilsUnhexify (Some (view payload epkView)) (Some (replicate binCap 0)) of
             (True, Some bin) \<Rightarrow>
               (let (r, negoCtx) = NegoContextGenSessionKey lib env negoCtx bin in (r, negoCtx, payload))
           | _ \<Rightarrow> (IOTC_CORE_COMM_UTILS_ERR_UNHEXIFY, negoCtx, payload))))"

text \<open>A decoded field: the first half as many bytes as the text has characters, of a buffer of \<open>cap\<close> bytes.\<close>

definition unhex_field :: "bytes \<Rightarrow> nat \<Rightarrow> bytes option" where
  "unhex_field s cap =
    (case UtilsUnhexify (Some s) (Some (replicate cap 0)) of
       (True, Some buf) \<Rightarrow> Some (take (length s div 2) buf)
     | _ \<Rightarrow> None)"

definition ParseClientCfmPayload ::
    "speke_lib \<Rightarrow> speke_env \<Rightarrow> NegoContext \<Rightarrow> bytes \<Rightarrow> bool \<Rightarrow> ret \<times> NegoContext \<times> bytes" where
  "ParseClientCfmPayload lib env negoCtx payload inPlace =
    (case get_str payload SPEKE_SEC_DATA_CHALLENGE_JSON of
       Inl r \<Rightarrow> (r, negoCtx, payload)
     | Inr challengeView \<Rightarrow>
    (case get_str payload SPEKE_SEC_DATA_EPK_JSON of
       Inl r \<Rightarrow> (r, negoCtx, payload)
     | Inr epkView \<Rightarrow>
    (case get_str payload SPEKE_SEC_DATA_KCF_JSON of
       Inl r \<Rightarrow> (r, negoCtx, payload)
     | Inr kcfView \<Rightarrow>
    (case unhex_field (view payload challengeView) 16 of
       None \<Rightarrow> (IOTC_CORE_COMM_UTILS_ERR_UNHEXIFY, negoCtx, payload)
     | Some challenge \<Rightarrow>
         (let (r, negoCtx) = NegoContextSetRemoteChallenge negoCtx challenge in
          if r \<noteq> IOTC_OK then (r, negoCtx, payload)
          else
            (case unhex_field (view payload kcfView) HMAC_LEN of
               None \<Rightarrow> (IOTC_CORE_COMM_UTILS_ERR_UNHEXIFY, negoCtx, payload)
             | Some mac \<Rightarrow>
                 (let (r, negoCtx, payload) = SpekeServerGenSessionKey lib env negoCtx payload epkView inPlace in
                  if r \<noteq> IOTC_OK then (r, negoCtx, payload)
                  else (NegoContextVerifyHmac lib negoCtx mac, negoCtx, payload))))))))"

definition CreateSpekeServerCfmSecPayload :: "speke_lib \<Rightarrow> speke_env \<Rightarrow> NegoContext \<Rightarrow> ret + (bytes \<times> json) list" where
  "CreateSpekeServerCfmSecPayload lib env negoCtx =
    (if \<not> ev_mem env (JCreate 4) then Inl IOTC_ADAPTER_JSON_ERR_CREATE
     else
       (case NegoContextGenHmac lib negoCtx of
          Inl r \<Rightarrow> Inl r
        | Inr mac \<Rightarrow> SpekeCommonAddDataToJson env [] SPEKE_SEC_DATA_KCF_JSON mac))"

text \<open>The message stays set when the last step fails; the last component is the text of the payload.\<close>

definition SpekeServerProcessCfm ::
    "speke_lib \<Rightarrow> speke_env \<Rightarrow> TagSpekeSession \<Rightarrow> SpekeProcessParam \<Rightarrow> ret \<times> TagSpekeSession \<times> bytes option \<times> bytes" where
  "SpekeServerProcessCfm lib env session param =
    (if ss_spekeType session \<noteq> SPEKE_TYPE_SERVER then (IOTC_CORE_COMM_SEC_ERR_SPEKE_TYPE, session, None, pp_payload param)
     else
       (case ss_negoContext session of
          None \<Rightarrow> (IOTC_CORE_COMM_SEC_ERR_SPEKE_NEGOCTX_NOT_INIT, session, None, pp_payload param)
        | Some negoCtx \<Rightarrow>
            (let (r, negoCtx, payload) = ParseClientCfmPayload lib env negoCtx (pp_payload param) (pp_payloadWritable param);
                 session = session\<lparr>ss_negoContext := Some negoCtx\<rparr>
             in if r \<noteq> IOTC_OK then (r, session, None, payload)
                else
                  (case CreateSpekeServerCfmSecPayload lib env negoCtx of
                     Inl r \<Rightarrow> (r, session, None, payload)
                   | Inr cfmPayload \<Rightarrow>
                  (case SpekeCommonCreateNegoMsg lib env (pp_sessionId param) SPEKE_SEC_DATA_MSG_TYPE_SERVER_CFM (JObj cfmPayload) of
                     Inl r \<Rightarrow> (r, session, None, payload)
                   | Inr msg \<Rightarrow>
                  (case NegoContextGenDataEncKey lib negoCtx of
                     Inl r \<Rightarrow> (r, session, Some msg, payload)
                   | Inr key \<Rightarrow> (IOTC_OK, session\<lparr>ss_dataEncKey := key\<rparr>, Some msg, payload)))))))"

section \<open>Client\<close>

definition CreateSpekeClientReqSecPayload :: "speke_env \<Rightarrow> ret + (bytes \<times> json) list" where
  "CreateSpekeClientReqSecPayload env =
    (if \<not> ev_mem env (JCreate 5) then Inl IOTC_ADAPTER_JSON_ERR_CREATE
     else
       (case SpekeCommonAddVerInfoToJson env [] of
          Inl r \<Rightarrow> Inl r
        | Inr payload \<Rightarrow>
       (case add_entry env payload SPEKE_SEC_DATA_OPCODE_JSON (JInt SPEKE_OPCODE) of
          Inl r \<Rightarrow> Inl r
        | Inr payload \<Rightarrow> add_entry env payload SPEKE_SEC_DATA_256MODE_JSON (JBool True))))"

definition SpekeClientStartReq :: "speke_lib \<Rightarrow> speke_env \<Rightarrow> TagSpekeSession \<Rightarrow> ret + bytes" where
  "SpekeClientStartReq lib env session =
    (if ss_spekeType session \<noteq> SPEKE_TYPE_CLIENT then Inl IOTC_CORE_COMM_SEC_ERR_SPEKE_TYPE
     else
       (case ev_rnd env RSessionId 16 of
          Inl r \<Rightarrow> Inl r
        | Inr sessionIdHex \<Rightarrow>
       (case UtilsHexify (Some sessionIdHex) (Some (replicate (16 * 2 + 1) 0)) of
          (True, Some sessionId) \<Rightarrow>
            (case CreateSpekeClientReqSecPayload env of
               Inl r \<Rightarrow> Inl r
             | Inr reqPayload \<Rightarrow>
                 SpekeCommonCreateNegoMsg lib env (cstr sessionId) SPEKE_SEC_DATA_MSG_TYPE_CLIENT_REQ (JObj reqPayload))
        | _ \<Rightarrow> Inl IOTC_CORE_COMM_UTILS_ERR_HEXIFY)))"

definition GetSpekePrimeType :: "nat \<Rightarrow> PrimeType" where
  "GetSpekePrimeType pubKeyLen =
    (if pubKeyLen \<le> 256 then PRIME_NORMAL else if pubKeyLen \<le> 384 then PRIME_BIG else PRIME_INVALID)"

definition ClientSetChallenge :: "NegoContext \<Rightarrow> bytes \<Rightarrow> ret \<times> NegoContext" where
  "ClientSetChallenge negoCtx payload =
    (case get_str payload SPEKE_SEC_DATA_CHALLENGE_JSON of
       Inl r \<Rightarrow> (r, negoCtx)
     | Inr challengeView \<Rightarrow>
    (case unhex_field (view payload challengeView) 16 of
       None \<Rightarrow> (IOTC_CORE_COMM_UTILS_ERR_UNHEXIFY, negoCtx)
     | Some challenge \<Rightarrow> NegoContextSetRemoteChallenge negoCtx challenge))"

definition ClientInitNegoCtx :: "speke_lib \<Rightarrow> speke_env \<Rightarrow> bytes \<Rightarrow> bytes \<Rightarrow> nat \<Rightarrow> ret + NegoContext" where
  "ClientInitNegoCtx lib env pinCode payload remotePubKeyLen =
    (let primeType = GetSpekePrimeType remotePubKeyLen in
     if primeType = PRIME_INVALID then Inl IOTC_CORE_COMM_SEC_ERR_SPEKE_PUBKEY
     else
       (case get_str payload SPEKE_SEC_DATA_SALT_JSON of
          Inl r \<Rightarrow> Inl r
        | Inr saltView \<Rightarrow>
       (case unhex_field (view payload saltView) MAX_SALT_LEN of
          None \<Rightarrow> Inl IOTC_CORE_COMM_UTILS_ERR_UNHEXIFY
        | Some salt \<Rightarrow>
       (case NegoContextInit lib env pinCode salt primeType of
          None \<Rightarrow> Inl IOTC_CORE_COMM_SEC_ERR_SPEKE_NEGOCTX_INIT
        | Some negoCtx \<Rightarrow>
            (let (r, negoCtx) = ClientSetChallenge negoCtx payload in
             if r = IOTC_OK then Inr negoCtx else Inl r)))))"

definition InitNegoCtxFromPayload :: "speke_lib \<Rightarrow> speke_env \<Rightarrow> TagSpekeSession \<Rightarrow> bytes \<Rightarrow> ret + NegoContext" where
  "InitNegoCtxFromPayload lib env session payload =
    (case get_str payload SPEKE_SEC_DATA_EPK_JSON of
       Inl r \<Rightarrow> Inl r
     | Inr epkView \<Rightarrow>
         (let remotePubKeyLen = snd epkView div 2 in
          if remotePubKeyLen = 0 then Inl IOTC_ADAPTER_JSON_ERR_PARSE
          else if \<not> ev_mem env MRemoteBin then Inl IOTC_ADAPTER_MEM_ERR_MALLOC
          else
            (case UtilsUnhexify (Some (view payload epkView)) (Some (replicate remotePubKeyLen 0)) of
               (True, Some remotePubKey) \<Rightarrow>
                 (case ClientInitNegoCtx lib env (ss_pinCode session) payload remotePubKeyLen of
                    Inl r \<Rightarrow> Inl r
                  | Inr negoCtx \<Rightarrow>
                      (let (r, negoCtx) = NegoContextGenSessionKey lib env negoCtx remotePubKey in
                       if r \<noteq> IOTC_OK then Inl r else Inr negoCtx))
             | _ \<Rightarrow> Inl IOTC_CORE_COMM_UTILS_ERR_UNHEXIFY)))"

definition CreateSpekeClientCfmSecPayload :: "speke_lib \<Rightarrow> speke_env \<Rightarrow> NegoContext \<Rightarrow> ret + (bytes \<times> json) list" where
  "CreateSpekeClientCfmSecPayload lib env negoCtx =
    (if \<not> ev_mem env (JCreate 6) then Inl IOTC_ADAPTER_JSON_ERR_CREATE
     else
       (case SpekeCommonAddDataToJson env [] SPEKE_SEC_DATA_CHALLENGE_JSON (nc_localChallenge negoCtx) of
          Inl r \<Rightarrow> Inl r
        | Inr payload \<Rightarrow>
       (case SpekeCommonAddDataToJson env payload SPEKE_SEC_DATA_EPK_JSON
               (case nc_pubKey negoCtx of None \<Rightarrow> [] | Some k \<Rightarrow> k) of
          Inl r \<Rightarrow> Inl r
        | Inr payload \<Rightarrow>
       (case NegoContextGenHmac lib negoCtx of
          Inl r \<Rightarrow> Inl r
        | Inr mac \<Rightarrow> SpekeCommonAddDataToJson env payload SPEKE_SEC_DATA_KCF_JSON mac))))"

definition SpekeClientProcessRsp ::
    "speke_lib \<Rightarrow> speke_env \<Rightarrow> TagSpekeSession \<Rightarrow> SpekeProcessParam \<Rightarrow> ret \<times> TagSpekeSession \<times> bytes option" where
  "SpekeClientProcessRsp lib env session param =
    (if ss_spekeType session \<noteq> SPEKE_TYPE_CLIENT then (IOTC_CORE_COMM_SEC_ERR_SPEKE_TYPE, session, None)
     else
       (let r = SpekeCommonVerifyVersion (pp_payload param) in
        if r \<noteq> IOTC_OK then (r, session, None)
        else
          (case InitNegoCtxFromPayload lib env session (pp_payload param) of
             Inl r \<Rightarrow> (r, session, None)
           | Inr negoCtx \<Rightarrow>
          (case CreateSpekeClientCfmSecPayload lib env negoCtx of
             Inl r \<Rightarrow> (r, session, None)
           | Inr cfmPayload \<Rightarrow>
          (case SpekeCommonCreateNegoMsg lib env (pp_sessionId param) SPEKE_SEC_DATA_MSG_TYPE_CLIENT_CFM (JObj cfmPayload) of
             Inl r \<Rightarrow> (r, session, None)
           | Inr msg \<Rightarrow> (IOTC_OK, session\<lparr>ss_negoContext := Some negoCtx\<rparr>, Some msg))))))"

definition SpekeClientProcessCfm ::
    "speke_lib \<Rightarrow> TagSpekeSession \<Rightarrow> SpekeProcessParam \<Rightarrow> ret \<times> TagSpekeSession" where
  "SpekeClientProcessCfm lib session param =
    (if ss_spekeType session \<noteq> SPEKE_TYPE_CLIENT then (IOTC_CORE_COMM_SEC_ERR_SPEKE_TYPE, session)
     else
       (case ss_negoContext session of
          None \<Rightarrow> (IOTC_CORE_COMM_SEC_ERR_SPEKE_NEGOCTX_NOT_INIT, session)
        | Some negoCtx \<Rightarrow>
       (case get_str (pp_payload param) SPEKE_SEC_DATA_KCF_JSON of
          Inl r \<Rightarrow> (r, session)
        | Inr kcfView \<Rightarrow>
       (case unhex_field (view (pp_payload param) kcfView) HMAC_LEN of
          None \<Rightarrow> (IOTC_CORE_COMM_UTILS_ERR_UNHEXIFY, session)
        | Some mac \<Rightarrow>
            (let r = NegoContextVerifyHmac lib negoCtx mac in
             if r \<noteq> IOTC_OK then (r, session)
             else
               (case NegoContextGenDataEncKey lib negoCtx of
                  Inl r \<Rightarrow> (r, session)
                | Inr key \<Rightarrow> (IOTC_OK, session\<lparr>ss_dataEncKey := key\<rparr>)))))))"

section \<open>Sessions and packets\<close>

abbreviation (input) PIN_MAX_LEN :: nat where "PIN_MAX_LEN \<equiv> 16"
abbreviation (input) SPEKE_FLAT_SESSION_ID_MAX_LEN :: nat where "SPEKE_FLAT_SESSION_ID_MAX_LEN \<equiv> 32"

text \<open>
  The callbacks: \<open>getPinCode\<close> gets the size of the buffer and gives a code and the pin written;
  \<open>notifySpekeFinished\<close> may change the session (its code is only logged).
\<close>

record SpekeCallback =
  sb_getPinCode :: "(nat \<Rightarrow> ret \<times> bytes) option"
  sb_notifySpekeFinished :: "(TagSpekeSession \<Rightarrow> ret \<Rightarrow> TagSpekeSession) option"

definition GetPinCode :: "SpekeCallback \<Rightarrow> TagSpekeSession \<Rightarrow> ret \<times> TagSpekeSession" where
  "GetPinCode cb session =
    (case sb_getPinCode cb of
       None \<Rightarrow> (IOTC_ERR_PARAM_INVALID, session)
     | Some get \<Rightarrow>
         (let (r, pin) = get PIN_MAX_LEN; session = session\<lparr>ss_pinCode := pin\<rparr> in
          if r \<noteq> 0 \<or> length pin = 0 then (IOTC_CORE_COMM_SEC_ERR_SPEKE_GET_PINCODE, session)
          else (IOTC_OK, session)))"

definition NotifyNegoFinish :: "SpekeCallback \<Rightarrow> TagSpekeSession \<Rightarrow> ret \<Rightarrow> TagSpekeSession" where
  "NotifyNegoFinish cb session errCode =
    (case sb_notifySpekeFinished cb of None \<Rightarrow> session | Some notify \<Rightarrow> notify session errCode)"

definition SpekeInitSession ::
    "speke_lib \<Rightarrow> speke_env \<Rightarrow> SpekeType \<Rightarrow> SpekeCallback option \<Rightarrow> TagSpekeSession option" where
  "SpekeInitSession lib env spekeType cb =
    (if spekeType \<noteq> SPEKE_TYPE_CLIENT \<and> spekeType \<noteq> SPEKE_TYPE_SERVER then None
     else
       (case cb of
          None \<Rightarrow> None
        | Some cb \<Rightarrow>
            (if \<not> ev_mem env MSession then None
             else
               (let session = \<lparr>ss_spekeType = spekeType, ss_pinCode = [], ss_negoContext = None,
                                ss_dataEncKey = replicate SESSION_KEY_LEN 0\<rparr>;
                    (r, session) = GetPinCode cb session
                in if r \<noteq> IOTC_OK then None
                   else if spekeType = SPEKE_TYPE_CLIENT then Some session
                   else
                     (case ev_rnd env RSalt MAX_SALT_LEN of
                        Inl _ \<Rightarrow> None
                      | Inr salt \<Rightarrow>
                     (case NegoContextInit lib env (ss_pinCode session) salt SUPPORT_PRIME_TYPE of
                        None \<Rightarrow> None
                      | Some negoCtx \<Rightarrow> Some (session\<lparr>ss_negoContext := Some negoCtx\<rparr>)))))))"

definition SpekeFreeNegoContext :: "TagSpekeSession \<Rightarrow> TagSpekeSession" where
  "SpekeFreeNegoContext session = session\<lparr>ss_negoContext := None\<rparr>"

definition SpekeStartSession :: "speke_lib \<Rightarrow> speke_env \<Rightarrow> TagSpekeSession \<Rightarrow> ret + bytes" where
  "SpekeStartSession lib env session = SpekeClientStartReq lib env session"

text \<open>The cast to a signed 32-bit number.\<close>

definition int32 :: "int \<Rightarrow> int" where
  "int32 n = (n + 2 ^ 31) mod 2 ^ 32 - 2 ^ 31"

text \<open>The message type, the session identifier and where the payload is.\<close>

definition ParseCommonData :: "bytes \<Rightarrow> ret + int \<times> bytes \<times> nat \<times> nat" where
  "ParseCommonData root =
    (case get_str root SPEKE_SESSION_ID_JSON of
       Inl r \<Rightarrow> Inl r
     | Inr sessionIdView \<Rightarrow>
         (if snd sessionIdView = 0 then Inl IOTC_ADAPTER_JSON_ERR_PARSE
          else if snd sessionIdView \<ge> SPEKE_FLAT_SESSION_ID_MAX_LEN + 1 then Inl IOTC_ADAPTER_JSON_ERR_PARSE
          else
            (case get_obj root SPEKE_SEC_DATA_JSON of
               Inl r \<Rightarrow> Inl r
             | Inr secDataView \<Rightarrow>
            (case SpekeFlatGetNum (view root secDataView) SPEKE_SEC_DATA_MESSAGE_JSON of
               Inl r \<Rightarrow> Inl r
             | Inr msgTypeInt \<Rightarrow>
            (case get_obj (view root secDataView) SPEKE_SEC_DATA_PAYLOAD_JSON of
               Inl r \<Rightarrow> Inl r
             | Inr payloadView \<Rightarrow>
                 Inr (int32 msgTypeInt, cstr (view root sessionIdView),
                      fst secDataView + fst payloadView, snd payloadView))))))"

text \<open>The message is left as it was when the new one cannot be built.\<close>

definition CreateErrCodeInformMsg :: "speke_lib \<Rightarrow> speke_env \<Rightarrow> bytes \<Rightarrow> ret \<Rightarrow> bytes option \<Rightarrow> bytes option" where
  "CreateErrCodeInformMsg lib env sessionId errCode msg =
    (if \<not> ev_mem env (JCreate 7) then msg
     else
       (case add_entry env [] SPEKE_SEC_DATA_ERR_JSON (JInt errCode) of
          Inl _ \<Rightarrow> msg
        | Inr payload \<Rightarrow>
       (case SpekeCommonCreateNegoMsg lib env sessionId SPEKE_SEC_DATA_MSG_TYPE_INFORM_MSG (JObj payload) of
          Inl _ \<Rightarrow> msg
        | Inr informMsg \<Rightarrow> Some informMsg)))"

definition SpekeTryInformParseErr :: "speke_lib \<Rightarrow> speke_env \<Rightarrow> bytes \<Rightarrow> ret \<Rightarrow> bytes option \<Rightarrow> bytes option" where
  "SpekeTryInformParseErr lib env payload errCode msg =
    (case get_str payload SPEKE_SESSION_ID_JSON of
       Inl _ \<Rightarrow> msg
     | Inr sessionIdView \<Rightarrow>
         (if snd sessionIdView = 0 \<or> snd sessionIdView \<ge> SPEKE_FLAT_SESSION_ID_MAX_LEN + 1 then msg
          else CreateErrCodeInformMsg lib env (cstr (view payload sessionIdView)) errCode msg))"

text \<open>The codes passed to \<open>notifySpekeFinished\<close> are the fourth component, the text of the payload the last.\<close>

definition SpekeProcessDispatch ::
    "speke_lib \<Rightarrow> speke_env \<Rightarrow> SpekeCallback \<Rightarrow> TagSpekeSession \<Rightarrow> SpekeProcessParam \<Rightarrow>
      ret \<times> TagSpekeSession \<times> bytes option \<times> ret list \<times> bytes" where
  "SpekeProcessDispatch lib env cb session param =
    (if pp_msgType param = SPEKE_SEC_DATA_MSG_TYPE_CLIENT_REQ then
       (let (r, session, msg) = SpekeServerProcessReq lib env session param in (r, session, msg, [], pp_payload param))
     else if pp_msgType param = SPEKE_SEC_DATA_MSG_TYPE_SERVER_RSP then
       (let (r, session, msg) = SpekeClientProcessRsp lib env session param in (r, session, msg, [], pp_payload param))
     else if pp_msgType param = SPEKE_SEC_DATA_MSG_TYPE_CLIENT_CFM then
       (let (r, session, msg, payload) = SpekeServerProcessCfm lib env session param
        in (r, NotifyNegoFinish cb session r, msg, [r], payload))
     else if pp_msgType param = SPEKE_SEC_DATA_MSG_TYPE_SERVER_CFM then
       (let (r, session) = SpekeClientProcessCfm lib session param
        in (r, NotifyNegoFinish cb session r, None, [r], pp_payload param))
     else (IOTC_CORE_COMM_SEC_ERR_SPEKE_MSG_TYPE, session, None, [], pp_payload param))"

text \<open>
  The second environment is that of the error message.  The result has the code, the session, the
  message, the codes notified and the packet's buffer, in which decoding in place may have written.
\<close>

record SpekePktView =
  pk_data :: bytes
  pk_writable :: bool

definition inform ::
    "speke_lib \<Rightarrow> speke_env \<Rightarrow> bytes \<Rightarrow> ret \<Rightarrow> nat \<Rightarrow> bytes option" where
  "inform lib env data errCode prefixLen =
    snd (SpekeCommonWrapPrefix env (SpekeTryInformParseErr lib env data errCode None) prefixLen)"

definition SpekeProcessPacketCommon ::
    "speke_lib \<Rightarrow> speke_env \<Rightarrow> speke_env \<Rightarrow> SpekeCallback \<Rightarrow> TagSpekeSession \<Rightarrow> SpekePktView \<Rightarrow> nat \<Rightarrow>
      ret \<times> TagSpekeSession \<times> bytes option \<times> ret list \<times> bytes" where
  "SpekeProcessPacketCommon lib env env' cb session pkt prefixLen =
    (let requestPayload = pk_data pkt in
     if length requestPayload = 0 then (IOTC_ERR_PARAM_INVALID, session, None, [], requestPayload)
     else if SpekeFlatValidate requestPayload \<noteq> IOTC_OK then
       (IOTC_ADAPTER_JSON_ERR_PARSE, session,
        inform lib env' requestPayload IOTC_ADAPTER_JSON_ERR_PARSE prefixLen, [], requestPayload)
     else
       (case ParseCommonData requestPayload of
          Inl r \<Rightarrow> (r, session, inform lib env' requestPayload r prefixLen, [], requestPayload)
        | Inr (msgType, sessionId, start, len) \<Rightarrow>
            (let param = \<lparr>pp_msgType = msgType, pp_sessionId = sessionId,
                   pp_payload = view requestPayload (start, len), pp_payloadWritable = pk_writable pkt,
                   pp_prefixLen = prefixLen\<rparr>;
                 (r, session, msg, notified, payload) = SpekeProcessDispatch lib env cb session param;
                 data = overwrite requestPayload start payload;
                 (r, msg) = (if r = IOTC_OK \<and> msgType \<noteq> SPEKE_SEC_DATA_MSG_TYPE_CLIENT_REQ
                             then SpekeCommonWrapPrefix env msg prefixLen else (r, msg))
             in if r \<noteq> IOTC_OK
                then (r, session,
                      snd (SpekeCommonWrapPrefix env' (CreateErrCodeInformMsg lib env' sessionId r msg) prefixLen),
                      notified, data)
                else (r, session, msg, notified, data))))"

definition SpekeProcessPacketView ::
    "speke_lib \<Rightarrow> speke_env \<Rightarrow> speke_env \<Rightarrow> SpekeCallback \<Rightarrow> TagSpekeSession \<Rightarrow> SpekePktView \<Rightarrow>
      ret \<times> TagSpekeSession \<times> bytes option \<times> ret list \<times> bytes" where
  "SpekeProcessPacketView lib env env' cb session pkt = SpekeProcessPacketCommon lib env env' cb session pkt 0"

definition SpekeProcessPacket ::
    "speke_lib \<Rightarrow> speke_env \<Rightarrow> speke_env \<Rightarrow> SpekeCallback \<Rightarrow> TagSpekeSession \<Rightarrow> bytes \<Rightarrow>
      ret \<times> TagSpekeSession \<times> bytes option \<times> ret list \<times> bytes" where
  "SpekeProcessPacket lib env env' cb session data =
    SpekeProcessPacketView lib env env' cb session \<lparr>pk_data = cstr data, pk_writable = False\<rparr>"

definition SpekeProcessPacketPrefix ::
    "speke_lib \<Rightarrow> speke_env \<Rightarrow> speke_env \<Rightarrow> SpekeCallback \<Rightarrow> TagSpekeSession \<Rightarrow> SpekePktView \<Rightarrow> nat \<Rightarrow>
      ret \<times> TagSpekeSession \<times> bytes option \<times> ret list \<times> bytes" where
  "SpekeProcessPacketPrefix lib env env' cb session pkt prefixLen =
    SpekeProcessPacketCommon lib env env' cb session pkt prefixLen"

section \<open>Encrypted data\<close>

abbreviation (input) GCM_VER_LEN :: nat where "GCM_VER_LEN \<equiv> 1"
abbreviation (input) GCM_IV_LEN :: nat where "GCM_IV_LEN \<equiv> 12"
abbreviation (input) GCM_TAG_LEN :: nat where "GCM_TAG_LEN \<equiv> 16"
abbreviation (input) SPEKE_ENC_DATA_MIN_LEN :: nat where "SPEKE_ENC_DATA_MIN_LEN \<equiv> 29"
abbreviation (input) SPEKE_DEC_DATA_MAX_LEN :: nat where "SPEKE_DEC_DATA_MAX_LEN \<equiv> 1048576"

text \<open>The plain text, written at the head of a buffer of \<open>cap\<close> bytes.\<close>

definition SpekeDecryptDataTo :: "speke_lib \<Rightarrow> TagSpekeSession \<Rightarrow> bytes \<Rightarrow> nat \<Rightarrow> ret + bytes" where
  "SpekeDecryptDataTo lib session data cap =
    (if length data \<le> SPEKE_ENC_DATA_MIN_LEN then Inl IOTC_ERR_PARAM_INVALID
     else
       (let outDataLen = length data - SPEKE_ENC_DATA_MIN_LEN in
        if cap < outDataLen then Inl IOTC_ERR_PARAM_INVALID
        else
          (case lb_gcmDecrypt lib (ss_dataEncKey session) (take GCM_IV_LEN (drop GCM_VER_LEN data))
                  (take outDataLen (drop (GCM_VER_LEN + GCM_IV_LEN) data))
                  (drop (length data - GCM_TAG_LEN) data) of
             None \<Rightarrow> Inl IOTC_ADAPTER_CRYPTO_ERR_AES_GCM_DEC
           | Some decData \<Rightarrow> Inr decData)))"

text \<open>The buffer after decrypting over the message, and the length of the plain text at its head.\<close>

definition SpekeDecryptDataInPlace :: "speke_lib \<Rightarrow> TagSpekeSession \<Rightarrow> bytes \<Rightarrow> ret + bytes \<times> nat" where
  "SpekeDecryptDataInPlace lib session data =
    (if length data \<le> SPEKE_ENC_DATA_MIN_LEN then Inl IOTC_ERR_PARAM_INVALID
     else
       (case SpekeDecryptDataTo lib session data (length data - SPEKE_ENC_DATA_MIN_LEN) of
          Inl r \<Rightarrow> Inl r
        | Inr decData \<Rightarrow> Inr (set_head data decData, length data - SPEKE_ENC_DATA_MIN_LEN)))"

definition SpekeDecryptData :: "speke_lib \<Rightarrow> speke_env \<Rightarrow> TagSpekeSession \<Rightarrow> bytes \<Rightarrow> ret + bytes" where
  "SpekeDecryptData lib env session data =
    (if length data \<le> SPEKE_ENC_DATA_MIN_LEN then Inl IOTC_ERR_PARAM_INVALID
     else if \<not> ev_mem env MPlain then Inl IOTC_ADAPTER_MEM_ERR_MALLOC
     else SpekeDecryptDataTo lib session data (length data - SPEKE_ENC_DATA_MIN_LEN))"

text \<open>The output buffer after the call, and the length of the message at its head.\<close>

definition SpekeEncryptDataInto ::
    "speke_lib \<Rightarrow> speke_env \<Rightarrow> TagSpekeSession \<Rightarrow> bytes \<Rightarrow> bytes \<Rightarrow> ret + bytes \<times> nat" where
  "SpekeEncryptDataInto lib env session data out =
    (if length data = 0 \<or> length data > SPEKE_DEC_DATA_MAX_LEN then Inl IOTC_ERR_PARAM_INVALID
     else
       (let needed = length data + SPEKE_ENC_DATA_MIN_LEN in
        if length out < needed then Inl IOTC_ERR_PARAM_INVALID
        else
          (let out = set_head out (replicate needed 0) in
           case ev_rnd env RIv GCM_IV_LEN of
             Inl r \<Rightarrow> Inl r
           | Inr iv \<Rightarrow>
               (let out = overwrite out GCM_VER_LEN iv in
                case lb_gcmEncrypt lib (ss_dataEncKey session) (take GCM_IV_LEN (drop GCM_VER_LEN out)) data of
                  None \<Rightarrow> Inl IOTC_ADAPTER_CRYPTO_ERR_AES_GCM_ENC
                | Some (cipher, tag) \<Rightarrow>
                    (let out = overwrite out (GCM_VER_LEN + GCM_IV_LEN) cipher;
                         out = overwrite out (needed - GCM_TAG_LEN) tag
                     in Inr (out[0 := 0], needed))))))"

definition SpekeEncryptData :: "speke_lib \<Rightarrow> speke_env \<Rightarrow> TagSpekeSession \<Rightarrow> bytes \<Rightarrow> ret + bytes" where
  "SpekeEncryptData lib env session data =
    (if length data = 0 \<or> length data > SPEKE_DEC_DATA_MAX_LEN then Inl IOTC_ERR_PARAM_INVALID
     else
       (let outDataLen = length data + SPEKE_ENC_DATA_MIN_LEN in
        if \<not> ev_mem env MCipher then Inl IOTC_ADAPTER_MEM_ERR_MALLOC
        else
          (case ev_rnd env RIv GCM_IV_LEN of
             Inl r \<Rightarrow> Inl r
           | Inr iv \<Rightarrow>
               (let outData = overwrite (replicate outDataLen 0) GCM_VER_LEN iv in
                case lb_gcmEncrypt lib (ss_dataEncKey session) (take GCM_IV_LEN (drop GCM_VER_LEN outData)) data of
                  None \<Rightarrow> Inl IOTC_ADAPTER_CRYPTO_ERR_AES_GCM_ENC
                | Some (cipher, tag) \<Rightarrow>
                    (let outData = overwrite outData (GCM_VER_LEN + GCM_IV_LEN) cipher;
                         outData = overwrite outData (outDataLen - GCM_TAG_LEN) tag
                     in Inr (outData[0 := 0]))))))"

end
