(* ===== verification/Speke_Prime.thy ===== *)
theory Speke_Prime
  imports Speke_Nego
begin

text \<open>The prime of the negotiation as a number.\<close>

section \<open>Numbers in hexadecimal\<close>

definition hex_nat :: "bytes \<Rightarrow> nat" where
  "hex_nat s = foldl (\<lambda>n c. n * 16 + unat (the (HexChar2Num c))) 0 s"

definition is_hex :: "bytes \<Rightarrow> bool" where
  "is_hex s = list_all (\<lambda>c. HexChar2Num c \<noteq> None) s"

section \<open>The prime\<close>

lemma hex_nat_append: "hex_nat (s @ t) = hex_nat s * 16 ^ length t + hex_nat t"
proof (induction t rule: rev_induct)
  case (snoc c t)
  then show ?case by (simp add: hex_nat_def algebra_simps flip: append_assoc)
qed (simp add: hex_nat_def)


definition speke_p :: nat where "speke_p = hex_nat SPEKE_PRIME"

lemma unat_hex_digit: "HexChar2Num c = Some v \<Longrightarrow> unat v < 16"
  by (auto simp: HexChar2Num_def unat_sub word_le_nat_alt unat_word_ariths split: if_splits)

lemma hex_nat_less: "is_hex s \<Longrightarrow> hex_nat s < 16 ^ length s"
proof (induction s rule: rev_induct)
  case (snoc c s)
  obtain v where v: "HexChar2Num c = Some v" "unat v < 16"
    using snoc.prems unat_hex_digit by (fastforce simp: is_hex_def)
  have "hex_nat s < 16 ^ length s" using snoc by (simp add: is_hex_def)
  then have "hex_nat s * 16 + 16 \<le> 16 ^ length s * 16" by linarith
  with v show ?case by (simp add: hex_nat_def)
qed (simp add: hex_nat_def)

lemma is_hex_append: "is_hex (s @ t) \<longleftrightarrow> is_hex s \<and> is_hex t"
  by (simp add: is_hex_def)

lemma prime_hex: "is_hex SPEKE_PRIME" "length SPEKE_PRIME = 512"
  by (simp_all add: SPEKE_PRIME_def prime_digits_def ascii_def is_hex_def HexChar2Num_def)

lemma speke_p_odd: "odd speke_p"
proof -
  have "last SPEKE_PRIME = 70" by (simp add: SPEKE_PRIME_def ascii_def last_append)
  moreover have "SPEKE_PRIME \<noteq> []" using prime_hex(2) by force
  ultimately have "SPEKE_PRIME = butlast SPEKE_PRIME @ [70]" by (metis append_butlast_last_id)
  then have "speke_p = hex_nat (butlast SPEKE_PRIME @ [70])" by (simp add: speke_p_def)
  moreover have "hex_nat [70] = 15" by (simp add: hex_nat_def HexChar2Num_def)
  ultimately have "speke_p = hex_nat (butlast SPEKE_PRIME) * 16 + 15" by (simp add: hex_nat_append)
  then show ?thesis by presburger
qed

lemma speke_p_less: "speke_p < 256 ^ 256"
proof -
  have "(16 :: nat) ^ 512 = (16 ^ 2) ^ 256" by (simp only: power_mult [symmetric]) simp
  then have "(16 :: nat) ^ 512 = 256 ^ 256" by (simp only: power2_eq_square) simp
  then show ?thesis using hex_nat_less [OF prime_hex(1)] unfolding speke_p_def prime_hex(2) by (simp only:)
qed

lemma speke_p_pos: "0 < speke_p"
  using speke_p_odd by (rule odd_pos)

lemma speke_p_big: "255 \<le> speke_p"
proof -
  have "SPEKE_PRIME = [70, 70] @ drop 2 SPEKE_PRIME" by (simp add: SPEKE_PRIME_def prime_digits_def ascii_def)
  then have "speke_p = hex_nat ([70, 70] @ drop 2 SPEKE_PRIME)" by (simp add: speke_p_def)
  moreover have "hex_nat [70, 70] = 255" by (simp add: hex_nat_def HexChar2Num_def)
  ultimately have "speke_p = 255 * 16 ^ length (drop 2 SPEKE_PRIME) + hex_nat (drop 2 SPEKE_PRIME)"
    by (simp only: hex_nat_append)
  then show ?thesis by (metis mult.right_neutral mult_le_mono2 one_le_numeral one_le_power trans_le_add1)
qed

end
