(* ===== verification/Speke_Agree.thy ===== *)
theory Speke_Agree
  imports Speke_Session Speke_Prime
begin

text \<open>
  What a SPEKE negotiation establishes: both sides derive the same key, the answer written by hand is
  the one the JSON library would print, a key is only set after the peer's proof was checked.
\<close>

section \<open>What the libraries do\<close>

definition be_nat :: "bytes \<Rightarrow> nat" where
  "be_nat bs = foldl (\<lambda>n b. n * 256 + unat b) 0 bs"

text \<open>
  Documented behaviour of the crypto and JSON libraries: big number arithmetic, conversions, the
  lengths of digests, AES-GCM decrypting what it encrypted, the compact text of a tree whose strings
  need no escapes.
\<close>

definition mpi_ok :: "speke_lib \<Rightarrow> bool" where
  "mpi_ok lib \<longleftrightarrow>
    (\<forall>b e n. odd n \<longrightarrow> lb_expMod lib b e n = Some (b ^ e mod n)) \<and>
    (\<forall>s. s \<noteq> [] \<longrightarrow> is_hex s \<longrightarrow> lb_readString lib s = Some (hex_nat s)) \<and>
    (\<forall>bs. lb_readBinary lib bs = Some (be_nat bs)) \<and>
    (\<forall>v n. v < 256 ^ n \<longrightarrow> (\<exists>bs. lb_writeBinary lib v n = Some bs \<and> length bs = n \<and> be_nat bs = v))"

definition digest_ok :: "speke_lib \<Rightarrow> bool" where
  "digest_ok lib \<longleftrightarrow>
    (\<forall>salt info m n. n \<le> 255 * 32 \<longrightarrow> (\<exists>k. lb_hkdf lib salt info m n = Some k \<and> length k = n)) \<and>
    (\<forall>k d. \<exists>m. lb_hmac lib k d = Some m \<and> length m = 32)"

definition gcm_ok :: "speke_lib \<Rightarrow> bool" where
  "gcm_ok lib \<longleftrightarrow>
    (\<forall>k iv d. length k = 16 \<longrightarrow> length iv = 12 \<longrightarrow>
      (\<exists>c t. lb_gcmEncrypt lib k iv d = Some (c, t) \<and> length c = length d \<and> length t = 16 \<and>
        lb_gcmDecrypt lib k iv c t = Some d))"

definition print_ok :: "speke_lib \<Rightarrow> bool" where
  "print_ok lib \<longleftrightarrow> (\<forall>v. jplain v \<longrightarrow> lb_print lib v = Some (compact v))"

text \<open>An environment in which no allocation fails and every random number is drawn.\<close>

definition env_ok :: "speke_env \<Rightarrow> bool" where
  "env_ok env \<longleftrightarrow> (\<forall>s. ev_mem env s) \<and> (\<forall>k n. \<exists>b. ev_rnd env k n = Inr b \<and> length b = n)"

lemma env_ok_mem [simp]: "env_ok env \<Longrightarrow> ev_mem env s"
  by (simp add: env_ok_def)

lemma env_ok_rnd:
  assumes "env_ok env" obtains b where "ev_rnd env k n = Inr b" "length b = n"
  using assms unfolding env_ok_def by blast

definition rnd_of :: "speke_env \<Rightarrow> speke_random \<Rightarrow> nat \<Rightarrow> bytes" where
  "rnd_of env k n = (case ev_rnd env k n of Inr b \<Rightarrow> b | Inl _ \<Rightarrow> [])"

lemma env_ok_rnd_of:
  assumes "env_ok env"
  shows "ev_rnd env k n = Inr (rnd_of env k n)" "length (rnd_of env k n) = n"
proof -
  obtain b where "ev_rnd env k n = Inr b" "length b = n" by (rule env_ok_rnd [OF assms])
  then show "ev_rnd env k n = Inr (rnd_of env k n)" "length (rnd_of env k n) = n"
    by (simp_all add: rnd_of_def)
qed

section \<open>Library calls\<close>

lemma is_hex_hex_string: "is_hex (hex_string bs)"
  by (induction bs) (simp_all add: is_hex_def HexChar2Num_hex_digit nibbles_lt)

lemma mpi_expMod: "mpi_ok lib \<Longrightarrow> odd n \<Longrightarrow> lb_expMod lib b e n = Some (b ^ e mod n)"
  by (simp add: mpi_ok_def)

lemma mpi_readString: "mpi_ok lib \<Longrightarrow> is_hex s \<Longrightarrow> s \<noteq> [] \<Longrightarrow> lb_readString lib s = Some (hex_nat s)"
  by (simp add: mpi_ok_def)

lemma mpi_hexify:
  "mpi_ok lib \<Longrightarrow> bs \<noteq> [] \<Longrightarrow> lb_readString lib (hex_string bs) = Some (hex_nat (hex_string bs))"
  by (simp add: mpi_readString is_hex_hex_string)

lemma mpi_two: "mpi_ok lib \<Longrightarrow> lb_readString lib (ascii ''2'') = Some 2"
  by (subst mpi_readString) (simp_all add: ascii_def is_hex_def hex_nat_def HexChar2Num_def)

definition wb :: "speke_lib \<Rightarrow> nat \<Rightarrow> bytes" where
  "wb lib v = the (lb_writeBinary lib v 256)"

lemma mpi_wb:
  assumes "mpi_ok lib" "v < speke_p"
  shows "lb_writeBinary lib v 256 = Some (wb lib v)" "length (wb lib v) = 256"
    "lb_readBinary lib (wb lib v) = Some v"
proof -
  have "v < 256 ^ 256" using assms(2) speke_p_less by linarith
  then obtain bs where "lb_writeBinary lib v 256 = Some bs" "length bs = 256" "be_nat bs = v"
    using assms(1) unfolding mpi_ok_def by blast
  then show "lb_writeBinary lib v 256 = Some (wb lib v)" "length (wb lib v) = 256"
    "lb_readBinary lib (wb lib v) = Some v"
    using assms(1) by (simp_all add: wb_def mpi_ok_def)
qed

definition hkdf_of :: "speke_lib \<Rightarrow> bytes \<Rightarrow> bytes \<Rightarrow> bytes \<Rightarrow> nat \<Rightarrow> bytes" where
  "hkdf_of lib salt info m n = the (lb_hkdf lib salt info m n)"

lemma digest_hkdf:
  assumes "digest_ok lib" "n \<le> 32"
  shows "lb_hkdf lib salt info m n = Some (hkdf_of lib salt info m n)" "length (hkdf_of lib salt info m n) = n"
proof -
  have "n \<le> 255 * 32" using assms(2) by simp
  then obtain k where "lb_hkdf lib salt info m n = Some k" "length k = n"
    using assms(1) unfolding digest_ok_def by blast
  then show "lb_hkdf lib salt info m n = Some (hkdf_of lib salt info m n)" "length (hkdf_of lib salt info m n) = n"
    by (simp_all add: hkdf_of_def)
qed

definition hmac_of :: "speke_lib \<Rightarrow> bytes \<Rightarrow> bytes \<Rightarrow> bytes" where
  "hmac_of lib k d = the (lb_hmac lib k d)"

lemma digest_hmac:
  assumes "digest_ok lib"
  shows "lb_hmac lib k d = Some (hmac_of lib k d)" "length (hmac_of lib k d) = 32"
proof -
  obtain m where "lb_hmac lib k d = Some m" "length m = 32" using assms unfolding digest_ok_def by blast
  then show "lb_hmac lib k d = Some (hmac_of lib k d)" "length (hmac_of lib k d) = 32"
    by (simp_all add: hmac_of_def)
qed

section \<open>A library that meets the contracts\<close>

primrec be_bytes :: "nat \<Rightarrow> nat \<Rightarrow> bytes" where
  "be_bytes 0 v = []"
| "be_bytes (Suc n) v = be_bytes n (v div 256) @ [of_nat (v mod 256)]"

lemma be_bytes_length: "length (be_bytes n v) = n"
  by (induction n arbitrary: v) simp_all

lemma be_nat_bytes: "v < 256 ^ n \<Longrightarrow> be_nat (be_bytes n v) = v"
proof (induction n arbitrary: v)
  case (Suc n)
  then have "be_nat (be_bytes n (v div 256)) = v div 256" by (simp add: less_mult_imp_div_less)
  moreover have "unat (of_nat (v mod 256) :: u8) = v mod 256" by (simp add: unat_of_nat)
  ultimately show ?case by (simp add: be_nat_def)
qed (simp add: be_nat_def)

definition demo_fill :: "u8 \<Rightarrow> nat \<Rightarrow> bytes" where
  "demo_fill x n = take n (replicate (n - 1) 0 @ [x])"

definition demo_lib :: speke_lib where
  "demo_lib = \<lparr>lb_expMod = \<lambda>b e n. Some (b ^ e mod n), lb_readString = \<lambda>s. Some (hex_nat s), lb_readBinary = \<lambda>bs. Some (be_nat bs),
     lb_writeBinary = \<lambda>v n. if v < 256 ^ n then Some (be_bytes n v) else None,
     lb_hkdf = \<lambda>salt info m n. Some (demo_fill 2 n), lb_hmac = \<lambda>k d. Some (demo_fill 7 32),
     lb_gcmEncrypt = \<lambda>k iv d. Some (d, demo_fill 3 16), lb_gcmDecrypt = \<lambda>k iv c t. Some c,
     lb_print = \<lambda>v. Some (compact v)\<rparr>"

definition demo_env :: "u8 \<Rightarrow> speke_env" where
  "demo_env x = \<lparr>ev_mem = \<lambda>_. True, ev_rnd = \<lambda>k n. Inr (demo_fill x n)\<rparr>"

lemma demo_fill_length: "length (demo_fill x n) = n"
  by (cases n) (simp_all add: demo_fill_def)

lemma demo_ok: "mpi_ok demo_lib" "digest_ok demo_lib" "gcm_ok demo_lib" "print_ok demo_lib" "env_ok (demo_env x)"
  by (simp_all add: mpi_ok_def digest_ok_def gcm_ok_def print_ok_def env_ok_def demo_lib_def demo_env_def
      demo_fill_length be_bytes_length be_nat_bytes)

section \<open>Building and reading messages\<close>

lemma add_entry_ok [simp]: "env_ok env \<Longrightarrow> add_entry env kvs k v = Inr (kvs @ [(k, v)])"
  by (simp add: add_entry_def)

lemma AddVerInfo_ok [simp]:
  "env_ok env \<Longrightarrow> SpekeCommonAddVerInfoToJson env kvs = Inr (kvs @ [(SPEKE_SEC_DATA_VER_JSON, version_tree)])"
  by (simp add: SpekeCommonAddVerInfoToJson_def version_tree_def)

lemma AddData_ok [simp]:
  "env_ok env \<Longrightarrow> d \<noteq> [] \<Longrightarrow> length d \<le> 512 \<Longrightarrow>
    SpekeCommonAddDataToJson env kvs k d = Inr (kvs @ [(k, JStr (hex_string d))])"
  using UtilsHexify_zeros [of d] by (simp add: SpekeCommonAddDataToJson_def)

lemma jplain_nego_tree: "plain sid \<Longrightarrow> jplain v \<Longrightarrow> jplain (JObj (nego_tree sid ty v))"
  by (simp add: nego_tree_def speke_keys plain_def ascii_def)

lemma CreateNegoMsg_ok:
  assumes "env_ok env" "print_ok lib" "plain sid" "jplain v"
  shows "SpekeCommonCreateNegoMsg lib env sid ty v = Inr (compact (JObj (nego_tree sid ty v)))"
  using assms jplain_nego_tree [OF assms(3,4), of ty]
  by (simp add: SpekeCommonCreateNegoMsg_def CreateSecDataObj_def CreateNegoMsgObj_def nego_tree_def print_ok_def
      del: jplain.simps compact.simps)

lemma get_str_compact:
  assumes "mplain kvs" "map_of kvs key = Some (JStr s)" "length s \<le> SpekeFlatGetMaxLen key"
  obtains a where "get_str (compact (JObj kvs)) key = Inr (a, length s)"
    "view (compact (JObj kvs)) (a, length s) = s" "a + length s \<le> length (compact (JObj kvs))"
  using GetStr_compact [OF assms] that unfolding get_str_def by (metis option.sel)

lemma get_obj_compact:
  assumes "mplain kvs" "map_of kvs key = Some (JObj m)"
  obtains a where "get_obj (compact (JObj kvs)) key = Inr (a, length (compact (JObj m)))"
    "view (compact (JObj kvs)) (a, length (compact (JObj m))) = compact (JObj m)"
    "a + length (compact (JObj m)) \<le> length (compact (JObj kvs))"
  using GetObj_compact [OF assms] that unfolding get_obj_def by (metis option.sel)

lemma view_view:
  "a + n \<le> length t \<Longrightarrow> b + m \<le> n \<Longrightarrow> view (view t (a, n)) (b, m) = view t (a + b, m)"
  by (simp add: view_def drop_take min_def add.commute)

lemma int32_small: "0 \<le> n \<Longrightarrow> n < 2 ^ 31 \<Longrightarrow> int32 n = n"
  by (simp add: int32_def)

text \<open>The messages a session exchanges: their text is valid and its parts are found again.\<close>

definition msg_ok :: "bytes \<Rightarrow> int \<Rightarrow> (bytes \<times> json) list \<Rightarrow> bool" where
  "msg_ok sid ty kvs \<longleftrightarrow> plain sid \<and> sid \<noteq> [] \<and> length sid \<le> 32 \<and> mplain kvs \<and> mdepth kvs \<le> 1 \<and>
    0 \<le> ty \<and> length (dec (nat ty)) \<le> 5 \<and> ty < 2 ^ 31"

abbreviation (input) msg_text :: "bytes \<Rightarrow> int \<Rightarrow> (bytes \<times> json) list \<Rightarrow> bytes" where
  "msg_text sid ty kvs \<equiv> compact (JObj (nego_tree sid ty (JObj kvs)))"

lemma ParseCommonData_tree:
  assumes "msg_ok sid ty kvs"
  obtains a where "ParseCommonData (msg_text sid ty kvs) = Inr (ty, sid, a, length (compact (JObj kvs)))"
    "view (msg_text sid ty kvs) (a, length (compact (JObj kvs))) = compact (JObj kvs)"
proof -
  define sec where "sec = [(SPEKE_SEC_DATA_MESSAGE_JSON, JInt ty), (SPEKE_SEC_DATA_PAYLOAD_JSON, JObj kvs)]"
  define t where "t = msg_text sid ty kvs"
  have tree: "nego_tree sid ty (JObj kvs) = [(SPEKE_SESSION_ID_JSON, JStr sid), (SPEKE_SEC_DATA_JSON, JObj sec)]"
    by (simp add: nego_tree_def sec_def)
  have mp: "mplain sec" "mplain (nego_tree sid ty (JObj kvs))"
    using assms by (simp_all add: msg_ok_def tree sec_def speke_keys plain_def ascii_def)
  obtain a where a: "get_str t SPEKE_SESSION_ID_JSON = Inr (a, length sid)" "view t (a, length sid) = sid"
    unfolding t_def
    by (rule get_str_compact [OF mp(2), of SPEKE_SESSION_ID_JSON sid])
      (use assms in \<open>simp_all add: tree msg_ok_def SpekeFlatGetMaxLen_def speke_keys ascii_def\<close>)
  obtain b where b: "get_obj t SPEKE_SEC_DATA_JSON = Inr (b, length (compact (JObj sec)))"
    "view t (b, length (compact (JObj sec))) = compact (JObj sec)" "b + length (compact (JObj sec)) \<le> length t"
    unfolding t_def
    by (rule get_obj_compact [OF mp(2), of SPEKE_SEC_DATA_JSON sec]) (simp_all add: tree speke_keys ascii_def)
  have n: "SpekeFlatGetNum (compact (JObj sec)) SPEKE_SEC_DATA_MESSAGE_JSON = Inr ty"
    using assms by (intro GetNum_compact [OF mp(1)])
      (auto simp: sec_def msg_ok_def SpekeFlatGetMaxLen_def speke_keys ascii_def)
  obtain c where c: "get_obj (compact (JObj sec)) SPEKE_SEC_DATA_PAYLOAD_JSON = Inr (c, length (compact (JObj kvs)))"
    "view (compact (JObj sec)) (c, length (compact (JObj kvs))) = compact (JObj kvs)"
    "c + length (compact (JObj kvs)) \<le> length (compact (JObj sec))"
    by (rule get_obj_compact [OF mp(1), of SPEKE_SEC_DATA_PAYLOAD_JSON kvs]) (simp_all add: sec_def speke_keys ascii_def)
  have "ParseCommonData t = Inr (ty, sid, b + c, length (compact (JObj kvs)))"
    using assms a b n c by (simp add: ParseCommonData_def msg_ok_def int32_small cstr_plain del: compact.simps)
  moreover have "view t (b + c, length (compact (JObj kvs))) = compact (JObj kvs)"
    using b c view_view [OF b(3) c(3)] by (simp del: compact.simps)
  ultimately show ?thesis using that unfolding t_def by blast
qed

lemma process_tree:
  assumes "msg_ok sid ty kvs" "env_ok env"
    "SpekeProcessDispatch lib env cb s \<lparr>pp_msgType = ty, pp_sessionId = sid, pp_payload = compact (JObj kvs),
       pp_payloadWritable = w, pp_prefixLen = n\<rparr> = (IOTC_OK, s', msg, nt, pl)"
  shows "\<exists>d. SpekeProcessPacketCommon lib env env' cb s \<lparr>pk_data = msg_text sid ty kvs, pk_writable = w\<rparr> n =
    (IOTC_OK, s', if ty = SPEKE_SEC_DATA_MSG_TYPE_CLIENT_REQ then msg else map_option ((@) (replicate n 0)) msg, nt, d)"
proof -
  obtain a where a: "ParseCommonData (msg_text sid ty kvs) = Inr (ty, sid, a, length (compact (JObj kvs)))"
    "view (msg_text sid ty kvs) (a, length (compact (JObj kvs))) = compact (JObj kvs)"
    by (rule ParseCommonData_tree [OF assms(1)])
  have "mplain (nego_tree sid ty (JObj kvs))" "jdepth (JObj (nego_tree sid ty (JObj kvs))) \<le> 4"
    using assms(1) by (simp_all add: msg_ok_def nego_tree_def speke_keys plain_def ascii_def)
  then have v: "SpekeFlatValidate (msg_text sid ty kvs) = IOTC_OK" by (rule Validate_compact)
  have ne: "msg_text sid ty kvs \<noteq> []" by simp
  show ?thesis
    using a v ne assms(2,3)
    by (auto simp: SpekeProcessPacketCommon_def SpekeCommonWrapPrefix_def Let_def
        simp del: compact.simps split: option.splits)
qed

section \<open>Decoding in place\<close>

text \<open>The bytes decoded from a text, up to the first character that is no digit.\<close>

fun decoded :: "bytes \<Rightarrow> bool \<times> bytes" where
  "decoded (h # l # rest) =
    (case (HexChar2Num h, HexChar2Num l) of
       (Some high, Some low) \<Rightarrow> (let (ok, ds) = decoded rest in (ok, (push_bit 4 high OR low) # ds))
     | _ \<Rightarrow> (False, []))"
| "decoded _ = (True, [])"

lemma decoded_length: "length (snd (decoded s)) \<le> length s div 2"
  by (induction s rule: decoded.induct) (auto split: option.splits prod.splits)

lemma decoded_length_ok: "fst (decoded s) \<Longrightarrow> length (snd (decoded s)) = length s div 2"
  by (induction s rule: decoded.induct) (auto split: option.splits prod.splits)

lemma unhex_loop_decoded:
  "k + length (snd (decoded s)) \<le> length out \<Longrightarrow>
    unhex_loop s k out = (fst (decoded s), overwrite out k (snd (decoded s)))"
  by (induction s k out rule: unhex_loop.induct)
    (auto simp: overwrite_one split: option.splits prod.splits)

lemma unhex_inplace_decoded:
  assumes "start + 2 * n \<le> length buf" "i \<le> n"
  shows "unhex_inplace buf start n i =
    (let (ok, ds) = decoded (take (2 * (n - i)) (drop (start + 2 * i) buf)) in (ok, overwrite buf (start + i) ds))"
  using assms
proof (induction buf start n i rule: unhex_inplace.induct)
  case (1 buf start n i)
  show ?case
  proof (cases "i < n")
    case True
    define h l where "h = buf ! (start + 2 * i)" and "l = buf ! Suc (start + 2 * i)"
    have "drop (start + 2 * i) buf = h # l # drop (start + 2 * (i + 1)) buf"
      using 1(2) True unfolding h_def l_def by (simp add: Cons_nth_drop_Suc)
    moreover have "2 * (n - i) = Suc (Suc (2 * (n - (i + 1))))" using True by simp
    ultimately have split: "take (2 * (n - i)) (drop (start + 2 * i) buf) =
        h # l # take (2 * (n - (i + 1))) (drop (start + 2 * (i + 1)) buf)" by (simp only: take_Suc_Cons)
    show ?thesis
    proof (cases "HexChar2Num h = None \<or> HexChar2Num l = None")
      case True
      then show ?thesis using \<open>i < n\<close>
        by (subst unhex_inplace.simps)
          (auto simp: split h_def [symmetric] l_def [symmetric] overwrite_def split: option.splits)
    next
      case False
      then obtain high low where hl: "HexChar2Num h = Some high" "HexChar2Num l = Some low" by auto
      have "unhex_inplace buf start n i =
          unhex_inplace (buf[start + i := push_bit 4 high OR low]) start n (i + 1)"
        using True hl by (subst unhex_inplace.simps) (simp add: h_def l_def)
      also have "\<dots> = (let (ok, ds) = decoded (take (2 * (n - (i + 1))) (drop (start + 2 * (i + 1))
          (buf[start + i := push_bit 4 high OR low])))
          in (ok, overwrite (buf[start + i := push_bit 4 high OR low]) (start + (i + 1)) ds))"
        using 1 True hl by (auto simp: h_def l_def not_le)
      finally show ?thesis
        using True 1(2) hl
        by (simp add: split overwrite_one case_prod_unfold Let_def drop_update_cancel)
    qed
  qed (use 1 in \<open>simp add: unhex_inplace.simps overwrite_def\<close>)
qed

lemma inplace_copy:
  assumes "fst epkView + snd epkView \<le> length payload" "ev_mem env MRemoteBin"
    and "SpekeServerGenSessionKey lib env ctx payload epkView True = (r, ctx', payload')"
  shows "SpekeServerGenSessionKey lib env ctx payload epkView False = (r, ctx', payload)"
    and "length payload' = length payload"
    and "i < fst epkView \<or> fst epkView + snd epkView div 2 \<le> i \<Longrightarrow> i < length payload \<Longrightarrow> payload' ! i = payload ! i"
proof -
  obtain start len where v: "epkView = (start, len)" by (cases epkView)
  define ds where "ds = snd (decoded (take len (drop start payload)))"
  have len: "length ds \<le> len div 2"
    using decoded_length [of "take len (drop start payload)"] assms(1) by (simp add: ds_def v)
  have inpl: "even len \<Longrightarrow> unhex_inplace payload start (len div 2) 0 =
      (fst (decoded (take len (drop start payload))), overwrite payload start ds)"
    using assms(1) unhex_inplace_decoded [of start "len div 2" payload 0] by (simp add: v ds_def case_prod_unfold Let_def)
  have copy: "even len \<Longrightarrow> 0 < len \<Longrightarrow> UtilsUnhexify (Some (view payload epkView)) (Some (replicate (len div 2) 0)) =
      (fst (decoded (take len (drop start payload))), Some (overwrite (replicate (len div 2) 0) 0 ds))"
    using assms(1) len unhex_loop_decoded [of 0 "take len (drop start payload)" "replicate (len div 2) 0"]
    by (auto simp: UtilsUnhexify_def view_def v ds_def)
  have full: "fst (decoded (take len (drop start payload))) \<Longrightarrow> length ds = len div 2"
    using decoded_length_ok [of "take len (drop start payload)"] assms(1) by (simp add: ds_def v)
  have pl: "payload' = payload \<or> payload' = overwrite payload start ds"
    using assms(3) inpl by (auto simp: SpekeServerGenSessionKey_def v Let_def even_iff_mod_2_eq_zero split: if_splits prod.splits)
  show "SpekeServerGenSessionKey lib env ctx payload epkView False = (r, ctx', payload)"
    using assms inpl copy full
    by (auto simp: SpekeServerGenSessionKey_def v Let_def even_iff_mod_2_eq_zero overwrite_def split: if_splits prod.splits)
  show "length payload' = length payload" using pl len assms(1) by (auto simp: v)
  show "payload' ! i = payload ! i"
    if "i < fst epkView \<or> fst epkView + snd epkView div 2 \<le> i" "i < length payload"
    using pl that len assms(1) by (auto simp: v nth_overwrite)
qed

text \<open>
  C18. Decoding the peer's public key over its own digits is the same as decoding it into a buffer of
  its own: the code and the derived keys agree, and nothing of the packet outside the first half of
  the digits changes.
\<close>

theorem inplace_decode_same:
  assumes "fst epkView + snd epkView \<le> length payload" "ev_mem env MRemoteBin"
    and "SpekeServerGenSessionKey lib env ctx payload epkView True = (r, ctx', payload')"
  shows "SpekeServerGenSessionKey lib env ctx payload epkView False = (r, ctx', payload) \<and>
    length payload' = length payload \<and>
    (\<forall>i < length payload. i < fst epkView \<or> fst epkView + snd epkView div 2 \<le> i \<longrightarrow> payload' ! i = payload ! i)"
  using inplace_copy [OF assms] by blast

definition demo_ctx :: NegoContext where
  "demo_ctx = \<lparr>nc_salt = demo_fill 1 16, nc_saltLen = 16, nc_pubKey = None, nc_pubKeyLen = 0, nc_random = 1, nc_prime = speke_p,
     nc_localChallenge = demo_fill 1 16, nc_remoteChallenge = replicate 16 0, nc_identityEncKey = replicate 16 0,
     nc_hmacKey = replicate 16 0\<rparr>"

theorem inplace_decode_same_witness:
  "\<exists>r ctx' payload'. SpekeServerGenSessionKey demo_lib (demo_env 1) demo_ctx (ascii ''{0a1b}'') (1, 4) True = (r, ctx', payload') \<and>
    SpekeServerGenSessionKey demo_lib (demo_env 1) demo_ctx (ascii ''{0a1b}'') (1, 4) False = (r, ctx', ascii ''{0a1b}'') \<and>
    length payload' = 6 \<and> payload' ! 3 = ascii ''{0a1b}'' ! 3"
proof -
  obtain r ctx' payload' where run:
    "SpekeServerGenSessionKey demo_lib (demo_env 1) demo_ctx (ascii ''{0a1b}'') (1, 4) True = (r, ctx', payload')"
    by (metis prod_cases3)
  show ?thesis
    using run inplace_decode_same [of "(1, 4)" "ascii ''{0a1b}''" "demo_env 1", OF _ _ run] demo_ok(5) [of 1]
    by (simp add: ascii_def)
qed

section \<open>The context of a negotiation\<close>

definition speke_gen :: "speke_lib \<Rightarrow> bytes \<Rightarrow> bytes \<Rightarrow> nat" where
  "speke_gen lib salt pin = hex_nat (hex_string (hkdf_of lib salt SPEKE_BASE_INFO pin 32)) ^ 2 mod speke_p"

definition speke_exp :: "speke_env \<Rightarrow> nat" where
  "speke_exp env = hex_nat (hex_string (rnd_of env RSecret 24))"

definition speke_pub :: "speke_lib \<Rightarrow> bytes \<Rightarrow> bytes \<Rightarrow> nat \<Rightarrow> nat" where
  "speke_pub lib salt pin e = speke_gen lib salt pin ^ e mod speke_p"

lemma speke_pub_less: "speke_pub lib salt pin e < speke_p"
  by (simp add: speke_pub_def speke_p_pos)

lemma speke_pub_commute:
  "speke_pub lib salt pin a ^ b mod speke_p = speke_pub lib salt pin b ^ a mod speke_p"
  by (simp add: speke_pub_def power_mod power_mult [symmetric] mult.commute)

definition fresh_ctx :: "speke_lib \<Rightarrow> speke_env \<Rightarrow> bytes \<Rightarrow> bytes \<Rightarrow> NegoContext" where
  "fresh_ctx lib env pin salt =
    \<lparr>nc_salt = set_head (replicate 16 0) salt, nc_saltLen = length salt,
     nc_pubKey = Some (wb lib (speke_pub lib salt pin (speke_exp env))), nc_pubKeyLen = 256,
     nc_random = speke_exp env, nc_prime = speke_p,
     nc_localChallenge = rnd_of env RChallenge 16, nc_remoteChallenge = replicate 16 0,
     nc_identityEncKey = replicate 16 0, nc_hmacKey = replicate 16 0\<rparr>"

lemma take_set_head [simp]: "take (length d) (set_head buf d) = d"
  by (simp add: set_head_def)

lemma length_set_head [simp]: "length d \<le> length buf \<Longrightarrow> length (set_head buf d) = length buf"
  by (simp add: set_head_def)

lemma Hexify_of:
  assumes "length d = n" "0 < n"
  shows "UtilsHexify (Some d) (Some (replicate (n * 2 + 1) 0)) = (True, Some (hex_string d @ [0]))"
  using UtilsHexify_zeros [of d] assms by auto

lemma CalNegoGenerator_ok:
  assumes "mpi_ok lib" "digest_ok lib" "env_ok env" "nc_prime ctx = speke_p"
  shows "CalNegoGenerator lib env ctx pin = Inr (speke_gen lib (take (nc_saltLen ctx) (nc_salt ctx)) pin)"
proof -
  define salt k where "salt = take (nc_saltLen ctx) (nc_salt ctx)" and "k = hkdf_of lib salt SPEKE_BASE_INFO pin 32"
  have k: "lb_hkdf lib salt SPEKE_BASE_INFO pin 32 = Some k" "length k = 32"
    using digest_hkdf [OF assms(2), of 32] by (simp_all add: k_def)
  have h: "NegoGenHkdfSecret lib salt pin = Inr (hex_string k @ [0])"
    using k(1) Hexify_of [OF k(2)] by (simp add: NegoGenHkdfSecret_def)
  have ne: "k \<noteq> []" using k(2) by auto
  show ?thesis
    unfolding CalNegoGenerator_def InitMpiByString_def salt_def [symmetric]
    using assms h mpi_hexify [OF assms(1) ne] by (simp add: mpi_two mpi_expMod speke_p_odd speke_gen_def k_def)
qed

lemma InitNegoCtxPubKey_ok:
  assumes "mpi_ok lib" "digest_ok lib" "env_ok env" "nc_prime ctx = speke_p"
  shows "InitNegoCtxPubKey lib env ctx pin =
    (IOTC_OK, ctx\<lparr>nc_pubKey := Some (wb lib (speke_pub lib (take (nc_saltLen ctx) (nc_salt ctx)) pin (nc_random ctx))),
                 nc_pubKeyLen := 256\<rparr>)"
  using assms CalNegoGenerator_ok [OF assms] mpi_wb(1) [OF assms(1) speke_pub_less]
  by (simp add: InitNegoCtxPubKey_def mpi_expMod speke_p_odd flip: speke_pub_def)

lemma NegoContextInit_ok:
  assumes "mpi_ok lib" "digest_ok lib" "env_ok env" "pin \<noteq> []" "8 \<le> length salt" "length salt \<le> 16"
  shows "NegoContextInit lib env pin salt PRIME_NORMAL = Some (fresh_ctx lib env pin salt)"
proof -
  define d where "d = rnd_of env RSecret 24"
  have d: "ev_rnd env RSecret 24 = Inr d" "length d = 24" "d \<noteq> []"
    using env_ok_rnd_of [OF assms(3), of RSecret 24] by (auto simp: d_def)
  have p: "InitNegoCtxPrime lib env PRIME_NORMAL = Inr speke_p"
    using assms prime_hex mpi_readString [OF assms(1) prime_hex(1)]
    by (cases "SPEKE_PRIME = []") (auto simp: InitNegoCtxPrime_def InitMpiByString_def mpi_readString speke_p_def)
  have g: "GenerateSpekeNegoRandom env PRIME_NORMAL = Some (hex_string d @ [0])"
    using d(1) assms(3) Hexify_of [OF d(2)] by (simp add: GenerateSpekeNegoRandom_def)
  have r: "InitNegoCtxRandom lib env PRIME_NORMAL = Inr (speke_exp env)"
    using assms g mpi_hexify [OF assms(1) d(3)] by (simp add: InitNegoCtxRandom_def InitMpiByString_def speke_exp_def d_def)
  show ?thesis
    using assms p r env_ok_rnd_of(1) [OF assms(3), of RChallenge 16]
    by (simp add: NegoContextInit_def CheckInitParamValid_def InitNegoCtxPubKey_ok fresh_ctx_def)
qed

lemma hex_nat_fill: "0 < n \<Longrightarrow> hex_nat (hex_string (demo_fill x n)) = hex_nat (hex_string [x])"
proof -
  assume "0 < n"
  moreover have "hex_nat (hex_string (replicate m 0)) = 0" for m
  proof (induction m)
    case (Suc m)
    have "hex_string (replicate (Suc m) 0) = [48, 48] @ hex_string (replicate m 0)" by (simp add: hex_digit_def)
    moreover have "hex_nat [48, 48] = 0" by (simp add: hex_nat_def HexChar2Num_def)
    ultimately show ?case using Suc by (simp only: hex_nat_append)
  qed (simp add: hex_nat_def)
  ultimately show ?thesis
    by (cases n) (simp_all add: demo_fill_def hex_string_def hex_nat_append del: replicate_Suc)
qed

lemma demo_numbers:
  "hex_nat (hex_string (demo_fill 2 32)) = 2" "speke_exp (demo_env 1) = 1" "speke_exp (demo_env 2) = 2"
  by (simp_all add: hex_nat_fill speke_exp_def rnd_of_def demo_env_def)
    (simp_all add: hex_nat_def hex_digit_def HexChar2Num_def)

lemma demo_pub:
  "speke_pub demo_lib salt pin (speke_exp (demo_env 1)) = 4" "speke_pub demo_lib salt pin (speke_exp (demo_env 2)) = 16"
  using speke_p_big by (simp_all add: speke_pub_def speke_gen_def demo_numbers hkdf_of_def demo_lib_def)

text \<open>The keys derived from a peer's public key.\<close>

definition session_keys :: "speke_lib \<Rightarrow> NegoContext \<Rightarrow> nat \<Rightarrow> bytes" where
  "session_keys lib ctx v =
    hkdf_of lib (take (nc_saltLen ctx) (nc_salt ctx)) SPEKE_SESSION_KEY_INFO (wb lib (v ^ nc_random ctx mod speke_p)) 32"

definition with_keys :: "speke_lib \<Rightarrow> NegoContext \<Rightarrow> nat \<Rightarrow> NegoContext" where
  "with_keys lib ctx v =
    ctx\<lparr>nc_identityEncKey := take 16 (session_keys lib ctx v), nc_hmacKey := take 16 (drop 16 (session_keys lib ctx v))\<rparr>"

lemma NegoContextGenSessionKey_ok:
  assumes "mpi_ok lib" "digest_ok lib" "env_ok env" "nc_prime ctx = speke_p" "2 \<le> v" "v + 2 \<le> speke_p"
  shows "NegoContextGenSessionKey lib env ctx (wb lib v) = (IOTC_OK, with_keys lib ctx v)"
proof -
  define k where "k = v ^ nc_random ctx mod speke_p"
  have v: "v < speke_p" and k: "k < speke_p" using assms(6) by (auto simp: k_def speke_p_pos)
  note wv = mpi_wb [OF assms(1) v] and wk = mpi_wb [OF assms(1) k]
  have ne: "wb lib v \<noteq> []" "wb lib k \<noteq> []" using wv(2) wk(2) by auto
  have ver: "VerifyRemotePubKey env speke_p v = IOTC_OK"
    using assms by (simp add: VerifyRemotePubKey_def)
  have "CalSharedKey lib env ctx (wb lib v) = Inr (wb lib k)"
    using assms wv wk ver
    by (simp add: CalSharedKey_def NegoCtxImportRemotePubKey_def NegoCtxExportSharedKey_def mpi_expMod speke_p_odd
        flip: k_def)
  then show ?thesis
    using ne digest_hkdf [OF assms(2), of 32]
    by (simp add: NegoContextGenSessionKey_def GenSessionKey_def with_keys_def session_keys_def flip: k_def)
qed

lemma unhex_field_hex: "d \<noteq> [] \<Longrightarrow> length d \<le> cap \<Longrightarrow> unhex_field (hex_string d) cap = Some d"
  by (simp add: unhex_field_def UtilsUnhexify_hex set_head_def)

lemma get_hex:
  assumes "mplain kvs" "map_of kvs key = Some (JStr (hex_string d))" "2 * length d = n" "n \<le> SpekeFlatGetMaxLen key"
  obtains a where "get_str (compact (JObj kvs)) key = Inr (a, n)"
    "view (compact (JObj kvs)) (a, n) = hex_string d" "a + n \<le> length (compact (JObj kvs))"
  by (rule get_str_compact [OF assms(1,2)]) (use assms(3,4) in simp_all)

text \<open>The payloads of the messages.\<close>

definition req_tree :: "(bytes \<times> json) list" where
  "req_tree = [(SPEKE_SEC_DATA_VER_JSON, version_tree), (SPEKE_SEC_DATA_OPCODE_JSON, JInt SPEKE_OPCODE),
     (SPEKE_SEC_DATA_256MODE_JSON, JBool True)]"

definition cfm_tree :: "bytes \<Rightarrow> bytes \<Rightarrow> bytes \<Rightarrow> (bytes \<times> json) list" where
  "cfm_tree challenge epk mac =
    [(SPEKE_SEC_DATA_CHALLENGE_JSON, JStr (hex_string challenge)), (SPEKE_SEC_DATA_EPK_JSON, JStr (hex_string epk)),
     (SPEKE_SEC_DATA_KCF_JSON, JStr (hex_string mac))]"

definition scfm_tree :: "bytes \<Rightarrow> (bytes \<times> json) list" where
  "scfm_tree mac = [(SPEKE_SEC_DATA_KCF_JSON, JStr (hex_string mac))]"

lemmas trees = req_tree_def rsp_tree_def cfm_tree_def scfm_tree_def version_tree_def

lemma trees_plain:
  "mplain req_tree" "mplain (rsp_tree c s e)" "mplain (cfm_tree c e m)" "mplain (scfm_tree m)"
  by (simp_all add: trees speke_keys SPEKE_VERSION_def hex_string_plain) (simp_all add: plain_def ascii_def)

lemma trees_depth:
  "mdepth req_tree = 1" "mdepth (rsp_tree c s e) = 1" "mdepth (cfm_tree c e m) = 0" "mdepth (scfm_tree m) = 0"
  by (simp_all add: trees)

lemma VerifyVersion_tree:
  assumes "mplain kvs" "map_of kvs SPEKE_SEC_DATA_VER_JSON = Some version_tree"
  shows "SpekeCommonVerifyVersion (compact (JObj kvs)) = IOTC_OK"
proof -
  define ver where "ver = [(SPEKE_SEC_DATA_CUR_VER_JSON, JStr SPEKE_VERSION), (SPEKE_SEC_DATA_MIN_VER_JSON, JStr SPEKE_VERSION)]"
  have t: "version_tree = JObj ver" by (simp add: version_tree_def ver_def)
  obtain a where a: "get_obj (compact (JObj kvs)) SPEKE_SEC_DATA_VER_JSON = Inr (a, length (compact (JObj ver)))"
    "view (compact (JObj kvs)) (a, length (compact (JObj ver))) = compact (JObj ver)"
    by (rule get_obj_compact [OF assms(1), of SPEKE_SEC_DATA_VER_JSON ver]) (use assms(2) t in simp_all)
  have "mplain ver" by (simp add: ver_def speke_keys SPEKE_VERSION_def plain_def ascii_def)
  then obtain b where b: "get_str (compact (JObj ver)) SPEKE_SEC_DATA_CUR_VER_JSON = Inr (b, length SPEKE_VERSION)"
    "view (compact (JObj ver)) (b, length SPEKE_VERSION) = SPEKE_VERSION"
    by (rule get_str_compact [of ver SPEKE_SEC_DATA_CUR_VER_JSON SPEKE_VERSION])
      (simp_all add: ver_def SpekeFlatGetMaxLen_def speke_keys SPEKE_VERSION_def ascii_def)
  have "compact (JObj kvs) \<noteq> []" by simp
  then show ?thesis using a b by (simp add: SpekeCommonVerifyVersion_def del: compact.simps)
qed

lemma VerifyClientReqPayload_ok: "VerifyClientReqPayload (compact (JObj req_tree)) = IOTC_OK"
proof -
  have "dec 6 = [54]" by (simp add: dec.simps)
  then have "SpekeFlatGetNum (compact (JObj req_tree)) SPEKE_SEC_DATA_OPCODE_JSON = Inr 6"
    by (intro GetNum_compact trees_plain) (simp_all add: trees SpekeFlatGetMaxLen_def speke_keys ascii_def)
  moreover have "SpekeCommonVerifyVersion (compact (JObj req_tree)) = IOTC_OK"
    by (rule VerifyVersion_tree [OF trees_plain(1)]) (simp add: req_tree_def)
  ultimately show ?thesis by (simp add: VerifyClientReqPayload_def del: compact.simps)
qed

section \<open>The four messages\<close>

lemma not_escape: "plain sid \<Longrightarrow> \<not> SpekeSessionIdNeedEscape sid"
  by (auto simp: SpekeSessionIdNeedEscape_def plain_def list_all_iff list_ex_iff not_less)

lemma ServerProcessReq_ok:
  assumes "env_ok env" "ss_spekeType s = SPEKE_TYPE_SERVER" "ss_negoContext s = Some ctx" "ctx_wf ctx"
    "nc_pubKey ctx = Some epk" "plain sid" "pp_sessionId param = sid" "pp_payload param = compact (JObj req_tree)"
  shows "SpekeServerProcessReq lib env s param =
    (IOTC_OK, s\<lparr>ss_negoContext := Some (drop_pubKey ctx)\<rparr>,
     Some (replicate (pp_prefixLen param) 0 @ msg_text sid SPEKE_SEC_DATA_MSG_TYPE_SERVER_RSP
       (rsp_tree (nc_localChallenge ctx) (take (nc_saltLen ctx) (nc_salt ctx)) epk)))"
  using assms RspMsg_text [OF assms(4,5), of env sid "pp_prefixLen param"]
  by (simp add: SpekeServerProcessReq_def VerifyClientReqPayload_ok not_escape del: compact.simps)

lemma fields_max_len:
  "SpekeFlatGetMaxLen SPEKE_SEC_DATA_EPK_JSON = 1024" "SpekeFlatGetMaxLen SPEKE_SEC_DATA_CHALLENGE_JSON = 32"
  "SpekeFlatGetMaxLen SPEKE_SEC_DATA_SALT_JSON = 32" "SpekeFlatGetMaxLen SPEKE_SEC_DATA_KCF_JSON = 64"
  by (simp_all add: SpekeFlatGetMaxLen_def speke_keys ascii_def)

lemma fields_fit:
  "512 \<le> SpekeFlatGetMaxLen SPEKE_SEC_DATA_EPK_JSON" "32 \<le> SpekeFlatGetMaxLen SPEKE_SEC_DATA_CHALLENGE_JSON"
  "32 \<le> SpekeFlatGetMaxLen SPEKE_SEC_DATA_SALT_JSON" "64 \<le> SpekeFlatGetMaxLen SPEKE_SEC_DATA_KCF_JSON"
  by (simp_all add: fields_max_len)

lemma map_of_trees:
  "map_of (rsp_tree c s e) SPEKE_SEC_DATA_CHALLENGE_JSON = Some (JStr (hex_string c))"
  "map_of (rsp_tree c s e) SPEKE_SEC_DATA_SALT_JSON = Some (JStr (hex_string s))"
  "map_of (rsp_tree c s e) SPEKE_SEC_DATA_EPK_JSON = Some (JStr (hex_string e))"
  "map_of (rsp_tree c s e) SPEKE_SEC_DATA_VER_JSON = Some version_tree"
  "map_of (cfm_tree c e m) SPEKE_SEC_DATA_CHALLENGE_JSON = Some (JStr (hex_string c))"
  "map_of (cfm_tree c e m) SPEKE_SEC_DATA_EPK_JSON = Some (JStr (hex_string e))"
  "map_of (cfm_tree c e m) SPEKE_SEC_DATA_KCF_JSON = Some (JStr (hex_string m))"
  "map_of (scfm_tree m) SPEKE_SEC_DATA_KCF_JSON = Some (JStr (hex_string m))"
  by (simp_all add: rsp_tree_def cfm_tree_def scfm_tree_def speke_keys ascii_def)

text \<open>The context the client builds from the answer of the server.\<close>

definition client_ctx :: "speke_lib \<Rightarrow> speke_env \<Rightarrow> bytes \<Rightarrow> bytes \<Rightarrow> bytes \<Rightarrow> nat \<Rightarrow> NegoContext" where
  "client_ctx lib env pin challenge salt v =
    with_keys lib ((fresh_ctx lib env pin salt)\<lparr>nc_remoteChallenge := challenge\<rparr>) v"

definition confirm_mac :: "speke_lib \<Rightarrow> NegoContext \<Rightarrow> bytes" where
  "confirm_mac lib ctx = hmac_of lib (nc_hmacKey ctx) (nc_localChallenge ctx @ nc_remoteChallenge ctx)"

lemma GenHmac_ok: "digest_ok lib \<Longrightarrow> NegoContextGenHmac lib ctx = Inr (confirm_mac lib ctx)"
  by (simp add: NegoContextGenHmac_def GenNegoHmac_def confirm_mac_def digest_hmac)

lemma confirm_mac_length: "digest_ok lib \<Longrightarrow> length (confirm_mac lib ctx) = 32"
  by (simp add: confirm_mac_def digest_hmac)

lemma ClientInit_ok:
  assumes "mpi_ok lib" "digest_ok lib" "env_ok env" "ss_pinCode s \<noteq> []" "length salt = 16" "length challenge = 16"
    "2 \<le> v" "v + 2 \<le> speke_p"
  shows "InitNegoCtxFromPayload lib env s (compact (JObj (rsp_tree challenge salt (wb lib v)))) =
    Inr (client_ctx lib env (ss_pinCode s) challenge salt v)"
proof -
  define t where "t = compact (JObj (rsp_tree challenge salt (wb lib v)))"
  have vp: "v < speke_p" using assms(8) by simp
  note wv = mpi_wb [OF assms(1) vp]
  have ne: "wb lib v \<noteq> []" "salt \<noteq> []" "challenge \<noteq> []" using wv(2) assms(5,6) by auto
  have lens: "2 * length (wb lib v) = 512" "2 * length salt = 32" "2 * length challenge = 32"
    using wv(2) assms(5,6) by simp_all
  note get = get_hex [OF trees_plain(2) [of challenge salt "wb lib v"], folded t_def]
  obtain a where a: "get_str t SPEKE_SEC_DATA_EPK_JSON = Inr (a, 512)" "view t (a, 512) = hex_string (wb lib v)"
    by (rule get [OF map_of_trees(3) lens(1) fields_fit(1)])
  obtain b where b: "get_str t SPEKE_SEC_DATA_SALT_JSON = Inr (b, 32)" "view t (b, 32) = hex_string salt"
    by (rule get [OF map_of_trees(2) lens(2) fields_fit(3)])
  obtain c where c: "get_str t SPEKE_SEC_DATA_CHALLENGE_JSON = Inr (c, 32)" "view t (c, 32) = hex_string challenge"
    by (rule get [OF map_of_trees(1) lens(3) fields_fit(2)])
  define ctx where "ctx = (fresh_ctx lib env (ss_pinCode s) salt)\<lparr>nc_remoteChallenge := challenge\<rparr>"
  have "ClientSetChallenge (fresh_ctx lib env (ss_pinCode s) salt) t = (IOTC_OK, ctx)"
    using c ne assms(6)
    by (simp add: ClientSetChallenge_def unhex_field_hex NegoContextSetRemoteChallenge_def ctx_def fresh_ctx_def set_head_def)
  then have init: "ClientInitNegoCtx lib env (ss_pinCode s) t 256 = Inr ctx"
    using b ne assms by (simp add: ClientInitNegoCtx_def GetSpekePrimeType_def unhex_field_hex NegoContextInit_ok)
  have "nc_prime ctx = speke_p" by (simp add: ctx_def fresh_ctx_def)
  then have "NegoContextGenSessionKey lib env ctx (wb lib v) = (IOTC_OK, with_keys lib ctx v)"
    using assms by (intro NegoContextGenSessionKey_ok)
  then have "InitNegoCtxFromPayload lib env s t = Inr (with_keys lib ctx v)"
    using a init wv ne assms(3) by (simp add: InitNegoCtxFromPayload_def UtilsUnhexify_hex set_head_def)
  then show ?thesis unfolding t_def client_ctx_def ctx_def .
qed

lemma ClientProcessRsp_ok:
  assumes "mpi_ok lib" "digest_ok lib" "print_ok lib" "env_ok env" "ss_pinCode s \<noteq> []" "length salt = 16"
    "length challenge = 16" "2 \<le> v" "v + 2 \<le> speke_p" "ss_spekeType s = SPEKE_TYPE_CLIENT" "plain sid"
    "pp_sessionId param = sid" "pp_payload param = compact (JObj (rsp_tree challenge salt (wb lib v)))"
  defines "ctx \<equiv> client_ctx lib env (ss_pinCode s) challenge salt v"
  shows "SpekeClientProcessRsp lib env s param =
    (IOTC_OK, s\<lparr>ss_negoContext := Some ctx\<rparr>,
     Some (msg_text sid SPEKE_SEC_DATA_MSG_TYPE_CLIENT_CFM
       (cfm_tree (nc_localChallenge ctx) (the (nc_pubKey ctx)) (confirm_mac lib ctx))))"
proof -
  define epk where "epk = wb lib (speke_pub lib salt (ss_pinCode s) (speke_exp env))"
  have pub: "nc_pubKey ctx = Some epk" by (simp add: ctx_def client_ctx_def with_keys_def fresh_ctx_def epk_def)
  have epk: "epk \<noteq> []" "length epk \<le> 512"
    using mpi_wb(2) [OF assms(1) speke_pub_less] unfolding epk_def by (auto simp: length_0_conv [symmetric] simp del: length_0_conv)
  have ch: "nc_localChallenge ctx \<noteq> []" "length (nc_localChallenge ctx) \<le> 512"
    using env_ok_rnd_of(2) [OF assms(4), of RChallenge 16] by (auto simp: ctx_def client_ctx_def with_keys_def fresh_ctx_def)
  have mac: "confirm_mac lib ctx \<noteq> []" "length (confirm_mac lib ctx) \<le> 512"
    using confirm_mac_length [OF assms(2), of ctx] by auto
  have "CreateSpekeClientCfmSecPayload lib env ctx = Inr (cfm_tree (nc_localChallenge ctx) epk (confirm_mac lib ctx))"
    using assms(2,4) epk ch mac pub
    by (simp add: CreateSpekeClientCfmSecPayload_def GenHmac_ok cfm_tree_def)
  moreover have "SpekeCommonVerifyVersion (pp_payload param) = IOTC_OK"
    unfolding assms(13) by (rule VerifyVersion_tree [OF trees_plain(2) map_of_trees(4)])
  moreover have "InitNegoCtxFromPayload lib env s (pp_payload param) = Inr ctx"
    unfolding assms(13) ctx_def by (rule ClientInit_ok [OF assms(1,2,4-9)])
  moreover have "SpekeCommonCreateNegoMsg lib env sid SPEKE_SEC_DATA_MSG_TYPE_CLIENT_CFM (JObj (cfm_tree c e m)) =
      Inr (msg_text sid SPEKE_SEC_DATA_MSG_TYPE_CLIENT_CFM (cfm_tree c e m))" for c e m
    by (rule CreateNegoMsg_ok [OF assms(4,3,11)]) (simp add: trees_plain)
  ultimately show ?thesis
    using assms(10,12) pub by (simp add: SpekeClientProcessRsp_def del: compact.simps)
qed

lemma ServerGenSessionKey_ok:
  assumes "mpi_ok lib" "digest_ok lib" "env_ok env" "nc_prime ctx = speke_p" "2 \<le> v" "v + 2 \<le> speke_p"
    "view t (a, 512) = hex_string (wb lib v)" "a + 512 \<le> length t"
  shows "\<exists>pl. SpekeServerGenSessionKey lib env ctx t (a, 512) w = (IOTC_OK, with_keys lib ctx v, pl)"
proof -
  have vp: "v < speke_p" using assms(6) by simp
  note wv = mpi_wb [OF assms(1) vp]
  have ne: "wb lib v \<noteq> []" using wv(2) by auto
  have copy: "SpekeServerGenSessionKey lib env ctx t (a, 512) False = (IOTC_OK, with_keys lib ctx v, t)"
    using NegoContextGenSessionKey_ok [OF assms(1-6)] assms(3,7) wv ne
    by (simp add: SpekeServerGenSessionKey_def UtilsUnhexify_hex set_head_def)
  obtain r c pl where inpl: "SpekeServerGenSessionKey lib env ctx t (a, 512) True = (r, c, pl)" by (metis prod_cases3)
  have "SpekeServerGenSessionKey lib env ctx t (a, 512) False = (r, c, t)"
    by (rule inplace_copy(1) [OF _ _ inpl]) (use assms(3,8) in simp_all)
  with copy inpl show ?thesis by (cases w) auto
qed

definition data_key :: "speke_lib \<Rightarrow> NegoContext \<Rightarrow> bytes" where
  "data_key lib ctx =
    hkdf_of lib (take (nc_saltLen ctx) (nc_salt ctx)) SPEKE_DATA_KEY_INFO (nc_identityEncKey ctx) 16"

lemma GenDataEncKey_ok: "digest_ok lib \<Longrightarrow> NegoContextGenDataEncKey lib ctx = Inr (data_key lib ctx)"
  by (simp add: NegoContextGenDataEncKey_def data_key_def digest_hkdf)

definition peer_mac :: "speke_lib \<Rightarrow> NegoContext \<Rightarrow> bytes" where
  "peer_mac lib ctx = hmac_of lib (nc_hmacKey ctx) (nc_remoteChallenge ctx @ nc_localChallenge ctx)"

lemma VerifyHmac_ok: "digest_ok lib \<Longrightarrow> NegoContextVerifyHmac lib ctx (peer_mac lib ctx) = IOTC_OK"
  by (simp add: NegoContextVerifyHmac_def GenNegoHmac_def peer_mac_def digest_hmac)

lemma peer_mac_length: "digest_ok lib \<Longrightarrow> length (peer_mac lib ctx) = 32"
  by (simp add: peer_mac_def digest_hmac)

lemma ServerProcessCfm_ok:
  assumes "mpi_ok lib" "digest_ok lib" "print_ok lib" "env_ok env" "ss_spekeType s = SPEKE_TYPE_SERVER"
    "ss_negoContext s = Some ctx" "nc_prime ctx = speke_p" "length (nc_remoteChallenge ctx) = 16" "length challenge = 16"
    "2 \<le> v" "v + 2 \<le> speke_p" "plain sid" "pp_sessionId param = sid"
    "pp_payload param = compact (JObj (cfm_tree challenge (wb lib v) (peer_mac lib ctx')))"
    "ctx' = with_keys lib (ctx\<lparr>nc_remoteChallenge := challenge\<rparr>) v"
  shows "\<exists>pl. SpekeServerProcessCfm lib env s param =
    (IOTC_OK, s\<lparr>ss_negoContext := Some ctx', ss_dataEncKey := data_key lib ctx'\<rparr>,
     Some (msg_text sid SPEKE_SEC_DATA_MSG_TYPE_SERVER_CFM (scfm_tree (confirm_mac lib ctx'))), pl)"
proof -
  define mac where "mac = peer_mac lib ctx'"
  define t where "t = compact (JObj (cfm_tree challenge (wb lib v) mac))"
  have vp: "v < speke_p" using assms(11) by simp
  have mac: "length mac = 32" "mac \<noteq> []" using peer_mac_length [OF assms(2), of ctx'] by (auto simp: mac_def)
  have lens: "2 * length (wb lib v) = 512" "2 * length challenge = 32" "2 * length mac = 64"
    using mpi_wb(2) [OF assms(1) vp] assms(9) mac by simp_all
  note get = get_hex [OF trees_plain(3) [of challenge "wb lib v" mac], folded t_def]
  obtain a where a: "get_str t SPEKE_SEC_DATA_EPK_JSON = Inr (a, 512)" "view t (a, 512) = hex_string (wb lib v)"
    "a + 512 \<le> length t"
    by (rule get [OF map_of_trees(6) lens(1) fields_fit(1)])
  obtain b where b: "get_str t SPEKE_SEC_DATA_CHALLENGE_JSON = Inr (b, 32)" "view t (b, 32) = hex_string challenge"
    by (rule get [OF map_of_trees(5) lens(2) fields_fit(2)])
  obtain c where c: "get_str t SPEKE_SEC_DATA_KCF_JSON = Inr (c, 64)" "view t (c, 64) = hex_string mac"
    by (rule get [OF map_of_trees(7) lens(3) fields_fit(4)])
  have ch: "challenge \<noteq> []" using assms(9) by auto
  have "nc_prime (ctx\<lparr>nc_remoteChallenge := challenge\<rparr>) = speke_p" using assms(7) by simp
  then obtain pl where gen: "SpekeServerGenSessionKey lib env (ctx\<lparr>nc_remoteChallenge := challenge\<rparr>) t (a, 512)
      (pp_payloadWritable param) = (IOTC_OK, ctx', pl)"
    unfolding assms(15) using ServerGenSessionKey_ok [OF assms(1,2,4) _ assms(10,11) a(2,3)] by blast
  have set: "NegoContextSetRemoteChallenge ctx challenge = (IOTC_OK, ctx\<lparr>nc_remoteChallenge := challenge\<rparr>)"
    using ch assms(8,9) by (simp add: NegoContextSetRemoteChallenge_def set_head_def)
  have parse: "ParseClientCfmPayload lib env ctx t (pp_payloadWritable param) = (IOTC_OK, ctx', pl)"
    using a b c ch mac gen set assms(9) VerifyHmac_ok [OF assms(2), of ctx']
    by (simp add: ParseClientCfmPayload_def unhex_field_hex mac_def)
  have cm: "confirm_mac lib ctx' \<noteq> []" "length (confirm_mac lib ctx') \<le> 512"
    using confirm_mac_length [OF assms(2), of ctx'] by auto
  have payload: "CreateSpekeServerCfmSecPayload lib env ctx' = Inr (scfm_tree (confirm_mac lib ctx'))"
    using assms(2,4) cm by (simp add: CreateSpekeServerCfmSecPayload_def GenHmac_ok scfm_tree_def)
  have msg: "SpekeCommonCreateNegoMsg lib env sid SPEKE_SEC_DATA_MSG_TYPE_SERVER_CFM (JObj (scfm_tree m)) =
      Inr (msg_text sid SPEKE_SEC_DATA_MSG_TYPE_SERVER_CFM (scfm_tree m))" for m
    by (rule CreateNegoMsg_ok [OF assms(4,3,12)]) (simp add: trees_plain)
  have "pp_payload param = t" using assms(14) by (simp add: t_def mac_def)
  then show ?thesis
    using parse payload msg GenDataEncKey_ok [OF assms(2), of ctx'] assms(5,6,13)
    by (simp add: SpekeServerProcessCfm_def del: compact.simps)
qed

lemma ClientProcessCfm_ok:
  assumes "digest_ok lib" "ss_spekeType s = SPEKE_TYPE_CLIENT" "ss_negoContext s = Some ctx"
    "pp_payload param = compact (JObj (scfm_tree (peer_mac lib ctx)))"
  shows "SpekeClientProcessCfm lib s param = (IOTC_OK, s\<lparr>ss_dataEncKey := data_key lib ctx\<rparr>)"
proof -
  define t where "t = compact (JObj (scfm_tree (peer_mac lib ctx)))"
  have mac: "length (peer_mac lib ctx) = 32" "peer_mac lib ctx \<noteq> []" "2 * length (peer_mac lib ctx) = 64"
    using peer_mac_length [OF assms(1), of ctx] by auto
  obtain c where c: "get_str t SPEKE_SEC_DATA_KCF_JSON = Inr (c, 64)" "view t (c, 64) = hex_string (peer_mac lib ctx)"
    unfolding t_def by (rule get_hex [OF trees_plain(4) map_of_trees(8) mac(3) fields_fit(4)])
  have "pp_payload param = t" using assms(4) by (simp add: t_def)
  then show ?thesis
    using assms(1-3) c mac
    by (simp add: SpekeClientProcessCfm_def unhex_field_hex VerifyHmac_ok GenDataEncKey_ok)
qed

lemma StartSession_ok:
  assumes "env_ok env" "print_ok lib" "ss_spekeType s = SPEKE_TYPE_CLIENT"
  shows "SpekeStartSession lib env s =
    Inr (msg_text (hex_string (rnd_of env RSessionId 16)) SPEKE_SEC_DATA_MSG_TYPE_CLIENT_REQ req_tree)"
proof -
  define d where "d = rnd_of env RSessionId 16"
  have d: "ev_rnd env RSessionId 16 = Inr d" "length d = 16" using env_ok_rnd_of [OF assms(1)] by (simp_all add: d_def)
  have h: "UtilsHexify (Some d) (Some (replicate (16 * 2 + 1) 0)) = (True, Some (hex_string d @ [0]))"
    by (rule Hexify_of [OF d(2)]) simp
  have p: "CreateSpekeClientReqSecPayload env = Inr req_tree"
    using assms(1) by (simp add: CreateSpekeClientReqSecPayload_def req_tree_def)
  have "SpekeCommonCreateNegoMsg lib env (hex_string d) SPEKE_SEC_DATA_MSG_TYPE_CLIENT_REQ (JObj req_tree) =
      Inr (msg_text (hex_string d) SPEKE_SEC_DATA_MSG_TYPE_CLIENT_REQ req_tree)"
    by (rule CreateNegoMsg_ok [OF assms(1,2) hex_string_plain(1)]) (simp add: trees_plain)
  then show ?thesis
    using assms(3) d h p unfolding SpekeStartSession_def SpekeClientStartReq_def
    by (simp del: compact.simps flip: d_def)
qed

lemma types_short:
  "length (dec 1) \<le> 5" "length (dec 2) \<le> 5" "length (dec 0x8001) \<le> 5" "length (dec 0x8002) \<le> 5"
  by (simp_all add: dec.simps)

lemma msg_ok_trees:
  assumes "length d = 16"
  shows "msg_ok (hex_string d) SPEKE_SEC_DATA_MSG_TYPE_CLIENT_REQ req_tree"
    "msg_ok (hex_string d) SPEKE_SEC_DATA_MSG_TYPE_SERVER_RSP (rsp_tree c s e)"
    "msg_ok (hex_string d) SPEKE_SEC_DATA_MSG_TYPE_CLIENT_CFM (cfm_tree c e m)"
    "msg_ok (hex_string d) SPEKE_SEC_DATA_MSG_TYPE_SERVER_CFM (scfm_tree m)"
  using assms types_short hex_string_plain(1) [of d]
  by (auto simp: msg_ok_def trees_plain trees_depth)

lemma InitSession_ok:
  assumes "env_ok env" "mpi_ok lib" "digest_ok lib" "pin \<noteq> []" "sb_getPinCode cb = Some (\<lambda>_. (0, pin))"
  shows "SpekeInitSession lib env SPEKE_TYPE_CLIENT (Some cb) =
      Some \<lparr>ss_spekeType = SPEKE_TYPE_CLIENT, ss_pinCode = pin, ss_negoContext = None, ss_dataEncKey = replicate 16 0\<rparr>"
    and "SpekeInitSession lib env SPEKE_TYPE_SERVER (Some cb) =
      Some \<lparr>ss_spekeType = SPEKE_TYPE_SERVER, ss_pinCode = pin,
        ss_negoContext = Some (fresh_ctx lib env pin (rnd_of env RSalt 16)), ss_dataEncKey = replicate 16 0\<rparr>"
  using assms env_ok_rnd_of [OF assms(1), of RSalt 16]
    NegoContextInit_ok [OF assms(2,3,1,4), of "rnd_of env RSalt 16"]
  by (simp_all add: SpekeInitSession_def GetPinCode_def)

lemma fresh_ctx_wf:
  "mpi_ok lib \<Longrightarrow> env_ok env \<Longrightarrow> length salt = 16 \<Longrightarrow> ctx_wf (fresh_ctx lib env pin salt)"
  using env_ok_rnd_of(2) [of env RChallenge 16] mpi_wb(2) [of lib, OF _ speke_pub_less]
  by (simp add: ctx_wf_def fresh_ctx_def)

text \<open>Both sides derive the same keys.\<close>

lemma same_keys:
  assumes "length salt = 16"
    "sctx = with_keys lib ((drop_pubKey (fresh_ctx lib s0 pin salt))\<lparr>nc_remoteChallenge := rnd_of c2 RChallenge 16\<rparr>)
      (speke_pub lib salt pin (speke_exp c2))"
    "cctx = client_ctx lib c2 pin (rnd_of s0 RChallenge 16) salt (speke_pub lib salt pin (speke_exp s0))"
  shows "confirm_mac lib cctx = peer_mac lib sctx" "confirm_mac lib sctx = peer_mac lib cctx"
    "data_key lib cctx = data_key lib sctx"
  using assms(1) speke_pub_commute [of lib salt pin "speke_exp c2" "speke_exp s0"]
  unfolding assms(2,3)
  by (simp_all add: confirm_mac_def peer_mac_def data_key_def client_ctx_def with_keys_def session_keys_def
      drop_pubKey_def fresh_ctx_def)

section \<open>Agreement\<close>

text \<open>Each packet of an honest negotiation.\<close>

lemma server_req_packet:
  assumes "env_ok env" "length d = 16" "ss_spekeType s = SPEKE_TYPE_SERVER" "ss_negoContext s = Some ctx" "ctx_wf ctx"
    "nc_pubKey ctx = Some epk"
  shows "\<exists>t. SpekeProcessPacketCommon lib env env' cb s
      \<lparr>pk_data = msg_text (hex_string d) SPEKE_SEC_DATA_MSG_TYPE_CLIENT_REQ req_tree, pk_writable = w\<rparr> n =
    (IOTC_OK, s\<lparr>ss_negoContext := Some (drop_pubKey ctx)\<rparr>,
     Some (replicate n 0 @ msg_text (hex_string d) SPEKE_SEC_DATA_MSG_TYPE_SERVER_RSP
       (rsp_tree (nc_localChallenge ctx) (take (nc_saltLen ctx) (nc_salt ctx)) epk)), [], t)"
  using process_tree [OF msg_ok_trees(1) [OF assms(2)] assms(1), of lib cb s w n _ _ _ _ env']
    ServerProcessReq_ok [OF assms(1,3-6) hex_string_plain(1) [of d]]
  by (simp add: SpekeProcessDispatch_def del: compact.simps)

lemma client_rsp_packet:
  assumes "mpi_ok lib" "digest_ok lib" "print_ok lib" "env_ok env" "ss_pinCode s \<noteq> []" "length salt = 16"
    "length challenge = 16" "2 \<le> v" "v + 2 \<le> speke_p" "ss_spekeType s = SPEKE_TYPE_CLIENT" "length d = 16"
    "ctx = client_ctx lib env (ss_pinCode s) challenge salt v"
  shows "\<exists>t. SpekeProcessPacketCommon lib env env' cb s
      \<lparr>pk_data = msg_text (hex_string d) SPEKE_SEC_DATA_MSG_TYPE_SERVER_RSP (rsp_tree challenge salt (wb lib v)),
       pk_writable = w\<rparr> 0 =
    (IOTC_OK, s\<lparr>ss_negoContext := Some ctx\<rparr>, Some (msg_text (hex_string d) SPEKE_SEC_DATA_MSG_TYPE_CLIENT_CFM
       (cfm_tree (nc_localChallenge ctx) (the (nc_pubKey ctx)) (confirm_mac lib ctx))), [], t)"
  using process_tree [OF msg_ok_trees(2) [OF assms(11), of challenge salt "wb lib v"] assms(4), of lib cb s w 0 _ _ _ _ env']
    ClientProcessRsp_ok [OF assms(1-10) hex_string_plain(1) [of d]] assms(12)
  by (simp add: SpekeProcessDispatch_def del: compact.simps)

lemma server_cfm_packet:
  assumes "mpi_ok lib" "digest_ok lib" "print_ok lib" "env_ok env" "ss_spekeType s = SPEKE_TYPE_SERVER"
    "ss_negoContext s = Some ctx" "nc_prime ctx = speke_p" "length (nc_remoteChallenge ctx) = 16" "length challenge = 16"
    "2 \<le> v" "v + 2 \<le> speke_p" "length d = 16" "ctx' = with_keys lib (ctx\<lparr>nc_remoteChallenge := challenge\<rparr>) v"
  shows "\<exists>t. SpekeProcessPacketCommon lib env env' cb s
      \<lparr>pk_data = msg_text (hex_string d) SPEKE_SEC_DATA_MSG_TYPE_CLIENT_CFM (cfm_tree challenge (wb lib v) (peer_mac lib ctx')),
       pk_writable = w\<rparr> n =
    (IOTC_OK, NotifyNegoFinish cb (s\<lparr>ss_negoContext := Some ctx', ss_dataEncKey := data_key lib ctx'\<rparr>) IOTC_OK,
     Some (replicate n 0 @ msg_text (hex_string d) SPEKE_SEC_DATA_MSG_TYPE_SERVER_CFM (scfm_tree (confirm_mac lib ctx'))),
     [IOTC_OK], t)"
proof -
  define param where "param = \<lparr>pp_msgType = SPEKE_SEC_DATA_MSG_TYPE_CLIENT_CFM, pp_sessionId = hex_string d,
    pp_payload = compact (JObj (cfm_tree challenge (wb lib v) (peer_mac lib ctx'))), pp_payloadWritable = w, pp_prefixLen = n\<rparr>"
  have "pp_sessionId param = hex_string d"
    "pp_payload param = compact (JObj (cfm_tree challenge (wb lib v) (peer_mac lib ctx')))"
    by (simp_all add: param_def)
  then obtain pl where "SpekeServerProcessCfm lib env s param =
    (IOTC_OK, s\<lparr>ss_negoContext := Some ctx', ss_dataEncKey := data_key lib ctx'\<rparr>,
     Some (msg_text (hex_string d) SPEKE_SEC_DATA_MSG_TYPE_SERVER_CFM (scfm_tree (confirm_mac lib ctx'))), pl)"
    using ServerProcessCfm_ok [OF assms(1-11) hex_string_plain(1)] assms(13) by blast
  then have "SpekeProcessDispatch lib env cb s param =
    (IOTC_OK, NotifyNegoFinish cb (s\<lparr>ss_negoContext := Some ctx', ss_dataEncKey := data_key lib ctx'\<rparr>) IOTC_OK,
     Some (msg_text (hex_string d) SPEKE_SEC_DATA_MSG_TYPE_SERVER_CFM (scfm_tree (confirm_mac lib ctx'))), [IOTC_OK], pl)"
    by (simp add: SpekeProcessDispatch_def param_def del: compact.simps)
  from process_tree [OF msg_ok_trees(3) [OF assms(12)] assms(4) this [unfolded param_def]]
  show ?thesis by (simp del: compact.simps)
qed

lemma client_cfm_packet:
  assumes "digest_ok lib" "env_ok env" "ss_spekeType s = SPEKE_TYPE_CLIENT" "ss_negoContext s = Some ctx" "length d = 16"
  shows "\<exists>t. SpekeProcessPacketCommon lib env env' cb s
      \<lparr>pk_data = msg_text (hex_string d) SPEKE_SEC_DATA_MSG_TYPE_SERVER_CFM (scfm_tree (peer_mac lib ctx)), pk_writable = w\<rparr> 0 =
    (IOTC_OK, NotifyNegoFinish cb (s\<lparr>ss_dataEncKey := data_key lib ctx\<rparr>) IOTC_OK, None, [IOTC_OK], t)"
  using process_tree [OF msg_ok_trees(4) [OF assms(5), of "peer_mac lib ctx"] assms(2), of lib cb s w 0 _ _ _ _ env']
    ClientProcessCfm_ok [OF assms(1,3,4)]
  by (simp add: SpekeProcessDispatch_def del: compact.simps)

text \<open>
  C2. An honest negotiation ends with the same key on both sides.  A client and a server with the
  same pin, no allocation failing, exchange the four messages; every step succeeds, both are told so,
  and the keys for the data agree.  The public keys are assumed to lie in the range the peer accepts.
\<close>

theorem speke_agreement:
  fixes lib s0 c2 pin
  defines "pub \<equiv> speke_pub lib (rnd_of s0 RSalt 16) pin"
  assumes lib: "mpi_ok lib" "digest_ok lib" "print_ok lib"
    and env: "env_ok c0" "env_ok c1" "env_ok c2" "env_ok c3" "env_ok s0" "env_ok s1" "env_ok s2"
    and pin: "pin \<noteq> []" "sb_getPinCode cbc = Some (\<lambda>_. (0, pin))" "sb_getPinCode cbs = Some (\<lambda>_. (0, pin))"
    and keep: "\<forall>s r. ss_dataEncKey (NotifyNegoFinish cbc s r) = ss_dataEncKey s"
      "\<forall>s r. ss_dataEncKey (NotifyNegoFinish cbs s r) = ss_dataEncKey s"
    and range: "2 \<le> pub (speke_exp c2)" "pub (speke_exp c2) + 2 \<le> speke_p"
      "2 \<le> pub (speke_exp s0)" "pub (speke_exp s0) + 2 \<le> speke_p"
  shows "\<exists>C0 S0 req S1 rsp d1 C1 cfm d2 S2 scfm d3 C2 d4.
    SpekeInitSession lib c0 SPEKE_TYPE_CLIENT (Some cbc) = Some C0 \<and>
    SpekeInitSession lib s0 SPEKE_TYPE_SERVER (Some cbs) = Some S0 \<and>
    SpekeStartSession lib c1 C0 = Inr req \<and>
    SpekeProcessPacketPrefix lib s1 e cbs S0 \<lparr>pk_data = req, pk_writable = w\<rparr> n =
      (IOTC_OK, S1, Some (replicate n 0 @ rsp), [], d1) \<and>
    SpekeProcessPacketView lib c2 e cbc C0 \<lparr>pk_data = rsp, pk_writable = w\<rparr> = (IOTC_OK, C1, Some cfm, [], d2) \<and>
    SpekeProcessPacketPrefix lib s2 e cbs S1 \<lparr>pk_data = cfm, pk_writable = w\<rparr> n =
      (IOTC_OK, S2, Some (replicate n 0 @ scfm), [IOTC_OK], d3) \<and>
    SpekeProcessPacketView lib c3 e cbc C1 \<lparr>pk_data = scfm, pk_writable = w\<rparr> = (IOTC_OK, C2, None, [IOTC_OK], d4) \<and>
    ss_dataEncKey C2 = ss_dataEncKey S2 \<and> length (ss_dataEncKey S2) = 16"
proof -
  define salt sch cch where "salt = rnd_of s0 RSalt 16" and "sch = rnd_of s0 RChallenge 16" and "cch = rnd_of c2 RChallenge 16"
  have len: "length salt = 16" "length sch = 16" "length cch = 16" "length (rnd_of c1 RSessionId 16) = 16"
    using env by (simp_all add: salt_def sch_def cch_def env_ok_rnd_of)
  define fctx where "fctx = fresh_ctx lib s0 pin salt"
  define sctx where "sctx = with_keys lib ((drop_pubKey fctx)\<lparr>nc_remoteChallenge := cch\<rparr>) (pub (speke_exp c2))"
  define cctx where "cctx = client_ctx lib c2 pin sch salt (pub (speke_exp s0))"
  note keys = same_keys [OF len(1) sctx_def [unfolded fctx_def pub_def cch_def, folded salt_def]
      cctx_def [unfolded pub_def sch_def, folded salt_def]]
  have ctx: "nc_pubKey fctx = Some (wb lib (pub (speke_exp s0)))" "nc_localChallenge fctx = sch"
    "take (nc_saltLen fctx) (nc_salt fctx) = salt" "nc_prime (drop_pubKey fctx) = speke_p"
    "length (nc_remoteChallenge (drop_pubKey fctx)) = 16"
    "nc_pubKey cctx = Some (wb lib (pub (speke_exp c2)))" "nc_localChallenge cctx = cch"
    by (simp_all add: fctx_def fresh_ctx_def drop_pubKey_def cctx_def client_ctx_def with_keys_def pub_def sch_def cch_def salt_def)
  have wf: "ctx_wf fctx" unfolding fctx_def by (rule fresh_ctx_wf [OF lib(1) env(5) len(1)])
  note init = InitSession_ok(1) [OF env(1) lib(1,2) pin(1,2)]
    InitSession_ok(2) [OF env(5) lib(1,2) pin(1,3), folded salt_def, folded fctx_def]
  define C0 where "C0 = \<lparr>ss_spekeType = SPEKE_TYPE_CLIENT, ss_pinCode = pin, ss_negoContext = None,
    ss_dataEncKey = replicate 16 0\<rparr>"
  define S0 where "S0 = \<lparr>ss_spekeType = SPEKE_TYPE_SERVER, ss_pinCode = pin, ss_negoContext = Some fctx,
    ss_dataEncKey = replicate 16 0\<rparr>"
  define S1 C1 where "S1 = S0\<lparr>ss_negoContext := Some (drop_pubKey fctx)\<rparr>" and "C1 = C0\<lparr>ss_negoContext := Some cctx\<rparr>"
  have st: "ss_spekeType C0 = SPEKE_TYPE_CLIENT" "ss_pinCode C0 = pin" "ss_spekeType S0 = SPEKE_TYPE_SERVER"
    "ss_negoContext S0 = Some fctx" "ss_spekeType S1 = SPEKE_TYPE_SERVER" "ss_negoContext S1 = Some (drop_pubKey fctx)"
    "ss_spekeType C1 = SPEKE_TYPE_CLIENT" "ss_negoContext C1 = Some cctx"
    by (simp_all add: C0_def S0_def S1_def C1_def)
  note start = StartSession_ok [OF env(2) lib(3) st(1)]
  obtain d1 where s1: "SpekeProcessPacketPrefix lib s1 e cbs S0 \<lparr>pk_data = msg_text (hex_string (rnd_of c1 RSessionId 16))
      SPEKE_SEC_DATA_MSG_TYPE_CLIENT_REQ req_tree, pk_writable = w\<rparr> n = (IOTC_OK, S1, Some (replicate n 0 @
      msg_text (hex_string (rnd_of c1 RSessionId 16)) SPEKE_SEC_DATA_MSG_TYPE_SERVER_RSP
        (rsp_tree sch salt (wb lib (pub (speke_exp s0))))), [], d1)"
    using server_req_packet [OF env(6) len(4) st(3,4) wf ctx(1)] unfolding ctx SpekeProcessPacketPrefix_def S1_def by blast
  have pin0: "ss_pinCode C0 \<noteq> []" using pin(1) st(2) by simp
  obtain d2 where c2: "SpekeProcessPacketView lib c2 e cbc C0 \<lparr>pk_data = msg_text (hex_string (rnd_of c1 RSessionId 16))
      SPEKE_SEC_DATA_MSG_TYPE_SERVER_RSP (rsp_tree sch salt (wb lib (pub (speke_exp s0)))), pk_writable = w\<rparr> =
      (IOTC_OK, C1, Some (msg_text (hex_string (rnd_of c1 RSessionId 16)) SPEKE_SEC_DATA_MSG_TYPE_CLIENT_CFM
        (cfm_tree cch (wb lib (pub (speke_exp c2))) (peer_mac lib sctx))), [], d2)"
    using client_rsp_packet [OF lib env(3) pin0 len(1,2) range(3,4) st(1) len(4) cctx_def [folded st(2)]]
    unfolding ctx SpekeProcessPacketView_def C1_def keys(1) option.sel by blast
  obtain d3 where s2: "SpekeProcessPacketPrefix lib s2 e cbs S1 \<lparr>pk_data = msg_text (hex_string (rnd_of c1 RSessionId 16))
      SPEKE_SEC_DATA_MSG_TYPE_CLIENT_CFM (cfm_tree cch (wb lib (pub (speke_exp c2))) (peer_mac lib sctx)), pk_writable = w\<rparr> n =
      (IOTC_OK, NotifyNegoFinish cbs (S1\<lparr>ss_negoContext := Some sctx, ss_dataEncKey := data_key lib sctx\<rparr>) IOTC_OK,
       Some (replicate n 0 @ msg_text (hex_string (rnd_of c1 RSessionId 16)) SPEKE_SEC_DATA_MSG_TYPE_SERVER_CFM
         (scfm_tree (peer_mac lib cctx))), [IOTC_OK], d3)"
    using server_cfm_packet [OF lib env(7) st(5,6) ctx(4,5) len(3) range(1,2) len(4) sctx_def]
    unfolding SpekeProcessPacketPrefix_def keys(2) by blast
  obtain d4 where c3: "SpekeProcessPacketView lib c3 e cbc C1 \<lparr>pk_data = msg_text (hex_string (rnd_of c1 RSessionId 16))
      SPEKE_SEC_DATA_MSG_TYPE_SERVER_CFM (scfm_tree (peer_mac lib cctx)), pk_writable = w\<rparr> =
      (IOTC_OK, NotifyNegoFinish cbc (C1\<lparr>ss_dataEncKey := data_key lib cctx\<rparr>) IOTC_OK, None, [IOTC_OK], d4)"
    using client_cfm_packet [OF lib(2) env(4) st(7,8) len(4)] unfolding SpekeProcessPacketView_def by blast
  have "length (data_key lib sctx) = 16" by (simp add: data_key_def digest_hkdf lib(2))
  then show ?thesis
    using init [folded C0_def S0_def] start s1 c2 s2 c3 keep keys(3) by fastforce
qed

definition demo_cb :: SpekeCallback where
  "demo_cb = \<lparr>sb_getPinCode = Some (\<lambda>_. (0, [49])), sb_notifySpekeFinished = Some (\<lambda>s r. SpekeFreeNegoContext s)\<rparr>"

lemma demo_cb_keeps: "ss_dataEncKey (NotifyNegoFinish demo_cb s r) = ss_dataEncKey s"
  by (simp add: demo_cb_def NotifyNegoFinish_def SpekeFreeNegoContext_def)

theorem speke_agreement_witness:
  "\<exists>C0 S0 req S1 rsp d1 C1 cfm d2 S2 scfm d3 C2 d4.
    SpekeInitSession demo_lib (demo_env 1) SPEKE_TYPE_CLIENT (Some demo_cb) = Some C0 \<and>
    SpekeInitSession demo_lib (demo_env 1) SPEKE_TYPE_SERVER (Some demo_cb) = Some S0 \<and>
    SpekeStartSession demo_lib (demo_env 1) C0 = Inr req \<and>
    SpekeProcessPacketPrefix demo_lib (demo_env 1) (demo_env 1) demo_cb S0 \<lparr>pk_data = req, pk_writable = True\<rparr> 7 =
      (IOTC_OK, S1, Some (replicate 7 0 @ rsp), [], d1) \<and>
    SpekeProcessPacketView demo_lib (demo_env 2) (demo_env 1) demo_cb C0 \<lparr>pk_data = rsp, pk_writable = True\<rparr> =
      (IOTC_OK, C1, Some cfm, [], d2) \<and>
    SpekeProcessPacketPrefix demo_lib (demo_env 1) (demo_env 1) demo_cb S1 \<lparr>pk_data = cfm, pk_writable = True\<rparr> 7 =
      (IOTC_OK, S2, Some (replicate 7 0 @ scfm), [IOTC_OK], d3) \<and>
    SpekeProcessPacketView demo_lib (demo_env 2) (demo_env 1) demo_cb C1 \<lparr>pk_data = scfm, pk_writable = True\<rparr> =
      (IOTC_OK, C2, None, [IOTC_OK], d4) \<and>
    ss_dataEncKey C2 = ss_dataEncKey S2 \<and> length (ss_dataEncKey S2) = 16"
  by (rule speke_agreement [where pin = "[49]"])
    (use speke_p_big in \<open>simp_all add: demo_ok demo_cb_keeps demo_pub\<close>, simp_all add: demo_cb_def)

section \<open>The answer of the server\<close>

lemma plain_iff: "plain sid \<longleftrightarrow> \<not> SpekeSessionIdNeedEscape sid"
  by (auto simp: SpekeSessionIdNeedEscape_def plain_def list_all_iff list_ex_iff not_less)

lemma RspSecPayload_ok:
  assumes "env_ok env" "ctx_wf ctx" "nc_pubKey ctx = Some epk"
  shows "CreateSpekeServerRspSecPayload env ctx =
    Inr (rsp_tree (nc_localChallenge ctx) (take (nc_saltLen ctx) (nc_salt ctx)) epk)"
proof -
  have len: "length (nc_localChallenge ctx) = 16" "length (nc_salt ctx) = 16" "8 \<le> nc_saltLen ctx" "nc_saltLen ctx \<le> 16"
    "length epk = 256"
    using assms(2,3) by (auto simp: ctx_wf_def)
  then have "nc_localChallenge ctx \<noteq> []" "nc_salt ctx \<noteq> []" "nc_saltLen ctx \<noteq> 0" "epk \<noteq> []" by auto
  then show ?thesis using assms(1,3) len by (simp add: CreateSpekeServerRspSecPayload_def rsp_tree_def)
qed

text \<open>
  C7. The large answer of the server, which the code writes by hand into one buffer, is byte for byte
  the one it gets by building the tree and printing it, prefix included, and both release the public
  key: the two paths differ only in the memory they use.
\<close>

theorem rsp_paths_same:
  assumes "print_ok lib" "env_ok env" "ctx_wf ctx" "nc_pubKey ctx = Some epk"
    and "\<not> SpekeSessionIdNeedEscape (pp_sessionId param)"
  shows "\<exists>msg. CreateSpekeServerRspMsg env ctx (pp_sessionId param) (pp_prefixLen param) = Inr msg \<and>
    SpekeServerBuildRspFallback lib env ctx param = (IOTC_OK, drop_pubKey ctx, Some msg)"
proof -
  have "plain (pp_sessionId param)" using assms(5) by (simp add: plain_iff)
  then have "SpekeCommonCreateNegoMsg lib env (pp_sessionId param) ty (JObj (rsp_tree c s e)) =
      Inr (msg_text (pp_sessionId param) ty (rsp_tree c s e))" for ty c s e
    by (rule CreateNegoMsg_ok [OF assms(2,1)]) (simp add: trees_plain)
  then show ?thesis
    using RspMsg_text [OF assms(3,4)] RspSecPayload_ok [OF assms(2-4)] assms(2)
    by (simp add: SpekeServerBuildRspFallback_def SpekeCommonWrapPrefix_def del: compact.simps)
qed

theorem rsp_paths_same_witness:
  "\<exists>ctx msg. CreateSpekeServerRspMsg (demo_env 1) ctx (ascii ''session'') 7 = Inr msg \<and>
    SpekeServerBuildRspFallback demo_lib (demo_env 1) ctx
      \<lparr>pp_msgType = 1, pp_sessionId = ascii ''session'', pp_payload = [], pp_payloadWritable = False, pp_prefixLen = 7\<rparr> =
      (IOTC_OK, drop_pubKey ctx, Some msg)"
proof -
  define ctx where "ctx = fresh_ctx demo_lib (demo_env 1) [49] (demo_fill 1 16)"
  have wf: "ctx_wf ctx" unfolding ctx_def by (rule fresh_ctx_wf [OF demo_ok(1,5) demo_fill_length])
  have pub: "nc_pubKey ctx = Some (wb demo_lib (speke_pub demo_lib (demo_fill 1 16) [49] (speke_exp (demo_env 1))))"
    by (simp add: ctx_def fresh_ctx_def)
  have esc: "\<not> SpekeSessionIdNeedEscape (pp_sessionId \<lparr>pp_msgType = 1, pp_sessionId = ascii ''session'', pp_payload = [],
      pp_payloadWritable = False, pp_prefixLen = 7\<rparr>)"
    by (simp add: SpekeSessionIdNeedEscape_def ascii_def)
  have "\<exists>msg. CreateSpekeServerRspMsg (demo_env 1) ctx (ascii ''session'') 7 = Inr msg \<and>
    SpekeServerBuildRspFallback demo_lib (demo_env 1) ctx
      \<lparr>pp_msgType = 1, pp_sessionId = ascii ''session'', pp_payload = [], pp_payloadWritable = False, pp_prefixLen = 7\<rparr> =
      (IOTC_OK, drop_pubKey ctx, Some msg)"
    using rsp_paths_same [OF demo_ok(4) demo_ok(5) [of 1] wf pub esc] by simp
  then show ?thesis by blast
qed

text \<open>
  C23. A request that is sent again is answered with the same bytes: the public key, released after
  the first answer, is computed again from the pin and the kept exponent, and the session ends in the
  same state.
\<close>

theorem request_repeated_same:
  assumes "mpi_ok lib" "digest_ok lib" "env_ok s0" "env_ok s1" "env_ok s2"
    and "pin \<noteq> []" "sb_getPinCode cb = Some (\<lambda>_. (0, pin))" "length d = 16"
    and "SpekeInitSession lib s0 SPEKE_TYPE_SERVER (Some cb) = Some S0"
    and "req = msg_text (hex_string d) SPEKE_SEC_DATA_MSG_TYPE_CLIENT_REQ req_tree"
    and "SpekeProcessPacketPrefix lib s1 e cb S0 \<lparr>pk_data = req, pk_writable = w\<rparr> n = (r, S1, msg, nt, t)"
  shows "\<exists>t'. SpekeProcessPacketPrefix lib s2 e cb S1 \<lparr>pk_data = req, pk_writable = w\<rparr> n = (r, S1, msg, nt, t') \<and>
    r = IOTC_OK \<and> msg \<noteq> None"
proof -
  define salt where "salt = rnd_of s0 RSalt 16"
  define ctx where "ctx = fresh_ctx lib s0 pin salt"
  have salt: "length salt = 16" by (simp add: salt_def env_ok_rnd_of assms(3))
  have wf: "ctx_wf ctx" unfolding ctx_def by (rule fresh_ctx_wf [OF assms(1,3) salt])
  have pub: "nc_pubKey ctx = Some (wb lib (speke_pub lib salt pin (speke_exp s0)))" by (simp add: ctx_def fresh_ctx_def)
  have S0: "S0 = \<lparr>ss_spekeType = SPEKE_TYPE_SERVER, ss_pinCode = pin, ss_negoContext = Some ctx, ss_dataEncKey = replicate 16 0\<rparr>"
    using InitSession_ok(2) [OF assms(3,1,2,6,7)] assms(9) by (simp add: ctx_def salt_def)
  define m where "m = replicate n 0 @ msg_text (hex_string d) SPEKE_SEC_DATA_MSG_TYPE_SERVER_RSP
    (rsp_tree (nc_localChallenge ctx) (take (nc_saltLen ctx) (nc_salt ctx)) (the (nc_pubKey ctx)))"
  have "\<exists>t. SpekeProcessPacketPrefix lib s1 e cb S0 \<lparr>pk_data = req, pk_writable = w\<rparr> n =
      (IOTC_OK, S0\<lparr>ss_negoContext := Some (drop_pubKey ctx)\<rparr>, Some m, [], t)"
    unfolding assms(10) m_def SpekeProcessPacketPrefix_def
    using server_req_packet [OF assms(4,8) _ _ wf pub, of S0 lib e cb w n] S0 pub by (simp del: compact.simps)
  then have first: "r = IOTC_OK" "S1 = S0\<lparr>ss_negoContext := Some (drop_pubKey ctx)\<rparr>" "msg = Some m" "nt = []"
    using assms(11) by auto
  have regen: "NegoContextRegenPubKey lib s2 (drop_pubKey ctx) pin = (IOTC_OK, ctx)"
    using InitNegoCtxPubKey_ok [OF assms(1,2,5), of "drop_pubKey ctx" pin] assms(6)
    by (simp add: NegoContextRegenPubKey_def drop_pubKey_def ctx_def fresh_ctx_def)
  have "SpekeServerProcessReq lib s2 S1 \<lparr>pp_msgType = SPEKE_SEC_DATA_MSG_TYPE_CLIENT_REQ, pp_sessionId = hex_string d,
      pp_payload = compact (JObj req_tree), pp_payloadWritable = w, pp_prefixLen = n\<rparr> = (IOTC_OK, S1, Some m)"
    using RspMsg_text [OF wf pub] regen assms(5) pub
    by (simp add: first S0 SpekeServerProcessReq_def VerifyClientReqPayload_ok not_escape hex_string_plain m_def
        drop_pubKey_def [of ctx] del: compact.simps)
  then show ?thesis
    unfolding assms(10) first SpekeProcessPacketPrefix_def
    using process_tree [OF msg_ok_trees(1) [OF assms(8)] assms(5), of lib cb S1 w n _ _ _ _ e]
    by (simp add: SpekeProcessDispatch_def first del: compact.simps)
qed

theorem request_repeated_same_witness:
  "\<exists>S0 S1 req m t t'. SpekeInitSession demo_lib (demo_env 1) SPEKE_TYPE_SERVER (Some demo_cb) = Some S0 \<and>
    SpekeProcessPacketPrefix demo_lib (demo_env 1) (demo_env 1) demo_cb S0 \<lparr>pk_data = req, pk_writable = True\<rparr> 7 =
      (IOTC_OK, S1, Some m, [], t) \<and>
    SpekeProcessPacketPrefix demo_lib (demo_env 2) (demo_env 1) demo_cb S1 \<lparr>pk_data = req, pk_writable = True\<rparr> 7 =
      (IOTC_OK, S1, Some m, [], t')"
proof -
  have pin: "[49] \<noteq> ([] :: bytes)" "sb_getPinCode demo_cb = Some (\<lambda>_. (0, [49]))" by (simp_all add: demo_cb_def)
  obtain S0 where run: "SpekeInitSession demo_lib (demo_env 1) SPEKE_TYPE_SERVER (Some demo_cb) = Some S0"
    using InitSession_ok(2) [OF demo_ok(5,1,2) pin] by blast
  define ctx where "ctx = fresh_ctx demo_lib (demo_env 1) [49] (rnd_of (demo_env 1) RSalt 16)"
  have S0: "ss_spekeType S0 = SPEKE_TYPE_SERVER" "ss_negoContext S0 = Some ctx"
    using run InitSession_ok(2) [OF demo_ok(5,1,2) pin] by (auto simp: ctx_def)
  have wf: "ctx_wf ctx" unfolding ctx_def
    by (rule fresh_ctx_wf [OF demo_ok(1,5)]) (rule env_ok_rnd_of(2) [OF demo_ok(5)])
  have pub: "nc_pubKey ctx = Some (the (nc_pubKey ctx))" by (simp add: ctx_def fresh_ctx_def)
  define req where "req = msg_text (hex_string (demo_fill 1 16)) SPEKE_SEC_DATA_MSG_TYPE_CLIENT_REQ req_tree"
  obtain S1 m t where first: "SpekeProcessPacketPrefix demo_lib (demo_env 1) (demo_env 1) demo_cb S0
      \<lparr>pk_data = req, pk_writable = True\<rparr> 7 = (IOTC_OK, S1, Some m, [], t)"
    unfolding req_def SpekeProcessPacketPrefix_def
    using server_req_packet [OF demo_ok(5) demo_fill_length S0 wf pub] by blast
  have "\<exists>t'. SpekeProcessPacketPrefix demo_lib (demo_env 2) (demo_env 1) demo_cb S1
      \<lparr>pk_data = req, pk_writable = True\<rparr> 7 = (IOTC_OK, S1, Some m, [], t') \<and> IOTC_OK = IOTC_OK \<and> Some m \<noteq> None"
    by (rule request_repeated_same [OF demo_ok(1,2,5,5,5) pin demo_fill_length run req_def first])
  then show ?thesis using run first by blast
qed

end
