(* ===== verification/Speke_Secure.thy ===== *)
theory Speke_Secure
  imports Speke_Agree Contracts
begin

text \<open>
  What a SPEKE session guarantees against a peer that does not follow the protocol, and the encrypted
  data it exchanges.
\<close>

section \<open>A key needs a proof\<close>

text \<open>The proof of possession a packet's payload carries, decoded.\<close>

definition carries_kcf :: "bytes \<Rightarrow> bytes \<Rightarrow> bool" where
  "carries_kcf payload mac \<longleftrightarrow>
    (\<exists>v. get_str payload SPEKE_SEC_DATA_KCF_JSON = Inr v \<and> unhex_field (view payload v) HMAC_LEN = Some mac)"

text \<open>A failed read never has the code of a success.\<close>

lemma find_key_err: "find_key_loop json key i depth = Inl r \<Longrightarrow> r \<noteq> IOTC_OK"
proof (induction json key i depth rule: find_key_loop.induct)
  case (1 json key i depth)
  obtain k ks kc where sk: "SpekeFlatScanKey json (SpekeFlatSkipWs json i) = (k, ks, kc)" by (metis prod_cases3)
  note run = "1.prems" [unfolded find_key_loop.simps [of json key i depth] Let_def sk]
  show ?case
    using run "1.IH"(1) [OF _ refl] "1.IH"(2) [OF _ refl _ _ refl, unfolded sk, of k "(ks, kc)" ks kc, OF _ _ _ refl refl _ refl _ _ refl]
    by (auto split: if_splits option.splits)
qed

lemma FindKey_err: "SpekeFlatFindKey json key = Inl r \<Longrightarrow> r \<noteq> IOTC_OK"
  by (auto simp: SpekeFlatFindKey_def Let_def split: if_splits dest: find_key_err)

lemma get_str_err: "get_str json key = Inl r \<Longrightarrow> r \<noteq> IOTC_OK"
proof -
  assume "get_str json key = Inl r"
  moreover obtain q where "SpekeFlatGetStr json key = Some q" using GetStr_view [of json key] by blast
  ultimately have "SpekeFlatGetStr json key = Some (Inl r)" by (simp add: get_str_def)
  then show ?thesis
    by (auto simp: SpekeFlatGetStr_def Let_def split: if_splits option.splits sum.splits dest: FindKey_err)
qed

lemma get_obj_err: "get_obj json key = Inl r \<Longrightarrow> r \<noteq> IOTC_OK"
proof -
  assume "get_obj json key = Inl r"
  moreover obtain q where "SpekeFlatGetObj json key = Some q" using GetObj_view [of json key] by blast
  ultimately have "SpekeFlatGetObj json key = Some (Inl r)" by (simp add: get_obj_def)
  then show ?thesis
    by (auto simp: SpekeFlatGetObj_def split: if_splits option.splits sum.splits dest: FindKey_err)
qed

lemma num_loop_err: "num_loop cs val = Inl r \<Longrightarrow> r \<noteq> IOTC_OK"
  by (induction cs val rule: num_loop.induct) (auto split: if_splits)

lemma StrToNum_err: "SpekeFlatStrToNum s = Inl r \<Longrightarrow> r \<noteq> IOTC_OK"
  by (auto simp: SpekeFlatStrToNum_def split: sum.splits if_splits dest: num_loop_err)

lemma GetNum_err: "SpekeFlatGetNum json key = Inl r \<Longrightarrow> r \<noteq> IOTC_OK"
  by (auto simp: SpekeFlatGetNum_def Let_def split: if_splits option.splits sum.splits prod.splits
      dest: FindKey_err StrToNum_err)

lemma ParseCommonData_err: "ParseCommonData root = Inl r \<Longrightarrow> r \<noteq> IOTC_OK"
  by (auto simp: ParseCommonData_def split: if_splits sum.splits dest: get_str_err get_obj_err GetNum_err)

lemma ParseClientCfm_proof:
  assumes "ParseClientCfmPayload lib env ctx payload w = (IOTC_OK, ctx', pl)"
  shows "\<exists>mac. carries_kcf payload mac \<and> NegoContextVerifyHmac lib ctx' mac = IOTC_OK"
  using assms unfolding ParseClientCfmPayload_def carries_kcf_def Let_def
  by (auto split: sum.splits option.splits prod.splits if_splits dest: get_str_err)

text \<open>The session of a packet whose confirmation was accepted.\<close>

definition key_proved :: "speke_lib \<Rightarrow> bytes \<Rightarrow> bytes \<Rightarrow> bool" where
  "key_proved lib payload key \<longleftrightarrow>
    (\<exists>ctx mac. carries_kcf payload mac \<and> length mac = HMAC_LEN \<and>
      lb_hmac lib (nc_hmacKey ctx) (nc_remoteChallenge ctx @ nc_localChallenge ctx) = Some mac \<and>
      NegoContextGenDataEncKey lib ctx = Inr key)"

lemma VerifyHmac_hmac:
  "NegoContextVerifyHmac lib ctx mac = IOTC_OK \<Longrightarrow>
    length mac = HMAC_LEN \<and> lb_hmac lib (nc_hmacKey ctx) (nc_remoteChallenge ctx @ nc_localChallenge ctx) = Some mac"
  by (auto simp: NegoContextVerifyHmac_def GenNegoHmac_def split: if_splits option.splits)

lemma ServerCfm_key:
  assumes "SpekeServerProcessCfm lib env s param = (r, s', msg, pl)"
  shows "ss_dataEncKey s' = ss_dataEncKey s \<or> r = IOTC_OK \<and> key_proved lib (pp_payload param) (ss_dataEncKey s')"
proof (cases "ss_spekeType s = SPEKE_TYPE_SERVER \<and> ss_negoContext s \<noteq> None")
  case True
  then obtain ctx where s: "ss_spekeType s = SPEKE_TYPE_SERVER" "ss_negoContext s = Some ctx" by auto
  obtain r1 ctx1 pl1 where parse:
    "ParseClientCfmPayload lib env ctx (pp_payload param) (pp_payloadWritable param) = (r1, ctx1, pl1)" by (metis prod_cases3)
  show ?thesis
  proof (cases "r1 = IOTC_OK")
    case True
    then obtain mac where "carries_kcf (pp_payload param) mac" "NegoContextVerifyHmac lib ctx1 mac = IOTC_OK"
      using ParseClientCfm_proof parse by blast
    then have "\<forall>key. NegoContextGenDataEncKey lib ctx1 = Inr key \<longrightarrow> key_proved lib (pp_payload param) key"
      using VerifyHmac_hmac unfolding key_proved_def by blast
    then show ?thesis
      using assms s parse True by (auto simp: SpekeServerProcessCfm_def Let_def split: sum.splits)
  qed (use assms s parse in \<open>auto simp: SpekeServerProcessCfm_def\<close>)
qed (use assms in \<open>auto simp: SpekeServerProcessCfm_def split: if_splits\<close>)

lemma ClientCfm_key:
  assumes "SpekeClientProcessCfm lib s param = (r, s')"
  shows "ss_dataEncKey s' = ss_dataEncKey s \<or> r = IOTC_OK \<and> key_proved lib (pp_payload param) (ss_dataEncKey s')"
proof -
  have "r = IOTC_OK \<and> key_proved lib (pp_payload param) (ss_dataEncKey s')" if ne: "ss_dataEncKey s' \<noteq> ss_dataEncKey s"
  proof -
    obtain ctx v mac key where "get_str (pp_payload param) SPEKE_SEC_DATA_KCF_JSON = Inr v"
      "unhex_field (view (pp_payload param) v) HMAC_LEN = Some mac" "NegoContextVerifyHmac lib ctx mac = IOTC_OK"
      "NegoContextGenDataEncKey lib ctx = Inr key" "r = IOTC_OK" "s' = s\<lparr>ss_dataEncKey := key\<rparr>"
      using assms ne unfolding SpekeClientProcessCfm_def Let_def
      by (auto split: if_splits option.splits sum.splits)
    then show ?thesis using VerifyHmac_hmac unfolding key_proved_def carries_kcf_def by fastforce
  qed
  then show ?thesis by blast
qed

lemma ServerReq_key: "SpekeServerProcessReq lib env s param = (r, s', msg) \<Longrightarrow>
    ss_dataEncKey s' = ss_dataEncKey s \<and> ss_spekeType s' = ss_spekeType s \<and> (ss_negoContext s = None \<longrightarrow> ss_negoContext s' = None)"
  by (auto simp: SpekeServerProcessReq_def Let_def split: if_splits option.splits sum.splits prod.splits)

lemma ClientRsp_key: "SpekeClientProcessRsp lib env s param = (r, s', msg) \<Longrightarrow>
    ss_dataEncKey s' = ss_dataEncKey s \<and> ss_spekeType s' = ss_spekeType s \<and>
    (ss_spekeType s = SPEKE_TYPE_SERVER \<longrightarrow> ss_negoContext s' = ss_negoContext s)"
  by (auto simp: SpekeClientProcessRsp_def Let_def split: if_splits sum.splits)

lemma Dispatch_cases:
  assumes "SpekeProcessDispatch lib env cb s param = (r, s', m, nt, pl)"
  obtains (req) "SpekeServerProcessReq lib env s param = (r, s', m)" "nt = []"
    | (rsp) "SpekeClientProcessRsp lib env s param = (r, s', m)" "nt = []"
    | (scfm) s1 where "SpekeServerProcessCfm lib env s param = (r, s1, m, pl)" "s' = NotifyNegoFinish cb s1 r" "nt = [r]"
    | (ccfm) s1 where "SpekeClientProcessCfm lib s param = (r, s1)" "s' = NotifyNegoFinish cb s1 r" "nt = [r]"
    | (other) "s' = s" "nt = []"
proof -
  consider "pp_msgType param = SPEKE_SEC_DATA_MSG_TYPE_CLIENT_REQ" | "pp_msgType param = SPEKE_SEC_DATA_MSG_TYPE_SERVER_RSP"
    | "pp_msgType param = SPEKE_SEC_DATA_MSG_TYPE_CLIENT_CFM" | "pp_msgType param = SPEKE_SEC_DATA_MSG_TYPE_SERVER_CFM"
    | "pp_msgType param \<notin> {0x0001, 0x8001, 0x0002, 0x8002}" by auto
  then show thesis
    using assms that by cases (simp_all add: SpekeProcessDispatch_def split: prod.splits)
qed

lemma Dispatch_key:
  assumes "SpekeProcessDispatch lib env cb s param = (r, s', msg, nt, pl)"
    "\<forall>s r. ss_dataEncKey (NotifyNegoFinish cb s r) = ss_dataEncKey s"
  shows "ss_dataEncKey s' = ss_dataEncKey s \<or>
    r = IOTC_OK \<and> nt = [IOTC_OK] \<and> key_proved lib (pp_payload param) (ss_dataEncKey s')"
  using assms(1)
proof (cases rule: Dispatch_cases)
  case req then show ?thesis using ServerReq_key by blast
next
  case rsp then show ?thesis using ClientRsp_key by blast
next
  case (scfm s1) then show ?thesis using ServerCfm_key [OF scfm(1)] assms(2) by auto
next
  case (ccfm s1) then show ?thesis using ClientCfm_key [OF ccfm(1)] assms(2) by auto
qed simp


text \<open>A confirmed negotiation of the sample library.\<close>

lemma demo_confirmed:
  "\<exists>s pkt s' msg d. ss_spekeType s = SPEKE_TYPE_SERVER \<and> ss_dataEncKey s' \<noteq> ss_dataEncKey s \<and>
    SpekeProcessPacketCommon demo_lib (demo_env 1) (demo_env 1) demo_cb s pkt 7 = (IOTC_OK, s', msg, [IOTC_OK], d)"
proof -
  define ctx where "ctx = fresh_ctx demo_lib (demo_env 1) [49] (demo_fill 1 16)"
  define s where "s = \<lparr>ss_spekeType = SPEKE_TYPE_SERVER, ss_pinCode = [49], ss_negoContext = Some ctx,
    ss_dataEncKey = replicate 16 0\<rparr>"
  define ctx' where "ctx' = with_keys demo_lib (ctx\<lparr>nc_remoteChallenge := demo_fill 1 16\<rparr>) 4"
  have st: "ss_spekeType s = SPEKE_TYPE_SERVER" "ss_negoContext s = Some ctx" "nc_prime ctx = speke_p"
    "length (nc_remoteChallenge ctx) = 16" "2 \<le> (4 :: nat)" "4 + 2 \<le> speke_p"
    using speke_p_big by (simp_all add: s_def ctx_def fresh_ctx_def)
  have "last (demo_fill 2 16) = 2" by (simp add: demo_fill_def)
  then have key: "data_key demo_lib ctx' \<noteq> replicate 16 0"
    by (auto simp: data_key_def hkdf_of_def demo_lib_def)
  have "ss_dataEncKey (NotifyNegoFinish demo_cb (s\<lparr>ss_negoContext := Some ctx', ss_dataEncKey := data_key demo_lib ctx'\<rparr>) IOTC_OK)
      \<noteq> ss_dataEncKey s"
    using key by (simp add: demo_cb_keeps s_def)
  then show ?thesis
    using st(1) server_cfm_packet [OF demo_ok(1,2,4,5) st(1-4) demo_fill_length st(5,6) demo_fill_length ctx'_def]
    by blast
qed


section \<open>One attempt per negotiation\<close>

text \<open>A server that has released its negotiation keeps its key whatever it receives.\<close>

definition closed :: "bytes \<Rightarrow> TagSpekeSession \<Rightarrow> bool" where
  "closed key s \<longleftrightarrow> ss_spekeType s = SPEKE_TYPE_SERVER \<and> ss_negoContext s = None \<and> ss_dataEncKey s = key"

text \<open>The callback the BLE service registers releases the negotiation.\<close>

definition releases :: "SpekeCallback \<Rightarrow> bool" where
  "releases cb \<longleftrightarrow> sb_notifySpekeFinished cb = Some (\<lambda>s r. SpekeFreeNegoContext s)"

definition receive ::
    "speke_lib \<Rightarrow> SpekeCallback \<Rightarrow> TagSpekeSession \<Rightarrow> speke_env \<times> speke_env \<times> SpekePktView \<times> nat \<Rightarrow> TagSpekeSession" where
  "receive lib cb s p = (let (env, env', pkt, n) = p in fst (snd (SpekeProcessPacketCommon lib env env' cb s pkt n)))"

lemma Packet_session:
  assumes "SpekeProcessPacketCommon lib env env' cb s pkt n = (r, s', msg, nt, d)"
  obtains "s' = s" "nt = []" | param r1 m1 pl1 where "SpekeProcessDispatch lib env cb s param = (r1, s', m1, nt, pl1)"
  using assms by (auto simp: SpekeProcessPacketCommon_def Let_def split: if_splits prod.splits sum.splits)

lemma ServerCfm_type:
  "SpekeServerProcessCfm lib env s param = (r, s', m, pl) \<Longrightarrow> ss_spekeType s' = ss_spekeType s"
  by (auto simp: SpekeServerProcessCfm_def Let_def split: if_splits option.splits prod.splits sum.splits)

lemma ServerCfm_closed:
  "ss_negoContext s = None \<Longrightarrow> SpekeServerProcessCfm lib env s param = (r, s', m, pl) \<Longrightarrow> s' = s"
  by (auto simp: SpekeServerProcessCfm_def split: if_splits)

lemma ClientCfm_server:
  "ss_spekeType s = SPEKE_TYPE_SERVER \<Longrightarrow> SpekeClientProcessCfm lib s param = (r, s') \<Longrightarrow> s' = s"
  by (simp add: SpekeClientProcessCfm_def)

lemma notify_releases: "releases cb \<Longrightarrow> NotifyNegoFinish cb s r = SpekeFreeNegoContext s"
  by (simp add: releases_def NotifyNegoFinish_def)

lemma Dispatch_closed:
  assumes "releases cb" "closed key s" "SpekeProcessDispatch lib env cb s param = (r, s', m, nt, pl)"
  shows "closed key s'"
  using assms(3)
proof (cases rule: Dispatch_cases)
  case req then show ?thesis using ServerReq_key assms(2) by (fastforce simp: closed_def)
next
  case rsp then show ?thesis using ClientRsp_key assms(2) by (fastforce simp: closed_def)
next
  case (scfm s1)
  then show ?thesis using ServerCfm_closed [OF _ scfm(1)] assms(1,2) by (simp add: closed_def notify_releases SpekeFreeNegoContext_def)
next
  case (ccfm s1)
  then show ?thesis using ClientCfm_server [OF _ ccfm(1)] assms(1,2) by (simp add: closed_def notify_releases SpekeFreeNegoContext_def)
qed (use assms(2) in simp)

lemma receive_closed:
  assumes "releases cb" "closed key s"
  shows "closed key (receive lib cb s p)"
proof -
  obtain env env' pkt n where p: "p = (env, env', pkt, n)" by (cases p)
  obtain r s' msg nt d where run: "SpekeProcessPacketCommon lib env env' cb s pkt n = (r, s', msg, nt, d)" by (metis prod_cases5)
  from run have "closed key s'"
    by (cases rule: Packet_session) (use assms Dispatch_closed in auto)
  then show ?thesis by (simp add: receive_def p run)
qed

text \<open>The state of a server that is done is kept by every packet.\<close>

interpretation speke_done: step_system "receive lib \<lparr>sb_getPinCode = get, sb_notifySpekeFinished = Some (\<lambda>s r. SpekeFreeNegoContext s)\<rparr>"
    "closed key" for lib get key
  by unfold_locales (rule receive_closed, simp_all add: releases_def)

lemma notified_closed:
  assumes "releases cb" "ss_spekeType s = SPEKE_TYPE_SERVER"
    "SpekeProcessPacketCommon lib env env' cb s pkt n = (r, s', msg, nt, d)" "nt \<noteq> []"
  shows "closed (ss_dataEncKey s') s'"
  using assms(3)
proof (cases rule: Packet_session)
  case (2 param r1 m1 pl1)
  from 2 show ?thesis
  proof (cases rule: Dispatch_cases)
    case (scfm s1)
    then show ?thesis using ServerCfm_type [OF scfm(1)] assms(1,2) by (simp add: closed_def notify_releases SpekeFreeNegoContext_def)
  next
    case (ccfm s1)
    then show ?thesis using ClientCfm_server [OF assms(2) ccfm(1)] assms(1,2) by (simp add: closed_def notify_releases SpekeFreeNegoContext_def)
  qed (use assms(4) in simp_all)
qed (use assms(4) in simp)



section \<open>Encrypted data\<close>

lemma overwrite_append: "k = length xs \<Longrightarrow> overwrite (xs @ ys) k d = xs @ d @ drop (length d) ys"
  by (simp add: overwrite_def)

lemma frame_iv: "length iv = 12 \<Longrightarrow> overwrite (replicate (n + 29) 0 @ rest) 1 iv = [0 :: u8] @ iv @ replicate (n + 16) 0 @ rest"
  using overwrite_append [of 1 "[0 :: u8]" "replicate (n + 28) 0 @ rest" iv]
  by (simp add: add.commute [of n] replicate_add flip: append_Cons replicate_Suc) (simp add: numeral_eq_Suc)

lemma frame_cipher:
  assumes "length iv = 12" "length c = n" "length t = 16"
  shows "overwrite (overwrite ([0 :: u8] @ iv @ replicate (n + 16) 0 @ rest) 13 c) (n + 13) t = [0] @ iv @ c @ t @ rest"
proof -
  have "overwrite (([0 :: u8] @ iv) @ replicate (n + 16) 0 @ rest) 13 c = ([0] @ iv @ c) @ replicate 16 0 @ rest"
    using assms by (subst overwrite_append) (simp_all del: append_assoc)
  then show ?thesis using assms by (simp add: overwrite_append [of _ "0 # iv @ c", simplified])
qed

lemma encrypt_layout:
  assumes "gcm_ok lib" "length (ss_dataEncKey s) = 16" "ev_rnd env RIv 12 = Inr iv" "length iv = 12" "data \<noteq> []"
    "length data \<le> 1048576" "ev_mem env MCipher"
  obtains c t where "lb_gcmDecrypt lib (ss_dataEncKey s) iv c t = Some data" "length c = length data" "length t = 16"
    "SpekeEncryptData lib env s data = Inr ([0] @ iv @ c @ t)"
    "\<And>out. length data + 29 \<le> length out \<Longrightarrow>
      SpekeEncryptDataInto lib env s data out = Inr (set_head out ([0] @ iv @ c @ t), length data + 29)"
proof -
  obtain c t where ct: "lb_gcmEncrypt lib (ss_dataEncKey s) iv data = Some (c, t)" "length c = length data" "length t = 16"
    "lb_gcmDecrypt lib (ss_dataEncKey s) iv c t = Some data"
    using assms(1,2,4) unfolding gcm_ok_def by blast
  note fr = frame_iv [OF assms(4)] frame_cipher [OF assms(4) ct(2,3)]
  have "SpekeEncryptData lib env s data = Inr ([0] @ iv @ c @ t)"
    using assms ct fr [where rest = "[]"] by (simp add: SpekeEncryptData_def add.commute)
  moreover have "SpekeEncryptDataInto lib env s data out = Inr (set_head out ([0] @ iv @ c @ t), length data + 29)"
    if "length data + 29 \<le> length out" for out
    using assms ct fr [where rest = "drop (length data + 29) out"] that
    by (simp add: SpekeEncryptDataInto_def set_head_def add.commute Let_def)
  ultimately show ?thesis using that ct by blast
qed

lemma decrypt_layout:
  assumes "length iv = 12" "length t = 16" "c \<noteq> []" "lb_gcmDecrypt lib (ss_dataEncKey s) iv c t = Some data"
    "length c \<le> cap"
  shows "SpekeDecryptDataTo lib s (ver # iv @ c @ t) cap = Inr data"
proof -
  have "drop (13 + length c) ((ver # iv @ c) @ t) = t" by (subst drop_append) (simp add: assms(1))
  then show ?thesis using assms by (simp add: SpekeDecryptDataTo_def)
qed

text \<open>
  Data a session encrypts, whether into memory of its own or into a caller's buffer, is decrypted
  to the same data by a session with the same key, into memory of its own or over the message; the two
  ways to encrypt give the same bytes, 29 more than the data.
\<close>

theorem speke_data_roundtrip:
  assumes "gcm_ok lib" "env_ok env" "env_ok env'" "length (ss_dataEncKey s) = 16" "ss_dataEncKey s' = ss_dataEncKey s"
    and "data \<noteq> []" "length data \<le> 1048576" "length data + 29 \<le> length out"
  shows "\<exists>enc. SpekeEncryptData lib env s data = Inr enc \<and> length enc = length data + 29 \<and>
    SpekeEncryptDataInto lib env s data out = Inr (set_head out enc, length enc) \<and>
    SpekeDecryptData lib env' s' enc = Inr data \<and>
    SpekeDecryptDataInPlace lib s' enc = Inr (set_head enc data, length data)"
proof -
  define iv where "iv = rnd_of env RIv 12"
  have iv: "ev_rnd env RIv 12 = Inr iv" "length iv = 12" using env_ok_rnd_of [OF assms(2)] by (simp_all add: iv_def)
  obtain c t where ct: "lb_gcmDecrypt lib (ss_dataEncKey s) iv c t = Some data" "length c = length data" "length t = 16"
    "SpekeEncryptData lib env s data = Inr ([0] @ iv @ c @ t)"
    "SpekeEncryptDataInto lib env s data out = Inr (set_head out ([0] @ iv @ c @ t), length data + 29)"
    using assms(8) encrypt_layout [OF assms(1,4) iv assms(6,7) env_ok_mem [OF assms(2)]] by blast
  have "c \<noteq> []" using ct(2) assms(6) by auto
  then have "SpekeDecryptDataTo lib s' (0 # iv @ c @ t) (length data) = Inr data"
    using decrypt_layout [OF iv(2) ct(3) _ , of c lib s' data "length data" 0] ct assms(5) by simp
  then show ?thesis
    using ct iv assms(3,6) by (simp add: SpekeDecryptData_def SpekeDecryptDataInPlace_def)
qed

definition demo_session :: TagSpekeSession where
  "demo_session = \<lparr>ss_spekeType = SPEKE_TYPE_CLIENT, ss_pinCode = [49], ss_negoContext = None, ss_dataEncKey = replicate 16 0\<rparr>"

theorem speke_data_roundtrip_witness:
  "\<exists>enc. SpekeEncryptData demo_lib (demo_env 1) demo_session [5, 6] = Inr enc \<and> length enc = 31 \<and>
    SpekeDecryptData demo_lib (demo_env 2) demo_session enc = Inr [5, 6] \<and>
    SpekeDecryptDataInPlace demo_lib demo_session enc = Inr (set_head enc [5, 6], 2)"
  using speke_data_roundtrip [OF demo_ok(3) demo_ok(5) [of 1] demo_ok(5) [of 2], of demo_session demo_session "[5, 6]" "replicate 40 0"]
  by (auto simp: demo_session_def)

text \<open>
  C24. Nothing ties decryption to a finished negotiation: a session just created decrypts, with the key
  of zeros, every message encrypted under sixteen zero bytes, although its peer proved nothing.
\<close>

theorem fresh_session_zero_key:
  assumes "SpekeInitSession lib env spekeType cb = Some s"
    and "lb_gcmDecrypt lib (replicate 16 0) iv cipher tag = Some data"
    and "length iv = 12" "length tag = 16" "cipher \<noteq> []" "length cipher \<le> cap"
  shows "SpekeDecryptDataTo lib s (ver # iv @ cipher @ tag) cap = Inr data"
proof -
  have "ss_dataEncKey s = replicate 16 0"
    using assms(1)
    by (auto simp: SpekeInitSession_def GetPinCode_def Let_def split: if_splits option.splits sum.splits prod.splits)
  then show ?thesis using assms by (simp add: decrypt_layout)
qed

theorem fresh_session_zero_key_witness:
  "SpekeInitSession demo_lib (demo_env 1) SPEKE_TYPE_CLIENT (Some demo_cb) = Some demo_session \<and>
    SpekeDecryptDataTo demo_lib demo_session (0 # demo_fill 1 12 @ [9] @ demo_fill 3 16) 1 = Inr [9]"
proof -
  have init: "SpekeInitSession demo_lib (demo_env 1) SPEKE_TYPE_CLIENT (Some demo_cb) = Some demo_session"
    using InitSession_ok(1) [OF demo_ok(5,1,2), of "[49]" demo_cb 1] by (simp add: demo_cb_def demo_session_def)
  then show ?thesis
    using fresh_session_zero_key [OF init, of "demo_fill 1 12" "[9]" "demo_fill 3 16" "[9]" 1 0]
    by (simp add: demo_lib_def demo_fill_length)
qed

end
