(* ===== verification/Ble_Speke.thy ===== *)
theory Ble_Speke
  imports Speke_Secure LL_Encrypt
begin

text \<open>
  The SPEKE session of the BLE service (\<open>ble_speke_session.c\<close>), the service that answers its messages
  (\<open>ble_svc_speke.c\<close>) and the session as the link layer uses it (\<open>linklayer_encrypt_speke.c\<close>).
\<close>

section \<open>The session of the service\<close>

abbreviation (input) IOTC_PINCODE_LEN :: nat where "IOTC_PINCODE_LEN \<equiv> 8"

record BleSpeke =
  gs_bleSpekeSess :: "TagSpekeSession option"
  gs_bleSpekeErrCode :: ret

text \<open>
  The callbacks of the session.  \<open>prof\<close> is the product's pin callback, which gets the number of bytes
  to write; the code of a notification is kept by the caller of the session, see below.
\<close>

definition NotifySpekeFinished :: "TagSpekeSession \<Rightarrow> ret \<Rightarrow> TagSpekeSession" where
  "NotifySpekeFinished session errorCode = SpekeFreeNegoContext session"

definition ble_cb :: "(nat \<Rightarrow> ret \<times> bytes) \<Rightarrow> SpekeCallback" where
  "ble_cb prof = \<lparr>sb_getPinCode = Some (\<lambda>_. prof IOTC_PINCODE_LEN), sb_notifySpekeFinished = Some NotifySpekeFinished\<rparr>"

text \<open>The codes of the three subscriptions are arguments.\<close>

definition CreateBleSpekeSess ::
    "speke_lib \<Rightarrow> speke_env \<Rightarrow> (nat \<Rightarrow> ret \<times> bytes) \<Rightarrow> ret list \<Rightarrow> BleSpeke \<Rightarrow> ret \<times> BleSpeke" where
  "CreateBleSpekeSess lib env prof subs g =
    (if gs_bleSpekeSess g \<noteq> None then (IOTC_OK, g)
     else
       (case filter (\<lambda>r. r \<noteq> IOTC_OK) subs of
          r # _ \<Rightarrow> (r, g)
        | [] \<Rightarrow>
            (case SpekeInitSession lib env SPEKE_TYPE_SERVER (Some (ble_cb prof)) of
               None \<Rightarrow> (IOTC_CORE_COMM_SEC_ERR_SPEKE_CREATE, g\<lparr>gs_bleSpekeSess := None\<rparr>)
             | Some s \<Rightarrow> (IOTC_OK, g\<lparr>gs_bleSpekeSess := Some s, gs_bleSpekeErrCode := IOTC_OK\<rparr>))))"

definition DestroyBleSpekeSess :: "BleSpeke \<Rightarrow> BleSpeke" where
  "DestroyBleSpekeSess g = g\<lparr>gs_bleSpekeSess := None\<rparr>"

definition GetBleSpekeErrCode :: "BleSpeke \<Rightarrow> ret" where
  "GetBleSpekeErrCode g = gs_bleSpekeErrCode g"

text \<open>The globals after a packet: the session, and the last code notified.\<close>

definition after_packet :: "BleSpeke \<Rightarrow> TagSpekeSession \<Rightarrow> ret list \<Rightarrow> BleSpeke" where
  "after_packet g s nt = g\<lparr>gs_bleSpekeSess := Some s,
     gs_bleSpekeErrCode := (if nt = [] then gs_bleSpekeErrCode g else last nt)\<rparr>"

section \<open>The service\<close>

definition STR_ERRCODE :: bytes where "STR_ERRCODE = ascii ''errcode''"

definition UtilsJsonCreateErrcode :: "speke_env \<Rightarrow> ret \<Rightarrow> (bytes \<times> json) list option" where
  "UtilsJsonCreateErrcode env errcode =
    (if \<not> ev_mem env (JCreate 8) then None
     else (case add_entry env [] STR_ERRCODE (JInt errcode) of Inl _ \<Rightarrow> None | Inr obj \<Rightarrow> Some obj))"

definition UtilsGenErrcodeJsonStr :: "speke_lib \<Rightarrow> speke_env \<Rightarrow> ret \<Rightarrow> ret + bytes" where
  "UtilsGenErrcodeJsonStr lib env errcode =
    (case UtilsJsonCreateErrcode env errcode of
       None \<Rightarrow> Inl IOTC_ADAPTER_JSON_ERR_CREATE
     | Some obj \<Rightarrow>
         (case lb_print lib (JObj obj) of
            None \<Rightarrow> Inl IOTC_CORE_COMM_UTILS_ERR_JSON_MALLOC_PRINT
          | Some out \<Rightarrow> Inr out))"

definition SpekeFramedPrefixLen :: "BtCmdParam \<Rightarrow> nat" where
  "SpekeFramedPrefixLen param = PKG_HEAD_LEN + 1 + 1 + length (bc_service param) + SVC_PAYLOAD_LEN_LEN"

text \<open>The buffer, and the length of the service frame in it.\<close>

definition SpekeFramedErrcodeJson :: "speke_lib \<Rightarrow> speke_env \<Rightarrow> BtCmdParam \<Rightarrow> ret \<Rightarrow> ret + bytes \<times> nat" where
  "SpekeFramedErrcodeJson lib env param errCode =
    (case UtilsGenErrcodeJsonStr lib env errCode of
       Inl r \<Rightarrow> Inl r
     | Inr errJson \<Rightarrow>
         (if length errJson = 0 then Inl IOTC_CORE_COMM_UTILS_ERR_JSON_MALLOC_PRINT
          else
            (let prefixLen = SpekeFramedPrefixLen param in
             if \<not> ev_mem env MErrFrame then Inl IOTC_ADAPTER_MEM_ERR_CALLOC
             else
               (let buf = replicate (prefixLen + length errJson + 1) 0 in
                case LinkLayerWriteSvcHeader (prefixLen - PKG_HEAD_LEN) param (length errJson) of
                  Inl r \<Rightarrow> Inl r
                | Inr header \<Rightarrow>
                    (let buf = overwrite buf PKG_HEAD_LEN header;
                         buf = overwrite buf prefixLen errJson
                     in Inr (take (prefixLen + length errJson) buf, prefixLen + length errJson - PKG_HEAD_LEN))))))"

definition PutBleSvcSpeke ::
    "speke_lib \<Rightarrow> speke_env \<Rightarrow> speke_env \<Rightarrow> speke_env \<Rightarrow> (nat \<Rightarrow> ret \<times> bytes) \<Rightarrow> ret list \<Rightarrow> BleSpeke \<Rightarrow> BtCmdParam \<Rightarrow>
      (ret + bytes option) \<times> BleSpeke" where
  "PutBleSvcSpeke lib env0 env env' prof subs g param =
    (case bc_request param of
       None \<Rightarrow> (Inl IOTC_ERR_PARAM_INVALID, g)
     | Some request \<Rightarrow>
         (if bc_requestLen param = 0 then (Inl IOTC_ERR_PARAM_INVALID, g)
          else
            (let (r, g) = CreateBleSpekeSess lib env0 prof subs g in
             if r \<noteq> IOTC_OK then (Inl r, g)
             else
               (let pkt = \<lparr>pk_data = take (bc_requestLen param) request, pk_writable = True\<rparr>;
                    (r, s, out, nt, _) = SpekeProcessPacketView lib env env' (ble_cb prof) (the (gs_bleSpekeSess g)) pkt;
                    g = after_packet g s nt
                in if r \<noteq> IOTC_OK
                   then
                     (let spekeErr = GetBleSpekeErrCode g in
                      case UtilsGenErrcodeJsonStr lib env' (if spekeErr \<noteq> IOTC_OK then spekeErr else r) of
                        Inl r \<Rightarrow> (Inl r, g)
                      | Inr errJson \<Rightarrow> (Inr (Some errJson), g))
                   else (Inr out, g)))))"

definition PutBleSvcSpekeFramed ::
    "speke_lib \<Rightarrow> speke_env \<Rightarrow> speke_env \<Rightarrow> speke_env \<Rightarrow> (nat \<Rightarrow> ret \<times> bytes) \<Rightarrow> ret list \<Rightarrow> BleSpeke \<Rightarrow> BtCmdParam \<Rightarrow>
      (ret + (bytes \<times> nat) option) \<times> BleSpeke" where
  "PutBleSvcSpekeFramed lib env0 env env' prof subs g param =
    (case bc_request param of
       None \<Rightarrow> (Inl IOTC_ERR_PARAM_INVALID, g)
     | Some request \<Rightarrow>
         (if bc_requestLen param = 0 then (Inl IOTC_ERR_PARAM_INVALID, g)
          else
            (let (r, g) = CreateBleSpekeSess lib env0 prof subs g in
             if r \<noteq> IOTC_OK then (Inl r, g)
             else
               (let pkt = \<lparr>pk_data = take (bc_requestLen param) request, pk_writable = True\<rparr>; prefixLen = SpekeFramedPrefixLen param;
                    (r, s, msg, nt, _) = SpekeProcessPacketPrefix lib env env' (ble_cb prof) (the (gs_bleSpekeSess g)) pkt prefixLen;
                    g = after_packet g s nt
                in if r \<noteq> IOTC_OK
                   then
                     (let spekeErr = GetBleSpekeErrCode g in
                      case SpekeFramedErrcodeJson lib env' param (if spekeErr \<noteq> IOTC_OK then spekeErr else r) of
                        Inl r \<Rightarrow> (Inl r, g)
                      | Inr frame \<Rightarrow> (Inr (Some frame), g))
                   else
                     (case msg of
                        None \<Rightarrow> (Inr None, g)
                      | Some m \<Rightarrow>
                          (case LinkLayerWriteSvcHeader (prefixLen - PKG_HEAD_LEN) param (length m - prefixLen) of
                             Inl r \<Rightarrow> (Inl r, g)
                           | Inr header \<Rightarrow>
                               (Inr (Some (overwrite m PKG_HEAD_LEN header, length m - PKG_HEAD_LEN)), g)))))))"

section \<open>The session as the link layer sees it\<close>

text \<open>What the link layer calls of a session; the environment is that of the calls.\<close>

definition ll_speke :: "speke_lib \<Rightarrow> speke_env \<Rightarrow> TagSpekeSession \<Rightarrow> SpekeSession" where
  "ll_speke lib env s = \<lparr>
     sp_encrypt = \<lambda>data n. case SpekeEncryptDataInto lib env s data (replicate n 0) of
       Inl r \<Rightarrow> (r, []) | Inr (out, len) \<Rightarrow> (IOTC_OK, take len out),
     sp_decrypt = \<lambda>data. case SpekeDecryptDataInPlace lib s data of
       Inl r \<Rightarrow> (r, []) | Inr (out, len) \<Rightarrow> (IOTC_OK, take len out)\<rparr>"

section \<open>Sessions are well formed\<close>

text \<open>The sizes of what the libraries write; no call is assumed to succeed.\<close>

definition lib_sizes :: "speke_lib \<Rightarrow> bool" where
  "lib_sizes lib \<longleftrightarrow>
    (\<forall>v n bs. lb_writeBinary lib v n = Some bs \<longrightarrow> length bs = n) \<and>
    (\<forall>salt info m n k. lb_hkdf lib salt info m n = Some k \<longrightarrow> length k = n) \<and>
    (\<forall>v t. lb_print lib v = Some t \<longrightarrow> t \<noteq> [])"

definition env_sizes :: "speke_env \<Rightarrow> bool" where
  "env_sizes env \<longleftrightarrow> (\<forall>k n b. ev_rnd env k n = Inr b \<longrightarrow> length b = n)"

definition session_wf :: "TagSpekeSession \<Rightarrow> bool" where
  "session_wf s \<longleftrightarrow> length (ss_dataEncKey s) = 16 \<and> (case ss_negoContext s of None \<Rightarrow> True | Some ctx \<Rightarrow> ctx_wf ctx)"

lemma InitNegoCtxPubKey_wf:
  "InitNegoCtxPubKey lib env ctx pin = (r, ctx') \<Longrightarrow> lib_sizes lib \<Longrightarrow> ctx_wf ctx \<Longrightarrow> ctx_wf ctx'"
  by (auto simp: InitNegoCtxPubKey_def ctx_wf_def lib_sizes_def split: sum.splits if_splits option.splits)

lemma NegoContextInit_wf:
  assumes "NegoContextInit lib env pin salt ty = Some ctx" "lib_sizes lib" "env_sizes env"
  shows "ctx_wf ctx"
proof -
  obtain ch p e r where ch: "ev_rnd env RChallenge 16 = Inr ch" and salt: "8 \<le> length salt" "length salt \<le> 16"
    and init: "InitNegoCtxPubKey lib env \<lparr>nc_salt = set_head (replicate 16 0) salt, nc_saltLen = length salt,
      nc_pubKey = None, nc_pubKeyLen = 0, nc_random = e, nc_prime = p, nc_localChallenge = ch, nc_remoteChallenge = replicate 16 0,
      nc_identityEncKey = replicate 16 0, nc_hmacKey = replicate 16 0\<rparr> pin = (r, ctx)"
    using assms(1) by (auto simp: NegoContextInit_def CheckInitParamValid_def Let_def split: if_splits sum.splits prod.splits)
  have "length ch = 16" using ch assms(3) by (simp add: env_sizes_def)
  with InitNegoCtxPubKey_wf [OF init assms(2)] salt show ?thesis by (simp add: ctx_wf_def)
qed

lemma SetRemoteChallenge_wf:
  "NegoContextSetRemoteChallenge ctx ch = (r, ctx') \<Longrightarrow> ctx_wf ctx \<Longrightarrow> ctx_wf ctx'"
  by (auto simp: NegoContextSetRemoteChallenge_def ctx_wf_def split: if_splits option.splits)

lemma NegoContextGenSessionKey_wf:
  "NegoContextGenSessionKey lib env ctx k = (r, ctx') \<Longrightarrow> ctx_wf ctx \<Longrightarrow> ctx_wf ctx'"
  by (auto simp: NegoContextGenSessionKey_def GenSessionKey_def ctx_wf_def split: if_splits sum.splits option.splits)

lemma ServerGenSessionKey_wf:
  "SpekeServerGenSessionKey lib env ctx payload v w = (r, ctx', pl) \<Longrightarrow> ctx_wf ctx \<Longrightarrow> ctx_wf ctx'"
  by (cases v) (auto simp: SpekeServerGenSessionKey_def Let_def dest: NegoContextGenSessionKey_wf
      split: if_splits prod.splits option.splits bool.splits)

lemma ParseClientCfm_wf:
  "ParseClientCfmPayload lib env ctx payload w = (r, ctx', pl) \<Longrightarrow> ctx_wf ctx \<Longrightarrow> ctx_wf ctx'"
  by (auto simp: ParseClientCfmPayload_def Let_def dest!: SetRemoteChallenge_wf ServerGenSessionKey_wf
      split: if_splits prod.splits option.splits sum.splits)

lemma drop_pubKey_wf: "ctx_wf ctx \<Longrightarrow> ctx_wf (drop_pubKey ctx)"
  by (simp add: ctx_wf_def drop_pubKey_def)

lemma Fallback_wf: "SpekeServerBuildRspFallback lib env ctx param = (r, ctx', m) \<Longrightarrow> ctx_wf ctx \<Longrightarrow> ctx_wf ctx'"
  by (auto simp: SpekeServerBuildRspFallback_def Let_def drop_pubKey_wf split: if_splits prod.splits sum.splits)

lemma GenDataEncKey_size: "NegoContextGenDataEncKey lib ctx = Inr key \<Longrightarrow> lib_sizes lib \<Longrightarrow> length key = 16"
  by (auto simp: NegoContextGenDataEncKey_def lib_sizes_def split: option.splits)

lemma ServerReq_wf:
  assumes "SpekeServerProcessReq lib env s param = (r, s', m)" "lib_sizes lib" "session_wf s"
  shows "session_wf s'"
  using assms InitNegoCtxPubKey_wf [of lib env _ "ss_pinCode s"]
  by (auto simp: SpekeServerProcessReq_def NegoContextRegenPubKey_def session_wf_def Let_def drop_pubKey_wf
      dest: Fallback_wf split: if_splits prod.splits sum.splits option.splits)

lemma ServerCfm_wf:
  assumes "SpekeServerProcessCfm lib env s param = (r, s', m, pl)" "lib_sizes lib" "session_wf s"
  shows "session_wf s'"
  using assms GenDataEncKey_size
  by (auto simp: SpekeServerProcessCfm_def session_wf_def Let_def dest!: ParseClientCfm_wf
      split: if_splits prod.splits sum.splits option.splits)

lemma ClientCfm_wf:
  assumes "SpekeClientProcessCfm lib s param = (r, s')" "lib_sizes lib" "session_wf s"
  shows "session_wf s'"
  using assms GenDataEncKey_size
  by (auto simp: SpekeClientProcessCfm_def session_wf_def Let_def split: if_splits sum.splits option.splits)

lemma ClientSetChallenge_wf: "ClientSetChallenge ctx payload = (r, ctx') \<Longrightarrow> ctx_wf ctx \<Longrightarrow> ctx_wf ctx'"
  by (auto simp: ClientSetChallenge_def dest: SetRemoteChallenge_wf split: sum.splits option.splits)

lemma InitFromPayload_wf:
  assumes "InitNegoCtxFromPayload lib env s payload = Inr ctx" "lib_sizes lib" "env_sizes env"
  shows "ctx_wf ctx"
proof -
  obtain pin t n ctx1 k r where init: "ClientInitNegoCtx lib env pin t n = Inr ctx1"
    and gen: "NegoContextGenSessionKey lib env ctx1 k = (r, ctx)"
    using assms(1) by (auto simp: InitNegoCtxFromPayload_def Let_def split: sum.splits if_splits prod.splits option.splits bool.splits)
  obtain salt ty ctx0 r0 where "NegoContextInit lib env pin salt ty = Some ctx0" "ClientSetChallenge ctx0 t = (r0, ctx1)"
    using init by (auto simp: ClientInitNegoCtx_def Let_def split: sum.splits if_splits prod.splits option.splits)
  then have "ctx_wf ctx1" using NegoContextInit_wf assms(2,3) ClientSetChallenge_wf by blast
  then show ?thesis using gen by (rule NegoContextGenSessionKey_wf [rotated])
qed

lemma ClientRsp_wf:
  assumes "SpekeClientProcessRsp lib env s param = (r, s', m)" "lib_sizes lib" "env_sizes env" "session_wf s"
  shows "session_wf s'"
  using assms InitFromPayload_wf [of lib env s "pp_payload param"]
  by (auto simp: SpekeClientProcessRsp_def session_wf_def Let_def split: if_splits sum.splits)

lemma Free_wf: "session_wf s \<Longrightarrow> session_wf (SpekeFreeNegoContext s)"
  by (simp add: session_wf_def SpekeFreeNegoContext_def)

lemma Dispatch_wf:
  assumes "SpekeProcessDispatch lib env cb s param = (r, s', m, nt, pl)" "releases cb" "lib_sizes lib" "env_sizes env"
    "session_wf s"
  shows "session_wf s'"
  using assms(1)
proof (cases rule: Dispatch_cases)
  case req then show ?thesis using ServerReq_wf assms(3,5) by blast
next
  case rsp then show ?thesis using ClientRsp_wf assms(3-5) by blast
next
  case (scfm s1) then show ?thesis using ServerCfm_wf [OF scfm(1) assms(3,5)] assms(2) by (simp add: notify_releases Free_wf)
next
  case (ccfm s1) then show ?thesis using ClientCfm_wf [OF ccfm(1) assms(3,5)] assms(2) by (simp add: notify_releases Free_wf)
qed (use assms(5) in simp)

lemma ble_cb_releases: "releases (ble_cb prof)"
  by (simp add: releases_def ble_cb_def NotifySpekeFinished_def [abs_def])

lemma Packet_wf:
  assumes "SpekeProcessPacketCommon lib env env' cb s pkt n = (r, s', m, nt, d)" "releases cb" "lib_sizes lib" "env_sizes env"
    "session_wf s"
  shows "session_wf s'"
  using assms(1)
proof (cases rule: Packet_session)
  case (2 param r1 m1 pl1)
  then show ?thesis using Dispatch_wf assms(2-5) by blast
qed (use assms(5) in simp)

lemma InitSession_wf:
  assumes "SpekeInitSession lib env ty cb = Some s" "lib_sizes lib" "env_sizes env"
  shows "session_wf s" "ss_spekeType s = ty"
  using assms(1) NegoContextInit_wf [OF _ assms(2,3)]
  by (auto simp: SpekeInitSession_def GetPinCode_def session_wf_def Let_def
      split: if_splits option.splits sum.splits prod.splits)

text \<open>The events of the service: a message of the service, and the disconnection that ends its session.\<close>

datatype ble_event =
    Framed speke_env speke_env speke_env "ret list" BtCmdParam
  | Unframed speke_env speke_env speke_env "ret list" BtCmdParam
  | Disconnect

fun ble_step :: "speke_lib \<Rightarrow> (nat \<Rightarrow> ret \<times> bytes) \<Rightarrow> BleSpeke \<Rightarrow> ble_event \<Rightarrow> BleSpeke" where
  "ble_step lib prof g (Framed env0 env env' subs param) = snd (PutBleSvcSpekeFramed lib env0 env env' prof subs g param)"
| "ble_step lib prof g (Unframed env0 env env' subs param) = snd (PutBleSvcSpeke lib env0 env env' prof subs g param)"
| "ble_step lib prof g Disconnect = DestroyBleSpekeSess g"

fun event_sizes :: "ble_event \<Rightarrow> bool" where
  "event_sizes (Framed env0 env env' subs param) = (env_sizes env0 \<and> env_sizes env)"
| "event_sizes (Unframed env0 env env' subs param) = (env_sizes env0 \<and> env_sizes env)"
| "event_sizes Disconnect = True"

definition ble_wf :: "BleSpeke \<Rightarrow> bool" where
  "ble_wf g \<longleftrightarrow> (case gs_bleSpekeSess g of None \<Rightarrow> True | Some s \<Rightarrow> session_wf s)"

lemma Create_wf:
  assumes "CreateBleSpekeSess lib env prof subs g = (r, g')" "lib_sizes lib" "env_sizes env" "ble_wf g"
  shows "ble_wf g'" "r = IOTC_OK \<Longrightarrow> gs_bleSpekeSess g' \<noteq> None"
  using assms(1,4) InitSession_wf(1) [OF _ assms(2,3)]
  by (auto simp: CreateBleSpekeSess_def ble_wf_def split: if_splits list.splits option.splits dest: filter_eq_ConsD)

text \<open>The packet a service call processes: the session it finds is well formed, and so is the one it leaves.\<close>

lemma session_of_call:
  assumes "CreateBleSpekeSess lib env0 prof subs g = (IOTC_OK, g1)" "lib_sizes lib" "env_sizes env0" "env_sizes env" "ble_wf g"
  obtains s where "gs_bleSpekeSess g1 = Some s" "session_wf s"
    "\<And>pkt n r s' m nt d. SpekeProcessPacketCommon lib env env' (ble_cb prof) s pkt n = (r, s', m, nt, d) \<Longrightarrow>
      ble_wf (after_packet g1 s' nt)"
proof -
  note g1 = Create_wf [OF assms(1-3,5)]
  then obtain s where s: "gs_bleSpekeSess g1 = Some s" "session_wf s" by (auto simp: ble_wf_def)
  have "ble_wf (after_packet g1 s' nt)" if "SpekeProcessPacketCommon lib env env' (ble_cb prof) s pkt n = (r, s', m, nt, d)"
    for pkt n r s' m nt d
    using Packet_wf [OF that ble_cb_releases assms(2,4) s(2)] by (simp add: ble_wf_def after_packet_def)
  then show ?thesis using that s by blast
qed

lemma Framed_wf:
  assumes "lib_sizes lib" "env_sizes env0" "env_sizes env" "ble_wf g"
  shows "ble_wf (snd (PutBleSvcSpekeFramed lib env0 env env' prof subs g param))"
proof -
  obtain r g1 where create: "CreateBleSpekeSess lib env0 prof subs g = (r, g1)" by (cases "CreateBleSpekeSess lib env0 prof subs g")
  show ?thesis
  proof (cases "r = IOTC_OK")
    case True
    obtain s where "gs_bleSpekeSess g1 = Some s" and after: "\<And>pkt n r s' m nt d.
        SpekeProcessPacketCommon lib env env' (ble_cb prof) s pkt n = (r, s', m, nt, d) \<Longrightarrow> ble_wf (after_packet g1 s' nt)"
      by (rule session_of_call [OF create [unfolded True] assms, of env']) blast
    then show ?thesis
      using create True assms(4)
      by (auto simp: PutBleSvcSpekeFramed_def SpekeProcessPacketPrefix_def Let_def split: option.splits prod.splits sum.splits)
  qed (use create Create_wf(1) [OF create assms(1,2,4)] assms(4) in \<open>auto simp: PutBleSvcSpekeFramed_def split: option.splits\<close>)
qed

lemma Unframed_wf:
  assumes "lib_sizes lib" "env_sizes env0" "env_sizes env" "ble_wf g"
  shows "ble_wf (snd (PutBleSvcSpeke lib env0 env env' prof subs g param))"
proof -
  obtain r g1 where create: "CreateBleSpekeSess lib env0 prof subs g = (r, g1)" by (cases "CreateBleSpekeSess lib env0 prof subs g")
  show ?thesis
  proof (cases "r = IOTC_OK")
    case True
    obtain s where "gs_bleSpekeSess g1 = Some s" and after: "\<And>pkt n r s' m nt d.
        SpekeProcessPacketCommon lib env env' (ble_cb prof) s pkt n = (r, s', m, nt, d) \<Longrightarrow> ble_wf (after_packet g1 s' nt)"
      by (rule session_of_call [OF create [unfolded True] assms, of env']) blast
    then show ?thesis
      using create True assms(4)
      by (auto simp: PutBleSvcSpeke_def SpekeProcessPacketView_def Let_def split: option.splits prod.splits sum.splits)
  qed (use create Create_wf(1) [OF create assms(1,2,4)] assms(4) in \<open>auto simp: PutBleSvcSpeke_def split: option.splits\<close>)
qed

lemma Destroy_wf: "ble_wf (DestroyBleSpekeSess g)"
  by (simp add: DestroyBleSpekeSess_def ble_wf_def)

lemma ble_step_wf: "lib_sizes lib \<Longrightarrow> event_sizes ev \<Longrightarrow> ble_wf g \<Longrightarrow> ble_wf (ble_step lib prof g ev)"
  by (cases ev) (simp_all add: Framed_wf Unframed_wf Destroy_wf)

interpretation ble_run: guarded_system "ble_step lib prof" "\<lambda>g. lib_sizes lib \<longrightarrow> ble_wf g" event_sizes for lib prof
  by unfold_locales (simp add: ble_step_wf)

text \<open>
  C21. Whatever messages and disconnections the BLE service handles, and whichever of its calls fail, its
  session stays well formed: the key has sixteen bytes, challenges and salt have their sizes, and a
  public key that is there has the size its length field says.
\<close>

theorem ble_session_invariant:
  assumes "lib_sizes lib" "list_all event_sizes evs" "gs_bleSpekeSess g = None"
  shows "case gs_bleSpekeSess (foldl (ble_step lib prof) g evs) of None \<Rightarrow> True | Some s \<Rightarrow> session_wf s"
proof -
  have "ble_wf g" using assms(3) by (simp add: ble_wf_def)
  then have "ble_wf (foldl (ble_step lib prof) g evs)" using ble_run.run_ok [OF assms(2), of lib g prof] assms(1) by blast
  then show ?thesis by (simp add: ble_wf_def)
qed

lemma demo_sizes: "lib_sizes demo_lib" "env_sizes (demo_env x)"
proof -
  have "compact v \<noteq> []" for v
  proof (cases v)
    case (JInt n)
    then show ?thesis by (simp add: dec.simps [of "nat n"])
  qed (simp_all add: ascii_def)
  then show "lib_sizes demo_lib" by (auto simp: lib_sizes_def demo_lib_def be_bytes_length demo_fill_length)
  show "env_sizes (demo_env x)" by (auto simp: env_sizes_def demo_env_def demo_fill_length)
qed

definition demo_param :: BtCmdParam where
  "demo_param = \<lparr>bc_dataFormat = 1, bc_opType = 2, bc_service = [115, 112], bc_request = Some [123, 125], bc_requestLen = 2\<rparr>"

theorem ble_session_invariant_witness:
  "case gs_bleSpekeSess (foldl (ble_step demo_lib (\<lambda>_. (0, [49]))) \<lparr>gs_bleSpekeSess = None, gs_bleSpekeErrCode = 0\<rparr>
      [Framed (demo_env 1) (demo_env 1) (demo_env 1) [0, 0, 0] demo_param]) of None \<Rightarrow> True | Some s \<Rightarrow> session_wf s"
  by (rule ble_session_invariant) (simp_all add: demo_sizes)

section \<open>Frames\<close>

lemma WrapPrefix_form:
  "SpekeCommonWrapPrefix env m n = (IOTC_OK, Some t) \<Longrightarrow> \<exists>p. m = Some p \<and> t = replicate n 0 @ p"
  by (auto simp: SpekeCommonWrapPrefix_def split: option.splits if_splits)

lemma CreateNegoMsg_ne: "SpekeCommonCreateNegoMsg lib env sid ty v = Inr t \<Longrightarrow> lib_sizes lib \<Longrightarrow> t \<noteq> []"
  by (auto simp: SpekeCommonCreateNegoMsg_def lib_sizes_def split: option.splits)

lemma RspMsg_form:
  assumes "CreateSpekeServerRspMsg env ctx sid n = Inr m" "ctx_wf ctx"
  shows "\<exists>p. p \<noteq> [] \<and> m = replicate n 0 @ p"
proof -
  obtain epk where "nc_pubKey ctx = Some epk" "ev_mem env MRspMsg"
    using assms(1) by (auto simp: CreateSpekeServerRspMsg_def Let_def split: if_splits option.splits)
  from RspMsg_text [OF assms(2) this] show ?thesis using assms(1) by auto
qed

lemma ServerReq_form:
  assumes "SpekeServerProcessReq lib env s param = (IOTC_OK, s', Some m)" "lib_sizes lib" "session_wf s"
  shows "\<exists>p. p \<noteq> [] \<and> m = replicate (pp_prefixLen param) 0 @ p"
proof -
  obtain ctx where ctx: "ctx_wf ctx" "CreateSpekeServerRspMsg env ctx (pp_sessionId param) (pp_prefixLen param) = Inr m \<or>
      (\<exists>ctx'. SpekeServerBuildRspFallback lib env ctx param = (IOTC_OK, ctx', Some m))"
    using assms InitNegoCtxPubKey_wf [of lib env _ "ss_pinCode s"]
    by (fastforce simp: SpekeServerProcessReq_def NegoContextRegenPubKey_def session_wf_def Let_def
        split: if_splits prod.splits sum.splits option.splits)
  from ctx(2) show ?thesis
  proof
    assume "\<exists>ctx'. SpekeServerBuildRspFallback lib env ctx param = (IOTC_OK, ctx', Some m)"
    then show ?thesis using assms(2)
      by (auto simp: SpekeServerBuildRspFallback_def Let_def split: sum.splits prod.splits if_splits
          dest!: WrapPrefix_form dest: CreateNegoMsg_ne)
  qed (use RspMsg_form ctx(1) in blast)
qed

lemma Dispatch_msg:
  assumes "SpekeProcessDispatch lib env cb s param = (IOTC_OK, s', Some m, nt, pl)" "lib_sizes lib" "session_wf s"
  shows "if pp_msgType param = SPEKE_SEC_DATA_MSG_TYPE_CLIENT_REQ
    then \<exists>p. p \<noteq> [] \<and> m = replicate (pp_prefixLen param) 0 @ p else m \<noteq> []"
proof (cases "pp_msgType param = SPEKE_SEC_DATA_MSG_TYPE_CLIENT_REQ")
  case True
  then have "SpekeServerProcessReq lib env s param = (IOTC_OK, s', Some m)"
    using assms(1) by (simp add: SpekeProcessDispatch_def split: prod.splits)
  then show ?thesis using ServerReq_form assms(2,3) True by simp
next
  case False
  have rsp: "m \<noteq> []" if "SpekeClientProcessRsp lib env s param = (IOTC_OK, s', Some m)" for s' m
    using that assms(2) by (auto simp: SpekeClientProcessRsp_def Let_def dest: CreateNegoMsg_ne split: if_splits sum.splits)
  have cfm: "m \<noteq> []" if "SpekeServerProcessCfm lib env s param = (IOTC_OK, s', Some m, pl)" for s' m pl
    using that assms(2)
    by (auto simp: SpekeServerProcessCfm_def Let_def dest: CreateNegoMsg_ne split: if_splits sum.splits option.splits prod.splits)
  show ?thesis
    using False assms(1) rsp cfm by (auto simp: SpekeProcessDispatch_def split: prod.splits if_splits)
qed

lemma Packet_form:
  assumes "SpekeProcessPacketCommon lib env env' cb s pkt n = (IOTC_OK, s', Some m, nt, d)" "lib_sizes lib" "session_wf s"
  shows "\<exists>p. p \<noteq> [] \<and> m = replicate n 0 @ p"
proof -
  have data: "pk_data pkt \<noteq> []" "SpekeFlatValidate (pk_data pkt) = IOTC_OK"
    using assms(1) by (auto simp: SpekeProcessPacketCommon_def Let_def split: if_splits)
  then obtain ty sid start len where parse: "ParseCommonData (pk_data pkt) = Inr (ty, sid, start, len)"
    using assms(1) ParseCommonData_err by (cases "ParseCommonData (pk_data pkt)") (auto simp: SpekeProcessPacketCommon_def Let_def)
  define param where "param = \<lparr>pp_msgType = ty, pp_sessionId = sid, pp_payload = view (pk_data pkt) (start, len),
    pp_payloadWritable = pk_writable pkt, pp_prefixLen = n\<rparr>"
  obtain r1 s1 m1 nt1 pl1 where disp: "SpekeProcessDispatch lib env cb s param = (r1, s1, m1, nt1, pl1)"
    by (metis prod_cases5)
  have ok: "r1 = IOTC_OK" "if ty = SPEKE_SEC_DATA_MSG_TYPE_CLIENT_REQ then m1 = Some m else SpekeCommonWrapPrefix env m1 n = (IOTC_OK, Some m)"
    using assms(1) data parse disp
    by (auto simp: SpekeProcessPacketCommon_def Let_def param_def [symmetric] split: if_splits prod.splits)
  show ?thesis
  proof (cases "ty = SPEKE_SEC_DATA_MSG_TYPE_CLIENT_REQ")
    case True
    then show ?thesis using Dispatch_msg [of lib env cb s param s1 m nt1 pl1] disp ok assms(2,3) by (simp add: param_def)
  next
    case False
    then obtain p where "m1 = Some p" "m = replicate n 0 @ p" using ok(2) WrapPrefix_form by force
    then show ?thesis using False Dispatch_msg [of lib env cb s param s1 p nt1 pl1] disp ok(1) assms(2,3) by (auto simp: param_def)
  qed
qed

text \<open>Writing the header in front of a message gives what the encoder of frames builds.\<close>

lemma frame_encoded:
  assumes "p \<noteq> []" "LinkLayerWriteSvcHeader k param (length p) = Inr header" "k = length (bc_service param) + 4"
  shows "EncodeCmdData True param (Some p) = Inr (replicate 7 0 @ header @ p, length header + length p)"
    "length header = length (bc_service param) + 4"
  using assms by (auto simp: EncodeCmdData_def LinkLayerWriteSvcHeader_def Let_def split: if_splits)

lemma header_over_prefix:
  assumes "length header = k"
  shows "overwrite (replicate (7 + k) (0 :: u8) @ p) 7 header = replicate 7 0 @ header @ p"
proof -
  have "replicate (7 + k) (0 :: u8) @ p = replicate 7 0 @ replicate k 0 @ p" by (simp only: replicate_add append_assoc)
  then show ?thesis using assms by (simp add: overwrite_append [of 7 "replicate 7 0", simplified])
qed

lemma ErrcodeJson_encoded:
  assumes "SpekeFramedErrcodeJson lib env param errCode = Inr (buf, len)"
  shows "\<exists>p. p \<noteq> [] \<and> EncodeCmdData True param (Some p) = Inr (buf, len)"
proof -
  define k where "k = length (bc_service param) + 4"
  have pre: "SpekeFramedPrefixLen param = 7 + k" by (simp add: SpekeFramedPrefixLen_def k_def)
  obtain p header where p: "p \<noteq> []" and header: "LinkLayerWriteSvcHeader k param (length p) = Inr header"
    and buf: "buf = take (7 + k + length p) (overwrite (overwrite (replicate (7 + k + length p + 1) 0) 7 header) (7 + k) p)"
    and len: "len = k + length p"
    using assms by (auto simp: SpekeFramedErrcodeJson_def pre Let_def split: sum.splits if_splits)
  note enc = frame_encoded [OF p header k_def]
  have "length header = k" using enc(2) by (simp add: k_def)
  from header_over_prefix [OF this, of "replicate (length p + 1) 0"]
  have "overwrite (replicate (7 + k + length p + 1) 0) 7 header = (replicate 7 0 @ header) @ replicate (length p + 1) 0"
    by (simp only: replicate_add append_assoc add.assoc)
  then have "overwrite (overwrite (replicate (7 + k + length p + 1) 0) 7 header) (7 + k) p = (replicate 7 0 @ header) @ p @ [0]"
    using enc(2) overwrite_append [of "7 + k" "replicate 7 0 @ header" "replicate (length p + 1) 0" p]
      drop_replicate [of "length p" "length p + 1" "0 :: u8"]
    by (simp add: k_def)
  then have "buf = replicate 7 0 @ header @ p" using enc(2) by (simp add: buf k_def)
  then show ?thesis using p enc len by (auto simp: k_def)
qed


text \<open>A request that is no message: the service answers with an error code.\<close>

lemma demo_parse: "SpekeFlatValidate [123, 125] = IOTC_OK" "\<exists>r. ParseCommonData [123, 125] = Inl r"
proof -
  show "SpekeFlatValidate [123, 125] = IOTC_OK" by code_simp
  have "get_str [123, 125] SPEKE_SESSION_ID_JSON = Inl IOTC_ADAPTER_JSON_ERR_PARSE"
    unfolding get_str_def SPEKE_SESSION_ID_JSON_def by code_simp
  then show "\<exists>r. ParseCommonData [123, 125] = Inl r" by (simp add: ParseCommonData_def)
qed


section \<open>Encrypted frames\<close>

text \<open>
  C22. The link layer over a real session: what one end encrypts with its session, the other end decrypts
  in place to the same data when the sessions share their key, as an agreement leaves them.
\<close>

theorem ll_speke_roundtrip:
  assumes "gcm_ok lib" "env_ok env" "length (ss_dataEncKey s) = 16" "ss_dataEncKey s' = ss_dataEncKey s"
    and "data \<noteq> []" "length data \<le> 1048576" "length data + 29 \<le> cap"
    and "cr_speke cr = Some (ll_speke lib env s)" "cr_speke cr' = Some (ll_speke lib env' s')"
  shows "\<exists>enc buf. LinkLayerSpekeEncryptInto cr (Some data) cap = Inr enc \<and>
    LinkLayerSpekeDecrypt cr' (Some enc) (length enc) = Inr (buf, length data) \<and> take (length data) buf = data"
proof -
  define iv where "iv = rnd_of env RIv 12"
  have iv: "ev_rnd env RIv 12 = Inr iv" "length iv = 12" using env_ok_rnd_of [OF assms(2)] by (simp_all add: iv_def)
  obtain c t where ct: "lb_gcmDecrypt lib (ss_dataEncKey s) iv c t = Some data" "length c = length data" "length t = 16"
    "SpekeEncryptDataInto lib env s data (replicate cap 0) = Inr (set_head (replicate cap 0) ([0] @ iv @ c @ t), length data + 29)"
    using assms(7) encrypt_layout [OF assms(1,3) iv assms(5,6) env_ok_mem [OF assms(2)]] by (metis length_replicate)
  have c: "c \<noteq> []" using ct(2) assms(5) by auto
  define enc where "enc = [0] @ iv @ c @ t"
  have len: "length enc = length data + 29" using ct iv by (simp add: enc_def)
  have "take (length data + 29) (set_head (replicate cap 0) enc) = enc" unfolding len [symmetric] by simp
  then have e: "LinkLayerSpekeEncryptInto cr (Some data) cap = Inr enc"
    using assms(5,8) ct(4) [folded enc_def] by (simp add: LinkLayerSpekeEncryptInto_def ll_speke_def)
  have "SpekeDecryptDataTo lib s' enc (length data) = Inr data"
    using decrypt_layout [OF iv(2) ct(3) c, of lib s' data "length data" 0] ct assms(4) by (simp add: enc_def)
  then have d: "SpekeDecryptDataInPlace lib s' enc = Inr (set_head enc data, length data)"
    using len assms(5) by (simp add: SpekeDecryptDataInPlace_def)
  have "LinkLayerSpekeDecrypt cr' (Some enc) (length enc) = Inr ((overwrite enc 0 data)[length data := 0], length data)"
    using assms(9) d len by (simp add: LinkLayerSpekeDecrypt_def ll_speke_def set_head_def)
  moreover have "take (length data) ((overwrite enc 0 data)[length data := 0]) = data"
    by (simp add: overwrite_def take_update_cancel)
  ultimately show ?thesis using e by blast
qed

definition demo_crypto :: ll_crypto where
  "demo_crypto = \<lparr>cr_sess = \<lparr>sk_encrypt = None, sk_decrypt = None, sk_calHmac = None, sk_checkHmac = None, sk_checkExist = None\<rparr>,
     cr_speke = Some (ll_speke demo_lib (demo_env 1) demo_session), cr_type = 1\<rparr>"

theorem ll_speke_roundtrip_witness:
  "\<exists>enc buf. LinkLayerSpekeEncryptInto demo_crypto (Some [1, 2, 3]) 64 = Inr enc \<and>
    LinkLayerSpekeDecrypt demo_crypto (Some enc) (length enc) = Inr (buf, 3) \<and> take 3 buf = [1, 2, 3]"
  unfolding numeral_3_eq_3
  using ll_speke_roundtrip [OF demo_ok(3) demo_ok(5), of demo_session demo_session "[1, 2, 3]" 64 demo_crypto 1 demo_crypto "demo_env 1"]
  by (simp add: demo_session_def demo_crypto_def)

end
