(* ===== verification/Cloud_Ctx.thy ===== *)
theory Cloud_Ctx
  imports Errcode Contracts Utils_Common
begin

text \<open>
  The context of the cloud connection (\<open>m2m_cloud_ctx.c\<close>) with the parts that keep their state in it:
  the login backoff (\<open>m2m_cloud_backoff.c\<close>), the heartbeat (\<open>m2m_cloud_heartbeat.c\<close>) and the access
  token (\<open>m2m_cloud_token.c\<close>).  The clock, random numbers, the ids the scheduler gives to timers and
  the fields of a parsed JSON answer are arguments.  Pointers to the context are not null: every caller
  passes the one static context.
\<close>

section \<open>Bits\<close>

definition UTILS_BIT :: "nat \<Rightarrow> u32" where
  "UTILS_BIT n = push_bit n 1"

definition UTILS_BIT_SET :: "u32 \<Rightarrow> nat \<Rightarrow> u32" where
  "UTILS_BIT_SET data n = data OR UTILS_BIT n"

definition UTILS_BIT_RESET :: "u32 \<Rightarrow> nat \<Rightarrow> u32" where
  "UTILS_BIT_RESET data n = data AND NOT (UTILS_BIT n)"

definition UTILS_IS_BIT_SET :: "u32 \<Rightarrow> nat \<Rightarrow> bool" where
  "UTILS_IS_BIT_SET data n = (data AND UTILS_BIT n \<noteq> 0)"

lemma is_bit_set [simp]: "n < 32 \<Longrightarrow> UTILS_IS_BIT_SET data n = bit data n"
proof -
  assume "n < 32"
  have "data AND UTILS_BIT n = (if bit data n then UTILS_BIT n else 0)"
    by (rule bit_word_eqI) (auto simp: UTILS_BIT_def bit_simps)
  moreover have "UTILS_BIT n \<noteq> 0"
    using \<open>n < 32\<close> by (auto simp: UTILS_BIT_def bit_eq_iff bit_simps)
  ultimately show ?thesis by (simp add: UTILS_IS_BIT_SET_def)
qed

lemma bit_set_simp [simp]: "n < 32 \<Longrightarrow> bit (UTILS_BIT_SET data n) m \<longleftrightarrow> m = n \<or> bit data m"
  by (auto simp: UTILS_BIT_SET_def UTILS_BIT_def bit_simps)

lemma bit_reset_simp [simp]: "bit (UTILS_BIT_RESET data n) m \<longleftrightarrow> m \<noteq> n \<and> bit data m"
  by (auto simp: UTILS_BIT_RESET_def UTILS_BIT_def bit_simps dest: bit_imp_le_length)

section \<open>Context\<close>

abbreviation (input) M2M_CLOUD_CTX_BIT_REGISTER :: nat where "M2M_CLOUD_CTX_BIT_REGISTER \<equiv> 0"
abbreviation (input) M2M_CLOUD_CTX_BIT_REVOKE :: nat where "M2M_CLOUD_CTX_BIT_REVOKE \<equiv> 1"
abbreviation (input) M2M_CLOUD_CTX_BIT_ENABLE_BACKOFF :: nat where "M2M_CLOUD_CTX_BIT_ENABLE_BACKOFF \<equiv> 2"
abbreviation (input) EVENT_SOURCE_INVALID_TIMER_FD :: int where "EVENT_SOURCE_INVALID_TIMER_FD \<equiv> -1"

text \<open>
  The fields the modelled code uses.  \<open>cc_fsmCtx\<close> is the current state of the state machine, \<^term>\<open>None\<close> for
  the null pointer; \<open>cc_devId\<close> is the device id, the first member of both structures of the union
  \<open>authInfo\<close>; strings are without the terminator.
\<close>

record M2mCloudContext =
  cc_bitMap :: u32
  cc_regTimer :: int
  cc_fsmTimer :: int
  cc_tokenTimer :: int
  cc_hbTimer :: int
  cc_fsmCtx :: "u32 option"
  cc_devId :: bytes
  cc_access :: bytes
  cc_refresh :: bytes
  cc_timeout :: u32
  cc_updateTime :: u32
  cc_tokenCnt :: u32
  cc_backoffCnt :: u8
  cc_before :: u32
  cc_interval :: u32
  cc_pskFinish :: bool
  cc_encrypt :: bool
  cc_salt :: bytes
  cc_key :: bytes
  cc_authCode :: bytes
  cc_authCodeId :: bytes
  cc_acTimeout :: int
  cc_sentCnt :: u16
  cc_hbInterval :: u32
  cc_reqId :: bytes
  cc_seq :: u32

definition M2mCloudCtxInit :: "M2mCloudContext" where
  "M2mCloudCtxInit = \<lparr>cc_bitMap = 0,
     cc_regTimer = EVENT_SOURCE_INVALID_TIMER_FD, cc_fsmTimer = EVENT_SOURCE_INVALID_TIMER_FD,
     cc_tokenTimer = EVENT_SOURCE_INVALID_TIMER_FD, cc_hbTimer = EVENT_SOURCE_INVALID_TIMER_FD, cc_fsmCtx = None,
     cc_devId = [], cc_access = [], cc_refresh = [], cc_timeout = 0, cc_updateTime = 0, cc_tokenCnt = 0,
     cc_backoffCnt = 0, cc_before = 0, cc_interval = 0, cc_pskFinish = False, cc_encrypt = False,
     cc_salt = replicate 16 0, cc_key = replicate 32 0, cc_authCode = replicate 16 0,
     cc_authCodeId = replicate 16 0, cc_acTimeout = 0, cc_sentCnt = 0, cc_hbInterval = 0, cc_reqId = [], cc_seq = 0\<rparr>"

section \<open>Backoff\<close>

definition IsM2mCloudBackoffTime :: "u32 \<Rightarrow> M2mCloudContext \<Rightarrow> bool" where
  "IsM2mCloudBackoffTime now ctx =
    (if \<not> UTILS_IS_BIT_SET (cc_bitMap ctx) M2M_CLOUD_CTX_BIT_ENABLE_BACKOFF then False
     else if cc_backoffCnt ctx = 0 then False
     else if UtilsDeltaTime now (cc_before ctx) \<ge> cc_interval ctx then False
     else True)"

definition M2mCloudBackoffInit :: "M2mCloudContext \<Rightarrow> M2mCloudContext" where
  "M2mCloudBackoffInit ctx =
    (if UTILS_IS_BIT_SET (cc_bitMap ctx) M2M_CLOUD_CTX_BIT_REGISTER then ctx
     else ctx\<lparr>cc_bitMap := UTILS_BIT_SET (cc_bitMap ctx) M2M_CLOUD_CTX_BIT_ENABLE_BACKOFF, cc_backoffCnt := 0\<rparr>)"

text \<open>The loop over \<open>cnt\<close>: the range of the waiting time, before it is limited.\<close>

primrec backoff_range :: "nat \<Rightarrow> u32 \<times> u32 \<Rightarrow> u32 \<times> u32" where
  "backoff_range 0 r = r"
| "backoff_range (Suc n) r = backoff_range n (snd r, snd r * 3)"

text \<open>\<^term>\<open>None\<close> is a division by zero.\<close>

definition M2mCloudBackoffUpdate :: "u32 \<Rightarrow> u32 \<Rightarrow> M2mCloudContext \<Rightarrow> M2mCloudContext option" where
  "M2mCloudBackoffUpdate random now ctx =
    (if \<not> UTILS_IS_BIT_SET (cc_bitMap ctx) M2M_CLOUD_CTX_BIT_ENABLE_BACKOFF then Some ctx
     else
       (let (mn, mx) = backoff_range (unat (cc_backoffCnt ctx)) (0, 5000);
            mx = (if mx > 600000 then max mn 600000 else mx);
            ctx = (if cc_backoffCnt ctx < 5 then ctx\<lparr>cc_backoffCnt := cc_backoffCnt ctx + 1\<rparr> else ctx)
        in if mx - mn = 0 then None
           else Some (ctx\<lparr>cc_interval := random mod (mx - mn) + mn, cc_before := now\<rparr>)))"

section \<open>Heartbeat\<close>

text \<open>The scheduler's timers are removed by their id; the ids removed are returned in order.\<close>

definition M2mCloudEnableHeartbeat :: "int \<Rightarrow> M2mCloudContext \<Rightarrow> ret \<times> M2mCloudContext" where
  "M2mCloudEnableHeartbeat timer ctx =
    (let ctx = ctx\<lparr>cc_sentCnt := 0, cc_hbInterval := 50 * 1000\<rparr>
     in if cc_hbTimer ctx < 0 then
          (let ctx = ctx\<lparr>cc_hbTimer := timer\<rparr>
           in if cc_hbTimer ctx < 0 then (cc_hbTimer ctx, ctx) else (IOTC_OK, ctx))
        else (IOTC_OK, ctx))"

definition M2mCloudDisableHeartbeat :: "M2mCloudContext \<Rightarrow> M2mCloudContext \<times> int list" where
  "M2mCloudDisableHeartbeat ctx =
    (let ctx = ctx\<lparr>cc_sentCnt := 0, cc_hbInterval := 0\<rparr>
     in if cc_hbTimer ctx \<ge> 0 then (ctx\<lparr>cc_hbTimer := EVENT_SOURCE_INVALID_TIMER_FD\<rparr>, [cc_hbTimer ctx]) else (ctx, []))"

section \<open>Token\<close>

abbreviation (input) CLOUD_ERRCODE_OK :: int where "CLOUD_ERRCODE_OK \<equiv> 0"
abbreviation (input) CLOUD_ERRCODE_CODE_EXPIRED :: int where "CLOUD_ERRCODE_CODE_EXPIRED \<equiv> 3"
abbreviation (input) CLOUD_ERRCODE_CODE_SECRET_ERR :: int where "CLOUD_ERRCODE_CODE_SECRET_ERR \<equiv> 5"
abbreviation (input) CLOUD_ERRCODE_CODE_DEV_DELETED :: int where "CLOUD_ERRCODE_CODE_DEV_DELETED \<equiv> 6"

text \<open>The fields of an answer that carries a token: each the value or the error of reading it.\<close>

record token_json =
  tj_errcode :: "ret + int"
  tj_time :: ret
  tj_access :: "ret + bytes"
  tj_refresh :: "ret + bytes"
  tj_timeout :: "ret + u32"

record CloudTokenInfo =
  ti_access :: bytes
  ti_refresh :: bytes
  ti_timeout :: u32

definition CalcWaitTime :: "u32 \<Rightarrow> M2mCloudContext \<Rightarrow> ret + u32" where
  "CalcWaitTime now ctx =
    (let expireTime = cc_timeout ctx; passTime = UtilsDeltaTime now (cc_updateTime ctx) in
     if passTime \<ge> expireTime \<or> cc_tokenCnt ctx > 4 then Inl IOTC_SDK_AILIFE_WIFI_ERR_CLOUD_TOKEN_EXPIRE
     else
       (let refreshInterval = drop_bit 5 expireTime;
            nextReqTime = expireTime - refreshInterval * (4 - cc_tokenCnt ctx)
        in Inr (if nextReqTime \<le> passTime then 0 else nextReqTime - passTime)))"

text \<open>The wait time handed to the scheduler, when a timer is added.\<close>

definition UpdateTokenRefreshTimer :: "int \<Rightarrow> u32 \<Rightarrow> M2mCloudContext \<Rightarrow> ret \<times> M2mCloudContext \<times> u32 list" where
  "UpdateTokenRefreshTimer timer now ctx =
    (if cc_tokenTimer ctx < 0 then
       (case CalcWaitTime now ctx of
          Inl r \<Rightarrow> (r, ctx, [])
        | Inr waitTime \<Rightarrow>
           (let ctx = ctx\<lparr>cc_tokenTimer := timer\<rparr>
            in (if cc_tokenTimer ctx < 0 then cc_tokenTimer ctx else IOTC_OK, ctx, [waitTime])))
     else (IOTC_OK, ctx, []))"

definition UpdateCloudTokenInfo :: "int \<Rightarrow> u32 \<Rightarrow> M2mCloudContext \<Rightarrow> CloudTokenInfo \<Rightarrow> ret \<times> M2mCloudContext \<times> u32 list" where
  "UpdateCloudTokenInfo timer now ctx token =
    (if ti_access token = [] then (IOTC_SDK_AILIFE_WIFI_ERR_CLOUD_INVALID_ACCESS_TOKEN, ctx, [])
     else if ti_refresh token = [] then (IOTC_SDK_AILIFE_WIFI_ERR_CLOUD_INVALID_REFRESH_TOKEN, ctx, [])
     else if ti_timeout token = 0 then (IOTC_SDK_AILIFE_WIFI_ERR_CLOUD_INVALID_TOKEN_TIMEOUT, ctx, [])
     else if length (ti_access token) > 40 then (IOTC_ERR_SECUREC_MEMCPY, ctx\<lparr>cc_access := []\<rparr>, [])
     else
       (let ctx = ctx\<lparr>cc_access := ti_access token\<rparr> in
        if length (ti_refresh token) > 40 then (IOTC_ERR_SECUREC_MEMCPY, ctx\<lparr>cc_refresh := []\<rparr>, [])
        else UpdateTokenRefreshTimer timer now
          (ctx\<lparr>cc_refresh := ti_refresh token, cc_updateTime := now, cc_timeout := ti_timeout token\<rparr>)))"

definition GetTokenInfo :: "token_json \<Rightarrow> ret + CloudTokenInfo" where
  "GetTokenInfo j =
    (case tj_access j of
       Inl r \<Rightarrow> Inl r
     | Inr access \<Rightarrow>
        (case tj_refresh j of
           Inl r \<Rightarrow> Inl r
         | Inr refresh \<Rightarrow>
            (case tj_timeout j of
               Inl r \<Rightarrow> Inl r
             | Inr timeout \<Rightarrow>
                if timeout > UINT32_MAX div 1000 then Inl IOTC_SDK_AILIFE_WIFI_ERR_CLOUD_TOKEN_TIMEOUT_INVALID
                else Inr \<lparr>ti_access = access, ti_refresh = refresh, ti_timeout = timeout * 1000\<rparr>)))"

definition ParseTokenInfo :: "int \<Rightarrow> u32 \<Rightarrow> M2mCloudContext \<Rightarrow> token_json \<Rightarrow> ret \<times> M2mCloudContext \<times> u32 list" where
  "ParseTokenInfo timer now ctx j =
    (if tj_time j \<noteq> IOTC_OK then (tj_time j, ctx, [])
     else
       (case GetTokenInfo j of
          Inl r \<Rightarrow> (r, ctx, [])
        | Inr token \<Rightarrow> UpdateCloudTokenInfo timer now ctx token))"

text \<open>The outcomes of cleaning the login data and of the restore are arguments.\<close>

definition DealErrCodeRsp :: "ret \<Rightarrow> ret \<Rightarrow> int \<Rightarrow> ret" where
  "DealErrCodeRsp clean restore errcode =
    (if errcode = CLOUD_ERRCODE_CODE_DEV_DELETED \<or> errcode = CLOUD_ERRCODE_CODE_EXPIRED \<or>
        errcode = CLOUD_ERRCODE_CODE_SECRET_ERR
     then (if clean \<noteq> IOTC_OK then clean else if restore \<noteq> IOTC_OK then restore else IOTC_OK)
     else errcode)"

text \<open>The answer is \<^term>\<open>None\<close> when its payload is not JSON.\<close>

definition CloudTokenRefreshRespHandler ::
    "ret \<Rightarrow> ret \<Rightarrow> int \<Rightarrow> u32 \<Rightarrow> M2mCloudContext \<Rightarrow> token_json option \<Rightarrow> bool \<Rightarrow> M2mCloudContext" where
  "CloudTokenRefreshRespHandler clean restore timer now ctx resp timeout =
    (if timeout then ctx
     else
       (case resp of
          None \<Rightarrow> ctx
        | Some j \<Rightarrow>
           (case tj_errcode j of
              Inl r \<Rightarrow> ctx
            | Inr errcode \<Rightarrow>
               if DealErrCodeRsp clean restore errcode = IOTC_OK then ctx
               else if errcode \<noteq> CLOUD_ERRCODE_OK then ctx
               else fst (snd (ParseTokenInfo timer now ctx j)))))"

text \<open>The login answer: the result, the error code of the cloud when there is one, and the context.\<close>

definition M2mCloudLoginResponseParse ::
    "ret \<Rightarrow> ret \<Rightarrow> int \<Rightarrow> u32 \<Rightarrow> M2mCloudContext \<Rightarrow> token_json option \<Rightarrow> ret \<times> int option \<times> M2mCloudContext" where
  "M2mCloudLoginResponseParse clean restore timer now ctx resp =
    (case resp of
       None \<Rightarrow> (IOTC_ADAPTER_JSON_ERR_PARSE, None, ctx)
     | Some j \<Rightarrow>
        (case tj_errcode j of
           Inl r \<Rightarrow> (r, None, ctx)
         | Inr errcode \<Rightarrow>
            (let r = DealErrCodeRsp clean restore errcode in
             if r \<noteq> IOTC_OK then (r, Some errcode, ctx)
             else if errcode = CLOUD_ERRCODE_OK then
               (case ParseTokenInfo timer now ctx j of (r, ctx, _) \<Rightarrow> (r, Some errcode, ctx))
             else (r, Some errcode, ctx))))"

definition M2mCloudDisableTokenInfo :: "M2mCloudContext \<Rightarrow> M2mCloudContext \<times> int list" where
  "M2mCloudDisableTokenInfo ctx =
    (let ctx = ctx\<lparr>cc_access := [], cc_refresh := [], cc_timeout := 0, cc_updateTime := 0, cc_tokenCnt := 0\<rparr>
     in if cc_tokenTimer ctx \<ge> 0 then (ctx\<lparr>cc_tokenTimer := EVENT_SOURCE_INVALID_TIMER_FD\<rparr>, [cc_tokenTimer ctx]) else (ctx, []))"

section \<open>Waiting times\<close>

lemma backoff_cnt_cases:
  assumes "(c :: u8) \<le> 5"
  shows "c = 0 \<or> c = 1 \<or> c = 2 \<or> c = 3 \<or> c = 4 \<or> c = 5"
proof -
  define k where "k = unat c"
  have c: "c = word_of_nat k" by (simp add: k_def)
  have "k \<le> 5" using assms by (simp add: k_def word_le_nat_alt)
  then have "k = 0 \<or> k = 1 \<or> k = 2 \<or> k = 3 \<or> k = 4 \<or> k = 5" by arith
  then show ?thesis unfolding c by (elim disjE) simp_all
qed

lemma backoff_range_numeral: "backoff_range (numeral n) r = backoff_range (pred_numeral n) (snd r, snd r * 3)"
  by (simp add: numeral_eq_Suc)

text \<open>The range of the waiting time is not empty and ends at ten minutes, for every count up to 5.\<close>

definition backoff_limits :: "u8 \<Rightarrow> u32 \<times> u32" where
  "backoff_limits cnt = (let (mn, mx) = backoff_range (unat cnt) (0, 5000) in (mn, if mx > 600000 then max mn 600000 else mx))"

lemma backoff_limits_ok:
  assumes "cnt \<le> 5" "backoff_limits cnt = (mn, mx)"
  shows "mn < mx \<and> mx \<le> 600000"
  using backoff_cnt_cases [OF assms(1)] assms(2)
  by (elim disjE) (auto simp: backoff_limits_def backoff_range_numeral max_def)

lemma backoff_random:
  assumes "mn < mx"
  shows "mn \<le> r mod (mx - mn) + mn \<and> r mod (mx - mn) + mn < (mx :: u32)"
proof -
  have d: "unat (mx - mn) = unat mx - unat mn" using assms by (simp add: unat_sub less_imp_le)
  have "unat mn < unat mx" using assms by (simp add: word_less_nat_alt)
  then have "unat (r mod (mx - mn)) < unat mx - unat mn" using d by (simp add: unat_mod)
  moreover have "unat mx < 2 ^ 32" using unat_u32_lt [of mx] by simp
  ultimately have "unat (r mod (mx - mn) + mn) = unat (r mod (mx - mn)) + unat mn" by (simp add: unat_word_ariths)
  then show ?thesis using \<open>unat (r mod (mx - mn)) < _\<close> by (simp add: word_le_nat_alt word_less_nat_alt)
qed

lemma M2mCloudBackoffUpdate_bounds:
  assumes "cc_backoffCnt ctx \<le> 5"
  shows "\<exists>ctx'. M2mCloudBackoffUpdate random now ctx = Some ctx' \<and> cc_backoffCnt ctx' \<le> 5 \<and>
    (bit (cc_bitMap ctx) M2M_CLOUD_CTX_BIT_ENABLE_BACKOFF \<longrightarrow> cc_interval ctx' < 600000 \<and> cc_before ctx' = now)"
proof -
  obtain mn mx where lim: "backoff_limits (cc_backoffCnt ctx) = (mn, mx)" by fastforce
  then obtain mx' where mx: "backoff_range (unat (cc_backoffCnt ctx)) (0, 5000) = (mn, mx')"
      "(if mx' > 600000 then max mn 600000 else mx') = mx"
    by (auto simp: backoff_limits_def split: prod.splits)
  have lt: "mn < mx" "mx \<le> 600000" using backoff_limits_ok [OF assms lim] by simp_all
  have "cc_backoffCnt ctx < 5 \<Longrightarrow> cc_backoffCnt ctx + 1 \<le> 5" by (simp add: inc_le)
  moreover have "random mod (mx - mn) + mn < 600000" using backoff_random [OF lt(1), of random] lt(2) by (blast intro: order.strict_trans2)
  moreover have "mx \<noteq> mn" using lt by simp
  ultimately show ?thesis using assms by (simp add: M2mCloudBackoffUpdate_def mx Let_def)
qed

lemma drop_bit_5: "unat (drop_bit 5 (e :: u32)) = unat e div 32"
  by (simp add: unat_drop_bit_eq drop_bit_eq_div unat_div)



text \<open>
  A successful answer to a token refresh is thrown away: the error code 0 passes through \<open>DealErrCodeRsp\<close>
  as the result 0, which the handler takes for a handled error.  No answer, whatever it carries, ever
  changes the token, its expiry time or its timer.
\<close>

theorem token_refresh_ignored:
  "CloudTokenRefreshRespHandler clean restore timer now ctx resp timeout = ctx"
  by (auto simp: CloudTokenRefreshRespHandler_def DealErrCodeRsp_def split: option.splits sum.splits)

end
