(* ===== verification/Cloud_Psk.thy ===== *)
theory Cloud_Psk
  imports Cloud_Ctx Coap_Codec
begin

text \<open>
  Requests to the cloud: the CoAP options of a request (\<open>m2m_cloud_send.c\<close>), the session key agreed with the
  cloud and the payload encryption with it (\<open>m2m_cloud_psk.c\<close>), over the AES-CBC adapter (\<open>iotc_aes.c\<close>).
  The block cipher, the key derivation, random numbers and allocation outcomes are arguments.
\<close>

section \<open>AES-CBC adapter\<close>

datatype IotcPaddingMode =
    ADAPTER_PADDING_PKCS7
  | ADAPTER_PADDING_ONE_AND_ZEROS
  | ADAPTER_PADDING_ZEROS_AND_LEN
  | ADAPTER_PADDING_ZEROS
  | ADAPTER_PADDING_NONE

datatype cbc_mode = MBEDTLS_ENCRYPT | MBEDTLS_DECRYPT

record IotcAesCbcParam =
  ac_mode :: IotcPaddingMode
  ac_key :: bytes
  ac_iv :: bytes
  ac_data :: bytes

text \<open>The cipher of the crypto library: direction, padding, key, iv and data, to an error or the output.\<close>

type_synonym cbc_cipher = "cbc_mode \<Rightarrow> IotcPaddingMode \<Rightarrow> bytes \<Rightarrow> bytes \<Rightarrow> bytes \<Rightarrow> int + bytes"

definition IsAesCbcParamValid :: "IotcAesCbcParam \<Rightarrow> bool" where
  "IsAesCbcParamValid param =
    (if length (ac_key param) \<noteq> 16 \<and> length (ac_key param) \<noteq> 24 \<and> length (ac_key param) \<noteq> 32 then False
     else if length (ac_data param) = 0 \<or> ac_mode param = ADAPTER_PADDING_NONE \<and> length (ac_data param) mod 16 \<noteq> 0 then False
     else True)"

text \<open>
  The result, the buffer and the length reported; the length is left alone on an error.  \<^term>\<open>None\<close> is a write
  behind the buffer.  \<open>setup\<close> tells whether the context, key and padding could be set.
\<close>

definition AesCbcCrypt ::
    "cbc_cipher \<Rightarrow> bool \<Rightarrow> IotcAesCbcParam \<Rightarrow> cbc_mode \<Rightarrow> bytes \<Rightarrow> nat \<Rightarrow> (ret \<times> bytes \<times> nat) option" where
  "AesCbcCrypt cipher setup param mode buf bufLen =
    (if \<not> setup then Some (IOTC_ADAPTER_CRYPTO_ERR_AES_CBC_SETUP, buf, bufLen)
     else
       (case cipher mode (ac_mode param) (ac_key param) (take 16 (ac_iv param)) (ac_data param) of
          Inl e \<Rightarrow> Some (if mode = MBEDTLS_DECRYPT then IOTC_ADAPTER_CRYPTO_ERR_AES_CBC_ENC
                     else IOTC_ADAPTER_CRYPTO_ERR_AES_CBC_DEC, buf, bufLen)
        | Inr out \<Rightarrow>
           if length out > length buf then None else Some (IOTC_OK, overwrite buf 0 out, length out)))"

definition IotcAesCbcEncrypt ::
    "cbc_cipher \<Rightarrow> bool \<Rightarrow> IotcAesCbcParam \<Rightarrow> bytes \<Rightarrow> nat \<Rightarrow> (ret \<times> bytes \<times> nat) option" where
  "IotcAesCbcEncrypt cipher setup param buf bufLen =
    (if \<not> IsAesCbcParamValid param \<or> bufLen = 0 then Some (IOTC_ERR_PARAM_INVALID, buf, bufLen)
     else AesCbcCrypt cipher setup param MBEDTLS_ENCRYPT buf bufLen)"

definition IotcAesCbcDecrypt ::
    "cbc_cipher \<Rightarrow> bool \<Rightarrow> IotcAesCbcParam \<Rightarrow> bytes \<Rightarrow> nat \<Rightarrow> (ret \<times> bytes \<times> nat) option" where
  "IotcAesCbcDecrypt cipher setup param buf bufLen =
    (if \<not> IsAesCbcParamValid param \<or> bufLen = 0 then Some (IOTC_ERR_PARAM_INVALID, buf, bufLen)
     else AesCbcCrypt cipher setup param MBEDTLS_DECRYPT buf bufLen)"

section \<open>Options of a request\<close>

abbreviation (input) CLOUD_OPTION_BIT_ACCESS_TOKEN_ID :: nat where "CLOUD_OPTION_BIT_ACCESS_TOKEN_ID \<equiv> 0"
abbreviation (input) CLOUD_OPTION_BIT_REQ_ID :: nat where "CLOUD_OPTION_BIT_REQ_ID \<equiv> 1"
abbreviation (input) CLOUD_OPTION_BIT_DEV_ID :: nat where "CLOUD_OPTION_BIT_DEV_ID \<equiv> 2"
abbreviation (input) CLOUD_OPTION_BIT_SEQ_NUM_ID :: nat where "CLOUD_OPTION_BIT_SEQ_NUM_ID \<equiv> 3"

record CloudOption =
  co_uri :: "bytes option list"
  co_opBitMap :: u8

definition option_bits :: "nat list \<Rightarrow> u8" where
  "option_bits ns = ucast (fold (\<lambda>n b. b OR UTILS_BIT n) ns 0)"

definition op_bit :: "CloudOption \<Rightarrow> nat \<Rightarrow> bool" where
  "op_bit option n = UTILS_IS_BIT_SET (ucast (co_opBitMap option)) n"

definition uri_of :: "string list \<Rightarrow> bytes option list" where
  "uri_of = map (\<lambda>s. Some (map of_char s))"

definition CloudOptionNumCalc :: "CloudOption \<Rightarrow> nat" where
  "CloudOptionNumCalc option = length (co_uri option) +
     of_bool (op_bit option CLOUD_OPTION_BIT_ACCESS_TOKEN_ID) +
     of_bool (op_bit option CLOUD_OPTION_BIT_SEQ_NUM_ID) +
     of_bool (op_bit option CLOUD_OPTION_BIT_REQ_ID) +
     of_bool (op_bit option CLOUD_OPTION_BIT_DEV_ID)"

definition coap_option :: "nat \<Rightarrow> bytes option \<Rightarrow> nat \<Rightarrow> CoapOption" where
  "coap_option num d n = \<lparr>op_option = num, op_value = \<lparr>cd_data = d, cd_len = n\<rparr>\<rparr>"

text \<open>The bytes of a number in network order.\<close>

definition IotcHtonl :: "u32 \<Rightarrow> bytes" where
  "IotcHtonl n = [ucast (drop_bit 24 n), ucast (drop_bit 16 n), ucast (drop_bit 8 n), ucast n]"

text \<open>The request id: the random bytes in hexadecimal, read up to the terminator.\<close>

definition build_req_id :: "bytes \<Rightarrow> bytes \<Rightarrow> bytes" where
  "build_req_id rnd old =
    (case UtilsHexify (Some rnd) (Some (replicate 41 0)) of
       (_, Some b) \<Rightarrow> takeWhile (\<lambda>c. c \<noteq> 0) b
     | _ \<Rightarrow> old)"

text \<open>
  The new context and the options, \<^term>\<open>Inl\<close> when the array cannot be allocated.  \<open>rnd\<close> are the 20 random bytes of the request id; \<open>seqok\<close>
  tells whether the sequence number could be allocated.  \<^term>\<open>None\<close> is a write behind the array.
\<close>

definition BuildCloudOption ::
    "bool \<Rightarrow> bool \<Rightarrow> bytes \<Rightarrow> M2mCloudContext \<Rightarrow> CloudOption \<Rightarrow> (M2mCloudContext \<times> (unit + CoapOption list)) option" where
  "BuildCloudOption memok seqok rnd ctx option =
    (if \<not> memok then Some (ctx, Inl ())
     else
       (let opNum = CloudOptionNumCalc option;
            ops = map (\<lambda>u. coap_option 11 u (case u of None \<Rightarrow> 0 | Some s \<Rightarrow> length s)) (co_uri option);
            ops = (if op_bit option CLOUD_OPTION_BIT_ACCESS_TOKEN_ID
                   then ops @ [coap_option 2049 (Some (cc_access ctx)) (length (cc_access ctx))] else ops);
            ctx = (if op_bit option CLOUD_OPTION_BIT_REQ_ID
                   then ctx\<lparr>cc_reqId := build_req_id rnd (cc_reqId ctx)\<rparr> else ctx);
            ops = (if op_bit option CLOUD_OPTION_BIT_REQ_ID
                   then ops @ [coap_option 2050 (Some (cc_reqId ctx)) (length (cc_reqId ctx))] else ops);
            ops = (if op_bit option CLOUD_OPTION_BIT_DEV_ID
                   then ops @ [coap_option 2051 (Some (cc_devId ctx)) (length (cc_devId ctx))] else ops);
            ops = ops @ [coap_option 2053 (if seqok then Some (IotcHtonl (cc_seq ctx)) else None) 4];
            ctx = ctx\<lparr>cc_seq := cc_seq ctx + 1\<rparr>
        in if length ops > opNum then None else Some (ctx, Inr ops)))"

definition M2mCloudGetPskOption :: CloudOption where
  "M2mCloudGetPskOption = \<lparr>co_uri = uri_of [''.sys'', ''psk''],
     co_opBitMap = option_bits [CLOUD_OPTION_BIT_SEQ_NUM_ID, CLOUD_OPTION_BIT_REQ_ID, CLOUD_OPTION_BIT_DEV_ID]\<rparr>"

definition M2mCloudGetRegisterOption :: CloudOption where
  "M2mCloudGetRegisterOption = \<lparr>co_uri = uri_of [''.sys'', ''activate''],
     co_opBitMap = option_bits [CLOUD_OPTION_BIT_SEQ_NUM_ID, CLOUD_OPTION_BIT_REQ_ID, CLOUD_OPTION_BIT_DEV_ID]\<rparr>"

definition M2mCloudGetLoginOption :: CloudOption where
  "M2mCloudGetLoginOption = \<lparr>co_uri = uri_of [''.sys'', ''login''],
     co_opBitMap = option_bits [CLOUD_OPTION_BIT_SEQ_NUM_ID, CLOUD_OPTION_BIT_REQ_ID, CLOUD_OPTION_BIT_DEV_ID]\<rparr>"

definition M2mCloudGetAuthCodeOption :: CloudOption where
  "M2mCloudGetAuthCodeOption = \<lparr>co_uri = uri_of [''.sys'', ''authCode''],
     co_opBitMap = option_bits [CLOUD_OPTION_BIT_SEQ_NUM_ID, CLOUD_OPTION_BIT_REQ_ID, CLOUD_OPTION_BIT_DEV_ID,
       CLOUD_OPTION_BIT_ACCESS_TOKEN_ID]\<rparr>"

definition M2mCloudGetRevokeOption :: CloudOption where
  "M2mCloudGetRevokeOption = \<lparr>co_uri = uri_of [''.sys'', ''revoke''],
     co_opBitMap = option_bits [CLOUD_OPTION_BIT_SEQ_NUM_ID, CLOUD_OPTION_BIT_REQ_ID, CLOUD_OPTION_BIT_DEV_ID,
       CLOUD_OPTION_BIT_ACCESS_TOKEN_ID]\<rparr>"

definition M2mCloudGetDevInfoSyncOption :: CloudOption where
  "M2mCloudGetDevInfoSyncOption = \<lparr>co_uri = uri_of [''.sys'', ''devInfoSync''],
     co_opBitMap = option_bits [CLOUD_OPTION_BIT_SEQ_NUM_ID, CLOUD_OPTION_BIT_REQ_ID, CLOUD_OPTION_BIT_DEV_ID,
       CLOUD_OPTION_BIT_ACCESS_TOKEN_ID]\<rparr>"

definition M2mCloudGetHeartbeatOption :: CloudOption where
  "M2mCloudGetHeartbeatOption = \<lparr>co_uri = uri_of [''.sys'', ''heartbeat''],
     co_opBitMap = option_bits [CLOUD_OPTION_BIT_SEQ_NUM_ID, CLOUD_OPTION_BIT_REQ_ID, CLOUD_OPTION_BIT_DEV_ID,
       CLOUD_OPTION_BIT_ACCESS_TOKEN_ID]\<rparr>"

definition M2mCloudGetTokenRefreshOption :: CloudOption where
  "M2mCloudGetTokenRefreshOption = \<lparr>co_uri = uri_of [''.sys'', ''refresh''],
     co_opBitMap = option_bits [CLOUD_OPTION_BIT_SEQ_NUM_ID, CLOUD_OPTION_BIT_REQ_ID, CLOUD_OPTION_BIT_DEV_ID,
       CLOUD_OPTION_BIT_ACCESS_TOKEN_ID]\<rparr>"

definition M2mCloudGetAuthCodeByDevIdSyncOption :: CloudOption where
  "M2mCloudGetAuthCodeByDevIdSyncOption = \<lparr>co_uri = uri_of [''.sys'', ''authCode''],
     co_opBitMap = option_bits [CLOUD_OPTION_BIT_SEQ_NUM_ID, CLOUD_OPTION_BIT_REQ_ID, CLOUD_OPTION_BIT_DEV_ID,
       CLOUD_OPTION_BIT_ACCESS_TOKEN_ID]\<rparr>"

definition M2mCloudEcoDevInfoSyncOption :: CloudOption where
  "M2mCloudEcoDevInfoSyncOption = \<lparr>co_uri = uri_of [''.sys'', ''devInfoSync''],
     co_opBitMap = option_bits [CLOUD_OPTION_BIT_SEQ_NUM_ID, CLOUD_OPTION_BIT_REQ_ID, CLOUD_OPTION_BIT_DEV_ID,
       CLOUD_OPTION_BIT_ACCESS_TOKEN_ID]\<rparr>"

definition M2mCloudEcoDevStateSyncOption :: CloudOption where
  "M2mCloudEcoDevStateSyncOption = \<lparr>co_uri = uri_of [''.sys'', ''statusSync''],
     co_opBitMap = option_bits [CLOUD_OPTION_BIT_SEQ_NUM_ID, CLOUD_OPTION_BIT_REQ_ID, CLOUD_OPTION_BIT_DEV_ID,
       CLOUD_OPTION_BIT_ACCESS_TOKEN_ID]\<rparr>"

definition M2mCloudGetDevStatusSyncOption :: CloudOption where
  "M2mCloudGetDevStatusSyncOption = \<lparr>co_uri = uri_of [''.sys'', ''statusSync''],
     co_opBitMap = option_bits [CLOUD_OPTION_BIT_SEQ_NUM_ID, CLOUD_OPTION_BIT_REQ_ID, CLOUD_OPTION_BIT_DEV_ID,
       CLOUD_OPTION_BIT_ACCESS_TOKEN_ID]\<rparr>"

section \<open>Session key\<close>

text \<open>The fields of the answer to the key request: each the value or the error of reading it.\<close>

record psk_json =
  pj_errcode :: "ret + int"
  pj_sn2 :: "ret + bytes"
  pj_encrypt :: "ret + bytes"

text \<open>
  The key derivation takes whether the registration or the login secret is used, and the salt.  The result and the
  context; the salt buffer takes 8 bytes of each side.
\<close>

definition StationSessKeyGen ::
    "(bool \<Rightarrow> bytes \<Rightarrow> ret + bytes) \<Rightarrow> M2mCloudContext \<Rightarrow> bytes \<Rightarrow> bytes \<Rightarrow> ret \<times> M2mCloudContext" where
  "StationSessKeyGen kdf ctx sn1 sn2 =
    (if sn1 = [] \<or> sn2 = [] then (IOTC_ERR_PARAM_INVALID, ctx)
     else if length sn1 > 8 then (IOTC_ERR_SECUREC_MEMCPY, ctx\<lparr>cc_salt := overwrite (cc_salt ctx) 0 (replicate 8 0)\<rparr>)
     else
       (let ctx = ctx\<lparr>cc_salt := overwrite (cc_salt ctx) 0 sn1\<rparr> in
        if length sn2 > 8 then (IOTC_ERR_SECUREC_MEMCPY, ctx\<lparr>cc_salt := overwrite (cc_salt ctx) 8 (replicate 8 0)\<rparr>)
        else
          (let ctx = ctx\<lparr>cc_salt := overwrite (cc_salt ctx) 8 sn2\<rparr> in
           case kdf (UTILS_IS_BIT_SET (cc_bitMap ctx) M2M_CLOUD_CTX_BIT_REGISTER) (cc_salt ctx) of
             Inl r \<Rightarrow> (r, ctx)
           | Inr key \<Rightarrow> (IOTC_OK, ctx\<lparr>cc_key := key, cc_pskFinish := True\<rparr>))))"

text \<open>
  \<open>sn1\<close> and \<open>sn2\<close> are the static buffers of 8 bytes; the second is written from the answer.  The result, the context
  and the second buffer.
\<close>

definition M2mCloudParsePskResponse ::
    "(bool \<Rightarrow> bytes \<Rightarrow> ret + bytes) \<Rightarrow> M2mCloudContext \<Rightarrow> bytes \<Rightarrow> bytes \<Rightarrow> psk_json option \<Rightarrow>
      ret \<times> M2mCloudContext \<times> bytes" where
  "M2mCloudParsePskResponse kdf ctx sn1 sn2 resp =
    (case resp of
       None \<Rightarrow> (IOTC_ADAPTER_JSON_ERR_PARSE, ctx, sn2)
     | Some j \<Rightarrow>
        (case pj_errcode j of
           Inl r \<Rightarrow> (r, ctx, sn2)
         | Inr errcode \<Rightarrow>
            if errcode \<noteq> CLOUD_ERRCODE_OK then (IOTC_ERROR, ctx, sn2)
            else
              (case pj_sn2 j of
                 Inl r \<Rightarrow> (r, ctx, sn2)
               | Inr sn2Str \<Rightarrow>
                  (case pj_encrypt j of
                     Inl r \<Rightarrow> (r, ctx, sn2)
                   | Inr encryptModeStr \<Rightarrow>
                      (let ctx = ctx\<lparr>cc_encrypt := (encryptModeStr = map of_char ''plaintext'')\<rparr>;
                           sn2 = the (snd (UtilsUnhexify (Some sn2Str) (Some sn2)));
                           ctx = snd (StationSessKeyGen kdf ctx sn1 sn2)
                       in (IOTC_OK, ctx, sn2))))))"

text \<open>The result and the cipher text; \<^term>\<open>None\<close> is a write behind the buffer.\<close>

definition PskEncryptData ::
    "cbc_cipher \<Rightarrow> bool \<Rightarrow> bool \<Rightarrow> M2mCloudContext \<Rightarrow> bytes \<Rightarrow> (ret + bytes) option" where
  "PskEncryptData cipher setup memok ctx data =
    (if \<not> cc_pskFinish ctx \<or> data = [] then Some (Inl IOTC_ERR_PARAM_INVALID)
     else
       (let outDataLen = (length data + length data mod 16 + 1 + 29) mod 2 ^ 32 in
        if \<not> memok then Some (Inl IOTC_ADAPTER_MEM_ERR_MALLOC)
        else
          (case IotcAesCbcEncrypt cipher setup
               \<lparr>ac_mode = ADAPTER_PADDING_PKCS7, ac_key = take 16 (cc_key ctx), ac_iv = drop 16 (cc_key ctx), ac_data = data\<rparr>
               (replicate outDataLen 0) outDataLen of
             None \<Rightarrow> None
           | Some (r, outData, outDataLen) \<Rightarrow>
              if r \<noteq> IOTC_OK then Some (Inl r) else Some (Inr (take outDataLen outData)))))"

definition PskDecryptData ::
    "cbc_cipher \<Rightarrow> bool \<Rightarrow> bool \<Rightarrow> M2mCloudContext \<Rightarrow> bytes \<Rightarrow> (ret + bytes) option" where
  "PskDecryptData cipher setup memok ctx data =
    (if \<not> cc_pskFinish ctx \<or> data = [] then Some (Inl IOTC_ERR_PARAM_INVALID)
     else
       (let outDataLen = length data in
        if \<not> memok then Some (Inl IOTC_ADAPTER_MEM_ERR_MALLOC)
        else
          (case IotcAesCbcDecrypt cipher setup
               \<lparr>ac_mode = ADAPTER_PADDING_PKCS7, ac_key = take 16 (cc_key ctx), ac_iv = drop 16 (cc_key ctx), ac_data = data\<rparr>
               (replicate outDataLen 0) outDataLen of
             None \<Rightarrow> None
           | Some (r, outData, outDataLen) \<Rightarrow>
              if \<not> outDataLen < length outData then None
              else
                (let outData = outData[outDataLen := 0] in
                 if r \<noteq> IOTC_OK then Some (Inl r) else Some (Inr (take outDataLen outData))))))"

section \<open>Properties\<close>

text \<open>The padded length of PKCS7, as the crypto library documents it.\<close>

definition pkcs7_len :: "nat \<Rightarrow> nat" where
  "pkcs7_len n = n + (16 - n mod 16)"

lemma pkcs7_room: "pkcs7_len n \<le> n + n mod 16 + 30"
  by (simp add: pkcs7_len_def)

abbreviation psk_key :: "M2mCloudContext \<Rightarrow> bytes" where "psk_key ctx \<equiv> take 16 (cc_key ctx)"
abbreviation psk_iv :: "M2mCloudContext \<Rightarrow> bytes" where "psk_iv ctx \<equiv> take 16 (drop 16 (cc_key ctx))"

text \<open>
  C37. With a session key, data that the cipher encrypts and decrypts back comes back: the buffer of the encryption has
  room for the padded output, and the decryption of the result gives the data, terminated inside its buffer.
\<close>

theorem Psk_roundtrip:
  assumes "cc_pskFinish ctx" "length (cc_key ctx) = 32" "data \<noteq> []" "length data < 2 ^ 31"
    and "cipher MBEDTLS_ENCRYPT ADAPTER_PADDING_PKCS7 (psk_key ctx) (psk_iv ctx) data = Inr c"
    and "length c = pkcs7_len (length data)"
    and "cipher MBEDTLS_DECRYPT ADAPTER_PADDING_PKCS7 (psk_key ctx) (psk_iv ctx) c = Inr data"
  shows "PskEncryptData cipher True True ctx data = Some (Inr c) \<and> PskDecryptData cipher True True ctx c = Some (Inr data)"
proof -
  have n: "(length data + length data mod 16 + 1 + 29) mod 2 ^ 32 = length data + length data mod 16 + 30"
    using assms(4) by simp
  have c: "c \<noteq> []" "length data < length c" using assms(6) by (auto simp: pkcs7_len_def)
  show ?thesis
    using assms c pkcs7_room [of "length data"]
    by (simp add: PskEncryptData_def PskDecryptData_def IotcAesCbcEncrypt_def IotcAesCbcDecrypt_def IsAesCbcParamValid_def
        AesCbcCrypt_def n overwrite_def)
qed

text \<open>
  The decryption writes a terminator one byte behind its buffer exactly when decrypting fails: the
  length is still that of the whole buffer then.  A forged or damaged message from the network is enough.
\<close>

theorem PskDecryptData_overrun:
  assumes "cc_pskFinish ctx" "length (cc_key ctx) = 32" "data \<noteq> []"
    and "\<And>out. cipher MBEDTLS_DECRYPT ADAPTER_PADDING_PKCS7 (psk_key ctx) (psk_iv ctx) data = Inr out \<Longrightarrow> length out < length data"
  shows "PskDecryptData cipher setup True ctx data = None \<longleftrightarrow>
    \<not> setup \<or> (\<exists>e. cipher MBEDTLS_DECRYPT ADAPTER_PADDING_PKCS7 (psk_key ctx) (psk_iv ctx) data = Inl e)"
proof (cases "cipher MBEDTLS_DECRYPT ADAPTER_PADDING_PKCS7 (psk_key ctx) (psk_iv ctx) data")
  case (Inl e)
  then show ?thesis
    using assms(1-3) by (simp add: PskDecryptData_def IotcAesCbcDecrypt_def IsAesCbcParamValid_def AesCbcCrypt_def Let_def)
next
  case (Inr out)
  then show ?thesis
    using assms(1-3) assms(4) [OF Inr]
    by (simp add: PskDecryptData_def IotcAesCbcDecrypt_def IsAesCbcParamValid_def AesCbcCrypt_def Let_def)
qed

text \<open>A stand-in for the cipher: PKCS7 padding without encryption.\<close>

definition pad_cipher :: cbc_cipher where
  "pad_cipher mode padding key iv data =
    (case mode of
       MBEDTLS_ENCRYPT \<Rightarrow> Inr (data @ replicate (16 - length data mod 16) (of_nat (16 - length data mod 16)))
     | MBEDTLS_DECRYPT \<Rightarrow>
        if data = [] \<or> unat (last data) = 0 \<or> unat (last data) > 16 then Inl (- 1)
        else Inr (take (length data - unat (last data)) data))"

definition psk_ctx :: M2mCloudContext where
  "psk_ctx = M2mCloudCtxInit\<lparr>cc_pskFinish := True\<rparr>"

theorem Psk_roundtrip_witness:
  "PskEncryptData pad_cipher True True psk_ctx [1, 2, 3] = Some (Inr ([1, 2, 3] @ replicate 13 13)) \<and>
   PskDecryptData pad_cipher True True psk_ctx ([1, 2, 3] @ replicate 13 13) = Some (Inr [1, 2, 3])"
proof (rule Psk_roundtrip)
  show "pad_cipher MBEDTLS_DECRYPT ADAPTER_PADDING_PKCS7 (psk_key psk_ctx) (psk_iv psk_ctx) ([1, 2, 3] @ replicate 13 13) = Inr [1, 2, 3]"
    by (simp add: pad_cipher_def last_append)
qed (simp_all add: psk_ctx_def M2mCloudCtxInit_def pad_cipher_def pkcs7_len_def)

theorem PskDecryptData_overrun_witness:
  "PskDecryptData pad_cipher True True psk_ctx (replicate 16 0) = None \<and>
   PskDecryptData pad_cipher True True psk_ctx (replicate 16 1) \<noteq> None"
proof -
  have k: "cc_pskFinish psk_ctx" "length (cc_key psk_ctx) = 32" by (simp_all add: psk_ctx_def M2mCloudCtxInit_def)
  have "PskDecryptData pad_cipher True True psk_ctx (replicate 16 b) = None \<longleftrightarrow> \<not> True \<or>
      (\<exists>e. pad_cipher MBEDTLS_DECRYPT ADAPTER_PADDING_PKCS7 (psk_key psk_ctx) (psk_iv psk_ctx) (replicate 16 b) = Inl e)" for b
    by (rule PskDecryptData_overrun [OF k]) (auto simp: pad_cipher_def unat_gt_0 split: if_splits)
  then show ?thesis by (simp add: pad_cipher_def)
qed

section \<open>Options of the requests\<close>

definition cloud_requests :: "CloudOption list" where
  "cloud_requests = [M2mCloudGetPskOption, M2mCloudGetRegisterOption, M2mCloudGetLoginOption, M2mCloudGetAuthCodeOption,
     M2mCloudGetRevokeOption, M2mCloudGetDevInfoSyncOption, M2mCloudGetHeartbeatOption, M2mCloudGetTokenRefreshOption,
     M2mCloudGetAuthCodeByDevIdSyncOption, M2mCloudEcoDevInfoSyncOption, M2mCloudEcoDevStateSyncOption,
     M2mCloudGetDevStatusSyncOption]"

lemmas cloud_request_defs =
  M2mCloudGetPskOption_def M2mCloudGetRegisterOption_def M2mCloudGetLoginOption_def M2mCloudGetAuthCodeOption_def
  M2mCloudGetRevokeOption_def M2mCloudGetDevInfoSyncOption_def M2mCloudGetHeartbeatOption_def
  M2mCloudGetTokenRefreshOption_def M2mCloudGetAuthCodeByDevIdSyncOption_def M2mCloudEcoDevInfoSyncOption_def
  M2mCloudEcoDevStateSyncOption_def M2mCloudGetDevStatusSyncOption_def

lemma option_bits_eval: "option_bits [3, Suc 0, 2] = 14" "option_bits [3, Suc 0, 2, 0] = 15"
  by (simp_all add: option_bits_def UTILS_BIT_def)

lemma cloud_request_shape:
  assumes "req \<in> set cloud_requests"
  shows "\<exists>a b. co_uri req = [Some a, Some b] \<and> length a \<le> 12 \<and> length b \<le> 12 \<and> (co_opBitMap req = 14 \<or> co_opBitMap req = 15)"
  using assms by (auto simp: cloud_requests_def cloud_request_defs uri_of_def option_bits_eval)

lemma hex_digit_nonzero: "d < 16 \<Longrightarrow> hex_digit d \<noteq> 0"
  by (auto simp: hex_digit_def word_nat unat_word_ariths split: if_splits)

lemma hex_string_nonzero: "c \<in> set (hex_string bs) \<Longrightarrow> c \<noteq> 0"
  by (induction bs) (auto simp: hex_digit_nonzero nibbles_lt)

lemma request_id:
  assumes "length rnd = 20"
  shows "build_req_id rnd old = hex_string rnd"
proof -
  have "hex_loop rnd 0 (replicate 41 0) = hex_string rnd @ [0]"
    using assms by (simp add: hex_loop_overwrite overwrite_def)
  moreover have "rnd \<noteq> []" using assms by auto
  ultimately show ?thesis using assms hex_string_nonzero by (auto simp: build_req_id_def UtilsHexify_def takeWhile_append2)
qed

lemma length_options_bytes:
  "options_ok prev os \<Longrightarrow> length (options_bytes prev os) \<le> (\<Sum>o1\<leftarrow>os. 5 + cd_len (op_value o1))"
proof (induction os arbitrary: prev)
  case (Cons o1 os)
  have "length (ext_bytes v) \<le> 2" if "ext_ok v" for v using that by (simp add: ext_bytes_def ext_ok_def)
  then have "length (ext_bytes (op_option o1 - prev)) \<le> 2" "length (ext_bytes (cd_len (op_value o1))) \<le> 2"
    using Cons.prems by (simp_all add: option_ok_def)
  then have "length (option_bytes prev o1) \<le> 5 + cd_len (op_value o1)"
    using Cons.prems length_option_bytes [of prev o1] by simp
  then show ?case using Cons.IH [of "op_option o1"] Cons.prems by simp
qed simp



end
