(* ===== verification/Utils_Fsm.thy ===== *)
theory Utils_Fsm
  imports Errcode Contracts
begin

text \<open>
  The table-driven state machine (\<open>utils_fsm.c\<close>).  States are 32-bit integers, here words read as signed; a handler takes
  the parameter and the current state to the changed parameter and the next state.
\<close>

type_synonym 'p UtilsFsmStateHandler = "'p \<Rightarrow> u32 \<Rightarrow> 'p \<times> u32"

record 'p UtilsFsmStateNode =
  fn_state :: u32
  fn_handler :: "'p UtilsFsmStateHandler option"

text \<open>\<open>uf_onChange\<close> tells whether the callback for changes is set.\<close>

record 'p UtilsFsm =
  uf_cur :: u32
  uf_onChange :: bool
  uf_tbl :: "'p UtilsFsmStateNode list option"

text \<open>The result, the machine, the parameter and the changes reported.\<close>

definition UtilsFsmRunning ::
    "'p UtilsFsm option \<Rightarrow> 'p \<Rightarrow> ret \<times> 'p UtilsFsm option \<times> 'p \<times> (u32 \<times> u32) list" where
  "UtilsFsmRunning fsm param =
    (case fsm of
       None \<Rightarrow> (IOTC_ERR_PARAM_INVALID, None, param, [])
     | Some f \<Rightarrow>
        (case uf_tbl f of
           None \<Rightarrow> (IOTC_ERR_PARAM_INVALID, fsm, param, [])
         | Some tbl \<Rightarrow>
            if sint (uf_cur f) < 0 then (sint (uf_cur f), fsm, param, [])
            else
              (case find (\<lambda>node. fn_state node = uf_cur f \<and> fn_handler node \<noteq> None) tbl of
                 None \<Rightarrow> (sint (uf_cur f), fsm, param, [])
               | Some node \<Rightarrow>
                  (let before = uf_cur f;
                       (param, cur) = the (fn_handler node) param before
                   in (sint cur, Some (f\<lparr>uf_cur := cur\<rparr>), param,
                       if cur \<noteq> before \<and> uf_onChange f then [(before, cur)] else [])))))"

text \<open>The machine and the changes reported.\<close>

definition UtilsFsmSwitch :: "'p UtilsFsm option \<Rightarrow> u32 \<Rightarrow> 'p UtilsFsm option \<times> (u32 \<times> u32) list" where
  "UtilsFsmSwitch fsm nextId =
    (case fsm of
       None \<Rightarrow> (None, [])
     | Some f \<Rightarrow>
        if nextId \<noteq> uf_cur f then
          (Some (f\<lparr>uf_cur := nextId\<rparr>), if uf_onChange f then [(uf_cur f, nextId)] else [])
        else (fsm, []))"

definition UtilsFsmStateSelfCirculation :: "'p UtilsFsmStateHandler" where
  "UtilsFsmStateSelfCirculation param cur = (param, cur)"

text \<open>A machine without a handler for its state stays where it is.\<close>

lemma UtilsFsmRunning_stays:
  "uf_tbl f = Some tbl \<Longrightarrow> \<forall>node \<in> set tbl. fn_state node = uf_cur f \<longrightarrow> fn_handler node = None \<Longrightarrow>
    UtilsFsmRunning (Some f) param = (sint (uf_cur f), Some f, param, [])"
proof -
  assume *: "uf_tbl f = Some tbl" "\<forall>node \<in> set tbl. fn_state node = uf_cur f \<longrightarrow> fn_handler node = None"
  then have "find (\<lambda>node. fn_state node = uf_cur f \<and> fn_handler node \<noteq> None) tbl = None" by (auto simp: find_None_iff)
  then show ?thesis using *(1) by (simp add: UtilsFsmRunning_def)
qed

lemma UtilsFsmSwitch_cur [simp]:
  "map_option uf_cur (fst (UtilsFsmSwitch fsm nextId)) = map_option (\<lambda>_. nextId) fsm"
  by (auto simp: UtilsFsmSwitch_def split: option.splits)

end
