(* ===== verification/Cloud_Fsm.thy ===== *)
theory Cloud_Fsm
  imports Cloud_Psk Utils_Fsm
begin

text \<open>
  The state machine of the cloud connection (\<open>m2m_cloud_fsm.c\<close>) with the handlers of the answers and the part of the device manager
  that drives it (\<open>m2m_cloud_dev_mgr.c\<close>).  The outcomes of the link, of
  the device service, of the scheduler and of sending are arguments; what the code asks of other components is
  returned as a list of outputs, and a listener that is called by a published event is a step of its own.
  \<^term>\<open>None\<close> is a fault: a null pointer that is read or a division by zero.
\<close>

section \<open>States and outputs\<close>

abbreviation (input) M2M_CLOUD_FSM_STATE_INIT :: u32 where "M2M_CLOUD_FSM_STATE_INIT \<equiv> 0"
abbreviation (input) M2M_CLOUD_FSM_STATE_CREATE_LINK :: u32 where "M2M_CLOUD_FSM_STATE_CREATE_LINK \<equiv> 1"
abbreviation (input) M2M_CLOUD_FSM_STATE_CONNECT :: u32 where "M2M_CLOUD_FSM_STATE_CONNECT \<equiv> 2"
abbreviation (input) M2M_CLOUD_FSM_STATE_PSK :: u32 where "M2M_CLOUD_FSM_STATE_PSK \<equiv> 3"
abbreviation (input) M2M_CLOUD_FSM_STATE_PSK_WAIT_RESP :: u32 where "M2M_CLOUD_FSM_STATE_PSK_WAIT_RESP \<equiv> 4"
abbreviation (input) M2M_CLOUD_FSM_STATE_REGISTER :: u32 where "M2M_CLOUD_FSM_STATE_REGISTER \<equiv> 5"
abbreviation (input) M2M_CLOUD_FSM_STATE_REGISTER_WAIT_RESP :: u32 where "M2M_CLOUD_FSM_STATE_REGISTER_WAIT_RESP \<equiv> 6"
abbreviation (input) M2M_CLOUD_FSM_STATE_LOGIN :: u32 where "M2M_CLOUD_FSM_STATE_LOGIN \<equiv> 7"
abbreviation (input) M2M_CLOUD_FSM_STATE_LOGIN_WAIT_RESP :: u32 where "M2M_CLOUD_FSM_STATE_LOGIN_WAIT_RESP \<equiv> 8"
abbreviation (input) M2M_CLOUD_FSM_STATE_AUTHCODE :: u32 where "M2M_CLOUD_FSM_STATE_AUTHCODE \<equiv> 9"
abbreviation (input) M2M_CLOUD_FSM_STATE_AUTHCODE_WAIT_RESP :: u32 where "M2M_CLOUD_FSM_STATE_AUTHCODE_WAIT_RESP \<equiv> 10"
abbreviation (input) M2M_CLOUD_FSM_STATE_REVOKE :: u32 where "M2M_CLOUD_FSM_STATE_REVOKE \<equiv> 11"
abbreviation (input) M2M_CLOUD_FSM_STATE_REVOKE_WAIT_RESP :: u32 where "M2M_CLOUD_FSM_STATE_REVOKE_WAIT_RESP \<equiv> 12"
abbreviation (input) M2M_CLOUD_FSM_STATE_DEV_INFO_SYNC :: u32 where "M2M_CLOUD_FSM_STATE_DEV_INFO_SYNC \<equiv> 13"
abbreviation (input) M2M_CLOUD_FSM_STATE_DEV_INFO_SYNC_WAIT_RESP :: u32 where "M2M_CLOUD_FSM_STATE_DEV_INFO_SYNC_WAIT_RESP \<equiv> 14"
abbreviation (input) M2M_CLOUD_FSM_STATE_ONLINE :: u32 where "M2M_CLOUD_FSM_STATE_ONLINE \<equiv> 17"
abbreviation (input) M2M_CLOUD_FSM_STATE_DELETE :: u32 where "M2M_CLOUD_FSM_STATE_DELETE \<equiv> 18"
abbreviation (input) M2M_CLOUD_FSM_STATE_GET_AUTHCODE :: u32 where "M2M_CLOUD_FSM_STATE_GET_AUTHCODE \<equiv> 19"
abbreviation (input) M2M_CLOUD_FSM_STATE_ECO_DEV_INFO_SYNC :: u32 where "M2M_CLOUD_FSM_STATE_ECO_DEV_INFO_SYNC \<equiv> 20"
abbreviation (input) M2M_CLOUD_FSM_STATE_ECO_DEV_INFO_SYNC_WAIT_RESP :: u32 where "M2M_CLOUD_FSM_STATE_ECO_DEV_INFO_SYNC_WAIT_RESP \<equiv> 21"
abbreviation (input) M2M_CLOUD_FSM_STATE_ECO_STATE_SYNC :: u32 where "M2M_CLOUD_FSM_STATE_ECO_STATE_SYNC \<equiv> 22"
abbreviation (input) M2M_CLOUD_FSM_STATE_ECO_STATE_SYNC_WAIT_RESP :: u32 where "M2M_CLOUD_FSM_STATE_ECO_STATE_SYNC_WAIT_RESP \<equiv> 23"
abbreviation (input) M2M_CLOUD_FSM_STATE_GET_AUTHCODE_WAIT_RESP :: u32 where "M2M_CLOUD_FSM_STATE_GET_AUTHCODE_WAIT_RESP \<equiv> 24"
abbreviation (input) M2M_CLOUD_FSM_STATE_EXIT :: u32 where "M2M_CLOUD_FSM_STATE_EXIT \<equiv> 25"

datatype cloud_out =
    PubRegisterFailed
  | PubOnline
  | PubRegistered
  | TimerRemove int
  | LinkClose
  | SendCsm
  | SendReq "CoapOption list"
  | StopAdv
  | SetOnline
  | StartLocalControl
  | StartLanSearch

type_synonym cloud_step = "(M2mCloudContext \<times> cloud_out list) option"

datatype DevBindStatus = DEV_BIND_STATUS_INVALID | DEV_BIND_STATUS_NOT_BIND | DEV_BIND_STATUS_BIND | DEV_BIND_STATUS_REVOKE

text \<open>The outcomes of a call of \<open>M2mCloudSendRequest\<close>, and of the other calls the handlers make.\<close>

record send_env =
  se_endpoint :: bool
  se_memok :: bool
  se_seqok :: bool
  se_rnd :: bytes
  se_build :: bool
  se_send :: ret

record fsm_env = send_env +
  fe_bind :: DevBindStatus
  fe_login :: "ret \<times> bool"
  fe_reg :: "ret \<times> bool"
  fe_devId :: bytes
  fe_sub :: ret
  fe_timer :: int
  fe_linkCreate :: ret
  fe_ctlInit :: ret
  fe_delInit :: ret
  fe_net :: bool
  fe_connect :: ret
  fe_random :: u32
  fe_now :: u32
  fe_before :: u32

section \<open>Sending\<close>

text \<open>The result, the context and the outputs; \<open>build\<close> makes the body of the request.\<close>

definition M2mCloudSendRequest ::
    "'a send_env_scheme \<Rightarrow> (M2mCloudContext \<Rightarrow> M2mCloudContext) \<Rightarrow> CloudOption \<Rightarrow> M2mCloudContext \<Rightarrow>
      (ret \<times> M2mCloudContext \<times> cloud_out list) option" where
  "M2mCloudSendRequest env build option ctx =
    (if co_uri option = [] \<or> \<not> se_endpoint env then Some (IOTC_ERR_PARAM_INVALID, ctx, [])
     else
       (case BuildCloudOption (se_memok env) (se_seqok env) (se_rnd env) ctx option of
          None \<Rightarrow> None
        | Some (ctx, Inl _) \<Rightarrow> Some (IOTC_SDK_AILIFE_WIFI_ERR_CLOUD_BUILD_OPTION, ctx, [])
        | Some (ctx, Inr options) \<Rightarrow>
           if \<not> se_build env then Some (IOTC_SDK_AILIFE_WIFI_ERR_CLOUD_BUILD_REQ_JSON, ctx, [])
           else Some (se_send env, build ctx, [SendReq options])))"

text \<open>The machine of a context, and a change of its state.\<close>

definition fsm_of :: "M2mCloudContext \<Rightarrow> unit UtilsFsm option" where
  "fsm_of ctx = map_option (\<lambda>cur. \<lparr>uf_cur = cur, uf_onChange = True, uf_tbl = None\<rparr>) (cc_fsmCtx ctx)"

definition CHANGE_FSM_TO :: "M2mCloudContext \<Rightarrow> u32 \<Rightarrow> M2mCloudContext" where
  "CHANGE_FSM_TO ctx state = ctx\<lparr>cc_fsmCtx := map_option uf_cur (fst (UtilsFsmSwitch (fsm_of ctx) state))\<rparr>"

lemma CHANGE_FSM_TO_eq: "CHANGE_FSM_TO ctx state = ctx\<lparr>cc_fsmCtx := map_option (\<lambda>_. state) (cc_fsmCtx ctx)\<rparr>"
  by (simp add: CHANGE_FSM_TO_def fsm_of_def option.map_comp comp_def)

definition remove_regTimer :: "M2mCloudContext \<Rightarrow> M2mCloudContext \<times> cloud_out list" where
  "remove_regTimer ctx =
    (if cc_regTimer ctx \<ge> 0 then (ctx\<lparr>cc_regTimer := EVENT_SOURCE_INVALID_TIMER_FD\<rparr>, [TimerRemove (cc_regTimer ctx)])
     else (ctx, []))"

section \<open>Handlers of the states\<close>

type_synonym state_handler = "fsm_env \<Rightarrow> M2mCloudContext \<Rightarrow> u32 \<Rightarrow> (M2mCloudContext \<times> u32 \<times> cloud_out list) option"

text \<open>The device service writes the login or registration data into the context, whatever it reports.\<close>

definition CloudFsmInitHandler :: state_handler where
  "CloudFsmInitHandler env ctx cur =
    (let ctx = ctx\<lparr>cc_bitMap := 0, cc_devId := fe_devId env\<rparr> in
     if fe_bind env = DEV_BIND_STATUS_BIND \<or> fe_bind env = DEV_BIND_STATUS_REVOKE then
       (if fst (fe_login env) \<noteq> IOTC_OK \<or> \<not> snd (fe_login env) then Some (ctx, cur, [])
        else
          (let ctx = (if fe_bind env = DEV_BIND_STATUS_REVOKE
                      then ctx\<lparr>cc_bitMap := UTILS_BIT_SET (cc_bitMap ctx) M2M_CLOUD_CTX_BIT_REVOKE\<rparr> else ctx)
           in Some (ctx, M2M_CLOUD_FSM_STATE_CREATE_LINK, [])))
     else
       (if fst (fe_reg env) \<noteq> IOTC_OK \<or> \<not> snd (fe_reg env) then Some (ctx, cur, [])
        else
          (let ctx = ctx\<lparr>cc_bitMap := UTILS_BIT_SET (cc_bitMap ctx) M2M_CLOUD_CTX_BIT_REGISTER\<rparr> in
           if cc_regTimer ctx < 0 then
             (if fe_sub env \<noteq> IOTC_OK then Some (ctx, cur, [])
              else Some (ctx\<lparr>cc_regTimer := fe_timer env\<rparr>, M2M_CLOUD_FSM_STATE_CREATE_LINK, []))
           else Some (ctx, M2M_CLOUD_FSM_STATE_CREATE_LINK, []))))"

definition CloudFsmCreateLinkHandler :: state_handler where
  "CloudFsmCreateLinkHandler env ctx cur =
    (if fe_linkCreate env \<noteq> IOTC_OK then Some (ctx, cur, [])
     else if fe_ctlInit env \<noteq> IOTC_OK then Some (ctx, cur, [])
     else if fe_delInit env \<noteq> IOTC_OK then Some (ctx, cur, [])
     else Some (M2mCloudBackoffInit ctx, M2M_CLOUD_FSM_STATE_CONNECT, []))"

definition CloudFsmConnectHandler :: state_handler where
  "CloudFsmConnectHandler env ctx cur =
    (if \<not> fe_net env \<or> IsM2mCloudBackoffTime (fe_now env) ctx then Some (ctx, cur, [])
     else
       (case M2mCloudBackoffUpdate (fe_random env) (fe_before env) ctx of
          None \<Rightarrow> None
        | Some ctx \<Rightarrow>
           if fe_connect env \<noteq> IOTC_OK then Some (ctx, cur, [])
           else Some (ctx, M2M_CLOUD_FSM_STATE_PSK, [SendCsm])))"

text \<open>The common shape of the handlers that send a request and wait for the answer.\<close>

definition request_handler :: "CloudOption \<Rightarrow> u32 \<Rightarrow> state_handler" where
  "request_handler option wait env ctx cur =
    (case M2mCloudSendRequest env id option ctx of
       None \<Rightarrow> None
     | Some (r, ctx, outs) \<Rightarrow>
        if r \<noteq> IOTC_OK then Some (ctx, M2M_CLOUD_FSM_STATE_CONNECT, outs) else Some (ctx, wait, outs))"

definition CloudFsmPskHandler :: state_handler where
  "CloudFsmPskHandler env ctx cur =
    (let ctx = ctx\<lparr>cc_pskFinish := False\<rparr> in
     case M2mCloudSendRequest env id M2mCloudGetPskOption ctx of
       None \<Rightarrow> None
     | Some (r, ctx, outs) \<Rightarrow>
        if r \<noteq> IOTC_OK then Some (ctx, M2M_CLOUD_FSM_STATE_CONNECT, outs)
        else Some (ctx, M2M_CLOUD_FSM_STATE_PSK_WAIT_RESP, outs))"

definition CloudFsmRegisterHandler :: state_handler where
  "CloudFsmRegisterHandler = request_handler M2mCloudGetRegisterOption M2M_CLOUD_FSM_STATE_REGISTER_WAIT_RESP"

definition CloudFsmLoginHandler :: state_handler where
  "CloudFsmLoginHandler = request_handler M2mCloudGetLoginOption M2M_CLOUD_FSM_STATE_LOGIN_WAIT_RESP"

definition CloudFsmRevokeHandler :: state_handler where
  "CloudFsmRevokeHandler = request_handler M2mCloudGetRevokeOption M2M_CLOUD_FSM_STATE_REVOKE_WAIT_RESP"

definition CloudFsmAuthCodeHandler :: state_handler where
  "CloudFsmAuthCodeHandler = request_handler M2mCloudGetAuthCodeOption M2M_CLOUD_FSM_STATE_AUTHCODE_WAIT_RESP"

definition CloudFsmDevInfoSyncHandler :: state_handler where
  "CloudFsmDevInfoSyncHandler = request_handler M2mCloudGetDevInfoSyncOption M2M_CLOUD_FSM_STATE_DEV_INFO_SYNC_WAIT_RESP"

definition CloudFsmDevIdGetAuthCodeHandler :: state_handler where
  "CloudFsmDevIdGetAuthCodeHandler =
    request_handler M2mCloudGetAuthCodeByDevIdSyncOption M2M_CLOUD_FSM_STATE_GET_AUTHCODE_WAIT_RESP"

definition CloudFsmEcoDevInfoSyncHandler :: state_handler where
  "CloudFsmEcoDevInfoSyncHandler = request_handler M2mCloudEcoDevInfoSyncOption M2M_CLOUD_FSM_STATE_ECO_DEV_INFO_SYNC_WAIT_RESP"

definition CloudFsmEcoDevStateSyncHandler :: state_handler where
  "CloudFsmEcoDevStateSyncHandler = request_handler M2mCloudEcoDevStateSyncOption M2M_CLOUD_FSM_STATE_ECO_STATE_SYNC_WAIT_RESP"

section \<open>The table\<close>

text \<open>A handler as the table has it: the parameter is the context with the outputs, or a fault.\<close>

definition lift_handler :: "fsm_env \<Rightarrow> state_handler \<Rightarrow> cloud_step UtilsFsmStateHandler" where
  "lift_handler env h param cur =
    (case param of
       None \<Rightarrow> (None, cur)
     | Some (ctx, outs) \<Rightarrow>
        (case h env ctx cur of
           None \<Rightarrow> (None, cur)
         | Some (ctx, nxt, outs') \<Rightarrow> (Some (ctx, outs @ outs'), nxt)))"

definition fsm_node :: "u32 \<Rightarrow> cloud_step UtilsFsmStateHandler option \<Rightarrow> cloud_step UtilsFsmStateNode" where
  "fsm_node s h = \<lparr>fn_state = s, fn_handler = h\<rparr>"

definition CLOUD_FSM :: "fsm_env \<Rightarrow> cloud_step UtilsFsmStateNode list" where
  "CLOUD_FSM env =
    [fsm_node M2M_CLOUD_FSM_STATE_INIT (Some (lift_handler env CloudFsmInitHandler)),
     fsm_node M2M_CLOUD_FSM_STATE_CREATE_LINK (Some (lift_handler env CloudFsmCreateLinkHandler)),
     fsm_node M2M_CLOUD_FSM_STATE_CONNECT (Some (lift_handler env CloudFsmConnectHandler)),
     fsm_node M2M_CLOUD_FSM_STATE_PSK (Some (lift_handler env CloudFsmPskHandler)),
     fsm_node M2M_CLOUD_FSM_STATE_PSK_WAIT_RESP (Some UtilsFsmStateSelfCirculation),
     fsm_node M2M_CLOUD_FSM_STATE_REGISTER (Some (lift_handler env CloudFsmRegisterHandler)),
     fsm_node M2M_CLOUD_FSM_STATE_REGISTER_WAIT_RESP (Some UtilsFsmStateSelfCirculation),
     fsm_node M2M_CLOUD_FSM_STATE_LOGIN (Some (lift_handler env CloudFsmLoginHandler)),
     fsm_node M2M_CLOUD_FSM_STATE_LOGIN_WAIT_RESP (Some UtilsFsmStateSelfCirculation),
     fsm_node M2M_CLOUD_FSM_STATE_AUTHCODE (Some (lift_handler env CloudFsmAuthCodeHandler)),
     fsm_node M2M_CLOUD_FSM_STATE_AUTHCODE_WAIT_RESP (Some UtilsFsmStateSelfCirculation),
     fsm_node M2M_CLOUD_FSM_STATE_REVOKE (Some (lift_handler env CloudFsmRevokeHandler)),
     fsm_node M2M_CLOUD_FSM_STATE_REVOKE_WAIT_RESP (Some UtilsFsmStateSelfCirculation),
     fsm_node M2M_CLOUD_FSM_STATE_DEV_INFO_SYNC (Some (lift_handler env CloudFsmDevInfoSyncHandler)),
     fsm_node M2M_CLOUD_FSM_STATE_DEV_INFO_SYNC_WAIT_RESP (Some UtilsFsmStateSelfCirculation),
     fsm_node M2M_CLOUD_FSM_STATE_ONLINE (Some UtilsFsmStateSelfCirculation),
     fsm_node M2M_CLOUD_FSM_STATE_DELETE None,
     fsm_node M2M_CLOUD_FSM_STATE_GET_AUTHCODE (Some (lift_handler env CloudFsmDevIdGetAuthCodeHandler)),
     fsm_node M2M_CLOUD_FSM_STATE_ECO_DEV_INFO_SYNC (Some (lift_handler env CloudFsmEcoDevInfoSyncHandler)),
     fsm_node M2M_CLOUD_FSM_STATE_ECO_DEV_INFO_SYNC_WAIT_RESP (Some UtilsFsmStateSelfCirculation),
     fsm_node M2M_CLOUD_FSM_STATE_ECO_STATE_SYNC (Some (lift_handler env CloudFsmEcoDevStateSyncHandler)),
     fsm_node M2M_CLOUD_FSM_STATE_ECO_STATE_SYNC_WAIT_RESP (Some UtilsFsmStateSelfCirculation),
     fsm_node M2M_CLOUD_FSM_STATE_GET_AUTHCODE_WAIT_RESP (Some UtilsFsmStateSelfCirculation)]"

text \<open>The timer: one step of the machine; what a handler returns replaces the state.\<close>

definition M2mFsmTimerCallback :: "fsm_env \<Rightarrow> M2mCloudContext \<Rightarrow> cloud_step" where
  "M2mFsmTimerCallback env ctx =
    (case UtilsFsmRunning
        (map_option (\<lambda>cur. \<lparr>uf_cur = cur, uf_onChange = True, uf_tbl = Some (CLOUD_FSM env)\<rparr>) (cc_fsmCtx ctx))
        (Some (ctx, [])) of
       (r, fsm, param, changes) \<Rightarrow>
         map_option (\<lambda>(ctx, outs). (ctx\<lparr>cc_fsmCtx := map_option uf_cur fsm\<rparr>, outs)) param)"

section \<open>Timers and the link\<close>

definition RegisterTimeoutTimerHandler :: "M2mCloudContext \<Rightarrow> M2mCloudContext \<times> cloud_out list" where
  "RegisterTimeoutTimerHandler ctx =
    (let (ctx, outs) = remove_regTimer (CHANGE_FSM_TO ctx M2M_CLOUD_FSM_STATE_EXIT) in (ctx, PubRegisterFailed # outs))"

definition RemoveRegisterTimeoutTimer :: "M2mCloudContext \<Rightarrow> M2mCloudContext \<times> cloud_out list" where
  "RemoveRegisterTimeoutTimer ctx = remove_regTimer ctx"

definition CloudSessLinkErrorCallback :: "M2mCloudContext \<Rightarrow> M2mCloudContext \<times> cloud_out list" where
  "CloudSessLinkErrorCallback ctx =
    (let (ctx, hb) = M2mCloudDisableHeartbeat ctx; (ctx, tok) = M2mCloudDisableTokenInfo ctx
     in (CHANGE_FSM_TO ctx M2M_CLOUD_FSM_STATE_CONNECT, LinkClose # map TimerRemove hb @ map TimerRemove tok))"

text \<open>A heartbeat: building it counts it; the answer or its absence.\<close>

definition CloudHeartbeatTimerCallback :: "send_env \<Rightarrow> M2mCloudContext \<Rightarrow> cloud_step" where
  "CloudHeartbeatTimerCallback env ctx =
    (case M2mCloudSendRequest env (\<lambda>ctx. ctx\<lparr>cc_sentCnt := cc_sentCnt ctx + 1\<rparr>) M2mCloudGetHeartbeatOption ctx of
       None \<Rightarrow> None
     | Some (r, ctx, outs) \<Rightarrow> Some (ctx, outs))"

text \<open>The answer is given by the result of reading its time fields, \<^term>\<open>None\<close> when there is no JSON.\<close>

definition M2mCloudHeartbbeatRespHandler :: "M2mCloudContext \<Rightarrow> ret option \<Rightarrow> bool \<Rightarrow> M2mCloudContext \<times> cloud_out list" where
  "M2mCloudHeartbbeatRespHandler ctx resp timeout =
    (if timeout then
       (if cc_sentCnt ctx \<ge> 2 then
          (let (ctx, hb) = M2mCloudDisableHeartbeat ctx
           in (CHANGE_FSM_TO ctx M2M_CLOUD_FSM_STATE_CONNECT, map TimerRemove hb))
        else (ctx, []))
     else
       (case resp of
          None \<Rightarrow> (ctx, [])
        | Some r \<Rightarrow> if r \<noteq> IOTC_OK then (ctx, []) else (ctx\<lparr>cc_sentCnt := 0\<rparr>, [])))"

definition M2mCloudFsmInit :: "int \<Rightarrow> M2mCloudContext \<Rightarrow> ret \<times> M2mCloudContext" where
  "M2mCloudFsmInit timer ctx =
    (let ctx = ctx\<lparr>cc_fsmCtx := Some M2M_CLOUD_FSM_STATE_INIT, cc_fsmTimer := timer\<rparr>
     in (if cc_fsmTimer ctx < 0 then cc_fsmTimer ctx else IOTC_OK, ctx))"

definition M2mCloudFsmDeinit :: "M2mCloudContext \<Rightarrow> M2mCloudContext \<times> cloud_out list" where
  "M2mCloudFsmDeinit ctx =
    (ctx\<lparr>cc_fsmCtx := None,
        cc_fsmTimer := (if cc_fsmTimer ctx \<ge> 0 then EVENT_SOURCE_INVALID_TIMER_FD else cc_fsmTimer ctx),
        cc_tokenTimer := (if cc_tokenTimer ctx \<ge> 0 then EVENT_SOURCE_INVALID_TIMER_FD else cc_tokenTimer ctx),
        cc_regTimer := (if cc_regTimer ctx \<ge> 0 then EVENT_SOURCE_INVALID_TIMER_FD else cc_regTimer ctx),
        cc_hbTimer := (if cc_hbTimer ctx \<ge> 0 then EVENT_SOURCE_INVALID_TIMER_FD else cc_hbTimer ctx)\<rparr>,
     map TimerRemove (filter (\<lambda>t. t \<ge> 0) [cc_fsmTimer ctx, cc_tokenTimer ctx, cc_regTimer ctx, cc_hbTimer ctx]))"

section \<open>Handlers of the answers\<close>

text \<open>
  The common start of the handlers: an answer in another state is dropped, without a machine the log statement reads through the
  null pointer, a timeout goes back to connecting, and an absent packet is dropped.  A packet is given by its parsed
  payload, \<^term>\<open>None\<close> when that is not JSON.
\<close>

definition on_answer ::
    "u32 \<Rightarrow> M2mCloudContext \<Rightarrow> 'j option option \<Rightarrow> bool \<Rightarrow> ('j option \<Rightarrow> M2mCloudContext \<times> cloud_out list) \<Rightarrow> cloud_step" where
  "on_answer wait ctx resp timeout process =
    (case cc_fsmCtx ctx of
       None \<Rightarrow> None
     | Some cur \<Rightarrow>
        if cur \<noteq> wait then Some (ctx, [])
        else if timeout then Some (CHANGE_FSM_TO ctx M2M_CLOUD_FSM_STATE_CONNECT, [])
        else (case resp of None \<Rightarrow> Some (ctx, []) | Some j \<Rightarrow> Some (process j)))"

definition M2mCloudPskRegRespHandler ::
    "(bool \<Rightarrow> bytes \<Rightarrow> ret + bytes) \<Rightarrow> bytes \<Rightarrow> bytes \<Rightarrow> M2mCloudContext \<Rightarrow> psk_json option option \<Rightarrow> bool \<Rightarrow> cloud_step" where
  "M2mCloudPskRegRespHandler kdf sn1 sn2 ctx resp timeout =
    on_answer M2M_CLOUD_FSM_STATE_PSK_WAIT_RESP ctx resp timeout (\<lambda>j.
      case M2mCloudParsePskResponse kdf ctx sn1 sn2 j of (r, ctx, _) \<Rightarrow>
        if r \<noteq> IOTC_OK then (CHANGE_FSM_TO ctx M2M_CLOUD_FSM_STATE_CONNECT, [])
        else
          (let (ctx, outs) = remove_regTimer ctx;
               ctx = ctx\<lparr>cc_pskFinish := True\<rparr>
           in (CHANGE_FSM_TO ctx (if UTILS_IS_BIT_SET (cc_bitMap ctx) M2M_CLOUD_CTX_BIT_REGISTER
                 then M2M_CLOUD_FSM_STATE_REGISTER else M2M_CLOUD_FSM_STATE_LOGIN), outs)))"

text \<open>The parser of the registration answer: the result and, when it was read, the error code of the cloud.\<close>

record reg_json =
  rj_errcode :: "ret + int"
  rj_sense :: ret

definition M2mCloudParseRegisterResponse :: "reg_json option \<Rightarrow> ret \<times> int" where
  "M2mCloudParseRegisterResponse resp =
    (case resp of
       None \<Rightarrow> (IOTC_ADAPTER_JSON_ERR_PARSE, 0)
     | Some j \<Rightarrow>
        (case rj_errcode j of
           Inl r \<Rightarrow> (r, 0)
         | Inr errcode \<Rightarrow>
            if errcode \<noteq> CLOUD_ERRCODE_OK then (IOTC_OK, errcode)
            else if rj_sense j \<noteq> IOTC_OK then (rj_sense j, errcode)
            else (IOTC_OK, errcode)))"

text \<open>\<open>login\<close> is the outcome of reading the login data afterwards, and \<open>devId\<close> the device id in it.\<close>

definition M2mCloudRegisterRegRespHandler ::
    "ret \<times> bool \<Rightarrow> bytes \<Rightarrow> M2mCloudContext \<Rightarrow> reg_json option option \<Rightarrow> bool \<Rightarrow> cloud_step" where
  "M2mCloudRegisterRegRespHandler login devId ctx resp timeout =
    on_answer M2M_CLOUD_FSM_STATE_REGISTER_WAIT_RESP ctx resp timeout (\<lambda>j.
      case M2mCloudParseRegisterResponse j of (r, errcode) \<Rightarrow>
        if r \<noteq> IOTC_OK then (CHANGE_FSM_TO ctx M2M_CLOUD_FSM_STATE_CONNECT, [])
        else
          (let ctx = ctx\<lparr>cc_bitMap := UTILS_BIT_RESET (cc_bitMap ctx) M2M_CLOUD_CTX_BIT_REGISTER, cc_devId := []\<rparr> in
           if errcode \<noteq> CLOUD_ERRCODE_OK then (CHANGE_FSM_TO ctx M2M_CLOUD_FSM_STATE_EXIT, [PubRegisterFailed])
           else
             (let ctx = ctx\<lparr>cc_devId := devId\<rparr> in
              if fst login \<noteq> IOTC_OK \<or> \<not> snd login then (CHANGE_FSM_TO ctx M2M_CLOUD_FSM_STATE_EXIT, [])
              else (CHANGE_FSM_TO ctx M2M_CLOUD_FSM_STATE_LOGIN, [StopAdv]))))"

definition CloudLoginRespHandler ::
    "ret \<Rightarrow> ret \<Rightarrow> int \<Rightarrow> u32 \<Rightarrow> M2mCloudContext \<Rightarrow> token_json option option \<Rightarrow> bool \<Rightarrow> cloud_step" where
  "CloudLoginRespHandler clean restore timer now ctx resp timeout =
    on_answer M2M_CLOUD_FSM_STATE_LOGIN_WAIT_RESP ctx resp timeout (\<lambda>j.
      case M2mCloudLoginResponseParse clean restore timer now ctx j of (r, errcode, ctx) \<Rightarrow>
        if r \<noteq> IOTC_OK \<or> errcode \<noteq> Some CLOUD_ERRCODE_OK then (CHANGE_FSM_TO ctx M2M_CLOUD_FSM_STATE_CONNECT, [])
        else if UTILS_IS_BIT_SET (cc_bitMap ctx) M2M_CLOUD_CTX_BIT_REVOKE
        then (CHANGE_FSM_TO ctx M2M_CLOUD_FSM_STATE_REVOKE, [])
        else (CHANGE_FSM_TO ctx M2M_CLOUD_FSM_STATE_DEV_INFO_SYNC, []))"

text \<open>The answer to a revocation is not looked at; neither is the state.\<close>

definition CloudRevokeRespHandler :: "ret \<Rightarrow> ret \<Rightarrow> M2mCloudContext \<Rightarrow> M2mCloudContext" where
  "CloudRevokeRespHandler cleanFlag cleanLogin ctx =
    (if cleanFlag \<noteq> IOTC_OK then CHANGE_FSM_TO ctx M2M_CLOUD_FSM_STATE_INIT
     else if cleanLogin \<noteq> IOTC_OK then CHANGE_FSM_TO ctx M2M_CLOUD_FSM_STATE_INIT
     else CHANGE_FSM_TO ctx M2M_CLOUD_FSM_STATE_INIT)"

text \<open>The fields of the answer with the code for local control.\<close>

record authcode_json =
  aj_errcode :: "ret + int"
  aj_authCode :: "ret + bytes"
  aj_authCodeId :: "ret + bytes"
  aj_timeout :: "ret + int"

definition M2mCloudParseAuthCodeResponse :: "M2mCloudContext \<Rightarrow> authcode_json option \<Rightarrow> ret \<times> M2mCloudContext" where
  "M2mCloudParseAuthCodeResponse ctx resp =
    (case resp of
       None \<Rightarrow> (IOTC_ADAPTER_JSON_ERR_PARSE, ctx)
     | Some j \<Rightarrow>
        (case aj_errcode j of
           Inl r \<Rightarrow> (r, ctx)
         | Inr errcode \<Rightarrow>
            if errcode \<noteq> CLOUD_ERRCODE_OK then (IOTC_OK, ctx)
            else
              (case aj_authCode j of
                 Inl r \<Rightarrow> (r, ctx)
               | Inr str \<Rightarrow>
                  (let ctx = ctx\<lparr>cc_authCode := the (snd (UtilsUnhexify (Some str) (Some (cc_authCode ctx))))\<rparr> in
                   case aj_authCodeId j of
                     Inl r \<Rightarrow> (r, ctx)
                   | Inr idStr \<Rightarrow>
                      (let ctx = ctx\<lparr>cc_authCodeId := the (snd (UtilsUnhexify (Some idStr) (Some (cc_authCodeId ctx))))\<rparr> in
                       case aj_timeout j of
                         Inl r \<Rightarrow> (r, ctx)
                       | Inr t \<Rightarrow>
                          (let timeout = 0; ctx = ctx\<lparr>cc_acTimeout := t\<rparr>
                           in (IOTC_OK, ctx\<lparr>cc_acTimeout := timeout\<rparr>)))))))"

definition M2mCloudAuthCodeRegRespHandler :: "M2mCloudContext \<Rightarrow> authcode_json option option \<Rightarrow> bool \<Rightarrow> cloud_step" where
  "M2mCloudAuthCodeRegRespHandler ctx resp timeout =
    on_answer M2M_CLOUD_FSM_STATE_AUTHCODE_WAIT_RESP ctx resp timeout (\<lambda>j.
      case M2mCloudParseAuthCodeResponse ctx j of (r, ctx) \<Rightarrow>
        if r \<noteq> IOTC_OK then (CHANGE_FSM_TO ctx M2M_CLOUD_FSM_STATE_CONNECT, [])
        else (CHANGE_FSM_TO ctx M2M_CLOUD_FSM_STATE_ONLINE, [PubRegistered, StartLocalControl, StartLanSearch]))"

definition M2mCloudParseDevInfoSyncResponse ::
    "int \<Rightarrow> M2mCloudContext \<Rightarrow> (ret + int) option \<Rightarrow> ret \<times> int \<times> M2mCloudContext" where
  "M2mCloudParseDevInfoSyncResponse timer ctx resp =
    (case resp of
       None \<Rightarrow> (IOTC_ADAPTER_JSON_ERR_PARSE, 0, ctx)
     | Some (Inl r) \<Rightarrow> (r, 0, ctx)
     | Some (Inr errcode) \<Rightarrow>
        (IOTC_OK, errcode, if errcode = CLOUD_ERRCODE_OK then snd (M2mCloudEnableHeartbeat timer ctx) else ctx))"

definition CloudDevInfoSyncRespHandler :: "int \<Rightarrow> M2mCloudContext \<Rightarrow> (ret + int) option option \<Rightarrow> bool \<Rightarrow> cloud_step" where
  "CloudDevInfoSyncRespHandler timer ctx resp timeout =
    on_answer M2M_CLOUD_FSM_STATE_DEV_INFO_SYNC_WAIT_RESP ctx resp timeout (\<lambda>j.
      case M2mCloudParseDevInfoSyncResponse timer ctx j of (r, errcode, ctx) \<Rightarrow>
        if r \<noteq> IOTC_OK \<or> errcode \<noteq> CLOUD_ERRCODE_OK then (CHANGE_FSM_TO ctx M2M_CLOUD_FSM_STATE_CONNECT, [])
        else (CHANGE_FSM_TO ctx M2M_CLOUD_FSM_STATE_AUTHCODE, [SetOnline, PubOnline]))"

text \<open>The answers for the devices behind this one; the parsers that only touch the device lists are given by their result.\<close>

definition M2mCloudDevIdRespHandler :: "M2mCloudContext \<Rightarrow> ret option \<Rightarrow> bool \<Rightarrow> cloud_step" where
  "M2mCloudDevIdRespHandler ctx resp timeout =
    on_answer M2M_CLOUD_FSM_STATE_GET_AUTHCODE_WAIT_RESP ctx (map_option Some resp) timeout (\<lambda>r.
      if r \<noteq> Some IOTC_OK then (CHANGE_FSM_TO ctx M2M_CLOUD_FSM_STATE_CONNECT, []) else (ctx, []))"

definition M2mCloudParseEcoDevInfoByResponse :: "M2mCloudContext \<Rightarrow> (ret + int) option \<Rightarrow> ret \<times> M2mCloudContext" where
  "M2mCloudParseEcoDevInfoByResponse ctx resp =
    (case resp of
       None \<Rightarrow> (IOTC_ADAPTER_JSON_ERR_PARSE, ctx)
     | Some (Inl r) \<Rightarrow> (r, ctx)
     | Some (Inr errcode) \<Rightarrow>
        if errcode \<noteq> CLOUD_ERRCODE_OK then (IOTC_OK, ctx)
        else (IOTC_OK, CHANGE_FSM_TO ctx M2M_CLOUD_FSM_STATE_ECO_STATE_SYNC))"

definition M2mCloudEcoDevInfoRespHandler :: "M2mCloudContext \<Rightarrow> (ret + int) option option \<Rightarrow> bool \<Rightarrow> cloud_step" where
  "M2mCloudEcoDevInfoRespHandler ctx resp timeout =
    on_answer M2M_CLOUD_FSM_STATE_ECO_DEV_INFO_SYNC_WAIT_RESP ctx resp timeout (\<lambda>j.
      case M2mCloudParseEcoDevInfoByResponse ctx j of (r, ctx) \<Rightarrow>
        if r \<noteq> IOTC_OK then (CHANGE_FSM_TO ctx M2M_CLOUD_FSM_STATE_CONNECT, []) else (ctx, []))"

definition M2mCloudEcoDevStateRespHandler :: "M2mCloudContext \<Rightarrow> ret option \<Rightarrow> bool \<Rightarrow> cloud_step" where
  "M2mCloudEcoDevStateRespHandler ctx resp timeout =
    on_answer M2M_CLOUD_FSM_STATE_ECO_STATE_SYNC_WAIT_RESP ctx (map_option Some resp) timeout (\<lambda>r.
      if r \<noteq> Some IOTC_OK then (CHANGE_FSM_TO ctx M2M_CLOUD_FSM_STATE_CONNECT, []) else (ctx, []))"

text \<open>The events of the local bus: a device to add was stored, the data of a pending device arrived.\<close>

definition CloudProcessSubData :: "bool \<Rightarrow> M2mCloudContext \<Rightarrow> M2mCloudContext" where
  "CloudProcessSubData stored ctx =
    (if \<not> stored then ctx else CHANGE_FSM_TO ctx M2M_CLOUD_FSM_STATE_GET_AUTHCODE)"

definition CloudProcessDevInfoData :: "bool \<Rightarrow> M2mCloudContext \<Rightarrow> M2mCloudContext" where
  "CloudProcessDevInfoData pending ctx =
    (if \<not> pending then ctx else CHANGE_FSM_TO ctx M2M_CLOUD_FSM_STATE_ECO_DEV_INFO_SYNC)"

section \<open>Runs\<close>

datatype cloud_event =
    Tick fsm_env
  | RegTimeout
  | OnlineEvent
  | LinkError
  | Heartbeat send_env
  | HeartbeatResp "ret option" bool
  | TokenResp ret ret int u32 "token_json option" bool
  | PskResp "bool \<Rightarrow> bytes \<Rightarrow> ret + bytes" bytes bytes "psk_json option option" bool
  | RegisterResp "ret \<times> bool" bytes "reg_json option option" bool
  | LoginResp ret ret int u32 "token_json option option" bool
  | RevokeResp ret ret
  | AuthCodeResp "authcode_json option option" bool
  | DevInfoResp int "(ret + int) option option" bool
  | DevIdResp "ret option" bool
  | EcoInfoResp "(ret + int) option option" bool
  | EcoStateResp "ret option" bool
  | SubData bool
  | DevInfoData bool
  | Stop

fun cloud_next :: "M2mCloudContext \<Rightarrow> cloud_event \<Rightarrow> cloud_step" where
  "cloud_next ctx (Tick env) = M2mFsmTimerCallback env ctx"
| "cloud_next ctx RegTimeout = Some (RegisterTimeoutTimerHandler ctx)"
| "cloud_next ctx OnlineEvent = Some (RemoveRegisterTimeoutTimer ctx)"
| "cloud_next ctx LinkError = Some (CloudSessLinkErrorCallback ctx)"
| "cloud_next ctx (Heartbeat env) = CloudHeartbeatTimerCallback env ctx"
| "cloud_next ctx (HeartbeatResp r t) = Some (M2mCloudHeartbbeatRespHandler ctx r t)"
| "cloud_next ctx (TokenResp c r tm now j t) = Some (CloudTokenRefreshRespHandler c r tm now ctx j t, [])"
| "cloud_next ctx (PskResp kdf sn1 sn2 j t) = M2mCloudPskRegRespHandler kdf sn1 sn2 ctx j t"
| "cloud_next ctx (RegisterResp login devId j t) = M2mCloudRegisterRegRespHandler login devId ctx j t"
| "cloud_next ctx (LoginResp c r tm now j t) = CloudLoginRespHandler c r tm now ctx j t"
| "cloud_next ctx (RevokeResp f l) = Some (CloudRevokeRespHandler f l ctx, [])"
| "cloud_next ctx (AuthCodeResp j t) = M2mCloudAuthCodeRegRespHandler ctx j t"
| "cloud_next ctx (DevInfoResp tm j t) = CloudDevInfoSyncRespHandler tm ctx j t"
| "cloud_next ctx (DevIdResp r t) = M2mCloudDevIdRespHandler ctx r t"
| "cloud_next ctx (EcoInfoResp j t) = M2mCloudEcoDevInfoRespHandler ctx j t"
| "cloud_next ctx (EcoStateResp r t) = M2mCloudEcoDevStateRespHandler ctx r t"
| "cloud_next ctx (SubData s) = Some (CloudProcessSubData s ctx, [])"
| "cloud_next ctx (DevInfoData s) = Some (CloudProcessDevInfoData s ctx, [])"
| "cloud_next ctx Stop = Some (M2mCloudFsmDeinit ctx)"

text \<open>A run from a context; the outputs of all steps.\<close>

fun cloud_run :: "M2mCloudContext \<Rightarrow> cloud_event list \<Rightarrow> cloud_step" where
  "cloud_run ctx [] = Some (ctx, [])"
| "cloud_run ctx (e # es) =
    (case cloud_next ctx e of
       None \<Rightarrow> None
     | Some (ctx, outs) \<Rightarrow> map_option (\<lambda>(ctx, outs'). (ctx, outs @ outs')) (cloud_run ctx es))"

section \<open>Invariant\<close>

definition needs_key :: "u32 \<Rightarrow> bool" where
  "needs_key cur \<longleftrightarrow> cur \<in> {M2M_CLOUD_FSM_STATE_REGISTER, M2M_CLOUD_FSM_STATE_REGISTER_WAIT_RESP, M2M_CLOUD_FSM_STATE_LOGIN,
     M2M_CLOUD_FSM_STATE_LOGIN_WAIT_RESP, M2M_CLOUD_FSM_STATE_AUTHCODE, M2M_CLOUD_FSM_STATE_AUTHCODE_WAIT_RESP,
     M2M_CLOUD_FSM_STATE_REVOKE, M2M_CLOUD_FSM_STATE_REVOKE_WAIT_RESP, M2M_CLOUD_FSM_STATE_DEV_INFO_SYNC,
     M2M_CLOUD_FSM_STATE_DEV_INFO_SYNC_WAIT_RESP, M2M_CLOUD_FSM_STATE_ONLINE}"

definition ctx_ok :: "M2mCloudContext \<Rightarrow> u32 \<Rightarrow> bool" where
  "ctx_ok ctx cur \<longleftrightarrow> cc_backoffCnt ctx \<le> 5 \<and> (needs_key cur \<longrightarrow> cc_pskFinish ctx)"

definition cloud_inv :: "M2mCloudContext \<Rightarrow> bool" where
  "cloud_inv ctx \<longleftrightarrow> (\<exists>cur. cc_fsmCtx ctx = Some cur \<and> ctx_ok ctx cur)"

text \<open>The part of a context the invariant depends on.\<close>

definition same_core :: "M2mCloudContext \<Rightarrow> M2mCloudContext \<Rightarrow> bool" where
  "same_core ctx ctx' \<longleftrightarrow> cc_backoffCnt ctx' = cc_backoffCnt ctx \<and> cc_pskFinish ctx' = cc_pskFinish ctx \<and> cc_fsmCtx ctx' = cc_fsmCtx ctx"

lemma same_core_ok: "same_core ctx ctx' \<Longrightarrow> ctx_ok ctx cur \<Longrightarrow> ctx_ok ctx' cur"
  by (simp add: same_core_def ctx_ok_def)

lemma BuildCloudOption_core:
  assumes "req \<in> set cloud_requests"
  shows "\<exists>ctx' r. BuildCloudOption memok seqok rnd ctx req = Some (ctx', r) \<and> same_core ctx ctx'"
proof -
  obtain p q where uri: "co_uri req = [Some p, Some q]" and bits: "co_opBitMap req = 14 \<or> co_opBitMap req = 15"
    using cloud_request_shape [OF assms] by blast
  have b: "op_bit req (Suc 0)" "op_bit req 2" "op_bit req 3" "op_bit req 0 = (co_opBitMap req = 15)"
    using bits by (auto simp: op_bit_def)
  show ?thesis by (simp add: BuildCloudOption_def CloudOptionNumCalc_def uri b Let_def same_core_def)
qed

lemma M2mCloudSendRequest_core:
  assumes "req \<in> set cloud_requests" "\<And>c. same_core c (build c)"
  shows "\<exists>r ctx' outs. M2mCloudSendRequest env build req ctx = Some (r, ctx', outs) \<and> same_core ctx ctx'"
proof -
  obtain ctx' r where b: "BuildCloudOption (se_memok env) (se_seqok env) (se_rnd env) ctx req = Some (ctx', r)" "same_core ctx ctx'"
    using BuildCloudOption_core [OF assms(1)] by blast
  have "same_core ctx (build ctx')" using b(2) assms(2) [of ctx'] by (simp add: same_core_def)
  moreover have "same_core ctx ctx" by (simp add: same_core_def)
  ultimately show ?thesis using b by (cases r) (auto simp: M2mCloudSendRequest_def)
qed

text \<open>A handler keeps the invariant of the state it is called in.\<close>

definition keeps_ok :: "state_handler \<Rightarrow> u32 \<Rightarrow> bool" where
  "keeps_ok h cur \<longleftrightarrow> (\<forall>env ctx. ctx_ok ctx cur \<longrightarrow> (\<exists>ctx' nxt outs. h env ctx cur = Some (ctx', nxt, outs) \<and> ctx_ok ctx' nxt))"

lemma needs_key_simps [simp]:
  "needs_key 0 = False" "needs_key 1 = False" "needs_key 2 = False" "needs_key 3 = False" "needs_key 4 = False"
  "needs_key 5 = True" "needs_key 6 = True" "needs_key 7 = True" "needs_key 8 = True" "needs_key 9 = True"
  "needs_key 10 = True" "needs_key 11 = True" "needs_key 12 = True" "needs_key 13 = True" "needs_key 14 = True"
  "needs_key 17 = True" "needs_key 19 = False" "needs_key 20 = False" "needs_key 21 = False" "needs_key 22 = False"
  "needs_key 23 = False" "needs_key 24 = False" "needs_key 25 = False"
  by (simp_all add: needs_key_def)

lemma keeps_ok_request:
  assumes "req \<in> set cloud_requests" "needs_key wait \<Longrightarrow> needs_key cur"
  shows "keeps_ok (request_handler req wait) cur"
  unfolding keeps_ok_def
proof (intro allI impI)
  fix env :: fsm_env and ctx assume ok: "ctx_ok ctx cur"
  have id: "\<And>c. same_core c (id c)" by (simp add: same_core_def)
  obtain r ctx' outs where s: "M2mCloudSendRequest env id req ctx = Some (r, ctx', outs)" "same_core ctx ctx'"
    using M2mCloudSendRequest_core [OF assms(1) id] by blast
  have "ctx_ok ctx' cur" using same_core_ok [OF s(2) ok] .
  then have "ctx_ok ctx' 2" "ctx_ok ctx' wait" using assms(2) by (auto simp: ctx_ok_def)
  then show "\<exists>ctx' nxt outs. request_handler req wait env ctx cur = Some (ctx', nxt, outs) \<and> ctx_ok ctx' nxt"
    using s(1) by (simp add: request_handler_def)
qed

lemma keeps_ok_psk: "keeps_ok CloudFsmPskHandler 3"
  unfolding keeps_ok_def
proof (intro allI impI)
  fix env :: fsm_env and ctx assume ok: "ctx_ok ctx 3"
  have id: "\<And>c. same_core c (id c)" by (simp add: same_core_def)
  have m: "M2mCloudGetPskOption \<in> set cloud_requests" by (simp add: cloud_requests_def)
  obtain r ctx' outs where s: "M2mCloudSendRequest env id M2mCloudGetPskOption (ctx\<lparr>cc_pskFinish := False\<rparr>) = Some (r, ctx', outs)"
      "same_core (ctx\<lparr>cc_pskFinish := False\<rparr>) ctx'"
    using M2mCloudSendRequest_core [OF m id] by blast
  have "ctx_ok ctx' 2" "ctx_ok ctx' 4" using ok s(2) by (simp_all add: ctx_ok_def same_core_def)
  then show "\<exists>ctx' nxt outs. CloudFsmPskHandler env ctx 3 = Some (ctx', nxt, outs) \<and> ctx_ok ctx' nxt"
    using s(1) by (simp add: CloudFsmPskHandler_def Let_def)
qed

lemma keeps_ok_init: "keeps_ok CloudFsmInitHandler 0"
  by (auto simp: keeps_ok_def CloudFsmInitHandler_def ctx_ok_def Let_def)

lemma keeps_ok_create: "keeps_ok CloudFsmCreateLinkHandler 1"
  by (auto simp: keeps_ok_def CloudFsmCreateLinkHandler_def M2mCloudBackoffInit_def ctx_ok_def)

lemma keeps_ok_connect: "keeps_ok CloudFsmConnectHandler 2"
  unfolding keeps_ok_def
proof (intro allI impI)
  fix env :: fsm_env and ctx assume ok: "ctx_ok ctx 2"
  then have "cc_backoffCnt ctx \<le> 5" by (simp add: ctx_ok_def)
  then obtain ctx' where "M2mCloudBackoffUpdate (fe_random env) (fe_before env) ctx = Some ctx'" "cc_backoffCnt ctx' \<le> 5"
    using M2mCloudBackoffUpdate_bounds by blast
  then show "\<exists>ctx' nxt outs. CloudFsmConnectHandler env ctx 2 = Some (ctx', nxt, outs) \<and> ctx_ok ctx' nxt"
    using ok by (simp add: CloudFsmConnectHandler_def ctx_ok_def)
qed

lemmas request_handlers =
  CloudFsmRegisterHandler_def CloudFsmLoginHandler_def CloudFsmRevokeHandler_def CloudFsmAuthCodeHandler_def
  CloudFsmDevInfoSyncHandler_def CloudFsmDevIdGetAuthCodeHandler_def CloudFsmEcoDevInfoSyncHandler_def
  CloudFsmEcoDevStateSyncHandler_def

lemma keeps_ok_requests:
  "keeps_ok CloudFsmRegisterHandler 5" "keeps_ok CloudFsmLoginHandler 7" "keeps_ok CloudFsmAuthCodeHandler 9"
  "keeps_ok CloudFsmRevokeHandler 11" "keeps_ok CloudFsmDevInfoSyncHandler 13" "keeps_ok CloudFsmDevIdGetAuthCodeHandler 19"
  "keeps_ok CloudFsmEcoDevInfoSyncHandler 20" "keeps_ok CloudFsmEcoDevStateSyncHandler 22"
  unfolding request_handlers by (rule keeps_ok_request, simp add: cloud_requests_def, simp)+

definition node_keeps :: "cloud_step UtilsFsmStateNode \<Rightarrow> bool" where
  "node_keeps node \<longleftrightarrow> (\<forall>h ctx outs. fn_handler node = Some h \<longrightarrow> ctx_ok ctx (fn_state node) \<longrightarrow>
     (\<exists>ctx' outs' nxt. h (Some (ctx, outs)) (fn_state node) = (Some (ctx', outs'), nxt) \<and> ctx_ok ctx' nxt))"

lemma node_keeps_lift: "keeps_ok h cur \<Longrightarrow> node_keeps (fsm_node cur (Some (lift_handler env h)))"
  unfolding node_keeps_def
proof (intro allI impI)
  fix g ctx and outs :: "cloud_out list"
  assume k: "keeps_ok h cur" and g: "fn_handler (fsm_node cur (Some (lift_handler env h))) = Some g"
    and ok: "ctx_ok ctx (fn_state (fsm_node cur (Some (lift_handler env h))))"
  have "\<exists>ctx' nxt outs. h env ctx cur = Some (ctx', nxt, outs) \<and> ctx_ok ctx' nxt"
    using k ok unfolding keeps_ok_def by (simp add: fsm_node_def)
  then obtain ctx' nxt outs' where "h env ctx cur = Some (ctx', nxt, outs')" "ctx_ok ctx' nxt" by blast
  then show "\<exists>ctx' outs' nxt. g (Some (ctx, outs)) (fn_state (fsm_node cur (Some (lift_handler env h)))) = (Some (ctx', outs'), nxt) \<and> ctx_ok ctx' nxt"
    using g by (auto simp: fsm_node_def lift_handler_def)
qed

lemma node_keeps_stay: "node_keeps (fsm_node cur (Some UtilsFsmStateSelfCirculation))" "node_keeps (fsm_node cur None)"
  by (simp_all add: node_keeps_def fsm_node_def UtilsFsmStateSelfCirculation_def)

lemma CLOUD_FSM_keeps: "list_all node_keeps (CLOUD_FSM env)"
  unfolding CLOUD_FSM_def
  by (simp add: node_keeps_lift node_keeps_stay keeps_ok_init keeps_ok_create keeps_ok_connect keeps_ok_psk keeps_ok_requests)

lemma tick_inv:
  assumes "cloud_inv ctx"
  shows "\<exists>ctx' outs. M2mFsmTimerCallback env ctx = Some (ctx', outs) \<and> cloud_inv ctx'"
proof -
  obtain cur where cur: "cc_fsmCtx ctx = Some cur" "ctx_ok ctx cur" using assms by (auto simp: cloud_inv_def)
  show ?thesis
  proof (cases "sint cur < 0 \<or> find (\<lambda>node. fn_state node = cur \<and> fn_handler node \<noteq> None) (CLOUD_FSM env) = None")
    case True
    then show ?thesis using cur assms
      by (auto simp: M2mFsmTimerCallback_def UtilsFsmRunning_def cloud_inv_def ctx_ok_def split: option.splits)
  next
    case False
    then obtain node where f: "find (\<lambda>node. fn_state node = cur \<and> fn_handler node \<noteq> None) (CLOUD_FSM env) = Some node" by auto
    then have node: "node \<in> set (CLOUD_FSM env)" "fn_state node = cur" "fn_handler node \<noteq> None"
      by (auto simp: find_Some_iff)
    then obtain h where h: "fn_handler node = Some h" by auto
    have "node_keeps node" using CLOUD_FSM_keeps node(1) by (simp add: list_all_iff)
    then have "\<exists>ctx' outs' nxt. h (Some (ctx, [])) cur = (Some (ctx', outs'), nxt) \<and> ctx_ok ctx' nxt"
      using h cur(2) node(2) unfolding node_keeps_def by blast
    then obtain ctx' outs' nxt where "h (Some (ctx, [])) cur = (Some (ctx', outs'), nxt)" "ctx_ok ctx' nxt" by blast
    then show ?thesis using f h cur(1) False
      by (simp add: M2mFsmTimerCallback_def UtilsFsmRunning_def cloud_inv_def ctx_ok_def)
  qed
qed

lemma cloud_inv_change: "cloud_inv ctx \<Longrightarrow> \<not> needs_key s \<or> cc_pskFinish ctx \<Longrightarrow> cloud_inv (CHANGE_FSM_TO ctx s)"
  by (auto simp: cloud_inv_def ctx_ok_def CHANGE_FSM_TO_eq)

lemma cloud_inv_core: "same_core ctx ctx' \<Longrightarrow> cloud_inv ctx \<Longrightarrow> cloud_inv ctx'"
  by (auto simp: cloud_inv_def ctx_ok_def same_core_def)

lemma on_answer_inv:
  assumes "cloud_inv ctx" "\<And>j. cc_fsmCtx ctx = Some wait \<Longrightarrow> cloud_inv (fst (process j))"
  shows "\<exists>ctx' outs. on_answer wait ctx resp timeout process = Some (ctx', outs) \<and> cloud_inv ctx'"
proof -
  obtain cur where cur: "cc_fsmCtx ctx = Some cur" using assms(1) by (auto simp: cloud_inv_def)
  have "cloud_inv (CHANGE_FSM_TO ctx 2)" using assms(1) by (simp add: cloud_inv_change)
  then show ?thesis
    using assms cur by (cases "cur = wait"; cases resp) (auto simp: on_answer_def prod_eq_iff)
qed

text \<open>The parsers keep the state; only the one for the key touches whether there is a key, and never takes it away.\<close>

lemma StationSessKeyGen_core:
  "cc_backoffCnt (snd (StationSessKeyGen kdf ctx a b)) = cc_backoffCnt ctx \<and> cc_fsmCtx (snd (StationSessKeyGen kdf ctx a b)) = cc_fsmCtx ctx"
  by (auto simp: StationSessKeyGen_def Let_def split: sum.splits)

lemma ParsePsk_core:
  assumes "M2mCloudParsePskResponse kdf ctx sn1 sn2 j = (r, ctx', s)"
  shows "cc_backoffCnt ctx' = cc_backoffCnt ctx \<and> cc_fsmCtx ctx' = cc_fsmCtx ctx"
  using assms StationSessKeyGen_core
  by (auto simp: M2mCloudParsePskResponse_def Let_def split: option.splits sum.splits if_splits)

lemma ParseTokenInfo_core: "ParseTokenInfo tm now ctx j = (r, ctx', w) \<Longrightarrow> same_core ctx ctx'"
  by (auto simp: ParseTokenInfo_def UpdateCloudTokenInfo_def UpdateTokenRefreshTimer_def Let_def same_core_def
      split: sum.splits if_splits)

lemma Login_core: "M2mCloudLoginResponseParse c r tm now ctx j = (x, e, ctx') \<Longrightarrow> same_core ctx ctx'"
  by (auto simp: M2mCloudLoginResponseParse_def Let_def same_core_def split: option.splits sum.splits if_splits prod.splits
      dest: ParseTokenInfo_core)

lemma AuthCode_core: "M2mCloudParseAuthCodeResponse ctx j = (r, ctx') \<Longrightarrow> same_core ctx ctx'"
  by (auto simp: M2mCloudParseAuthCodeResponse_def Let_def same_core_def split: option.splits sum.splits if_splits)

lemma DevInfo_core: "M2mCloudParseDevInfoSyncResponse tm ctx j = (r, e, ctx') \<Longrightarrow> same_core ctx ctx'"
  by (auto simp: M2mCloudParseDevInfoSyncResponse_def M2mCloudEnableHeartbeat_def Let_def same_core_def
      split: option.splits sum.splits if_splits)

lemma heartbeat_core:
  "same_core ctx (fst (M2mCloudDisableHeartbeat ctx))" "same_core ctx (fst (M2mCloudDisableTokenInfo ctx))"
  "same_core ctx (fst (remove_regTimer ctx))"
  by (simp_all add: M2mCloudDisableHeartbeat_def M2mCloudDisableTokenInfo_def remove_regTimer_def same_core_def Let_def)

lemma token_core: "same_core ctx (CloudTokenRefreshRespHandler c r tm now ctx j t)"
proof -
  have "same_core ctx (fst (snd (ParseTokenInfo tm now ctx i)))" for i
    using ParseTokenInfo_core [of tm now ctx i] by (cases "ParseTokenInfo tm now ctx i") auto
  moreover have "same_core ctx ctx" by (simp add: same_core_def)
  ultimately show ?thesis by (simp add: CloudTokenRefreshRespHandler_def split: option.splits sum.splits)
qed

lemma psk_resp_inv:
  assumes inv: "cloud_inv ctx"
  shows "\<exists>ctx' outs. M2mCloudPskRegRespHandler kdf sn1 sn2 ctx resp timeout = Some (ctx', outs) \<and> cloud_inv ctx'"
  unfolding M2mCloudPskRegRespHandler_def
proof (rule on_answer_inv [OF inv], goal_cases)
  case (1 j)
  obtain r ctx' s where p: "M2mCloudParsePskResponse kdf ctx sn1 sn2 j = (r, ctx', s)" using prod_cases3 by blast
  have core: "cc_backoffCnt ctx' \<le> 5" "cc_fsmCtx ctx' = Some 4"
    using ParsePsk_core [OF p] inv 1 by (auto simp: cloud_inv_def ctx_ok_def)
  then show ?case
    by (auto simp: p cloud_inv_def ctx_ok_def CHANGE_FSM_TO_eq remove_regTimer_def Let_def split: prod.splits)
qed

lemma register_resp_inv:
  assumes inv: "cloud_inv ctx"
  shows "\<exists>ctx' outs. M2mCloudRegisterRegRespHandler login devId ctx resp timeout = Some (ctx', outs) \<and> cloud_inv ctx'"
  unfolding M2mCloudRegisterRegRespHandler_def
proof (rule on_answer_inv [OF inv], goal_cases)
  case (1 j)
  then show ?case using inv
    by (auto simp: cloud_inv_def ctx_ok_def CHANGE_FSM_TO_eq Let_def split: prod.splits)
qed

lemma login_resp_inv:
  assumes inv: "cloud_inv ctx"
  shows "\<exists>ctx' outs. CloudLoginRespHandler c r tm now ctx resp timeout = Some (ctx', outs) \<and> cloud_inv ctx'"
  unfolding CloudLoginRespHandler_def
proof (rule on_answer_inv [OF inv], goal_cases)
  case (1 j)
  obtain x e ctx' where p: "M2mCloudLoginResponseParse c r tm now ctx j = (x, e, ctx')" using prod_cases3 by blast
  have "cc_backoffCnt ctx' \<le> 5" "cc_fsmCtx ctx' = Some 8" "cc_pskFinish ctx'"
    using Login_core [OF p] inv 1 by (auto simp: cloud_inv_def ctx_ok_def same_core_def)
  then show ?case by (auto simp: p cloud_inv_def ctx_ok_def CHANGE_FSM_TO_eq)
qed

lemma authcode_resp_inv:
  assumes inv: "cloud_inv ctx"
  shows "\<exists>ctx' outs. M2mCloudAuthCodeRegRespHandler ctx resp timeout = Some (ctx', outs) \<and> cloud_inv ctx'"
  unfolding M2mCloudAuthCodeRegRespHandler_def
proof (rule on_answer_inv [OF inv], goal_cases)
  case (1 j)
  obtain x ctx' where p: "M2mCloudParseAuthCodeResponse ctx j = (x, ctx')" by fastforce
  have "cc_backoffCnt ctx' \<le> 5" "cc_fsmCtx ctx' = Some 10" "cc_pskFinish ctx'"
    using AuthCode_core [OF p] inv 1 by (auto simp: cloud_inv_def ctx_ok_def same_core_def)
  then show ?case by (auto simp: p cloud_inv_def ctx_ok_def CHANGE_FSM_TO_eq)
qed

lemma devinfo_resp_inv:
  assumes inv: "cloud_inv ctx"
  shows "\<exists>ctx' outs. CloudDevInfoSyncRespHandler tm ctx resp timeout = Some (ctx', outs) \<and> cloud_inv ctx'"
  unfolding CloudDevInfoSyncRespHandler_def
proof (rule on_answer_inv [OF inv], goal_cases)
  case (1 j)
  obtain x e ctx' where p: "M2mCloudParseDevInfoSyncResponse tm ctx j = (x, e, ctx')" using prod_cases3 by blast
  have "cc_backoffCnt ctx' \<le> 5" "cc_fsmCtx ctx' = Some 14" "cc_pskFinish ctx'"
    using DevInfo_core [OF p] inv 1 by (auto simp: cloud_inv_def ctx_ok_def same_core_def)
  then show ?case by (auto simp: p cloud_inv_def ctx_ok_def CHANGE_FSM_TO_eq)
qed

lemma device_resp_inv:
  assumes inv: "cloud_inv ctx"
  shows "\<exists>ctx' outs. M2mCloudDevIdRespHandler ctx r timeout = Some (ctx', outs) \<and> cloud_inv ctx'"
    "\<exists>ctx' outs. M2mCloudEcoDevInfoRespHandler ctx resp timeout = Some (ctx', outs) \<and> cloud_inv ctx'"
    "\<exists>ctx' outs. M2mCloudEcoDevStateRespHandler ctx r timeout = Some (ctx', outs) \<and> cloud_inv ctx'"
proof -
  show "\<exists>ctx' outs. M2mCloudDevIdRespHandler ctx r timeout = Some (ctx', outs) \<and> cloud_inv ctx'"
    unfolding M2mCloudDevIdRespHandler_def by (rule on_answer_inv [OF inv]) (simp add: inv cloud_inv_change)
  show "\<exists>ctx' outs. M2mCloudEcoDevStateRespHandler ctx r timeout = Some (ctx', outs) \<and> cloud_inv ctx'"
    unfolding M2mCloudEcoDevStateRespHandler_def by (rule on_answer_inv [OF inv]) (simp add: inv cloud_inv_change)
  show "\<exists>ctx' outs. M2mCloudEcoDevInfoRespHandler ctx resp timeout = Some (ctx', outs) \<and> cloud_inv ctx'"
    unfolding M2mCloudEcoDevInfoRespHandler_def
    by (rule on_answer_inv [OF inv])
      (simp add: M2mCloudParseEcoDevInfoByResponse_def inv cloud_inv_change split: option.splits sum.splits)
qed

lemma cloud_next_inv:
  assumes inv: "cloud_inv ctx" and e: "e \<noteq> Stop"
  shows "\<exists>ctx' outs. cloud_next ctx e = Some (ctx', outs) \<and> cloud_inv ctx'"
proof (cases e)
  case (Heartbeat env)
  have m: "M2mCloudGetHeartbeatOption \<in> set cloud_requests" by (simp add: cloud_requests_def)
  have "\<And>c. same_core c (c\<lparr>cc_sentCnt := cc_sentCnt c + 1\<rparr>)" by (simp add: same_core_def)
  from M2mCloudSendRequest_core [OF m this] obtain r ctx' outs where
    "M2mCloudSendRequest env (\<lambda>c. c\<lparr>cc_sentCnt := cc_sentCnt c + 1\<rparr>) M2mCloudGetHeartbeatOption ctx = Some (r, ctx', outs)"
    "same_core ctx ctx'" by blast
  then show ?thesis using Heartbeat cloud_inv_core [of ctx ctx'] inv by (simp add: CloudHeartbeatTimerCallback_def)
next
  case LinkError
  obtain c1 o1 c2 o2 where d: "M2mCloudDisableHeartbeat ctx = (c1, o1)" "M2mCloudDisableTokenInfo c1 = (c2, o2)" by fastforce
  have "same_core ctx c1" "same_core c1 c2" using heartbeat_core(1) [of ctx] heartbeat_core(2) [of c1] by (simp_all add: d)
  then have "cloud_inv c2" using cloud_inv_core [of c1 c2] cloud_inv_core [of ctx c1] inv by simp
  then show ?thesis using LinkError by (simp add: CloudSessLinkErrorCallback_def d cloud_inv_change)
next
  case (HeartbeatResp r t)
  have "cloud_inv (fst (M2mCloudDisableHeartbeat ctx))" using heartbeat_core(1) inv by (rule cloud_inv_core)
  moreover have "cloud_inv (ctx\<lparr>cc_sentCnt := 0\<rparr>)" by (rule cloud_inv_core [OF _ inv]) (simp add: same_core_def)
  ultimately show ?thesis using HeartbeatResp inv
    by (cases "M2mCloudDisableHeartbeat ctx"; cases r) (simp_all add: M2mCloudHeartbbeatRespHandler_def cloud_inv_change)
next
  case RegTimeout
  have "cloud_inv (fst (remove_regTimer (CHANGE_FSM_TO ctx 25)))"
    by (rule cloud_inv_core [OF heartbeat_core(3)]) (simp add: cloud_inv_change inv)
  then show ?thesis using RegTimeout by (auto simp: RegisterTimeoutTimerHandler_def split: prod.splits)
next
  case OnlineEvent
  have "cloud_inv (fst (remove_regTimer ctx))" using heartbeat_core(3) inv by (rule cloud_inv_core)
  then show ?thesis using OnlineEvent by (simp add: RemoveRegisterTimeoutTimer_def prod_eq_iff)
next
  case (Tick env)
  then show ?thesis using tick_inv [OF inv, of env] by simp
next
  case (TokenResp c r tm now j t)
  have "cloud_inv (CloudTokenRefreshRespHandler c r tm now ctx j t)" using token_core inv by (rule cloud_inv_core)
  then show ?thesis using TokenResp by simp
next
  case (PskResp kdf sn1 sn2 j t)
  then show ?thesis using psk_resp_inv [OF inv, of kdf sn1 sn2 j t] by simp
next
  case (RegisterResp login devId j t)
  then show ?thesis using register_resp_inv [OF inv, of login devId j t] by simp
next
  case (LoginResp c r tm now j t)
  then show ?thesis using login_resp_inv [OF inv, of c r tm now j t] by simp
next
  case (AuthCodeResp j t)
  then show ?thesis using authcode_resp_inv [OF inv, of j t] by simp
next
  case (DevInfoResp tm j t)
  then show ?thesis using devinfo_resp_inv [OF inv, of tm j t] by simp
next
  case (DevIdResp r t)
  then show ?thesis using device_resp_inv(1) [OF inv, of r t] by simp
next
  case (EcoInfoResp j t)
  then show ?thesis using device_resp_inv(2) [OF inv, of j t] by simp
next
  case (EcoStateResp r t)
  then show ?thesis using device_resp_inv(3) [OF inv, of r t] by simp
qed (use inv e in \<open>simp_all add: CloudRevokeRespHandler_def CloudProcessSubData_def CloudProcessDevInfoData_def cloud_inv_change\<close>)

definition started :: "int \<Rightarrow> M2mCloudContext" where
  "started timer = snd (M2mCloudFsmInit timer M2mCloudCtxInit)"

lemma started_inv: "cloud_inv (started timer)"
  by (simp add: started_def M2mCloudFsmInit_def M2mCloudCtxInit_def cloud_inv_def ctx_ok_def Let_def)

lemma cloud_run_inv:
  "cloud_inv ctx \<Longrightarrow> Stop \<notin> set es \<Longrightarrow> \<exists>ctx' outs. cloud_run ctx es = Some (ctx', outs) \<and> cloud_inv ctx'"
proof (induction es arbitrary: ctx)
  case (Cons e es)
  obtain c1 o1 where n: "cloud_next ctx e = Some (c1, o1)" "cloud_inv c1"
    using cloud_next_inv [OF Cons.prems(1), of e] Cons.prems(2) by auto
  obtain c2 o2 where "cloud_run c1 es = Some (c2, o2)" "cloud_inv c2"
    using Cons.IH [OF n(2)] Cons.prems(2) by auto
  then show ?case using n by simp
qed simp

section \<open>Properties\<close>



text \<open>
  An answer has an effect only in the state that waits for it, with one exception: the answer to a revocation, and its
  timeout, take the machine to the initial state from wherever it is.  After the machine was shut down,
  every late answer but that one reads the state through the null pointer.
\<close>

theorem answers_in_state:
  "(cc_fsmCtx ctx \<notin> {None, Some M2M_CLOUD_FSM_STATE_PSK_WAIT_RESP} \<longrightarrow> cloud_next ctx (PskResp kdf sn1 sn2 p t) = Some (ctx, [])) \<and>
   (cc_fsmCtx ctx \<notin> {None, Some M2M_CLOUD_FSM_STATE_REGISTER_WAIT_RESP} \<longrightarrow> cloud_next ctx (RegisterResp l d r t) = Some (ctx, [])) \<and>
   (cc_fsmCtx ctx \<notin> {None, Some M2M_CLOUD_FSM_STATE_LOGIN_WAIT_RESP} \<longrightarrow> cloud_next ctx (LoginResp c r' tm now j t) = Some (ctx, [])) \<and>
   (cc_fsmCtx ctx \<notin> {None, Some M2M_CLOUD_FSM_STATE_AUTHCODE_WAIT_RESP} \<longrightarrow> cloud_next ctx (AuthCodeResp a t) = Some (ctx, [])) \<and>
   (cc_fsmCtx ctx \<notin> {None, Some M2M_CLOUD_FSM_STATE_DEV_INFO_SYNC_WAIT_RESP} \<longrightarrow> cloud_next ctx (DevInfoResp tm s t) = Some (ctx, [])) \<and>
   (cc_fsmCtx ctx \<noteq> None \<longrightarrow> cloud_next ctx (RevokeResp f g) = Some (ctx\<lparr>cc_fsmCtx := Some M2M_CLOUD_FSM_STATE_INIT\<rparr>, [])) \<and>
   cloud_run ctx [Stop, PskResp kdf sn1 sn2 p t] = None \<and> cloud_run ctx [Stop, RegisterResp l d r t] = None \<and>
   cloud_run ctx [Stop, LoginResp c r' tm now j t] = None \<and> cloud_run ctx [Stop, AuthCodeResp a t] = None \<and>
   cloud_run ctx [Stop, DevInfoResp tm s t] = None"
  by (auto simp: M2mCloudPskRegRespHandler_def M2mCloudRegisterRegRespHandler_def CloudLoginRespHandler_def
      M2mCloudAuthCodeRegRespHandler_def CloudDevInfoSyncRespHandler_def CloudRevokeRespHandler_def on_answer_def
      CHANGE_FSM_TO_eq M2mCloudFsmDeinit_def)

theorem answers_in_state_witness:
  "cloud_next (started 3) (AuthCodeResp None True) = Some (started 3, []) \<and>
   cloud_run (started 3) [Stop, AuthCodeResp None True] = None"
  using answers_in_state [where ctx = "started 3" and a = None and t = True]
  by (simp add: started_def M2mCloudFsmInit_def Let_def)

text \<open>
  The result of deriving the session key is ignored: when the derivation fails, a correct answer still ends the key
  exchange with the key marked as present and the old key, initially zeroes, in place, and the machine goes on to log in with it.
\<close>

theorem psk_failure_ignored:
  assumes "cc_fsmCtx ctx = Some M2M_CLOUD_FSM_STATE_PSK_WAIT_RESP" "\<not> UTILS_IS_BIT_SET (cc_bitMap ctx) M2M_CLOUD_CTX_BIT_REGISTER"
    and "\<And>b s. kdf b s = Inl e"
  shows "\<exists>ctx' outs. cloud_next ctx (PskResp kdf sn1 sn2
      (Some (Some \<lparr>pj_errcode = Inr 0, pj_sn2 = Inr str, pj_encrypt = Inr m\<rparr>)) False) = Some (ctx', outs) \<and>
    cc_fsmCtx ctx' = Some M2M_CLOUD_FSM_STATE_LOGIN \<and> cc_pskFinish ctx' \<and> cc_key ctx' = cc_key ctx"
  using assms
  by (auto simp: M2mCloudPskRegRespHandler_def on_answer_def M2mCloudParsePskResponse_def StationSessKeyGen_def Let_def
      CHANGE_FSM_TO_eq remove_regTimer_def)

theorem psk_failure_ignored_witness:
  "\<exists>ctx' outs. cloud_next (M2mCloudCtxInit\<lparr>cc_fsmCtx := Some M2M_CLOUD_FSM_STATE_PSK_WAIT_RESP\<rparr>) (PskResp (\<lambda>_ _. Inl (-1)) [1] [2]
      (Some (Some \<lparr>pj_errcode = Inr 0, pj_sn2 = Inr [48, 49], pj_encrypt = Inr []\<rparr>)) False) = Some (ctx', outs) \<and>
    cc_fsmCtx ctx' = Some M2M_CLOUD_FSM_STATE_LOGIN \<and> cc_pskFinish ctx' \<and> cc_key ctx' = replicate 32 0"
  using psk_failure_ignored [of "M2mCloudCtxInit\<lparr>cc_fsmCtx := Some M2M_CLOUD_FSM_STATE_PSK_WAIT_RESP\<rparr>" "\<lambda>_ _. Inl (-1)" "-1" "[1]" "[2]" "[48, 49]" "[]"]
  by (simp add: M2mCloudCtxInit_def)

text \<open>
  An error code in the answer to the request for the local control code is not looked at: the machine goes online,
  reports the registration and starts local control with the code it had before.  When there is no error, the
  lifetime of the code is always stored as 0.
\<close>

theorem authcode_error_ignored:
  assumes "cc_fsmCtx ctx = Some M2M_CLOUD_FSM_STATE_AUTHCODE_WAIT_RESP"
  shows "(aj_errcode j = Inr e \<and> e \<noteq> CLOUD_ERRCODE_OK \<longrightarrow>
      cloud_next ctx (AuthCodeResp (Some (Some j)) False) =
        Some (ctx\<lparr>cc_fsmCtx := Some M2M_CLOUD_FSM_STATE_ONLINE\<rparr>, [PubRegistered, StartLocalControl, StartLanSearch])) \<and>
    (aj_errcode j = Inr CLOUD_ERRCODE_OK \<and> aj_authCode j = Inr a \<and> aj_authCodeId j = Inr i \<and> aj_timeout j = Inr lifetime \<longrightarrow>
      (\<exists>ctx' outs. cloud_next ctx (AuthCodeResp (Some (Some j)) False) = Some (ctx', outs) \<and>
        cc_fsmCtx ctx' = Some M2M_CLOUD_FSM_STATE_ONLINE \<and> cc_acTimeout ctx' = 0))"
  using assms
  by (auto simp: M2mCloudAuthCodeRegRespHandler_def on_answer_def M2mCloudParseAuthCodeResponse_def Let_def CHANGE_FSM_TO_eq
      split: sum.splits if_splits)

theorem authcode_error_ignored_witness:
  "cloud_next (M2mCloudCtxInit\<lparr>cc_fsmCtx := Some M2M_CLOUD_FSM_STATE_AUTHCODE_WAIT_RESP\<rparr>)
      (AuthCodeResp (Some (Some \<lparr>aj_errcode = Inr 7, aj_authCode = Inl 1, aj_authCodeId = Inl 1, aj_timeout = Inl 1\<rparr>)) False) =
    Some (M2mCloudCtxInit\<lparr>cc_fsmCtx := Some M2M_CLOUD_FSM_STATE_ONLINE\<rparr>, [PubRegistered, StartLocalControl, StartLanSearch])"
  using authcode_error_ignored [of "M2mCloudCtxInit\<lparr>cc_fsmCtx := Some M2M_CLOUD_FSM_STATE_AUTHCODE_WAIT_RESP\<rparr>"
      "\<lparr>aj_errcode = Inr 7, aj_authCode = Inl 1, aj_authCodeId = Inl 1, aj_timeout = Inl 1\<rparr>" 7]
  by (simp add: M2mCloudCtxInit_def)

end
