(* ===== verification/Spec2Isabelle.thy ===== *)
theory Spec2Isabelle
  imports Seq_Num Hash_Map Msg_Queue LL_Process Coap_Exchange Event_Timer Event_Bus Service_Manager Ble_Speke Cloud_Fsm
begin

text \<open>
  A verification library for the device side of the IoT connection stack under \<open>src/\<close>.

  \<^bold>\<open>The program.\<close>  A device talks to a phone over BLE, SLE or a local network and to a cloud over
  CoAP.  Over BLE a link layer cuts messages into packets, collects them, decrypts them and hands
  them to a service; the key comes from a SPEKE negotiation with a pin code or from a session key.
  Over IP a socket, a link and a session carry CoAP messages to an endpoint, which matches answers to
  requests, dispatches requests to resources and sends messages again; the cloud state machine logs
  the device in through such an endpoint.  Below all of them are an event loop with timers, an event bus,
  a service manager, and containers (hash map, queues, shared buffers).

  \<^bold>\<open>How the code is modelled.\<close>  A C function is a HOL function of the same name, with the object it
  changes as an argument and a part of its result; structures are records whose fields keep the C names behind a
  short prefix, enumerations are datatypes (or words where the code computes with them).  Intrusive
  lists are lists.  \<open>uintN_t\<close> values that may wrap around are words; lengths that are bounded by a
  check are natural numbers.  Return codes are the integers of \<open>iotc_errcode.h\<close> (theory \<open>Errcode\<close>); a
  fallible call with a result is a sum with the code on the left.  \<^term>\<open>None\<close> is a call that faults
  (a null pointer that is followed, a write outside a buffer) or does not return.  Whatever a call learns from
  outside is an argument: outcomes of allocations, locks and waits, the clock, random bytes, what a callback
  answers or does.  Calls the code makes to the outside are returned as a list of outputs, in order.
  Libraries that are not part of the sources (mbedtls, the JSON printer, the socket functions) are
  parameters; what a theorem needs of them is a hypothesis, and its witness instantiates them.

  \<^bold>\<open>Shared theories.\<close>

  \<^item> \<open>Prelude\<close>: types, words, byte strings, the memory functions with a size check, big-endian numbers.
  \<^item> \<open>Contracts\<close>: the interfaces as locales.  \<open>guarded_system\<close> and \<open>step_system\<close> lift an invariant
    of single calls to every sequence of calls; they are interpreted for the hash map, the packet pool, the
    timers, the event bus, the service manager, the buffers, the CoAP endpoint, a finished SPEKE
    session and the BLE service.  \<open>keyed_map\<close> is what clients of the hash map rely on,
    \<open>bounded_fifo\<close> what clients of the two queues rely on.
  \<^item> \<open>Errcode\<close>: the return codes.

  \<^bold>\<open>Containers and helpers\<close> (\<open>core/infrastructure/utils\<close>, \<open>core/wifi/infrastructure/utils\<close>).

  \<^item> \<open>Seq_Num\<close> (\<open>seq_num_utils.c\<close>): the replay window accepts exactly the numbers within its distance modulo 2^32.
  \<^item> \<open>Hash_Map\<close> (\<open>utils_hash_map.c\<close>): runs of insertions and removals refine a finite map, and
    each value is stored or released exactly once.
  \<^item> \<open>Utils_Queue\<close>, \<open>Msg_Queue\<close> (\<open>utils_queue.c\<close>, \<open>utils_msg_queue.c\<close>): both are a bounded FIFO, the second with
    its mutex and its two semaphores.
  \<^item> \<open>Utils_Common\<close> (\<open>utils_common.c\<close>): hexadecimal coding and its round trip, duplication, time difference.
  \<^item> \<open>Utils_Buffer\<close> (\<open>utils_buffer.c\<close>): growing and shrinking keep the sizes in bounds; a failed wait
    lets a second holder in.
  \<^item> \<open>Utils_Fsm\<close> (\<open>utils_fsm.c\<close>): the table-driven machine that the cloud uses.

  \<^bold>\<open>Frameworks\<close> (\<open>core/infrastructure/frameworks\<close>).

  \<^item> \<open>Event_Timer\<close> (\<open>event_source_timer.c\<close>): timers have their own ids over all runs, and a one-shot timer
    fires when its interval has passed and not before.
  \<^item> \<open>Event_Bus\<close> (\<open>event_bus.c\<close>): a subscribed listener is called by each publication until it unsubscribes.
  \<^item> \<open>Service_Manager\<close> (\<open>service_manager.c\<close>): no interleaving of calls faults, the registry stays well-formed,
    a message reaches exactly its subscribers whatever their handlers do.

  \<^bold>\<open>BLE link layer\<close> (\<open>core/ble/infrastructure/linklayer\<close>).

  \<^item> \<open>LL_Fragment\<close> (\<open>linklayer_send.c\<close>, \<open>linklayer_recv.c\<close>): packets and their pool; no sequence of packets overruns it.
  \<^item> \<open>LL_Service\<close> (\<open>linklayer_service.c\<close>): registry, frame codec and its round trip, the check of the
    encryption type before a handler runs.
  \<^item> \<open>LL_Encrypt\<close> (\<open>linklayer_encrypt*.c\<close>): selection of the cipher, session key frames and their round trip.
  \<^item> \<open>LL_Process\<close> (\<open>linklayer_process.c\<close>): the composition of the three: a fragmented request is answered
    exactly once, in any order of its packets; every answer has a full head; how a plain
    packet changes the encryption of later reports.

  \<^bold>\<open>SPEKE\<close> (\<open>core/infrastructure/security/speke\<close>, \<open>core/ble/application\<close>).

  \<^item> \<open>Speke_Flat\<close> (\<open>security_speke_flat.c\<close>): the scanner over a JSON text ends and stays inside the text.
  \<^item> \<open>Speke_Nego\<close>, \<open>Speke_Msg\<close>, \<open>Speke_Session\<close> (\<open>security_speke_nego_ctx.c\<close>, \<open>_common.c\<close>, \<open>_server.c\<close>,
    \<open>_client.c\<close>, \<open>_session.c\<close>): the definitions of the key agreement, the messages and the sessions;
    \<open>Speke_Prime\<close> has the modulus as a number.
  \<^item> \<open>Speke_Agree\<close>: an honest negotiation ends with the same key on both sides; the answer written by hand is the
    printed tree; decoding over its own digits changes nothing else; a repeated request is answered alike.
  \<^item> \<open>Speke_Secure\<close>: against any peer the key changes only with the right HMAC, and only once per
    negotiation; a new session decrypts under the zero key.
  \<^item> \<open>Ble_Speke\<close> (\<open>ble_speke_session.c\<close>, \<open>ble_svc_speke.c\<close>): the BLE service over the session, its frames against
    the link layer's encoder, and the link layer's encryption with the session.

  \<^bold>\<open>Transport and CoAP\<close> (\<open>core/wifi/infrastructure/transport\<close>).

  \<^item> \<open>Trans_Link\<close> (\<open>trans_socket.c\<close>, \<open>trans_link.c\<close>, \<open>trans_sess.c\<close>): what is read is handed to the handlers of the
    session and the buffer is released, except after a read error.
  \<^item> \<open>Coap_Codec\<close> (\<open>coap_codec_comm.c\<close>, \<open>coap_codec_udp.c\<close>): a message that is built parses back.
  \<^item> \<open>Coap_Uri\<close> (\<open>coap_codec_utils.c\<close>): the text of a URI, replacing and appending payloads.
  \<^item> \<open>Coap_Endpoint\<close> (\<open>coap_endpoint*.c\<close>, \<open>svc_softap_retrans.c\<close>): the definitions of the endpoint.
  \<^item> \<open>Coap_Retrans\<close>: a message is sent again the allowed number of times and then forgotten; a repeated request gets the
    same bytes without a second call of its handler.  The locale \<open>retrans_policy\<close> is what the two
    check functions of the sources have in common, and is interpreted on both.
  \<^item> \<open>Coap_Client\<close>: the check for unanswered requests ends (and when it does not), the invariant of the
    endpoint over all calls, what failing allocations and a missing mutex do.
  \<^item> \<open>Coap_Exchange\<close>: a request from the client's endpoint through codec, link, session and resource, and the answer back to
    the callback of that request.

  \<^bold>\<open>Cloud\<close> (\<open>core/wifi/application/cloud\<close>).

  \<^item> \<open>Cloud_Ctx\<close> (\<open>m2m_cloud_ctx.c\<close>, \<open>_backoff.c\<close>, \<open>_heartbeat.c\<close>, \<open>_token.c\<close>): the refresh of a token is never later than its end.
  \<^item> \<open>Cloud_Psk\<close> (\<open>m2m_cloud_send.c\<close>, \<open>m2m_cloud_psk.c\<close>, \<open>iotc_aes.c\<close>): the options of each request fit and
    are accepted by the codec of \<open>Coap_Codec\<close>; encrypted payloads decrypt to themselves.
  \<^item> \<open>Cloud_Fsm\<close> (\<open>m2m_cloud_fsm.c\<close>, the part of \<open>m2m_cloud_dev_mgr.c\<close> that drives it): no sequence of events makes the running machine
    fault, and every state after the key exchange has a session key.

  \<^bold>\<open>Bounds and termination.\<close>  No definition uses fuel.  Loops over lists and buffers are structural or have a
  measure: the distance to the end of the text in \<open>Speke_Flat\<close>, the digits left in \<open>Speke_Msg\<close> and
  \<open>Speke_Session\<close>, the answers left in \<open>Service_Manager\<close>.  The one loop that need not end, the
  check for unanswered requests, is \<open>resp_timeout_loop\<close> in \<open>Coap_Endpoint\<close>, a partial function
  whose value \<^term>\<open>None\<close> is that it does not return: \<open>timeout_check_ends\<close> shows that it returns when the
  callbacks leave no expired request behind, \<open>resend_diverges\<close> that it does not when a callback sends its request
  again with a date after the clock reading of the scan.  Limits are those of the code: 255 timers
  per source, 255 waiting requests per endpoint, 160 bytes in a packet.

  \<^bold>\<open>Not modelled.\<close>  The adapters (BLE, SLE, Wi-Fi, sockets, TLS, key-value store, operating system, JSON, logging, the
  rest of the cryptography) only pass calls to libraries that are not part of the sources.  The
  stacks for BLE and SLE are driven by the callbacks of those adapters.  The SLE link layer and its
  services are separate copies of the BLE ones with their own changes, and nothing here is claimed of them.  The service around the
  cloud machine, its link and the control, report and deletion messages of the cloud are not modelled.  The
  main loop, its descriptor and message sources and the scheduler appear only through the outcomes that the
  modelled components see.  Local control, soft access point, network search and connection services,
  device profiles and the interface for products are clients of what is modelled here.  CoAP over TCP,
  the secure store, and the calendar are left for later.  Freeing memory is modelled
  where ownership matters (hash map, queues, service manager, endpoint) and left out elsewhere.
\<close>

end
